(* ===== verification/Prelude.thy ===== *)
theory Prelude
  imports Main "HOL-Library.Word" "HOL-Library.List_Lexorder" "HOL-Library.Char_ord"
begin

text \<open>
  What every component of the fabric model shares: the machine integer types, bytes, the
  collections of rules that the component proofs draw on, and generic facts on lists, options
  and words.

  The source's \<^verbatim>\<open>u8\<close>, \<^verbatim>\<open>u16\<close>, \<^verbatim>\<open>u32\<close> and \<^verbatim>\<open>u64\<close> (strong.hpp) are words
  of that width. A \<^verbatim>\<open>std::size_t\<close> that counts the elements of a container is a natural number.
\<close>

unbundle bit_operations_syntax

type_synonym u8 = "8 word"
type_synonym u16 = "16 word"
type_synonym u32 = "32 word"
type_synonym u64 = "64 word"
type_synonym bytes = "8 word list"

text \<open>The collections: facts that describe what an operation leaves alone (\<open>frame\<close>),
  what a codec does (\<open>codec_rules\<close>) and what an operation keeps (\<open>keeps\<close>).\<close>

named_theorems frame \<open>what an operation leaves unchanged\<close>
named_theorems codec_rules \<open>composition rules of encoders and decoders\<close>
named_theorems keeps \<open>preservation of an invariant by an operation\<close>
named_theorems defs \<open>definitions unfolded by functional proofs\<close>

subsection \<open>Words\<close>

lemma word_succ_less:
  fixes w :: "'a::len word"
  assumes "w \<noteq> - 1"
  shows "w < w + 1"
  using assms inc_less_eq_triv_imp by (meson leI)

lemma word_succ_unat:
  fixes w :: "'a::len word"
  assumes "w \<noteq> - 1"
  shows "unat (w + 1) = Suc (unat w)"
  using assms by (simp add: add.commute add_eq_0_iff unatSuc)

lemma word_succ_le:
  fixes w v :: "'a::len word"
  shows "w < v \<Longrightarrow> w + 1 \<le> v"
  by (rule inc_le)

subsection \<open>Lists\<close>

lemma drop_append_exact [simp]: "n = length xs \<Longrightarrow> drop n (xs @ ys) = ys"
  by simp

lemma list_all_takeI: "list_all P xs \<Longrightarrow> list_all P (take n xs)"
  by (metis append_take_drop_id list_all_append)

lemma length_take_le: "length (take n xs) \<le> n"
  by simp

subsection \<open>Options\<close>

text \<open>\<open>value_or\<close> is \<^verbatim>\<open>std::optional::value_or\<close>.\<close>

definition value_or :: "'a option \<Rightarrow> 'a \<Rightarrow> 'a" where
  "value_or x d = (case x of None \<Rightarrow> d | Some v \<Rightarrow> v)"

lemma value_or_simps [simp]: "value_or None d = d" "value_or (Some v) d = v"
  by (simp_all add: value_or_def)

end
