(* ===== verification/Ordered_Map.thy ===== *)
theory Ordered_Map
  imports Prelude
begin

text \<open>
  \<^verbatim>\<open>std::map\<close>: the source keeps every registry in an ordered map and iterates over it in key
  order (candidate selection, snapshots, the lookup by attempt). An \<open>omap\<close> is a list of
  entries whose keys are strictly increasing; the operations are those the source uses.
  The locale \<open>keyed_store\<close> is the contract that the fabric relies on, interpreted on them.
\<close>

subsection \<open>The representation\<close>

fun ins_entry :: "'k::linorder \<Rightarrow> 'v \<Rightarrow> ('k \<times> 'v) list \<Rightarrow> ('k \<times> 'v) list" where
  "ins_entry k v [] = [(k, v)]"
| "ins_entry k v ((k', v') # es) =
     (if k < k' then (k, v) # (k', v') # es
      else if k = k' then (k, v) # es
      else (k', v') # ins_entry k v es)"

definition strict_keys :: "('k::linorder \<times> 'v) list \<Rightarrow> bool" where
  "strict_keys es = sorted_wrt (<) (map fst es)"

lemma set_ins_entry: "fst ` set (ins_entry k v es) = insert k (fst ` set es)"
  by (induction k v es rule: ins_entry.induct) auto

lemma strict_keys_Nil [simp]: "strict_keys []"
  by (simp add: strict_keys_def)

lemma strict_keys_Cons:
  "strict_keys ((k, v) # es) \<longleftrightarrow> (\<forall>k' \<in> fst ` set es. k < k') \<and> strict_keys es"
  by (auto simp: strict_keys_def)

lemma strict_keys_ins: "strict_keys es \<Longrightarrow> strict_keys (ins_entry k v es)"
proof (induction k v es rule: ins_entry.induct)
  case (1 k v)
  then show ?case by (simp add: strict_keys_Cons)
next
  case (2 k v k' v' es)
  then show ?case
    by (force simp: strict_keys_Cons set_ins_entry)
qed

lemma strict_keys_filter: "strict_keys es \<Longrightarrow> strict_keys (filter P es)"
  by (induction es) (auto simp: strict_keys_Cons)

lemma strict_keys_distinct: "strict_keys es \<Longrightarrow> distinct (map fst es)"
  by (auto simp: strict_keys_def strict_sorted_iff)

lemma map_of_ins_entry: "map_of (ins_entry k v es) = (map_of es)(k \<mapsto> v)"
  by (induction k v es rule: ins_entry.induct) (auto simp: fun_eq_iff)

lemma map_of_filter_key: "map_of (filter (\<lambda>e. fst e \<noteq> k) es) = (map_of es)(k := None)"
  by (induction es) (auto simp: fun_eq_iff)

lemma strict_keys_unique:
  assumes "strict_keys es" and "strict_keys fs" and "map_of es = map_of fs"
  shows "es = fs"
proof (rule map_sorted_distinct_set_unique [of fst])
  show d: "distinct (map fst es)" "distinct (map fst fs)"
    using assms by (auto intro: strict_keys_distinct)
  then show s: "set es = set fs"
    using assms(3) by (simp add: map_of_inject_set)
  with d show "inj_on fst (set es \<union> set fs)"
    by (simp add: distinct_map)
  show "sorted (map fst es)" "sorted (map fst fs)"
    using assms(1,2) by (auto simp: strict_keys_def strict_sorted_iff)
qed

subsection \<open>The type and its operations\<close>

typedef (overloaded) ('k::linorder, 'v) omap = "{es :: ('k \<times> 'v) list. strict_keys es}"
  morphisms entries Omap
  by (rule exI [of _ "[]"]) simp

setup_lifting type_definition_omap

text \<open>The empty map, \<^verbatim>\<open>find\<close>, \<^verbatim>\<open>operator[]\<close> with an assignment, \<^verbatim>\<open>erase\<close>
  and \<^verbatim>\<open>size\<close>. \<open>entries\<close> is iteration.\<close>

lift_definition omap_empty :: "('k::linorder, 'v) omap" is "[]"
  by simp

lift_definition omap_find :: "('k::linorder, 'v) omap \<Rightarrow> 'k \<Rightarrow> 'v option" is map_of .

lift_definition omap_put :: "'k::linorder \<Rightarrow> 'v \<Rightarrow> ('k, 'v) omap \<Rightarrow> ('k, 'v) omap" is ins_entry
  by (rule strict_keys_ins)

lift_definition omap_erase :: "'k::linorder \<Rightarrow> ('k, 'v) omap \<Rightarrow> ('k, 'v) omap"
  is "\<lambda>k es. filter (\<lambda>e. fst e \<noteq> k) es"
  by (rule strict_keys_filter)

lift_definition omap_map :: "('k::linorder \<Rightarrow> 'v \<Rightarrow> 'w) \<Rightarrow> ('k, 'v) omap \<Rightarrow> ('k, 'w) omap"
  is "\<lambda>f es. map (\<lambda>(k, v). (k, f k v)) es"
  by (auto simp: strict_keys_def comp_def case_prod_unfold)

definition omap_size :: "('k::linorder, 'v) omap \<Rightarrow> nat" where
  "omap_size m = length (entries m)"

definition omap_keys :: "('k::linorder, 'v) omap \<Rightarrow> 'k list" where
  "omap_keys m = map fst (entries m)"

instantiation omap :: (linorder, equal) equal
begin

definition equal_omap :: "('a, 'b) omap \<Rightarrow> ('a, 'b) omap \<Rightarrow> bool" where
  "equal_omap m n \<longleftrightarrow> entries m = entries n"

instance
  by standard (simp add: equal_omap_def entries_inject)

end

instantiation omap :: (linorder, type) size
begin

definition size_omap :: "('a, 'b) omap \<Rightarrow> nat" where
  "size_omap m = length (entries m)"

instance ..

end

subsection \<open>Laws\<close>

lemma omap_find_empty [simp]: "omap_find omap_empty k = None"
  by transfer simp

lemma omap_find_put: "omap_find (omap_put k v m) = (omap_find m)(k \<mapsto> v)"
  by transfer (rule map_of_ins_entry)

lemma omap_find_put_same [simp]: "omap_find (omap_put k v m) k = Some v"
  by (simp add: omap_find_put)

lemma omap_find_put_other [simp]: "k' \<noteq> k \<Longrightarrow> omap_find (omap_put k v m) k' = omap_find m k'"
  by (simp add: omap_find_put)

lemma omap_find_erase: "omap_find (omap_erase k m) = (omap_find m)(k := None)"
  by transfer (rule map_of_filter_key)

lemma omap_find_erase_same [simp]: "omap_find (omap_erase k m) k = None"
  by (simp add: omap_find_erase)

lemma omap_find_erase_other [simp]: "k' \<noteq> k \<Longrightarrow> omap_find (omap_erase k m) k' = omap_find m k'"
  by (simp add: omap_find_erase)

lemma omap_eqI: "(\<And>k. omap_find m k = omap_find n k) \<Longrightarrow> m = n"
  by transfer (blast intro: strict_keys_unique ext)

lemma entries_empty [simp]: "entries omap_empty = []"
  by transfer simp

lemma entries_put: "entries (omap_put k v m) = ins_entry k v (entries m)"
  by transfer simp

lemma entries_map: "entries (omap_map f m) = map (\<lambda>(k, v). (k, f k v)) (entries m)"
  by transfer simp

lemma entries_erase: "entries (omap_erase k m) = filter (\<lambda>e. fst e \<noteq> k) (entries m)"
  by transfer simp

lemma distinct_keys [simp]: "distinct (map fst (entries m))"
  by transfer (rule strict_keys_distinct)

lemma sorted_keys [simp]: "sorted_wrt (<) (map fst (entries m))"
  by transfer (simp add: strict_keys_def)

lemma find_entries: "omap_find m k = Some v \<longleftrightarrow> (k, v) \<in> set (entries m)"
  by transfer (simp add: strict_keys_distinct)

lemma find_map_of: "omap_find m = map_of (entries m)"
  by transfer simp

lemma map_of_map_entry: "map_of (map (\<lambda>(k, v). (k, f k v)) es) k = map_option (f k) (map_of es k)"
  by (induction es) auto

lemma omap_find_map [simp]: "omap_find (omap_map f m) k = map_option (f k) (omap_find m k)"
  by (simp add: find_map_of entries_map map_of_map_entry)

lemma find_None_keys: "omap_find m k = None \<longleftrightarrow> k \<notin> fst ` set (entries m)"
  by (simp add: find_map_of map_of_eq_None_iff)

lemma length_ins_entry:
  "strict_keys es \<Longrightarrow> length (ins_entry k v es) = (if map_of es k = None then Suc (length es) else length es)"
proof (induction k v es rule: ins_entry.induct)
  case (1 k v)
  then show ?case by simp
next
  case (2 k v k' v' es)
  have "k < k' \<Longrightarrow> map_of es k = None"
    using "2.prems" by (force simp: strict_keys_Cons map_of_eq_None_iff)
  with 2 show ?case by (auto simp: strict_keys_Cons)
qed

lemma omap_size_empty [simp]: "omap_size omap_empty = 0"
  by (simp add: omap_size_def)

lemma omap_size_put:
  "omap_size (omap_put k v m) = (if omap_find m k = None then Suc (omap_size m) else omap_size m)"
  unfolding omap_size_def by transfer (simp add: length_ins_entry)

lemma omap_size_erase_le: "omap_size (omap_erase k m) \<le> omap_size m"
  by (simp add: omap_size_def entries_erase)

lemma length_filter_key:
  "distinct (map fst es) \<Longrightarrow> (k, v) \<in> set es \<Longrightarrow> Suc (length (filter (\<lambda>e. fst e \<noteq> k) es)) = length es"
proof (induction es)
  case Nil
  then show ?case by simp
next
  case (Cons e es)
  show ?case
  proof (cases "fst e = k")
    case True
    with Cons.prems(1) have "\<forall>x \<in> set es. fst x \<noteq> k"
      by (metis distinct.simps(2) image_eqI list.simps(9) list.set_map)
    with True show ?thesis by simp
  next
    case False
    with Cons show ?thesis by auto
  qed
qed

lemma omap_size_erase: "omap_find m k = Some v \<Longrightarrow> Suc (omap_size (omap_erase k m)) = omap_size m"
  unfolding omap_size_def entries_erase
  by (rule length_filter_key) (simp_all add: find_entries)

subsection \<open>Rebuilding a map from its entries\<close>

text \<open>A decoder inserts the entries one by one, in the order they were written.\<close>

definition omap_of :: "('k::linorder \<times> 'v) list \<Rightarrow> ('k, 'v) omap" where
  "omap_of es = foldl (\<lambda>m (k, v). omap_put k v m) omap_empty es"

lemma ins_entry_snoc:
  "\<forall>k' \<in> fst ` set es. k' < k \<Longrightarrow> ins_entry k v es = es @ [(k, v)]"
  by (induction k v es rule: ins_entry.induct) auto

lemma entries_omap_of_prefix:
  "strict_keys (entries m @ es) \<Longrightarrow>
   entries (foldl (\<lambda>m (k, v). omap_put k v m) m es) = entries m @ es"
proof (induction es arbitrary: m)
  case Nil
  then show ?case by simp
next
  case (Cons e es)
  obtain k v where e: "e = (k, v)" by fastforce
  from Cons.prems e have "\<forall>k' \<in> fst ` set (entries m). k' < k"
    by (auto simp: strict_keys_def sorted_wrt_append)
  then have p: "entries (omap_put k v m) = entries m @ [(k, v)]"
    by (simp add: entries_put ins_entry_snoc)
  with Cons.IH [of "omap_put k v m"] Cons.prems e show ?case by simp
qed

lemma omap_of_entries: "omap_of (entries m) = m"
proof -
  have "strict_keys (entries (omap_empty :: ('a, 'b) omap) @ entries m)"
    by (simp add: strict_keys_def)
  then have "entries (omap_of (entries m)) = entries m"
    unfolding omap_of_def by (subst entries_omap_of_prefix) simp_all
  then show ?thesis by (simp add: entries_inject)
qed

subsection \<open>The contract of a keyed store\<close>

text \<open>
  What the fabric's registries rely on: a lookup after a write sees the write, other keys are
  unaffected, and erasing forgets. The lemmas proved once here describe the update disciplines
  of the source: an upsert guarded by a rank (a watermark, a generation, an incarnation) never
  lets the rank of a key fall.
\<close>

locale keyed_store =
  fixes lookup :: "'m \<Rightarrow> 'k \<Rightarrow> 'v option"
    and put :: "'k \<Rightarrow> 'v \<Rightarrow> 'm \<Rightarrow> 'm"
    and erase :: "'k \<Rightarrow> 'm \<Rightarrow> 'm"
    and fresh :: 'm
  assumes lookup_fresh: "lookup fresh k = None"
    and lookup_put: "lookup (put k v m) k' = (if k' = k then Some v else lookup m k')"
    and lookup_erase: "lookup (erase k m) k' = (if k' = k then None else lookup m k')"
begin

lemma put_put: "lookup (put k v (put k w m)) = lookup (put k v m)"
  by (rule ext) (simp add: lookup_put)

lemma put_commute: "k \<noteq> j \<Longrightarrow> lookup (put k v (put j w m)) = lookup (put j w (put k v m))"
  by (rule ext) (simp add: lookup_put)

lemma erase_put: "lookup (erase k (put k v m)) = lookup (erase k m)"
  by (rule ext) (simp add: lookup_put lookup_erase)

lemma put_ranked:
  fixes rank :: "'v \<Rightarrow> 'r::linorder"
  assumes "\<And>old. lookup m k = Some old \<Longrightarrow> rank old \<le> rank v"
    and "lookup m j = Some w"
  shows "\<exists>w'. lookup (put k v m) j = Some w' \<and> rank w \<le> rank w'"
  using assms by (cases "j = k") (auto simp: lookup_put)

lemma put_dom: "dom (lookup (put k v m)) = insert k (dom (lookup m))"
  by (auto simp: lookup_put dom_def)

lemma put_all:
  assumes "\<And>j w. lookup m j = Some w \<Longrightarrow> P j w" and "P k v" and "lookup (put k v m) j = Some w"
  shows "P j w"
  using assms by (cases "j = k") (auto simp: lookup_put)

end

interpretation registry: keyed_store omap_find omap_put omap_erase omap_empty
  by unfold_locales (simp_all add: omap_find_put omap_find_erase)

lemma registry_put_commute: "k \<noteq> j \<Longrightarrow> omap_put k v (omap_put j w m) = omap_put j w (omap_put k v m)"
  by (rule omap_eqI) (metis registry.put_commute)

lemma registry_put_put [simp]: "omap_put k v (omap_put k w m) = omap_put k v m"
  by (rule omap_eqI) (simp only: registry.put_put)

end
