(* ===== verification/Strong_Types.thy ===== *)
theory Strong_Types
  imports Ordered_Map
begin

text \<open>
  strong.hpp, strong.cpp and ids.hpp: checked arithmetic, and the identities, generations,
  ticks and names that carry every correctness-critical value. A tag type keeps the families
  apart, as the C++ template parameter does; all of them are ordered by their representation.
\<close>

subsection \<open>Checked arithmetic\<close>

text \<open>The source returns true on overflow and writes the result through a reference
  otherwise; here overflow is \<open>None\<close>. The 32 and 64 bit overloads share one definition.\<close>

definition add_overflow :: "'a::len word \<Rightarrow> 'a word \<Rightarrow> 'a word option" where
  "add_overflow a b = (if a > - 1 - b then None else Some (a + b))"

definition mul_overflow :: "'a::len word \<Rightarrow> 'a word \<Rightarrow> 'a word option" where
  "mul_overflow a b = (if a \<noteq> 0 \<and> b > (- 1) div a then None else Some (a * b))"

definition narrow :: "u64 \<Rightarrow> 'a::len word option" where
  "narrow value = (if value > ucast (- 1 :: 'a word) then None else Some (ucast value))"

definition saturating_inc :: "u64 \<Rightarrow> u64" where
  "saturating_inc value = (if value = - 1 then value else value + 1)"

lemma unat_max: "unat (- 1 :: 'a::len word) = 2 ^ LENGTH('a) - 1"
  by (simp add: unsigned_minus_1_eq_mask mask_eq_exp_minus_1)

lemma unat_less_exp: "unat (w :: 'a::len word) < 2 ^ LENGTH('a)"
  by (rule unsigned_less)

lemma unat_le_max: "unat (w :: 'a::len word) \<le> 2 ^ LENGTH('a) - 1"
  using unat_less_exp [of w] by linarith

text \<open>Both operations report failure exactly when the mathematical result does not fit.\<close>

lemma add_overflow_exact:
  fixes a b :: "'a::len word"
  shows "add_overflow a b =
    (if unat a + unat b < 2 ^ LENGTH('a) then Some (a + b) else None)"
proof -
  have "unat (- 1 - b) = 2 ^ LENGTH('a) - 1 - unat b"
    using unat_le_max [of b] by (simp add: unat_sub_if' unat_max)
  then have "a > - 1 - b \<longleftrightarrow> 2 ^ LENGTH('a) - 1 - unat b < unat a"
    by (simp add: word_less_nat_alt)
  also have "\<dots> \<longleftrightarrow> 2 ^ LENGTH('a) \<le> unat a + unat b"
    using unat_less_exp [of b] by arith
  finally show ?thesis by (auto simp: add_overflow_def)
qed

lemma mul_overflow_exact:
  fixes a b :: "'a::len word"
  shows "mul_overflow a b =
    (if unat a * unat b < 2 ^ LENGTH('a) then Some (a * b) else None)"
proof (cases "a = 0")
  case True
  then show ?thesis by (simp add: mul_overflow_def)
next
  case False
  then have pos: "0 < unat a" by (simp add: unat_gt_0)
  have "unat ((- 1 :: 'a word) div a) = (2 ^ LENGTH('a) - 1) div unat a"
    by (simp add: unat_div unat_max)
  then have "b > (- 1) div a \<longleftrightarrow> (2 ^ LENGTH('a) - 1) div unat a < unat b"
    by (simp add: word_less_nat_alt)
  also have "\<dots> \<longleftrightarrow> 2 ^ LENGTH('a) - 1 < unat a * unat b"
    using pos by (simp add: div_less_iff_less_mult mult.commute)
  also have "\<dots> \<longleftrightarrow> 2 ^ LENGTH('a) \<le> unat a * unat b"
    using zero_less_power [of "2 :: nat" "LENGTH('a)"] by linarith
  finally show ?thesis using False by (auto simp: mul_overflow_def)
qed

lemma saturating_inc_ge: "w \<le> saturating_inc w"
  using word_succ_less [of w] by (auto simp: saturating_inc_def intro: less_imp_le)

lemma saturating_inc_unat: "unat (saturating_inc w) = min (unat w + 1) (2 ^ 64 - 1)"
proof (cases "w = - 1")
  case True
  then show ?thesis using unat_max [where 'a = 64] by (simp add: saturating_inc_def)
next
  case False
  then have "unat (w + 1) = Suc (unat w)" by (rule word_succ_unat)
  with False unat_less_exp [of "w + 1"] show ?thesis
    by (simp add: saturating_inc_def)
qed

subsection \<open>Tags, identities, generations, ticks\<close>

text \<open>ids.hpp declares one tag per family.\<close>

datatype (plugins only: code) service_tag = Service_Tag
datatype (plugins only: code) scope_tag = Scope_Tag
datatype (plugins only: code) host_tag = Host_Tag
datatype (plugins only: code) device_tag = Device_Tag
datatype (plugins only: code) target_tag = Target_Tag
datatype (plugins only: code) source_tag = Source_Tag
datatype (plugins only: code) evidence_tag = Evidence_Tag
datatype (plugins only: code) attempt_tag = Attempt_Tag
datatype (plugins only: code) lease_id_tag = Lease_Id_Tag
datatype (plugins only: code) lease_term_tag = Lease_Term_Tag
datatype (plugins only: code) fence_tag = Fence_Tag
datatype (plugins only: code) policy_tag = Policy_Tag
datatype (plugins only: code) topology_tag = Topology_Tag
datatype (plugins only: code) capability_tag = Capability_Tag
datatype (plugins only: code) failover_tag = Failover_Tag
datatype (plugins only: code) epoch_tag = Epoch_Tag
datatype (plugins only: code) boot_tag = Boot_Tag
datatype (plugins only: code) incarnation_tag = Incarnation_Tag
datatype (plugins only: code) plan_tag = Plan_Tag
datatype (plugins only: code) request_tag = Request_Tag
datatype (plugins only: code) effect_tag = Effect_Tag
datatype (plugins only: code) state_tag = State_Tag
datatype (plugins only: code) evidence_seq_tag = Evidence_Seq_Tag
datatype (plugins only: code) tick_tag = Tick_Tag

datatype 'tag ident = Id (id_value: u64)

datatype 'tag gen = Gen (gen_value: u64)

datatype 'tag tick = Tick (tick_value: u64)

definition is_nil :: "'tag ident \<Rightarrow> bool" where
  "is_nil i = (id_value i = 0)"

abbreviation nil_id :: "'tag ident" where "nil_id \<equiv> Id 0"

definition is_initial :: "'tag gen \<Rightarrow> bool" where
  "is_initial g = (gen_value g = 0)"

abbreviation initial_gen :: "'tag gen" where "initial_gen \<equiv> Gen 0"

definition gen_successor :: "'tag gen \<Rightarrow> 'tag gen option" where
  "gen_successor g = (if gen_value g = - 1 then None else Some (Gen (gen_value g + 1)))"

definition tick_successor :: "'tag tick \<Rightarrow> 'tag tick option" where
  "tick_successor t = (if tick_value t = - 1 then None else Some (Tick (tick_value t + 1)))"

instantiation ident :: (type) linorder
begin

definition less_eq_ident :: "'a ident \<Rightarrow> 'a ident \<Rightarrow> bool" where
  "less_eq_ident a b \<longleftrightarrow> id_value a \<le> id_value b"

definition less_ident :: "'a ident \<Rightarrow> 'a ident \<Rightarrow> bool" where
  "less_ident a b \<longleftrightarrow> id_value a < id_value b"

instance
  by standard (auto simp: less_eq_ident_def less_ident_def ident.expand)

end

instantiation gen :: (type) linorder
begin

definition less_eq_gen :: "'a gen \<Rightarrow> 'a gen \<Rightarrow> bool" where
  "less_eq_gen a b \<longleftrightarrow> gen_value a \<le> gen_value b"

definition less_gen :: "'a gen \<Rightarrow> 'a gen \<Rightarrow> bool" where
  "less_gen a b \<longleftrightarrow> gen_value a < gen_value b"

instance
  by standard (auto simp: less_eq_gen_def less_gen_def gen.expand)

end

instantiation tick :: (type) linorder
begin

definition less_eq_tick :: "'a tick \<Rightarrow> 'a tick \<Rightarrow> bool" where
  "less_eq_tick a b \<longleftrightarrow> tick_value a \<le> tick_value b"

definition less_tick :: "'a tick \<Rightarrow> 'a tick \<Rightarrow> bool" where
  "less_tick a b \<longleftrightarrow> tick_value a < tick_value b"

instance
  by standard (auto simp: less_eq_tick_def less_tick_def tick.expand)

end

lemma gen_order_simps [simp]:
  "Gen a \<le> Gen b \<longleftrightarrow> a \<le> b" "Gen a < Gen b \<longleftrightarrow> a < b"
  by (simp_all add: less_eq_gen_def less_gen_def)

lemma ident_order_simps [simp]:
  "Id a \<le> Id b \<longleftrightarrow> a \<le> b" "Id a < Id b \<longleftrightarrow> a < b"
  by (simp_all add: less_eq_ident_def less_ident_def)

lemma tick_order_simps [simp]:
  "Tick a \<le> Tick b \<longleftrightarrow> a \<le> b" "Tick a < Tick b \<longleftrightarrow> a < b"
  by (simp_all add: less_eq_tick_def less_tick_def)

text \<open>Advancing is strict and by one; only an exhausted space has no successor.\<close>

lemma gen_successor_greater: "gen_successor g = Some h \<Longrightarrow> g < h"
  by (auto simp: gen_successor_def less_gen_def intro: word_succ_less split: if_splits)

lemma gen_successor_unat: "gen_successor g = Some h \<Longrightarrow> unat (gen_value h) = Suc (unat (gen_value g))"
  by (auto simp: gen_successor_def word_succ_unat split: if_splits)

lemma tick_successor_greater: "tick_successor t = Some u \<Longrightarrow> t < u"
  by (auto simp: tick_successor_def less_tick_def intro: word_succ_less split: if_splits)

lemma gen_successor_None: "gen_successor g = None \<longleftrightarrow> gen_value g = - 1"
  by (simp add: gen_successor_def)

subsection \<open>Names\<close>

datatype 'tag name = Name (str: string)

instantiation name :: (type) linorder
begin

definition less_eq_name :: "'a name \<Rightarrow> 'a name \<Rightarrow> bool" where
  "less_eq_name a b \<longleftrightarrow> str a \<le> str b"

definition less_name :: "'a name \<Rightarrow> 'a name \<Rightarrow> bool" where
  "less_name a b \<longleftrightarrow> str a < str b"

instance
  by standard (auto simp: less_eq_name_def less_name_def name.expand)

end

lemma name_order_simps [simp]:
  "Name a \<le> Name b \<longleftrightarrow> a \<le> b" "Name a < Name b \<longleftrightarrow> a < b"
  by (simp_all add: less_eq_name_def less_name_def)

abbreviation empty_name :: "'tag name" where "empty_name \<equiv> Name []"

definition name_empty :: "'tag name \<Rightarrow> bool" where
  "name_empty n = (str n = [])"

definition kMaxNameLength :: nat where
  "kMaxNameLength = 64"

definition is_valid_name_char :: "char \<Rightarrow> bool" where
  "is_valid_name_char c =
    (if CHR ''a'' \<le> c \<and> c \<le> CHR ''z'' then True
     else if CHR ''A'' \<le> c \<and> c \<le> CHR ''Z'' then True
     else if CHR ''0'' \<le> c \<and> c \<le> CHR ''9'' then True
     else c = CHR ''.'' \<or> c = CHR ''_'' \<or> c = CHR ''-'' \<or> c = CHR '':'' \<or> c = CHR ''@'')"

definition name_parse :: "string \<Rightarrow> 'tag name option" where
  "name_parse t =
    (if t = [] \<or> length t > kMaxNameLength then None
     else if \<not> list_all is_valid_name_char t then None
     else Some (Name t))"

definition name_parse_canonical :: "string \<Rightarrow> 'tag name option" where
  "name_parse_canonical t =
    (if length t > kMaxNameLength then None
     else if \<not> list_all is_valid_name_char t then None
     else Some (Name t))"

text \<open>A name is canonical when the decoder can have produced it.\<close>

definition canonical_name :: "'tag name \<Rightarrow> bool" where
  "canonical_name n \<longleftrightarrow> length (str n) \<le> kMaxNameLength \<and> list_all is_valid_name_char (str n)"

lemma name_parse_canonical_iff: "name_parse_canonical t = Some n \<longleftrightarrow> str n = t \<and> canonical_name n"
  by (cases n) (auto simp: name_parse_canonical_def canonical_name_def)

lemma name_parse_iff: "name_parse t = Some n \<longleftrightarrow> str n = t \<and> canonical_name n \<and> \<not> name_empty n"
  by (cases n) (auto simp: name_parse_def canonical_name_def name_empty_def)

type_synonym service_name = "service_tag name"
type_synonym scope_name = "scope_tag name"
type_synonym host_name = "host_tag name"
type_synonym device_name = "device_tag name"
type_synonym target_name = "target_tag name"
type_synonym source_name = "source_tag name"

type_synonym evidence_id = "evidence_tag ident"
type_synonym attempt_id = "attempt_tag ident"
type_synonym lease_id = "lease_id_tag ident"
type_synonym effect_id = "effect_tag ident"
type_synonym request_key = "request_tag ident"
type_synonym plan_id = "plan_tag ident"

type_synonym topology_generation = "topology_tag gen"
type_synonym capability_generation = "capability_tag gen"
type_synonym policy_generation = "policy_tag gen"
type_synonym failover_generation = "failover_tag gen"
type_synonym state_generation = "state_tag gen"
type_synonym lease_term = "lease_term_tag gen"
type_synonym fence_token = "fence_tag gen"
type_synonym incarnation = "incarnation_tag gen"
type_synonym coordinator_epoch = "epoch_tag gen"
type_synonym boot_id = "boot_tag gen"
type_synonym evidence_seq = "evidence_seq_tag gen"
type_synonym logical_tick = "tick_tag tick"

end
