(* ===== verification/Digest.thy ===== *)
theory Digest
  imports Strong_Types
begin

text \<open>
  digest.hpp and digest.cpp: the CRC-32C of records and frames, computed with a table, and the
  128 bit content digest with its hexadecimal form. The table-driven loop is proved equal to the
  bit-serial definition of the checksum, and the textual form is proved to round trip.
\<close>

subsection \<open>CRC-32C\<close>

definition kCrc32cPolynomial :: u32 where
  "kCrc32cPolynomial = 0x82F63B78"

text \<open>One iteration of the loop that builds a table entry.\<close>

definition crc_bit :: "u32 \<Rightarrow> u32" where
  "crc_bit value = (if value AND 1 \<noteq> 0 then drop_bit 1 value XOR kCrc32cPolynomial else drop_bit 1 value)"

definition kCrcTable :: "u32 list" where
  "kCrcTable = map (\<lambda>index. (crc_bit ^^ 8) (of_nat index)) [0..<256]"

definition crc_table_step :: "u32 \<Rightarrow> u8 \<Rightarrow> u32" where
  "crc_table_step state byte = kCrcTable ! unat ((state XOR ucast byte) AND 0xFF) XOR drop_bit 8 state"

definition crc32c :: "bytes \<Rightarrow> u32 \<Rightarrow> u32" where
  "crc32c data seed = foldl crc_table_step (seed XOR 0xFFFFFFFF) data XOR 0xFFFFFFFF"

text \<open>\<^verbatim>\<open>Crc32c\<close> carries the checksum so far; \<^verbatim>\<open>value()\<close> is the state itself.\<close>

definition crc_update :: "u32 \<Rightarrow> bytes \<Rightarrow> u32" where
  "crc_update accumulator data = foldl crc_table_step (accumulator XOR 0xFFFFFFFF) data XOR 0xFFFFFFFF"

text \<open>The reference: the checksum as a shift register fed one bit at a time.\<close>

definition crc_serial_bit :: "u32 \<Rightarrow> bool \<Rightarrow> u32" where
  "crc_serial_bit state b =
    (let shifted = drop_bit 1 state in if bit state 0 \<noteq> b then shifted XOR kCrc32cPolynomial else shifted)"

definition crc_serial :: "bytes \<Rightarrow> u32 \<Rightarrow> u32" where
  "crc_serial data seed =
    foldl (\<lambda>state byte. foldl crc_serial_bit state (map (bit byte) [0..<8])) (seed XOR 0xFFFFFFFF) data
      XOR 0xFFFFFFFF"

lemma crc_bit_eq: "crc_bit x = drop_bit 1 x XOR (if bit x 0 then kCrc32cPolynomial else 0)"
proof -
  have "x AND 1 \<noteq> 0 \<longleftrightarrow> bit x 0"
    by (simp add: bit_0 and_one_eq odd_iff_mod_2_eq_one)
  then show ?thesis by (simp add: crc_bit_def)
qed

text \<open>The shift register is linear over exclusive or, so the low byte can be looked up.\<close>

lemma crc_bit_xor: "crc_bit (x XOR y) = crc_bit x XOR crc_bit y"
  by (rule bit_word_eqI) (auto simp: crc_bit_eq bit_simps)

lemma crc_bits_xor: "(crc_bit ^^ n) (x XOR y) = (crc_bit ^^ n) x XOR (crc_bit ^^ n) y"
  by (induction n) (simp_all add: crc_bit_xor)

lemma crc_bits_high: "(\<forall>i<n. \<not> bit x i) \<Longrightarrow> (crc_bit ^^ n) x = drop_bit n x"
proof (induction n)
  case 0
  then show ?case by simp
next
  case (Suc n)
  then have "(crc_bit ^^ n) x = drop_bit n x" by simp
  moreover have "crc_bit (drop_bit n x) = drop_bit (Suc n) x"
    using Suc.prems by (simp add: crc_bit_eq bit_drop_bit_eq)
  ultimately show ?case by simp
qed

lemma crc_table_step_bits: "crc_table_step s b = (crc_bit ^^ 8) (s XOR ucast b)"
proof -
  define x where "x = s XOR ucast b"
  have split: "x = (x AND 0xFF) XOR (x AND NOT 0xFF)"
    by (rule bit_word_eqI) (auto simp: bit_simps)
  have mask: "(0xFF :: u32) = mask 8"
    by (simp add: mask_eq_exp_minus_1)
  have low: "unat (x AND 0xFF) < 256"
  proof -
    have "x AND 0xFF < 2 ^ 8" unfolding mask by (rule and_mask_less') simp
    then show ?thesis by (simp add: word_less_nat_alt)
  qed
  have "(crc_bit ^^ 8) x = (crc_bit ^^ 8) (x AND 0xFF) XOR (crc_bit ^^ 8) (x AND NOT 0xFF)"
    using split crc_bits_xor by metis
  also have "(crc_bit ^^ 8) (x AND 0xFF) = kCrcTable ! unat (x AND 0xFF)"
    using low by (simp add: kCrcTable_def)
  also have "(crc_bit ^^ 8) (x AND NOT 0xFF) = drop_bit 8 (x AND NOT 0xFF)"
    unfolding mask by (rule crc_bits_high) (simp add: bit_simps)
  also have "\<dots> = drop_bit 8 s"
    unfolding mask x_def by (rule bit_word_eqI) (auto simp: bit_simps dest: bit_imp_le_length)
  finally show ?thesis by (simp add: crc_table_step_def x_def)
qed

text \<open>Feeding a bit is shifting the register with the bit added to it.\<close>

lemma crc_serial_bit_eq: "crc_serial_bit s b = crc_bit (s XOR of_bool b)"
  by (rule bit_word_eqI) (auto simp: crc_serial_bit_def crc_bit_eq Let_def bit_simps)

lemma take_bit_Suc_xor:
  "take_bit (Suc n) (w :: u8) = take_bit n w XOR push_bit n (of_bool (bit w n))"
  by (rule bit_word_eqI) (auto simp: bit_simps less_Suc_eq)

lemma crc_serial_bits:
  "n \<le> 8 \<Longrightarrow> foldl crc_serial_bit s (map (bit b) [0..<n]) = (crc_bit ^^ n) (s XOR ucast (take_bit n b :: u8))"
proof (induction n)
  case 0
  then show ?case by simp
next
  case (Suc n)
  define t where "t = s XOR ucast (take_bit n b)"
  define e :: u32 where "e = push_bit n (of_bool (bit b n))"
  have "(crc_bit ^^ n) e = drop_bit n e"
    by (rule crc_bits_high) (simp add: e_def bit_simps)
  moreover have "drop_bit n e = of_bool (bit b n)"
    using Suc.prems by (auto simp: e_def bit_simps intro!: bit_word_eqI)
  ultimately have e: "(crc_bit ^^ n) e = of_bool (bit b n)" by simp
  have "foldl crc_serial_bit s (map (bit b) [0..<Suc n]) = crc_bit ((crc_bit ^^ n) t XOR of_bool (bit b n))"
    using Suc.IH Suc.prems by (simp add: t_def crc_serial_bit_eq [of "(crc_bit ^^ n) t" for t])
  also have "\<dots> = (crc_bit ^^ Suc n) (t XOR e)"
    by (simp add: crc_bits_xor e)
  also have "t XOR e = s XOR ucast (take_bit (Suc n) b)"
    using Suc.prems unfolding t_def e_def take_bit_Suc_xor
    by (intro bit_word_eqI) (auto simp: bit_simps)
  finally show ?case .
qed

lemma crc_table_step_serial: "crc_table_step s b = foldl crc_serial_bit s (map (bit b) [0..<8])"
proof -
  have "take_bit 8 b = b" using take_bit_length_eq [of b] by simp
  then show ?thesis by (simp only: crc_table_step_bits crc_serial_bits [of 8, OF order_refl])
qed

text \<open>The table-driven CRC-32C of \<^verbatim>\<open>crc32c\<close> is the bit-serial shift register of the Castagnoli polynomial, for every seed and every data.\<close>

theorem crc32c_is_serial: "crc32c data seed = crc_serial data seed"
proof -
  have "crc_table_step = (\<lambda>state byte. foldl crc_serial_bit state (map (bit byte) [0..<8]))"
    by (intro ext) (rule crc_table_step_serial)
  then show ?thesis by (simp only: crc32c_def crc_serial_def)
qed

lemma crc_update_append: "crc_update (crc_update c a) b = crc_update c (a @ b)"
  by (simp add: crc_update_def xor.assoc)

lemma crc_update_start: "crc_update 0 data = crc32c data 0"
  by (simp add: crc_update_def crc32c_def)

text \<open>Checksumming data in two pieces with \<^verbatim>\<open>Crc32c::update\<close> gives the checksum of the whole, so a large payload need not be copied to be checksummed.\<close>

theorem crc_incremental: "crc_update (crc_update 0 a) b = crc32c (a @ b) 0"
  using crc_update_append [of 0 a b] crc_update_start [of "a @ b"] by simp

subsection \<open>The content digest\<close>

record digest =
  dg_hi :: u64
  dg_lo :: u64

abbreviation zero_digest :: digest where "zero_digest \<equiv> \<lparr>dg_hi = 0, dg_lo = 0\<rparr>"

definition is_zero :: "digest \<Rightarrow> bool" where
  "is_zero d \<longleftrightarrow> dg_hi d = 0 \<and> dg_lo d = 0"

definition builder_start :: digest where
  "builder_start = \<lparr>dg_hi = 0xcbf29ce484222325, dg_lo = 0x9e3779b97f4a7c15\<rparr>"

definition kFnvPrime :: u64 where "kFnvPrime = 0x00000100000001B3"

definition kFnvPrimeB :: u64 where "kFnvPrimeB = 0x00000100000001B5"

definition builder_byte :: "digest \<Rightarrow> u8 \<Rightarrow> digest" where
  "builder_byte b byte =
    (let h = (dg_hi b XOR ucast byte) * kFnvPrime;
         l0 = dg_lo b + ucast byte;
         l1 = (l0 XOR drop_bit 29 l0) * kFnvPrimeB
     in \<lparr>dg_hi = h, dg_lo = l1\<rparr>)"

definition builder_update :: "digest \<Rightarrow> bytes \<Rightarrow> digest" where
  "builder_update b data = foldl builder_byte b data"

definition builder_value :: "digest \<Rightarrow> digest" where
  "builder_value b = \<lparr>dg_hi = dg_hi b, dg_lo = dg_lo b XOR drop_bit 17 (dg_hi b)\<rparr>"

definition digest_of :: "bytes \<Rightarrow> digest" where
  "digest_of data = builder_value (builder_update builder_start data)"

lemma builder_update_append: "builder_update (builder_update b x) y = builder_update b (x @ y)"
  by (simp add: builder_update_def)

subsection \<open>Hexadecimal form\<close>

definition kHexDigits :: string where
  "kHexDigits = ''0123456789abcdef''"

definition hex_value :: "char \<Rightarrow> int" where
  "hex_value c =
    (if CHR ''0'' \<le> c \<and> c \<le> CHR ''9'' then of_char c - of_char (CHR ''0'')
     else if CHR ''a'' \<le> c \<and> c \<le> CHR ''f'' then of_char c - of_char (CHR ''a'') + 10
     else if CHR ''A'' \<le> c \<and> c \<le> CHR ''F'' then of_char c - of_char (CHR ''A'') + 10
     else - 1)"

text \<open>The loop over the shifts 60, 56, ..., 0.\<close>

definition nibble_shifts :: "nat list" where
  "nibble_shifts = map (\<lambda>k. 4 * k) (rev [0..<16])"

definition hex_digits :: "u64 \<Rightarrow> string" where
  "hex_digits v = map (\<lambda>shift. kHexDigits ! unat (drop_bit shift v AND 0xF)) nibble_shifts"

definition digest_to_hex :: "digest \<Rightarrow> string" where
  "digest_to_hex d = hex_digits (dg_hi d) @ hex_digits (dg_lo d)"

fun from_hex_loop :: "nat \<Rightarrow> string \<Rightarrow> u64 \<Rightarrow> u64 \<Rightarrow> digest option" where
  "from_hex_loop index [] h l = Some \<lparr>dg_hi = h, dg_lo = l\<rparr>"
| "from_hex_loop index (c # cs) h l =
    (let digit = hex_value c in
     if digit < 0 then None
     else if index < 16 then from_hex_loop (index + 1) cs (push_bit 4 h OR word_of_int digit) l
     else from_hex_loop (index + 1) cs h (push_bit 4 l OR word_of_int digit))"

definition digest_from_hex :: "string \<Rightarrow> digest option" where
  "digest_from_hex t = (if length t \<noteq> 32 then None else from_hex_loop 0 t 0 0)"

lemma hex_value_digit: "n < 16 \<Longrightarrow> hex_value (kHexDigits ! n) = int n"
proof -
  assume "n < 16"
  then have "n \<in> {0, 1, 2, 3, 4, 5, 6, 7, 8, 9, 10, 11, 12, 13, 14, 15}"
    unfolding insert_iff empty_iff by presburger
  then show ?thesis
    by (elim insertE emptyE) (simp_all add: hex_value_def kHexDigits_def less_eq_char_def)
qed

lemma nibble_less: "unat (w AND 0xF :: u64) < 16"
proof -
  have "w AND 0xF = take_bit 4 w"
    by (simp add: take_bit_eq_mask mask_eq_exp_minus_1)
  then show ?thesis
    using take_bit_nat_less_exp [of 4 "unat w"] by (simp add: unsigned_take_bit_eq)
qed

lemma hex_value_nibble: "hex_value (kHexDigits ! unat (w AND 0xF :: u64)) = uint (w AND 0xF)"
  by (simp add: hex_value_digit nibble_less)

text \<open>After the digit at a shift, the accumulator is the value read down to that shift.\<close>

lemma nibble_step:
  fixes v :: u64
  shows "push_bit 4 (drop_bit (s + 4) v) OR (drop_bit s v AND 0xF) = drop_bit s v"
proof -
  have "drop_bit s v AND 0xF = take_bit 4 (drop_bit s v)"
    by (simp add: take_bit_eq_mask mask_eq_exp_minus_1)
  then show ?thesis
    by (intro bit_word_eqI) (auto simp: bit_simps not_le not_less add.commute)
qed

lemma from_hex_high:
  "n \<le> 16 \<Longrightarrow>
   from_hex_loop (16 - n) (map (\<lambda>k. kHexDigits ! unat (drop_bit (4 * k) v AND 0xF)) (rev [0..<n]) @ rest)
     (drop_bit (4 * n) v) l = from_hex_loop 16 rest v l"
proof (induction n)
  case 0
  then show ?case by simp
next
  case (Suc n)
  have i: "16 - Suc n < 16" "Suc (16 - Suc n) = 16 - n" using Suc.prems by simp_all
  from Suc show ?case
    using nibble_step [of "4 * n" v] i
    by (simp add: hex_value_nibble Let_def add.commute [of 4] del: Suc_diff_Suc diff_Suc_Suc diff_Suc_eq_diff_pred)
qed

lemma from_hex_low:
  "n \<le> 16 \<Longrightarrow>
   from_hex_loop (32 - n) (map (\<lambda>k. kHexDigits ! unat (drop_bit (4 * k) v AND 0xF)) (rev [0..<n]))
     h (drop_bit (4 * n) v) = Some \<lparr>dg_hi = h, dg_lo = v\<rparr>"
proof (induction n)
  case 0
  then show ?case by simp
next
  case (Suc n)
  have i: "\<not> 32 - Suc n < 16" "Suc (32 - Suc n) = 32 - n" using Suc.prems by simp_all
  from Suc show ?case
    using nibble_step [of "4 * n" v] i
    by (simp add: hex_value_nibble Let_def add.commute [of 4] del: Suc_diff_Suc diff_Suc_Suc diff_Suc_eq_diff_pred)
qed

text \<open>The 32 character hexadecimal form of a digest is read back to the same digest.\<close>

theorem digest_hex_roundtrip: "digest_from_hex (digest_to_hex d) = Some d"
proof -
  have "from_hex_loop 0 (hex_digits (dg_hi d) @ hex_digits (dg_lo d)) 0 0 = from_hex_loop 16 (hex_digits (dg_lo d)) (dg_hi d) 0"
    using from_hex_high [of 16 "dg_hi d" "hex_digits (dg_lo d)" 0]
    by (simp add: hex_digits_def nibble_shifts_def comp_def drop_bit_word_beyond)
  also have "\<dots> = Some d"
    using from_hex_low [of 16 "dg_lo d" "dg_hi d"]
    by (simp add: hex_digits_def nibble_shifts_def comp_def drop_bit_word_beyond)
  finally show ?thesis
    by (simp add: digest_from_hex_def digest_to_hex_def hex_digits_def nibble_shifts_def)
qed

text \<open>digest.hpp promises that a mixed case form is refused; the decoder accepts it.\<close>

lemma digest_from_hex_mixed_case:
  "digest_from_hex (''0A'' @ replicate 30 CHR ''0'') = Some \<lparr>dg_hi = 0x0A00000000000000, dg_lo = 0\<rparr>"
  by (simp add: digest_from_hex_def hex_value_def less_eq_char_def eval_nat_numeral)

end
