(* ===== verification/Reasons.thy ===== *)
theory Reasons
  imports Strong_Types
begin

text \<open>
  reason.hpp and reason.cpp: the stable machine-readable reason codes. \<^verbatim>\<open>enum class Reason : u16\<close>
  can hold every 16 bit value (the codecs cast raw integers to it and then look the value up), so a
  reason is its value; the table lists the codes this build knows, in the order of the source.
\<close>

datatype reason = Reason (reason_value: u16)

instantiation reason :: linorder
begin

definition less_eq_reason :: "reason \<Rightarrow> reason \<Rightarrow> bool" where
  "less_eq_reason a b \<longleftrightarrow> reason_value a \<le> reason_value b"

definition less_reason :: "reason \<Rightarrow> reason \<Rightarrow> bool" where
  "less_reason a b \<longleftrightarrow> reason_value a < reason_value b"

instance
  by standard (auto simp: less_eq_reason_def less_reason_def reason.expand)

end

lemma reason_order_simps [simp]:
  "Reason a \<le> Reason b \<longleftrightarrow> a \<le> b" "Reason a < Reason b \<longleftrightarrow> a < b"
  by (simp_all add: less_eq_reason_def less_reason_def)

abbreviation R_Ok :: reason where "R_Ok \<equiv> Reason 0x0000"
abbreviation R_AcceptQualifiedPrimaryFailure :: reason where "R_AcceptQualifiedPrimaryFailure \<equiv> Reason 0x0101"
abbreviation R_AcceptQualifiedReplicaFailure :: reason where "R_AcceptQualifiedReplicaFailure \<equiv> Reason 0x0102"
abbreviation R_AcceptQualifiedPlannedRecovery :: reason where "R_AcceptQualifiedPlannedRecovery \<equiv> Reason 0x0103"
abbreviation R_AcceptFallbackCapabilityCompatible :: reason where "R_AcceptFallbackCapabilityCompatible \<equiv> Reason 0x0110"
abbreviation R_AcceptFallbackHealthy :: reason where "R_AcceptFallbackHealthy \<equiv> Reason 0x0111"
abbreviation R_AcceptFenceAdvanced :: reason where "R_AcceptFenceAdvanced \<equiv> Reason 0x0120"
abbreviation R_AcceptLeaseTransferred :: reason where "R_AcceptLeaseTransferred \<equiv> Reason 0x0121"
abbreviation R_AcceptIntentEmitted :: reason where "R_AcceptIntentEmitted \<equiv> Reason 0x0130"
abbreviation R_AcceptEffectVerified :: reason where "R_AcceptEffectVerified \<equiv> Reason 0x0140"
abbreviation R_AcceptContinuityVerified :: reason where "R_AcceptContinuityVerified \<equiv> Reason 0x0141"
abbreviation R_AcceptContinuityDegradedStateful :: reason where "R_AcceptContinuityDegradedStateful \<equiv> Reason 0x0142"
abbreviation R_AcceptDuplicateIdempotent :: reason where "R_AcceptDuplicateIdempotent \<equiv> Reason 0x0150"
abbreviation R_AcceptDuplicateReplayCached :: reason where "R_AcceptDuplicateReplayCached \<equiv> Reason 0x0151"
abbreviation R_AcceptRecoveryReissueSameFence :: reason where "R_AcceptRecoveryReissueSameFence \<equiv> Reason 0x0152"
abbreviation R_AcceptAmbiguityResolvedFailover :: reason where "R_AcceptAmbiguityResolvedFailover \<equiv> Reason 0x0160"
abbreviation R_AcceptAmbiguityResolvedNoFailover :: reason where "R_AcceptAmbiguityResolvedNoFailover \<equiv> Reason 0x0161"
abbreviation R_AcceptFailbackGenerationFresh :: reason where "R_AcceptFailbackGenerationFresh \<equiv> Reason 0x0170"
abbreviation R_AcceptTargetRegistered :: reason where "R_AcceptTargetRegistered \<equiv> Reason 0x0180"
abbreviation R_AcceptTopologyGenerationAdvanced :: reason where "R_AcceptTopologyGenerationAdvanced \<equiv> Reason 0x0181"
abbreviation R_AcceptPolicyGenerationAdvanced :: reason where "R_AcceptPolicyGenerationAdvanced \<equiv> Reason 0x0182"
abbreviation R_AcceptStateTransferVerified :: reason where "R_AcceptStateTransferVerified \<equiv> Reason 0x0190"
abbreviation R_AcceptPlacementEstablished :: reason where "R_AcceptPlacementEstablished \<equiv> Reason 0x0183"
abbreviation R_AcceptSourceEnrolled :: reason where "R_AcceptSourceEnrolled \<equiv> Reason 0x0184"
abbreviation R_AcceptTargetRetired :: reason where "R_AcceptTargetRetired \<equiv> Reason 0x0185"
abbreviation R_AcceptServiceRegistered :: reason where "R_AcceptServiceRegistered \<equiv> Reason 0x0186"
abbreviation R_AcceptCapabilityRecorded :: reason where "R_AcceptCapabilityRecorded \<equiv> Reason 0x0187"
abbreviation R_AcceptFailureRecorded :: reason where "R_AcceptFailureRecorded \<equiv> Reason 0x0188"
abbreviation R_AcceptDependencyRecorded :: reason where "R_AcceptDependencyRecorded \<equiv> Reason 0x0189"
abbreviation R_AcceptServiceWithdrawn :: reason where "R_AcceptServiceWithdrawn \<equiv> Reason 0x018a"
abbreviation R_Malformed :: reason where "R_Malformed \<equiv> Reason 0x0201"
abbreviation R_Truncated :: reason where "R_Truncated \<equiv> Reason 0x0202"
abbreviation R_Oversized :: reason where "R_Oversized \<equiv> Reason 0x0203"
abbreviation R_Corrupt :: reason where "R_Corrupt \<equiv> Reason 0x0204"
abbreviation R_ChecksumMismatch :: reason where "R_ChecksumMismatch \<equiv> Reason 0x0205"
abbreviation R_UnsupportedVersion :: reason where "R_UnsupportedVersion \<equiv> Reason 0x0206"
abbreviation R_UnsupportedSemantics :: reason where "R_UnsupportedSemantics \<equiv> Reason 0x0207"
abbreviation R_UnknownField :: reason where "R_UnknownField \<equiv> Reason 0x0208"
abbreviation R_ImpossibleValue :: reason where "R_ImpossibleValue \<equiv> Reason 0x0209"
abbreviation R_DepthExceeded :: reason where "R_DepthExceeded \<equiv> Reason 0x020a"
abbreviation R_BudgetExceeded :: reason where "R_BudgetExceeded \<equiv> Reason 0x020b"
abbreviation R_UnknownService :: reason where "R_UnknownService \<equiv> Reason 0x0301"
abbreviation R_UnknownScope :: reason where "R_UnknownScope \<equiv> Reason 0x0302"
abbreviation R_UnknownTarget :: reason where "R_UnknownTarget \<equiv> Reason 0x0303"
abbreviation R_UnknownSource :: reason where "R_UnknownSource \<equiv> Reason 0x0304"
abbreviation R_UnknownDevice :: reason where "R_UnknownDevice \<equiv> Reason 0x0305"
abbreviation R_UnknownIncarnation :: reason where "R_UnknownIncarnation \<equiv> Reason 0x0306"
abbreviation R_DuplicateService :: reason where "R_DuplicateService \<equiv> Reason 0x0307"
abbreviation R_DuplicateTarget :: reason where "R_DuplicateTarget \<equiv> Reason 0x0308"
abbreviation R_DuplicateIdentity :: reason where "R_DuplicateIdentity \<equiv> Reason 0x0309"
abbreviation R_RegistryCapacityExceeded :: reason where "R_RegistryCapacityExceeded \<equiv> Reason 0x030a"
abbreviation R_StaleGeneration :: reason where "R_StaleGeneration \<equiv> Reason 0x0401"
abbreviation R_SupersededGeneration :: reason where "R_SupersededGeneration \<equiv> Reason 0x0402"
abbreviation R_FutureGeneration :: reason where "R_FutureGeneration \<equiv> Reason 0x0403"
abbreviation R_GenerationConflict :: reason where "R_GenerationConflict \<equiv> Reason 0x0404"
abbreviation R_GenerationExhausted :: reason where "R_GenerationExhausted \<equiv> Reason 0x0405"
abbreviation R_IncompatibleCapability :: reason where "R_IncompatibleCapability \<equiv> Reason 0x0406"
abbreviation R_IncompatibleSemantics :: reason where "R_IncompatibleSemantics \<equiv> Reason 0x0407"
abbreviation R_IncarnationMismatch :: reason where "R_IncarnationMismatch \<equiv> Reason 0x0408"
abbreviation R_IncarnationRegression :: reason where "R_IncarnationRegression \<equiv> Reason 0x0409"
abbreviation R_EvidenceMissing :: reason where "R_EvidenceMissing \<equiv> Reason 0x0501"
abbreviation R_EvidenceStale :: reason where "R_EvidenceStale \<equiv> Reason 0x0502"
abbreviation R_EvidenceSuperseded :: reason where "R_EvidenceSuperseded \<equiv> Reason 0x0503"
abbreviation R_EvidenceAmbiguous :: reason where "R_EvidenceAmbiguous \<equiv> Reason 0x0504"
abbreviation R_EvidenceConflicting :: reason where "R_EvidenceConflicting \<equiv> Reason 0x0505"
abbreviation R_EvidenceIncomplete :: reason where "R_EvidenceIncomplete \<equiv> Reason 0x0506"
abbreviation R_EvidenceUnknownSource :: reason where "R_EvidenceUnknownSource \<equiv> Reason 0x0507"
abbreviation R_EvidenceUnsupportedKind :: reason where "R_EvidenceUnsupportedKind \<equiv> Reason 0x0508"
abbreviation R_EvidenceTargetMismatch :: reason where "R_EvidenceTargetMismatch \<equiv> Reason 0x0509"
abbreviation R_EvidenceTopologyMismatch :: reason where "R_EvidenceTopologyMismatch \<equiv> Reason 0x050a"
abbreviation R_EvidenceCapacityExceeded :: reason where "R_EvidenceCapacityExceeded \<equiv> Reason 0x050b"
abbreviation R_EvidenceReplayRejected :: reason where "R_EvidenceReplayRejected \<equiv> Reason 0x050c"
abbreviation R_EvidenceReporterUnauthorized :: reason where "R_EvidenceReporterUnauthorized \<equiv> Reason 0x050d"
abbreviation R_NoAuthority :: reason where "R_NoAuthority \<equiv> Reason 0x0601"
abbreviation R_AuthoritySuperseded :: reason where "R_AuthoritySuperseded \<equiv> Reason 0x0602"
abbreviation R_AuthorityExpired :: reason where "R_AuthorityExpired \<equiv> Reason 0x0603"
abbreviation R_EpochMismatch :: reason where "R_EpochMismatch \<equiv> Reason 0x0604"
abbreviation R_BootMismatch :: reason where "R_BootMismatch \<equiv> Reason 0x0605"
abbreviation R_LeaseNotHeld :: reason where "R_LeaseNotHeld \<equiv> Reason 0x0606"
abbreviation R_LeaseTermStale :: reason where "R_LeaseTermStale \<equiv> Reason 0x0607"
abbreviation R_LeaseTermExhausted :: reason where "R_LeaseTermExhausted \<equiv> Reason 0x0608"
abbreviation R_CoordinatorNotPrimary :: reason where "R_CoordinatorNotPrimary \<equiv> Reason 0x0609"
abbreviation R_FenceStale :: reason where "R_FenceStale \<equiv> Reason 0x0701"
abbreviation R_FenceRegression :: reason where "R_FenceRegression \<equiv> Reason 0x0702"
abbreviation R_FenceMismatch :: reason where "R_FenceMismatch \<equiv> Reason 0x0703"
abbreviation R_FenceNotDurable :: reason where "R_FenceNotDurable \<equiv> Reason 0x0704"
abbreviation R_FenceExhausted :: reason where "R_FenceExhausted \<equiv> Reason 0x0705"
abbreviation R_FenceHeldByOther :: reason where "R_FenceHeldByOther \<equiv> Reason 0x0706"
abbreviation R_TargetDisappearanceIsNotPermission :: reason where "R_TargetDisappearanceIsNotPermission \<equiv> Reason 0x0801"
abbreviation R_NoEligibleFallback :: reason where "R_NoEligibleFallback \<equiv> Reason 0x0802"
abbreviation R_FallbackUnsupported :: reason where "R_FallbackUnsupported \<equiv> Reason 0x0803"
abbreviation R_FallbackIncompatible :: reason where "R_FallbackIncompatible \<equiv> Reason 0x0804"
abbreviation R_FallbackFenced :: reason where "R_FallbackFenced \<equiv> Reason 0x0805"
abbreviation R_FallbackIsActiveTarget :: reason where "R_FallbackIsActiveTarget \<equiv> Reason 0x0806"
abbreviation R_FallbackUnhealthy :: reason where "R_FallbackUnhealthy \<equiv> Reason 0x0807"
abbreviation R_FallbackDependencyUnmet :: reason where "R_FallbackDependencyUnmet \<equiv> Reason 0x0808"
abbreviation R_FallbackCapabilityGenerationStale :: reason where "R_FallbackCapabilityGenerationStale \<equiv> Reason 0x0809"
abbreviation R_FallbackNotInGovernedScope :: reason where "R_FallbackNotInGovernedScope \<equiv> Reason 0x080a"
abbreviation R_FallbackCandidateLimitReached :: reason where "R_FallbackCandidateLimitReached \<equiv> Reason 0x080b"
abbreviation R_DependencyUnknown :: reason where "R_DependencyUnknown \<equiv> Reason 0x0901"
abbreviation R_DependencyUnresolved :: reason where "R_DependencyUnresolved \<equiv> Reason 0x0902"
abbreviation R_DependencyCycle :: reason where "R_DependencyCycle \<equiv> Reason 0x0903"
abbreviation R_DependencyHardUnmet :: reason where "R_DependencyHardUnmet \<equiv> Reason 0x0904"
abbreviation R_DependencyDepthExceeded :: reason where "R_DependencyDepthExceeded \<equiv> Reason 0x0905"
abbreviation R_DependencyCapacityExceeded :: reason where "R_DependencyCapacityExceeded \<equiv> Reason 0x0906"
abbreviation R_DependencySelfReference :: reason where "R_DependencySelfReference \<equiv> Reason 0x0907"
abbreviation R_InvalidState :: reason where "R_InvalidState \<equiv> Reason 0x0a01"
abbreviation R_TransitionRefused :: reason where "R_TransitionRefused \<equiv> Reason 0x0a02"
abbreviation R_FailoverAlreadyInProgress :: reason where "R_FailoverAlreadyInProgress \<equiv> Reason 0x0a03"
abbreviation R_NoFailoverInProgress :: reason where "R_NoFailoverInProgress \<equiv> Reason 0x0a04"
abbreviation R_AttemptBudgetExhausted :: reason where "R_AttemptBudgetExhausted \<equiv> Reason 0x0a05"
abbreviation R_PlanStepLimitReached :: reason where "R_PlanStepLimitReached \<equiv> Reason 0x0a06"
abbreviation R_HistoryTruncated :: reason where "R_HistoryTruncated \<equiv> Reason 0x0a07"
abbreviation R_QueueCapacityExceeded :: reason where "R_QueueCapacityExceeded \<equiv> Reason 0x0a08"
abbreviation R_ResourceExhausted :: reason where "R_ResourceExhausted \<equiv> Reason 0x0a09"
abbreviation R_PayloadTooLarge :: reason where "R_PayloadTooLarge \<equiv> Reason 0x0a0a"
abbreviation R_ServiceNotRegistered :: reason where "R_ServiceNotRegistered \<equiv> Reason 0x0a0b"
abbreviation R_ServiceStateIncompatible :: reason where "R_ServiceStateIncompatible \<equiv> Reason 0x0a0c"
abbreviation R_EffectMissing :: reason where "R_EffectMissing \<equiv> Reason 0x0b01"
abbreviation R_EffectUnverified :: reason where "R_EffectUnverified \<equiv> Reason 0x0b02"
abbreviation R_EffectMismatch :: reason where "R_EffectMismatch \<equiv> Reason 0x0b03"
abbreviation R_EffectStale :: reason where "R_EffectStale \<equiv> Reason 0x0b04"
abbreviation R_EffectReporterUnauthorized :: reason where "R_EffectReporterUnauthorized \<equiv> Reason 0x0b05"
abbreviation R_EffectNegative :: reason where "R_EffectNegative \<equiv> Reason 0x0b06"
abbreviation R_ContinuityNotVerified :: reason where "R_ContinuityNotVerified \<equiv> Reason 0x0b07"
abbreviation R_EffectAlreadyVerified :: reason where "R_EffectAlreadyVerified \<equiv> Reason 0x0b08"
abbreviation R_EffectAttemptMismatch :: reason where "R_EffectAttemptMismatch \<equiv> Reason 0x0b09"
abbreviation R_EffectUnsupportedKind :: reason where "R_EffectUnsupportedKind \<equiv> Reason 0x0b0a"
abbreviation R_AmbiguityUnresolved :: reason where "R_AmbiguityUnresolved \<equiv> Reason 0x0c01"
abbreviation R_AmbiguityAlreadyResolved :: reason where "R_AmbiguityAlreadyResolved \<equiv> Reason 0x0c02"
abbreviation R_AmbiguityDualActiveRisk :: reason where "R_AmbiguityDualActiveRisk \<equiv> Reason 0x0c03"
abbreviation R_AmbiguityRequiresOperator :: reason where "R_AmbiguityRequiresOperator \<equiv> Reason 0x0c04"
abbreviation R_StateTransferMissing :: reason where "R_StateTransferMissing \<equiv> Reason 0x0d01"
abbreviation R_StateGenerationStale :: reason where "R_StateGenerationStale \<equiv> Reason 0x0d02"
abbreviation R_StateTransferIncompatible :: reason where "R_StateTransferIncompatible \<equiv> Reason 0x0d03"
abbreviation R_StatefulRecoveryRequiresTransfer :: reason where "R_StatefulRecoveryRequiresTransfer \<equiv> Reason 0x0d04"
abbreviation R_FailbackNotEligible :: reason where "R_FailbackNotEligible \<equiv> Reason 0x0e01"
abbreviation R_FailbackStaleGeneration :: reason where "R_FailbackStaleGeneration \<equiv> Reason 0x0e02"
abbreviation R_FailbackOriginalUnavailable :: reason where "R_FailbackOriginalUnavailable \<equiv> Reason 0x0e03"
abbreviation R_FailbackOriginalFenceStale :: reason where "R_FailbackOriginalFenceStale \<equiv> Reason 0x0e04"
abbreviation R_FailbackNoFailoverRecorded :: reason where "R_FailbackNoFailoverRecorded \<equiv> Reason 0x0e05"
abbreviation R_FailbackInProgress :: reason where "R_FailbackInProgress \<equiv> Reason 0x0e06"
abbreviation R_StoreUnavailable :: reason where "R_StoreUnavailable \<equiv> Reason 0x0f01"
abbreviation R_StoreCorrupt :: reason where "R_StoreCorrupt \<equiv> Reason 0x0f02"
abbreviation R_StoreTruncated :: reason where "R_StoreTruncated \<equiv> Reason 0x0f03"
abbreviation R_StoreVersionIncompatible :: reason where "R_StoreVersionIncompatible \<equiv> Reason 0x0f04"
abbreviation R_StoreSemanticsIncompatible :: reason where "R_StoreSemanticsIncompatible \<equiv> Reason 0x0f05"
abbreviation R_SnapshotMissing :: reason where "R_SnapshotMissing \<equiv> Reason 0x0f06"
abbreviation R_SnapshotCorrupt :: reason where "R_SnapshotCorrupt \<equiv> Reason 0x0f07"
abbreviation R_TornTailTruncated :: reason where "R_TornTailTruncated \<equiv> Reason 0x0f08"
abbreviation R_IncompleteTransactionDropped :: reason where "R_IncompleteTransactionDropped \<equiv> Reason 0x0f09"
abbreviation R_RestartConservativeDowngrade :: reason where "R_RestartConservativeDowngrade \<equiv> Reason 0x0f0a"
abbreviation R_RestartEpochAdvanced :: reason where "R_RestartEpochAdvanced \<equiv> Reason 0x0f0b"
abbreviation R_RestartIncarnationAdvanced :: reason where "R_RestartIncarnationAdvanced \<equiv> Reason 0x0f0c"
abbreviation R_JournalRotated :: reason where "R_JournalRotated \<equiv> Reason 0x0f0d"
abbreviation R_JournalCapacityExceeded :: reason where "R_JournalCapacityExceeded \<equiv> Reason 0x0f0e"
abbreviation R_PersistenceWriteFailed :: reason where "R_PersistenceWriteFailed \<equiv> Reason 0x0f0f"
abbreviation R_Cancelled :: reason where "R_Cancelled \<equiv> Reason 0x1001"
abbreviation R_CancelTooLate :: reason where "R_CancelTooLate \<equiv> Reason 0x1002"
abbreviation R_ShuttingDown :: reason where "R_ShuttingDown \<equiv> Reason 0x1003"
abbreviation R_NotShuttingDown :: reason where "R_NotShuttingDown \<equiv> Reason 0x1004"
abbreviation R_ProtocolViolation :: reason where "R_ProtocolViolation \<equiv> Reason 0x1101"
abbreviation R_ProtocolVersionMismatch :: reason where "R_ProtocolVersionMismatch \<equiv> Reason 0x1102"
abbreviation R_FrameTooLarge :: reason where "R_FrameTooLarge \<equiv> Reason 0x1103"
abbreviation R_RequestUnknown :: reason where "R_RequestUnknown \<equiv> Reason 0x1104"
abbreviation R_NotHandshaken :: reason where "R_NotHandshaken \<equiv> Reason 0x1105"
abbreviation R_ConnectionLimitReached :: reason where "R_ConnectionLimitReached \<equiv> Reason 0x1106"
abbreviation R_TransportClosed :: reason where "R_TransportClosed \<equiv> Reason 0x1107"
abbreviation R_RequestKeyConflict :: reason where "R_RequestKeyConflict \<equiv> Reason 0x1108"
abbreviation R_Internal :: reason where "R_Internal \<equiv> Reason 0x1201"
abbreviation R_NotImplemented :: reason where "R_NotImplemented \<equiv> Reason 0x1202"
abbreviation R_InvariantViolated :: reason where "R_InvariantViolated \<equiv> Reason 0x1203"

definition reason_table :: "(reason \<times> string) list" where
  "reason_table = [
    (R_Ok, ''OK''),
    (R_AcceptQualifiedPrimaryFailure, ''ACCEPT_QUALIFIED_PRIMARY_FAILURE''),
    (R_AcceptQualifiedReplicaFailure, ''ACCEPT_QUALIFIED_REPLICA_FAILURE''),
    (R_AcceptQualifiedPlannedRecovery, ''ACCEPT_QUALIFIED_PLANNED_RECOVERY''),
    (R_AcceptFallbackCapabilityCompatible, ''ACCEPT_FALLBACK_CAPABILITY_COMPATIBLE''),
    (R_AcceptFallbackHealthy, ''ACCEPT_FALLBACK_HEALTHY''),
    (R_AcceptFenceAdvanced, ''ACCEPT_FENCE_ADVANCED''),
    (R_AcceptLeaseTransferred, ''ACCEPT_LEASE_TRANSFERRED''),
    (R_AcceptIntentEmitted, ''ACCEPT_INTENT_EMITTED''),
    (R_AcceptEffectVerified, ''ACCEPT_EFFECT_VERIFIED''),
    (R_AcceptContinuityVerified, ''ACCEPT_CONTINUITY_VERIFIED''),
    (R_AcceptContinuityDegradedStateful, ''ACCEPT_CONTINUITY_DEGRADED_STATEFUL''),
    (R_AcceptDuplicateIdempotent, ''ACCEPT_DUPLICATE_IDEMPOTENT''),
    (R_AcceptDuplicateReplayCached, ''ACCEPT_DUPLICATE_REPLAY_CACHED''),
    (R_AcceptRecoveryReissueSameFence, ''ACCEPT_RECOVERY_REISSUE_SAME_FENCE''),
    (R_AcceptAmbiguityResolvedFailover, ''ACCEPT_AMBIGUITY_RESOLVED_FAILOVER''),
    (R_AcceptAmbiguityResolvedNoFailover, ''ACCEPT_AMBIGUITY_RESOLVED_NO_FAILOVER''),
    (R_AcceptFailbackGenerationFresh, ''ACCEPT_FAILBACK_GENERATION_FRESH''),
    (R_AcceptTargetRegistered, ''ACCEPT_TARGET_REGISTERED''),
    (R_AcceptTopologyGenerationAdvanced, ''ACCEPT_TOPOLOGY_GENERATION_ADVANCED''),
    (R_AcceptPolicyGenerationAdvanced, ''ACCEPT_POLICY_GENERATION_ADVANCED''),
    (R_AcceptStateTransferVerified, ''ACCEPT_STATE_TRANSFER_VERIFIED''),
    (R_AcceptPlacementEstablished, ''ACCEPT_PLACEMENT_ESTABLISHED''),
    (R_AcceptSourceEnrolled, ''ACCEPT_SOURCE_ENROLLED''),
    (R_AcceptTargetRetired, ''ACCEPT_TARGET_RETIRED''),
    (R_AcceptServiceRegistered, ''ACCEPT_SERVICE_REGISTERED''),
    (R_AcceptCapabilityRecorded, ''ACCEPT_CAPABILITY_RECORDED''),
    (R_AcceptFailureRecorded, ''ACCEPT_FAILURE_RECORDED''),
    (R_AcceptDependencyRecorded, ''ACCEPT_DEPENDENCY_RECORDED''),
    (R_AcceptServiceWithdrawn, ''ACCEPT_SERVICE_WITHDRAWN''),
    (R_Malformed, ''MALFORMED''),
    (R_Truncated, ''TRUNCATED''),
    (R_Oversized, ''OVERSIZED''),
    (R_Corrupt, ''CORRUPT''),
    (R_ChecksumMismatch, ''CHECKSUM_MISMATCH''),
    (R_UnsupportedVersion, ''UNSUPPORTED_VERSION''),
    (R_UnsupportedSemantics, ''UNSUPPORTED_SEMANTICS''),
    (R_UnknownField, ''UNKNOWN_FIELD''),
    (R_ImpossibleValue, ''IMPOSSIBLE_VALUE''),
    (R_DepthExceeded, ''DEPTH_EXCEEDED''),
    (R_BudgetExceeded, ''BUDGET_EXCEEDED''),
    (R_UnknownService, ''UNKNOWN_SERVICE''),
    (R_UnknownScope, ''UNKNOWN_SCOPE''),
    (R_UnknownTarget, ''UNKNOWN_TARGET''),
    (R_UnknownSource, ''UNKNOWN_SOURCE''),
    (R_UnknownDevice, ''UNKNOWN_DEVICE''),
    (R_UnknownIncarnation, ''UNKNOWN_INCARNATION''),
    (R_DuplicateService, ''DUPLICATE_SERVICE''),
    (R_DuplicateTarget, ''DUPLICATE_TARGET''),
    (R_DuplicateIdentity, ''DUPLICATE_IDENTITY''),
    (R_RegistryCapacityExceeded, ''REGISTRY_CAPACITY_EXCEEDED''),
    (R_StaleGeneration, ''STALE_GENERATION''),
    (R_SupersededGeneration, ''SUPERSEDED_GENERATION''),
    (R_FutureGeneration, ''FUTURE_GENERATION''),
    (R_GenerationConflict, ''GENERATION_CONFLICT''),
    (R_GenerationExhausted, ''GENERATION_EXHAUSTED''),
    (R_IncompatibleCapability, ''INCOMPATIBLE_CAPABILITY''),
    (R_IncompatibleSemantics, ''INCOMPATIBLE_SEMANTICS''),
    (R_IncarnationMismatch, ''INCARNATION_MISMATCH''),
    (R_IncarnationRegression, ''INCARNATION_REGRESSION''),
    (R_EvidenceMissing, ''EVIDENCE_MISSING''),
    (R_EvidenceStale, ''EVIDENCE_STALE''),
    (R_EvidenceSuperseded, ''EVIDENCE_SUPERSEDED''),
    (R_EvidenceAmbiguous, ''EVIDENCE_AMBIGUOUS''),
    (R_EvidenceConflicting, ''EVIDENCE_CONFLICTING''),
    (R_EvidenceIncomplete, ''EVIDENCE_INCOMPLETE''),
    (R_EvidenceUnknownSource, ''EVIDENCE_UNKNOWN_SOURCE''),
    (R_EvidenceUnsupportedKind, ''EVIDENCE_UNSUPPORTED_KIND''),
    (R_EvidenceTargetMismatch, ''EVIDENCE_TARGET_MISMATCH''),
    (R_EvidenceTopologyMismatch, ''EVIDENCE_TOPOLOGY_MISMATCH''),
    (R_EvidenceCapacityExceeded, ''EVIDENCE_CAPACITY_EXCEEDED''),
    (R_EvidenceReplayRejected, ''EVIDENCE_REPLAY_REJECTED''),
    (R_EvidenceReporterUnauthorized, ''EVIDENCE_REPORTER_UNAUTHORIZED''),
    (R_NoAuthority, ''NO_AUTHORITY''),
    (R_AuthoritySuperseded, ''AUTHORITY_SUPERSEDED''),
    (R_AuthorityExpired, ''AUTHORITY_EXPIRED''),
    (R_EpochMismatch, ''EPOCH_MISMATCH''),
    (R_BootMismatch, ''BOOT_MISMATCH''),
    (R_LeaseNotHeld, ''LEASE_NOT_HELD''),
    (R_LeaseTermStale, ''LEASE_TERM_STALE''),
    (R_LeaseTermExhausted, ''LEASE_TERM_EXHAUSTED''),
    (R_CoordinatorNotPrimary, ''COORDINATOR_NOT_PRIMARY''),
    (R_FenceStale, ''FENCE_STALE''),
    (R_FenceRegression, ''FENCE_REGRESSION''),
    (R_FenceMismatch, ''FENCE_MISMATCH''),
    (R_FenceNotDurable, ''FENCE_NOT_DURABLE''),
    (R_FenceExhausted, ''FENCE_EXHAUSTED''),
    (R_FenceHeldByOther, ''FENCE_HELD_BY_OTHER''),
    (R_TargetDisappearanceIsNotPermission, ''TARGET_DISAPPEARANCE_IS_NOT_PERMISSION''),
    (R_NoEligibleFallback, ''NO_ELIGIBLE_FALLBACK''),
    (R_FallbackUnsupported, ''FALLBACK_UNSUPPORTED''),
    (R_FallbackIncompatible, ''FALLBACK_INCOMPATIBLE''),
    (R_FallbackFenced, ''FALLBACK_FENCED''),
    (R_FallbackIsActiveTarget, ''FALLBACK_IS_ACTIVE_TARGET''),
    (R_FallbackUnhealthy, ''FALLBACK_UNHEALTHY''),
    (R_FallbackDependencyUnmet, ''FALLBACK_DEPENDENCY_UNMET''),
    (R_FallbackCapabilityGenerationStale, ''FALLBACK_CAPABILITY_GENERATION_STALE''),
    (R_FallbackNotInGovernedScope, ''FALLBACK_NOT_IN_GOVERNED_SCOPE''),
    (R_FallbackCandidateLimitReached, ''FALLBACK_CANDIDATE_LIMIT_REACHED''),
    (R_DependencyUnknown, ''DEPENDENCY_UNKNOWN''),
    (R_DependencyUnresolved, ''DEPENDENCY_UNRESOLVED''),
    (R_DependencyCycle, ''DEPENDENCY_CYCLE''),
    (R_DependencyHardUnmet, ''DEPENDENCY_HARD_UNMET''),
    (R_DependencyDepthExceeded, ''DEPENDENCY_DEPTH_EXCEEDED''),
    (R_DependencyCapacityExceeded, ''DEPENDENCY_CAPACITY_EXCEEDED''),
    (R_DependencySelfReference, ''DEPENDENCY_SELF_REFERENCE''),
    (R_InvalidState, ''INVALID_STATE''),
    (R_TransitionRefused, ''TRANSITION_REFUSED''),
    (R_FailoverAlreadyInProgress, ''FAILOVER_ALREADY_IN_PROGRESS''),
    (R_NoFailoverInProgress, ''NO_FAILOVER_IN_PROGRESS''),
    (R_AttemptBudgetExhausted, ''ATTEMPT_BUDGET_EXHAUSTED''),
    (R_PlanStepLimitReached, ''PLAN_STEP_LIMIT_REACHED''),
    (R_HistoryTruncated, ''HISTORY_TRUNCATED''),
    (R_QueueCapacityExceeded, ''QUEUE_CAPACITY_EXCEEDED''),
    (R_ResourceExhausted, ''RESOURCE_EXHAUSTED''),
    (R_PayloadTooLarge, ''PAYLOAD_TOO_LARGE''),
    (R_ServiceNotRegistered, ''SERVICE_NOT_REGISTERED''),
    (R_ServiceStateIncompatible, ''SERVICE_STATE_INCOMPATIBLE''),
    (R_EffectMissing, ''EFFECT_MISSING''),
    (R_EffectUnverified, ''EFFECT_UNVERIFIED''),
    (R_EffectMismatch, ''EFFECT_MISMATCH''),
    (R_EffectStale, ''EFFECT_STALE''),
    (R_EffectReporterUnauthorized, ''EFFECT_REPORTER_UNAUTHORIZED''),
    (R_EffectNegative, ''EFFECT_NEGATIVE''),
    (R_ContinuityNotVerified, ''CONTINUITY_NOT_VERIFIED''),
    (R_EffectAlreadyVerified, ''EFFECT_ALREADY_VERIFIED''),
    (R_EffectAttemptMismatch, ''EFFECT_ATTEMPT_MISMATCH''),
    (R_EffectUnsupportedKind, ''EFFECT_UNSUPPORTED_KIND''),
    (R_AmbiguityUnresolved, ''AMBIGUITY_UNRESOLVED''),
    (R_AmbiguityAlreadyResolved, ''AMBIGUITY_ALREADY_RESOLVED''),
    (R_AmbiguityDualActiveRisk, ''AMBIGUITY_DUAL_ACTIVE_RISK''),
    (R_AmbiguityRequiresOperator, ''AMBIGUITY_REQUIRES_OPERATOR''),
    (R_StateTransferMissing, ''STATE_TRANSFER_MISSING''),
    (R_StateGenerationStale, ''STATE_GENERATION_STALE''),
    (R_StateTransferIncompatible, ''STATE_TRANSFER_INCOMPATIBLE''),
    (R_StatefulRecoveryRequiresTransfer, ''STATEFUL_RECOVERY_REQUIRES_TRANSFER''),
    (R_FailbackNotEligible, ''FAILBACK_NOT_ELIGIBLE''),
    (R_FailbackStaleGeneration, ''FAILBACK_STALE_GENERATION''),
    (R_FailbackOriginalUnavailable, ''FAILBACK_ORIGINAL_UNAVAILABLE''),
    (R_FailbackOriginalFenceStale, ''FAILBACK_ORIGINAL_FENCE_STALE''),
    (R_FailbackNoFailoverRecorded, ''FAILBACK_NO_FAILOVER_RECORDED''),
    (R_FailbackInProgress, ''FAILBACK_IN_PROGRESS''),
    (R_StoreUnavailable, ''STORE_UNAVAILABLE''),
    (R_StoreCorrupt, ''STORE_CORRUPT''),
    (R_StoreTruncated, ''STORE_TRUNCATED''),
    (R_StoreVersionIncompatible, ''STORE_VERSION_INCOMPATIBLE''),
    (R_StoreSemanticsIncompatible, ''STORE_SEMANTICS_INCOMPATIBLE''),
    (R_SnapshotMissing, ''SNAPSHOT_MISSING''),
    (R_SnapshotCorrupt, ''SNAPSHOT_CORRUPT''),
    (R_TornTailTruncated, ''TORN_TAIL_TRUNCATED''),
    (R_IncompleteTransactionDropped, ''INCOMPLETE_TRANSACTION_DROPPED''),
    (R_RestartConservativeDowngrade, ''RESTART_CONSERVATIVE_DOWNGRADE''),
    (R_RestartEpochAdvanced, ''RESTART_EPOCH_ADVANCED''),
    (R_RestartIncarnationAdvanced, ''RESTART_INCARNATION_ADVANCED''),
    (R_JournalRotated, ''JOURNAL_ROTATED''),
    (R_JournalCapacityExceeded, ''JOURNAL_CAPACITY_EXCEEDED''),
    (R_PersistenceWriteFailed, ''PERSISTENCE_WRITE_FAILED''),
    (R_Cancelled, ''CANCELLED''),
    (R_CancelTooLate, ''CANCEL_TOO_LATE''),
    (R_ShuttingDown, ''SHUTTING_DOWN''),
    (R_NotShuttingDown, ''NOT_SHUTTING_DOWN''),
    (R_ProtocolViolation, ''PROTOCOL_VIOLATION''),
    (R_ProtocolVersionMismatch, ''PROTOCOL_VERSION_MISMATCH''),
    (R_FrameTooLarge, ''FRAME_TOO_LARGE''),
    (R_RequestUnknown, ''REQUEST_UNKNOWN''),
    (R_NotHandshaken, ''NOT_HANDSHAKEN''),
    (R_ConnectionLimitReached, ''CONNECTION_LIMIT_REACHED''),
    (R_TransportClosed, ''TRANSPORT_CLOSED''),
    (R_RequestKeyConflict, ''REQUEST_KEY_CONFLICT''),
    (R_Internal, ''INTERNAL''),
    (R_NotImplemented, ''NOT_IMPLEMENTED''),
    (R_InvariantViolated, ''INVARIANT_VIOLATED'')]"

definition reason_code_text :: "reason \<Rightarrow> string" where
  "reason_code_text r = (case map_of reason_table r of Some t \<Rightarrow> t | None \<Rightarrow> ''UNRECOGNIZED_REASON'')"

text \<open>The codecs reject a value whose text is the unrecognized one.\<close>

definition reason_known :: "reason \<Rightarrow> bool" where
  "reason_known r \<longleftrightarrow> reason_code_text r \<noteq> ''UNRECOGNIZED_REASON''"

definition reason_is_accept :: "reason \<Rightarrow> bool" where
  "reason_is_accept r \<longleftrightarrow> drop_bit 8 (reason_value r) \<le> 1"

definition family_of :: "u16 \<Rightarrow> string" where
  "family_of f =
    (if f = 0x00 then ''success''
     else if f = 0x01 then ''success''
     else if f = 0x02 then ''shape''
     else if f = 0x03 then ''identity''
     else if f = 0x04 then ''generation''
     else if f = 0x05 then ''evidence''
     else if f = 0x06 then ''authority''
     else if f = 0x07 then ''fence''
     else if f = 0x08 then ''eligibility''
     else if f = 0x09 then ''dependency''
     else if f = 0x0A then ''lifecycle''
     else if f = 0x0B then ''effect''
     else if f = 0x0C then ''ambiguity''
     else if f = 0x0D then ''statefulness''
     else if f = 0x0E then ''failback''
     else if f = 0x0F then ''persistence''
     else if f = 0x10 then ''cancellation''
     else if f = 0x11 then ''protocol''
     else if f = 0x12 then ''internal''
     else ''unknown'')"

definition reason_family :: "reason \<Rightarrow> string" where
  "reason_family r = family_of (drop_bit 8 (reason_value r))"

definition reason_summary :: "reason \<Rightarrow> string" where
  "reason_summary r =
    map (\<lambda>c. if c = CHR ''_'' then CHR '' ''
             else if CHR ''A'' \<le> c \<and> c \<le> CHR ''Z'' then char_of (of_char c + (32 :: nat))
             else c)
        (reason_code_text r)"

definition reason_from_text :: "string \<Rightarrow> reason option" where
  "reason_from_text t = map_option fst (find (\<lambda>e. snd e = t) reason_table)"

subsection \<open>The table\<close>

text \<open>No code has the placeholder text, so a code is known exactly when the table lists it.\<close>

lemma reason_table_no_placeholder: "''UNRECOGNIZED_REASON'' \<notin> set (map snd reason_table)"
  by (simp add: reason_table_def)

lemma reason_known_iff: "reason_known r \<longleftrightarrow> map_of reason_table r \<noteq> None"
proof (cases "map_of reason_table r")
  case None
  then show ?thesis by (simp add: reason_known_def reason_code_text_def)
next
  case (Some t)
  then have "(r, t) \<in> set reason_table" by (rule map_of_SomeD)
  then have "t \<noteq> ''UNRECOGNIZED_REASON''"
    using reason_table_no_placeholder by force
  then show ?thesis
    using Some by (simp add: reason_known_def reason_code_text_def)
qed

lemma reason_known_Ok: "reason_known R_Ok"
  by (simp add: reason_known_def reason_code_text_def reason_table_def)

text \<open>An accepting code is the success code or one of family one.\<close>

lemma reason_is_accept_iff: "reason_is_accept r \<longleftrightarrow> reason_value r < 0x0200"
proof -
  have "drop_bit 8 w \<le> 1 \<longleftrightarrow> w < 0x0200" for w :: u16
  proof -
    have "unat (drop_bit 8 w) = unat w div 256"
      by (simp add: drop_bit_eq_div unat_div)
    moreover have "(n div 256 \<le> 1) = (n < 512)" for n :: nat by arith
    ultimately show ?thesis
      by (simp add: word_le_nat_alt word_less_nat_alt)
  qed
  then show ?thesis by (simp add: reason_is_accept_def)
qed
end
