(* ===== verification/Canonical.thy ===== *)
theory Canonical
  imports Digest Reasons
begin

text \<open>
  canonical.hpp and canonical.cpp: the bounded writer and the bounds-checked reader behind every
  persisted and exported byte. A writer operation is a function on the writer, and an encoder is
  a sequence of them; a reader operation returns the value, or \<open>None\<close> where the source
  returns false, with the reader after it. \<open>carries\<close> relates an encoder to the decoder
  that reads its bytes back and is closed under sequencing; \<open>stable\<close> says that a decoder's
  answer does not depend on what follows the bytes it consumed. The locales \<open>codec\<close> and
  \<open>prefix_codec\<close> are the contracts that every message and record type of the fabric meets.
\<close>

subsection \<open>Limits\<close>

record limits =
  max_text_bytes :: nat
  max_blob_bytes :: nat
  max_items :: nat
  max_depth :: nat
  max_total_bytes :: nat

text \<open>Every writer and reader of the source is built with the default limits.\<close>

definition default_limits :: limits where
  "default_limits = \<lparr>max_text_bytes = 4096, max_blob_bytes = 1048576, max_items = 1048576,
     max_depth = 32, max_total_bytes = 268435456\<rparr>"

definition kAbsoluteMaxTotalBytes :: nat where
  "kAbsoluteMaxTotalBytes = 1073741824"

lemma default_limits_simps [simp]:
  "max_text_bytes default_limits = 4096" "max_blob_bytes default_limits = 1048576"
  "max_items default_limits = 1048576" "max_depth default_limits = 32"
  "max_total_bytes default_limits = 268435456"
  by (simp_all add: default_limits_def)

subsection \<open>The writer\<close>

record writer =
  wr_limits :: limits
  wr_buffer :: bytes
  wr_failed :: bool

definition new_writer :: writer where
  "new_writer = \<lparr>wr_limits = default_limits, wr_buffer = [], wr_failed = False\<rparr>"

definition writer_ok :: "writer \<Rightarrow> bool" where
  "writer_ok w \<longleftrightarrow> \<not> wr_failed w"

definition writer_fail :: "writer \<Rightarrow> writer" where
  "writer_fail w = w\<lparr>wr_failed := True, wr_buffer := []\<rparr>"

definition append_bytes :: "bytes \<Rightarrow> writer \<Rightarrow> writer" where
  "append_bytes bs w = w\<lparr>wr_buffer := wr_buffer w @ bs\<rparr>"

definition reserve :: "nat \<Rightarrow> writer \<Rightarrow> bool \<times> writer" where
  "reserve additional w =
    (if wr_failed w then (False, w)
     else
       let limit = min (max_total_bytes (wr_limits w)) kAbsoluteMaxTotalBytes
       in if additional > limit \<or> length (wr_buffer w) > limit - additional
          then (False, writer_fail w)
          else (True, w))"

definition reserved :: "nat \<Rightarrow> (writer \<Rightarrow> writer) \<Rightarrow> writer \<Rightarrow> writer" where
  "reserved n f w = (case reserve n w of (ok, w') \<Rightarrow> if ok then f w' else w')"

definition be_bytes :: "nat list \<Rightarrow> 'a::len word \<Rightarrow> bytes" where
  "be_bytes shifts value = map (\<lambda>shift. ucast (drop_bit shift value AND 0xFF)) shifts"

definition put_u8 :: "u8 \<Rightarrow> writer \<Rightarrow> writer" where
  "put_u8 value = reserved 1 (append_bytes [value])"

definition put_u16 :: "u16 \<Rightarrow> writer \<Rightarrow> writer" where
  "put_u16 value = reserved 2 (append_bytes (be_bytes [8, 0] value))"

definition put_u32 :: "u32 \<Rightarrow> writer \<Rightarrow> writer" where
  "put_u32 value = reserved 4 (append_bytes (be_bytes [24, 16, 8, 0] value))"

definition put_u64 :: "u64 \<Rightarrow> writer \<Rightarrow> writer" where
  "put_u64 value = reserved 8 (append_bytes (be_bytes [56, 48, 40, 32, 24, 16, 8, 0] value))"

definition put_bool :: "bool \<Rightarrow> writer \<Rightarrow> writer" where
  "put_bool value = put_u8 (if value then 1 else 0)"

definition text_bytes :: "string \<Rightarrow> bytes" where
  "text_bytes t = map of_char t"

definition put_blob :: "bytes \<Rightarrow> writer \<Rightarrow> writer" where
  "put_blob data w =
    (if length data > max_blob_bytes (wr_limits w) then writer_fail w
     else case narrow (of_nat (length data)) of
       None \<Rightarrow> writer_fail w
     | Some encoded \<Rightarrow> reserved (4 + length data) (\<lambda>w'. append_bytes data (put_u32 encoded w')) w)"

definition put_text :: "string \<Rightarrow> writer \<Rightarrow> writer" where
  "put_text value w =
    (if length value > max_text_bytes (wr_limits w) then writer_fail w
     else case narrow (of_nat (length value)) of
       None \<Rightarrow> writer_fail w
     | Some encoded \<Rightarrow>
         reserved (4 + length value) (\<lambda>w'. append_bytes (text_bytes value) (put_u32 encoded w')) w)"

definition put_absence :: "writer \<Rightarrow> writer" where
  "put_absence = put_u8 0"

definition put_presence :: "writer \<Rightarrow> writer" where
  "put_presence = put_u8 1"

definition put_count :: "nat \<Rightarrow> writer \<Rightarrow> bool \<times> writer" where
  "put_count count w =
    (if wr_failed w then (False, w)
     else if count > max_items (wr_limits w) then (False, writer_fail w)
     else case narrow (of_nat count) of
       None \<Rightarrow> (False, writer_fail w)
     | Some encoded \<Rightarrow> let w' = put_u32 encoded w in (\<not> wr_failed w', w'))"

definition writer_digest :: "writer \<Rightarrow> digest" where
  "writer_digest w =
    builder_value (if wr_buffer w \<noteq> [] then builder_update builder_start (wr_buffer w) else builder_start)"

text \<open>An encoder runs its operations in order on one writer.\<close>

definition seq :: "(writer \<Rightarrow> writer) list \<Rightarrow> writer \<Rightarrow> writer" where
  "seq fs w = fold (\<lambda>f. f) fs w"

lemma seq_simps: "seq [] w = w" "seq (f # fs) w = seq fs (f w)"
  by (simp_all add: seq_def)

text \<open>What an encoder writes on its own.\<close>

definition encoded :: "(writer \<Rightarrow> writer) \<Rightarrow> bytes option" where
  "encoded f = (let w = f new_writer in if wr_failed w then None else Some (wr_buffer w))"

subsection \<open>The reader\<close>

record reader =
  rd_data :: bytes
  rd_offset :: nat
  rd_depth :: nat
  rd_failed :: bool
  rd_error :: reason
  rd_limits :: limits

type_synonym 'a decoder = "reader \<Rightarrow> 'a option \<times> reader"

definition reader_fail :: "reason \<Rightarrow> reader \<Rightarrow> reader" where
  "reader_fail why r = (if \<not> rd_failed r then r\<lparr>rd_failed := True, rd_error := why\<rparr> else r)"

definition new_reader :: "bytes \<Rightarrow> reader" where
  "new_reader data =
    (let r = \<lparr>rd_data = data, rd_offset = 0, rd_depth = 0, rd_failed = False, rd_error = R_Ok,
              rd_limits = default_limits\<rparr>
     in if length data > max_total_bytes (rd_limits r) \<or> length data > kAbsoluteMaxTotalBytes
        then reader_fail R_Oversized r else r)"

definition remaining :: "reader \<Rightarrow> nat" where
  "remaining r = length (rd_data r) - rd_offset r"

definition at_end :: "reader \<Rightarrow> bool" where
  "at_end r \<longleftrightarrow> \<not> rd_failed r \<and> rd_offset r = length (rd_data r)"

definition need :: "nat \<Rightarrow> reader \<Rightarrow> bool \<times> reader" where
  "need n r =
    (if rd_failed r then (False, r)
     else if n > length (rd_data r) - rd_offset r then (False, reader_fail R_Truncated r)
     else (True, r))"

definition advance :: "nat \<Rightarrow> reader \<Rightarrow> reader" where
  "advance n r = r\<lparr>rd_offset := rd_offset r + n\<rparr>"

text \<open>The next bytes of the data, when there are that many.\<close>

definition take_bytes :: "nat \<Rightarrow> bytes decoder" where
  "take_bytes n r =
    (case need n r of (ok, r') \<Rightarrow>
      if ok then (Some (take n (drop (rd_offset r') (rd_data r'))), advance n r') else (None, r'))"

text \<open>\<open>dbind\<close> is the early return: a failed operation ends the decoder.\<close>

definition dbind :: "'a decoder \<Rightarrow> ('a \<Rightarrow> 'b decoder) \<Rightarrow> 'b decoder" where
  "dbind d k r = (case d r of (None, r') \<Rightarrow> (None, r') | (Some a, r') \<Rightarrow> k a r')"

definition dreturn :: "'a \<Rightarrow> 'a decoder" where
  "dreturn a r = (Some a, r)"

definition dfail :: "reason \<Rightarrow> 'a decoder" where
  "dfail why r = (None, reader_fail why r)"

definition be_value :: "bytes \<Rightarrow> 'a::len word" where
  "be_value bs = foldl (\<lambda>value b. push_bit 8 value OR ucast b) 0 bs"

definition get_u8 :: "u8 decoder" where
  "get_u8 = dbind (take_bytes 1) (\<lambda>bs. dreturn (hd bs))"

definition get_u16 :: "u16 decoder" where
  "get_u16 = dbind (take_bytes 2) (\<lambda>bs. dreturn (be_value bs))"

definition get_u32 :: "u32 decoder" where
  "get_u32 = dbind (take_bytes 4) (\<lambda>bs. dreturn (be_value bs))"

definition get_u64 :: "u64 decoder" where
  "get_u64 = dbind (take_bytes 8) (\<lambda>bs. dreturn (be_value bs))"

definition get_bool :: "bool decoder" where
  "get_bool = dbind get_u8 (\<lambda>raw. if raw > 1 then dfail R_Malformed else dreturn (raw = 1))"

definition get_blob :: "bytes decoder" where
  "get_blob = dbind get_u32 (\<lambda>len r.
    if unat len > max_blob_bytes (rd_limits r) then dfail R_Oversized r else take_bytes (unat len) r)"

definition bytes_text :: "bytes \<Rightarrow> string" where
  "bytes_text bs = map (\<lambda>b. char_of (unat b)) bs"

definition get_text :: "string decoder" where
  "get_text = dbind get_u32 (\<lambda>len r.
    if unat len > max_text_bytes (rd_limits r) then dfail R_Oversized r
    else dbind (take_bytes (unat len)) (\<lambda>bs. dreturn (bytes_text bs)) r)"

definition get_presence :: "bool decoder" where
  "get_presence = dbind get_u8 (\<lambda>raw. if raw > 1 then dfail R_Malformed else dreturn (raw = 1))"

definition get_count :: "nat \<Rightarrow> nat decoder" where
  "get_count element_min_bytes = dbind get_u32 (\<lambda>raw r.
    let value = unat raw in
    if value > max_items (rd_limits r) then dfail R_Oversized r
    else if element_min_bytes > 0 \<and> value > (length (rd_data r) - rd_offset r) div element_min_bytes
    then dfail R_Truncated r
    else dreturn value r)"

definition push_depth :: "unit decoder" where
  "push_depth r =
    (if rd_failed r then (None, r)
     else if rd_depth r \<ge> max_depth (rd_limits r) then dfail R_DepthExceeded r
     else (Some (), r\<lparr>rd_depth := rd_depth r + 1\<rparr>))"

definition pop_depth :: "reader \<Rightarrow> reader" where
  "pop_depth r = (if rd_depth r > 0 then r\<lparr>rd_depth := rd_depth r - 1\<rparr> else r)"

text \<open>A loop bracketed by \<^verbatim>\<open>push_depth\<close> and \<^verbatim>\<open>pop_depth\<close>, which the
  source also runs on every early return of the loop.\<close>

definition nested :: "'a decoder \<Rightarrow> 'a decoder" where
  "nested d = dbind push_depth (\<lambda>_ r. case d r of (x, r') \<Rightarrow> (x, pop_depth r'))"

text \<open>A counted loop that threads a value through its iterations.\<close>

primrec dloop :: "nat \<Rightarrow> ('s \<Rightarrow> 's decoder) \<Rightarrow> 's \<Rightarrow> 's decoder" where
  "dloop 0 body s = dreturn s"
| "dloop (Suc n) body s = dbind (body s) (dloop n body)"

definition decode_many :: "nat \<Rightarrow> 'a decoder \<Rightarrow> 'a list decoder" where
  "decode_many n d = dloop n (\<lambda>xs. dbind d (\<lambda>x. dreturn (xs @ [x]))) []"

text \<open>The encoder of a counted collection writes nothing more once the count is refused.\<close>

definition encode_counted :: "nat \<Rightarrow> (writer \<Rightarrow> writer) \<Rightarrow> writer \<Rightarrow> writer" where
  "encode_counted n f w = (case put_count n w of (ok, w') \<Rightarrow> if ok then f w' else w')"

definition encode_list :: "('a \<Rightarrow> writer \<Rightarrow> writer) \<Rightarrow> 'a list \<Rightarrow> writer \<Rightarrow> writer" where
  "encode_list encode_one items = encode_counted (length items) (seq (map encode_one items))"

definition decode_vector :: "nat \<Rightarrow> 'a decoder \<Rightarrow> 'a list decoder" where
  "decode_vector element_min_bytes d = dbind (get_count element_min_bytes) (\<lambda>n. nested (decode_many n d))"

subsection \<open>What the writer promises\<close>

text \<open>A failed writer holds no bytes, so a truncated encoding cannot be mistaken for a valid
  one, and no writer ever holds more than its ceiling.\<close>

definition writer_ceiling :: "writer \<Rightarrow> nat" where
  "writer_ceiling w = min (max_total_bytes (wr_limits w)) kAbsoluteMaxTotalBytes"

definition writer_clean :: "writer \<Rightarrow> bool" where
  "writer_clean w \<longleftrightarrow> (wr_failed w \<longrightarrow> wr_buffer w = []) \<and> length (wr_buffer w) \<le> writer_ceiling w"

definition appender :: "(writer \<Rightarrow> writer) \<Rightarrow> bool" where
  "appender f \<longleftrightarrow> (\<forall>w. wr_limits (f w) = wr_limits w \<and> (writer_clean w \<longrightarrow> writer_clean (f w)) \<and>
     (\<not> wr_failed (f w) \<longrightarrow> \<not> wr_failed w \<and> (\<exists>bs. f w = append_bytes bs w)))"

lemma writer_simps [simp]:
  "wr_limits (append_bytes bs w) = wr_limits w" "wr_failed (append_bytes bs w) = wr_failed w"
  "wr_buffer (append_bytes bs w) = wr_buffer w @ bs"
  "wr_limits (writer_fail w) = wr_limits w" "wr_failed (writer_fail w)" "wr_buffer (writer_fail w) = []"
  "writer_ceiling (append_bytes bs w) = writer_ceiling w" "writer_ceiling (writer_fail w) = writer_ceiling w"
  by (simp_all add: append_bytes_def writer_fail_def writer_ceiling_def)

lemma append_bytes_append [simp]: "append_bytes cs (append_bytes bs w) = append_bytes (bs @ cs) w"
  by (simp add: append_bytes_def)

lemma append_bytes_Nil [simp]: "append_bytes [] w = w"
  by (simp add: append_bytes_def)

lemma append_bytes_inject [simp]: "append_bytes bs w = append_bytes cs w \<longleftrightarrow> bs = cs"
  by (metis same_append_eq writer_simps(3))

lemma append_bytes_failed: "append_bytes bs w = writer_fail v \<Longrightarrow> wr_failed w"
  by (metis writer_simps(2,5))

lemma clean_fail [simp]: "writer_clean (writer_fail w)"
  by (simp add: writer_clean_def)

lemma appenderD:
  assumes "appender f" and "\<not> wr_failed (f w)"
  obtains bs where "\<not> wr_failed w" "f w = append_bytes bs w"
  using assms unfolding appender_def by blast

lemma appender_limits: "appender f \<Longrightarrow> wr_limits (f w) = wr_limits w"
  by (simp add: appender_def)

lemma appender_clean: "appender f \<Longrightarrow> writer_clean w \<Longrightarrow> writer_clean (f w)"
  by (simp add: appender_def)

lemma appenderI:
  assumes "\<And>w. wr_limits (f w) = wr_limits w"
    and "\<And>w. writer_clean w \<Longrightarrow> writer_clean (f w)"
    and "\<And>w. \<not> wr_failed (f w) \<Longrightarrow> \<not> wr_failed w \<and> (\<exists>bs. f w = append_bytes bs w)"
  shows "appender f"
  using assms by (simp add: appender_def)

lemma appender_comp:
  assumes f: "appender f" and g: "appender g"
  shows "appender (\<lambda>w. g (f w))"
proof (rule appenderI)
  fix w
  show "wr_limits (g (f w)) = wr_limits w"
    using appender_limits [OF g] appender_limits [OF f] by metis
  show "writer_clean (g (f w))" if "writer_clean w"
    by (rule appender_clean [OF g appender_clean [OF f that]])
  assume "\<not> wr_failed (g (f w))"
  with g obtain bs where ok: "\<not> wr_failed (f w)" and 1: "g (f w) = append_bytes bs (f w)"
    by (rule appenderD)
  from f ok obtain cs where "\<not> wr_failed w" and 2: "f w = append_bytes cs w"
    by (rule appenderD)
  have "g (f w) = append_bytes (cs @ bs) w" unfolding 1 unfolding 2 by simp
  with \<open>\<not> wr_failed w\<close> show "\<not> wr_failed w \<and> (\<exists>bs. g (f w) = append_bytes bs w)" by blast
qed

lemma appender_id: "appender (\<lambda>w. w)"
proof (rule appenderI)
  fix w :: writer
  assume "\<not> wr_failed w"
  moreover have "w = append_bytes [] w" by simp
  ultimately show "\<not> wr_failed w \<and> (\<exists>bs. w = append_bytes bs w)" by blast
qed simp_all

lemma appender_Nil [codec_rules]: "appender (seq [])"
proof -
  have "seq [] = (\<lambda>w. w)" by (rule ext) (simp add: seq_simps)
  then show ?thesis by (simp only: appender_id)
qed

lemma appender_Cons [codec_rules]: "appender f \<Longrightarrow> appender (seq fs) \<Longrightarrow> appender (seq (f # fs))"
proof -
  assume "appender f" "appender (seq fs)"
  then have "appender (\<lambda>w. seq fs (f w))" by (rule appender_comp)
  moreover have "seq (f # fs) = (\<lambda>w. seq fs (f w))" by (rule ext) (simp add: seq_simps)
  ultimately show ?thesis by (simp only:)
qed

lemma appender_map: "(\<And>x. x \<in> set xs \<Longrightarrow> appender (enc x)) \<Longrightarrow> appender (seq (map enc xs))"
  by (induction xs) (auto intro: appender_Nil appender_Cons)

lemma reserve_eq:
  "reserve n w =
    (if wr_failed w then (False, w)
     else if length (wr_buffer w) + n \<le> writer_ceiling w then (True, w) else (False, writer_fail w))"
proof -
  define c where "c = writer_ceiling w"
  have 1: "(n > c \<or> length (wr_buffer w) > c - n) = (\<not> length (wr_buffer w) + n \<le> c)" by arith
  have 2: "reserve n w = (if wr_failed w then (False, w)
      else if n > c \<or> length (wr_buffer w) > c - n then (False, writer_fail w) else (True, w))"
    unfolding reserve_def Let_def c_def writer_ceiling_def by (rule refl)
  show ?thesis unfolding 2 1 unfolding c_def by simp
qed

lemma reserved_eq:
  "reserved n f w =
    (if wr_failed w then w else if length (wr_buffer w) + n \<le> writer_ceiling w then f w else writer_fail w)"
  by (simp add: reserved_def reserve_eq)

lemmas reserved_append = reserved_eq [of "length bs" "append_bytes bs" for bs]

lemma appender_reserved: "appender (reserved (length bs) (append_bytes bs))"
  by (rule appenderI) (auto simp: reserved_eq writer_clean_def split: if_splits)

lemma reserved_bytes: "\<not> wr_failed (reserved (length bs) (append_bytes bs) w) \<Longrightarrow>
  reserved (length bs) (append_bytes bs) w = append_bytes bs w"
  by (auto simp: reserved_append split: if_splits)

lemma length_be_bytes [simp]: "length (be_bytes shifts v) = length shifts"
  by (simp add: be_bytes_def)

lemma put_u8_reserved: "put_u8 v = reserved (length [v]) (append_bytes [v])"
  by (simp add: put_u8_def)

lemma put_u16_reserved: "put_u16 v = reserved (length (be_bytes [8, 0] v)) (append_bytes (be_bytes [8, 0] v))"
  by (simp add: put_u16_def eval_nat_numeral)

lemma put_u32_reserved:
  "put_u32 v = reserved (length (be_bytes [24, 16, 8, 0] v)) (append_bytes (be_bytes [24, 16, 8, 0] v))"
  by (simp add: put_u32_def eval_nat_numeral)

lemma put_u64_reserved:
  "put_u64 v = reserved (length (be_bytes [56, 48, 40, 32, 24, 16, 8, 0] v))
     (append_bytes (be_bytes [56, 48, 40, 32, 24, 16, 8, 0] v))"
  by (simp add: put_u64_def eval_nat_numeral)

lemmas put_reserved = put_u8_reserved put_u16_reserved put_u32_reserved put_u64_reserved

lemma appender_u8 [codec_rules]: "appender (put_u8 v)"
  by (simp only: put_u8_reserved appender_reserved)

lemma appender_u16 [codec_rules]: "appender (put_u16 v)"
  by (simp only: put_u16_reserved appender_reserved)

lemma appender_u32 [codec_rules]: "appender (put_u32 v)"
  by (simp only: put_u32_reserved appender_reserved)

lemma appender_u64 [codec_rules]: "appender (put_u64 v)"
  by (simp only: put_u64_reserved appender_reserved)

lemma appender_bool [codec_rules]: "appender (put_bool b)"
  by (simp add: put_bool_def appender_u8)

lemma appender_presence [codec_rules]: "appender put_presence" "appender put_absence"
  by (simp_all add: put_presence_def put_absence_def appender_u8)

text \<open>A length-prefixed write is one reservation.\<close>

lemma narrow_nat:
  assumes "n < 2 ^ 64"
  shows "(narrow (of_nat n) :: u32 option) = (if n < 2 ^ 32 then Some (of_nat n) else None)"
proof -
  have n: "unat (of_nat n :: u64) = n"
    using assms by (simp add: unat_of_nat)
  have "unat (ucast (- 1 :: u32) :: u64) = 2 ^ 32 - 1"
    by (simp add: unsigned_ucast_eq unsigned_minus_1_eq_mask mask_eq_exp_minus_1 take_bit_eq_mod)
  then have "of_nat n > (ucast (- 1 :: u32) :: u64) \<longleftrightarrow> \<not> n < 2 ^ 32"
    using n by (simp add: word_less_nat_alt) arith
  moreover have "(ucast (of_nat n :: u64) :: u32) = of_nat n"
    using n of_nat_unat [of "of_nat n :: u64", where 'a = "32 word"] by simp
  ultimately show ?thesis by (simp add: narrow_def)
qed

definition prefixed :: "bytes \<Rightarrow> bytes" where
  "prefixed data = be_bytes [24, 16, 8, 0] (of_nat (length data) :: u32) @ data"

lemma length_prefixed [simp]: "length (prefixed data) = 4 + length data"
  by (simp add: prefixed_def)

lemma reserved_prefixed:
  "reserved (4 + length data) (\<lambda>w'. append_bytes data (put_u32 (of_nat (length data)) w')) w =
   reserved (length (prefixed data)) (append_bytes (prefixed data)) w"
proof -
  have "put_u32 v w = append_bytes (be_bytes [24, 16, 8, 0] v) w"
    if "\<not> wr_failed w" "length (wr_buffer w) + (4 + length data) \<le> writer_ceiling w" for v
    using that unfolding put_u32_reserved reserved_append by simp
  then show ?thesis by (simp add: reserved_eq prefixed_def)
qed

definition put_prefixed :: "bytes \<Rightarrow> writer \<Rightarrow> writer" where
  "put_prefixed data w =
    (case narrow (of_nat (length data)) of
       None \<Rightarrow> writer_fail w
     | Some e \<Rightarrow> reserved (4 + length data) (\<lambda>w'. append_bytes data (put_u32 e w')) w)"

lemma put_prefixed_cases:
  "put_prefixed data w \<in> {writer_fail w, reserved (length (prefixed data)) (append_bytes (prefixed data)) w}"
proof (cases "length data < 2 ^ 64")
  case True
  then have "put_prefixed data w = (if length data < 2 ^ 32
      then reserved (4 + length data) (\<lambda>w'. append_bytes data (put_u32 (of_nat (length data)) w')) w
      else writer_fail w)"
    by (simp add: put_prefixed_def narrow_nat)
  then show ?thesis by (simp add: reserved_prefixed)
next
  case False
  have "writer_ceiling w \<le> 1073741824" by (simp add: writer_ceiling_def kAbsoluteMaxTotalBytes_def)
  with False have "writer_ceiling w < 4 + length data" by simp
  then have "reserved (4 + length data) f w = reserved (4 + length data) g w" for f g
    by (simp add: reserved_eq)
  then show ?thesis
    using reserved_prefixed [of data w] by (auto simp: put_prefixed_def split: option.splits)
qed

lemma put_blob_prefixed:
  "put_blob data w = (if length data > max_blob_bytes (wr_limits w) then writer_fail w else put_prefixed data w)"
  by (simp add: put_blob_def put_prefixed_def)

lemma put_text_prefixed:
  "put_text t w = (if length t > max_text_bytes (wr_limits w) then writer_fail w else put_prefixed (text_bytes t) w)"
  by (simp add: put_text_def put_prefixed_def text_bytes_def cong: option.case_cong)

lemma appender_prefixed: "appender (\<lambda>w. if P w then writer_fail w else put_prefixed data w)"
proof -
  define f where "f w = (if P w then writer_fail w else put_prefixed data w)" for w
  let ?g = "reserved (length (prefixed data)) (append_bytes (prefixed data))"
  have f: "f w = writer_fail w \<or> f w = ?g w" for w
    using put_prefixed_cases [of data w] by (simp add: f_def)
  have g: "appender ?g" by (rule appender_reserved)
  have "appender f"
  proof (rule appenderI)
    fix w
    show "wr_limits (f w) = wr_limits w"
      using f [of w] appender_limits [OF g] by auto
    show "writer_clean (f w)" if "writer_clean w"
      using f [of w] appender_clean [OF g that] by auto
    assume "\<not> wr_failed (f w)"
    then have "f w = ?g w" "\<not> wr_failed (?g w)" using f [of w] by auto
    with g show "\<not> wr_failed w \<and> (\<exists>bs. f w = append_bytes bs w)"
      by (auto elim!: appenderD)
  qed
  then show ?thesis by (simp only: f_def [abs_def])
qed

lemma appender_text [codec_rules]: "appender (put_text t)"
proof -
  have "put_text t = (\<lambda>w. if length t > max_text_bytes (wr_limits w) then writer_fail w
      else put_prefixed (text_bytes t) w)"
    by (rule ext) (rule put_text_prefixed)
  then show ?thesis using appender_prefixed [where P = "\<lambda>w. length t > max_text_bytes (wr_limits w)"] by simp
qed

lemma appender_blob [codec_rules]: "appender (put_blob data)"
proof -
  have "put_blob data = (\<lambda>w. if length data > max_blob_bytes (wr_limits w) then writer_fail w
      else put_prefixed data w)"
    by (rule ext) (rule put_blob_prefixed)
  then show ?thesis using appender_prefixed [where P = "\<lambda>w. length data > max_blob_bytes (wr_limits w)"] by simp
qed

lemma put_text_bytes:
  assumes "\<not> wr_failed (put_text t w)"
  shows "length t \<le> max_text_bytes (wr_limits w)" "put_text t w = append_bytes (prefixed (text_bytes t)) w"
  using assms put_prefixed_cases [of "text_bytes t" w] reserved_bytes [of "prefixed (text_bytes t)" w]
  by (auto simp: put_text_prefixed split: if_splits)

lemma put_blob_bytes:
  assumes "\<not> wr_failed (put_blob data w)"
  shows "length data \<le> max_blob_bytes (wr_limits w)" "put_blob data w = append_bytes (prefixed data) w"
  using assms put_prefixed_cases [of data w] reserved_bytes [of "prefixed data" w]
  by (auto simp: put_blob_prefixed split: if_splits)

text \<open>A count is a 32 bit write, or the collection is refused.\<close>

lemma put_count_cases:
  "put_count n w = (False, w) \<and> wr_failed w \<or> put_count n w = (False, writer_fail w) \<or>
   (\<exists>e. put_count n w = (\<not> wr_failed (put_u32 e w), put_u32 e w) \<and> n \<le> max_items (wr_limits w) \<and>
        narrow (of_nat n) = Some e)"
  by (auto simp: put_count_def Let_def split: option.splits)

lemma appender_counted [codec_rules]:
  assumes f: "appender f"
  shows "appender (encode_counted n f)"
proof (rule appenderI)
  fix w
  show "wr_limits (encode_counted n f w) = wr_limits w"
    using put_count_cases [of n w]
    by (auto simp: encode_counted_def appender_limits [OF f] appender_limits [OF appender_u32])
  show "writer_clean (encode_counted n f w)" if "writer_clean w"
    using put_count_cases [of n w] appender_clean [OF appender_u32 that]
    by (auto simp: encode_counted_def that appender_clean [OF f])
  assume "\<not> wr_failed (encode_counted n f w)"
  then obtain e where "\<not> wr_failed (put_u32 e w)" and "encode_counted n f w = f (put_u32 e w)"
    using put_count_cases [of n w] by (auto simp: encode_counted_def split: if_splits)
  with appender_comp [OF appender_u32 f] show "\<not> wr_failed w \<and> (\<exists>bs. encode_counted n f w = append_bytes bs w)"
    using \<open>\<not> wr_failed (encode_counted n f w)\<close> by (metis appenderD)
qed

lemma appender_list [codec_rules]:
  "(\<And>x. x \<in> set xs \<Longrightarrow> appender (enc x)) \<Longrightarrow> appender (encode_list enc xs)"
  unfolding encode_list_def by (intro appender_counted appender_map)

lemma encoded_clean: "appender f \<Longrightarrow> wr_failed (f new_writer) \<Longrightarrow> wr_buffer (f new_writer) = []"
  using appender_clean [of f new_writer] by (auto simp: writer_clean_def new_writer_def)

subsection \<open>Reading back\<close>

text \<open>Big-endian integers.\<close>

lemma be_step:
  fixes v :: "'a::len word"
  shows "push_bit 8 (drop_bit (s + 8) v) OR ucast (ucast (drop_bit s v AND 0xFF) :: u8) = drop_bit s v"
proof -
  have m: "drop_bit s v AND 0xFF = take_bit 8 (drop_bit s v)"
    by (simp add: take_bit_eq_mask mask_eq_exp_minus_1)
  have i: "n - 8 + (s + 8) = n + s" if "\<not> n < 8" for n using that by simp
  show ?thesis unfolding m
  proof (rule bit_word_eqI)
    fix n
    assume "n < LENGTH('a)"
    then show "bit (push_bit 8 (drop_bit (s + 8) v) OR ucast (ucast (take_bit 8 (drop_bit s v)) :: u8)) n =
      bit (drop_bit s v) n"
      using i [of n] by (cases "n < 8") (auto simp: bit_simps add.commute dest: bit_imp_le_length)
  qed
qed

lemma be_roundtrip_u16: "be_value (be_bytes [8, 0] v) = (v :: u16)"
  using be_step [of 8 v] be_step [of 0 v] by (simp add: be_value_def be_bytes_def drop_bit_word_beyond)

lemma be_roundtrip_u32: "be_value (be_bytes [24, 16, 8, 0] v) = (v :: u32)"
  using be_step [of 24 v] be_step [of 16 v] be_step [of 8 v] be_step [of 0 v]
  by (simp add: be_value_def be_bytes_def drop_bit_word_beyond)

lemma be_roundtrip_u64: "be_value (be_bytes [56, 48, 40, 32, 24, 16, 8, 0] v) = (v :: u64)"
  using be_step [of 56 v] be_step [of 48 v] be_step [of 40 v] be_step [of 32 v]
    be_step [of 24 v] be_step [of 16 v] be_step [of 8 v] be_step [of 0 v]
  by (simp add: be_value_def be_bytes_def drop_bit_word_beyond)

lemma text_roundtrip: "bytes_text (text_bytes t) = t"
proof -
  have "char_of (unat (of_char c :: u8)) = c" for c :: char
    unfolding of_nat_of_char [where 'a = u8, symmetric] unat_of_nat by simp
  then show ?thesis by (simp add: bytes_text_def text_bytes_def comp_def)
qed

text \<open>A reader in use: it has not failed, its nesting is at most \<open>m\<close>, its limits are the default.\<close>

definition ready :: "nat \<Rightarrow> reader \<Rightarrow> bool" where
  "ready m r \<longleftrightarrow> \<not> rd_failed r \<and> rd_depth r \<le> m \<and> rd_limits r = default_limits"

definition decodes :: "nat \<Rightarrow> 'a decoder \<Rightarrow> bytes \<Rightarrow> 'a \<Rightarrow> bool" where
  "decodes m d bs x \<longleftrightarrow> (\<forall>r pre post.
     ready m r \<and> rd_data r = pre @ bs @ post \<and> rd_offset r = length pre \<longrightarrow>
     d r = (Some x, advance (length bs) r))"

lemma advance_simps [simp]:
  "rd_data (advance n r) = rd_data r" "rd_offset (advance n r) = rd_offset r + n"
  "rd_failed (advance n r) = rd_failed r" "rd_depth (advance n r) = rd_depth r"
  "rd_limits (advance n r) = rd_limits r" "ready m (advance n r) = ready m r"
  "advance 0 r = r" "advance k (advance n r) = advance (n + k) r"
  by (simp_all add: advance_def ready_def)

lemma decodesI:
  assumes "\<And>r pre post. ready m r \<Longrightarrow> rd_data r = pre @ bs @ post \<Longrightarrow> rd_offset r = length pre \<Longrightarrow>
    d r = (Some x, advance (length bs) r)"
  shows "decodes m d bs x"
  using assms by (auto simp: decodes_def)

lemma decodesD:
  "decodes m d bs x \<Longrightarrow> ready m r \<Longrightarrow> rd_data r = pre @ bs @ post \<Longrightarrow> rd_offset r = length pre \<Longrightarrow>
   d r = (Some x, advance (length bs) r)"
  by (auto simp: decodes_def)

lemma decodes_return: "decodes m (dreturn x) [] x"
  by (rule decodesI) (simp add: dreturn_def)

lemma decodes_bind:
  assumes d: "decodes m d bs a" and k: "decodes m (k a) cs x"
  shows "decodes m (dbind d k) (bs @ cs) x"
proof (rule decodesI)
  fix r pre post
  assume r: "ready m r" "rd_data r = pre @ (bs @ cs) @ post" "rd_offset r = length pre"
  then have 1: "d r = (Some a, advance (length bs) r)"
    using decodesD [OF d, of r pre "cs @ post"] by simp
  moreover have "k a (advance (length bs) r) = (Some x, advance (length cs) (advance (length bs) r))"
    using r by (intro decodesD [OF k, of _ "pre @ bs" post]) simp_all
  ultimately show "dbind d k r = (Some x, advance (length (bs @ cs)) r)"
    by (simp add: dbind_def)
qed

lemma decodes_take: "n = length bs \<Longrightarrow> decodes m (take_bytes n) bs bs"
  by (rule decodesI) (simp add: take_bytes_def need_def ready_def)

lemma decodes_word:
  assumes "n = length bs" and "f bs = x"
  shows "decodes m (dbind (take_bytes n) (\<lambda>bs. dreturn (f bs))) bs x"
  using decodes_bind [OF decodes_take decodes_return, of n bs m f] assms by simp

lemma decodes_u8: "decodes m get_u8 [v] v"
  unfolding get_u8_def by (rule decodes_word) simp_all

lemma decodes_u16: "decodes m get_u16 (be_bytes [8, 0] v) v"
  unfolding get_u16_def by (rule decodes_word) (simp_all add: be_roundtrip_u16)

lemma decodes_u32: "decodes m get_u32 (be_bytes [24, 16, 8, 0] v) v"
  unfolding get_u32_def by (rule decodes_word) (simp_all add: be_roundtrip_u32)

lemma decodes_u64: "decodes m get_u64 (be_bytes [56, 48, 40, 32, 24, 16, 8, 0] v) v"
  unfolding get_u64_def by (rule decodes_word) (simp_all add: be_roundtrip_u64)

lemma unat_of_nat_u32: "n \<le> 1048576 \<Longrightarrow> unat (of_nat n :: u32) = n"
  by (simp add: unat_of_nat)

lemma decodes_blob: "length data \<le> 1048576 \<Longrightarrow> decodes m get_blob (prefixed data) data"
  unfolding get_blob_def prefixed_def
  by (rule decodes_bind [OF decodes_u32], rule decodesI)
    (auto simp: ready_def unat_of_nat_u32 take_bytes_def need_def)

lemma decodes_text: "length t \<le> 4096 \<Longrightarrow> decodes m get_text (prefixed (text_bytes t)) t"
  unfolding get_text_def prefixed_def
  by (rule decodes_bind [OF decodes_u32], rule decodesI)
    (auto simp: ready_def unat_of_nat_u32 take_bytes_def need_def dbind_def dreturn_def text_roundtrip
      text_bytes_def [of t, THEN arg_cong, of length])

lemma decodes_count:
  assumes k: "decodes m (k n) bs x" and len: "e * n \<le> length bs" and n: "n \<le> 1048576"
  shows "decodes m (dbind (get_count e) k) (be_bytes [24, 16, 8, 0] (of_nat n :: u32) @ bs) x"
proof (rule decodesI)
  fix r pre post
  assume r: "ready m r" "rd_data r = pre @ (be_bytes [24, 16, 8, 0] (of_nat n :: u32) @ bs) @ post"
    "rd_offset r = length pre"
  let ?r = "advance 4 r"
  have 1: "get_u32 r = (Some (of_nat n), ?r)"
    using decodesD [OF decodes_u32, of m r pre "of_nat n" "bs @ post"] r by (simp add: eval_nat_numeral)
  have "n \<le> (length bs + length post) div e" if "e > 0"
    using that len by (simp add: less_eq_div_iff_mult_less_eq mult.commute)
  then have "get_count e r = (Some n, ?r)"
    using 1 r n by (auto simp: get_count_def dbind_def dreturn_def ready_def unat_of_nat_u32 Let_def)
  moreover have "k n ?r = (Some x, advance (length bs) ?r)"
    using r by (intro decodesD [OF k, of _ "pre @ be_bytes [24, 16, 8, 0] (of_nat n :: u32)" post]) simp_all
  ultimately show "dbind (get_count e) k r =
      (Some x, advance (length (be_bytes [24, 16, 8, 0] (of_nat n :: u32) @ bs)) r)"
    by (simp add: dbind_def eval_nat_numeral)
qed

lemma decodes_nested:
  assumes d: "decodes (Suc m) d bs x" and "m < 32"
  shows "decodes m (nested d) bs x"
proof (rule decodesI)
  fix r pre post
  assume r: "ready m r" "rd_data r = pre @ bs @ post" "rd_offset r = length pre"
  let ?r = "r\<lparr>rd_depth := rd_depth r + 1\<rparr>"
  have "push_depth r = (Some (), ?r)"
    using r assms(2) by (auto simp: push_depth_def ready_def)
  moreover have "d ?r = (Some x, advance (length bs) ?r)"
    using r by (intro decodesD [OF d, of _ pre post]) (simp_all add: ready_def)
  moreover have "pop_depth (advance (length bs) ?r) = advance (length bs) r"
    by (simp add: pop_depth_def advance_def)
  ultimately show "nested d r = (Some x, advance (length bs) r)"
    by (simp add: nested_def dbind_def)
qed

lemma decodes_mono: "decodes m d bs x \<Longrightarrow> n \<le> m \<Longrightarrow> decodes n d bs x"
  by (auto simp: decodes_def ready_def)

subsection \<open>Encoders and the decoders of their bytes\<close>

text \<open>Whenever the encoder \<open>f\<close> succeeds, the decoder \<open>d\<close> reads \<open>x\<close> back from exactly the
  bytes it wrote, of which there are at least \<open>k\<close>.\<close>

definition carries :: "nat \<Rightarrow> nat \<Rightarrow> (writer \<Rightarrow> writer) \<Rightarrow> 'a decoder \<Rightarrow> 'a \<Rightarrow> bool" where
  "carries m k f d x \<longleftrightarrow> appender f \<and>
     (\<forall>w bs. wr_limits w = default_limits \<and> \<not> wr_failed (f w) \<and> f w = append_bytes bs w \<longrightarrow>
        k \<le> length bs \<and> decodes m d bs x)"

lemma carriesI:
  assumes "appender f"
    and "\<And>w. wr_limits w = default_limits \<Longrightarrow> \<not> wr_failed (f w) \<Longrightarrow>
      \<exists>bs. f w = append_bytes bs w \<and> k \<le> length bs \<and> decodes m d bs x"
  shows "carries m k f d x"
  unfolding carries_def
proof (intro conjI allI impI)
  show "appender f" by (rule assms(1))
  fix w bs
  assume w: "wr_limits w = default_limits \<and> \<not> wr_failed (f w) \<and> f w = append_bytes bs w"
  then obtain cs where cs: "f w = append_bytes cs w" "k \<le> length cs" "decodes m d cs x"
    using assms(2) by blast
  with w have "cs = bs" by (metis append_bytes_inject)
  with cs show "k \<le> length bs" "decodes m d bs x" by simp_all
qed

lemma carries_appender: "carries m k f d x \<Longrightarrow> appender f"
  by (simp add: carries_def)

lemma carriesD:
  assumes "carries m k f d x" and "wr_limits w = default_limits" and "\<not> wr_failed (f w)"
  obtains bs where "\<not> wr_failed w" "f w = append_bytes bs w" "k \<le> length bs" "decodes m d bs x"
proof -
  from assms(1) have a: "appender f" by (rule carries_appender)
  then obtain bs where "\<not> wr_failed w" "f w = append_bytes bs w"
    using assms(3) by (rule appenderD)
  with assms that show ?thesis unfolding carries_def by blast
qed

lemma carries_Nil: "carries m 0 (seq []) (dreturn x) x"
  by (rule carriesI) (auto simp: seq_simps intro!: appender_Nil exI [of _ "[]"] decodes_return)

lemma carries_weaken: "carries m k f d x \<Longrightarrow> j \<le> k \<Longrightarrow> carries m j f d x"
  unfolding carries_def by (meson le_trans)

lemma carries_mono: "carries m k f d x \<Longrightarrow> n \<le> m \<Longrightarrow> carries n k f d x"
  unfolding carries_def by (meson decodes_mono)

lemma carries_Cons_sum:
  assumes f: "carries m j f d a" and fs: "carries m k (seq fs) (c a) x"
  shows "carries m (j + k) (seq (f # fs)) (dbind d c) x"
proof (rule carriesI)
  show "appender (seq (f # fs))"
    using f fs by (intro appender_Cons) (auto dest: carries_appender)
  fix w
  assume w: "wr_limits w = default_limits" "\<not> wr_failed (seq (f # fs) w)"
  then have "wr_limits (f w) = default_limits"
    by (simp add: appender_limits [OF carries_appender [OF f]])
  with fs w(2) obtain cs where ok: "\<not> wr_failed (f w)" and cs: "seq fs (f w) = append_bytes cs (f w)"
      "k \<le> length cs" "decodes m (c a) cs x"
    by (auto simp: seq_simps elim: carriesD)
  from f w(1) ok obtain bs where bs: "f w = append_bytes bs w" "j \<le> length bs" "decodes m d bs a"
    by (rule carriesD)
  have "seq (f # fs) w = append_bytes (bs @ cs) w" using bs(1) cs(1) by (simp add: seq_simps)
  moreover have "decodes m (dbind d c) (bs @ cs) x" using bs(3) cs(3) by (rule decodes_bind)
  ultimately show "\<exists>bs. seq (f # fs) w = append_bytes bs w \<and> j + k \<le> length bs \<and> decodes m (dbind d c) bs x"
    using bs(2) cs(2) by (intro exI [of _ "bs @ cs"]) simp
qed

lemma carries_Cons [codec_rules]:
  "carries m k f d a \<Longrightarrow> carries m 0 (seq fs) (c a) x \<Longrightarrow> carries m k (seq (f # fs)) (dbind d c) x"
  using carries_Cons_sum [of m k f d a 0 fs c x] by simp

lemma carries_if_not [codec_rules]: "\<not> b \<Longrightarrow> carries m k f d x \<Longrightarrow> carries m k f (if b then d' else d) x"
  by simp

lemma carries_reserved:
  assumes f: "f = reserved (length bs) (append_bytes bs)" and "k \<le> length bs" and "decodes m d bs x"
  shows "carries m k f d x"
proof (rule carriesI)
  show "appender f" unfolding f by (rule appender_reserved)
  fix w
  assume "\<not> wr_failed (f w)"
  then have "f w = append_bytes bs w" unfolding f by (rule reserved_bytes)
  with assms(2,3) show "\<exists>bs. f w = append_bytes bs w \<and> k \<le> length bs \<and> decodes m d bs x" by blast
qed

lemma carries_u8 [codec_rules]: "k \<le> 1 \<Longrightarrow> carries m k (put_u8 v) get_u8 v"
  by (rule carries_reserved [OF put_u8_reserved]) (simp_all add: decodes_u8)

lemma carries_u16 [codec_rules]: "k \<le> 2 \<Longrightarrow> carries m k (put_u16 v) get_u16 v"
  by (rule carries_reserved [OF put_u16_reserved]) (simp_all add: decodes_u16)

lemma carries_u32 [codec_rules]: "k \<le> 4 \<Longrightarrow> carries m k (put_u32 v) get_u32 v"
  by (rule carries_reserved [OF put_u32_reserved]) (simp_all add: decodes_u32)

lemma carries_u64 [codec_rules]: "k \<le> 8 \<Longrightarrow> carries m k (put_u64 v) get_u64 v"
  by (rule carries_reserved [OF put_u64_reserved]) (simp_all add: decodes_u64)

lemma carries_text [codec_rules]: "k \<le> 4 \<Longrightarrow> carries m k (put_text t) get_text t"
proof (rule carriesI [OF appender_text])
  fix w
  assume "k \<le> 4" "wr_limits w = default_limits" "\<not> wr_failed (put_text t w)"
  with put_text_bytes [of t w]
  show "\<exists>bs. put_text t w = append_bytes bs w \<and> k \<le> length bs \<and> decodes m get_text bs t"
    by (intro exI [of _ "prefixed (text_bytes t)"]) (simp add: decodes_text)
qed

lemma carries_blob [codec_rules]: "k \<le> 4 \<Longrightarrow> carries m k (put_blob data) get_blob data"
proof (rule carriesI [OF appender_blob])
  fix w
  assume "k \<le> 4" "wr_limits w = default_limits" "\<not> wr_failed (put_blob data w)"
  with put_blob_bytes [of data w]
  show "\<exists>bs. put_blob data w = append_bytes bs w \<and> k \<le> length bs \<and> decodes m get_blob bs data"
    by (intro exI [of _ "prefixed data"]) (simp add: decodes_blob)
qed

lemma seq_single: "seq [f] = f"
  by (rule ext) (simp add: seq_simps)

lemma carries_map:
  assumes "carries m k f d a" and "g a = x"
  shows "carries m k f (dbind d (\<lambda>a. dreturn (g a))) x"
  using carries_Cons [OF assms(1) carries_Nil, of g] assms(2) by (simp add: seq_single)

lemma carries_checked:
  assumes "carries m k f d a" and "\<not> P a" and "g a = x"
  shows "carries m k f (dbind d (\<lambda>a. if P a then dfail why else dreturn (g a))) x"
proof -
  have "carries m 0 (seq []) (if P a then dfail why else dreturn (g a)) x"
    using assms(2,3) carries_Nil by simp
  with assms(1) show ?thesis
    using carries_Cons [of m k f d a "[]" "\<lambda>a. if P a then dfail why else dreturn (g a)"] by (simp add: seq_single)
qed

lemma carries_bool [codec_rules]: "k \<le> 1 \<Longrightarrow> carries m k (put_bool b) get_bool b"
  unfolding put_bool_def get_bool_def by (rule carries_checked [OF carries_u8]) auto

lemma carries_presence [codec_rules]: "k \<le> 1 \<Longrightarrow> carries m k put_presence get_presence True"
  unfolding put_presence_def get_presence_def by (rule carries_checked [OF carries_u8]) auto

lemma carries_absence [codec_rules]: "k \<le> 1 \<Longrightarrow> carries m k put_absence get_presence False"
  unfolding put_absence_def get_presence_def by (rule carries_checked [OF carries_u8]) auto

lemma carries_nested [codec_rules]: "carries (Suc m) k f d x \<Longrightarrow> m < 32 \<Longrightarrow> carries m k f (nested d) x"
  unfolding carries_def by (blast intro: decodes_nested)

lemma carries_count:
  assumes f: "carries m (e * n) f (c n) x"
  shows "carries m 4 (encode_counted n f) (dbind (get_count e) c) x"
proof (rule carriesI)
  show "appender (encode_counted n f)" by (rule appender_counted [OF carries_appender [OF f]])
  fix w
  assume w: "wr_limits w = default_limits" and "\<not> wr_failed (encode_counted n f w)"
  then obtain v where ok: "\<not> wr_failed (put_u32 v w)" and n: "n \<le> 1048576" and v: "narrow (of_nat n) = Some v"
      and eq: "encode_counted n f w = f (put_u32 v w)"
    using put_count_cases [of n w] by (auto simp: encode_counted_def split: if_splits)
  have v: "v = of_nat n" using n v by (simp add: narrow_nat)
  have bs: "put_u32 v w = append_bytes (be_bytes [24, 16, 8, 0] v) w"
    using ok unfolding put_u32_reserved by (rule reserved_bytes)
  have "wr_limits (put_u32 v w) = default_limits" using w by (simp add: bs)
  moreover have "\<not> wr_failed (f (put_u32 v w))" using \<open>\<not> wr_failed (encode_counted n f w)\<close> eq by simp
  ultimately obtain cs where cs: "f (put_u32 v w) = append_bytes cs (put_u32 v w)" "e * n \<le> length cs"
      "decodes m (c n) cs x"
    using carriesD [OF f] by metis
  have "encode_counted n f w = append_bytes (be_bytes [24, 16, 8, 0] v @ cs) w"
    using eq cs(1) bs by simp
  moreover have "decodes m (dbind (get_count e) c) (be_bytes [24, 16, 8, 0] v @ cs) x"
    unfolding v using cs(3,2) n by (rule decodes_count)
  ultimately show "\<exists>bs. encode_counted n f w = append_bytes bs w \<and> 4 \<le> length bs \<and>
      decodes m (dbind (get_count e) c) bs x"
    by (intro exI [of _ "be_bytes [24, 16, 8, 0] v @ cs"]) simp
qed

text \<open>A loop whose state evolves by \<open>upd\<close> over the elements that were written.\<close>

lemma carries_dloop:
  assumes "\<And>ys x zs. xs = ys @ x # zs \<Longrightarrow>
    carries m k (enc x) (body (foldl upd s ys)) (upd (foldl upd s ys) x)"
  shows "carries m (k * length xs) (seq (map enc xs)) (dloop (length xs) body s) (foldl upd s xs)"
  using assms
proof (induction xs arbitrary: s)
  case Nil
  show ?case using carries_Nil [of m s] by simp
next
  case (Cons x xs)
  have "carries m k (enc x) (body s) (upd s x)"
    using Cons.prems [of "[]" x xs] by simp
  moreover have "carries m (k * length xs) (seq (map enc xs)) (dloop (length xs) body (upd s x)) (foldl upd (upd s x) xs)"
    using Cons.prems [of "x # _"] by (intro Cons.IH) simp
  ultimately have "carries m (k + k * length xs) (seq (enc x # map enc xs))
      (dbind (body s) (dloop (length xs) body)) (foldl upd (upd s x) xs)"
    by (rule carries_Cons_sum)
  then show ?case by simp
qed

lemma carries_many:
  assumes "\<And>x. x \<in> set xs \<Longrightarrow> carries m k (enc x) d x"
  shows "carries m (k * length xs) (seq (map enc xs)) (decode_many (length xs) d) xs"
proof -
  have "foldl (\<lambda>xs x. xs @ [x]) ys xs = ys @ xs" for ys
    by (induction xs arbitrary: ys) auto
  moreover have "carries m (k * length xs) (seq (map enc xs))
      (dloop (length xs) (\<lambda>xs. dbind d (\<lambda>x. dreturn (xs @ [x]))) []) (foldl (\<lambda>xs x. xs @ [x]) [] xs)"
    by (rule carries_dloop, rule carries_map) (auto intro: assms)
  ultimately show ?thesis by (simp add: decode_many_def)
qed

lemma carries_vector [codec_rules]:
  assumes "\<And>x. x \<in> set xs \<Longrightarrow> carries (Suc m) e (enc x) d x" and "m < 32" and "k \<le> 4"
  shows "carries m k (encode_list enc xs) (decode_vector e d) xs"
  unfolding encode_list_def decode_vector_def
  by (rule carries_weaken [OF carries_count]) (auto intro: carries_nested carries_many assms)

text \<open>A map is written entry by entry in key order and rebuilt by insertion; a duplicate is refused.\<close>

lemma carries_map_loop:
  assumes elem: "\<And>e. e \<in> set (entries mp) \<Longrightarrow> carries m k (enc e) d e"
  shows "carries m (k * omap_size mp) (seq (map enc (entries mp)))
    (dloop (omap_size mp)
      (\<lambda>acc. dbind d (\<lambda>(key, v). if omap_find acc key \<noteq> None then dfail why else dreturn (omap_put key v acc)))
      omap_empty) mp"
proof -
  let ?body = "\<lambda>acc. dbind d (\<lambda>(key, v). if omap_find acc key \<noteq> None then dfail why else dreturn (omap_put key v acc))"
  let ?upd = "\<lambda>acc (key, v). omap_put key v acc"
  have "carries m (k * length (entries mp)) (seq (map enc (entries mp)))
      (dloop (length (entries mp)) ?body omap_empty) (foldl ?upd omap_empty (entries mp))"
  proof (rule carries_dloop)
    fix ys x zs
    assume eq: "entries mp = ys @ x # zs"
    obtain key v where x: "x = (key, v)" by fastforce
    define acc where "acc = foldl ?upd omap_empty ys"
    have "strict_keys (ys @ x # zs)"
      using sorted_keys [of mp] by (simp add: strict_keys_def eq)
    then have ys: "strict_keys (entries omap_empty @ ys)" and lt: "key \<notin> fst ` set ys"
      by (auto simp: strict_keys_def sorted_wrt_append x)
    have "entries acc = ys"
      unfolding acc_def by (subst entries_omap_of_prefix [OF ys]) simp
    then have "omap_find acc key = None" using lt by (simp add: find_None_keys)
    then have fresh: "\<not> (\<lambda>(key, v). omap_find acc key \<noteq> None) x" by (simp add: x)
    have "carries m k (enc x) d x" using eq by (intro elem) simp
    then have "carries m k (enc x) (dbind d (\<lambda>p. if (\<lambda>(key, v). omap_find acc key \<noteq> None) p then dfail why
        else dreturn ((\<lambda>(key, v). omap_put key v acc) p))) (?upd acc x)"
      using fresh by (rule carries_checked) (simp add: x)
    moreover have "(\<lambda>p. if (\<lambda>(key, v). omap_find acc key \<noteq> None) p then dfail why
        else dreturn ((\<lambda>(key, v). omap_put key v acc) p)) =
      (\<lambda>(key, v). if omap_find acc key \<noteq> None then dfail why else dreturn (omap_put key v acc))"
      by auto
    ultimately show "carries m k (enc x) (?body acc) (?upd acc x)" by simp
  qed
  moreover have "foldl ?upd omap_empty (entries mp) = mp"
    using omap_of_entries [of mp] by (simp add: omap_of_def)
  ultimately show ?thesis by (simp add: omap_size_def)
qed

subsection \<open>What follows the consumed bytes does not matter\<close>

text \<open>A successful decoder stays within its data and answers the same when bytes are appended.\<close>

definition followed_by :: "bytes \<Rightarrow> reader \<Rightarrow> reader" where
  "followed_by post r = r\<lparr>rd_data := rd_data r @ post\<rparr>"

definition stable :: "'a decoder \<Rightarrow> bool" where
  "stable d \<longleftrightarrow> (\<forall>r a r'. rd_offset r \<le> length (rd_data r) \<and> d r = (Some a, r') \<longrightarrow>
     rd_data r' = rd_data r \<and> rd_offset r \<le> rd_offset r' \<and> rd_offset r' \<le> length (rd_data r') \<and>
     (\<forall>post. d (followed_by post r) = (Some a, followed_by post r')))"

lemma followed_by_simps [simp]:
  "rd_data (followed_by post r) = rd_data r @ post" "rd_offset (followed_by post r) = rd_offset r"
  "rd_failed (followed_by post r) = rd_failed r" "rd_depth (followed_by post r) = rd_depth r"
  "rd_limits (followed_by post r) = rd_limits r" "rd_error (followed_by post r) = rd_error r"
  "advance n (followed_by post r) = followed_by post (advance n r)"
  "followed_by post (r\<lparr>rd_depth := n\<rparr>) = (followed_by post r)\<lparr>rd_depth := n\<rparr>"
  "pop_depth (followed_by post r) = followed_by post (pop_depth r)"
  by (simp_all add: followed_by_def advance_def pop_depth_def)

lemma pop_depth_simps [simp]:
  "rd_data (pop_depth r) = rd_data r" "rd_offset (pop_depth r) = rd_offset r"
  "rd_failed (pop_depth r) = rd_failed r" "rd_limits (pop_depth r) = rd_limits r"
  by (simp_all add: pop_depth_def)

lemma stableI:
  assumes "\<And>r a r'. rd_offset r \<le> length (rd_data r) \<Longrightarrow> d r = (Some a, r') \<Longrightarrow>
    rd_data r' = rd_data r \<and> rd_offset r \<le> rd_offset r' \<and> rd_offset r' \<le> length (rd_data r') \<and>
    (\<forall>post. d (followed_by post r) = (Some a, followed_by post r'))"
  shows "stable d"
  unfolding stable_def using assms by blast

lemma stableD:
  assumes "stable d" and "rd_offset r \<le> length (rd_data r)" and "d r = (Some a, r')"
  shows "rd_data r' = rd_data r" "rd_offset r \<le> rd_offset r'" "rd_offset r' \<le> length (rd_data r')"
    "d (followed_by post r) = (Some a, followed_by post r')"
  using assms unfolding stable_def by blast+

lemma stable_return [codec_rules]: "stable (dreturn x)"
  by (rule stableI) (auto simp: dreturn_def)

lemma stable_fail [codec_rules]: "stable (dfail why)"
  by (rule stableI) (auto simp: dfail_def)

lemma stable_bind [codec_rules]:
  assumes d: "stable d" and k: "\<And>a. stable (k a)"
  shows "stable (dbind d k)"
proof (rule stableI)
  fix r x r'
  assume r: "rd_offset r \<le> length (rd_data r)" and eq: "dbind d k r = (Some x, r')"
  then obtain a r1 where 1: "d r = (Some a, r1)" and 2: "k a r1 = (Some x, r')"
    by (auto simp: dbind_def split: prod.splits option.splits)
  note d' = stableD [OF d r 1]
  note k' = stableD [OF k d'(3) 2]
  show "rd_data r' = rd_data r \<and> rd_offset r \<le> rd_offset r' \<and> rd_offset r' \<le> length (rd_data r') \<and>
      (\<forall>post. dbind d k (followed_by post r) = (Some x, followed_by post r'))"
    using d' k' by (simp add: dbind_def)
qed

lemma stable_if [codec_rules]: "stable d \<Longrightarrow> stable d' \<Longrightarrow> stable (if b then d else d')"
  by simp

lemma stable_limits: "(\<And>l. stable (d l)) \<Longrightarrow> stable (\<lambda>r. d (rd_limits r) r)"
  unfolding stable_def by (metis followed_by_simps(5))

lemma stable_take [codec_rules]: "stable (take_bytes n)"
  by (rule stableI) (auto simp: take_bytes_def need_def split: if_splits)

lemma stable_words [codec_rules]:
  "stable get_u8" "stable get_u16" "stable get_u32" "stable get_u64" "stable get_bool" "stable get_presence"
  unfolding get_u8_def get_u16_def get_u32_def get_u64_def get_bool_def get_presence_def
  by (intro codec_rules)+

lemma stable_text [codec_rules]: "stable get_text"
proof -
  have "stable (\<lambda>r. (\<lambda>l. if unat len > max_text_bytes l then dfail R_Oversized
      else dbind (take_bytes (unat len)) (\<lambda>bs. dreturn (bytes_text bs))) (rd_limits r) r)" for len :: u32
    by (rule stable_limits) (intro codec_rules)
  then show ?thesis
    unfolding get_text_def by (intro stable_bind stable_words(3)) (simp add: if_distrib [of "\<lambda>f. f _"] cong: if_cong)
qed

lemma stable_blob [codec_rules]: "stable get_blob"
proof -
  have "stable (\<lambda>r. (\<lambda>l. if unat len > max_blob_bytes l then dfail R_Oversized
      else take_bytes (unat len)) (rd_limits r) r)" for len :: u32
    by (rule stable_limits) (intro codec_rules)
  then show ?thesis
    unfolding get_blob_def by (intro stable_bind stable_words(3)) (simp add: if_distrib [of "\<lambda>f. f _"] cong: if_cong)
qed

lemma stable_count [codec_rules]: "stable (get_count e)"
proof -
  have "stable (\<lambda>r. let value = unat raw in
    if value > max_items (rd_limits r) then dfail R_Oversized r
    else if e > 0 \<and> value > (length (rd_data r) - rd_offset r) div e
    then dfail R_Truncated r else dreturn value r)" for raw :: u32
  proof (rule stableI)
    fix r a r'
    assume r: "rd_offset r \<le> length (rd_data r)" and eq: "(let value = unat raw in
      if value > max_items (rd_limits r) then dfail R_Oversized r
      else if e > 0 \<and> value > (length (rd_data r) - rd_offset r) div e
      then dfail R_Truncated r else dreturn value r) = (Some a, r')"
    have le: "(length (rd_data r) - rd_offset r) div e \<le> (length (rd_data r) + length post - rd_offset r) div e"
      for post :: bytes
      by (rule div_le_mono) simp
    from eq have ok: "\<not> unat raw > max_items (rd_limits r)" "a = unat raw" "r' = r"
      "\<not> (e > 0 \<and> unat raw > (length (rd_data r) - rd_offset r) div e)"
      by (auto simp: Let_def dfail_def dreturn_def split: if_splits)
    then have "\<not> (e > 0 \<and> unat raw > (length (rd_data r) + length post - rd_offset r) div e)" for post :: bytes
      using le [of post] by auto
    with ok r show "rd_data r' = rd_data r \<and> rd_offset r \<le> rd_offset r' \<and> rd_offset r' \<le> length (rd_data r') \<and>
      (\<forall>post. (let value = unat raw in
        if value > max_items (rd_limits (followed_by post r)) then dfail R_Oversized (followed_by post r)
        else if e > 0 \<and> value > (length (rd_data (followed_by post r)) - rd_offset (followed_by post r)) div e
        then dfail R_Truncated (followed_by post r) else dreturn value (followed_by post r)) = (Some a, followed_by post r'))"
      by (auto simp: Let_def dreturn_def)
  qed
  then show ?thesis unfolding get_count_def by (intro stable_bind stable_words)
qed

lemma stable_nested [codec_rules]:
  assumes d: "stable d"
  shows "stable (nested d)"
proof (rule stableI)
  fix r a r'
  assume r: "rd_offset r \<le> length (rd_data r)" and eq: "nested d r = (Some a, r')"
  let ?r = "r\<lparr>rd_depth := rd_depth r + 1\<rparr>"
  from eq obtain r1 where ok: "\<not> rd_failed r" "rd_depth r < max_depth (rd_limits r)"
    and 1: "d ?r = (Some a, r1)" and 2: "r' = pop_depth r1"
    by (auto simp: nested_def dbind_def push_depth_def dfail_def split: if_splits prod.splits)
  have "rd_offset ?r \<le> length (rd_data ?r)" using r by simp
  note d' = stableD [OF d this 1]
  show "rd_data r' = rd_data r \<and> rd_offset r \<le> rd_offset r' \<and> rd_offset r' \<le> length (rd_data r') \<and>
      (\<forall>post. nested d (followed_by post r) = (Some a, followed_by post r'))"
    using d' ok 2 by (simp add: nested_def dbind_def push_depth_def)
qed

lemma stable_loop [codec_rules]: "(\<And>s. stable (body s)) \<Longrightarrow> stable (dloop n body s)"
  by (induction n arbitrary: s) (auto intro: codec_rules)

lemma stable_many [codec_rules]: "stable d \<Longrightarrow> stable (decode_many n d)"
  unfolding decode_many_def by (intro codec_rules)

lemma stable_vector [codec_rules]: "stable d \<Longrightarrow> stable (decode_vector e d)"
  unfolding decode_vector_def by (intro codec_rules)

subsection \<open>The contracts of the codecs\<close>

text \<open>A codec writes values of its domain in a form that its decoder reads back, at any nesting
  the readers of the source reach. The second contract adds that the decoder is stable, from
  which no proper prefix of an encoding is accepted.\<close>

definition complete_decode :: "'a decoder \<Rightarrow> bytes \<Rightarrow> 'a option" where
  "complete_decode d bs =
    (case d (new_reader bs) of (x, r) \<Rightarrow> if at_end r then x else None)"

lemma new_reader_ready: "length bs \<le> 268435456 \<Longrightarrow> ready m (new_reader bs)"
  by (simp add: ready_def new_reader_def Let_def kAbsoluteMaxTotalBytes_def)

lemma new_reader_simps [simp]:
  "rd_data (new_reader bs) = bs" "rd_offset (new_reader bs) = 0" "rd_depth (new_reader bs) = 0"
  "rd_limits (new_reader bs) = default_limits"
  by (simp_all add: new_reader_def Let_def reader_fail_def)

lemma new_writer_simps [simp]:
  "wr_limits new_writer = default_limits" "\<not> wr_failed new_writer" "wr_buffer new_writer = []"
  "writer_clean new_writer"
  by (simp_all add: new_writer_def writer_clean_def)

lemma encoded_length: "appender f \<Longrightarrow> encoded f = Some bs \<Longrightarrow> length bs \<le> 268435456"
  using appender_clean [of f new_writer] appender_limits [of f new_writer]
  by (auto simp: encoded_def Let_def writer_clean_def writer_ceiling_def split: if_splits)

lemma encoded_decodes:
  assumes "carries m k f d x" and "encoded f = Some bs"
  shows "decodes m d bs x" "length bs \<le> 268435456"
proof -
  have ok: "\<not> wr_failed (f new_writer)" "wr_buffer (f new_writer) = bs"
    using assms(2) by (auto simp: encoded_def Let_def split: if_splits)
  with assms(1) obtain cs where "f new_writer = append_bytes cs new_writer" "decodes m d cs x"
    using carriesD [OF assms(1) _ ok(1)] by auto
  with ok show "decodes m d bs x" by simp
  show "length bs \<le> 268435456" using assms by (blast intro: encoded_length carries_appender)
qed

lemma complete_decode_encoded:
  assumes "carries m k f d x" and "encoded f = Some bs"
  shows "complete_decode d bs = Some x"
proof -
  note dec = encoded_decodes [OF assms]
  have "d (new_reader bs) = (Some x, advance (length bs) (new_reader bs))"
    using decodesD [OF dec(1) new_reader_ready [OF dec(2)], of "[]" "[]"] by simp
  moreover have "\<not> rd_failed (new_reader bs)"
    using new_reader_ready [OF dec(2), of m] by (simp add: ready_def)
  ultimately show ?thesis by (simp add: complete_decode_def at_end_def)
qed

text \<open>Bytes that a stable decoder accepts completely are the only prefix it accepts.\<close>

lemma complete_decode_no_prefix:
  assumes d: "stable d" and whole: "complete_decode d (bs @ post) = Some x" and len: "length (bs @ post) \<le> 268435456"
    and part: "complete_decode d bs = Some y"
  shows "post = []"
proof -
  have nf: "followed_by post (new_reader bs) = new_reader (bs @ post)"
    using len by (simp add: new_reader_def Let_def kAbsoluteMaxTotalBytes_def followed_by_def)
  obtain r where r: "d (new_reader bs) = (Some y, r)" "rd_offset r = length (rd_data r)"
    using part by (auto simp: complete_decode_def at_end_def split: prod.splits if_splits)
  have "rd_data r = bs" using stableD(1) [OF d _ r(1)] by simp
  moreover have "d (new_reader (bs @ post)) = (Some y, followed_by post r)"
    using stableD(4) [OF d _ r(1), of post] nf by simp
  then have "rd_offset r = length (rd_data r @ post)"
    using whole by (simp add: complete_decode_def at_end_def split: if_splits)
  ultimately show ?thesis using r(2) by simp
qed

locale codec =
  fixes enc :: "'a \<Rightarrow> writer \<Rightarrow> writer" and dec :: "'a decoder" and valid :: "'a \<Rightarrow> bool"
  assumes carried: "valid x \<Longrightarrow> m < 31 \<Longrightarrow> carries m 4 (enc x) dec x"
begin

lemma roundtrip: "valid x \<Longrightarrow> encoded (enc x) = Some bs \<Longrightarrow> complete_decode dec bs = Some x"
  by (rule complete_decode_encoded [OF carried [where m = 0]]) simp_all

lemma encoding_injective:
  "valid x \<Longrightarrow> valid y \<Longrightarrow> encoded (enc x) = Some bs \<Longrightarrow> encoded (enc y) = Some bs \<Longrightarrow> x = y"
  using roundtrip [of x bs] roundtrip [of y bs] by simp

lemma list_carried:
  "list_all valid xs \<Longrightarrow> m < 30 \<Longrightarrow> k \<le> 4 \<Longrightarrow> e \<le> 4 \<Longrightarrow> carries m k (encode_list enc xs) (decode_vector e dec) xs"
  by (rule carries_vector) (auto intro!: carries_weaken [OF carried] simp: list_all_iff)

lemma appends: "valid x \<Longrightarrow> appender (enc x)"
  using carried [of x 0] by (auto dest: carries_appender)

end

locale prefix_codec = codec +
  assumes decoder_stable: "stable dec"
begin

lemma truncation_refused:
  assumes "valid x" and "encoded (enc x) = Some (bs @ post)" and "post \<noteq> []"
  shows "complete_decode dec bs = None"
proof (rule ccontr)
  assume "complete_decode dec bs \<noteq> None"
  then obtain y where "complete_decode dec bs = Some y" by blast
  moreover have "complete_decode dec (bs @ post) = Some x"
    using assms by (intro roundtrip)
  moreover have "length (bs @ post) \<le> 268435456"
    using assms(1,2) by (blast intro: encoded_length appends)
  ultimately have "post = []" using complete_decode_no_prefix [OF decoder_stable] by blast
  with assms(3) show False by contradiction
qed

end

end
