(* ===== verification/Json.thy ===== *)
theory Json
  imports Canonical
begin

text \<open>
  The text helpers and the deterministic JSON of canonical.cpp: decimal and hexadecimal
  rendering, string escaping, and values whose objects are kept in key order, so that a rendering
  depends on the value only. The decimal form round trips; a set never overwrites a member.
\<close>

subsection \<open>Decimal and hexadecimal text\<close>

definition digit_char :: "u64 \<Rightarrow> char" where
  "digit_char d = char_of (48 + unat d)"

text \<open>The loop pushes the least significant digit first; the result is reversed.\<close>

function decimal_loop :: "u64 \<Rightarrow> string" where
  "decimal_loop value =
    (if value > 0 then digit_char (value mod 10) # decimal_loop (value div 10) else [])"
  by auto

termination
proof (relation "measure unat")
  fix v :: u64
  assume "0 < v"
  then have "0 < unat v" by (simp add: unat_gt_0 word_gt_0)
  then show "(v div 10, v) \<in> measure unat" by (simp add: unat_div)
qed simp

declare decimal_loop.simps [simp del]

definition to_decimal :: "u64 \<Rightarrow> string" where
  "to_decimal value = (if value = 0 then ''0'' else rev (decimal_loop value))"

fun parse_digits :: "string \<Rightarrow> u64 \<Rightarrow> u64 option" where
  "parse_digits [] value = Some value"
| "parse_digits (c # cs) value =
    (if c < CHR ''0'' \<or> c > CHR ''9'' then None
     else case mul_overflow value 10 of
       None \<Rightarrow> None
     | Some next \<Rightarrow>
         (case add_overflow next (of_nat (of_char c - of_char (CHR ''0''))) of
            None \<Rightarrow> None
          | Some next' \<Rightarrow> parse_digits cs next'))"

definition parse_decimal :: "string \<Rightarrow> u64 option" where
  "parse_decimal t = (if t = [] \<or> length t > 20 then None else parse_digits t 0)"

definition byte_hex :: "u8 \<Rightarrow> string" where
  "byte_hex value =
    [kHexDigits ! unat (drop_bit 4 value AND 0x0F), kHexDigits ! unat (value AND 0x0F)]"

definition to_hex :: "bytes \<Rightarrow> string" where
  "to_hex data = concat (map byte_hex data)"

lemma decimal_loop_length: "unat v < 10 ^ n \<Longrightarrow> length (decimal_loop v) \<le> n"
proof (induction n arbitrary: v)
  case 0
  then have "v = 0" by (simp add: unat_eq_0)
  then show ?case by (simp add: decimal_loop.simps)
next
  case (Suc n)
  then have "unat (v div 10) < 10 ^ n" by (simp add: unat_div div_less_iff_less_mult mult.commute)
  then have "length (decimal_loop (v div 10)) \<le> n" by (rule Suc.IH)
  then show ?case by (subst decimal_loop.simps) simp
qed

lemma digit_range:
  assumes "d < (10 :: u64)"
  shows "of_char (digit_char d) = 48 + unat d" "\<not> digit_char d < CHR ''0''" "\<not> digit_char d > CHR ''9''"
proof -
  have d: "unat d < 10" using assms by (simp add: word_less_nat_alt)
  then show "of_char (digit_char d) = 48 + unat d" by (simp add: digit_char_def)
  with d show "\<not> digit_char d < CHR ''0''" "\<not> digit_char d > CHR ''9''"
    by (simp_all add: less_char_def)
qed

lemma parse_decimal_loop: "parse_digits (rev (decimal_loop v) @ rest) 0 = parse_digits rest v"
proof (induction v arbitrary: rest rule: decimal_loop.induct)
  case (1 v)
  show ?case
  proof (cases "v > 0")
    case False
    then have "v = 0" by (simp add: word_gt_0)
    then show ?thesis by (simp add: decimal_loop.simps)
  next
    case True
    let ?d = "v mod 10"
    have d: "?d < 10" by (rule word_mod_less_divisor) simp
    have u: "unat (v div 10) = unat v div 10" "unat ?d = unat v mod 10"
      by (simp_all add: unat_div unat_mod)
    have b: "unat v < 2 ^ 64" using unat_less_exp [of v] by simp
    have m: "mul_overflow (v div 10) 10 = Some (v div 10 * 10)"
      using b by (simp add: mul_overflow_exact u)
    have p: "unat (v div 10 * 10) = unat v div 10 * 10"
      using b by (subst unat_mult_lem [THEN iffD1]) (simp_all add: u)
    have a: "add_overflow (v div 10 * 10) ?d = Some v"
      using b by (simp add: add_overflow_exact p u word_mod_div_equality)
    have c: "of_nat (of_char (digit_char ?d) - of_char (CHR ''0'')) = ?d"
      using digit_range(1) [OF d] by simp
    have "parse_digits (rev (decimal_loop v) @ rest) 0 =
        parse_digits (rev (decimal_loop (v div 10)) @ (digit_char ?d # rest)) 0"
      using True by (subst decimal_loop.simps) simp
    also have "\<dots> = parse_digits (digit_char ?d # rest) (v div 10)"
      using True by (rule "1.IH")
    also have "\<dots> = parse_digits rest v"
      using digit_range(2,3) [OF d] m a c by simp
    finally show ?thesis .
  qed
qed

text \<open>The decimal rendering of every 64 bit value is parsed back to it; in particular its length is within the parser's bound and no digit overflows.\<close>

theorem decimal_roundtrip: "parse_decimal (to_decimal v) = Some v"
proof (cases "v = 0")
  case True
  then show ?thesis
    by (simp add: to_decimal_def parse_decimal_def mul_overflow_def add_overflow_def less_char_def)
next
  case False
  then have "decimal_loop v \<noteq> []" by (subst decimal_loop.simps) (simp add: word_gt_0)
  moreover have "length (decimal_loop v) \<le> 20"
    using unat_less_exp [of v] by (intro decimal_loop_length) simp
  ultimately show ?thesis
    using parse_decimal_loop [of v "[]"] False by (simp add: to_decimal_def parse_decimal_def)
qed

subsection \<open>JSON values\<close>

text \<open>An object is a \<^verbatim>\<open>std::map\<close>: a list of members in key order.\<close>

datatype json =
  JNull
| JBool bool
| JUnsigned u64
| JSigned "64 word"
| JText string
| JArray "json list"
| JObject "(string \<times> json) list"

fun json_set :: "string \<Rightarrow> json \<Rightarrow> json \<Rightarrow> bool \<times> json" where
  "json_set key v (JObject ms) =
    (if map_of ms key \<noteq> None then (False, JObject ms) else (True, JObject (ins_entry key v ms)))"
| "json_set key v _ = (True, JObject [(key, v)])"

fun json_push :: "json \<Rightarrow> json \<Rightarrow> json" where
  "json_push v (JArray xs) = JArray (xs @ [v])"
| "json_push v _ = JArray [v]"

text \<open>The source ignores the result of \<^verbatim>\<open>set\<close> when it builds an object.\<close>

definition json_object :: "(string \<times> json) list \<Rightarrow> json" where
  "json_object ms = foldl (\<lambda>j (k, v). snd (json_set k v j)) (JObject []) ms"

definition escape_char :: "char \<Rightarrow> string" where
  "escape_char raw =
    (if raw = CHR 0x22 then [CHR 0x5C, CHR 0x22]
     else if raw = CHR 0x5C then [CHR 0x5C, CHR 0x5C]
     else if raw = CHR 0x0A then [CHR 0x5C, CHR ''n'']
     else if raw = CHR 0x0D then [CHR 0x5C, CHR ''r'']
     else if raw = CHR 0x09 then [CHR 0x5C, CHR ''t'']
     else let c = (of_char raw :: nat) in
       if c < 0x20 \<or> c \<ge> 0x7F
       then [CHR 0x5C] @ ''u00'' @ [kHexDigits ! (c div 16), kHexDigits ! (c mod 16)]
       else [raw])"

definition escaped :: "string \<Rightarrow> string" where
  "escaped t = CHR 0x22 # concat (map escape_char t) @ [CHR 0x22]"

text \<open>Elements are separated by commas, without one before the first.\<close>

fun comma_join :: "string list \<Rightarrow> string" where
  "comma_join [] = []"
| "comma_join [x] = x"
| "comma_join (x # y # ys) = x @ CHR '','' # comma_join (y # ys)"

text \<open>A line break and its indentation in the pretty rendering, nothing in the compact one.\<close>

definition line_break :: "int \<Rightarrow> int \<Rightarrow> string" where
  "line_break indent extra = (if indent \<ge> 0 then CHR 0x0A # replicate (nat (indent + extra)) CHR '' '' else [])"

fun dump_into :: "int \<Rightarrow> json \<Rightarrow> string" where
  "dump_into indent JNull = ''null''"
| "dump_into indent (JBool b) = (if b then ''true'' else ''false'')"
| "dump_into indent (JUnsigned v) = to_decimal v"
| "dump_into indent (JSigned v) =
    (if v <s 0 then CHR ''-'' # to_decimal (- (v + 1) + 1) else to_decimal v)"
| "dump_into indent (JText t) = escaped t"
| "dump_into indent (JArray xs) =
    (if xs = [] then ''[]''
     else CHR ''['' # comma_join (map (\<lambda>x. line_break indent 2 @
            dump_into (if indent \<ge> 0 then indent + 2 else - 1) x) xs) @ line_break indent 0 @ '']'')"
| "dump_into indent (JObject ms) =
    (if ms = [] then ''{}''
     else CHR ''{'' # comma_join (map (\<lambda>(k, x). line_break indent 2 @ escaped k @ '':'' @
            (if indent \<ge> 0 then '' '' else []) @
            dump_into (if indent \<ge> 0 then indent + 2 else - 1) x) ms) @ line_break indent 0 @ ''}'')"

definition dump :: "json \<Rightarrow> string" where
  "dump j = dump_into (- 1) j"

definition dump_pretty :: "json \<Rightarrow> string" where
  "dump_pretty j = dump_into 0 j"

text \<open>Members keep their order and their first value.\<close>

fun members_sorted :: "json \<Rightarrow> bool" where
  "members_sorted (JObject ms) = strict_keys ms"
| "members_sorted _ = True"

lemma json_set_sorted: "members_sorted j \<Longrightarrow> members_sorted (snd (json_set k v j))"
  by (cases j) (auto simp: strict_keys_ins strict_keys_Cons)

lemma json_object_sorted: "members_sorted (json_object ms)"
proof -
  have "members_sorted j \<Longrightarrow> members_sorted (foldl (\<lambda>j (k, v). snd (json_set k v j)) j ms)" for j
    by (induction ms arbitrary: j) (auto simp: json_set_sorted)
  then show ?thesis by (simp add: json_object_def)
qed

lemma json_set_keeps:
  "json_set k v (JObject ms) = (ok, JObject ms') \<Longrightarrow> map_of ms key = Some w \<Longrightarrow> map_of ms' key = Some w"
  by (auto simp: map_of_ins_entry split: if_splits)

text \<open>Every rendered character is printable ASCII (or a line break of the pretty form).\<close>

definition printable :: "char \<Rightarrow> bool" where
  "printable c \<longleftrightarrow> CHR '' '' \<le> c \<and> c \<le> CHR ''~''"

lemma printable_hex: "n < 16 \<Longrightarrow> printable (kHexDigits ! n)"
proof -
  assume "n < 16"
  then have "n \<in> {0, 1, 2, 3, 4, 5, 6, 7, 8, 9, 10, 11, 12, 13, 14, 15}"
    unfolding insert_iff empty_iff by presburger
  then show ?thesis
    by (elim insertE emptyE) (simp_all add: printable_def kHexDigits_def less_eq_char_def)
qed

lemma printable_chars:
  "printable (CHR 0x22)" "printable (CHR 0x5C)" "printable (CHR ''n'')" "printable (CHR ''r'')"
  "printable (CHR ''t'')" "printable (CHR ''u'')" "printable (CHR ''0'')"
  by (simp_all add: printable_def less_eq_char_def)

lemma escape_char_printable: "list_all printable (escape_char c)"
proof -
  define n :: nat where "n = of_char c"
  have "n = n mod 256" by (simp add: n_def)
  then have "n < 256" using mod_less_divisor [of 256 n] by simp
  then have "n div 16 < 16" "n mod 16 < 16" by (simp_all add: less_mult_imp_div_less)
  then have hex: "printable (kHexDigits ! (n div 16))" "printable (kHexDigits ! (n mod 16))"
    by (simp_all only: printable_hex)
  have plain: "printable c" if "\<not> (n < 0x20 \<or> n \<ge> 0x7F)"
    using that by (simp add: printable_def less_eq_char_def n_def)
  show ?thesis
  proof (cases "n < 0x20 \<or> n \<ge> 0x7F")
    case True
    then show ?thesis
      using hex by (simp add: escape_char_def Let_def printable_chars flip: n_def)
  next
    case False
    then show ?thesis
      using plain by (simp add: escape_char_def Let_def printable_chars flip: n_def)
  qed
qed

lemma escaped_printable: "list_all printable (escaped t)"
  using escape_char_printable by (simp add: escaped_def list_all_iff printable_chars)

end
