(* ===== verification/Domain_Model.thy ===== *)
theory Domain_Model
  imports Json
begin

text \<open>
  model.hpp and the first half of model.cpp: the enumerations with their stable texts, the
  capability and precondition sets (bit masks), and the records of the governed domain. Record
  fields carry the initials of their structure; \<open>default_x\<close> is the value that C++ gives a
  default-constructed \<^verbatim>\<open>X\<close>. The order of the constructors is the numeric order of the
  enumeration, which the canonical encoding relies on.
\<close>

subsection \<open>Text tables\<close>

definition lookup_text :: "('e \<times> string) list \<Rightarrow> 'e \<Rightarrow> string" where
  "lookup_text table v = (case find (\<lambda>e. fst e = v) table of Some e \<Rightarrow> snd e | None \<Rightarrow> ''unknown'')"

definition lookup_value :: "('e \<times> string) list \<Rightarrow> string \<Rightarrow> 'e option" where
  "lookup_value table t = map_option fst (find (\<lambda>e. snd e = t) table)"

text \<open>The position of a value in its table is its encoding.\<close>

definition ordinal :: "('e \<times> string) list \<Rightarrow> 'e \<Rightarrow> nat" where
  "ordinal table v = length (takeWhile (\<lambda>e. fst e \<noteq> v) table)"

lemma find_fst_distinct: "(v, t) \<in> set table \<Longrightarrow> distinct (map fst table) \<Longrightarrow> find (\<lambda>e. fst e = v) table = Some (v, t)"
  by (induction table) force+

lemma find_snd_distinct: "(v, t) \<in> set table \<Longrightarrow> distinct (map snd table) \<Longrightarrow> find (\<lambda>e. snd e = t) table = Some (v, t)"
  by (induction table) force+

lemma lookup_roundtrip:
  assumes "v \<in> fst ` set table" and "distinct (map fst table)" and "distinct (map snd table)"
  shows "lookup_value table (lookup_text table v) = Some v"
proof -
  from assms(1) obtain t where "(v, t) \<in> set table" by auto
  with assms(2,3) show ?thesis
    by (simp add: lookup_text_def lookup_value_def find_fst_distinct find_snd_distinct)
qed

lemma ordinal_less: "v \<in> fst ` set table \<Longrightarrow> ordinal table v < length table"
  unfolding ordinal_def by (induction table) auto

lemma ordinal_nth: "v \<in> fst ` set table \<Longrightarrow> fst (table ! ordinal table v) = v"
  unfolding ordinal_def by (induction table) auto

subsection \<open>Enumerations\<close>

datatype (plugins only: code) device_kind =
  DeviceKind_HostCpu
| DeviceKind_SmartNic
| DeviceKind_Dpu
| DeviceKind_Synthetic

definition kDeviceKinds :: "(device_kind \<times> string) list" where
  "kDeviceKinds =
   [(DeviceKind_HostCpu, ''host_cpu''),
    (DeviceKind_SmartNic, ''smart_nic''),
    (DeviceKind_Dpu, ''dpu''),
    (DeviceKind_Synthetic, ''synthetic'')]"

definition device_kind_text :: "device_kind \<Rightarrow> string" where
  "device_kind_text v = lookup_text kDeviceKinds v"

definition device_kind_parse :: "string \<Rightarrow> device_kind option" where
  "device_kind_parse t = lookup_value kDeviceKinds t"

lemma device_kind_listed: "v \<in> fst ` set kDeviceKinds"
  by (cases v) (simp_all add: kDeviceKinds_def)

lemma device_kind_distinct: "distinct (map fst kDeviceKinds)" "distinct (map snd kDeviceKinds)"
  by (simp_all add: kDeviceKinds_def)

datatype (plugins only: code) capability_code =
  CapabilityCode_IPv4Forward
| CapabilityCode_IPv6Forward
| CapabilityCode_L4LoadBalance
| CapabilityCode_TlsTerminate
| CapabilityCode_VxlanEncap
| CapabilityCode_Srv6Encap
| CapabilityCode_StatefulFirewall
| CapabilityCode_RdmaVerbs
| CapabilityCode_DpuProgrammable
| CapabilityCode_RateLimit
| CapabilityCode_SyntheticDatapath

definition kCapabilityCodes :: "(capability_code \<times> string) list" where
  "kCapabilityCodes =
   [(CapabilityCode_IPv4Forward, ''ipv4_forward''),
    (CapabilityCode_IPv6Forward, ''ipv6_forward''),
    (CapabilityCode_L4LoadBalance, ''l4_load_balance''),
    (CapabilityCode_TlsTerminate, ''tls_terminate''),
    (CapabilityCode_VxlanEncap, ''vxlan_encap''),
    (CapabilityCode_Srv6Encap, ''srv6_encap''),
    (CapabilityCode_StatefulFirewall, ''stateful_firewall''),
    (CapabilityCode_RdmaVerbs, ''rdma_verbs''),
    (CapabilityCode_DpuProgrammable, ''dpu_programmable''),
    (CapabilityCode_RateLimit, ''rate_limit''),
    (CapabilityCode_SyntheticDatapath, ''synthetic_datapath'')]"

definition capability_code_text :: "capability_code \<Rightarrow> string" where
  "capability_code_text v = lookup_text kCapabilityCodes v"

definition capability_code_parse :: "string \<Rightarrow> capability_code option" where
  "capability_code_parse t = lookup_value kCapabilityCodes t"

lemma capability_code_listed: "v \<in> fst ` set kCapabilityCodes"
  by (cases v) (simp_all add: kCapabilityCodes_def)

lemma capability_code_distinct: "distinct (map fst kCapabilityCodes)" "distinct (map snd kCapabilityCodes)"
  by (simp_all add: kCapabilityCodes_def)

datatype (plugins only: code) statefulness =
  Statefulness_Stateless
| Statefulness_Stateful

definition kStatefulness :: "(statefulness \<times> string) list" where
  "kStatefulness =
   [(Statefulness_Stateless, ''stateless''),
    (Statefulness_Stateful, ''stateful'')]"

definition statefulness_text :: "statefulness \<Rightarrow> string" where
  "statefulness_text v = lookup_text kStatefulness v"

definition statefulness_parse :: "string \<Rightarrow> statefulness option" where
  "statefulness_parse t = lookup_value kStatefulness t"

lemma statefulness_listed: "v \<in> fst ` set kStatefulness"
  by (cases v) (simp_all add: kStatefulness_def)

lemma statefulness_distinct: "distinct (map fst kStatefulness)" "distinct (map snd kStatefulness)"
  by (simp_all add: kStatefulness_def)

datatype (plugins only: code) precondition =
  Precondition_FenceAdvance
| Precondition_VerifiedEffect
| Precondition_StateTransfer
| Precondition_DependencyHealth
| Precondition_OperatorAuthorization
| Precondition_FallbackCapabilitySupport

definition kPreconditions :: "(precondition \<times> string) list" where
  "kPreconditions =
   [(Precondition_FenceAdvance, ''fence_advance''),
    (Precondition_VerifiedEffect, ''verified_effect''),
    (Precondition_StateTransfer, ''state_transfer''),
    (Precondition_DependencyHealth, ''dependency_health''),
    (Precondition_OperatorAuthorization, ''operator_authorization''),
    (Precondition_FallbackCapabilitySupport, ''fallback_capability_support'')]"

definition precondition_text :: "precondition \<Rightarrow> string" where
  "precondition_text v = lookup_text kPreconditions v"

definition precondition_parse :: "string \<Rightarrow> precondition option" where
  "precondition_parse t = lookup_value kPreconditions t"

lemma precondition_listed: "v \<in> fst ` set kPreconditions"
  by (cases v) (simp_all add: kPreconditions_def)

lemma precondition_distinct: "distinct (map fst kPreconditions)" "distinct (map snd kPreconditions)"
  by (simp_all add: kPreconditions_def)

datatype (plugins only: code) dependency_kind =
  DependencyKind_Hard
| DependencyKind_Soft

definition kDependencyKinds :: "(dependency_kind \<times> string) list" where
  "kDependencyKinds =
   [(DependencyKind_Hard, ''hard''),
    (DependencyKind_Soft, ''soft'')]"

definition dependency_kind_text :: "dependency_kind \<Rightarrow> string" where
  "dependency_kind_text v = lookup_text kDependencyKinds v"

definition dependency_kind_parse :: "string \<Rightarrow> dependency_kind option" where
  "dependency_kind_parse t = lookup_value kDependencyKinds t"

lemma dependency_kind_listed: "v \<in> fst ` set kDependencyKinds"
  by (cases v) (simp_all add: kDependencyKinds_def)

lemma dependency_kind_distinct: "distinct (map fst kDependencyKinds)" "distinct (map snd kDependencyKinds)"
  by (simp_all add: kDependencyKinds_def)

datatype (plugins only: code) dependency_requirement =
  DependencyRequirement_AnyTarget
| DependencyRequirement_SameScope
| DependencyRequirement_DistinctTarget

definition kDependencyRequirements :: "(dependency_requirement \<times> string) list" where
  "kDependencyRequirements =
   [(DependencyRequirement_AnyTarget, ''any_target''),
    (DependencyRequirement_SameScope, ''same_scope''),
    (DependencyRequirement_DistinctTarget, ''distinct_target'')]"

definition dependency_requirement_text :: "dependency_requirement \<Rightarrow> string" where
  "dependency_requirement_text v = lookup_text kDependencyRequirements v"

definition dependency_requirement_parse :: "string \<Rightarrow> dependency_requirement option" where
  "dependency_requirement_parse t = lookup_value kDependencyRequirements t"

lemma dependency_requirement_listed: "v \<in> fst ` set kDependencyRequirements"
  by (cases v) (simp_all add: kDependencyRequirements_def)

lemma dependency_requirement_distinct: "distinct (map fst kDependencyRequirements)" "distinct (map snd kDependencyRequirements)"
  by (simp_all add: kDependencyRequirements_def)

datatype (plugins only: code) failure_class =
  FailureClass_TargetMissing
| FailureClass_TargetUnresponsive
| FailureClass_ServiceCrash
| FailureClass_LinkDown
| FailureClass_OffloadEngineFault
| FailureClass_PlannedMaintenance
| FailureClass_OperatorDeclared
| FailureClass_SyntheticInjected

definition kFailureClasses :: "(failure_class \<times> string) list" where
  "kFailureClasses =
   [(FailureClass_TargetMissing, ''target_missing''),
    (FailureClass_TargetUnresponsive, ''target_unresponsive''),
    (FailureClass_ServiceCrash, ''service_crash''),
    (FailureClass_LinkDown, ''link_down''),
    (FailureClass_OffloadEngineFault, ''offload_engine_fault''),
    (FailureClass_PlannedMaintenance, ''planned_maintenance''),
    (FailureClass_OperatorDeclared, ''operator_declared''),
    (FailureClass_SyntheticInjected, ''synthetic_injected'')]"

definition failure_class_text :: "failure_class \<Rightarrow> string" where
  "failure_class_text v = lookup_text kFailureClasses v"

definition failure_class_parse :: "string \<Rightarrow> failure_class option" where
  "failure_class_parse t = lookup_value kFailureClasses t"

lemma failure_class_listed: "v \<in> fst ` set kFailureClasses"
  by (cases v) (simp_all add: kFailureClasses_def)

lemma failure_class_distinct: "distinct (map fst kFailureClasses)" "distinct (map snd kFailureClasses)"
  by (simp_all add: kFailureClasses_def)

datatype (plugins only: code) ambiguity_state =
  AmbiguityState_Unambiguous
| AmbiguityState_Ambiguous
| AmbiguityState_SplitBrainSuspected

definition kAmbiguity :: "(ambiguity_state \<times> string) list" where
  "kAmbiguity =
   [(AmbiguityState_Unambiguous, ''unambiguous''),
    (AmbiguityState_Ambiguous, ''ambiguous''),
    (AmbiguityState_SplitBrainSuspected, ''split_brain_suspected'')]"

definition ambiguity_state_text :: "ambiguity_state \<Rightarrow> string" where
  "ambiguity_state_text v = lookup_text kAmbiguity v"

definition ambiguity_state_parse :: "string \<Rightarrow> ambiguity_state option" where
  "ambiguity_state_parse t = lookup_value kAmbiguity t"

lemma ambiguity_state_listed: "v \<in> fst ` set kAmbiguity"
  by (cases v) (simp_all add: kAmbiguity_def)

lemma ambiguity_state_distinct: "distinct (map fst kAmbiguity)" "distinct (map snd kAmbiguity)"
  by (simp_all add: kAmbiguity_def)

datatype (plugins only: code) dependency_health =
  DependencyHealth_Unknown
| DependencyHealth_Healthy
| DependencyHealth_Degraded
| DependencyHealth_Failed

definition kDependencyHealth :: "(dependency_health \<times> string) list" where
  "kDependencyHealth =
   [(DependencyHealth_Unknown, ''unknown''),
    (DependencyHealth_Healthy, ''healthy''),
    (DependencyHealth_Degraded, ''degraded''),
    (DependencyHealth_Failed, ''failed'')]"

definition dependency_health_text :: "dependency_health \<Rightarrow> string" where
  "dependency_health_text v = lookup_text kDependencyHealth v"

definition dependency_health_parse :: "string \<Rightarrow> dependency_health option" where
  "dependency_health_parse t = lookup_value kDependencyHealth t"

lemma dependency_health_listed: "v \<in> fst ` set kDependencyHealth"
  by (cases v) (simp_all add: kDependencyHealth_def)

lemma dependency_health_distinct: "distinct (map fst kDependencyHealth)" "distinct (map snd kDependencyHealth)"
  by (simp_all add: kDependencyHealth_def)

datatype (plugins only: code) lifecycle_phase =
  LifecyclePhase_Unregistered
| LifecyclePhase_Registered
| LifecyclePhase_Active
| LifecyclePhase_RecoveryPending
| LifecyclePhase_RecoveryAuthorized
| LifecyclePhase_RecoveryInFlight
| LifecyclePhase_FallbackActive
| LifecyclePhase_Failed
| LifecyclePhase_Withdrawn

definition kLifecyclePhases :: "(lifecycle_phase \<times> string) list" where
  "kLifecyclePhases =
   [(LifecyclePhase_Unregistered, ''unregistered''),
    (LifecyclePhase_Registered, ''registered''),
    (LifecyclePhase_Active, ''active''),
    (LifecyclePhase_RecoveryPending, ''recovery_pending''),
    (LifecyclePhase_RecoveryAuthorized, ''recovery_authorized''),
    (LifecyclePhase_RecoveryInFlight, ''recovery_in_flight''),
    (LifecyclePhase_FallbackActive, ''fallback_active''),
    (LifecyclePhase_Failed, ''failed''),
    (LifecyclePhase_Withdrawn, ''withdrawn'')]"

definition lifecycle_phase_text :: "lifecycle_phase \<Rightarrow> string" where
  "lifecycle_phase_text v = lookup_text kLifecyclePhases v"

definition lifecycle_phase_parse :: "string \<Rightarrow> lifecycle_phase option" where
  "lifecycle_phase_parse t = lookup_value kLifecyclePhases t"

lemma lifecycle_phase_listed: "v \<in> fst ` set kLifecyclePhases"
  by (cases v) (simp_all add: kLifecyclePhases_def)

lemma lifecycle_phase_distinct: "distinct (map fst kLifecyclePhases)" "distinct (map snd kLifecyclePhases)"
  by (simp_all add: kLifecyclePhases_def)

datatype (plugins only: code) recovery_phase =
  RecoveryPhase_None
| RecoveryPhase_IntentRecorded
| RecoveryPhase_Authorized
| RecoveryPhase_ActivationRequested
| RecoveryPhase_EffectReported
| RecoveryPhase_Verified
| RecoveryPhase_Refused
| RecoveryPhase_AmbiguityPending

definition kRecoveryPhases :: "(recovery_phase \<times> string) list" where
  "kRecoveryPhases =
   [(RecoveryPhase_None, ''none''),
    (RecoveryPhase_IntentRecorded, ''intent_recorded''),
    (RecoveryPhase_Authorized, ''authorized''),
    (RecoveryPhase_ActivationRequested, ''activation_requested''),
    (RecoveryPhase_EffectReported, ''effect_reported''),
    (RecoveryPhase_Verified, ''verified''),
    (RecoveryPhase_Refused, ''refused''),
    (RecoveryPhase_AmbiguityPending, ''ambiguity_pending'')]"

definition recovery_phase_text :: "recovery_phase \<Rightarrow> string" where
  "recovery_phase_text v = lookup_text kRecoveryPhases v"

definition recovery_phase_parse :: "string \<Rightarrow> recovery_phase option" where
  "recovery_phase_parse t = lookup_value kRecoveryPhases t"

lemma recovery_phase_listed: "v \<in> fst ` set kRecoveryPhases"
  by (cases v) (simp_all add: kRecoveryPhases_def)

lemma recovery_phase_distinct: "distinct (map fst kRecoveryPhases)" "distinct (map snd kRecoveryPhases)"
  by (simp_all add: kRecoveryPhases_def)

datatype (plugins only: code) continuity_class =
  ContinuityClass_Unknown
| ContinuityClass_None
| ContinuityClass_Degraded
| ContinuityClass_Full

definition kContinuityClasses :: "(continuity_class \<times> string) list" where
  "kContinuityClasses =
   [(ContinuityClass_Unknown, ''unknown''),
    (ContinuityClass_None, ''none''),
    (ContinuityClass_Degraded, ''degraded''),
    (ContinuityClass_Full, ''full'')]"

definition continuity_class_text :: "continuity_class \<Rightarrow> string" where
  "continuity_class_text v = lookup_text kContinuityClasses v"

definition continuity_class_parse :: "string \<Rightarrow> continuity_class option" where
  "continuity_class_parse t = lookup_value kContinuityClasses t"

lemma continuity_class_listed: "v \<in> fst ` set kContinuityClasses"
  by (cases v) (simp_all add: kContinuityClasses_def)

lemma continuity_class_distinct: "distinct (map fst kContinuityClasses)" "distinct (map snd kContinuityClasses)"
  by (simp_all add: kContinuityClasses_def)

datatype (plugins only: code) attempt_outcome =
  AttemptOutcome_Pending
| AttemptOutcome_Committed
| AttemptOutcome_Acknowledged
| AttemptOutcome_EffectReported
| AttemptOutcome_Verified
| AttemptOutcome_Refused
| AttemptOutcome_Cancelled
| AttemptOutcome_OutcomeUnknown
| AttemptOutcome_Superseded

definition kAttemptOutcomes :: "(attempt_outcome \<times> string) list" where
  "kAttemptOutcomes =
   [(AttemptOutcome_Pending, ''pending''),
    (AttemptOutcome_Committed, ''committed''),
    (AttemptOutcome_Acknowledged, ''acknowledged''),
    (AttemptOutcome_EffectReported, ''effect_reported''),
    (AttemptOutcome_Verified, ''verified''),
    (AttemptOutcome_Refused, ''refused''),
    (AttemptOutcome_Cancelled, ''cancelled''),
    (AttemptOutcome_OutcomeUnknown, ''outcome_unknown''),
    (AttemptOutcome_Superseded, ''superseded'')]"

definition attempt_outcome_text :: "attempt_outcome \<Rightarrow> string" where
  "attempt_outcome_text v = lookup_text kAttemptOutcomes v"

definition attempt_outcome_parse :: "string \<Rightarrow> attempt_outcome option" where
  "attempt_outcome_parse t = lookup_value kAttemptOutcomes t"

lemma attempt_outcome_listed: "v \<in> fst ` set kAttemptOutcomes"
  by (cases v) (simp_all add: kAttemptOutcomes_def)

lemma attempt_outcome_distinct: "distinct (map fst kAttemptOutcomes)" "distinct (map snd kAttemptOutcomes)"
  by (simp_all add: kAttemptOutcomes_def)

datatype (plugins only: code) effect_kind =
  EffectKind_ActivationAccepted
| EffectKind_ServiceHealthy
| EffectKind_StateTransferComplete
| EffectKind_DeactivationAcknowledged

definition kEffectKinds :: "(effect_kind \<times> string) list" where
  "kEffectKinds =
   [(EffectKind_ActivationAccepted, ''activation_accepted''),
    (EffectKind_ServiceHealthy, ''service_healthy''),
    (EffectKind_StateTransferComplete, ''state_transfer_complete''),
    (EffectKind_DeactivationAcknowledged, ''deactivation_acknowledged'')]"

definition effect_kind_text :: "effect_kind \<Rightarrow> string" where
  "effect_kind_text v = lookup_text kEffectKinds v"

definition effect_kind_parse :: "string \<Rightarrow> effect_kind option" where
  "effect_kind_parse t = lookup_value kEffectKinds t"

lemma effect_kind_listed: "v \<in> fst ` set kEffectKinds"
  by (cases v) (simp_all add: kEffectKinds_def)

lemma effect_kind_distinct: "distinct (map fst kEffectKinds)" "distinct (map snd kEffectKinds)"
  by (simp_all add: kEffectKinds_def)

datatype (plugins only: code) effect_result =
  EffectResult_Positive
| EffectResult_Negative

definition kEffectResults :: "(effect_result \<times> string) list" where
  "kEffectResults =
   [(EffectResult_Positive, ''positive''),
    (EffectResult_Negative, ''negative'')]"

definition effect_result_text :: "effect_result \<Rightarrow> string" where
  "effect_result_text v = lookup_text kEffectResults v"

definition effect_result_parse :: "string \<Rightarrow> effect_result option" where
  "effect_result_parse t = lookup_value kEffectResults t"

lemma effect_result_listed: "v \<in> fst ` set kEffectResults"
  by (cases v) (simp_all add: kEffectResults_def)

lemma effect_result_distinct: "distinct (map fst kEffectResults)" "distinct (map snd kEffectResults)"
  by (simp_all add: kEffectResults_def)

datatype (plugins only: code) recovery_trigger =
  RecoveryTrigger_FailureEvidence
| RecoveryTrigger_PlannedMaintenance
| RecoveryTrigger_OperatorCommand

definition kRecoveryTriggers :: "(recovery_trigger \<times> string) list" where
  "kRecoveryTriggers =
   [(RecoveryTrigger_FailureEvidence, ''failure_evidence''),
    (RecoveryTrigger_PlannedMaintenance, ''planned_maintenance''),
    (RecoveryTrigger_OperatorCommand, ''operator_command'')]"

definition recovery_trigger_text :: "recovery_trigger \<Rightarrow> string" where
  "recovery_trigger_text v = lookup_text kRecoveryTriggers v"

definition recovery_trigger_parse :: "string \<Rightarrow> recovery_trigger option" where
  "recovery_trigger_parse t = lookup_value kRecoveryTriggers t"

lemma recovery_trigger_listed: "v \<in> fst ` set kRecoveryTriggers"
  by (cases v) (simp_all add: kRecoveryTriggers_def)

lemma recovery_trigger_distinct: "distinct (map fst kRecoveryTriggers)" "distinct (map snd kRecoveryTriggers)"
  by (simp_all add: kRecoveryTriggers_def)

fun device_kind_fidelity :: "device_kind \<Rightarrow> string" where
  "device_kind_fidelity DeviceKind_SmartNic = ''REAL''"
| "device_kind_fidelity DeviceKind_Dpu = ''REAL''"
| "device_kind_fidelity DeviceKind_HostCpu = ''SYNTHETIC''"
| "device_kind_fidelity DeviceKind_Synthetic = ''SYNTHETIC''"

definition failure_class_is_synthetic :: "failure_class \<Rightarrow> bool" where
  "failure_class_is_synthetic v \<longleftrightarrow> v = FailureClass_SyntheticInjected"

subsection \<open>Sets as bit masks\<close>

datatype (plugins only: code) capability_set = Capability_Set (cs_mask: u64)

definition default_capability_set :: capability_set where
  "default_capability_set = Capability_Set 0"

definition capability_bit :: "capability_code \<Rightarrow> u64" where
  "capability_bit code = push_bit (ordinal kCapabilityCodes code) 1"

definition cs_insert :: "capability_code \<Rightarrow> capability_set \<Rightarrow> capability_set" where
  "cs_insert code s = Capability_Set (cs_mask s OR capability_bit code)"

definition cs_erase :: "capability_code \<Rightarrow> capability_set \<Rightarrow> capability_set" where
  "cs_erase code s = Capability_Set (cs_mask s AND NOT (capability_bit code))"

definition cs_contains :: "capability_set \<Rightarrow> capability_code \<Rightarrow> bool" where
  "cs_contains s code \<longleftrightarrow> cs_mask s AND capability_bit code \<noteq> 0"

definition contains_all :: "capability_set \<Rightarrow> capability_set \<Rightarrow> bool" where
  "contains_all s other \<longleftrightarrow> cs_mask s AND cs_mask other = cs_mask other"

definition cs_codes :: "capability_set \<Rightarrow> capability_code list" where
  "cs_codes s = filter (cs_contains s) (map fst kCapabilityCodes)"

definition cs_render :: "capability_set \<Rightarrow> string" where
  "cs_render s = comma_join (map capability_code_text (cs_codes s))"

datatype (plugins only: code) precondition_set = Precondition_Set (ps_mask: u32)

definition default_precondition_set :: precondition_set where
  "default_precondition_set = Precondition_Set 0"

definition precondition_bit :: "precondition \<Rightarrow> u32" where
  "precondition_bit v = push_bit (ordinal kPreconditions v) 1"

definition ps_insert :: "precondition \<Rightarrow> precondition_set \<Rightarrow> precondition_set" where
  "ps_insert v s = Precondition_Set (ps_mask s OR precondition_bit v)"

definition ps_contains :: "precondition_set \<Rightarrow> precondition \<Rightarrow> bool" where
  "ps_contains s v \<longleftrightarrow> ps_mask s AND precondition_bit v \<noteq> 0"

definition ps_values :: "precondition_set \<Rightarrow> precondition list" where
  "ps_values s = filter (ps_contains s) (map fst kPreconditions)"

text \<open>Membership is a bit of the mask, so the bit operations are the set operations.\<close>

lemma bit_single_and: "(w AND push_bit n 1 \<noteq> 0) = bit w n" if "n < LENGTH('a)" for w :: "'a::len word"
  using that by (simp add: push_bit_eq_mult and_exp_eq_0_iff_not_bit)

lemma cs_contains_bit: "cs_contains s c \<longleftrightarrow> bit (cs_mask s) (ordinal kCapabilityCodes c)"
proof -
  have "ordinal kCapabilityCodes c < 64"
    using ordinal_less [OF capability_code_listed [of c]] by (simp add: kCapabilityCodes_def)
  then show ?thesis
    using bit_single_and [of "ordinal kCapabilityCodes c" "cs_mask s"]
    by (simp add: cs_contains_def capability_bit_def)
qed

lemma ordinal_inject:
  "v \<in> fst ` set table \<Longrightarrow> w \<in> fst ` set table \<Longrightarrow> ordinal table v = ordinal table w \<longleftrightarrow> v = w"
  by (metis ordinal_nth)

lemma cs_contains_insert: "cs_contains (cs_insert c s) d \<longleftrightarrow> d = c \<or> cs_contains s d"
proof -
  have "ordinal kCapabilityCodes d < 64"
    using ordinal_less [OF capability_code_listed [of d]] by (simp add: kCapabilityCodes_def)
  then show ?thesis
    using ordinal_inject [OF capability_code_listed capability_code_listed, of c d]
    by (auto simp: cs_contains_bit cs_insert_def capability_bit_def bit_simps)
qed

lemma cs_contains_erase: "cs_contains (cs_erase c s) d \<longleftrightarrow> d \<noteq> c \<and> cs_contains s d"
proof -
  have "ordinal kCapabilityCodes d < 64"
    using ordinal_less [OF capability_code_listed [of d]] by (simp add: kCapabilityCodes_def)
  then show ?thesis
    using ordinal_inject [OF capability_code_listed capability_code_listed, of c d]
    by (auto simp: cs_contains_bit cs_erase_def capability_bit_def bit_simps)
qed

lemma contains_all_contains: "contains_all s other \<Longrightarrow> cs_contains other c \<Longrightarrow> cs_contains s c"
  unfolding contains_all_def cs_contains_bit by (metis bit_and_iff)

subsection \<open>Incarnations\<close>

text \<open>Compared field by field, the host first.\<close>

datatype (plugins only: code) target_incarnation =
  Target_Incarnation (ti_host: incarnation) (ti_device: incarnation)

definition default_target_incarnation :: target_incarnation where
  "default_target_incarnation = Target_Incarnation initial_gen initial_gen"

instantiation target_incarnation :: linorder
begin

definition less_eq_target_incarnation :: "target_incarnation \<Rightarrow> target_incarnation \<Rightarrow> bool" where
  "less_eq_target_incarnation a b \<longleftrightarrow> ti_host a < ti_host b \<or> ti_host a = ti_host b \<and> ti_device a \<le> ti_device b"

definition less_target_incarnation :: "target_incarnation \<Rightarrow> target_incarnation \<Rightarrow> bool" where
  "less_target_incarnation a b \<longleftrightarrow> ti_host a < ti_host b \<or> ti_host a = ti_host b \<and> ti_device a < ti_device b"

instance
  by standard
    (auto simp: less_eq_target_incarnation_def less_target_incarnation_def target_incarnation.expand)

end

subsection \<open>Records\<close>

record target_ref =
  tg_target :: target_name
  tg_incarnation :: target_incarnation

definition default_target_ref :: target_ref where
  "default_target_ref =
    \<lparr>tg_target = empty_name, tg_incarnation = default_target_incarnation\<rparr>"

record target_record =
  tr_name :: target_name
  tr_host :: host_name
  tr_device :: device_name
  tr_kind :: device_kind
  tr_scope :: scope_name
  tr_incarnation :: target_incarnation
  tr_topology_generation :: topology_generation

definition default_target_record :: target_record where
  "default_target_record =
    \<lparr>tr_name = empty_name, tr_host = empty_name, tr_device = empty_name, tr_kind = DeviceKind_Synthetic, tr_scope = empty_name, tr_incarnation = default_target_incarnation, tr_topology_generation = initial_gen\<rparr>"

record capability_evidence =
  ce_target :: target_name
  ce_generation :: capability_generation
  ce_capabilities :: capability_set
  ce_topology_generation :: topology_generation
  ce_incarnation :: target_incarnation
  ce_source :: source_name
  ce_tick :: logical_tick
  ce_content_digest :: digest

definition default_capability_evidence :: capability_evidence where
  "default_capability_evidence =
    \<lparr>ce_target = empty_name, ce_generation = initial_gen, ce_capabilities = default_capability_set, ce_topology_generation = initial_gen, ce_incarnation = default_target_incarnation, ce_source = empty_name, ce_tick = Tick 0, ce_content_digest = zero_digest\<rparr>"

record dependency_spec =
  ds_service :: service_name
  ds_kind :: dependency_kind
  ds_requirement :: dependency_requirement

definition default_dependency_spec :: dependency_spec where
  "default_dependency_spec =
    \<lparr>ds_service = empty_name, ds_kind = DependencyKind_Hard, ds_requirement = DependencyRequirement_AnyTarget\<rparr>"

record service_descriptor =
  sd_name :: service_name
  sd_scope :: scope_name
  sd_statefulness :: statefulness
  sd_required_capabilities :: capability_set
  sd_preconditions :: precondition_set
  sd_dependencies :: "dependency_spec list"
  sd_last_known_state_generation :: state_generation

definition default_service_descriptor :: service_descriptor where
  "default_service_descriptor =
    \<lparr>sd_name = empty_name, sd_scope = empty_name, sd_statefulness = Statefulness_Stateless, sd_required_capabilities = default_capability_set, sd_preconditions = default_precondition_set, sd_dependencies = [], sd_last_known_state_generation = initial_gen\<rparr>"

record provenance =
  pv_source :: source_name
  pv_sequence :: evidence_seq
  pv_tick :: logical_tick
  pv_epoch :: coordinator_epoch
  pv_boot :: boot_id

definition default_provenance :: provenance where
  "default_provenance =
    \<lparr>pv_source = empty_name, pv_sequence = initial_gen, pv_tick = Tick 0, pv_epoch = initial_gen, pv_boot = initial_gen\<rparr>"

record failure_evidence =
  fe_id :: evidence_id
  fe_service :: service_name
  fe_target :: target_ref
  fe_failure_class :: failure_class
  fe_ambiguity :: ambiguity_state
  fe_provenance :: provenance
  fe_topology_generation :: topology_generation
  fe_capability_generation :: capability_generation
  fe_policy_generation :: policy_generation
  fe_content_digest :: digest

definition default_failure_evidence :: failure_evidence where
  "default_failure_evidence =
    \<lparr>fe_id = nil_id, fe_service = empty_name, fe_target = default_target_ref, fe_failure_class = FailureClass_TargetUnresponsive, fe_ambiguity = AmbiguityState_Unambiguous, fe_provenance = default_provenance, fe_topology_generation = initial_gen, fe_capability_generation = initial_gen, fe_policy_generation = initial_gen, fe_content_digest = zero_digest\<rparr>"

record dependency_observation =
  dob_service :: service_name
  dob_dependency :: service_name
  dob_health :: dependency_health
  dob_observed_target :: target_ref
  dob_provenance :: provenance
  dob_topology_generation :: topology_generation
  dob_content_digest :: digest

definition default_dependency_observation :: dependency_observation where
  "default_dependency_observation =
    \<lparr>dob_service = empty_name, dob_dependency = empty_name, dob_health = DependencyHealth_Unknown, dob_observed_target = default_target_ref, dob_provenance = default_provenance, dob_topology_generation = initial_gen, dob_content_digest = zero_digest\<rparr>"

record policy_descriptor =
  pd_generation :: policy_generation
  pd_scope :: scope_name
  pd_max_attempts_per_generation :: u32
  pd_max_plan_steps :: u32
  pd_max_fallback_candidates :: u32
  pd_evidence_max_age_ticks :: u32
  pd_dependency_max_depth :: u32
  pd_require_operator_for_ambiguous :: bool
  pd_allow_degraded_continuity :: bool
  pd_allow_failback :: bool

definition default_policy_descriptor :: policy_descriptor where
  "default_policy_descriptor =
    \<lparr>pd_generation = initial_gen, pd_scope = empty_name, pd_max_attempts_per_generation = 4, pd_max_plan_steps = 16, pd_max_fallback_candidates = 32, pd_evidence_max_age_ticks = 1000000, pd_dependency_max_depth = 8, pd_require_operator_for_ambiguous = True, pd_allow_degraded_continuity = True, pd_allow_failback = True\<rparr>"

record fence_record =
  fr_service :: service_name
  fr_token :: fence_token
  fr_holder :: target_ref
  fr_attempt :: attempt_id
  fr_epoch :: coordinator_epoch
  fr_issued :: logical_tick

definition default_fence_record :: fence_record where
  "default_fence_record =
    \<lparr>fr_service = empty_name, fr_token = initial_gen, fr_holder = default_target_ref, fr_attempt = nil_id, fr_epoch = initial_gen, fr_issued = Tick 0\<rparr>"

record lease_record =
  lr_service :: service_name
  lr_id :: lease_id
  lr_term :: lease_term
  lr_scope :: scope_name
  lr_holder :: target_ref
  lr_epoch :: coordinator_epoch
  lr_issued :: logical_tick

definition default_lease_record :: lease_record where
  "default_lease_record =
    \<lparr>lr_service = empty_name, lr_id = nil_id, lr_term = initial_gen, lr_scope = empty_name, lr_holder = default_target_ref, lr_epoch = initial_gen, lr_issued = Tick 0\<rparr>"

record attempt_record =
  ar_id :: attempt_id
  ar_service :: service_name
  ar_generation :: failover_generation
  ar_fence :: fence_token
  ar_from :: target_ref
  ar_to :: target_ref
  ar_lease_term :: lease_term
  ar_epoch :: coordinator_epoch
  ar_opened :: logical_tick
  ar_phase :: recovery_phase
  ar_outcome :: attempt_outcome
  ar_durable_committed :: bool
  ar_acknowledged :: bool
  ar_restart_downgraded :: bool
  ar_last_reason :: reason

definition default_attempt_record :: attempt_record where
  "default_attempt_record =
    \<lparr>ar_id = nil_id, ar_service = empty_name, ar_generation = initial_gen, ar_fence = initial_gen, ar_from = default_target_ref, ar_to = default_target_ref, ar_lease_term = initial_gen, ar_epoch = initial_gen, ar_opened = Tick 0, ar_phase = RecoveryPhase_None, ar_outcome = AttemptOutcome_Pending, ar_durable_committed = False, ar_acknowledged = False, ar_restart_downgraded = False, ar_last_reason = R_Ok\<rparr>"

record failover_intent =
  fi_attempt :: attempt_id
  fi_service :: service_name
  fi_generation :: failover_generation
  fi_fence :: fence_token
  fi_lease_term :: lease_term
  fi_from :: target_ref
  fi_to :: target_ref
  fi_epoch :: coordinator_epoch
  fi_policy_generation :: policy_generation
  fi_topology_generation :: topology_generation
  fi_issued :: logical_tick
  fi_reissue_after_restart :: bool

definition default_failover_intent :: failover_intent where
  "default_failover_intent =
    \<lparr>fi_attempt = nil_id, fi_service = empty_name, fi_generation = initial_gen, fi_fence = initial_gen, fi_lease_term = initial_gen, fi_from = default_target_ref, fi_to = default_target_ref, fi_epoch = initial_gen, fi_policy_generation = initial_gen, fi_topology_generation = initial_gen, fi_issued = Tick 0, fi_reissue_after_restart = False\<rparr>"

record effect_report =
  er_id :: effect_id
  er_service :: service_name
  er_attempt :: attempt_id
  er_generation :: failover_generation
  er_fence :: fence_token
  er_target :: target_ref
  er_kind :: effect_kind
  er_result :: effect_result
  er_state_generation :: state_generation
  er_provenance :: provenance

definition default_effect_report :: effect_report where
  "default_effect_report =
    \<lparr>er_id = nil_id, er_service = empty_name, er_attempt = nil_id, er_generation = initial_gen, er_fence = initial_gen, er_target = default_target_ref, er_kind = EffectKind_ActivationAccepted, er_result = EffectResult_Positive, er_state_generation = initial_gen, er_provenance = default_provenance\<rparr>"

record failover_request =
  fq_key :: request_key
  fq_service :: service_name
  fq_trigger :: recovery_trigger
  fq_evidence :: evidence_id
  fq_requester :: source_name
  fq_operator_authorized :: bool

definition default_failover_request :: failover_request where
  "default_failover_request =
    \<lparr>fq_key = nil_id, fq_service = empty_name, fq_trigger = RecoveryTrigger_FailureEvidence, fq_evidence = nil_id, fq_requester = empty_name, fq_operator_authorized = False\<rparr>"

record ambiguity_resolution =
  am_key :: request_key
  am_service :: service_name
  am_evidence :: evidence_id
  am_confirm_failure :: bool
  am_resolved_by :: source_name

definition default_ambiguity_resolution :: ambiguity_resolution where
  "default_ambiguity_resolution =
    \<lparr>am_key = nil_id, am_service = empty_name, am_evidence = nil_id, am_confirm_failure = False, am_resolved_by = empty_name\<rparr>"

record placement_request =
  pq_key :: request_key
  pq_service :: service_name
  pq_target :: target_name
  pq_requester :: source_name

definition default_placement_request :: placement_request where
  "default_placement_request =
    \<lparr>pq_key = nil_id, pq_service = empty_name, pq_target = empty_name, pq_requester = empty_name\<rparr>"

record failback_request =
  bq_key :: request_key
  bq_service :: service_name
  bq_preferred_target :: target_name
  bq_observed_topology_generation :: topology_generation
  bq_observed_policy_generation :: policy_generation
  bq_requester :: source_name

definition default_failback_request :: failback_request where
  "default_failback_request =
    \<lparr>bq_key = nil_id, bq_service = empty_name, bq_preferred_target = empty_name, bq_observed_topology_generation = initial_gen, bq_observed_policy_generation = initial_gen, bq_requester = empty_name\<rparr>"

record intent_ack =
  ia_key :: request_key
  ia_attempt :: attempt_id
  ia_fence :: fence_token
  ia_generation :: failover_generation
  ia_accepted :: bool
  ia_executor :: source_name

definition default_intent_ack :: intent_ack where
  "default_intent_ack =
    \<lparr>ia_key = nil_id, ia_attempt = nil_id, ia_fence = initial_gen, ia_generation = initial_gen, ia_accepted = False, ia_executor = empty_name\<rparr>"

definition tg_valid :: "target_ref \<Rightarrow> bool" where
  "tg_valid r \<longleftrightarrow> \<not> name_empty (tg_target r)"

end
