(* ===== verification/Model_Json.thy ===== *)
theory Model_Json
  imports Domain_Model
begin

text \<open>
  The JSON renderers of model.cpp. Every object is built by \<open>json_object\<close>, which inserts the
  members in the source's order into an ordered map.
\<close>

definition incarnation_json :: "target_incarnation \<Rightarrow> json" where
  "incarnation_json v = json_object
   [(''device'', JUnsigned (gen_value (ti_device v))),
    (''host'', JUnsigned (gen_value (ti_host v)))]"

definition target_ref_json :: "target_ref \<Rightarrow> json" where
  "target_ref_json v = json_object
   [(''incarnation'', incarnation_json (tg_incarnation v)),
    (''target'', JText (str (tg_target v)))]"

definition provenance_json :: "provenance \<Rightarrow> json" where
  "provenance_json v = json_object
   [(''boot'', JUnsigned (gen_value (pv_boot v))),
    (''epoch'', JUnsigned (gen_value (pv_epoch v))),
    (''sequence'', JUnsigned (gen_value (pv_sequence v))),
    (''source'', JText (str (pv_source v))),
    (''tick'', JUnsigned (tick_value (pv_tick v)))]"

definition capability_json :: "capability_set \<Rightarrow> json" where
  "capability_json v = JArray (map (\<lambda>c. JText (capability_code_text c)) (cs_codes v))"

definition precondition_json :: "precondition_set \<Rightarrow> json" where
  "precondition_json v = JArray (map (\<lambda>c. JText (precondition_text c)) (ps_values v))"

definition dependency_spec_json :: "dependency_spec \<Rightarrow> json" where
  "dependency_spec_json v = json_object
   [(''kind'', JText (dependency_kind_text (ds_kind v))),
    (''requirement'', JText (dependency_requirement_text (ds_requirement v))),
    (''service'', JText (str (ds_service v)))]"

definition target_record_json :: "target_record \<Rightarrow> json" where
  "target_record_json v = json_object
   [(''device'', JText (str (tr_device v))),
    (''fidelity'', JText (device_kind_fidelity (tr_kind v))),
    (''host'', JText (str (tr_host v))),
    (''incarnation'', incarnation_json (tr_incarnation v)),
    (''kind'', JText (device_kind_text (tr_kind v))),
    (''name'', JText (str (tr_name v))),
    (''scope'', JText (str (tr_scope v))),
    (''topology_generation'', JUnsigned (gen_value (tr_topology_generation v)))]"

definition capability_evidence_json :: "capability_evidence \<Rightarrow> json" where
  "capability_evidence_json v = json_object
   [(''capabilities'', capability_json (ce_capabilities v)),
    (''content_digest'', JText (digest_to_hex (ce_content_digest v))),
    (''generation'', JUnsigned (gen_value (ce_generation v))),
    (''incarnation'', incarnation_json (ce_incarnation v)),
    (''source'', JText (str (ce_source v))),
    (''target'', JText (str (ce_target v))),
    (''tick'', JUnsigned (tick_value (ce_tick v))),
    (''topology_generation'', JUnsigned (gen_value (ce_topology_generation v)))]"

definition service_descriptor_json :: "service_descriptor \<Rightarrow> json" where
  "service_descriptor_json v = json_object
   [(''dependencies'', JArray (map dependency_spec_json (sd_dependencies v))),
    (''last_known_state_generation'', JUnsigned (gen_value (sd_last_known_state_generation v))),
    (''name'', JText (str (sd_name v))),
    (''preconditions'', precondition_json (sd_preconditions v)),
    (''required_capabilities'', capability_json (sd_required_capabilities v)),
    (''scope'', JText (str (sd_scope v))),
    (''statefulness'', JText (statefulness_text (sd_statefulness v)))]"

definition failure_evidence_json :: "failure_evidence \<Rightarrow> json" where
  "failure_evidence_json v = json_object
   [(''ambiguity'', JText (ambiguity_state_text (fe_ambiguity v))),
    (''capability_generation'', JUnsigned (gen_value (fe_capability_generation v))),
    (''content_digest'', JText (digest_to_hex (fe_content_digest v))),
    (''failure_class'', JText (failure_class_text (fe_failure_class v))),
    (''id'', JUnsigned (id_value (fe_id v))),
    (''policy_generation'', JUnsigned (gen_value (fe_policy_generation v))),
    (''provenance'', provenance_json (fe_provenance v)),
    (''service'', JText (str (fe_service v))),
    (''target'', target_ref_json (fe_target v)),
    (''topology_generation'', JUnsigned (gen_value (fe_topology_generation v)))]"

definition dependency_observation_json :: "dependency_observation \<Rightarrow> json" where
  "dependency_observation_json v = json_object
   [(''content_digest'', JText (digest_to_hex (dob_content_digest v))),
    (''dependency'', JText (str (dob_dependency v))),
    (''health'', JText (dependency_health_text (dob_health v))),
    (''observed_target'', target_ref_json (dob_observed_target v)),
    (''provenance'', provenance_json (dob_provenance v)),
    (''service'', JText (str (dob_service v))),
    (''topology_generation'', JUnsigned (gen_value (dob_topology_generation v)))]"

definition policy_descriptor_json :: "policy_descriptor \<Rightarrow> json" where
  "policy_descriptor_json v = json_object
   [(''allow_degraded_continuity'', JBool (pd_allow_degraded_continuity v)),
    (''allow_failback'', JBool (pd_allow_failback v)),
    (''dependency_max_depth'', JUnsigned (ucast (pd_dependency_max_depth v))),
    (''evidence_max_age_ticks'', JUnsigned (ucast (pd_evidence_max_age_ticks v))),
    (''generation'', JUnsigned (gen_value (pd_generation v))),
    (''max_attempts_per_generation'', JUnsigned (ucast (pd_max_attempts_per_generation v))),
    (''max_fallback_candidates'', JUnsigned (ucast (pd_max_fallback_candidates v))),
    (''max_plan_steps'', JUnsigned (ucast (pd_max_plan_steps v))),
    (''require_operator_for_ambiguous'', JBool (pd_require_operator_for_ambiguous v)),
    (''scope'', JText (str (pd_scope v)))]"

definition fence_record_json :: "fence_record \<Rightarrow> json" where
  "fence_record_json v = json_object
   [(''attempt'', JUnsigned (id_value (fr_attempt v))),
    (''epoch'', JUnsigned (gen_value (fr_epoch v))),
    (''holder'', target_ref_json (fr_holder v)),
    (''issued'', JUnsigned (tick_value (fr_issued v))),
    (''service'', JText (str (fr_service v))),
    (''token'', JUnsigned (gen_value (fr_token v)))]"

definition lease_record_json :: "lease_record \<Rightarrow> json" where
  "lease_record_json v = json_object
   [(''epoch'', JUnsigned (gen_value (lr_epoch v))),
    (''holder'', target_ref_json (lr_holder v)),
    (''id'', JUnsigned (id_value (lr_id v))),
    (''issued'', JUnsigned (tick_value (lr_issued v))),
    (''scope'', JText (str (lr_scope v))),
    (''service'', JText (str (lr_service v))),
    (''term'', JUnsigned (gen_value (lr_term v)))]"

definition attempt_record_json :: "attempt_record \<Rightarrow> json" where
  "attempt_record_json v = json_object
   [(''acknowledged'', JBool (ar_acknowledged v)),
    (''durable_committed'', JBool (ar_durable_committed v)),
    (''epoch'', JUnsigned (gen_value (ar_epoch v))),
    (''fence'', JUnsigned (gen_value (ar_fence v))),
    (''from'', target_ref_json (ar_from v)),
    (''generation'', JUnsigned (gen_value (ar_generation v))),
    (''id'', JUnsigned (id_value (ar_id v))),
    (''last_reason'', JText (reason_code_text (ar_last_reason v))),
    (''lease_term'', JUnsigned (gen_value (ar_lease_term v))),
    (''opened'', JUnsigned (tick_value (ar_opened v))),
    (''outcome'', JText (attempt_outcome_text (ar_outcome v))),
    (''phase'', JText (recovery_phase_text (ar_phase v))),
    (''restart_downgraded'', JBool (ar_restart_downgraded v)),
    (''service'', JText (str (ar_service v))),
    (''to'', target_ref_json (ar_to v))]"

definition failover_intent_json :: "failover_intent \<Rightarrow> json" where
  "failover_intent_json v = json_object
   [(''attempt'', JUnsigned (id_value (fi_attempt v))),
    (''epoch'', JUnsigned (gen_value (fi_epoch v))),
    (''fence'', JUnsigned (gen_value (fi_fence v))),
    (''from'', target_ref_json (fi_from v)),
    (''generation'', JUnsigned (gen_value (fi_generation v))),
    (''issued'', JUnsigned (tick_value (fi_issued v))),
    (''lease_term'', JUnsigned (gen_value (fi_lease_term v))),
    (''policy_generation'', JUnsigned (gen_value (fi_policy_generation v))),
    (''reissue_after_restart'', JBool (fi_reissue_after_restart v)),
    (''service'', JText (str (fi_service v))),
    (''to'', target_ref_json (fi_to v)),
    (''topology_generation'', JUnsigned (gen_value (fi_topology_generation v)))]"

definition effect_report_json :: "effect_report \<Rightarrow> json" where
  "effect_report_json v = json_object
   [(''attempt'', JUnsigned (id_value (er_attempt v))),
    (''fence'', JUnsigned (gen_value (er_fence v))),
    (''generation'', JUnsigned (gen_value (er_generation v))),
    (''id'', JUnsigned (id_value (er_id v))),
    (''kind'', JText (effect_kind_text (er_kind v))),
    (''provenance'', provenance_json (er_provenance v)),
    (''result'', JText (effect_result_text (er_result v))),
    (''service'', JText (str (er_service v))),
    (''state_generation'', JUnsigned (gen_value (er_state_generation v))),
    (''target'', target_ref_json (er_target v))]"

end
