(* ===== verification/Model_Codec.thy ===== *)
theory Model_Codec
  imports Domain_Model
begin

text \<open>
  detail/codec_util.hpp and the codecs of model.cpp. Every encoder is the sequence of the fields,
  every decoder reads them in the same order and stops at the first failure. Each pair is an
  interpretation of the contract \<open>prefix_codec\<close> on the values the encoder is meant for: names
  that are canonical, masks within the known bits, reasons that this build knows.
\<close>

subsection \<open>Helpers\<close>

definition encode_name :: "'tag name \<Rightarrow> writer \<Rightarrow> writer" where
  "encode_name v = put_text (str v)"

definition decode_name :: "'tag name decoder" where
  "decode_name = dbind get_text (\<lambda>t.
    case name_parse_canonical t of None \<Rightarrow> dfail R_Malformed | Some n \<Rightarrow> dreturn n)"

definition encode_id :: "'tag ident \<Rightarrow> writer \<Rightarrow> writer" where
  "encode_id v = put_u64 (id_value v)"

definition decode_id :: "'tag ident decoder" where
  "decode_id = dbind get_u64 (\<lambda>raw. dreturn (Id raw))"

definition encode_gen :: "'tag gen \<Rightarrow> writer \<Rightarrow> writer" where
  "encode_gen v = put_u64 (gen_value v)"

definition decode_gen :: "'tag gen decoder" where
  "decode_gen = dbind get_u64 (\<lambda>raw. dreturn (Gen raw))"

definition encode_tick :: "logical_tick \<Rightarrow> writer \<Rightarrow> writer" where
  "encode_tick v = put_u64 (tick_value v)"

definition decode_tick :: "logical_tick decoder" where
  "decode_tick = dbind get_u64 (\<lambda>raw. dreturn (Tick raw))"

definition encode_digest :: "digest \<Rightarrow> writer \<Rightarrow> writer" where
  "encode_digest v = seq [put_u64 (dg_hi v), put_u64 (dg_lo v)]"

definition decode_digest :: "digest decoder" where
  "decode_digest = dbind get_u64 (\<lambda>h. dbind get_u64 (\<lambda>l. dreturn \<lparr>dg_hi = h, dg_lo = l\<rparr>))"

definition decode_reason :: "reason decoder" where
  "decode_reason = dbind get_u16 (\<lambda>raw.
    if \<not> reason_known (Reason raw) then dfail R_UnsupportedSemantics else dreturn (Reason raw))"

definition decode_ordinal_u8 :: "nat \<Rightarrow> u8 decoder" where
  "decode_ordinal_u8 count = dbind get_u8 (\<lambda>raw.
    if unat raw \<ge> count then dfail R_UnsupportedSemantics else dreturn raw)"

definition encode_enum :: "('e \<times> string) list \<Rightarrow> 'e \<Rightarrow> writer \<Rightarrow> writer" where
  "encode_enum table v =
    (if v \<in> fst ` set table then put_u8 (of_nat (ordinal table v)) else put_u8 0xFF)"

definition decode_enum :: "('e \<times> string) list \<Rightarrow> 'e decoder" where
  "decode_enum table = dbind get_u8 (\<lambda>index.
    if unat index \<ge> length table then dfail R_UnsupportedSemantics
    else dreturn (fst (table ! unat index)))"

text \<open>The end of a decoder: the value that was assembled is the value that was written.\<close>

lemma carries_end [codec_rules]: "a = x \<Longrightarrow> carries m 0 (seq []) (dreturn a) x"
  using carries_Nil by simp

lemma carries_pair:
  assumes "carries m k f d a" and "c a = dreturn x"
  shows "carries m k f (dbind d c) x"
  using carries_Cons [OF assms(1), of "[]" c] assms(2) carries_Nil [of m x] by (simp add: seq_single)

lemma carries_name [codec_rules]: "canonical_name v \<Longrightarrow> k \<le> 4 \<Longrightarrow> carries m k (encode_name v) decode_name v"
  unfolding encode_name_def decode_name_def
  by (rule carries_pair [OF carries_text]) (cases v, auto simp: name_parse_canonical_def canonical_name_def)

lemma carries_id [codec_rules]: "k \<le> 8 \<Longrightarrow> carries m k (encode_id v) decode_id v"
  unfolding encode_id_def decode_id_def by (rule carries_pair [OF carries_u64]) simp_all

lemma carries_gen [codec_rules]: "k \<le> 8 \<Longrightarrow> carries m k (encode_gen v) decode_gen v"
  unfolding encode_gen_def decode_gen_def by (rule carries_pair [OF carries_u64]) simp_all

lemma carries_tick [codec_rules]: "k \<le> 8 \<Longrightarrow> carries m k (encode_tick v) decode_tick v"
  unfolding encode_tick_def decode_tick_def by (rule carries_pair [OF carries_u64]) simp_all

lemma carries_digest [codec_rules]: "k \<le> 8 \<Longrightarrow> carries m k (encode_digest v) decode_digest v"
  unfolding encode_digest_def decode_digest_def
  by (rule codec_rules | simp)+

lemma carries_reason [codec_rules]:
  "reason_known v \<Longrightarrow> k \<le> 2 \<Longrightarrow> carries m k (put_u16 (reason_value v)) decode_reason v"
  unfolding decode_reason_def by (rule carries_pair [OF carries_u16]) simp_all

lemma carries_enum:
  assumes "v \<in> fst ` set table" and "length table < 256" and "k \<le> 1"
  shows "carries m k (encode_enum table v) (decode_enum table) v"
proof -
  have "ordinal table v < length table" using assms(1) by (rule ordinal_less)
  moreover from this have "unat (of_nat (ordinal table v) :: u8) = ordinal table v"
    using assms(2) by (simp add: unat_of_nat)
  ultimately have "(if unat (of_nat (ordinal table v) :: u8) \<ge> length table then dfail R_UnsupportedSemantics
      else dreturn (fst (table ! unat (of_nat (ordinal table v) :: u8)))) = dreturn v"
    using ordinal_nth [OF assms(1)] by simp
  with assms(1,3) show ?thesis
    unfolding encode_enum_def decode_enum_def by (simp add: carries_pair [OF carries_u8])
qed

lemma stable_name [codec_rules]: "stable decode_name"
  unfolding decode_name_def by (intro codec_rules) (auto split: option.split intro: codec_rules)

lemma stable_id [codec_rules]: "stable decode_id"
  unfolding decode_id_def by (intro codec_rules)

lemma stable_gen [codec_rules]: "stable decode_gen"
  unfolding decode_gen_def by (intro codec_rules)

lemma stable_tick [codec_rules]: "stable decode_tick"
  unfolding decode_tick_def by (intro codec_rules)

lemma stable_digest [codec_rules]: "stable decode_digest"
  unfolding decode_digest_def by (intro codec_rules)

lemma stable_reason [codec_rules]: "stable decode_reason"
  unfolding decode_reason_def by (intro codec_rules)

lemma stable_enum [codec_rules]: "stable (decode_enum table)"
  unfolding decode_enum_def by (intro codec_rules)

lemma carries_enums [codec_rules]:
  "k \<le> 1 \<Longrightarrow> carries m k (encode_enum kDeviceKinds e1) (decode_enum kDeviceKinds) e1"
  "k \<le> 1 \<Longrightarrow> carries m k (encode_enum kStatefulness e2) (decode_enum kStatefulness) e2"
  "k \<le> 1 \<Longrightarrow> carries m k (encode_enum kDependencyKinds e3) (decode_enum kDependencyKinds) e3"
  "k \<le> 1 \<Longrightarrow> carries m k (encode_enum kDependencyRequirements e4) (decode_enum kDependencyRequirements) e4"
  "k \<le> 1 \<Longrightarrow> carries m k (encode_enum kFailureClasses e5) (decode_enum kFailureClasses) e5"
  "k \<le> 1 \<Longrightarrow> carries m k (encode_enum kAmbiguity e6) (decode_enum kAmbiguity) e6"
  "k \<le> 1 \<Longrightarrow> carries m k (encode_enum kDependencyHealth e7) (decode_enum kDependencyHealth) e7"
  "k \<le> 1 \<Longrightarrow> carries m k (encode_enum kRecoveryPhases e8) (decode_enum kRecoveryPhases) e8"
  "k \<le> 1 \<Longrightarrow> carries m k (encode_enum kAttemptOutcomes e9) (decode_enum kAttemptOutcomes) e9"
  "k \<le> 1 \<Longrightarrow> carries m k (encode_enum kEffectKinds e10) (decode_enum kEffectKinds) e10"
  "k \<le> 1 \<Longrightarrow> carries m k (encode_enum kEffectResults e11) (decode_enum kEffectResults) e11"
  by (rule carries_enum; simp add: device_kind_listed statefulness_listed dependency_kind_listed
      dependency_requirement_listed failure_class_listed ambiguity_state_listed dependency_health_listed
      recovery_phase_listed attempt_outcome_listed effect_kind_listed effect_result_listed;
      simp add: kDeviceKinds_def kStatefulness_def kDependencyKinds_def kDependencyRequirements_def
      kFailureClasses_def kAmbiguity_def kDependencyHealth_def kRecoveryPhases_def kAttemptOutcomes_def
      kEffectKinds_def kEffectResults_def)+

subsection \<open>Incarnations and sets\<close>

definition encode_target_incarnation :: "target_incarnation \<Rightarrow> writer \<Rightarrow> writer" where
  "encode_target_incarnation v = seq [encode_gen (ti_host v), encode_gen (ti_device v)]"

definition decode_target_incarnation :: "target_incarnation decoder" where
  "decode_target_incarnation =
    dbind decode_gen (\<lambda>h. dbind decode_gen (\<lambda>d. dreturn (Target_Incarnation h d)))"

lemma carries_target_incarnation [codec_rules]:
  "k \<le> 8 \<Longrightarrow> carries m k (encode_target_incarnation v) decode_target_incarnation v"
  unfolding encode_target_incarnation_def decode_target_incarnation_def
  by (cases v) (rule codec_rules | simp)+

lemma stable_target_incarnation [codec_rules]: "stable decode_target_incarnation"
  unfolding decode_target_incarnation_def by (intro codec_rules)

text \<open>A bit that this build does not understand is refused, never dropped.\<close>

definition known_capability_bits :: u64 where
  "known_capability_bits = push_bit (length kCapabilityCodes) 1 - 1"

definition encode_capability_set :: "capability_set \<Rightarrow> writer \<Rightarrow> writer" where
  "encode_capability_set v = put_u64 (cs_mask v)"

definition decode_capability_set :: "capability_set decoder" where
  "decode_capability_set = dbind get_u64 (\<lambda>mask.
    if mask AND NOT known_capability_bits \<noteq> 0 then dfail R_UnsupportedSemantics
    else dreturn (Capability_Set mask))"

definition valid_capability_set :: "capability_set \<Rightarrow> bool" where
  "valid_capability_set v \<longleftrightarrow> cs_mask v AND NOT known_capability_bits = 0"

lemma carries_capability_set [codec_rules]:
  "valid_capability_set v \<Longrightarrow> k \<le> 8 \<Longrightarrow> carries m k (encode_capability_set v) decode_capability_set v"
  unfolding encode_capability_set_def decode_capability_set_def valid_capability_set_def
  by (rule carries_pair [OF carries_u64]) simp_all

lemma stable_capability_set [codec_rules]: "stable decode_capability_set"
  unfolding decode_capability_set_def by (intro codec_rules)

definition known_precondition_bits :: u32 where
  "known_precondition_bits = push_bit (length kPreconditions) 1 - 1"

definition encode_precondition_set :: "precondition_set \<Rightarrow> writer \<Rightarrow> writer" where
  "encode_precondition_set v = put_u32 (ps_mask v)"

definition decode_precondition_set :: "precondition_set decoder" where
  "decode_precondition_set = dbind get_u32 (\<lambda>mask.
    if mask AND NOT known_precondition_bits \<noteq> 0 then dfail R_UnsupportedSemantics
    else dreturn (Precondition_Set mask))"

definition valid_precondition_set :: "precondition_set \<Rightarrow> bool" where
  "valid_precondition_set v \<longleftrightarrow> ps_mask v AND NOT known_precondition_bits = 0"

lemma carries_precondition_set [codec_rules]:
  "valid_precondition_set v \<Longrightarrow> k \<le> 4 \<Longrightarrow> carries m k (encode_precondition_set v) decode_precondition_set v"
  unfolding encode_precondition_set_def decode_precondition_set_def valid_precondition_set_def
  by (rule carries_pair [OF carries_u32]) simp_all

lemma stable_precondition_set [codec_rules]: "stable decode_precondition_set"
  unfolding decode_precondition_set_def by (intro codec_rules)

subsection \<open>Records\<close>

definition encode_target_ref :: "target_ref \<Rightarrow> writer \<Rightarrow> writer" where
  "encode_target_ref v = seq
    [encode_name (tg_target v),
     encode_target_incarnation (tg_incarnation v)]"

definition decode_target_ref :: "target_ref decoder" where
  "decode_target_ref =
    dbind decode_name (\<lambda>target'.
    dbind decode_target_incarnation (\<lambda>incarnation'.
    dreturn \<lparr>tg_target = target', tg_incarnation = incarnation'\<rparr>))"

definition valid_target_ref :: "target_ref \<Rightarrow> bool" where
  "valid_target_ref v \<longleftrightarrow> canonical_name (tg_target v)"

lemma carries_target_ref [codec_rules]:
  "valid_target_ref v \<Longrightarrow> k \<le> 4 \<Longrightarrow> carries m k (encode_target_ref v) decode_target_ref v"
  unfolding encode_target_ref_def decode_target_ref_def valid_target_ref_def
  by (cases v) (rule codec_rules | simp add: list_all_iff)+

lemma stable_target_ref [codec_rules]: "stable decode_target_ref"
  unfolding decode_target_ref_def by (intro codec_rules)

interpretation target_ref_codec: prefix_codec encode_target_ref decode_target_ref valid_target_ref
  by unfold_locales (simp_all add: carries_target_ref stable_target_ref)

definition encode_target_record :: "target_record \<Rightarrow> writer \<Rightarrow> writer" where
  "encode_target_record v = seq
    [encode_name (tr_name v),
     encode_name (tr_host v),
     encode_name (tr_device v),
     encode_enum kDeviceKinds (tr_kind v),
     encode_name (tr_scope v),
     encode_target_incarnation (tr_incarnation v),
     encode_gen (tr_topology_generation v)]"

definition decode_target_record :: "target_record decoder" where
  "decode_target_record =
    dbind decode_name (\<lambda>name'.
    dbind decode_name (\<lambda>host'.
    dbind decode_name (\<lambda>device'.
    dbind (decode_enum kDeviceKinds) (\<lambda>kind'.
    dbind decode_name (\<lambda>scope'.
    dbind decode_target_incarnation (\<lambda>incarnation'.
    dbind decode_gen (\<lambda>topology_generation'.
    dreturn \<lparr>tr_name = name', tr_host = host', tr_device = device', tr_kind = kind', tr_scope = scope', tr_incarnation = incarnation', tr_topology_generation = topology_generation'\<rparr>)))))))"

definition valid_target_record :: "target_record \<Rightarrow> bool" where
  "valid_target_record v \<longleftrightarrow> canonical_name (tr_name v) \<and>
     canonical_name (tr_host v) \<and>
     canonical_name (tr_device v) \<and>
     canonical_name (tr_scope v)"

lemma carries_target_record [codec_rules]:
  "valid_target_record v \<Longrightarrow> k \<le> 4 \<Longrightarrow> carries m k (encode_target_record v) decode_target_record v"
  unfolding encode_target_record_def decode_target_record_def valid_target_record_def
  by (cases v) (rule codec_rules | simp add: list_all_iff)+

lemma stable_target_record [codec_rules]: "stable decode_target_record"
  unfolding decode_target_record_def by (intro codec_rules)

interpretation target_record_codec: prefix_codec encode_target_record decode_target_record valid_target_record
  by unfold_locales (simp_all add: carries_target_record stable_target_record)

definition encode_capability_evidence :: "capability_evidence \<Rightarrow> writer \<Rightarrow> writer" where
  "encode_capability_evidence v = seq
    [encode_name (ce_target v),
     encode_gen (ce_generation v),
     encode_capability_set (ce_capabilities v),
     encode_gen (ce_topology_generation v),
     encode_target_incarnation (ce_incarnation v),
     encode_name (ce_source v),
     encode_tick (ce_tick v),
     encode_digest (ce_content_digest v)]"

definition decode_capability_evidence :: "capability_evidence decoder" where
  "decode_capability_evidence =
    dbind decode_name (\<lambda>target'.
    dbind decode_gen (\<lambda>generation'.
    dbind decode_capability_set (\<lambda>capabilities'.
    dbind decode_gen (\<lambda>topology_generation'.
    dbind decode_target_incarnation (\<lambda>incarnation'.
    dbind decode_name (\<lambda>source'.
    dbind decode_tick (\<lambda>tick'.
    dbind decode_digest (\<lambda>content_digest'.
    dreturn \<lparr>ce_target = target', ce_generation = generation', ce_capabilities = capabilities', ce_topology_generation = topology_generation', ce_incarnation = incarnation', ce_source = source', ce_tick = tick', ce_content_digest = content_digest'\<rparr>))))))))"

definition valid_capability_evidence :: "capability_evidence \<Rightarrow> bool" where
  "valid_capability_evidence v \<longleftrightarrow> canonical_name (ce_target v) \<and>
     valid_capability_set (ce_capabilities v) \<and>
     canonical_name (ce_source v)"

lemma carries_capability_evidence [codec_rules]:
  "valid_capability_evidence v \<Longrightarrow> k \<le> 4 \<Longrightarrow> carries m k (encode_capability_evidence v) decode_capability_evidence v"
  unfolding encode_capability_evidence_def decode_capability_evidence_def valid_capability_evidence_def
  by (cases v) (rule codec_rules | simp add: list_all_iff)+

lemma stable_capability_evidence [codec_rules]: "stable decode_capability_evidence"
  unfolding decode_capability_evidence_def by (intro codec_rules)

interpretation capability_evidence_codec: prefix_codec encode_capability_evidence decode_capability_evidence valid_capability_evidence
  by unfold_locales (simp_all add: carries_capability_evidence stable_capability_evidence)

definition encode_dependency_spec :: "dependency_spec \<Rightarrow> writer \<Rightarrow> writer" where
  "encode_dependency_spec v = seq
    [encode_name (ds_service v),
     encode_enum kDependencyKinds (ds_kind v),
     encode_enum kDependencyRequirements (ds_requirement v)]"

definition decode_dependency_spec :: "dependency_spec decoder" where
  "decode_dependency_spec =
    dbind decode_name (\<lambda>service'.
    dbind (decode_enum kDependencyKinds) (\<lambda>kind'.
    dbind (decode_enum kDependencyRequirements) (\<lambda>requirement'.
    dreturn \<lparr>ds_service = service', ds_kind = kind', ds_requirement = requirement'\<rparr>)))"

definition valid_dependency_spec :: "dependency_spec \<Rightarrow> bool" where
  "valid_dependency_spec v \<longleftrightarrow> canonical_name (ds_service v)"

lemma carries_dependency_spec [codec_rules]:
  "valid_dependency_spec v \<Longrightarrow> k \<le> 4 \<Longrightarrow> carries m k (encode_dependency_spec v) decode_dependency_spec v"
  unfolding encode_dependency_spec_def decode_dependency_spec_def valid_dependency_spec_def
  by (cases v) (rule codec_rules | simp add: list_all_iff)+

lemma stable_dependency_spec [codec_rules]: "stable decode_dependency_spec"
  unfolding decode_dependency_spec_def by (intro codec_rules)

interpretation dependency_spec_codec: prefix_codec encode_dependency_spec decode_dependency_spec valid_dependency_spec
  by unfold_locales (simp_all add: carries_dependency_spec stable_dependency_spec)

definition encode_service_descriptor :: "service_descriptor \<Rightarrow> writer \<Rightarrow> writer" where
  "encode_service_descriptor v = seq
    [encode_name (sd_name v),
     encode_name (sd_scope v),
     encode_enum kStatefulness (sd_statefulness v),
     encode_capability_set (sd_required_capabilities v),
     encode_precondition_set (sd_preconditions v),
     encode_list encode_dependency_spec (sd_dependencies v),
     encode_gen (sd_last_known_state_generation v)]"

definition decode_service_descriptor :: "service_descriptor decoder" where
  "decode_service_descriptor =
    dbind decode_name (\<lambda>name'.
    dbind decode_name (\<lambda>scope'.
    dbind (decode_enum kStatefulness) (\<lambda>statefulness'.
    dbind decode_capability_set (\<lambda>required_capabilities'.
    dbind decode_precondition_set (\<lambda>preconditions'.
    dbind (decode_vector 3 decode_dependency_spec) (\<lambda>dependencies'.
    dbind decode_gen (\<lambda>last_known_state_generation'.
    dreturn \<lparr>sd_name = name', sd_scope = scope', sd_statefulness = statefulness', sd_required_capabilities = required_capabilities', sd_preconditions = preconditions', sd_dependencies = dependencies', sd_last_known_state_generation = last_known_state_generation'\<rparr>)))))))"

definition valid_service_descriptor :: "service_descriptor \<Rightarrow> bool" where
  "valid_service_descriptor v \<longleftrightarrow> canonical_name (sd_name v) \<and>
     canonical_name (sd_scope v) \<and>
     valid_capability_set (sd_required_capabilities v) \<and>
     valid_precondition_set (sd_preconditions v) \<and>
     list_all valid_dependency_spec (sd_dependencies v)"

lemma carries_service_descriptor [codec_rules]:
  "valid_service_descriptor v \<Longrightarrow> m < 32 \<Longrightarrow> k \<le> 4 \<Longrightarrow> carries m k (encode_service_descriptor v) decode_service_descriptor v"
  unfolding encode_service_descriptor_def decode_service_descriptor_def valid_service_descriptor_def
  by (cases v) (rule codec_rules | simp add: list_all_iff)+

lemma stable_service_descriptor [codec_rules]: "stable decode_service_descriptor"
  unfolding decode_service_descriptor_def by (intro codec_rules)

interpretation service_descriptor_codec: prefix_codec encode_service_descriptor decode_service_descriptor valid_service_descriptor
  by unfold_locales (simp_all add: carries_service_descriptor stable_service_descriptor)

definition encode_provenance :: "provenance \<Rightarrow> writer \<Rightarrow> writer" where
  "encode_provenance v = seq
    [encode_name (pv_source v),
     encode_gen (pv_sequence v),
     encode_tick (pv_tick v),
     encode_gen (pv_epoch v),
     encode_gen (pv_boot v)]"

definition decode_provenance :: "provenance decoder" where
  "decode_provenance =
    dbind decode_name (\<lambda>source'.
    dbind decode_gen (\<lambda>sequence'.
    dbind decode_tick (\<lambda>tick'.
    dbind decode_gen (\<lambda>epoch'.
    dbind decode_gen (\<lambda>boot'.
    dreturn \<lparr>pv_source = source', pv_sequence = sequence', pv_tick = tick', pv_epoch = epoch', pv_boot = boot'\<rparr>)))))"

definition valid_provenance :: "provenance \<Rightarrow> bool" where
  "valid_provenance v \<longleftrightarrow> canonical_name (pv_source v)"

lemma carries_provenance [codec_rules]:
  "valid_provenance v \<Longrightarrow> k \<le> 4 \<Longrightarrow> carries m k (encode_provenance v) decode_provenance v"
  unfolding encode_provenance_def decode_provenance_def valid_provenance_def
  by (cases v) (rule codec_rules | simp add: list_all_iff)+

lemma stable_provenance [codec_rules]: "stable decode_provenance"
  unfolding decode_provenance_def by (intro codec_rules)

interpretation provenance_codec: prefix_codec encode_provenance decode_provenance valid_provenance
  by unfold_locales (simp_all add: carries_provenance stable_provenance)

definition encode_failure_evidence :: "failure_evidence \<Rightarrow> writer \<Rightarrow> writer" where
  "encode_failure_evidence v = seq
    [encode_id (fe_id v),
     encode_name (fe_service v),
     encode_target_ref (fe_target v),
     encode_enum kFailureClasses (fe_failure_class v),
     encode_enum kAmbiguity (fe_ambiguity v),
     encode_provenance (fe_provenance v),
     encode_gen (fe_topology_generation v),
     encode_gen (fe_capability_generation v),
     encode_gen (fe_policy_generation v),
     encode_digest (fe_content_digest v)]"

definition decode_failure_evidence :: "failure_evidence decoder" where
  "decode_failure_evidence =
    dbind decode_id (\<lambda>id'.
    dbind decode_name (\<lambda>service'.
    dbind decode_target_ref (\<lambda>target'.
    dbind (decode_enum kFailureClasses) (\<lambda>failure_class'.
    dbind (decode_enum kAmbiguity) (\<lambda>ambiguity'.
    dbind decode_provenance (\<lambda>provenance'.
    dbind decode_gen (\<lambda>topology_generation'.
    dbind decode_gen (\<lambda>capability_generation'.
    dbind decode_gen (\<lambda>policy_generation'.
    dbind decode_digest (\<lambda>content_digest'.
    dreturn \<lparr>fe_id = id', fe_service = service', fe_target = target', fe_failure_class = failure_class', fe_ambiguity = ambiguity', fe_provenance = provenance', fe_topology_generation = topology_generation', fe_capability_generation = capability_generation', fe_policy_generation = policy_generation', fe_content_digest = content_digest'\<rparr>))))))))))"

definition valid_failure_evidence :: "failure_evidence \<Rightarrow> bool" where
  "valid_failure_evidence v \<longleftrightarrow> canonical_name (fe_service v) \<and>
     valid_target_ref (fe_target v) \<and>
     valid_provenance (fe_provenance v)"

lemma carries_failure_evidence [codec_rules]:
  "valid_failure_evidence v \<Longrightarrow> k \<le> 4 \<Longrightarrow> carries m k (encode_failure_evidence v) decode_failure_evidence v"
  unfolding encode_failure_evidence_def decode_failure_evidence_def valid_failure_evidence_def
  by (cases v) (rule codec_rules | simp add: list_all_iff)+

lemma stable_failure_evidence [codec_rules]: "stable decode_failure_evidence"
  unfolding decode_failure_evidence_def by (intro codec_rules)

interpretation failure_evidence_codec: prefix_codec encode_failure_evidence decode_failure_evidence valid_failure_evidence
  by unfold_locales (simp_all add: carries_failure_evidence stable_failure_evidence)

definition encode_dependency_observation :: "dependency_observation \<Rightarrow> writer \<Rightarrow> writer" where
  "encode_dependency_observation v = seq
    [encode_name (dob_service v),
     encode_name (dob_dependency v),
     encode_enum kDependencyHealth (dob_health v),
     encode_target_ref (dob_observed_target v),
     encode_provenance (dob_provenance v),
     encode_gen (dob_topology_generation v),
     encode_digest (dob_content_digest v)]"

definition decode_dependency_observation :: "dependency_observation decoder" where
  "decode_dependency_observation =
    dbind decode_name (\<lambda>service'.
    dbind decode_name (\<lambda>dependency'.
    dbind (decode_enum kDependencyHealth) (\<lambda>health'.
    dbind decode_target_ref (\<lambda>observed_target'.
    dbind decode_provenance (\<lambda>provenance'.
    dbind decode_gen (\<lambda>topology_generation'.
    dbind decode_digest (\<lambda>content_digest'.
    dreturn \<lparr>dob_service = service', dob_dependency = dependency', dob_health = health', dob_observed_target = observed_target', dob_provenance = provenance', dob_topology_generation = topology_generation', dob_content_digest = content_digest'\<rparr>)))))))"

definition valid_dependency_observation :: "dependency_observation \<Rightarrow> bool" where
  "valid_dependency_observation v \<longleftrightarrow> canonical_name (dob_service v) \<and>
     canonical_name (dob_dependency v) \<and>
     valid_target_ref (dob_observed_target v) \<and>
     valid_provenance (dob_provenance v)"

lemma carries_dependency_observation [codec_rules]:
  "valid_dependency_observation v \<Longrightarrow> k \<le> 4 \<Longrightarrow> carries m k (encode_dependency_observation v) decode_dependency_observation v"
  unfolding encode_dependency_observation_def decode_dependency_observation_def valid_dependency_observation_def
  by (cases v) (rule codec_rules | simp add: list_all_iff)+

lemma stable_dependency_observation [codec_rules]: "stable decode_dependency_observation"
  unfolding decode_dependency_observation_def by (intro codec_rules)

interpretation dependency_observation_codec: prefix_codec encode_dependency_observation decode_dependency_observation valid_dependency_observation
  by unfold_locales (simp_all add: carries_dependency_observation stable_dependency_observation)

definition encode_policy_descriptor :: "policy_descriptor \<Rightarrow> writer \<Rightarrow> writer" where
  "encode_policy_descriptor v = seq
    [encode_gen (pd_generation v),
     encode_name (pd_scope v),
     put_u32 (pd_max_attempts_per_generation v),
     put_u32 (pd_max_plan_steps v),
     put_u32 (pd_max_fallback_candidates v),
     put_u32 (pd_evidence_max_age_ticks v),
     put_u32 (pd_dependency_max_depth v),
     put_bool (pd_require_operator_for_ambiguous v),
     put_bool (pd_allow_degraded_continuity v),
     put_bool (pd_allow_failback v)]"

definition decode_policy_descriptor :: "policy_descriptor decoder" where
  "decode_policy_descriptor =
    dbind decode_gen (\<lambda>generation'.
    dbind decode_name (\<lambda>scope'.
    dbind get_u32 (\<lambda>max_attempts_per_generation'.
    dbind get_u32 (\<lambda>max_plan_steps'.
    dbind get_u32 (\<lambda>max_fallback_candidates'.
    dbind get_u32 (\<lambda>evidence_max_age_ticks'.
    dbind get_u32 (\<lambda>dependency_max_depth'.
    dbind get_bool (\<lambda>require_operator_for_ambiguous'.
    dbind get_bool (\<lambda>allow_degraded_continuity'.
    dbind get_bool (\<lambda>allow_failback'.
    dreturn \<lparr>pd_generation = generation', pd_scope = scope', pd_max_attempts_per_generation = max_attempts_per_generation', pd_max_plan_steps = max_plan_steps', pd_max_fallback_candidates = max_fallback_candidates', pd_evidence_max_age_ticks = evidence_max_age_ticks', pd_dependency_max_depth = dependency_max_depth', pd_require_operator_for_ambiguous = require_operator_for_ambiguous', pd_allow_degraded_continuity = allow_degraded_continuity', pd_allow_failback = allow_failback'\<rparr>))))))))))"

definition valid_policy_descriptor :: "policy_descriptor \<Rightarrow> bool" where
  "valid_policy_descriptor v \<longleftrightarrow> canonical_name (pd_scope v)"

lemma carries_policy_descriptor [codec_rules]:
  "valid_policy_descriptor v \<Longrightarrow> k \<le> 4 \<Longrightarrow> carries m k (encode_policy_descriptor v) decode_policy_descriptor v"
  unfolding encode_policy_descriptor_def decode_policy_descriptor_def valid_policy_descriptor_def
  by (cases v) (rule codec_rules | simp add: list_all_iff)+

lemma stable_policy_descriptor [codec_rules]: "stable decode_policy_descriptor"
  unfolding decode_policy_descriptor_def by (intro codec_rules)

interpretation policy_descriptor_codec: prefix_codec encode_policy_descriptor decode_policy_descriptor valid_policy_descriptor
  by unfold_locales (simp_all add: carries_policy_descriptor stable_policy_descriptor)

definition encode_fence_record :: "fence_record \<Rightarrow> writer \<Rightarrow> writer" where
  "encode_fence_record v = seq
    [encode_name (fr_service v),
     encode_gen (fr_token v),
     encode_target_ref (fr_holder v),
     encode_id (fr_attempt v),
     encode_gen (fr_epoch v),
     encode_tick (fr_issued v)]"

definition decode_fence_record :: "fence_record decoder" where
  "decode_fence_record =
    dbind decode_name (\<lambda>service'.
    dbind decode_gen (\<lambda>token'.
    dbind decode_target_ref (\<lambda>holder'.
    dbind decode_id (\<lambda>attempt'.
    dbind decode_gen (\<lambda>epoch'.
    dbind decode_tick (\<lambda>issued'.
    dreturn \<lparr>fr_service = service', fr_token = token', fr_holder = holder', fr_attempt = attempt', fr_epoch = epoch', fr_issued = issued'\<rparr>))))))"

definition valid_fence_record :: "fence_record \<Rightarrow> bool" where
  "valid_fence_record v \<longleftrightarrow> canonical_name (fr_service v) \<and>
     valid_target_ref (fr_holder v)"

lemma carries_fence_record [codec_rules]:
  "valid_fence_record v \<Longrightarrow> k \<le> 4 \<Longrightarrow> carries m k (encode_fence_record v) decode_fence_record v"
  unfolding encode_fence_record_def decode_fence_record_def valid_fence_record_def
  by (cases v) (rule codec_rules | simp add: list_all_iff)+

lemma stable_fence_record [codec_rules]: "stable decode_fence_record"
  unfolding decode_fence_record_def by (intro codec_rules)

interpretation fence_record_codec: prefix_codec encode_fence_record decode_fence_record valid_fence_record
  by unfold_locales (simp_all add: carries_fence_record stable_fence_record)

definition encode_lease_record :: "lease_record \<Rightarrow> writer \<Rightarrow> writer" where
  "encode_lease_record v = seq
    [encode_name (lr_service v),
     encode_id (lr_id v),
     encode_gen (lr_term v),
     encode_name (lr_scope v),
     encode_target_ref (lr_holder v),
     encode_gen (lr_epoch v),
     encode_tick (lr_issued v)]"

definition decode_lease_record :: "lease_record decoder" where
  "decode_lease_record =
    dbind decode_name (\<lambda>service'.
    dbind decode_id (\<lambda>id'.
    dbind decode_gen (\<lambda>term'.
    dbind decode_name (\<lambda>scope'.
    dbind decode_target_ref (\<lambda>holder'.
    dbind decode_gen (\<lambda>epoch'.
    dbind decode_tick (\<lambda>issued'.
    dreturn \<lparr>lr_service = service', lr_id = id', lr_term = term', lr_scope = scope', lr_holder = holder', lr_epoch = epoch', lr_issued = issued'\<rparr>)))))))"

definition valid_lease_record :: "lease_record \<Rightarrow> bool" where
  "valid_lease_record v \<longleftrightarrow> canonical_name (lr_service v) \<and>
     canonical_name (lr_scope v) \<and>
     valid_target_ref (lr_holder v)"

lemma carries_lease_record [codec_rules]:
  "valid_lease_record v \<Longrightarrow> k \<le> 4 \<Longrightarrow> carries m k (encode_lease_record v) decode_lease_record v"
  unfolding encode_lease_record_def decode_lease_record_def valid_lease_record_def
  by (cases v) (rule codec_rules | simp add: list_all_iff)+

lemma stable_lease_record [codec_rules]: "stable decode_lease_record"
  unfolding decode_lease_record_def by (intro codec_rules)

interpretation lease_record_codec: prefix_codec encode_lease_record decode_lease_record valid_lease_record
  by unfold_locales (simp_all add: carries_lease_record stable_lease_record)

definition encode_attempt_record :: "attempt_record \<Rightarrow> writer \<Rightarrow> writer" where
  "encode_attempt_record v = seq
    [encode_id (ar_id v),
     encode_name (ar_service v),
     encode_gen (ar_generation v),
     encode_gen (ar_fence v),
     encode_target_ref (ar_from v),
     encode_target_ref (ar_to v),
     encode_gen (ar_lease_term v),
     encode_gen (ar_epoch v),
     encode_tick (ar_opened v),
     encode_enum kRecoveryPhases (ar_phase v),
     encode_enum kAttemptOutcomes (ar_outcome v),
     put_bool (ar_durable_committed v),
     put_bool (ar_acknowledged v),
     put_bool (ar_restart_downgraded v),
     put_u16 (reason_value (ar_last_reason v))]"

definition decode_attempt_record :: "attempt_record decoder" where
  "decode_attempt_record =
    dbind decode_id (\<lambda>id'.
    dbind decode_name (\<lambda>service'.
    dbind decode_gen (\<lambda>generation'.
    dbind decode_gen (\<lambda>fence'.
    dbind decode_target_ref (\<lambda>from'.
    dbind decode_target_ref (\<lambda>to'.
    dbind decode_gen (\<lambda>lease_term'.
    dbind decode_gen (\<lambda>epoch'.
    dbind decode_tick (\<lambda>opened'.
    dbind (decode_enum kRecoveryPhases) (\<lambda>phase'.
    dbind (decode_enum kAttemptOutcomes) (\<lambda>outcome'.
    dbind get_bool (\<lambda>durable_committed'.
    dbind get_bool (\<lambda>acknowledged'.
    dbind get_bool (\<lambda>restart_downgraded'.
    dbind decode_reason (\<lambda>last_reason'.
    dreturn \<lparr>ar_id = id', ar_service = service', ar_generation = generation', ar_fence = fence', ar_from = from', ar_to = to', ar_lease_term = lease_term', ar_epoch = epoch', ar_opened = opened', ar_phase = phase', ar_outcome = outcome', ar_durable_committed = durable_committed', ar_acknowledged = acknowledged', ar_restart_downgraded = restart_downgraded', ar_last_reason = last_reason'\<rparr>)))))))))))))))"

definition valid_attempt_record :: "attempt_record \<Rightarrow> bool" where
  "valid_attempt_record v \<longleftrightarrow> canonical_name (ar_service v) \<and>
     valid_target_ref (ar_from v) \<and>
     valid_target_ref (ar_to v) \<and>
     reason_known (ar_last_reason v)"

lemma carries_attempt_record [codec_rules]:
  "valid_attempt_record v \<Longrightarrow> k \<le> 4 \<Longrightarrow> carries m k (encode_attempt_record v) decode_attempt_record v"
  unfolding encode_attempt_record_def decode_attempt_record_def valid_attempt_record_def
  by (cases v) (rule codec_rules | simp add: list_all_iff)+

lemma stable_attempt_record [codec_rules]: "stable decode_attempt_record"
  unfolding decode_attempt_record_def by (intro codec_rules)

interpretation attempt_record_codec: prefix_codec encode_attempt_record decode_attempt_record valid_attempt_record
  by unfold_locales (simp_all add: carries_attempt_record stable_attempt_record)

definition encode_failover_intent :: "failover_intent \<Rightarrow> writer \<Rightarrow> writer" where
  "encode_failover_intent v = seq
    [encode_id (fi_attempt v),
     encode_name (fi_service v),
     encode_gen (fi_generation v),
     encode_gen (fi_fence v),
     encode_gen (fi_lease_term v),
     encode_target_ref (fi_from v),
     encode_target_ref (fi_to v),
     encode_gen (fi_epoch v),
     encode_gen (fi_policy_generation v),
     encode_gen (fi_topology_generation v),
     encode_tick (fi_issued v),
     put_bool (fi_reissue_after_restart v)]"

definition decode_failover_intent :: "failover_intent decoder" where
  "decode_failover_intent =
    dbind decode_id (\<lambda>attempt'.
    dbind decode_name (\<lambda>service'.
    dbind decode_gen (\<lambda>generation'.
    dbind decode_gen (\<lambda>fence'.
    dbind decode_gen (\<lambda>lease_term'.
    dbind decode_target_ref (\<lambda>from'.
    dbind decode_target_ref (\<lambda>to'.
    dbind decode_gen (\<lambda>epoch'.
    dbind decode_gen (\<lambda>policy_generation'.
    dbind decode_gen (\<lambda>topology_generation'.
    dbind decode_tick (\<lambda>issued'.
    dbind get_bool (\<lambda>reissue_after_restart'.
    dreturn \<lparr>fi_attempt = attempt', fi_service = service', fi_generation = generation', fi_fence = fence', fi_lease_term = lease_term', fi_from = from', fi_to = to', fi_epoch = epoch', fi_policy_generation = policy_generation', fi_topology_generation = topology_generation', fi_issued = issued', fi_reissue_after_restart = reissue_after_restart'\<rparr>))))))))))))"

definition valid_failover_intent :: "failover_intent \<Rightarrow> bool" where
  "valid_failover_intent v \<longleftrightarrow> canonical_name (fi_service v) \<and>
     valid_target_ref (fi_from v) \<and>
     valid_target_ref (fi_to v)"

lemma carries_failover_intent [codec_rules]:
  "valid_failover_intent v \<Longrightarrow> k \<le> 4 \<Longrightarrow> carries m k (encode_failover_intent v) decode_failover_intent v"
  unfolding encode_failover_intent_def decode_failover_intent_def valid_failover_intent_def
  by (cases v) (rule codec_rules | simp add: list_all_iff)+

lemma stable_failover_intent [codec_rules]: "stable decode_failover_intent"
  unfolding decode_failover_intent_def by (intro codec_rules)

interpretation failover_intent_codec: prefix_codec encode_failover_intent decode_failover_intent valid_failover_intent
  by unfold_locales (simp_all add: carries_failover_intent stable_failover_intent)

definition encode_effect_report :: "effect_report \<Rightarrow> writer \<Rightarrow> writer" where
  "encode_effect_report v = seq
    [encode_id (er_id v),
     encode_name (er_service v),
     encode_id (er_attempt v),
     encode_gen (er_generation v),
     encode_gen (er_fence v),
     encode_target_ref (er_target v),
     encode_enum kEffectKinds (er_kind v),
     encode_enum kEffectResults (er_result v),
     encode_gen (er_state_generation v),
     encode_provenance (er_provenance v)]"

definition decode_effect_report :: "effect_report decoder" where
  "decode_effect_report =
    dbind decode_id (\<lambda>id'.
    dbind decode_name (\<lambda>service'.
    dbind decode_id (\<lambda>attempt'.
    dbind decode_gen (\<lambda>generation'.
    dbind decode_gen (\<lambda>fence'.
    dbind decode_target_ref (\<lambda>target'.
    dbind (decode_enum kEffectKinds) (\<lambda>kind'.
    dbind (decode_enum kEffectResults) (\<lambda>result'.
    dbind decode_gen (\<lambda>state_generation'.
    dbind decode_provenance (\<lambda>provenance'.
    dreturn \<lparr>er_id = id', er_service = service', er_attempt = attempt', er_generation = generation', er_fence = fence', er_target = target', er_kind = kind', er_result = result', er_state_generation = state_generation', er_provenance = provenance'\<rparr>))))))))))"

definition valid_effect_report :: "effect_report \<Rightarrow> bool" where
  "valid_effect_report v \<longleftrightarrow> canonical_name (er_service v) \<and>
     valid_target_ref (er_target v) \<and>
     valid_provenance (er_provenance v)"

lemma carries_effect_report [codec_rules]:
  "valid_effect_report v \<Longrightarrow> k \<le> 4 \<Longrightarrow> carries m k (encode_effect_report v) decode_effect_report v"
  unfolding encode_effect_report_def decode_effect_report_def valid_effect_report_def
  by (cases v) (rule codec_rules | simp add: list_all_iff)+

lemma stable_effect_report [codec_rules]: "stable decode_effect_report"
  unfolding decode_effect_report_def by (intro codec_rules)

interpretation effect_report_codec: prefix_codec encode_effect_report decode_effect_report valid_effect_report
  by unfold_locales (simp_all add: carries_effect_report stable_effect_report)

end
