(* ===== verification/Store.thy ===== *)
theory Store
  imports Canonical
begin

text \<open>
  store.hpp and store.cpp: the append-only journal of checksummed frames, grouped into
  transactions, with snapshot generations. The directory is an ordered map from file names to
  contents, next to a script of the outcomes of the coming I/O calls: an empty script means that
  every call succeeds, a failing write leaves a prefix of its bytes. Reading an existing regular
  file is taken to succeed. A crash is a prefix of the appended bytes (theory Store_Durability).
\<close>

subsection \<open>Record kinds and outcomes\<close>

datatype (plugins only: code) record_kind =
  BeginTransaction | CommitTransaction | ServiceRegistered | TargetUpserted | TopologyGenerationSet
| PolicySet | CapabilityIngested | FailureIngested | DependencyIngested | AttemptCommitted
| AttemptAcknowledged | EffectRecorded | AmbiguityResolved | FailbackCommitted | EpochAdvanced
| ServiceWithdrawn | SourceRegistered | RecoveryResumed | TargetRetired

definition kRecordKinds :: "(record_kind \<times> string) list" where
  "kRecordKinds =
   [(BeginTransaction, ''begin_transaction''), (CommitTransaction, ''commit_transaction''),
    (ServiceRegistered, ''service_registered''), (TargetUpserted, ''target_upserted''),
    (TopologyGenerationSet, ''topology_generation_set''), (PolicySet, ''policy_set''),
    (CapabilityIngested, ''capability_ingested''), (FailureIngested, ''failure_ingested''),
    (DependencyIngested, ''dependency_ingested''), (AttemptCommitted, ''attempt_committed''),
    (AttemptAcknowledged, ''attempt_acknowledged''), (EffectRecorded, ''effect_recorded''),
    (AmbiguityResolved, ''ambiguity_resolved''), (FailbackCommitted, ''failback_committed''),
    (EpochAdvanced, ''epoch_advanced''), (ServiceWithdrawn, ''service_withdrawn''),
    (SourceRegistered, ''source_registered''), (RecoveryResumed, ''recovery_resumed''),
    (TargetRetired, ''target_retired'')]"

definition record_kind_text :: "record_kind \<Rightarrow> string" where
  "record_kind_text kind = value_or (map_of kRecordKinds kind) ''unknown''"

definition record_kind_parse :: "string \<Rightarrow> record_kind option" where
  "record_kind_parse t = map_option fst (find (\<lambda>e. snd e = t) kRecordKinds)"

text \<open>The numeric values, one to nineteen in the order of the constructors.\<close>

definition kRecordKindMax :: nat where
  "kRecordKindMax = 19"

fun record_kind_value :: "record_kind \<Rightarrow> u16" where
  "record_kind_value BeginTransaction = 1" | "record_kind_value CommitTransaction = 2"
| "record_kind_value ServiceRegistered = 3" | "record_kind_value TargetUpserted = 4"
| "record_kind_value TopologyGenerationSet = 5" | "record_kind_value PolicySet = 6"
| "record_kind_value CapabilityIngested = 7" | "record_kind_value FailureIngested = 8"
| "record_kind_value DependencyIngested = 9" | "record_kind_value AttemptCommitted = 10"
| "record_kind_value AttemptAcknowledged = 11" | "record_kind_value EffectRecorded = 12"
| "record_kind_value AmbiguityResolved = 13" | "record_kind_value FailbackCommitted = 14"
| "record_kind_value EpochAdvanced = 15" | "record_kind_value ServiceWithdrawn = 16"
| "record_kind_value SourceRegistered = 17" | "record_kind_value RecoveryResumed = 18"
| "record_kind_value TargetRetired = 19"

definition record_kind_of :: "u16 \<Rightarrow> record_kind" where
  "record_kind_of raw = fst (kRecordKinds ! (unat raw - 1))"

record jrecord =
  rc_kind :: record_kind
  rc_payload :: bytes

datatype (plugins only: code) recovery_class =
  RC_Empty | RC_CleanReopen | RC_TornTailRepaired | RC_TransactionDropped | RC_Corrupt
| RC_VersionIncompatible | RC_Unavailable

definition kRecoveryClasses :: "(recovery_class \<times> string) list" where
  "kRecoveryClasses =
   [(RC_Empty, ''empty''), (RC_CleanReopen, ''clean_reopen''), (RC_TornTailRepaired, ''torn_tail_repaired''),
    (RC_TransactionDropped, ''transaction_dropped''), (RC_Corrupt, ''corrupt''),
    (RC_VersionIncompatible, ''version_incompatible''), (RC_Unavailable, ''unavailable'')]"

definition recovery_class_text :: "recovery_class \<Rightarrow> string" where
  "recovery_class_text v = value_or (map_of kRecoveryClasses v) ''unknown''"

definition recovery_class_parse :: "string \<Rightarrow> recovery_class option" where
  "recovery_class_parse t = map_option fst (find (\<lambda>e. snd e = t) kRecoveryClasses)"

definition recovery_class_is_refusal :: "recovery_class \<Rightarrow> bool" where
  "recovery_class_is_refusal v \<longleftrightarrow> v = RC_Corrupt \<or> v = RC_VersionIncompatible \<or> v = RC_Unavailable"

record recovery_report =
  rp_classification :: recovery_class
  rp_reason :: reason
  rp_format_version :: u32
  rp_bytes_accepted :: u64
  rp_bytes_discarded :: u64
  rp_transactions_applied :: u64
  rp_transactions_dropped :: u64
  rp_records_replayed :: u64
  rp_snapshot_generation :: u32
  rp_journal_generation :: u32
  rp_replayed_digest :: digest
  rp_truncated_tail_repaired :: bool

definition default_recovery_report :: recovery_report where
  "default_recovery_report =
    \<lparr>rp_classification = RC_Empty, rp_reason = R_Ok, rp_format_version = 0, rp_bytes_accepted = 0,
     rp_bytes_discarded = 0, rp_transactions_applied = 0, rp_transactions_dropped = 0,
     rp_records_replayed = 0, rp_snapshot_generation = 0, rp_journal_generation = 0,
     rp_replayed_digest = zero_digest, rp_truncated_tail_repaired = False\<rparr>"

subsection \<open>Options, store, disk\<close>

record store_options =
  so_directory :: string
  so_max_journal_bytes :: u64
  so_retained_generations :: u32
  so_max_record_payload_bytes :: u32
  so_read_only :: bool

text \<open>\<open>sr_open\<close> says that \<^verbatim>\<open>journal_\<close> is not null; the stream appends to the journal of
  the current generation.\<close>

record store =
  sr_options :: store_options
  sr_open :: bool
  sr_journal_bytes :: u64
  sr_next_sequence :: u64
  sr_journal_generation :: u32
  sr_snapshot_generation :: u32

definition default_store :: "store_options \<Rightarrow> store" where
  "default_store options =
    \<lparr>sr_options = options, sr_open = False, sr_journal_bytes = 0, sr_next_sequence = 1,
     sr_journal_generation = 0, sr_snapshot_generation = 0\<rparr>"

datatype io_outcome = Io_Ok | Io_Fail nat

record disk =
  dk_files :: "(string, bytes) omap"
  dk_script :: "io_outcome list"

definition next_io :: "disk \<Rightarrow> io_outcome \<times> disk" where
  "next_io d = (case dk_script d of [] \<Rightarrow> (Io_Ok, d) | o1 # os \<Rightarrow> (o1, d\<lparr>dk_script := os\<rparr>))"

text \<open>A call without data that succeeds or not: opening, syncing, creating the directory.\<close>

definition io_call :: "disk \<Rightarrow> bool \<times> disk" where
  "io_call d = (case next_io d of (Io_Ok, d') \<Rightarrow> (True, d') | (Io_Fail _, d') \<Rightarrow> (False, d'))"

definition file_content :: "disk \<Rightarrow> string \<Rightarrow> bytes" where
  "file_content d path = value_or (omap_find (dk_files d) path) []"

definition set_file :: "string \<Rightarrow> bytes \<Rightarrow> disk \<Rightarrow> disk" where
  "set_file path bs d = d\<lparr>dk_files := omap_put path bs (dk_files d)\<rparr>"

text \<open>\<^verbatim>\<open>fwrite\<close> to an append stream.\<close>

definition disk_append :: "string \<Rightarrow> bytes \<Rightarrow> disk \<Rightarrow> bool \<times> disk" where
  "disk_append path bs d =
    (case next_io d of
       (Io_Ok, d') \<Rightarrow> (True, set_file path (file_content d' path @ bs) d')
     | (Io_Fail n, d') \<Rightarrow> (False, set_file path (file_content d' path @ take n bs) d'))"

text \<open>\<^verbatim>\<open>fopen\<close> for appending creates a missing file; for writing it empties the file.\<close>

definition disk_open_append :: "string \<Rightarrow> disk \<Rightarrow> bool \<times> disk" where
  "disk_open_append path d =
    (case io_call d of (ok, d') \<Rightarrow> if ok then (True, set_file path (file_content d' path) d') else (False, d'))"

definition disk_open_write :: "string \<Rightarrow> disk \<Rightarrow> bool \<times> disk" where
  "disk_open_write path d =
    (case io_call d of (ok, d') \<Rightarrow> if ok then (True, set_file path [] d') else (False, d'))"

definition truncate_file :: "string \<Rightarrow> nat \<Rightarrow> disk \<Rightarrow> bool \<times> disk" where
  "truncate_file path n d =
    (case io_call d of (ok, d') \<Rightarrow>
      if ok then (True, set_file path (take n (file_content d' path)) d') else (False, d'))"

definition disk_remove :: "string \<Rightarrow> disk \<Rightarrow> disk" where
  "disk_remove path d = d\<lparr>dk_files := omap_erase path (dk_files d)\<rparr>"

definition atomic_replace :: "string \<Rightarrow> string \<Rightarrow> disk \<Rightarrow> bool \<times> disk" where
  "atomic_replace source target d =
    (case io_call d of (ok, d') \<Rightarrow>
      if ok then (True, disk_remove source (set_file target (file_content d' source) d')) else (False, d'))"

definition write_file_atomically :: "string \<Rightarrow> bytes \<Rightarrow> disk \<Rightarrow> bool \<times> disk" where
  "write_file_atomically path data d =
    (let temp = path @ ''.tmp'' in
     case disk_open_write temp d of (opened, d1) \<Rightarrow>
     if \<not> opened then (False, d1)
     else case (if data = [] then (True, d1) else disk_append temp data d1) of (written, d2) \<Rightarrow>
     if \<not> written then (False, disk_remove temp d2)
     else case io_call d2 of (synced, d3) \<Rightarrow>
     if \<not> synced then (False, disk_remove temp d3)
     else case atomic_replace temp path d3 of (replaced, d4) \<Rightarrow>
     if \<not> replaced then (False, disk_remove temp d4) else (True, d4))"

subsection \<open>Frames\<close>

definition be16 :: "u16 \<Rightarrow> bytes" where "be16 = be_bytes [8, 0]"

definition be32 :: "u32 \<Rightarrow> bytes" where "be32 = be_bytes [24, 16, 8, 0]"

definition be64 :: "u64 \<Rightarrow> bytes" where "be64 = be_bytes [56, 48, 40, 32, 24, 16, 8, 0]"

definition read_u16 :: "bytes \<Rightarrow> u16" where "read_u16 data = be_value (take 2 data)"

definition read_u32 :: "bytes \<Rightarrow> u32" where "read_u32 data = be_value (take 4 data)"

definition read_u64 :: "bytes \<Rightarrow> u64" where "read_u64 data = be_value (take 8 data)"

definition kStoreFormatVersion :: u16 where "kStoreFormatVersion = 1"
definition kFrameMagic :: u32 where "kFrameMagic = 0x4F46414A"
definition kFrameHeaderBytes :: nat where "kFrameHeaderBytes = 24"
definition kFrameTrailerBytes :: nat where "kFrameTrailerBytes = 4"
definition kSnapshotMagic :: u32 where "kSnapshotMagic = 0x4F464153"
definition kSnapshotHeaderBytes :: nat where "kSnapshotHeaderBytes = 20"
definition kMaxReplayRecords :: nat where "kMaxReplayRecords = 1048576"
definition kJournalSlackBytes :: u64 where "kJournalSlackBytes = 1048576"
definition kMaxSnapshotBytes :: nat where "kMaxSnapshotBytes = 536870912"

definition checksum :: "bytes \<Rightarrow> u32" where
  "checksum data = (if data = [] then 0 else crc32c data 0)"

definition frame_header :: "record_kind \<Rightarrow> u64 \<Rightarrow> bytes \<Rightarrow> bytes" where
  "frame_header kind sequence payload =
    be32 kFrameMagic @ be16 kStoreFormatVersion @ be16 (record_kind_value kind) @
    be32 (of_nat (length payload)) @ be64 sequence @ be32 (checksum payload)"

text \<open>The source fills a zeroed buffer field by field; the fields tile it.\<close>

definition build_record_frame :: "record_kind \<Rightarrow> u64 \<Rightarrow> bytes \<Rightarrow> bytes" where
  "build_record_frame kind sequence payload =
    (let body = frame_header kind sequence payload @ payload in body @ be32 (crc32c body 0))"

definition build_snapshot_frame :: "bytes \<Rightarrow> bytes" where
  "build_snapshot_frame payload =
    (let head = be32 kSnapshotMagic @ be16 kStoreFormatVersion @ be16 0 @
                be32 (of_nat (length payload)) @ be32 (checksum payload)
     in head @ be32 (crc32c head 0) @ payload)"

definition parse_snapshot_header :: "bytes \<Rightarrow> (u16 \<times> u32) option" where
  "parse_snapshot_header data =
    (if length data < kSnapshotHeaderBytes then None
     else if read_u32 data \<noteq> kSnapshotMagic then None
     else if crc32c (take 16 data) 0 \<noteq> read_u32 (drop 16 data) then None
     else Some (read_u16 (drop 4 data), read_u32 (drop 8 data)))"

record raw_frame =
  rf_kind :: record_kind
  rf_sequence :: u64
  rf_payload :: bytes
  rf_offset :: nat
  rf_bytes :: nat

datatype scan_status = Scan_Clean | Scan_TornTail | Scan_Corrupt | Scan_VersionIncompatible | Scan_TooLarge

text \<open>The loop over the frames of the file, with the offset of the first unusable byte.\<close>

function scan_frames :: "u32 \<Rightarrow> bytes \<Rightarrow> nat \<Rightarrow> raw_frame list \<Rightarrow> scan_status \<times> raw_frame list \<times> nat" where
  "scan_frames max_payload data offset frames =
    (if offset + kFrameHeaderBytes + kFrameTrailerBytes \<le> length data then
       let header = take kFrameHeaderBytes (drop offset data) in
       if read_u32 header \<noteq> kFrameMagic then (Scan_Corrupt, frames, offset)
       else if read_u16 (drop 4 header) \<noteq> kStoreFormatVersion then (Scan_VersionIncompatible, frames, offset)
       else let kind_raw = read_u16 (drop 6 header) in
       if kind_raw = 0 \<or> unat kind_raw > kRecordKindMax then (Scan_Corrupt, frames, offset)
       else let payload_length = read_u32 (drop 8 header) in
       if payload_length > max_payload then (Scan_Corrupt, frames, offset)
       else let frame_bytes = kFrameHeaderBytes + unat payload_length + kFrameTrailerBytes in
       if offset + frame_bytes > length data then (Scan_TornTail, frames, offset)
       else let payload = take (unat payload_length) (drop (offset + kFrameHeaderBytes) data);
                trailer = take kFrameTrailerBytes (drop (offset + kFrameHeaderBytes + unat payload_length) data) in
       if read_u32 (drop 20 header) \<noteq> checksum payload then (Scan_Corrupt, frames, offset)
       else if crc_update (crc_update 0 header) payload \<noteq> read_u32 trailer then (Scan_Corrupt, frames, offset)
       else scan_frames max_payload data (offset + frame_bytes)
         (frames @ [\<lparr>rf_kind = record_kind_of kind_raw, rf_sequence = read_u64 (drop 12 header),
                     rf_payload = payload, rf_offset = offset, rf_bytes = frame_bytes\<rparr>])
     else if offset \<noteq> length data then (Scan_TornTail, frames, offset)
     else (Scan_Clean, frames, 0))"
  by pat_completeness auto

termination
  by (relation "measure (\<lambda>(max_payload, data, offset, frames). length data - offset)")
    (auto simp: kFrameHeaderBytes_def kFrameTrailerBytes_def)

declare scan_frames.simps [simp del]

definition read_bound :: "store_options \<Rightarrow> nat" where
  "read_bound options =
    unat (so_max_journal_bytes options + kJournalSlackBytes + 4 * ucast (so_max_record_payload_bytes options))"

definition scan_journal :: "disk \<Rightarrow> string \<Rightarrow> store_options \<Rightarrow> scan_status \<times> raw_frame list \<times> nat \<times> nat" where
  "scan_journal d path options =
    (case omap_find (dk_files d) path of
       None \<Rightarrow> (Scan_Clean, [], 0, 0)
     | Some data \<Rightarrow>
         if length data > read_bound options then (Scan_TooLarge, [], 0, length data)
         else case scan_frames (so_max_record_payload_bytes options) data 0 [] of
           (status, frames, bad_offset) \<Rightarrow> (status, frames, bad_offset, length data))"

subsection \<open>File names\<close>

definition generation_file_name :: "string \<Rightarrow> u32 \<Rightarrow> string" where
  "generation_file_name prefix generation =
    prefix @ ''-'' @
    map (\<lambda>shift. kHexDigits ! unat (drop_bit shift generation AND 0xF)) [28, 24, 20, 16, 12, 8, 4, 0] @ ''.ofab''"

definition lower_hex_value :: "char \<Rightarrow> u32 option" where
  "lower_hex_value c =
    (if CHR ''0'' \<le> c \<and> c \<le> CHR ''9'' then Some (of_nat (of_char c - of_char (CHR ''0'')))
     else if CHR ''a'' \<le> c \<and> c \<le> CHR ''f'' then Some (of_nat (of_char c - of_char (CHR ''a'')) + 10)
     else None)"

fun parse_generation_digits :: "string \<Rightarrow> u32 \<Rightarrow> u32 option" where
  "parse_generation_digits [] v = Some v"
| "parse_generation_digits (c # cs) v =
    (case lower_hex_value c of None \<Rightarrow> None | Some digit \<Rightarrow> parse_generation_digits cs (push_bit 4 v OR digit))"

definition parse_generation_file_name :: "string \<Rightarrow> string \<Rightarrow> u32 option" where
  "parse_generation_file_name name prefix =
    (if length name \<noteq> length prefix + 1 + 8 + 5 then None
     else if take (length prefix) name \<noteq> prefix \<or> name ! length prefix \<noteq> CHR ''-'' then None
     else if drop (length name - 5) name \<noteq> ''.ofab'' then None
     else parse_generation_digits (take 8 (drop (length prefix + 1) name)) 0)"

definition snapshot_file_name :: "u32 \<Rightarrow> string" where
  "snapshot_file_name generation = generation_file_name ''snapshot'' generation"

definition journal_file_name :: "u32 \<Rightarrow> string" where
  "journal_file_name generation = generation_file_name ''journal'' generation"

subsection \<open>Opening\<close>

text \<open>The newest generation of a kind that the directory holds.\<close>

definition newer_generation :: "string \<Rightarrow> u32 option \<Rightarrow> string \<Rightarrow> u32 option" where
  "newer_generation prefix best name =
    (case parse_generation_file_name name prefix of
       None \<Rightarrow> best
     | Some g \<Rightarrow> (case best of None \<Rightarrow> Some g | Some b \<Rightarrow> if g > b then Some g else best))"

definition newest_generation :: "disk \<Rightarrow> string \<Rightarrow> u32 option" where
  "newest_generation d prefix = foldl (newer_generation prefix) None (omap_keys (dk_files d))"

definition refuse :: "recovery_class \<Rightarrow> reason \<Rightarrow> recovery_report \<Rightarrow> recovery_report" where
  "refuse c why report = report\<lparr>rp_classification := c, rp_reason := why\<rparr>"

definition load_snapshot :: "disk \<Rightarrow> u32 \<Rightarrow> recovery_report \<Rightarrow> recovery_report + (bytes \<times> recovery_report)" where
  "load_snapshot d generation report =
    (let frame = file_content d (snapshot_file_name generation) in
     if length frame > kMaxSnapshotBytes then Inl (refuse RC_Corrupt R_SnapshotCorrupt report)
     else case parse_snapshot_header frame of
       None \<Rightarrow> Inl (refuse RC_Corrupt R_SnapshotCorrupt report)
     | Some (format_version, payload_length) \<Rightarrow>
       if format_version \<noteq> kStoreFormatVersion
       then Inl ((refuse RC_VersionIncompatible R_StoreVersionIncompatible report)
                   \<lparr>rp_format_version := ucast format_version\<rparr>)
       else if unat payload_length > kMaxSnapshotBytes \<or>
               kSnapshotHeaderBytes + unat payload_length \<noteq> length frame
       then Inl (refuse RC_Corrupt R_SnapshotCorrupt report)
       else let payload = drop kSnapshotHeaderBytes frame in
       if payload \<noteq> [] \<and> crc32c payload 0 \<noteq> read_u32 (drop 12 frame)
       then Inl (refuse RC_Corrupt R_SnapshotCorrupt report)
       else Inr (payload, report\<lparr>rp_bytes_accepted := rp_bytes_accepted report + of_nat (length frame)\<rparr>))"

text \<open>The state of the loop that assembles transactions.\<close>

record assembly =
  as_in_transaction :: bool
  as_transaction_id :: u64
  as_pending :: "jrecord list"
  as_previous_sequence :: u64
  as_have_previous :: bool
  as_recovered :: "jrecord list"
  as_report :: recovery_report

definition start_assembly :: "recovery_report \<Rightarrow> assembly" where
  "start_assembly report =
    \<lparr>as_in_transaction = False, as_transaction_id = 0, as_pending = [], as_previous_sequence = 0,
     as_have_previous = False, as_recovered = [], as_report = report\<rparr>"

definition payload_u64 :: "bytes \<Rightarrow> u64 option" where
  "payload_u64 payload = (if length payload \<noteq> 8 then None else Some (read_u64 payload))"

definition assemble_frame :: "raw_frame \<Rightarrow> assembly \<Rightarrow> recovery_report + assembly" where
  "assemble_frame f a0 =
    (if as_have_previous a0 \<and> rf_sequence f \<le> as_previous_sequence a0
     then Inl (refuse RC_Corrupt R_Corrupt (as_report a0))
     else let a = a0\<lparr>as_previous_sequence := rf_sequence f, as_have_previous := True\<rparr> in
     if rf_kind f = BeginTransaction then
       (if as_in_transaction a then Inl (refuse RC_Corrupt R_Corrupt (as_report a))
        else case payload_u64 (rf_payload f) of
          None \<Rightarrow> Inl (refuse RC_Corrupt R_Malformed (as_report a))
        | Some ident \<Rightarrow> Inr (a\<lparr>as_transaction_id := ident, as_in_transaction := True, as_pending := []\<rparr>))
     else if rf_kind f = CommitTransaction then
       (if \<not> as_in_transaction a then Inl (refuse RC_Corrupt R_Corrupt (as_report a))
        else if payload_u64 (rf_payload f) \<noteq> Some (as_transaction_id a)
        then Inl (refuse RC_Corrupt R_Corrupt (as_report a))
        else Inr (a\<lparr>as_in_transaction := False,
                    as_recovered := as_recovered a @ as_pending a,
                    as_report := (as_report a)
                      \<lparr>rp_transactions_applied := rp_transactions_applied (as_report a) + 1,
                       rp_records_replayed := rp_records_replayed (as_report a) + of_nat (length (as_pending a))\<rparr>,
                    as_pending := []\<rparr>))
     else if \<not> as_in_transaction a then Inl (refuse RC_Corrupt R_Corrupt (as_report a))
     else if length (as_recovered a) + length (as_pending a) \<ge> kMaxReplayRecords
     then Inl (refuse RC_Corrupt R_JournalCapacityExceeded (as_report a))
     else Inr (a\<lparr>as_pending := as_pending a @ [\<lparr>rc_kind = rf_kind f, rc_payload = rf_payload f\<rparr>]\<rparr>))"

fun assemble :: "raw_frame list \<Rightarrow> assembly \<Rightarrow> recovery_report + assembly" where
  "assemble [] a = Inr a"
| "assemble (f # fs) a = (case assemble_frame f a of Inl r \<Rightarrow> Inl r | Inr a' \<Rightarrow> assemble fs a')"

text \<open>The source feeds the builder the bytes of the kind in host order; the model is little-endian.\<close>

definition host_u16 :: "u16 \<Rightarrow> bytes" where
  "host_u16 v = [ucast (v AND 0xFF), ucast (drop_bit 8 v AND 0xFF)]"

definition replayed_digest :: "jrecord list \<Rightarrow> digest" where
  "replayed_digest records =
    builder_value (foldl (\<lambda>b r. builder_update b (host_u16 (record_kind_value (rc_kind r)) @ rc_payload r))
      builder_start records)"

definition classify_open :: "bool \<Rightarrow> bool \<Rightarrow> assembly \<Rightarrow> recovery_report" where
  "classify_open has_snapshot replayed_any a =
    (let r0 = as_report a;
         r1 = (if as_in_transaction a then
                 let r = r0\<lparr>rp_transactions_dropped := rp_transactions_dropped r0 + 1,
                            rp_reason := R_IncompleteTransactionDropped\<rparr>
                 in if rp_classification r = RC_Empty \<or> rp_classification r = RC_CleanReopen
                    then r\<lparr>rp_classification := RC_TransactionDropped\<rparr> else r
               else r0)
     in if rp_classification r1 = RC_Empty \<and> (has_snapshot \<or> replayed_any)
        then r1\<lparr>rp_classification := RC_CleanReopen\<rparr> else r1)"

text \<open>The scan of the journal and what its outcome means for the open.\<close>

definition scan_for_open ::
  "store_options \<Rightarrow> disk \<Rightarrow> u32 option \<Rightarrow> u32 option \<Rightarrow> recovery_report \<Rightarrow>
   recovery_report + (raw_frame list \<times> nat \<times> nat \<times> bool \<times> recovery_report)" where
  "scan_for_open options d best_snapshot best_journal report =
    (case best_journal of
       Some j \<Rightarrow>
         if j \<ge> value_or best_snapshot 0 then
           (case scan_journal d (journal_file_name j) options of (status, frames, bad_offset, file_size) \<Rightarrow>
             (case status of
                Scan_Corrupt \<Rightarrow> Inl (refuse RC_Corrupt R_StoreCorrupt report)
              | Scan_VersionIncompatible \<Rightarrow> Inl (refuse RC_VersionIncompatible R_StoreVersionIncompatible report)
              | Scan_TooLarge \<Rightarrow> Inl (refuse RC_Corrupt R_Oversized report)
              | Scan_TornTail \<Rightarrow> Inr (frames, bad_offset, file_size, True,
                  (refuse RC_TornTailRepaired R_TornTailTruncated report)
                    \<lparr>rp_bytes_discarded := rp_bytes_discarded report + of_nat (file_size - bad_offset),
                     rp_truncated_tail_repaired := True\<rparr>)
              | Scan_Clean \<Rightarrow> Inr (frames, bad_offset, file_size, True, report)))
         else Inr ([], 0, 0, False, report)
     | None \<Rightarrow> Inr ([], 0, 0, False, report))"

text \<open>Truncating a torn tail and opening the journal for appending.\<close>

definition open_journal ::
  "store_options \<Rightarrow> u32 \<Rightarrow> u32 \<Rightarrow> u64 \<Rightarrow> nat \<Rightarrow> nat \<Rightarrow> recovery_report \<Rightarrow> disk \<Rightarrow>
   (recovery_report \<times> store option) \<times> disk" where
  "open_journal options snapshot_generation generation previous_sequence bad_offset journal_size report d =
    (let path = journal_file_name generation;
         store = (default_store options)\<lparr>sr_snapshot_generation := snapshot_generation, sr_journal_generation := generation\<rparr>
     in if so_read_only options then ((report, Some store), d)
     else case (if rp_truncated_tail_repaired report then truncate_file path bad_offset d else (True, d)) of
       (False, d1) \<Rightarrow> ((refuse RC_Unavailable R_StoreUnavailable report, None), d1)
     | (True, d1) \<Rightarrow>
       (case disk_open_append path d1 of
          (False, d2) \<Rightarrow> ((refuse RC_Unavailable R_StoreUnavailable report, None), d2)
        | (True, d2) \<Rightarrow>
            ((report, Some (store\<lparr>sr_open := True,
                sr_journal_bytes := of_nat (if rp_truncated_tail_repaired report then bad_offset else journal_size),
                sr_next_sequence := previous_sequence + 1\<rparr>)), d2)))"

record opened =
  op_store :: store
  op_snapshot :: bytes
  op_records :: "jrecord list"

text \<open>The path of an open that has created the directory.\<close>

definition choose_generation :: "u32 option \<Rightarrow> u32 option \<Rightarrow> u32" where
  "choose_generation best_snapshot best_journal =
    (let g = (case best_snapshot of Some s \<Rightarrow> s | None \<Rightarrow> value_or best_journal 1)
     in case best_journal of Some j \<Rightarrow> if j > g then j else g | None \<Rightarrow> g)"

definition open_contents ::
  "store_options \<Rightarrow> u32 option \<Rightarrow> u32 option \<Rightarrow> bytes \<Rightarrow> recovery_report \<Rightarrow> disk \<Rightarrow>
   (recovery_report \<times> opened option) \<times> disk" where
  "open_contents options best_snapshot best_journal snapshot report d =
    (case scan_for_open options d best_snapshot best_journal report of
       Inl r \<Rightarrow> ((r, None), d)
     | Inr (frames, bad_offset, file_size, replayed_any, r1) \<Rightarrow>
         (case assemble frames (start_assembly r1) of
            Inl r \<Rightarrow> ((r, None), d)
          | Inr a \<Rightarrow>
              let r2 = (classify_open (best_snapshot \<noteq> None) replayed_any a)
                         \<lparr>rp_replayed_digest := replayed_digest (as_recovered a)\<rparr>;
                  generation = (if replayed_any then value_or best_journal 0 else choose_generation best_snapshot best_journal);
                  journal_size = (if best_journal = Some generation then file_size else 0)
              in case open_journal options (value_or best_snapshot 0) generation (as_previous_sequence a)
                        bad_offset journal_size r2 d of
                ((r3, None), d') \<Rightarrow> ((r3, None), d')
              | ((r3, Some st), d') \<Rightarrow>
                  ((r3\<lparr>rp_bytes_accepted := rp_bytes_accepted r3 +
                        of_nat (if rp_truncated_tail_repaired r3 then bad_offset else file_size)\<rparr>,
                    Some \<lparr>op_store = st, op_snapshot = snapshot, op_records = as_recovered a\<rparr>), d')))"

definition store_open :: "store_options \<Rightarrow> disk \<Rightarrow> (recovery_report \<times> opened option) \<times> disk" where
  "store_open options d =
    (let report = default_recovery_report in
     if so_directory options = [] then ((refuse RC_Unavailable R_StoreUnavailable report, None), d)
     else case io_call d of
       (False, d') \<Rightarrow> ((refuse RC_Unavailable R_StoreUnavailable report, None), d')
     | (True, d') \<Rightarrow>
         let best_snapshot = newest_generation d' ''snapshot'';
             best_journal = newest_generation d' ''journal'';
             r0 = report\<lparr>rp_snapshot_generation := value_or best_snapshot 0,
                         rp_journal_generation := value_or best_journal 0\<rparr>
         in case (case best_snapshot of None \<Rightarrow> Inr ([], r0) | Some g \<Rightarrow> load_snapshot d' g r0) of
              Inl r \<Rightarrow> ((r, None), d')
            | Inr (snapshot, r1) \<Rightarrow> open_contents options best_snapshot best_journal snapshot r1 d')"

subsection \<open>Committing\<close>

fun check_records :: "u32 \<Rightarrow> jrecord list \<Rightarrow> reason" where
  "check_records max_payload [] = R_Ok"
| "check_records max_payload (r # rs) =
    (if rc_kind r = BeginTransaction \<or> rc_kind r = CommitTransaction then R_Malformed
     else if length (rc_payload r) > unat max_payload then R_PayloadTooLarge
     else check_records max_payload rs)"

fun record_frames :: "u64 \<Rightarrow> jrecord list \<Rightarrow> bytes list" where
  "record_frames s [] = []"
| "record_frames s (r # rs) = build_record_frame (rc_kind r) s (rc_payload r) # record_frames (s + 1) rs"

definition transaction_frames :: "u64 \<Rightarrow> jrecord list \<Rightarrow> bytes list" where
  "transaction_frames s records =
    build_record_frame BeginTransaction s (be64 s) #
    record_frames (s + 1) records @
    [build_record_frame CommitTransaction (s + 1 + of_nat (length records)) (be64 s)]"

fun write_frames :: "string \<Rightarrow> bytes list \<Rightarrow> disk \<Rightarrow> bool \<times> disk" where
  "write_frames path [] d = (True, d)"
| "write_frames path (f # fs) d =
    (case disk_append path f d of (ok, d') \<Rightarrow> if ok then write_frames path fs d' else (False, d'))"

definition commit_transaction :: "jrecord list \<Rightarrow> store \<Rightarrow> disk \<Rightarrow> (reason \<times> store) \<times> disk" where
  "commit_transaction records st d =
    (if so_read_only (sr_options st) then ((R_StoreUnavailable, st), d)
     else if \<not> sr_open st then ((R_StoreUnavailable, st), d)
     else if records = [] then ((R_Malformed, st), d)
     else let refusal = check_records (so_max_record_payload_bytes (sr_options st)) records in
     if refusal \<noteq> R_Ok then ((refusal, st), d)
     else case add_overflow (sr_next_sequence st) (of_nat (length records) + 1) of
       None \<Rightarrow> ((R_GenerationExhausted, st), d)
     | Some _ \<Rightarrow>
       let frames = transaction_frames (sr_next_sequence st) records;
           path = journal_file_name (sr_journal_generation st)
       in case write_frames path frames d of
         (False, d1) \<Rightarrow> ((R_PersistenceWriteFailed, st), d1)
       | (True, d1) \<Rightarrow>
         (case io_call d1 of
            (False, d2) \<Rightarrow> ((R_PersistenceWriteFailed, st), d2)
          | (True, d2) \<Rightarrow>
              ((R_Ok, st\<lparr>sr_journal_bytes := sr_journal_bytes st + of_nat (length (concat frames)),
                        sr_next_sequence := sr_next_sequence st + 1 + of_nat (length records) + 1\<rparr>), d2)))"

definition rotation_due :: "store \<Rightarrow> bool" where
  "rotation_due st \<longleftrightarrow> sr_journal_bytes st \<ge> so_max_journal_bytes (sr_options st)"

definition store_close :: "store \<Rightarrow> store" where
  "store_close st = st\<lparr>sr_open := False\<rparr>"

subsection \<open>Compaction\<close>

definition expired :: "u32 \<Rightarrow> u32 \<Rightarrow> string \<Rightarrow> bool" where
  "expired next_generation retain name =
    (case (case parse_generation_file_name name ''snapshot'' of
             Some g \<Rightarrow> Some g | None \<Rightarrow> parse_generation_file_name name ''journal'') of
       None \<Rightarrow> False
     | Some g \<Rightarrow> next_generation > retain \<and> g < next_generation - retain)"

definition remove_expired :: "u32 \<Rightarrow> u32 \<Rightarrow> disk \<Rightarrow> disk" where
  "remove_expired next_generation retain d =
    foldl (\<lambda>d name. if expired next_generation retain name then disk_remove name d else d) d (omap_keys (dk_files d))"

definition compact :: "bytes \<Rightarrow> store \<Rightarrow> disk \<Rightarrow> (reason \<times> store) \<times> disk" where
  "compact snapshot st d =
    (if so_read_only (sr_options st) then ((R_StoreUnavailable, st), d)
     else if length snapshot > kMaxSnapshotBytes then ((R_Oversized, st), d)
     else if sr_journal_generation st = - 1 then ((R_GenerationExhausted, st), d)
     else let next_generation = sr_journal_generation st + 1;
              journal_path = journal_file_name next_generation in
     case write_file_atomically (snapshot_file_name next_generation) (build_snapshot_frame snapshot) d of
       (False, d1) \<Rightarrow> ((R_PersistenceWriteFailed, st), d1)
     | (True, d1) \<Rightarrow>
     let st1 = store_close st in
     case disk_open_write journal_path d1 of
       (False, d2) \<Rightarrow> ((R_PersistenceWriteFailed, st1), d2)
     | (True, d2) \<Rightarrow>
     case io_call d2 of
       (False, d3) \<Rightarrow> ((R_PersistenceWriteFailed, st1), d3)
     | (True, d3) \<Rightarrow>
     case disk_open_append journal_path d3 of
       (False, d4) \<Rightarrow> ((R_PersistenceWriteFailed, st1), d4)
     | (True, d4) \<Rightarrow>
       ((R_Ok, st1\<lparr>sr_open := True, sr_journal_bytes := 0, sr_next_sequence := 1,
                  sr_snapshot_generation := next_generation, sr_journal_generation := next_generation\<rparr>),
        remove_expired next_generation (max 1 (so_retained_generations (sr_options st))) d4))"

end
