(* ===== verification/Fabric_State.thy ===== *)
theory Fabric_State
  imports Model_Codec Model_Json Store
begin

text \<open>
  The state of the runtime, fabric.hpp and the head of fabric.cpp: source roles, plans, decisions
  and explanations, the runtime of a service, the whole \<^verbatim>\<open>State\<close>, the cancellation
  registry, the bounded intent queue and the explanation log. A \<^verbatim>\<open>std::map\<close> is an ordered
  map, a \<^verbatim>\<open>std::deque\<close> a list. The mutexes are not modelled: every operation of the
  runtime holds the state lock for its whole body, so an execution is a sequence of operations.
\<close>

subsection \<open>Source roles and plan steps\<close>

datatype (plugins only: code) source_role =
  SourceRole_FailureReporter
| SourceRole_CapabilityReporter
| SourceRole_DependencyReporter
| SourceRole_EffectReporter
| SourceRole_Operator
| SourceRole_TopologyReporter

definition kSourceRoles :: "(source_role \<times> string) list" where
  "kSourceRoles =
   [(SourceRole_FailureReporter, ''failure_reporter''),
    (SourceRole_CapabilityReporter, ''capability_reporter''),
    (SourceRole_DependencyReporter, ''dependency_reporter''),
    (SourceRole_EffectReporter, ''effect_reporter''),
    (SourceRole_Operator, ''operator''),
    (SourceRole_TopologyReporter, ''topology_reporter'')]"

definition source_role_text :: "source_role \<Rightarrow> string" where
  "source_role_text v = lookup_text kSourceRoles v"

definition source_role_parse :: "string \<Rightarrow> source_role option" where
  "source_role_parse t = lookup_value kSourceRoles t"

lemma source_role_listed: "v \<in> fst ` set kSourceRoles"
  by (cases v) (simp_all add: kSourceRoles_def)

lemma source_role_distinct: "distinct (map fst kSourceRoles)" "distinct (map snd kSourceRoles)"
  by (simp_all add: kSourceRoles_def)

lemma source_role_roundtrip: "source_role_parse (source_role_text v) = Some v"
  unfolding source_role_parse_def source_role_text_def
  by (rule lookup_roundtrip [OF source_role_listed source_role_distinct])

datatype (plugins only: code) plan_step_kind =
  PlanStepKind_AdvanceFence
| PlanStepKind_FencePreviousTarget
| PlanStepKind_TransferLease
| PlanStepKind_EmitIntent
| PlanStepKind_AwaitActivationEffect
| PlanStepKind_AwaitStateTransfer
| PlanStepKind_AwaitServiceHealth
| PlanStepKind_ClaimContinuity

definition kPlanStepKinds :: "(plan_step_kind \<times> string) list" where
  "kPlanStepKinds =
   [(PlanStepKind_AdvanceFence, ''advance_fence''),
    (PlanStepKind_FencePreviousTarget, ''fence_previous_target''),
    (PlanStepKind_TransferLease, ''transfer_lease''),
    (PlanStepKind_EmitIntent, ''emit_intent''),
    (PlanStepKind_AwaitActivationEffect, ''await_activation_effect''),
    (PlanStepKind_AwaitStateTransfer, ''await_state_transfer''),
    (PlanStepKind_AwaitServiceHealth, ''await_service_health''),
    (PlanStepKind_ClaimContinuity, ''claim_continuity'')]"

definition plan_step_kind_text :: "plan_step_kind \<Rightarrow> string" where
  "plan_step_kind_text v = lookup_text kPlanStepKinds v"

definition plan_step_kind_parse :: "string \<Rightarrow> plan_step_kind option" where
  "plan_step_kind_parse t = lookup_value kPlanStepKinds t"

lemma plan_step_kind_listed: "v \<in> fst ` set kPlanStepKinds"
  by (cases v) (simp_all add: kPlanStepKinds_def)

record plan_step =
  pn_kind :: plan_step_kind
  pn_subject :: string
  pn_mandatory :: bool

record recovery_plan =
  pl_id :: plan_id
  pl_service :: service_name
  pl_generation :: failover_generation
  pl_fence :: fence_token
  pl_lease_term :: lease_term
  pl_from :: target_ref
  pl_to :: target_ref
  pl_steps :: "plan_step list"
  pl_omitted_steps :: nat

definition default_recovery_plan :: recovery_plan where
  "default_recovery_plan =
    \<lparr>pl_id = nil_id, pl_service = empty_name, pl_generation = initial_gen, pl_fence = initial_gen,
     pl_lease_term = initial_gen, pl_from = default_target_ref, pl_to = default_target_ref,
     pl_steps = [], pl_omitted_steps = 0\<rparr>"

subsection \<open>Explanations\<close>

record explanation_step =
  es_code :: reason
  es_subject :: string
  es_detail :: string
  es_value :: u64

record explanation =
  ex_service :: service_name
  ex_tick :: logical_tick
  ex_outcome :: reason
  ex_accepted :: bool
  ex_epoch :: coordinator_epoch
  ex_policy_generation :: policy_generation
  ex_topology_generation :: topology_generation
  ex_failover_generation :: failover_generation
  ex_fence :: fence_token
  ex_request :: request_key
  ex_steps :: "explanation_step list"

definition default_explanation :: explanation where
  "default_explanation =
    \<lparr>ex_service = empty_name, ex_tick = Tick 0, ex_outcome = R_Ok, ex_accepted = False,
     ex_epoch = initial_gen, ex_policy_generation = initial_gen, ex_topology_generation = initial_gen,
     ex_failover_generation = initial_gen, ex_fence = initial_gen, ex_request = nil_id, ex_steps = []\<rparr>"

record recovery_decision =
  dc_outcome :: reason
  dc_accepted :: bool
  dc_duplicate :: bool
  dc_plan :: recovery_plan
  dc_intent :: "failover_intent option"
  dc_explanation :: explanation

definition default_recovery_decision :: recovery_decision where
  "default_recovery_decision =
    \<lparr>dc_outcome = R_Ok, dc_accepted = False, dc_duplicate = False, dc_plan = default_recovery_plan,
     dc_intent = None, dc_explanation = default_explanation\<rparr>"

definition explanation_digest :: "explanation \<Rightarrow> digest" where
  "explanation_digest e = writer_digest (seq
    [encode_name (ex_service e), put_u16 (reason_value (ex_outcome e)), put_bool (ex_accepted e),
     encode_gen (ex_epoch e), encode_gen (ex_policy_generation e), encode_gen (ex_topology_generation e),
     encode_gen (ex_failover_generation e), encode_gen (ex_fence e), put_u64 (id_value (ex_request e)),
     encode_list (\<lambda>s. seq [put_u16 (reason_value (es_code s)), put_text (es_subject s),
       put_text (es_detail s), put_u64 (es_value s)]) (ex_steps e)] new_writer)"

definition render_step :: "nat \<Rightarrow> explanation_step \<Rightarrow> string" where
  "render_step index s =
    ''  ['' @ to_decimal (of_nat index) @ ''] '' @ reason_code_text (es_code s) @
    (if es_subject s \<noteq> [] then '' subject='' @ es_subject s else []) @
    (if es_value s \<noteq> 0 then '' value='' @ to_decimal (es_value s) else []) @
    (if es_detail s \<noteq> [] then '' :: '' @ es_detail s else []) @ [CHR 0x0A]"

definition explanation_render :: "explanation \<Rightarrow> string" where
  "explanation_render e =
    ''decision '' @ (if ex_accepted e then ''ACCEPTED'' else ''REFUSED'') @
    '' code='' @ reason_code_text (ex_outcome e) @
    '' service='' @ (if name_empty (ex_service e) then ''<none>'' else str (ex_service e)) @
    '' epoch='' @ to_decimal (gen_value (ex_epoch e)) @
    '' policy_gen='' @ to_decimal (gen_value (ex_policy_generation e)) @
    '' topology_gen='' @ to_decimal (gen_value (ex_topology_generation e)) @
    '' failover_gen='' @ to_decimal (gen_value (ex_failover_generation e)) @
    '' fence='' @ to_decimal (gen_value (ex_fence e)) @ [CHR 0x0A] @
    concat (map (\<lambda>(i, s). render_step i s) (enumerate 0 (ex_steps e)))"

definition explanation_json :: "explanation \<Rightarrow> json" where
  "explanation_json e =
    (let step = (\<lambda>s. json_object
           [(''code'', JText (reason_code_text (es_code s))), (''detail'', JText (es_detail s)),
            (''family'', JText (reason_family (es_code s))), (''subject'', JText (es_subject s)),
            (''value'', JUnsigned (es_value s))])
     in json_object
      [(''accepted'', JBool (ex_accepted e)), (''epoch'', JUnsigned (gen_value (ex_epoch e))),
       (''failover_generation'', JUnsigned (gen_value (ex_failover_generation e))),
       (''fence'', JUnsigned (gen_value (ex_fence e))),
       (''outcome'', JText (reason_code_text (ex_outcome e))),
       (''policy_generation'', JUnsigned (gen_value (ex_policy_generation e))),
       (''request'', JUnsigned (id_value (ex_request e))),
       (''semantic_digest'', JText (digest_to_hex (explanation_digest e))),
       (''service'', JText (str (ex_service e))), (''steps'', JArray (map step (ex_steps e))),
       (''tick'', JUnsigned (tick_value (ex_tick e))),
       (''topology_generation'', JUnsigned (gen_value (ex_topology_generation e)))])"

definition plan_step_json :: "plan_step \<Rightarrow> json" where
  "plan_step_json v = json_object
    [(''kind'', JText (plan_step_kind_text (pn_kind v))), (''mandatory'', JBool (pn_mandatory v)),
     (''subject'', JText (pn_subject v))]"

definition recovery_plan_json :: "recovery_plan \<Rightarrow> json" where
  "recovery_plan_json p = json_object
    [(''fence'', JUnsigned (gen_value (pl_fence p))), (''from'', target_ref_json (pl_from p)),
     (''generation'', JUnsigned (gen_value (pl_generation p))), (''id'', JUnsigned (id_value (pl_id p))),
     (''lease_term'', JUnsigned (gen_value (pl_lease_term p))),
     (''omitted_steps'', JUnsigned (of_nat (pl_omitted_steps p))), (''service'', JText (str (pl_service p))),
     (''steps'', JArray (map plan_step_json (pl_steps p))), (''to'', target_ref_json (pl_to p))]"

definition recovery_decision_json :: "recovery_decision \<Rightarrow> json" where
  "recovery_decision_json d = json_object
    [(''accepted'', JBool (dc_accepted d)), (''duplicate'', JBool (dc_duplicate d)),
     (''explanation'', explanation_json (dc_explanation d)),
     (''intent'', case dc_intent d of Some i \<Rightarrow> failover_intent_json i | None \<Rightarrow> JNull),
     (''outcome'', JText (reason_code_text (dc_outcome d))),
     (''outcome_family'', JText (reason_family (dc_outcome d))), (''plan'', recovery_plan_json (dc_plan d))]"

subsection \<open>The explanation log\<close>

record explanation_log =
  el_capacity :: nat
  el_evicted :: nat
  el_next :: nat
  el_entries :: "explanation list"

definition new_explanation_log :: "nat \<Rightarrow> explanation_log" where
  "new_explanation_log capacity = \<lparr>el_capacity = capacity, el_evicted = 0, el_next = 0, el_entries = []\<rparr>"

definition el_record :: "explanation \<Rightarrow> explanation_log \<Rightarrow> explanation_log" where
  "el_record e l =
    (if el_capacity l = 0 then l\<lparr>el_evicted := el_evicted l + 1\<rparr>
     else if length (el_entries l) < el_capacity l then l\<lparr>el_entries := el_entries l @ [e]\<rparr>
     else l\<lparr>el_entries := (el_entries l)[el_next l := e], el_next := (el_next l + 1) mod el_capacity l,
            el_evicted := el_evicted l + 1\<rparr>)"

definition el_all :: "explanation_log \<Rightarrow> explanation list" where
  "el_all l =
    (if length (el_entries l) < el_capacity l then el_entries l
     else map (\<lambda>index. el_entries l ! ((el_next l + index) mod length (el_entries l))) [0..<length (el_entries l)])"

definition el_for_service :: "service_name \<Rightarrow> explanation_log \<Rightarrow> explanation list" where
  "el_for_service service l = filter (\<lambda>e. ex_service e = service) (el_all l)"

definition el_clear :: "explanation_log \<Rightarrow> explanation_log" where
  "el_clear l = l\<lparr>el_entries := [], el_next := 0, el_evicted := 0\<rparr>"

subsection \<open>State\<close>

datatype (plugins only: code) witness_key = Witness_Key (wk_service: service_name) (wk_target: target_name)

instantiation witness_key :: linorder
begin

definition less_eq_witness_key :: "witness_key \<Rightarrow> witness_key \<Rightarrow> bool" where
  "less_eq_witness_key a b \<longleftrightarrow> wk_service a < wk_service b \<or> wk_service a = wk_service b \<and> wk_target a \<le> wk_target b"

definition less_witness_key :: "witness_key \<Rightarrow> witness_key \<Rightarrow> bool" where
  "less_witness_key a b \<longleftrightarrow> wk_service a < wk_service b \<or> wk_service a = wk_service b \<and> wk_target a < wk_target b"

instance
  by standard (auto simp: less_eq_witness_key_def less_witness_key_def witness_key.expand)

end

record fence_witness =
  fw_token :: fence_token
  fw_incarnation :: target_incarnation
  fw_topology_generation :: topology_generation

record source_watermark =
  sw_sequence :: evidence_seq
  sw_digest :: digest
  sw_tick :: logical_tick

record capability_slot =
  cp_evidence :: capability_evidence
  cp_requires_reconfirmation :: bool

record dependency_slot =
  dp_observation :: dependency_observation
  dp_requires_reconfirmation :: bool

datatype (plugins only: code) request_kind =
  RequestKind_Failover | RequestKind_AmbiguityResolution | RequestKind_Failback | RequestKind_Resume
| RequestKind_Effect | RequestKind_IntentAck | RequestKind_Placement

definition kRequestKinds :: "request_kind list" where
  "kRequestKinds = [RequestKind_Failover, RequestKind_AmbiguityResolution, RequestKind_Failback,
    RequestKind_Resume, RequestKind_Effect, RequestKind_IntentAck, RequestKind_Placement]"

fun request_kind_value :: "request_kind \<Rightarrow> u8" where
  "request_kind_value RequestKind_Failover = 0" | "request_kind_value RequestKind_AmbiguityResolution = 1"
| "request_kind_value RequestKind_Failback = 2" | "request_kind_value RequestKind_Resume = 3"
| "request_kind_value RequestKind_Effect = 4" | "request_kind_value RequestKind_IntentAck = 5"
| "request_kind_value RequestKind_Placement = 6"

record request_cache_entry =
  rq_kind :: request_kind
  rq_outcome :: reason
  rq_accepted :: bool
  rq_duplicate :: bool
  rq_attempt :: attempt_id
  rq_generation :: failover_generation
  rq_fence :: fence_token
  rq_lease_term :: lease_term
  rq_policy_generation :: policy_generation
  rq_topology_generation :: topology_generation
  rq_from :: target_ref
  rq_to :: target_ref
  rq_has_intent :: bool
  rq_plan_step_mask :: u32
  rq_response_digest :: digest
  rq_recorded :: logical_tick

definition default_request_cache_entry :: request_cache_entry where
  "default_request_cache_entry =
    \<lparr>rq_kind = RequestKind_Failover, rq_outcome = R_Ok, rq_accepted = False, rq_duplicate = False,
     rq_attempt = nil_id, rq_generation = initial_gen, rq_fence = initial_gen, rq_lease_term = initial_gen,
     rq_policy_generation = initial_gen, rq_topology_generation = initial_gen,
     rq_from = default_target_ref, rq_to = default_target_ref, rq_has_intent = False,
     rq_plan_step_mask = 0, rq_response_digest = zero_digest, rq_recorded = Tick 0\<rparr>"

record service_runtime =
  sv_descriptor :: service_descriptor
  sv_lifecycle :: lifecycle_phase
  sv_recovery :: recovery_phase
  sv_continuity :: continuity_class
  sv_active :: "target_ref option"
  sv_fallback :: "target_ref option"
  sv_generation :: failover_generation
  sv_fence :: fence_token
  sv_lease :: "lease_record option"
  sv_next_attempt :: u64
  sv_current_attempt :: attempt_id
  sv_history :: "attempt_record list"
  sv_effects_seen :: "effect_id list"
  sv_attempts_evicted :: u64
  sv_attempts_since_verified :: u32
  sv_activation_accepted :: bool
  sv_effect_verified :: bool
  sv_state_transfer_verified :: bool
  sv_failover_recorded :: bool
  sv_ambiguity_pending :: bool
  sv_pending_ambiguity :: evidence_id
  sv_pre_failover_target :: "target_ref option"
  sv_pre_failover_capability :: capability_generation
  sv_pre_failover_topology :: topology_generation
  sv_pre_failover_policy :: policy_generation
  sv_last_change :: logical_tick
  sv_last_reason :: reason

definition default_service_runtime :: service_runtime where
  "default_service_runtime =
    \<lparr>sv_descriptor = default_service_descriptor, sv_lifecycle = LifecyclePhase_Registered,
     sv_recovery = RecoveryPhase_None, sv_continuity = ContinuityClass_Unknown, sv_active = None,
     sv_fallback = None, sv_generation = initial_gen, sv_fence = initial_gen, sv_lease = None,
     sv_next_attempt = 1, sv_current_attempt = nil_id, sv_history = [], sv_effects_seen = [],
     sv_attempts_evicted = 0, sv_attempts_since_verified = 0, sv_activation_accepted = False,
     sv_effect_verified = False, sv_state_transfer_verified = False, sv_failover_recorded = False,
     sv_ambiguity_pending = False, sv_pending_ambiguity = nil_id, sv_pre_failover_target = None,
     sv_pre_failover_capability = initial_gen, sv_pre_failover_topology = initial_gen,
     sv_pre_failover_policy = initial_gen, sv_last_change = Tick 0, sv_last_reason = R_Ok\<rparr>"

text \<open>The latest entry of the history that carries the identifier of the current attempt.\<close>

definition current_attempt_record :: "service_runtime \<Rightarrow> attempt_record option" where
  "current_attempt_record sv = find (\<lambda>a. ar_id a = sv_current_attempt sv) (rev (sv_history sv))"

text \<open>Changing that entry through the pointer the source obtains.\<close>

fun update_first :: "('a \<Rightarrow> bool) \<Rightarrow> ('a \<Rightarrow> 'a) \<Rightarrow> 'a list \<Rightarrow> 'a list" where
  "update_first P f [] = []"
| "update_first P f (x # xs) = (if P x then f x # xs else x # update_first P f xs)"

definition update_current_attempt :: "(attempt_record \<Rightarrow> attempt_record) \<Rightarrow> service_runtime \<Rightarrow> service_runtime" where
  "update_current_attempt f sv = sv\<lparr>sv_history :=
    rev (update_first (\<lambda>a. ar_id a = sv_current_attempt sv) f (rev (sv_history sv)))\<rparr>"

record fabric_stats =
  sa_services_registered :: u64
  sa_targets_registered :: u64
  sa_sources_enrolled :: u64
  sa_capabilities_ingested :: u64
  sa_failures_ingested :: u64
  sa_dependencies_ingested :: u64
  sa_evidence_rejected_stale :: u64
  sa_evidence_rejected_conflict :: u64
  sa_evidence_rejected_duplicate :: u64
  sa_evidence_rejected_unauthorized :: u64
  sa_evidence_rejected_capacity :: u64
  sa_evidence_evicted :: u64
  sa_placements_established :: u64
  sa_failovers_accepted :: u64
  sa_failovers_refused :: u64
  sa_failovers_duplicate :: u64
  sa_failbacks_accepted :: u64
  sa_failbacks_refused :: u64
  sa_effects_accepted :: u64
  sa_effects_refused :: u64
  sa_effects_verified :: u64
  sa_ambiguity_pending :: u64
  sa_ambiguity_resolved :: u64
  sa_intents_emitted :: u64
  sa_intents_dropped :: u64
  sa_intents_consumed :: u64
  sa_attempts_recorded :: u64
  sa_attempts_evicted :: u64
  sa_explanations_recorded :: u64
  sa_explanations_evicted :: u64
  sa_fallback_candidates_truncated :: u64
  sa_dependency_depth_truncated :: u64
  sa_requests_cancelled :: u64
  sa_cancels_too_late :: u64
  sa_journal_transactions :: u64
  sa_journal_compactions :: u64
  sa_recovery_reissues :: u64
  sa_effect_reports_replayed :: u64
  sa_withdrawn_services :: u64

definition default_fabric_stats :: fabric_stats where
  "default_fabric_stats =
    \<lparr>sa_services_registered = 0,
     sa_targets_registered = 0,
     sa_sources_enrolled = 0,
     sa_capabilities_ingested = 0,
     sa_failures_ingested = 0,
     sa_dependencies_ingested = 0,
     sa_evidence_rejected_stale = 0,
     sa_evidence_rejected_conflict = 0,
     sa_evidence_rejected_duplicate = 0,
     sa_evidence_rejected_unauthorized = 0,
     sa_evidence_rejected_capacity = 0,
     sa_evidence_evicted = 0,
     sa_placements_established = 0,
     sa_failovers_accepted = 0,
     sa_failovers_refused = 0,
     sa_failovers_duplicate = 0,
     sa_failbacks_accepted = 0,
     sa_failbacks_refused = 0,
     sa_effects_accepted = 0,
     sa_effects_refused = 0,
     sa_effects_verified = 0,
     sa_ambiguity_pending = 0,
     sa_ambiguity_resolved = 0,
     sa_intents_emitted = 0,
     sa_intents_dropped = 0,
     sa_intents_consumed = 0,
     sa_attempts_recorded = 0,
     sa_attempts_evicted = 0,
     sa_explanations_recorded = 0,
     sa_explanations_evicted = 0,
     sa_fallback_candidates_truncated = 0,
     sa_dependency_depth_truncated = 0,
     sa_requests_cancelled = 0,
     sa_cancels_too_late = 0,
     sa_journal_transactions = 0,
     sa_journal_compactions = 0,
     sa_recovery_reissues = 0,
     sa_effect_reports_replayed = 0,
     sa_withdrawn_services = 0\<rparr>"

text \<open>The macro \<^verbatim>\<open>OFF_STATS_FIELDS\<close>: the name of every field with its accessors, in order.\<close>

definition stats_fields :: "(string \<times> (fabric_stats \<Rightarrow> u64) \<times> (u64 \<Rightarrow> fabric_stats \<Rightarrow> fabric_stats)) list" where
  "stats_fields =
   [(''services_registered'', sa_services_registered, \<lambda>v. sa_services_registered_update (\<lambda>_. v)),
    (''targets_registered'', sa_targets_registered, \<lambda>v. sa_targets_registered_update (\<lambda>_. v)),
    (''sources_enrolled'', sa_sources_enrolled, \<lambda>v. sa_sources_enrolled_update (\<lambda>_. v)),
    (''capabilities_ingested'', sa_capabilities_ingested, \<lambda>v. sa_capabilities_ingested_update (\<lambda>_. v)),
    (''failures_ingested'', sa_failures_ingested, \<lambda>v. sa_failures_ingested_update (\<lambda>_. v)),
    (''dependencies_ingested'', sa_dependencies_ingested, \<lambda>v. sa_dependencies_ingested_update (\<lambda>_. v)),
    (''evidence_rejected_stale'', sa_evidence_rejected_stale, \<lambda>v. sa_evidence_rejected_stale_update (\<lambda>_. v)),
    (''evidence_rejected_conflict'', sa_evidence_rejected_conflict, \<lambda>v. sa_evidence_rejected_conflict_update (\<lambda>_. v)),
    (''evidence_rejected_duplicate'', sa_evidence_rejected_duplicate, \<lambda>v. sa_evidence_rejected_duplicate_update (\<lambda>_. v)),
    (''evidence_rejected_unauthorized'', sa_evidence_rejected_unauthorized, \<lambda>v. sa_evidence_rejected_unauthorized_update (\<lambda>_. v)),
    (''evidence_rejected_capacity'', sa_evidence_rejected_capacity, \<lambda>v. sa_evidence_rejected_capacity_update (\<lambda>_. v)),
    (''evidence_evicted'', sa_evidence_evicted, \<lambda>v. sa_evidence_evicted_update (\<lambda>_. v)),
    (''placements_established'', sa_placements_established, \<lambda>v. sa_placements_established_update (\<lambda>_. v)),
    (''failovers_accepted'', sa_failovers_accepted, \<lambda>v. sa_failovers_accepted_update (\<lambda>_. v)),
    (''failovers_refused'', sa_failovers_refused, \<lambda>v. sa_failovers_refused_update (\<lambda>_. v)),
    (''failovers_duplicate'', sa_failovers_duplicate, \<lambda>v. sa_failovers_duplicate_update (\<lambda>_. v)),
    (''failbacks_accepted'', sa_failbacks_accepted, \<lambda>v. sa_failbacks_accepted_update (\<lambda>_. v)),
    (''failbacks_refused'', sa_failbacks_refused, \<lambda>v. sa_failbacks_refused_update (\<lambda>_. v)),
    (''effects_accepted'', sa_effects_accepted, \<lambda>v. sa_effects_accepted_update (\<lambda>_. v)),
    (''effects_refused'', sa_effects_refused, \<lambda>v. sa_effects_refused_update (\<lambda>_. v)),
    (''effects_verified'', sa_effects_verified, \<lambda>v. sa_effects_verified_update (\<lambda>_. v)),
    (''ambiguity_pending'', sa_ambiguity_pending, \<lambda>v. sa_ambiguity_pending_update (\<lambda>_. v)),
    (''ambiguity_resolved'', sa_ambiguity_resolved, \<lambda>v. sa_ambiguity_resolved_update (\<lambda>_. v)),
    (''intents_emitted'', sa_intents_emitted, \<lambda>v. sa_intents_emitted_update (\<lambda>_. v)),
    (''intents_dropped'', sa_intents_dropped, \<lambda>v. sa_intents_dropped_update (\<lambda>_. v)),
    (''intents_consumed'', sa_intents_consumed, \<lambda>v. sa_intents_consumed_update (\<lambda>_. v)),
    (''attempts_recorded'', sa_attempts_recorded, \<lambda>v. sa_attempts_recorded_update (\<lambda>_. v)),
    (''attempts_evicted'', sa_attempts_evicted, \<lambda>v. sa_attempts_evicted_update (\<lambda>_. v)),
    (''explanations_recorded'', sa_explanations_recorded, \<lambda>v. sa_explanations_recorded_update (\<lambda>_. v)),
    (''explanations_evicted'', sa_explanations_evicted, \<lambda>v. sa_explanations_evicted_update (\<lambda>_. v)),
    (''fallback_candidates_truncated'', sa_fallback_candidates_truncated, \<lambda>v. sa_fallback_candidates_truncated_update (\<lambda>_. v)),
    (''dependency_depth_truncated'', sa_dependency_depth_truncated, \<lambda>v. sa_dependency_depth_truncated_update (\<lambda>_. v)),
    (''requests_cancelled'', sa_requests_cancelled, \<lambda>v. sa_requests_cancelled_update (\<lambda>_. v)),
    (''cancels_too_late'', sa_cancels_too_late, \<lambda>v. sa_cancels_too_late_update (\<lambda>_. v)),
    (''journal_transactions'', sa_journal_transactions, \<lambda>v. sa_journal_transactions_update (\<lambda>_. v)),
    (''journal_compactions'', sa_journal_compactions, \<lambda>v. sa_journal_compactions_update (\<lambda>_. v)),
    (''recovery_reissues'', sa_recovery_reissues, \<lambda>v. sa_recovery_reissues_update (\<lambda>_. v)),
    (''effect_reports_replayed'', sa_effect_reports_replayed, \<lambda>v. sa_effect_reports_replayed_update (\<lambda>_. v)),
    (''withdrawn_services'', sa_withdrawn_services, \<lambda>v. sa_withdrawn_services_update (\<lambda>_. v))]"

record state =
  st_epoch :: coordinator_epoch
  st_boot :: boot_id
  st_tick :: logical_tick
  st_topology_generation :: topology_generation
  st_policy_generation :: policy_generation
  st_policy :: policy_descriptor
  st_next_evidence_id :: u64
  st_next_attempt_id :: u64
  st_next_lease_id :: u64
  st_next_plan_id :: u64
  st_targets :: "(target_name, target_record) omap"
  st_capabilities :: "(target_name, capability_slot) omap"
  st_services :: "(service_name, service_runtime) omap"
  st_dependencies :: "(service_name, (service_name, dependency_slot) omap) omap"
  st_failures :: "(evidence_id, failure_evidence) omap"
  st_failure_order :: "evidence_id list"
  st_latest_failure :: "(service_name, evidence_id) omap"
  st_fences :: "(service_name, fence_record) omap"
  st_witnesses :: "(witness_key, fence_witness) omap"
  st_sources :: "(source_name, source_role) omap"
  st_watermarks :: "(source_name, source_watermark) omap"
  st_request_cache :: "(request_key, request_cache_entry) omap"
  st_request_order :: "request_key list"
  st_stats :: fabric_stats

definition default_state :: state where
  "default_state =
    \<lparr>st_epoch = initial_gen, st_boot = initial_gen, st_tick = Tick 0, st_topology_generation = initial_gen,
     st_policy_generation = initial_gen, st_policy = default_policy_descriptor, st_next_evidence_id = 1,
     st_next_attempt_id = 1, st_next_lease_id = 1, st_next_plan_id = 1, st_targets = omap_empty,
     st_capabilities = omap_empty, st_services = omap_empty, st_dependencies = omap_empty,
     st_failures = omap_empty, st_failure_order = [], st_latest_failure = omap_empty,
     st_fences = omap_empty, st_witnesses = omap_empty, st_sources = omap_empty,
     st_watermarks = omap_empty, st_request_cache = omap_empty, st_request_order = [],
     st_stats = default_fabric_stats\<rparr>"

record fabric_config =
  cf_store_directory :: "string option"
  cf_max_services :: nat
  cf_max_targets :: nat
  cf_max_evidence_records :: nat
  cf_max_dependencies_per_service :: nat
  cf_max_attempt_history :: nat
  cf_max_explanations :: nat
  cf_max_request_cache :: nat
  cf_max_intent_queue :: nat
  cf_max_plan_steps :: nat
  cf_max_sources :: nat
  cf_max_fallback_candidates :: nat
  cf_max_journal_bytes :: u64
  cf_require_enrolled_effect_reporter :: bool
  cf_initial_policy :: policy_descriptor

definition default_fabric_config :: fabric_config where
  "default_fabric_config =
    \<lparr>cf_store_directory = None, cf_max_services = 1024, cf_max_targets = 4096,
     cf_max_evidence_records = 4096, cf_max_dependencies_per_service = 64, cf_max_attempt_history = 64,
     cf_max_explanations = 2048, cf_max_request_cache = 2048, cf_max_intent_queue = 1024,
     cf_max_plan_steps = 32, cf_max_sources = 256, cf_max_fallback_candidates = 256,
     cf_max_journal_bytes = push_bit 20 8, cf_require_enrolled_effect_reporter = True,
     cf_initial_policy = default_policy_descriptor\<rparr>"

record restart_summary =
  ru_store :: recovery_report
  ru_previous_epoch :: coordinator_epoch
  ru_epoch :: coordinator_epoch
  ru_boot :: boot_id
  ru_services_downgraded :: u32
  ru_attempts_marked_unknown :: u32
  ru_capability_evidence_invalidated :: u32
  ru_dependency_observations_invalidated :: u32
  ru_failure_evidence_invalidated :: u32
  ru_conservative :: bool

definition default_restart_summary :: restart_summary where
  "default_restart_summary =
    \<lparr>ru_store = default_recovery_report, ru_previous_epoch = initial_gen, ru_epoch = initial_gen,
     ru_boot = initial_gen, ru_services_downgraded = 0, ru_attempts_marked_unknown = 0,
     ru_capability_evidence_invalidated = 0, ru_dependency_observations_invalidated = 0,
     ru_failure_evidence_invalidated = 0, ru_conservative = True\<rparr>"

record fence_check =
  fk_service :: service_name
  fk_holder :: target_ref
  fk_presented :: fence_token

record fence_verdict =
  fv_authorized :: bool
  fv_code :: reason
  fv_current :: fence_token
  fv_current_holder :: target_ref
  fv_fenced_incarnation :: target_incarnation
  fv_had_witness :: bool

definition default_fence_verdict :: fence_verdict where
  "default_fence_verdict =
    \<lparr>fv_authorized = False, fv_code = R_StaleGeneration, fv_current = initial_gen,
     fv_current_holder = default_target_ref, fv_fenced_incarnation = default_target_incarnation,
     fv_had_witness = False\<rparr>"

subsection \<open>Cancellation registry\<close>

datatype (plugins only: code) cancel_phase = Cancel_Active | Cancel_Cancelled | Cancel_Committed

record cancel_registry =
  cn_requests :: "(request_key, cancel_phase) omap"
  cn_order :: "request_key list"
  cn_capacity :: nat

definition new_cancel_registry :: cancel_registry where
  "new_cancel_registry = \<lparr>cn_requests = omap_empty, cn_order = [], cn_capacity = 1\<rparr>"

text \<open>The settled entries in arrival order, until the registry is below its capacity; an active
  entry stays, but leaves the order.\<close>

fun trim_loop :: "nat \<Rightarrow> request_key list \<Rightarrow> (request_key, cancel_phase) omap \<Rightarrow>
    request_key list \<times> (request_key, cancel_phase) omap" where
  "trim_loop capacity [] requests = ([], requests)"
| "trim_loop capacity (oldest # order) requests =
    (if omap_size requests \<ge> capacity then
       trim_loop capacity order
         (case omap_find requests oldest of
            None \<Rightarrow> requests
          | Some phase \<Rightarrow> if phase \<noteq> Cancel_Active then omap_erase oldest requests else requests)
     else (oldest # order, requests))"

definition cn_trim :: "cancel_registry \<Rightarrow> cancel_registry" where
  "cn_trim c = (case trim_loop (cn_capacity c) (cn_order c) (cn_requests c) of
    (order, requests) \<Rightarrow> c\<lparr>cn_order := order, cn_requests := requests\<rparr>)"

text \<open>The result says whether the request is registered and whether the capacity was exceeded.\<close>

definition cn_begin :: "request_key \<Rightarrow> nat \<Rightarrow> cancel_registry \<Rightarrow> (bool \<times> bool) \<times> cancel_registry" where
  "cn_begin key capacity c =
    (if is_nil key then ((False, False), c)
     else let c1 = c\<lparr>cn_capacity := (if capacity = 0 then 1 else capacity)\<rparr> in
     if omap_find (cn_requests c1) key \<noteq> None then ((False, False), c1)
     else let c2 = (if omap_size (cn_requests c1) \<ge> cn_capacity c1 then cn_trim c1 else c1) in
     if omap_size (cn_requests c2) \<ge> cn_capacity c2 then ((False, True), c2)
     else ((True, False), c2\<lparr>cn_requests := omap_put key Cancel_Active (cn_requests c2),
                            cn_order := cn_order c2 @ [key]\<rparr>))"

definition cn_release_if_active :: "request_key \<Rightarrow> cancel_registry \<Rightarrow> cancel_registry" where
  "cn_release_if_active key c =
    (if omap_find (cn_requests c) key = Some Cancel_Active
     then c\<lparr>cn_requests := omap_erase key (cn_requests c), cn_order := filter (\<lambda>k. k \<noteq> key) (cn_order c)\<rparr>
     else c)"

definition cn_is_cancelled :: "request_key \<Rightarrow> cancel_registry \<Rightarrow> bool" where
  "cn_is_cancelled key c \<longleftrightarrow> omap_find (cn_requests c) key = Some Cancel_Cancelled"

definition cn_mark_committed :: "request_key \<Rightarrow> cancel_registry \<Rightarrow> bool \<times> cancel_registry" where
  "cn_mark_committed key c =
    (case omap_find (cn_requests c) key of
       None \<Rightarrow> (False, c)
     | Some phase \<Rightarrow> (phase = Cancel_Cancelled, c\<lparr>cn_requests := omap_put key Cancel_Committed (cn_requests c)\<rparr>))"

definition cn_finish :: "request_key \<Rightarrow> cancel_registry \<Rightarrow> cancel_registry" where
  "cn_finish key c = c\<lparr>cn_requests := omap_erase key (cn_requests c)\<rparr>"

text \<open>Recorded, too late, unknown.\<close>

definition cn_cancel :: "request_key \<Rightarrow> cancel_registry \<Rightarrow> (bool \<times> bool \<times> bool) \<times> cancel_registry" where
  "cn_cancel key c =
    (case omap_find (cn_requests c) key of
       None \<Rightarrow> ((False, False, True), c)
     | Some Cancel_Committed \<Rightarrow> ((False, True, False), c)
     | Some _ \<Rightarrow> ((True, False, False), c\<lparr>cn_requests := omap_put key Cancel_Cancelled (cn_requests c)\<rparr>))"

text \<open>The guard held across the durable commit: whether the request is known and cancelled.\<close>

definition cn_guard :: "request_key \<Rightarrow> cancel_registry \<Rightarrow> bool \<times> bool" where
  "cn_guard key c =
    (case omap_find (cn_requests c) key of None \<Rightarrow> (False, False) | Some phase \<Rightarrow> (True, phase = Cancel_Cancelled))"

definition cn_guard_commit :: "request_key \<Rightarrow> cancel_registry \<Rightarrow> cancel_registry" where
  "cn_guard_commit key c =
    (if omap_find (cn_requests c) key \<noteq> None
     then c\<lparr>cn_requests := omap_put key Cancel_Committed (cn_requests c)\<rparr> else c)"

subsection \<open>Intent queue\<close>

record intent_queue =
  iq_queue :: "failover_intent list"
  iq_capacity :: nat
  iq_closed :: bool

definition new_intent_queue :: "nat \<Rightarrow> intent_queue" where
  "new_intent_queue capacity =
    \<lparr>iq_queue = [], iq_capacity = (if capacity = 0 then 1 else capacity), iq_closed = False\<rparr>"

definition iq_push :: "failover_intent \<Rightarrow> intent_queue \<Rightarrow> bool \<times> intent_queue" where
  "iq_push i q =
    (if iq_closed q \<or> length (iq_queue q) \<ge> iq_capacity q then (False, q)
     else (True, q\<lparr>iq_queue := iq_queue q @ [i]\<rparr>))"

definition iq_try_pop :: "intent_queue \<Rightarrow> failover_intent option \<times> intent_queue" where
  "iq_try_pop q = (case iq_queue q of [] \<Rightarrow> (None, q) | i # is \<Rightarrow> (Some i, q\<lparr>iq_queue := is\<rparr>))"

text \<open>Waiting: the outer \<open>None\<close> is a call that is still blocked.\<close>

definition iq_wait_pop :: "intent_queue \<Rightarrow> (failover_intent option \<times> intent_queue) option" where
  "iq_wait_pop q =
    (if \<not> (iq_closed q \<or> iq_queue q \<noteq> []) then None
     else Some (case iq_queue q of [] \<Rightarrow> (None, q) | i # is \<Rightarrow> (Some i, q\<lparr>iq_queue := is\<rparr>)))"

definition iq_close :: "intent_queue \<Rightarrow> intent_queue" where
  "iq_close q = q\<lparr>iq_closed := True\<rparr>"

definition iq_reopen :: "intent_queue \<Rightarrow> intent_queue" where
  "iq_reopen q = q\<lparr>iq_closed := False\<rparr>"

subsection \<open>The runtime\<close>

text \<open>\<open>im_disk\<close> is the directory the store works on; it outlives the runtime.\<close>

record impl =
  im_config :: fabric_config
  im_state :: state
  im_explanations :: explanation_log
  im_intents :: intent_queue
  im_cancels :: cancel_registry
  im_restart :: restart_summary
  im_store :: "store option"
  im_opened :: bool
  im_disk :: disk

definition new_impl :: "fabric_config \<Rightarrow> disk \<Rightarrow> impl" where
  "new_impl configuration d =
    \<lparr>im_config = configuration, im_state = default_state,
     im_explanations = new_explanation_log (cf_max_explanations configuration),
     im_intents = new_intent_queue (cf_max_intent_queue configuration), im_cancels = new_cancel_registry,
     im_restart = default_restart_summary, im_store = None, im_opened = False, im_disk = d\<rparr>"

end
