(* ===== verification/State_Codec.thy ===== *)
theory State_Codec
  imports Fabric_State
begin

text \<open>
  The codecs of fabric.cpp: the runtime of a service, the change of one runtime that the journal
  records, and the snapshot of the whole state. A count above the configured bound and a duplicate
  key are refused. The snapshot does not hold the arrival orders and the latest failure of each
  service; \<open>forget_orders\<close> is what a decoded state has in their place.
\<close>

subsection \<open>Runtime of a service\<close>

definition encode_attempt_history :: "attempt_record list \<Rightarrow> writer \<Rightarrow> writer" where
  "encode_attempt_history history = encode_list encode_attempt_record history"

definition decode_attempt_history :: "nat \<Rightarrow> attempt_record list decoder" where
  "decode_attempt_history ceiling = dbind (get_count 1) (\<lambda>count.
    if count > ceiling then dfail R_Oversized else decode_many count decode_attempt_record)"

definition encode_optional :: "('a \<Rightarrow> writer \<Rightarrow> writer) \<Rightarrow> 'a option \<Rightarrow> writer \<Rightarrow> writer" where
  "encode_optional enc v = (case v of Some x \<Rightarrow> seq [put_presence, enc x] | None \<Rightarrow> put_absence)"

definition decode_optional :: "'a decoder \<Rightarrow> 'a option decoder" where
  "decode_optional d = dbind get_presence (\<lambda>present.
    if \<not> present then dreturn None else dbind d (\<lambda>x. dreturn (Some x)))"

definition decode_optional_target_ref :: "target_ref option decoder" where
  "decode_optional_target_ref = decode_optional decode_target_ref"

text \<open>\<^verbatim>\<open>static_cast<u8>\<close> of an enumeration value.\<close>

definition put_enum :: "('e \<times> string) list \<Rightarrow> 'e \<Rightarrow> writer \<Rightarrow> writer" where
  "put_enum table v = put_u8 (of_nat (ordinal table v))"

definition enum_valid :: "u8 \<Rightarrow> ('e \<times> string) list \<Rightarrow> bool" where
  "enum_valid raw table \<longleftrightarrow> unat raw < length table"

definition enum_of :: "('e \<times> string) list \<Rightarrow> u8 \<Rightarrow> 'e" where
  "enum_of table raw = fst (table ! unat raw)"

definition encode_flags :: "service_runtime \<Rightarrow> writer \<Rightarrow> writer" where
  "encode_flags v = seq
    [put_bool (sv_activation_accepted v), put_bool (sv_effect_verified v),
     put_bool (sv_state_transfer_verified v), put_bool (sv_failover_recorded v),
     put_bool (sv_ambiguity_pending v)]"

definition put_id :: "'tag ident \<Rightarrow> writer \<Rightarrow> writer" where
  "put_id v = put_u64 (id_value v)"

definition encode_service_runtime :: "service_runtime \<Rightarrow> writer \<Rightarrow> writer" where
  "encode_service_runtime v = seq
    [encode_service_descriptor (sv_descriptor v),
     put_enum kLifecyclePhases (sv_lifecycle v),
     put_enum kRecoveryPhases (sv_recovery v),
     put_enum kContinuityClasses (sv_continuity v),
     encode_optional encode_target_ref (sv_active v),
     encode_optional encode_target_ref (sv_fallback v),
     put_u64 (gen_value (sv_generation v)),
     put_u64 (gen_value (sv_fence v)),
     encode_optional encode_lease_record (sv_lease v),
     put_u64 (sv_next_attempt v),
     put_u64 (id_value (sv_current_attempt v)),
     encode_attempt_history (sv_history v),
     encode_list put_id (sv_effects_seen v),
     put_u64 (sv_attempts_evicted v),
     put_u32 (sv_attempts_since_verified v),
     encode_flags v,
     put_u64 (id_value (sv_pending_ambiguity v)),
     encode_optional encode_target_ref (sv_pre_failover_target v),
     put_u64 (gen_value (sv_pre_failover_capability v)),
     put_u64 (gen_value (sv_pre_failover_topology v)),
     put_u64 (gen_value (sv_pre_failover_policy v)),
     put_u64 (tick_value (sv_last_change v)),
     put_u16 (reason_value (sv_last_reason v))]"

definition decode_phases :: "(lifecycle_phase \<times> recovery_phase \<times> continuity_class) decoder" where
  "decode_phases =
    dbind get_u8 (\<lambda>lifecycle. dbind get_u8 (\<lambda>recovery. dbind get_u8 (\<lambda>continuity.
    if \<not> enum_valid lifecycle kLifecyclePhases \<or> \<not> enum_valid recovery kRecoveryPhases \<or>
       \<not> enum_valid continuity kContinuityClasses
    then dfail R_UnsupportedSemantics
    else dreturn (enum_of kLifecyclePhases lifecycle, enum_of kRecoveryPhases recovery,
                  enum_of kContinuityClasses continuity))))"

definition decode_effects_seen :: "nat \<Rightarrow> effect_id list decoder" where
  "decode_effects_seen ceiling = dbind (get_count 8) (\<lambda>effect_count.
    if effect_count > ceiling then dfail R_Oversized
    else decode_many effect_count (dbind get_u64 (\<lambda>raw. dreturn (Id raw))))"

definition decode_gen_u64 :: "'tag gen decoder" where
  "decode_gen_u64 = dbind get_u64 (\<lambda>raw. dreturn (Gen raw))"

definition decode_id_u64 :: "'tag ident decoder" where
  "decode_id_u64 = dbind get_u64 (\<lambda>raw. dreturn (Id raw))"

definition decode_tick_u64 :: "logical_tick decoder" where
  "decode_tick_u64 = dbind get_u64 (\<lambda>raw. dreturn (Tick raw))"

text \<open>The five flags in order.\<close>

definition decode_flags :: "(bool \<times> bool \<times> bool \<times> bool \<times> bool) decoder" where
  "decode_flags =
    dbind get_bool (\<lambda>a. dbind get_bool (\<lambda>b. dbind get_bool (\<lambda>c. dbind get_bool (\<lambda>d. dbind get_bool (\<lambda>e.
    dreturn (a, b, c, d, e))))))"

definition decode_service_runtime :: "fabric_config \<Rightarrow> service_runtime decoder" where
  "decode_service_runtime config =
    dbind decode_service_descriptor (\<lambda>descriptor'.
    dbind decode_phases (\<lambda>phases.
    dbind decode_optional_target_ref (\<lambda>active'.
    dbind decode_optional_target_ref (\<lambda>fallback'.
    dbind decode_gen_u64 (\<lambda>generation'.
    dbind decode_gen_u64 (\<lambda>fence'.
    dbind (decode_optional decode_lease_record) (\<lambda>lease'.
    dbind get_u64 (\<lambda>next_attempt'.
    dbind decode_id_u64 (\<lambda>current_attempt'.
    dbind (decode_attempt_history (cf_max_attempt_history config)) (\<lambda>history'.
    dbind (decode_effects_seen (cf_max_attempt_history config)) (\<lambda>effects'.
    dbind get_u64 (\<lambda>evicted'.
    dbind get_u32 (\<lambda>since'.
    dbind decode_flags (\<lambda>flags.
    dbind decode_id_u64 (\<lambda>pending'.
    dbind decode_optional_target_ref (\<lambda>pre_target'.
    dbind decode_gen_u64 (\<lambda>pre_capability'.
    dbind decode_gen_u64 (\<lambda>pre_topology'.
    dbind decode_gen_u64 (\<lambda>pre_policy'.
    dbind decode_tick_u64 (\<lambda>change'.
    dbind decode_reason (\<lambda>reason'.
    dreturn \<lparr>sv_descriptor = descriptor', sv_lifecycle = fst phases, sv_recovery = fst (snd phases),
      sv_continuity = snd (snd phases), sv_active = active', sv_fallback = fallback',
      sv_generation = generation', sv_fence = fence', sv_lease = lease', sv_next_attempt = next_attempt',
      sv_current_attempt = current_attempt', sv_history = history', sv_effects_seen = effects',
      sv_attempts_evicted = evicted', sv_attempts_since_verified = since',
      sv_activation_accepted = fst flags, sv_effect_verified = fst (snd flags),
      sv_state_transfer_verified = fst (snd (snd flags)), sv_failover_recorded = fst (snd (snd (snd flags))),
      sv_ambiguity_pending = snd (snd (snd (snd flags))), sv_pending_ambiguity = pending',
      sv_pre_failover_target = pre_target', sv_pre_failover_capability = pre_capability',
      sv_pre_failover_topology = pre_topology', sv_pre_failover_policy = pre_policy',
      sv_last_change = change', sv_last_reason = reason'\<rparr>)))))))))))))))))))))"

definition valid_service_runtime :: "fabric_config \<Rightarrow> service_runtime \<Rightarrow> bool" where
  "valid_service_runtime config v \<longleftrightarrow>
     valid_service_descriptor (sv_descriptor v) \<and>
     (\<forall>r \<in> set_option (sv_active v) \<union> set_option (sv_fallback v) \<union> set_option (sv_pre_failover_target v).
        valid_target_ref r) \<and>
     (\<forall>l \<in> set_option (sv_lease v). valid_lease_record l) \<and>
     list_all valid_attempt_record (sv_history v) \<and>
     length (sv_history v) \<le> cf_max_attempt_history config \<and>
     length (sv_effects_seen v) \<le> cf_max_attempt_history config \<and>
     reason_known (sv_last_reason v)"

lemma carries_counted_many [codec_rules]:
  assumes "\<And>x. x \<in> set xs \<Longrightarrow> carries m e (enc x) d x" and "length xs \<le> ceiling" and "k \<le> 4"
  shows "carries m k (encode_list enc xs)
    (dbind (get_count e) (\<lambda>n. if n > ceiling then dfail why else decode_many n d)) xs"
proof -
  have "carries m (e * length xs) (seq (map enc xs)) (if length xs > ceiling then dfail why else decode_many (length xs) d) xs"
    using assms(1,2) by (simp add: carries_many)
  then have "carries m 4 (encode_counted (length xs) (seq (map enc xs)))
      (dbind (get_count e) (\<lambda>n. if n > ceiling then dfail why else decode_many n d)) xs"
    by (intro carries_count)
  then show ?thesis unfolding encode_list_def using assms(3) by (rule carries_weaken)
qed

lemma carries_optional [codec_rules]:
  assumes "\<And>x. v = Some x \<Longrightarrow> carries m 0 (enc x) d x" and "k \<le> 1"
  shows "carries m k (encode_optional enc v) (decode_optional d) v"
proof (cases v)
  case None
  have "carries m k put_absence (decode_optional d) None"
    unfolding decode_optional_def using assms(2)
    by (intro carries_pair [OF carries_absence]) simp_all
  then show ?thesis using None by (simp add: encode_optional_def)
next
  case (Some x)
  have "carries m k (seq [put_presence, enc x]) (decode_optional d) (Some x)"
    unfolding decode_optional_def
    by (rule carries_Cons [OF carries_presence [OF assms(2)]])
      (simp add: seq_single carries_map [OF assms(1) [OF Some]])
  then show ?thesis using Some by (simp add: encode_optional_def)
qed

lemma enum_back:
  assumes "v \<in> fst ` set table" "length table \<le> 256"
  shows "enum_valid (of_nat (ordinal table v)) table" "enum_of table (of_nat (ordinal table v)) = v"
proof -
  have "ordinal table v < length table" using assms(1) by (rule ordinal_less)
  then have "unat (of_nat (ordinal table v) :: u8) = ordinal table v" using assms(2) by (simp add: unat_of_nat)
  with \<open>ordinal table v < length table\<close> show "enum_valid (of_nat (ordinal table v)) table"
    "enum_of table (of_nat (ordinal table v)) = v"
    using ordinal_nth [OF assms(1)] by (simp_all add: enum_valid_def enum_of_def)
qed

lemma phase_tables: "length kLifecyclePhases \<le> 256" "length kRecoveryPhases \<le> 256" "length kContinuityClasses \<le> 256"
  by (simp_all add: kLifecyclePhases_def kRecoveryPhases_def kContinuityClasses_def)

text \<open>Three encoders that one decoder reads.\<close>

lemma seq_append: "seq (fs @ gs) = seq [seq fs, seq gs]"
  by (rule ext) (induction fs, simp_all add: seq_simps)

lemma carries_phases:
  "carries m 0 (seq (put_enum kLifecyclePhases a # put_enum kRecoveryPhases b # put_enum kContinuityClasses c # fs))
     (dbind decode_phases g) x"
  if "carries m 0 (seq fs) (g (a, b, c)) x"
proof -
  have eq: "dbind decode_phases g = dbind get_u8 (\<lambda>x. dbind get_u8 (\<lambda>y. dbind get_u8 (\<lambda>z.
      if \<not> enum_valid x kLifecyclePhases \<or> \<not> enum_valid y kRecoveryPhases \<or> \<not> enum_valid z kContinuityClasses
      then dfail R_UnsupportedSemantics
      else g (enum_of kLifecyclePhases x, enum_of kRecoveryPhases y, enum_of kContinuityClasses z))))"
    by (rule ext) (auto simp: decode_phases_def dbind_def dfail_def dreturn_def split: prod.splits option.splits)
  show ?thesis
    unfolding eq put_enum_def
    by (rule codec_rules that | simp add: enum_back lifecycle_phase_listed recovery_phase_listed
        continuity_class_listed phase_tables)+
qed

lemma carries_flags [codec_rules]: "carries m 0 (encode_flags v) decode_flags (sv_activation_accepted v, sv_effect_verified v,
    sv_state_transfer_verified v, sv_failover_recorded v, sv_ambiguity_pending v)"
  unfolding encode_flags_def decode_flags_def by (rule codec_rules | simp)+

lemma carries_raw [codec_rules]:
  "k \<le> 8 \<Longrightarrow> carries m k (put_u64 (gen_value g)) decode_gen_u64 g"
  "k \<le> 8 \<Longrightarrow> carries m k (put_u64 (id_value i)) decode_id_u64 i"
  "k \<le> 8 \<Longrightarrow> carries m k (put_u64 (tick_value t)) decode_tick_u64 t"
  "k \<le> 8 \<Longrightarrow> carries m k (put_id i) (dbind get_u64 (\<lambda>raw. dreturn (Id raw))) i"
  unfolding decode_gen_u64_def decode_id_u64_def decode_tick_u64_def put_id_def
  by (rule carries_map [OF carries_u64], simp, simp)+

lemma carries_service_runtime [codec_rules]:
  "valid_service_runtime config v \<Longrightarrow> m < 31 \<Longrightarrow> k \<le> 4 \<Longrightarrow>
    carries m k (encode_service_runtime v) (decode_service_runtime config) v"
  unfolding encode_service_runtime_def decode_service_runtime_def valid_service_runtime_def
    decode_optional_target_ref_def encode_attempt_history_def decode_attempt_history_def decode_effects_seen_def
  by (cases v) (rule codec_rules carries_phases | simp add: list_all_iff)+

lemma stable_reject: "stable (\<lambda>r. (None, r))"
  by (rule stableI) simp

lemma stable_optional [codec_rules]: "stable d \<Longrightarrow> stable (decode_optional d)"
  unfolding decode_optional_def by (intro codec_rules)

lemma stable_service_runtime [codec_rules]: "stable (decode_service_runtime config)"
  unfolding decode_service_runtime_def decode_optional_target_ref_def decode_attempt_history_def decode_effects_seen_def
    decode_gen_u64_def decode_id_u64_def decode_tick_u64_def decode_flags_def decode_phases_def
  by (intro codec_rules)

interpretation service_runtime_codec: prefix_codec encode_service_runtime "decode_service_runtime config"
    "valid_service_runtime config" for config
  by unfold_locales (simp_all add: carries_service_runtime stable_service_runtime)

subsection \<open>The change of one runtime\<close>

record runtime_change =
  rx_service :: service_name
  rx_runtime :: service_runtime
  rx_fence :: fence_record
  rx_has_fence :: bool
  rx_witnesses :: "(target_name \<times> fence_witness) list"

definition encode_witness :: "fence_witness \<Rightarrow> writer \<Rightarrow> writer" where
  "encode_witness w = seq
    [encode_gen (fw_token w), encode_target_incarnation (fw_incarnation w), encode_gen (fw_topology_generation w)]"

definition decode_witness :: "fence_witness decoder" where
  "decode_witness = dbind decode_gen (\<lambda>token. dbind decode_target_incarnation (\<lambda>incarnation. dbind decode_gen (\<lambda>topology.
    dreturn \<lparr>fw_token = token, fw_incarnation = incarnation, fw_topology_generation = topology\<rparr>)))"

definition encode_runtime_change :: "runtime_change \<Rightarrow> writer \<Rightarrow> writer" where
  "encode_runtime_change c = seq
    [encode_name (rx_service c),
     encode_service_runtime (rx_runtime c),
     put_bool (rx_has_fence c),
     (if rx_has_fence c then encode_fence_record (rx_fence c) else (\<lambda>w. w)),
     encode_list (\<lambda>e. seq [encode_name (fst e), encode_witness (snd e)]) (rx_witnesses c)]"

text \<open>A witness count above the bound is refused without marking the reader.\<close>

definition decode_runtime_change :: "fabric_config \<Rightarrow> runtime_change decoder" where
  "decode_runtime_change config =
    dbind decode_name (\<lambda>service.
    dbind (decode_service_runtime config) (\<lambda>runtime.
    dbind get_bool (\<lambda>has_fence.
    dbind (if has_fence then decode_fence_record else dreturn default_fence_record) (\<lambda>fence.
    dbind (dbind (get_count 1) (\<lambda>count.
        if count > cf_max_targets config then (\<lambda>r. (None, r))
        else decode_many count (dbind decode_name (\<lambda>name. dbind decode_witness (\<lambda>w. dreturn (name, w)))))) (\<lambda>witnesses.
    dreturn \<lparr>rx_service = service, rx_runtime = runtime, rx_fence = fence, rx_has_fence = has_fence,
             rx_witnesses = witnesses\<rparr>)))))"

definition valid_runtime_change :: "fabric_config \<Rightarrow> runtime_change \<Rightarrow> bool" where
  "valid_runtime_change config c \<longleftrightarrow>
    canonical_name (rx_service c) \<and> valid_service_runtime config (rx_runtime c) \<and>
    (if rx_has_fence c then valid_fence_record (rx_fence c) else rx_fence c = default_fence_record) \<and>
    length (rx_witnesses c) \<le> cf_max_targets config \<and>
    list_all (\<lambda>e. canonical_name (fst e)) (rx_witnesses c)"

lemma carries_witness [codec_rules]: "k \<le> 8 \<Longrightarrow> carries m k (encode_witness w) decode_witness w"
  unfolding encode_witness_def decode_witness_def by (cases w) (rule codec_rules | simp)+

lemma stable_witness [codec_rules]: "stable decode_witness"
  unfolding decode_witness_def by (intro codec_rules)

lemma carries_skip: "carries m 0 (\<lambda>w. w) (dreturn x) x"
proof -
  have "seq [] = (\<lambda>w. w)" by (rule ext) (simp add: seq_simps)
  then show ?thesis using carries_Nil [of m x] by simp
qed

lemma carries_counted_any [codec_rules]:
  assumes "\<And>x. x \<in> set xs \<Longrightarrow> carries m e (enc x) d x" and "length xs \<le> ceiling" and "k \<le> 4"
  shows "carries m k (encode_list enc xs)
    (dbind (get_count e) (\<lambda>n. if n > ceiling then reject else decode_many n d)) xs"
proof -
  have "carries m (e * length xs) (seq (map enc xs)) (if length xs > ceiling then reject else decode_many (length xs) d) xs"
    using assms(1,2) by (simp add: carries_many)
  then have "carries m 4 (encode_counted (length xs) (seq (map enc xs)))
      (dbind (get_count e) (\<lambda>n. if n > ceiling then reject else decode_many n d)) xs"
    by (intro carries_count)
  then show ?thesis unfolding encode_list_def using assms(3) by (rule carries_weaken)
qed

lemma carries_runtime_change [codec_rules]:
  assumes "valid_runtime_change config c" "m < 31" "k \<le> 4"
  shows "carries m k (encode_runtime_change c) (decode_runtime_change config) c"
proof -
  have fence: "carries m 0 (if rx_has_fence c then encode_fence_record (rx_fence c) else (\<lambda>w. w))
      (if rx_has_fence c then decode_fence_record else dreturn default_fence_record) (rx_fence c)"
    using assms(1) by (auto simp: valid_runtime_change_def carries_skip intro: carries_fence_record)
  show ?thesis
    using assms unfolding encode_runtime_change_def decode_runtime_change_def valid_runtime_change_def
    by (cases c) (rule codec_rules fence [unfolded, simplified] | simp add: list_all_iff)+
qed

lemma stable_runtime_change [codec_rules]: "stable (decode_runtime_change config)"
  unfolding decode_runtime_change_def by (intro codec_rules stable_reject)

interpretation runtime_change_codec: prefix_codec encode_runtime_change "decode_runtime_change config"
    "valid_runtime_change config" for config
  by unfold_locales (simp_all add: carries_runtime_change stable_runtime_change)

subsection \<open>The snapshot\<close>

definition encode_stats :: "fabric_stats \<Rightarrow> writer \<Rightarrow> writer" where
  "encode_stats s = seq (map (\<lambda>(name, get, put). put_u64 (get s)) stats_fields)"

fun decode_fields :: "(string \<times> ('s \<Rightarrow> u64) \<times> (u64 \<Rightarrow> 's \<Rightarrow> 's)) list \<Rightarrow> 's \<Rightarrow> 's decoder" where
  "decode_fields [] s = dreturn s"
| "decode_fields ((name, get, put) # fs) s = dbind get_u64 (\<lambda>v. decode_fields fs (put v s))"

definition decode_stats :: "fabric_stats decoder" where
  "decode_stats = decode_fields stats_fields default_fabric_stats"

definition kCanonicalSchemaVersion :: u16 where
  "kCanonicalSchemaVersion = 1"

text \<open>A map is its count and its entries in key order.\<close>

definition encode_map :: "('k::linorder \<times> 'v \<Rightarrow> writer \<Rightarrow> writer) \<Rightarrow> ('k, 'v) omap \<Rightarrow> writer \<Rightarrow> writer" where
  "encode_map enc m = encode_counted (omap_size m) (seq (map enc (entries m)))"

definition insert_new :: "('k::linorder \<times> 'v) decoder \<Rightarrow> ('k, 'v) omap \<Rightarrow> ('k, 'v) omap decoder" where
  "insert_new d acc = dbind d (\<lambda>(key, v).
    if omap_find acc key \<noteq> None then dfail R_DuplicateIdentity else dreturn (omap_put key v acc))"

definition decode_map :: "nat \<Rightarrow> reason \<Rightarrow> ('k::linorder \<times> 'v) decoder \<Rightarrow> ('k, 'v) omap decoder" where
  "decode_map ceiling why d = dbind (get_count 1) (\<lambda>count.
    if count > ceiling then dfail why else nested (dloop count (insert_new d) omap_empty))"

text \<open>The same with the keys in the order in which they are read.\<close>

definition insert_ordered :: "('k::linorder \<times> 'v) decoder \<Rightarrow> ('k, 'v) omap \<times> 'k list \<Rightarrow> (('k, 'v) omap \<times> 'k list) decoder" where
  "insert_ordered d acc = dbind d (\<lambda>(key, v).
    if omap_find (fst acc) key \<noteq> None then dfail R_DuplicateIdentity
    else dreturn (omap_put key v (fst acc), snd acc @ [key]))"

definition decode_ordered_map :: "nat \<Rightarrow> reason \<Rightarrow> ('k::linorder \<times> 'v) decoder \<Rightarrow> (('k, 'v) omap \<times> 'k list) decoder" where
  "decode_ordered_map ceiling why d = dbind (get_count 1) (\<lambda>count.
    if count > ceiling then dfail why else nested (dloop count (insert_ordered d) (omap_empty, [])))"

definition encode_capability_slot :: "target_name \<times> capability_slot \<Rightarrow> writer \<Rightarrow> writer" where
  "encode_capability_slot e = seq
    [encode_name (fst e), encode_capability_evidence (cp_evidence (snd e)), put_bool (cp_requires_reconfirmation (snd e))]"

definition encode_dependency_slot :: "service_name \<times> dependency_slot \<Rightarrow> writer \<Rightarrow> writer" where
  "encode_dependency_slot e = seq
    [encode_name (fst e), encode_dependency_observation (dp_observation (snd e)),
     put_bool (dp_requires_reconfirmation (snd e))]"

definition encode_request_entry :: "request_key \<times> request_cache_entry \<Rightarrow> writer \<Rightarrow> writer" where
  "encode_request_entry e = seq
    [put_u64 (id_value (fst e)), put_u8 (request_kind_value (rq_kind (snd e))),
     put_u16 (reason_value (rq_outcome (snd e))), put_bool (rq_accepted (snd e)), put_bool (rq_duplicate (snd e)),
     put_u64 (id_value (rq_attempt (snd e))), put_u64 (gen_value (rq_generation (snd e))),
     put_u64 (gen_value (rq_fence (snd e))), put_u64 (gen_value (rq_lease_term (snd e))),
     put_u64 (gen_value (rq_policy_generation (snd e))), put_u64 (gen_value (rq_topology_generation (snd e))),
     encode_target_ref (rq_from (snd e)), encode_target_ref (rq_to (snd e)), put_bool (rq_has_intent (snd e)),
     put_u32 (rq_plan_step_mask (snd e)), encode_digest (rq_response_digest (snd e)),
     put_u64 (tick_value (rq_recorded (snd e)))]"

definition encode_state_maps :: "state \<Rightarrow> writer \<Rightarrow> writer" where
  "encode_state_maps s = seq
    [encode_map (\<lambda>e. encode_target_record (snd e)) (st_targets s),
     encode_map encode_capability_slot (st_capabilities s),
     encode_map (\<lambda>e. seq [encode_name (fst e), encode_service_runtime (snd e)]) (st_services s),
     encode_map (\<lambda>e. seq [encode_name (fst e), encode_map encode_dependency_slot (snd e)]) (st_dependencies s),
     encode_map (\<lambda>e. encode_failure_evidence (snd e)) (st_failures s),
     encode_map (\<lambda>e. encode_fence_record (snd e)) (st_fences s),
     encode_map (\<lambda>e. seq [encode_name (wk_service (fst e)), encode_name (wk_target (fst e)),
       encode_witness (snd e)]) (st_witnesses s),
     encode_map (\<lambda>e. seq [encode_name (fst e), put_enum kSourceRoles (snd e)]) (st_sources s),
     encode_map (\<lambda>e. seq [encode_name (fst e), encode_gen (sw_sequence (snd e)), encode_digest (sw_digest (snd e)),
       encode_tick (sw_tick (snd e))]) (st_watermarks s),
     encode_map encode_request_entry (st_request_cache s),
     encode_stats (st_stats s)]"

definition encode_state :: "state \<Rightarrow> writer \<Rightarrow> writer" where
  "encode_state s = seq (
    [put_u16 kCanonicalSchemaVersion,
     put_u64 (gen_value (st_epoch s)), put_u64 (gen_value (st_boot s)), put_u64 (tick_value (st_tick s)),
     put_u64 (gen_value (st_topology_generation s)), put_u64 (gen_value (st_policy_generation s)),
     put_u64 (st_next_evidence_id s), put_u64 (st_next_attempt_id s), put_u64 (st_next_lease_id s),
     put_u64 (st_next_plan_id s), encode_policy_descriptor (st_policy s)] @ [encode_state_maps s])"

subsection \<open>Reading the snapshot\<close>

definition checked_entry :: "('v \<Rightarrow> bool) \<Rightarrow> ('v \<Rightarrow> 'k) \<Rightarrow> 'v decoder \<Rightarrow> ('k \<times> 'v) decoder" where
  "checked_entry bad key d = dbind d (\<lambda>v. if bad v then dfail R_DuplicateIdentity else dreturn (key v, v))"

definition decode_capability_slot :: "(target_name \<times> capability_slot) decoder" where
  "decode_capability_slot =
    dbind decode_name (\<lambda>target. dbind decode_capability_evidence (\<lambda>evidence. dbind get_bool (\<lambda>reconfirm.
    dreturn (target, \<lparr>cp_evidence = evidence, cp_requires_reconfirmation = reconfirm\<rparr>))))"

definition decode_service_entry :: "fabric_config \<Rightarrow> (service_name \<times> service_runtime) decoder" where
  "decode_service_entry config =
    dbind decode_name (\<lambda>name. dbind (decode_service_runtime config) (\<lambda>runtime.
    dreturn (name, runtime\<lparr>sv_descriptor := (sv_descriptor runtime)\<lparr>sd_name := name\<rparr>\<rparr>)))"

definition decode_dependency_slot :: "(service_name \<times> dependency_slot) decoder" where
  "decode_dependency_slot =
    dbind decode_name (\<lambda>dependency. dbind decode_dependency_observation (\<lambda>observation. dbind get_bool (\<lambda>reconfirm.
    dreturn (dependency, \<lparr>dp_observation = observation, dp_requires_reconfirmation = reconfirm\<rparr>))))"

text \<open>The buckets of a service that is listed twice are merged.\<close>

definition decode_dependencies ::
  "fabric_config \<Rightarrow> (service_name, (service_name, dependency_slot) omap) omap decoder" where
  "decode_dependencies config = dbind (get_count 1) (\<lambda>count.
    if count > cf_max_services config then dfail R_RegistryCapacityExceeded
    else nested (dloop count (\<lambda>acc.
      dbind decode_name (\<lambda>service.
      dbind (get_count 1) (\<lambda>dep_count.
        if dep_count > cf_max_dependencies_per_service config then dfail R_DependencyCapacityExceeded
        else dbind (dloop dep_count (insert_new decode_dependency_slot) (value_or (omap_find acc service) omap_empty))
          (\<lambda>bucket. dreturn (omap_put service bucket acc))))) omap_empty))"

definition decode_witness_entry :: "(witness_key \<times> fence_witness) decoder" where
  "decode_witness_entry =
    dbind decode_name (\<lambda>service. dbind decode_name (\<lambda>target. dbind decode_witness (\<lambda>w.
    dreturn (Witness_Key service target, w))))"

definition witness_ceiling :: "fabric_config \<Rightarrow> nat" where
  "witness_ceiling config =
    (case mul_overflow (of_nat (cf_max_targets config) :: u64) (of_nat (cf_max_services config)) of
       None \<Rightarrow> 2 ^ 64 - 1 | Some v \<Rightarrow> unat v)"

definition decode_source_entry :: "(source_name \<times> source_role) decoder" where
  "decode_source_entry =
    dbind decode_name (\<lambda>source. dbind get_u8 (\<lambda>role.
    if \<not> enum_valid role kSourceRoles then dfail R_UnsupportedSemantics
    else dreturn (source, enum_of kSourceRoles role)))"

definition decode_watermark_entry :: "(source_name \<times> source_watermark) decoder" where
  "decode_watermark_entry =
    dbind decode_name (\<lambda>source. dbind decode_gen (\<lambda>sequence. dbind decode_digest (\<lambda>dg. dbind decode_tick (\<lambda>tick.
    dreturn (source, \<lparr>sw_sequence = sequence, sw_digest = dg, sw_tick = tick\<rparr>)))))"

definition decode_request_entry :: "(request_key \<times> request_cache_entry) decoder" where
  "decode_request_entry =
    dbind decode_id_u64 (\<lambda>key. dbind get_u8 (\<lambda>kind. dbind get_u16 (\<lambda>outcome.
    if \<not> unat kind < 7 then dfail R_UnsupportedSemantics
    else if reason_code_text (Reason outcome) = ''UNRECOGNIZED_REASON'' then dfail R_UnsupportedSemantics
    else
    dbind get_bool (\<lambda>accepted. dbind get_bool (\<lambda>duplicate.
    dbind decode_id_u64 (\<lambda>attempt. dbind decode_gen_u64 (\<lambda>generation. dbind decode_gen_u64 (\<lambda>fence.
    dbind decode_gen_u64 (\<lambda>lease. dbind decode_gen_u64 (\<lambda>policy. dbind decode_gen_u64 (\<lambda>topology.
    dbind decode_target_ref (\<lambda>from'. dbind decode_target_ref (\<lambda>to'. dbind get_bool (\<lambda>has_intent.
    dbind get_u32 (\<lambda>mask'. dbind decode_digest (\<lambda>response. dbind decode_tick_u64 (\<lambda>recorded.
    dreturn (key, \<lparr>rq_kind = kRequestKinds ! unat kind, rq_outcome = Reason outcome, rq_accepted = accepted,
      rq_duplicate = duplicate, rq_attempt = attempt, rq_generation = generation, rq_fence = fence,
      rq_lease_term = lease, rq_policy_generation = policy, rq_topology_generation = topology, rq_from = from',
      rq_to = to', rq_has_intent = has_intent, rq_plan_step_mask = mask', rq_response_digest = response,
      rq_recorded = recorded\<rparr>))))))))))))))))))"

definition decode_state_head :: "state decoder" where
  "decode_state_head =
    dbind get_u16 (\<lambda>schema.
    if schema \<noteq> kCanonicalSchemaVersion then dfail R_StoreSemanticsIncompatible
    else
    dbind decode_gen_u64 (\<lambda>epoch. dbind decode_gen_u64 (\<lambda>boot. dbind decode_tick_u64 (\<lambda>tick.
    dbind decode_gen_u64 (\<lambda>topology. dbind decode_gen_u64 (\<lambda>policy_generation.
    dbind get_u64 (\<lambda>next_evidence. dbind get_u64 (\<lambda>next_attempt. dbind get_u64 (\<lambda>next_lease. dbind get_u64 (\<lambda>next_plan.
    if next_evidence = 0 \<or> next_attempt = 0 \<or> next_lease = 0 \<or> next_plan = 0 then dfail R_ImpossibleValue
    else dbind decode_policy_descriptor (\<lambda>policy.
    dreturn (default_state\<lparr>st_epoch := epoch, st_boot := boot, st_tick := tick,
      st_topology_generation := topology, st_policy_generation := policy_generation, st_policy := policy,
      st_next_evidence_id := next_evidence, st_next_attempt_id := next_attempt,
      st_next_lease_id := next_lease, st_next_plan_id := next_plan\<rparr>))))))))))))"

text \<open>The arrival orders are filled in the order in which the entries are read.\<close>

definition decode_state_maps :: "fabric_config \<Rightarrow> state \<Rightarrow> state decoder" where
  "decode_state_maps config s0 =
    dbind (decode_map (cf_max_targets config) R_RegistryCapacityExceeded
      (checked_entry (\<lambda>t. name_empty (tr_name t)) tr_name decode_target_record)) (\<lambda>targets.
    dbind (decode_map (cf_max_targets config) R_RegistryCapacityExceeded decode_capability_slot) (\<lambda>capabilities.
    dbind (decode_map (cf_max_services config) R_RegistryCapacityExceeded (decode_service_entry config)) (\<lambda>services.
    dbind (decode_dependencies config) (\<lambda>dependencies.
    dbind (decode_ordered_map (cf_max_evidence_records config) R_EvidenceCapacityExceeded
      (checked_entry (\<lambda>e. is_nil (fe_id e)) fe_id decode_failure_evidence)) (\<lambda>failures.
    dbind (decode_map (cf_max_services config) R_RegistryCapacityExceeded
      (checked_entry (\<lambda>f. False) fr_service decode_fence_record)) (\<lambda>fences.
    dbind (decode_map (witness_ceiling config) R_RegistryCapacityExceeded decode_witness_entry) (\<lambda>witnesses.
    dbind (decode_map (cf_max_sources config) R_RegistryCapacityExceeded decode_source_entry) (\<lambda>sources.
    dbind (decode_map (cf_max_sources config) R_RegistryCapacityExceeded decode_watermark_entry) (\<lambda>watermarks.
    dbind (decode_ordered_map (cf_max_request_cache config) R_RegistryCapacityExceeded decode_request_entry) (\<lambda>cache.
    dbind decode_stats (\<lambda>stats.
    dreturn (s0\<lparr>st_targets := targets, st_capabilities := capabilities, st_services := services,
      st_dependencies := dependencies, st_failures := fst failures, st_failure_order := snd failures,
      st_fences := fences, st_witnesses := witnesses, st_sources := sources, st_watermarks := watermarks,
      st_request_cache := fst cache, st_request_order := snd cache, st_stats := stats\<rparr>))))))))))))"

definition decode_state :: "fabric_config \<Rightarrow> state decoder" where
  "decode_state config = dbind decode_state_head (decode_state_maps config)"

subsection \<open>The snapshot is read back\<close>

definition forget_orders :: "state \<Rightarrow> state" where
  "forget_orders s = s\<lparr>st_failure_order := omap_keys (st_failures s), st_request_order := omap_keys (st_request_cache s),
    st_latest_failure := omap_empty\<rparr>"

definition all_entries :: "('k::linorder \<Rightarrow> 'v \<Rightarrow> bool) \<Rightarrow> ('k, 'v) omap \<Rightarrow> bool" where
  "all_entries P m \<longleftrightarrow> (\<forall>k v. omap_find m k = Some v \<longrightarrow> P k v)"

definition valid_request_entry :: "request_cache_entry \<Rightarrow> bool" where
  "valid_request_entry e \<longleftrightarrow> reason_known (rq_outcome e) \<and> valid_target_ref (rq_from e) \<and> valid_target_ref (rq_to e)"

definition valid_registry :: "fabric_config \<Rightarrow> state \<Rightarrow> bool" where
  "valid_registry config s \<longleftrightarrow>
    omap_size (st_targets s) \<le> cf_max_targets config \<and>
    all_entries (\<lambda>k v. tr_name v = k \<and> \<not> name_empty k \<and> valid_target_record v) (st_targets s) \<and>
    omap_size (st_capabilities s) \<le> cf_max_targets config \<and>
    all_entries (\<lambda>k v. canonical_name k \<and> valid_capability_evidence (cp_evidence v)) (st_capabilities s) \<and>
    omap_size (st_services s) \<le> cf_max_services config \<and>
    all_entries (\<lambda>k v. canonical_name k \<and> sd_name (sv_descriptor v) = k \<and> valid_service_runtime config v) (st_services s) \<and>
    omap_size (st_dependencies s) \<le> cf_max_services config \<and>
    all_entries (\<lambda>k m. canonical_name k \<and> omap_size m \<le> cf_max_dependencies_per_service config \<and>
      all_entries (\<lambda>d v. canonical_name d \<and> valid_dependency_observation (dp_observation v)) m) (st_dependencies s)"

definition valid_evidence :: "fabric_config \<Rightarrow> state \<Rightarrow> bool" where
  "valid_evidence config s \<longleftrightarrow>
    omap_size (st_failures s) \<le> cf_max_evidence_records config \<and>
    all_entries (\<lambda>k v. fe_id v = k \<and> \<not> is_nil k \<and> valid_failure_evidence v) (st_failures s) \<and>
    omap_size (st_fences s) \<le> cf_max_services config \<and>
    all_entries (\<lambda>k v. fr_service v = k \<and> valid_fence_record v) (st_fences s) \<and>
    omap_size (st_witnesses s) \<le> witness_ceiling config \<and>
    all_entries (\<lambda>k v. canonical_name (wk_service k) \<and> canonical_name (wk_target k)) (st_witnesses s) \<and>
    omap_size (st_sources s) \<le> cf_max_sources config \<and>
    all_entries (\<lambda>k v. canonical_name k) (st_sources s) \<and>
    omap_size (st_watermarks s) \<le> cf_max_sources config \<and>
    all_entries (\<lambda>k v. canonical_name k) (st_watermarks s) \<and>
    omap_size (st_request_cache s) \<le> cf_max_request_cache config \<and>
    all_entries (\<lambda>k v. valid_request_entry v) (st_request_cache s)"

definition valid_state :: "fabric_config \<Rightarrow> state \<Rightarrow> bool" where
  "valid_state config s \<longleftrightarrow>
    st_next_evidence_id s \<noteq> 0 \<and> st_next_attempt_id s \<noteq> 0 \<and> st_next_lease_id s \<noteq> 0 \<and> st_next_plan_id s \<noteq> 0 \<and>
    valid_policy_descriptor (st_policy s) \<and> valid_registry config s \<and> valid_evidence config s"

lemma all_entriesD: "all_entries P m \<Longrightarrow> e \<in> set (entries m) \<Longrightarrow> P (fst e) (snd e)"
  by (cases e) (simp add: all_entries_def find_entries)

lemma carries_insert_loop:
  assumes "\<And>e. e \<in> set (entries mp) \<Longrightarrow> carries m k (enc e) d e"
  shows "carries m (k * omap_size mp) (seq (map enc (entries mp))) (dloop (omap_size mp) (insert_new d) omap_empty) mp"
  using carries_map_loop [OF assms, where why = R_DuplicateIdentity] unfolding insert_new_def by simp

lemma carries_omap:
  assumes elem: "\<And>e. e \<in> set (entries mp) \<Longrightarrow> carries (Suc m) 1 (enc e) d e"
    and size: "omap_size mp \<le> ceiling" and m: "m < 32" and k: "k \<le> 4"
  shows "carries m k (encode_map enc mp) (decode_map ceiling why d) mp"
proof -
  have "carries m (1 * omap_size mp) (seq (map enc (entries mp)))
      (if omap_size mp > ceiling then dfail why else nested (dloop (omap_size mp) (insert_new d) omap_empty)) mp"
    using carries_nested [OF carries_insert_loop [OF elem] m] size by simp
  then have "carries m 4 (encode_counted (omap_size mp) (seq (map enc (entries mp))))
      (dbind (get_count 1) (\<lambda>n. if n > ceiling then dfail why else nested (dloop n (insert_new d) omap_empty))) mp"
    by (intro carries_count)
  then show ?thesis unfolding encode_map_def decode_map_def using k by (rule carries_weaken)
qed

lemma carries_ordered_loop:
  assumes elem: "\<And>e. e \<in> set (entries mp) \<Longrightarrow> carries m k (enc e) d e"
  shows "carries m (k * omap_size mp) (seq (map enc (entries mp)))
    (dloop (omap_size mp) (insert_ordered d) (omap_empty, [])) (mp, omap_keys mp)"
proof -
  let ?upd = "\<lambda>acc e. (omap_put (fst e) (snd e) (fst acc), snd acc @ [fst e])"
  have fold: "foldl ?upd (omap_empty, []) es =
      (foldl (\<lambda>acc (key, v). omap_put key v acc) omap_empty es, map fst es)" for es
    by (induction es rule: rev_induct) (simp_all add: split_beta)
  have "carries m (k * length (entries mp)) (seq (map enc (entries mp)))
      (dloop (length (entries mp)) (insert_ordered d) (omap_empty, [])) (foldl ?upd (omap_empty, []) (entries mp))"
  proof (rule carries_dloop)
    fix ys x zs
    assume eq: "entries mp = ys @ x # zs"
    define acc where "acc = foldl ?upd (omap_empty, []) ys"
    have "strict_keys (ys @ x # zs)"
      using sorted_keys [of mp] by (simp add: strict_keys_def eq)
    then have ys: "strict_keys (entries omap_empty @ ys)" and lt: "fst x \<notin> fst ` set ys"
      by (auto simp: strict_keys_def sorted_wrt_append)
    have "entries (fst acc) = ys"
      unfolding acc_def fold fst_conv by (subst entries_omap_of_prefix [OF ys]) simp
    then have fresh: "\<not> (\<lambda>e. omap_find (fst acc) (fst e) \<noteq> None) x" using lt by (simp add: find_None_keys)
    have "carries m k (enc x) d x" using eq by (intro elem) simp
    then have "carries m k (enc x) (dbind d (\<lambda>p. if (\<lambda>e. omap_find (fst acc) (fst e) \<noteq> None) p
        then dfail R_DuplicateIdentity else dreturn (?upd acc p))) (?upd acc x)"
      using fresh by (rule carries_checked) (rule refl)
    then show "carries m k (enc x) (insert_ordered d acc) (?upd acc x)"
      unfolding insert_ordered_def split_def .
  qed
  moreover have "foldl (\<lambda>acc (key, v). omap_put key v acc) omap_empty (entries mp) = mp"
    using omap_of_entries [of mp] by (simp add: omap_of_def)
  ultimately show ?thesis by (simp add: fold omap_size_def omap_keys_def)
qed

lemma carries_ordered:
  assumes elem: "\<And>e. e \<in> set (entries mp) \<Longrightarrow> carries (Suc m) 1 (enc e) d e"
    and size: "omap_size mp \<le> ceiling" and m: "m < 32" and k: "k \<le> 4"
  shows "carries m k (encode_map enc mp) (decode_ordered_map ceiling why d) (mp, omap_keys mp)"
proof -
  have "carries m (1 * omap_size mp) (seq (map enc (entries mp)))
      (if omap_size mp > ceiling then dfail why else nested (dloop (omap_size mp) (insert_ordered d) (omap_empty, [])))
      (mp, omap_keys mp)"
    using carries_nested [OF carries_ordered_loop [OF elem] m] size by simp
  then have "carries m 4 (encode_counted (omap_size mp) (seq (map enc (entries mp))))
      (dbind (get_count 1) (\<lambda>n. if n > ceiling then dfail why else nested (dloop n (insert_ordered d) (omap_empty, []))))
      (mp, omap_keys mp)"
    by (intro carries_count)
  then show ?thesis unfolding encode_map_def decode_ordered_map_def using k by (rule carries_weaken)
qed

lemma carries_fresh_loop:
  assumes elem: "\<And>acc e. e \<in> set (entries mp) \<Longrightarrow> omap_find acc (fst e) = None \<Longrightarrow>
    carries m k (enc e) (body acc) (omap_put (fst e) (snd e) acc)"
  shows "carries m (k * omap_size mp) (seq (map enc (entries mp))) (dloop (omap_size mp) body omap_empty) mp"
proof -
  let ?upd = "\<lambda>acc (key, v). omap_put key v acc"
  have "carries m (k * length (entries mp)) (seq (map enc (entries mp)))
      (dloop (length (entries mp)) body omap_empty) (foldl ?upd omap_empty (entries mp))"
  proof (rule carries_dloop)
    fix ys x zs
    assume eq: "entries mp = ys @ x # zs"
    define acc where "acc = foldl ?upd omap_empty ys"
    have "strict_keys (ys @ x # zs)"
      using sorted_keys [of mp] by (simp add: strict_keys_def eq)
    then have ys: "strict_keys (entries omap_empty @ ys)" and lt: "fst x \<notin> fst ` set ys"
      by (auto simp: strict_keys_def sorted_wrt_append)
    have "entries acc = ys"
      unfolding acc_def by (subst entries_omap_of_prefix [OF ys]) simp
    then have "omap_find acc (fst x) = None" using lt by (simp add: find_None_keys)
    then show "carries m k (enc x) (body acc) (?upd acc x)"
      using elem [of x acc] eq by (simp add: split_beta)
  qed
  moreover have "foldl ?upd omap_empty (entries mp) = mp"
    using omap_of_entries [of mp] by (simp add: omap_of_def)
  ultimately show ?thesis by (simp add: omap_size_def)
qed

lemma carries_dependency_slot [codec_rules]:
  "canonical_name (fst e) \<Longrightarrow> valid_dependency_observation (dp_observation (snd e)) \<Longrightarrow> k \<le> 4 \<Longrightarrow>
    carries m k (encode_dependency_slot e) decode_dependency_slot e"
  unfolding encode_dependency_slot_def decode_dependency_slot_def
  by (cases e, cases "snd e") (rule codec_rules | simp)+

lemma carries_dependencies:
  assumes valid: "all_entries (\<lambda>k m. canonical_name k \<and> omap_size m \<le> cf_max_dependencies_per_service config \<and>
      all_entries (\<lambda>d v. canonical_name d \<and> valid_dependency_observation (dp_observation v)) m) ds"
    and size: "omap_size ds \<le> cf_max_services config" and m: "m < 32" and k: "k \<le> 4"
  shows "carries m k (encode_map (\<lambda>e. seq [encode_name (fst e), encode_map encode_dependency_slot (snd e)]) ds)
    (decode_dependencies config) ds"
proof -
  let ?enc = "\<lambda>e. seq [encode_name (fst e), encode_map encode_dependency_slot (snd e)]"
  let ?body = "\<lambda>acc. dbind decode_name (\<lambda>service.
      dbind (get_count 1) (\<lambda>dep_count.
        if dep_count > cf_max_dependencies_per_service config then dfail R_DependencyCapacityExceeded
        else dbind (dloop dep_count (insert_new decode_dependency_slot) (value_or (omap_find acc service) omap_empty))
          (\<lambda>bucket. dreturn (omap_put service bucket acc))))"
  have "carries (Suc m) 1 (?enc e) (?body acc) (omap_put (fst e) (snd e) acc)"
    if e: "e \<in> set (entries ds)" and fresh: "omap_find acc (fst e) = None" for e acc
  proof -
    have v: "canonical_name (fst e)" "omap_size (snd e) \<le> cf_max_dependencies_per_service config"
      "all_entries (\<lambda>d v. canonical_name d \<and> valid_dependency_observation (dp_observation v)) (snd e)"
      using all_entriesD [OF valid e] by simp_all
    have "carries (Suc m) (1 * omap_size (snd e)) (seq (map encode_dependency_slot (entries (snd e))))
        (dloop (omap_size (snd e)) (insert_new decode_dependency_slot) omap_empty) (snd e)"
      by (rule carries_insert_loop, rule carries_dependency_slot) (auto dest: all_entriesD [OF v(3)])
    then have "carries (Suc m) (1 * omap_size (snd e)) (seq (map encode_dependency_slot (entries (snd e))))
        (dbind (dloop (omap_size (snd e)) (insert_new decode_dependency_slot) omap_empty)
          (\<lambda>bucket. dreturn (omap_put (fst e) bucket acc))) (omap_put (fst e) (snd e) acc)"
      by (rule carries_map) (rule refl)
    then have "carries (Suc m) (1 * omap_size (snd e)) (seq (map encode_dependency_slot (entries (snd e))))
        (if omap_size (snd e) > cf_max_dependencies_per_service config then dfail R_DependencyCapacityExceeded
         else dbind (dloop (omap_size (snd e)) (insert_new decode_dependency_slot) (value_or (omap_find acc (fst e)) omap_empty))
          (\<lambda>bucket. dreturn (omap_put (fst e) bucket acc))) (omap_put (fst e) (snd e) acc)"
      using v(2) fresh by (simp add: value_or_def)
    then have "carries (Suc m) 4 (encode_map encode_dependency_slot (snd e))
        (dbind (get_count 1) (\<lambda>n. if n > cf_max_dependencies_per_service config then dfail R_DependencyCapacityExceeded
         else dbind (dloop n (insert_new decode_dependency_slot) (value_or (omap_find acc (fst e)) omap_empty))
          (\<lambda>bucket. dreturn (omap_put (fst e) bucket acc)))) (omap_put (fst e) (snd e) acc)"
      unfolding encode_map_def by (intro carries_count)
    then show ?thesis
      using v(1) by (intro carries_Cons [where a = "fst e"] carries_name) (simp_all add: seq_single carries_weaken)
  qed
  from carries_nested [OF carries_fresh_loop [OF this] m]
  have "carries m (1 * omap_size ds) (seq (map ?enc (entries ds)))
      (if omap_size ds > cf_max_services config then dfail R_RegistryCapacityExceeded
       else nested (dloop (omap_size ds) ?body omap_empty)) ds"
    using size by simp
  then have "carries m 4 (encode_counted (omap_size ds) (seq (map ?enc (entries ds))))
      (dbind (get_count 1) (\<lambda>n. if n > cf_max_services config then dfail R_RegistryCapacityExceeded
       else nested (dloop n ?body omap_empty))) ds"
    by (intro carries_count)
  then show ?thesis unfolding encode_map_def decode_dependencies_def using k by (rule carries_weaken)
qed

lemma carries_fields: "carries m 0 (seq (map (\<lambda>(name, get, put). put_u64 (get s)) fs)) (decode_fields fs t)
    (fold (\<lambda>(name, get, put) u. put (get s) u) fs t)"
  by (induction fs arbitrary: t) (auto intro!: codec_rules simp: carries_Nil)

lemma carries_stats [codec_rules]: "carries m 0 (encode_stats s) decode_stats s"
proof -
  have "fold (\<lambda>(name, get, put) u. put (get s) u) stats_fields default_fabric_stats = s"
    by (cases s) (simp add: stats_fields_def default_fabric_stats_def)
  then show ?thesis using carries_fields [of m s stats_fields default_fabric_stats]
    by (simp add: encode_stats_def decode_stats_def)
qed

lemma carries_checked_entry:
  assumes "carries m k f d v" and "\<not> bad v" and "key v = j"
  shows "carries m k f (checked_entry bad key d) (j, v)"
  unfolding checked_entry_def using assms by (intro carries_checked) simp_all

lemma carries_capability_slot [codec_rules]:
  "canonical_name (fst e) \<Longrightarrow> valid_capability_evidence (cp_evidence (snd e)) \<Longrightarrow> k \<le> 4 \<Longrightarrow>
    carries m k (encode_capability_slot e) decode_capability_slot e"
  unfolding encode_capability_slot_def decode_capability_slot_def
  by (cases e, cases "snd e") (rule codec_rules | simp)+

lemma carries_service_entry [codec_rules]:
  "canonical_name (fst e) \<Longrightarrow> sd_name (sv_descriptor (snd e)) = fst e \<Longrightarrow> valid_service_runtime config (snd e) \<Longrightarrow>
    m < 31 \<Longrightarrow> k \<le> 4 \<Longrightarrow>
    carries m k (seq [encode_name (fst e), encode_service_runtime (snd e)]) (decode_service_entry config) e"
  unfolding decode_service_entry_def by (cases e) (rule codec_rules | simp)+

lemma carries_witness_entry [codec_rules]:
  "canonical_name (wk_service (fst e)) \<Longrightarrow> canonical_name (wk_target (fst e)) \<Longrightarrow> k \<le> 4 \<Longrightarrow>
    carries m k (seq [encode_name (wk_service (fst e)), encode_name (wk_target (fst e)), encode_witness (snd e)])
      decode_witness_entry e"
  unfolding decode_witness_entry_def by (cases e, cases "fst e") (rule codec_rules | simp)+

lemma carries_source_entry [codec_rules]:
  "canonical_name (fst e) \<Longrightarrow> k \<le> 4 \<Longrightarrow>
    carries m k (seq [encode_name (fst e), put_enum kSourceRoles (snd e)]) decode_source_entry e"
  unfolding decode_source_entry_def put_enum_def
  using enum_back [OF source_role_listed, of "snd e"]
  by (cases e) (rule codec_rules | simp add: kSourceRoles_def)+

lemma carries_watermark_entry [codec_rules]:
  "canonical_name (fst e) \<Longrightarrow> k \<le> 4 \<Longrightarrow>
    carries m k (seq [encode_name (fst e), encode_gen (sw_sequence (snd e)), encode_digest (sw_digest (snd e)),
       encode_tick (sw_tick (snd e))]) decode_watermark_entry e"
  unfolding decode_watermark_entry_def by (cases e, cases "snd e") (rule codec_rules | simp)+

lemma request_kind_back: "unat (request_kind_value k) < 7" "kRequestKinds ! unat (request_kind_value k) = k"
  by (cases k; simp add: kRequestKinds_def)+

lemma carries_request_entry [codec_rules]:
  "valid_request_entry (snd e) \<Longrightarrow> k \<le> 4 \<Longrightarrow> carries m k (encode_request_entry e) decode_request_entry e"
  unfolding encode_request_entry_def decode_request_entry_def valid_request_entry_def
  by (cases e, cases "snd e") (rule codec_rules | simp add: request_kind_back reason_known_def)+

lemma carries_targets:
  assumes "all_entries (\<lambda>k v. tr_name v = k \<and> \<not> name_empty k \<and> valid_target_record v) mp"
    and "omap_size mp \<le> ceiling" "m < 32" "k \<le> 4"
  shows "carries m k (encode_map (\<lambda>e. encode_target_record (snd e)) mp)
    (decode_map ceiling why (checked_entry (\<lambda>t. name_empty (tr_name t)) tr_name decode_target_record)) mp"
proof (rule carries_omap [OF _ assms(2-4)])
  fix e
  assume "e \<in> set (entries mp)"
  then have "tr_name (snd e) = fst e \<and> \<not> name_empty (fst e) \<and> valid_target_record (snd e)"
    by (rule all_entriesD [OF assms(1)])
  then have "carries (Suc m) 1 (encode_target_record (snd e))
      (checked_entry (\<lambda>t. name_empty (tr_name t)) tr_name decode_target_record) (fst e, snd e)"
    by (intro carries_checked_entry carries_target_record) simp_all
  then show "carries (Suc m) 1 (encode_target_record (snd e))
      (checked_entry (\<lambda>t. name_empty (tr_name t)) tr_name decode_target_record) e" by simp
qed

lemma carries_failures:
  assumes "all_entries (\<lambda>k v. fe_id v = k \<and> \<not> is_nil k \<and> valid_failure_evidence v) mp"
    and "omap_size mp \<le> ceiling" "m < 32" "k \<le> 4"
  shows "carries m k (encode_map (\<lambda>e. encode_failure_evidence (snd e)) mp)
    (decode_ordered_map ceiling why (checked_entry (\<lambda>e. is_nil (fe_id e)) fe_id decode_failure_evidence)) (mp, omap_keys mp)"
proof (rule carries_ordered [OF _ assms(2-4)])
  fix e
  assume "e \<in> set (entries mp)"
  then have "fe_id (snd e) = fst e \<and> \<not> is_nil (fst e) \<and> valid_failure_evidence (snd e)"
    by (rule all_entriesD [OF assms(1)])
  then have "carries (Suc m) 1 (encode_failure_evidence (snd e))
      (checked_entry (\<lambda>e. is_nil (fe_id e)) fe_id decode_failure_evidence) (fst e, snd e)"
    by (intro carries_checked_entry carries_failure_evidence) simp_all
  then show "carries (Suc m) 1 (encode_failure_evidence (snd e))
      (checked_entry (\<lambda>e. is_nil (fe_id e)) fe_id decode_failure_evidence) e" by simp
qed

lemma carries_fences:
  assumes "all_entries (\<lambda>k v. fr_service v = k \<and> valid_fence_record v) mp"
    and "omap_size mp \<le> ceiling" "m < 32" "k \<le> 4"
  shows "carries m k (encode_map (\<lambda>e. encode_fence_record (snd e)) mp)
    (decode_map ceiling why (checked_entry (\<lambda>f. False) fr_service decode_fence_record)) mp"
proof (rule carries_omap [OF _ assms(2-4)])
  fix e
  assume "e \<in> set (entries mp)"
  then have "fr_service (snd e) = fst e \<and> valid_fence_record (snd e)"
    by (rule all_entriesD [OF assms(1)])
  then have "carries (Suc m) 1 (encode_fence_record (snd e))
      (checked_entry (\<lambda>f. False) fr_service decode_fence_record) (fst e, snd e)"
    by (intro carries_checked_entry carries_fence_record) simp_all
  then show "carries (Suc m) 1 (encode_fence_record (snd e))
      (checked_entry (\<lambda>f. False) fr_service decode_fence_record) e" by simp
qed

lemma carries_state_maps:
  assumes "valid_registry config s" "valid_evidence config s" "m < 30"
  shows "carries m 0 (seq
    [encode_map (\<lambda>e. encode_target_record (snd e)) (st_targets s),
     encode_map encode_capability_slot (st_capabilities s),
     encode_map (\<lambda>e. seq [encode_name (fst e), encode_service_runtime (snd e)]) (st_services s),
     encode_map (\<lambda>e. seq [encode_name (fst e), encode_map encode_dependency_slot (snd e)]) (st_dependencies s),
     encode_map (\<lambda>e. encode_failure_evidence (snd e)) (st_failures s),
     encode_map (\<lambda>e. encode_fence_record (snd e)) (st_fences s),
     encode_map (\<lambda>e. seq [encode_name (wk_service (fst e)), encode_name (wk_target (fst e)),
       encode_witness (snd e)]) (st_witnesses s),
     encode_map (\<lambda>e. seq [encode_name (fst e), put_enum kSourceRoles (snd e)]) (st_sources s),
     encode_map (\<lambda>e. seq [encode_name (fst e), encode_gen (sw_sequence (snd e)), encode_digest (sw_digest (snd e)),
       encode_tick (sw_tick (snd e))]) (st_watermarks s),
     encode_map encode_request_entry (st_request_cache s),
     encode_stats (st_stats s)]) (decode_state_maps config s0)
   (s0\<lparr>st_targets := st_targets s, st_capabilities := st_capabilities s, st_services := st_services s,
      st_dependencies := st_dependencies s, st_failures := st_failures s,
      st_failure_order := omap_keys (st_failures s), st_fences := st_fences s, st_witnesses := st_witnesses s,
      st_sources := st_sources s, st_watermarks := st_watermarks s, st_request_cache := st_request_cache s,
      st_request_order := omap_keys (st_request_cache s), st_stats := st_stats s\<rparr>)"
proof -
  note v = assms(1) [unfolded valid_registry_def] assms(2) [unfolded valid_evidence_def]
  have m: "m < 32" "Suc m < 31" using assms(3) by simp_all
  have targets: "carries m 0 (encode_map (\<lambda>e. encode_target_record (snd e)) (st_targets s))
      (decode_map (cf_max_targets config) R_RegistryCapacityExceeded
        (checked_entry (\<lambda>t. name_empty (tr_name t)) tr_name decode_target_record)) (st_targets s)"
    using v m by (intro carries_targets) simp_all
  have capabilities: "carries m 0 (encode_map encode_capability_slot (st_capabilities s))
      (decode_map (cf_max_targets config) R_RegistryCapacityExceeded decode_capability_slot) (st_capabilities s)"
    using v m by (intro carries_omap carries_capability_slot) (auto dest: all_entriesD)
  have services: "carries m 0 (encode_map (\<lambda>e. seq [encode_name (fst e), encode_service_runtime (snd e)]) (st_services s))
      (decode_map (cf_max_services config) R_RegistryCapacityExceeded (decode_service_entry config)) (st_services s)"
    using v m by (intro carries_omap carries_service_entry) (auto dest: all_entriesD)
  have dependencies: "carries m 0
      (encode_map (\<lambda>e. seq [encode_name (fst e), encode_map encode_dependency_slot (snd e)]) (st_dependencies s))
      (decode_dependencies config) (st_dependencies s)"
    using v m by (intro carries_dependencies) simp_all
  have failures: "carries m 0 (encode_map (\<lambda>e. encode_failure_evidence (snd e)) (st_failures s))
      (decode_ordered_map (cf_max_evidence_records config) R_EvidenceCapacityExceeded
        (checked_entry (\<lambda>e. is_nil (fe_id e)) fe_id decode_failure_evidence)) (st_failures s, omap_keys (st_failures s))"
    using v m by (intro carries_failures) simp_all
  have fences: "carries m 0 (encode_map (\<lambda>e. encode_fence_record (snd e)) (st_fences s))
      (decode_map (cf_max_services config) R_RegistryCapacityExceeded
        (checked_entry (\<lambda>f. False) fr_service decode_fence_record)) (st_fences s)"
    using v m by (intro carries_fences) simp_all
  have witnesses: "carries m 0 (encode_map (\<lambda>e. seq [encode_name (wk_service (fst e)), encode_name (wk_target (fst e)),
       encode_witness (snd e)]) (st_witnesses s))
      (decode_map (witness_ceiling config) R_RegistryCapacityExceeded decode_witness_entry) (st_witnesses s)"
    using v m by (intro carries_omap carries_witness_entry) (auto dest: all_entriesD)
  have sources: "carries m 0 (encode_map (\<lambda>e. seq [encode_name (fst e), put_enum kSourceRoles (snd e)]) (st_sources s))
      (decode_map (cf_max_sources config) R_RegistryCapacityExceeded decode_source_entry) (st_sources s)"
    using v m by (intro carries_omap carries_source_entry) (auto dest: all_entriesD)
  have watermarks: "carries m 0 (encode_map (\<lambda>e. seq [encode_name (fst e), encode_gen (sw_sequence (snd e)),
       encode_digest (sw_digest (snd e)), encode_tick (sw_tick (snd e))]) (st_watermarks s))
      (decode_map (cf_max_sources config) R_RegistryCapacityExceeded decode_watermark_entry) (st_watermarks s)"
    using v m by (intro carries_omap carries_watermark_entry) (auto dest: all_entriesD)
  have cache: "carries m 0 (encode_map encode_request_entry (st_request_cache s))
      (decode_ordered_map (cf_max_request_cache config) R_RegistryCapacityExceeded decode_request_entry)
      (st_request_cache s, omap_keys (st_request_cache s))"
    using v m by (intro carries_ordered carries_request_entry) (auto dest: all_entriesD)
  show ?thesis
    unfolding decode_state_maps_def
    by (rule carries_Cons targets capabilities services dependencies failures fences witnesses sources watermarks
        cache carries_stats carries_end | simp)+
qed

lemma carries_state:
  assumes v: "valid_state config s" and m: "m < 30"
  shows "carries m 0 (encode_state s) (decode_state config) (forget_orders s)"
proof -
  define s0 where "s0 = default_state\<lparr>st_epoch := st_epoch s, st_boot := st_boot s, st_tick := st_tick s,
      st_topology_generation := st_topology_generation s, st_policy_generation := st_policy_generation s,
      st_policy := st_policy s, st_next_evidence_id := st_next_evidence_id s, st_next_attempt_id := st_next_attempt_id s,
      st_next_lease_id := st_next_lease_id s, st_next_plan_id := st_next_plan_id s\<rparr>"
  have head: "carries m 0 (seq
      [put_u16 kCanonicalSchemaVersion,
       put_u64 (gen_value (st_epoch s)), put_u64 (gen_value (st_boot s)), put_u64 (tick_value (st_tick s)),
       put_u64 (gen_value (st_topology_generation s)), put_u64 (gen_value (st_policy_generation s)),
       put_u64 (st_next_evidence_id s), put_u64 (st_next_attempt_id s), put_u64 (st_next_lease_id s),
       put_u64 (st_next_plan_id s), encode_policy_descriptor (st_policy s)]) decode_state_head s0"
    using v unfolding decode_state_head_def valid_state_def s0_def by - (rule codec_rules | simp)+
  have "valid_registry config s" "valid_evidence config s" using v by (simp_all add: valid_state_def)
  note maps = carries_state_maps [OF this m, of s0]
  have "carries m 0 (seq [seq
      [put_u16 kCanonicalSchemaVersion,
       put_u64 (gen_value (st_epoch s)), put_u64 (gen_value (st_boot s)), put_u64 (tick_value (st_tick s)),
       put_u64 (gen_value (st_topology_generation s)), put_u64 (gen_value (st_policy_generation s)),
       put_u64 (st_next_evidence_id s), put_u64 (st_next_attempt_id s), put_u64 (st_next_lease_id s),
       put_u64 (st_next_plan_id s), encode_policy_descriptor (st_policy s)], encode_state_maps s])
    (decode_state config) (forget_orders s)"
    unfolding decode_state_def
  proof (rule carries_Cons [OF head])
    have "s0\<lparr>st_targets := st_targets s, st_capabilities := st_capabilities s, st_services := st_services s,
      st_dependencies := st_dependencies s, st_failures := st_failures s,
      st_failure_order := omap_keys (st_failures s), st_fences := st_fences s, st_witnesses := st_witnesses s,
      st_sources := st_sources s, st_watermarks := st_watermarks s, st_request_cache := st_request_cache s,
      st_request_order := omap_keys (st_request_cache s), st_stats := st_stats s\<rparr> = forget_orders s"
      by (simp add: s0_def forget_orders_def default_state_def)
    with maps show "carries m 0 (seq [encode_state_maps s]) (decode_state_maps config s0) (forget_orders s)"
      by (simp add: seq_single encode_state_maps_def)
  qed
  moreover have "encode_state s = seq [seq
      [put_u16 kCanonicalSchemaVersion,
       put_u64 (gen_value (st_epoch s)), put_u64 (gen_value (st_boot s)), put_u64 (tick_value (st_tick s)),
       put_u64 (gen_value (st_topology_generation s)), put_u64 (gen_value (st_policy_generation s)),
       put_u64 (st_next_evidence_id s), put_u64 (st_next_attempt_id s), put_u64 (st_next_lease_id s),
       put_u64 (st_next_plan_id s), encode_policy_descriptor (st_policy s)], encode_state_maps s]"
    by (rule ext) (simp add: encode_state_def seq_simps)
  ultimately show ?thesis by simp
qed

lemma stable_split: "(\<And>a b. stable (f a b)) \<Longrightarrow> stable (case p of (a, b) \<Rightarrow> f a b)"
  by (simp add: split_beta)

lemma stable_map [codec_rules]: "stable d \<Longrightarrow> stable (decode_map ceiling why d)"
  unfolding decode_map_def insert_new_def by (intro codec_rules stable_split)

lemma stable_ordered_map [codec_rules]: "stable d \<Longrightarrow> stable (decode_ordered_map ceiling why d)"
  unfolding decode_ordered_map_def insert_ordered_def by (intro codec_rules stable_split)

lemma stable_fields: "stable (decode_fields fs s)"
  by (induction fs s rule: decode_fields.induct) (auto intro: codec_rules)

lemma stable_state: "stable (decode_state config)"
  unfolding decode_state_def decode_state_head_def decode_state_maps_def decode_dependencies_def insert_new_def
    checked_entry_def decode_capability_slot_def decode_service_entry_def decode_dependency_slot_def
    decode_witness_entry_def decode_source_entry_def decode_watermark_entry_def decode_request_entry_def
    decode_stats_def decode_gen_u64_def decode_id_u64_def decode_tick_u64_def
  by (intro codec_rules stable_split stable_fields)

subsection \<open>Encodings that succeed\<close>

text \<open>An encoder that writes at most \<open>n\<close> bytes succeeds when they are left.\<close>

definition within :: "nat \<Rightarrow> (writer \<Rightarrow> writer) \<Rightarrow> bool" where
  "within n f \<longleftrightarrow> (\<forall>w. \<not> wr_failed w \<and> wr_limits w = default_limits \<and> length (wr_buffer w) + n \<le> 268435456 \<longrightarrow>
    \<not> wr_failed (f w) \<and> wr_limits (f w) = default_limits \<and> length (wr_buffer (f w)) \<le> length (wr_buffer w) + n)"

lemma ceiling_default: "wr_limits w = default_limits \<Longrightarrow> writer_ceiling w = 268435456"
  by (simp add: writer_ceiling_def kAbsoluteMaxTotalBytes_def default_limits_def)

lemma within_reserved: "within (length bs) (reserved (length bs) (append_bytes bs))"
  by (simp add: within_def reserved_eq ceiling_default)

lemma within_words:
  "within 1 (put_u8 a)" "within 2 (put_u16 b)" "within 4 (put_u32 c)" "within 8 (put_u64 d)" "within 1 (put_bool e)"
  "within 1 put_presence" "within 1 put_absence"
  unfolding put_bool_def put_presence_def put_absence_def put_reserved
  using within_reserved [of "[_]"] within_reserved [of "be_bytes [8, 0] b"]
    within_reserved [of "be_bytes [24, 16, 8, 0] c"] within_reserved [of "be_bytes [56, 48, 40, 32, 24, 16, 8, 0] d"]
  by (simp_all add: eval_nat_numeral)

lemma within_text: "length t \<le> 4096 \<Longrightarrow> within (4 + length t) (put_text t)"
proof -
  assume t: "length t \<le> 4096"
  then have "put_text t w = reserved (length (prefixed (text_bytes t))) (append_bytes (prefixed (text_bytes t))) w"
    if "wr_limits w = default_limits" for w
    using that by (simp add: put_text_prefixed put_prefixed_def narrow_nat text_bytes_def default_limits_def
        reserved_prefixed [of "map of_char t", simplified])
  with within_reserved [of "prefixed (text_bytes t)"] show ?thesis
    by (simp add: within_def text_bytes_def)
qed

lemma within_Nil: "within 0 (seq [])"
  by (simp add: within_def seq_simps)

lemma within_Cons: "within m f \<Longrightarrow> within n (seq fs) \<Longrightarrow> within (m + n) (seq (f # fs))"
  by (fastforce simp: within_def seq_simps)

lemma within_le: "within n f \<Longrightarrow> n \<le> m \<Longrightarrow> within m f"
  by (fastforce simp: within_def)

lemma within_skip: "within 0 (\<lambda>w. w)"
  by (simp add: within_def)

lemma within_counted: "k \<le> 1048576 \<Longrightarrow> within n f \<Longrightarrow> within (4 + n) (encode_counted k f)"
proof -
  assume k: "k \<le> 1048576" and f: "within n f"
  have eq: "encode_counted k f w = seq [put_u32 (of_nat k), f] w"
    if "\<not> wr_failed w" "wr_limits w = default_limits" "length (wr_buffer w) + 4 \<le> 268435456" for w
    using that k by (simp add: encode_counted_def put_count_def default_limits_def narrow_nat Let_def seq_simps
        put_u32_reserved reserved_eq writer_ceiling_def kAbsoluteMaxTotalBytes_def)
  from within_Cons [OF within_words(3) within_Cons [OF f within_Nil]]
  have "within (4 + n) (seq [put_u32 (of_nat k), f])" by simp
  with eq show ?thesis by (simp add: within_def)
qed

lemma within_enum: "within 1 (encode_enum table v)"
  unfolding encode_enum_def using within_words(1) by (auto simp del: One_nat_def)

lemma within_map: "omap_size m \<le> 1048576 \<Longrightarrow> within n (seq (map enc (entries m))) \<Longrightarrow> within (4 + n) (encode_map enc m)"
  unfolding encode_map_def by (rule within_counted)

lemma within_list: "length xs \<le> 1048576 \<Longrightarrow> within n (seq (map enc xs)) \<Longrightarrow> within (4 + n) (encode_list enc xs)"
  unfolding encode_list_def by (rule within_counted)

lemmas within_rules = within_words within_enum within_skip within_text within_Nil within_Cons within_map within_list

lemma within_encoded: "within n f \<Longrightarrow> n \<le> 268435456 \<Longrightarrow> encoded f \<noteq> None"
  unfolding within_def encoded_def Let_def by (auto dest: spec [of _ new_writer])

subsection \<open>Properties\<close>

text \<open>C37: The snapshot of a state within the configured bounds is read back: the decoder accepts exactly the bytes of the encoder and gives the state, with the arrival orders of the evidence and of the request cache replaced by the key order and without the latest failure of each service, which the snapshot does not hold.\<close>

theorem snapshot_roundtrip:
  assumes "valid_state config s" "encoded (encode_state s) = Some bs"
  shows "complete_decode (decode_state config) bs = Some (forget_orders s)"
  using carries_state [OF assms(1), of 0] assms(2) by (simp add: complete_decode_encoded)

lemma default_state_valid: "valid_state default_fabric_config default_state"
  by (simp add: valid_state_def valid_registry_def valid_evidence_def default_state_def all_entries_def
      valid_policy_descriptor_def default_policy_descriptor_def canonical_name_def)

lemma default_state_simps [simp]:
  "st_targets default_state = omap_empty" "st_capabilities default_state = omap_empty"
  "st_services default_state = omap_empty" "st_dependencies default_state = omap_empty"
  "st_failures default_state = omap_empty" "st_fences default_state = omap_empty"
  "st_witnesses default_state = omap_empty" "st_sources default_state = omap_empty"
  "st_watermarks default_state = omap_empty" "st_request_cache default_state = omap_empty"
  "st_policy default_state = default_policy_descriptor" "pd_scope default_policy_descriptor = empty_name"
  by (simp_all add: default_state_def default_policy_descriptor_def)

lemma default_state_encodes: "encoded (encode_state default_state) \<noteq> None"
proof (rule within_encoded)
  show "within 1000 (encode_state default_state)"
    unfolding encode_state_def encode_state_maps_def encode_policy_descriptor_def encode_name_def
      encode_gen_def encode_stats_def stats_fields_def
    by (rule within_le, (rule within_rules | simp)+)
qed simp

theorem snapshot_roundtrip_witness:
  "\<exists>bs. encoded (encode_state default_state) = Some bs \<and>
    complete_decode (decode_state default_fabric_config) bs = Some (forget_orders default_state)"
  using snapshot_roundtrip [OF default_state_valid] default_state_encodes by auto

text \<open>A truncated snapshot is refused: no proper prefix of the encoding of a valid state is accepted by the decoder.\<close>

theorem snapshot_truncation_refused:
  assumes "valid_state config s" "encoded (encode_state s) = Some (bs @ post)" "post \<noteq> []"
  shows "complete_decode (decode_state config) bs = None"
proof (rule ccontr)
  assume "complete_decode (decode_state config) bs \<noteq> None"
  then obtain y where "complete_decode (decode_state config) bs = Some y" by blast
  moreover have "carries 0 0 (encode_state s) (decode_state config) (forget_orders s)"
    using assms(1) by (rule carries_state) simp
  then have "complete_decode (decode_state config) (bs @ post) = Some (forget_orders s)" "length (bs @ post) \<le> 268435456"
    using assms(2) by (blast intro: complete_decode_encoded encoded_length carries_appender)+
  ultimately have "post = []" using complete_decode_no_prefix [OF stable_state] by blast
  with assms(3) show False by contradiction
qed

theorem snapshot_truncation_refused_witness:
  "\<exists>bs post. encoded (encode_state default_state) = Some (bs @ post) \<and> post \<noteq> [] \<and>
    complete_decode (decode_state default_fabric_config) bs = None"
proof -
  obtain whole where whole: "encoded (encode_state default_state) = Some whole"
    using default_state_encodes by auto
  have "complete_decode (decode_state default_fabric_config) [] = None"
    by (simp add: complete_decode_def decode_state_def decode_state_head_def dbind_def get_u16_def take_bytes_def
        need_def new_reader_def dfail_def reader_fail_def Let_def)
  then have "whole \<noteq> []"
    using snapshot_roundtrip [OF default_state_valid whole] by auto
  then obtain b where "whole = butlast whole @ [b]" by (metis append_butlast_last_id)
  with whole snapshot_truncation_refused [OF default_state_valid, of "butlast whole" "[b]"] show ?thesis
    by (metis list.distinct(1))
qed

text \<open>C38: The change of one service runtime that the journal records is read back from its payload, and no proper prefix of the payload is accepted.\<close>

theorem runtime_change_roundtrip:
  assumes "valid_runtime_change config c" "encoded (encode_runtime_change c) = Some (bs @ post)"
  shows "complete_decode (decode_runtime_change config) bs = (if post = [] then Some c else None)"
  using assms runtime_change_codec.roundtrip [of config c bs] runtime_change_codec.truncation_refused [of config c bs post]
  by (cases "post = []") simp_all

definition small_change :: runtime_change where
  "small_change = \<lparr>rx_service = Name ''svc'', rx_runtime = default_service_runtime, rx_fence = default_fence_record,
    rx_has_fence = False, rx_witnesses = []\<rparr>"

lemma small_change_valid: "valid_runtime_change default_fabric_config small_change"
proof -
  have "canonical_name (Name ''svc'')" "reason_known R_Ok" by code_simp+
  then show ?thesis
    by (simp add: valid_runtime_change_def small_change_def valid_service_runtime_def default_service_runtime_def
      valid_service_descriptor_def default_service_descriptor_def canonical_name_def valid_capability_set_def
      valid_precondition_set_def default_capability_set_def default_precondition_set_def)
qed

lemma small_change_encodes: "encoded (encode_runtime_change small_change) \<noteq> None"
proof (rule within_encoded)
  show "within 1000 (encode_runtime_change small_change)"
    unfolding encode_runtime_change_def encode_service_runtime_def small_change_def default_service_runtime_def
      default_service_descriptor_def encode_service_descriptor_def encode_name_def encode_gen_def encode_flags_def
      encode_optional_def encode_attempt_history_def put_enum_def encode_capability_set_def
      encode_precondition_set_def
    by (rule within_le, (rule within_rules | simp)+)
qed simp

theorem runtime_change_roundtrip_witness:
  "\<exists>bs. encoded (encode_runtime_change small_change) = Some bs \<and>
    complete_decode (decode_runtime_change default_fabric_config) bs = Some small_change"
  using runtime_change_roundtrip [OF small_change_valid, of _ "[]"] small_change_encodes by auto

end
