(* ===== verification/Texts.thy ===== *)
theory Texts
  imports Prelude
begin

text \<open>
  The detail sentences of the explanation steps, one constant per sentence of src/src/fabric.cpp.
  They stay folded in every proof, so a step of an explanation is a small term.
\<close>

definition txt_a_service_cannot_depend_on_itself :: string where
  "txt_a_service_cannot_depend_on_itself = ''a service cannot depend on itself''"

definition txt_ambiguous_failure_evidence_accepted :: string where
  "txt_ambiguous_failure_evidence_accepted = ''ambiguous failure evidence accepted''"

definition txt_ambiguous_failure_evidence_recorded_recovery_is :: string where
  "txt_ambiguous_failure_evidence_recorded_recovery_is = ''ambiguous failure evidence recorded; recovery is blocked until resolved''"

definition txt_candidate_set_ordered_canonically_then_truncated :: string where
  "txt_candidate_set_ordered_canonically_then_truncated = ''candidate set ordered canonically then truncated at the configured ceiling''"

definition txt_capability_content_digest_does_not_match_the :: string where
  "txt_capability_content_digest_does_not_match_the = ''capability content digest does not match the asserted content''"

definition txt_capability_evidence_accepted :: string where
  "txt_capability_evidence_accepted = ''capability evidence accepted''"

definition txt_capability_evidence_names_a_different_target :: string where
  "txt_capability_evidence_names_a_different_target = ''capability evidence names a different target incarnation''"

definition txt_capability_evidence_was_observed_under_a :: string where
  "txt_capability_evidence_was_observed_under_a = ''capability evidence was observed under a different topology generation''"

definition txt_capability_generation_already_recorded :: string where
  "txt_capability_generation_already_recorded = ''capability generation already recorded''"

definition txt_capability_generation_is_older_than_the_retained :: string where
  "txt_capability_generation_is_older_than_the_retained = ''capability generation is older than the retained one''"

definition txt_capability_generation_reused_with_different :: string where
  "txt_capability_generation_reused_with_different = ''capability generation reused with different content''"

definition txt_compaction_after_commit_failed :: string where
  "txt_compaction_after_commit_failed = ''compaction after commit failed''"

definition txt_compaction_failed :: string where
  "txt_compaction_failed = ''compaction failed''"

definition txt_dependency_already_visited_traversal_stopped_on :: string where
  "txt_dependency_already_visited_traversal_stopped_on = ''dependency already visited; traversal stopped on the cycle edge''"

definition txt_dependency_observation_accepted :: string where
  "txt_dependency_observation_accepted = ''dependency observation accepted''"

definition txt_dependency_satisfied :: string where
  "txt_dependency_satisfied = ''dependency satisfied''"

definition txt_dependency_service_is_not_registered :: string where
  "txt_dependency_service_is_not_registered = ''dependency service is not registered''"

definition txt_dependency_traversal_stopped_at_the_policy_depth :: string where
  "txt_dependency_traversal_stopped_at_the_policy_depth = ''dependency traversal stopped at the policy depth ceiling''"

definition txt_descriptor_encoding_exceeded_the_configured :: string where
  "txt_descriptor_encoding_exceeded_the_configured = ''descriptor encoding exceeded the configured ceiling''"

definition txt_durable_commit_failed :: string where
  "txt_durable_commit_failed = ''durable commit failed''"

definition txt_evidence_cites_a_capability_generation_newer_than :: string where
  "txt_evidence_cites_a_capability_generation_newer_than = ''evidence cites a capability generation newer than the recorded one''"

definition txt_evidence_cites_a_policy_generation_newer_than_the :: string where
  "txt_evidence_cites_a_policy_generation_newer_than_the = ''evidence cites a policy generation newer than the current one''"

definition txt_evidence_content_digest_does_not_match_the :: string where
  "txt_evidence_content_digest_does_not_match_the = ''evidence content digest does not match the asserted content''"

definition txt_evidence_does_not_name_the_current_active :: string where
  "txt_evidence_does_not_name_the_current_active = ''evidence does not name the current active placement''"

definition txt_evidence_identifier_already_retained :: string where
  "txt_evidence_identifier_already_retained = ''evidence identifier already retained''"

definition txt_evidence_identifier_reused_with_different_content :: string where
  "txt_evidence_identifier_reused_with_different_content = ''evidence identifier reused with different content''"

definition txt_evidence_identifier_space_exhausted :: string where
  "txt_evidence_identifier_space_exhausted = ''evidence identifier space exhausted''"

definition txt_evidence_names_an_incarnation_of_zero :: string where
  "txt_evidence_names_an_incarnation_of_zero = ''evidence names an incarnation of zero''"

definition txt_evidence_sequence_already_applied :: string where
  "txt_evidence_sequence_already_applied = ''evidence sequence already applied''"

definition txt_evidence_sequence_is_older_than_the_recorded :: string where
  "txt_evidence_sequence_is_older_than_the_recorded = ''evidence sequence is older than the recorded watermark''"

definition txt_evidence_sequence_reused_with_different_content :: string where
  "txt_evidence_sequence_reused_with_different_content = ''evidence sequence reused with different content''"

definition txt_evidence_sequence_zero_never_names_a_delivered :: string where
  "txt_evidence_sequence_zero_never_names_a_delivered = ''evidence sequence zero never names a delivered observation''"

definition txt_evidence_was_observed_under_a_different_topology :: string where
  "txt_evidence_was_observed_under_a_different_topology = ''evidence was observed under a different topology generation''"

definition txt_evidence_was_produced_during_a_previous_boot :: string where
  "txt_evidence_was_produced_during_a_previous_boot = ''evidence was produced during a previous boot''"

definition txt_evidence_was_produced_under_a_previous :: string where
  "txt_evidence_was_produced_under_a_previous = ''evidence was produced under a previous coordinator epoch''"

definition txt_failure_evidence_accepted :: string where
  "txt_failure_evidence_accepted = ''failure evidence accepted''"

definition txt_failure_evidence_qualified :: string where
  "txt_failure_evidence_qualified = ''failure evidence qualified''"

definition txt_fallback_candidate_rejected :: string where
  "txt_fallback_candidate_rejected = ''fallback candidate rejected''"

definition txt_fallback_capability_is_supported_current_and :: string where
  "txt_fallback_capability_is_supported_current_and = ''fallback capability is supported, current and compatible''"

definition txt_fallback_capability_set_covers_the_required_set :: string where
  "txt_fallback_capability_set_covers_the_required_set = ''fallback capability set covers the required set''"

definition txt_governed_failover_intent_emitted :: string where
  "txt_governed_failover_intent_emitted = ''governed failover intent emitted''"

definition txt_hard_dependency :: string where
  "txt_hard_dependency = ''hard dependency''"

definition txt_incarnation_may_not_move_backwards :: string where
  "txt_incarnation_may_not_move_backwards = ''incarnation may not move backwards''"

definition txt_incarnation_zero_never_names_an_adopted_target :: string where
  "txt_incarnation_zero_never_names_an_adopted_target = ''incarnation zero never names an adopted target''"

definition txt_lease_term_transferred :: string where
  "txt_lease_term_transferred = ''lease term transferred''"

definition txt_logical_tick_exhausted :: string where
  "txt_logical_tick_exhausted = ''logical tick exhausted''"

definition txt_observation_content_digest_does_not_match_the :: string where
  "txt_observation_content_digest_does_not_match_the = ''observation content digest does not match the asserted content''"

definition txt_observation_sequence_already_applied :: string where
  "txt_observation_sequence_already_applied = ''observation sequence already applied''"

definition txt_observation_sequence_is_older_than_the_recorded :: string where
  "txt_observation_sequence_is_older_than_the_recorded = ''observation sequence is older than the recorded watermark''"

definition txt_observation_sequence_reused_with_different :: string where
  "txt_observation_sequence_reused_with_different = ''observation sequence reused with different content''"

definition txt_observation_sequence_zero_never_names_a_delivered :: string where
  "txt_observation_sequence_zero_never_names_a_delivered = ''observation sequence zero never names a delivered observation''"

definition txt_observation_was_made_under_a_different_topology :: string where
  "txt_observation_was_made_under_a_different_topology = ''observation was made under a different topology generation''"

definition txt_observation_was_produced_during_a_previous_boot :: string where
  "txt_observation_was_produced_during_a_previous_boot = ''observation was produced during a previous boot''"

definition txt_observation_was_produced_under_a_previous :: string where
  "txt_observation_was_produced_under_a_previous = ''observation was produced under a previous coordinator epoch''"

definition txt_policy_already_current :: string where
  "txt_policy_already_current = ''policy already current''"

definition txt_policy_contains_a_zero_budget_that_would_forbid :: string where
  "txt_policy_contains_a_zero_budget_that_would_forbid = ''policy contains a zero budget that would forbid all progress''"

definition txt_policy_generation_advanced :: string where
  "txt_policy_generation_advanced = ''policy generation advanced''"

definition txt_policy_generation_may_not_move_backwards :: string where
  "txt_policy_generation_may_not_move_backwards = ''policy generation may not move backwards''"

definition txt_policy_redefined_at_the_same_generation :: string where
  "txt_policy_redefined_at_the_same_generation = ''policy redefined at the same generation''"

definition txt_previous_target_fenced_out_at_the_new_durable :: string where
  "txt_previous_target_fenced_out_at_the_new_durable = ''previous target fenced out at the new durable token''"

definition txt_re_issuing_the_persisted_attempt_under_the_new :: string where
  "txt_re_issuing_the_persisted_attempt_under_the_new = ''re-issuing the persisted attempt under the new epoch with the same fence''"

definition txt_registrar_is_not_an_enrolled_topology_reporter :: string where
  "txt_registrar_is_not_an_enrolled_topology_reporter = ''registrar is not an enrolled topology reporter''"

definition txt_reporter_is_not_an_enrolled_topology_reporter :: string where
  "txt_reporter_is_not_an_enrolled_topology_reporter = ''reporter is not an enrolled topology reporter''"

definition txt_request_key_already_decided :: string where
  "txt_request_key_already_decided = ''request key already decided''"

definition txt_required_recovery_steps_exceed_the_policy_ceiling :: string where
  "txt_required_recovery_steps_exceed_the_policy_ceiling = ''required recovery steps exceed the policy ceiling''"

definition txt_retiring_a_target_requires_an_enrolled_topology :: string where
  "txt_retiring_a_target_requires_an_enrolled_topology = ''retiring a target requires an enrolled topology reporter''"

definition txt_runtime_is_not_open :: string where
  "txt_runtime_is_not_open = ''runtime is not open''"

definition txt_service_already_registered_with_a_different :: string where
  "txt_service_already_registered_with_a_different = ''service already registered with a different descriptor''"

definition txt_service_already_registered_with_an_identical :: string where
  "txt_service_already_registered_with_an_identical = ''service already registered with an identical descriptor''"

definition txt_service_already_withdrawn :: string where
  "txt_service_already_withdrawn = ''service already withdrawn''"

definition txt_service_descriptor_is_not_usable :: string where
  "txt_service_descriptor_is_not_usable = ''service descriptor is not usable''"

definition txt_service_is_not_registered :: string where
  "txt_service_is_not_registered = ''service is not registered''"

definition txt_service_registered :: string where
  "txt_service_registered = ''service registered''"

definition txt_service_registry_is_full :: string where
  "txt_service_registry_is_full = ''service registry is full''"

definition txt_service_withdrawn :: string where
  "txt_service_withdrawn = ''service withdrawn''"

definition txt_soft_dependency :: string where
  "txt_soft_dependency = ''soft dependency''"

definition txt_source_already_enrolled_with_a_different_role :: string where
  "txt_source_already_enrolled_with_a_different_role = ''source already enrolled with a different role''"

definition txt_source_already_enrolled_with_this_role :: string where
  "txt_source_already_enrolled_with_this_role = ''source already enrolled with this role''"

definition txt_source_enrolled :: string where
  "txt_source_enrolled = ''source enrolled''"

definition txt_source_is_not_an_enrolled_capability_reporter :: string where
  "txt_source_is_not_an_enrolled_capability_reporter = ''source is not an enrolled capability reporter''"

definition txt_source_is_not_an_enrolled_dependency_reporter :: string where
  "txt_source_is_not_an_enrolled_dependency_reporter = ''source is not an enrolled dependency reporter''"

definition txt_source_is_not_an_enrolled_failure_reporter :: string where
  "txt_source_is_not_an_enrolled_failure_reporter = ''source is not an enrolled failure reporter''"

definition txt_source_name_is_empty :: string where
  "txt_source_name_is_empty = ''source name is empty''"

definition txt_source_registry_is_full :: string where
  "txt_source_registry_is_full = ''source registry is full''"

definition txt_target_already_registered_at_this_incarnation :: string where
  "txt_target_already_registered_at_this_incarnation = ''target already registered at this incarnation''"

definition txt_target_identity_is_incomplete :: string where
  "txt_target_identity_is_incomplete = ''target identity is incomplete''"

definition txt_target_is_not_registered :: string where
  "txt_target_is_not_registered = ''target is not registered''"

definition txt_target_re_adopted_at_a_newer_incarnation :: string where
  "txt_target_re_adopted_at_a_newer_incarnation = ''target re-adopted at a newer incarnation''"

definition txt_target_redefined_at_the_same_incarnation :: string where
  "txt_target_redefined_at_the_same_incarnation = ''target redefined at the same incarnation''"

definition txt_target_registered :: string where
  "txt_target_registered = ''target registered''"

definition txt_target_registry_is_full :: string where
  "txt_target_registry_is_full = ''target registry is full''"

definition txt_target_removed_from_the_governed_topology_any :: string where
  "txt_target_removed_from_the_governed_topology_any = ''target removed from the governed topology; any placement on it is unchanged''"

definition txt_topology_generation_advanced_capability_evidence :: string where
  "txt_topology_generation_advanced_capability_evidence = ''topology generation advanced; capability evidence must be re-confirmed''"

definition txt_topology_generation_already_current :: string where
  "txt_topology_generation_already_current = ''topology generation already current''"

definition txt_topology_generation_may_not_move_backwards :: string where
  "txt_topology_generation_may_not_move_backwards = ''topology generation may not move backwards''"

definition txt_withdrawal_requires_an_enrolled_operator :: string where
  "txt_withdrawal_requires_an_enrolled_operator = ''withdrawal requires an enrolled operator''"

end
