(* ===== verification/Fabric_Core.thy ===== *)
theory Fabric_Core
  imports State_Codec Texts
begin

text \<open>
  The services that every operation of \<^verbatim>\<open>Fabric::Impl\<close> shares: counters and identifiers,
  lookups, fingerprints of evidence, persistence with rotation, explanations, the request cache and
  the replay of journal records. An operation is a function from the runtime to a result paired
  with the runtime after it.
\<close>

subsection \<open>Counters and identifiers\<close>

definition in_state :: "(state \<Rightarrow> state) \<Rightarrow> impl \<Rightarrow> impl" where
  "in_state f im = im\<lparr>im_state := f (im_state im)\<rparr>"

text \<open>\<^verbatim>\<open>state.stats.x = saturating_inc(state.stats.x)\<close>\<close>

definition bump :: "((u64 \<Rightarrow> u64) \<Rightarrow> fabric_stats \<Rightarrow> fabric_stats) \<Rightarrow> state \<Rightarrow> state" where
  "bump counter s = s\<lparr>st_stats := counter saturating_inc (st_stats s)\<rparr>"

definition peek_tick :: "impl \<Rightarrow> logical_tick option" where
  "peek_tick im = tick_successor (st_tick (im_state im))"

text \<open>Zero and the largest value are never handed out.\<close>

definition id_available :: "u64 \<Rightarrow> bool" where
  "id_available next \<longleftrightarrow> \<not> (next = 0 \<or> next = - 1)"

definition alloc_attempt_id :: "impl \<Rightarrow> attempt_id option \<times> impl" where
  "alloc_attempt_id im =
    (let next = st_next_attempt_id (im_state im)
     in if \<not> id_available next then (None, im)
        else (Some (Id next), in_state (\<lambda>s. s\<lparr>st_next_attempt_id := next + 1\<rparr>) im))"

definition alloc_lease_id :: "impl \<Rightarrow> lease_id option \<times> impl" where
  "alloc_lease_id im =
    (let next = st_next_lease_id (im_state im)
     in if \<not> id_available next then (None, im)
        else (Some (Id next), in_state (\<lambda>s. s\<lparr>st_next_lease_id := next + 1\<rparr>) im))"

definition alloc_plan_id :: "impl \<Rightarrow> plan_id option \<times> impl" where
  "alloc_plan_id im =
    (let next = st_next_plan_id (im_state im)
     in if \<not> id_available next then (None, im)
        else (Some (Id next), in_state (\<lambda>s. s\<lparr>st_next_plan_id := next + 1\<rparr>) im))"

subsection \<open>Lookups\<close>

definition role_of :: "impl \<Rightarrow> source_name \<Rightarrow> source_role option" where
  "role_of im source = omap_find (st_sources (im_state im)) source"

definition role_satisfies :: "impl \<Rightarrow> source_name \<Rightarrow> source_role \<Rightarrow> bool" where
  "role_satisfies im source required =
    (case role_of im source of None \<Rightarrow> False | Some role \<Rightarrow> role = required \<or> role = SourceRole_Operator)"

definition service_of :: "impl \<Rightarrow> service_name \<Rightarrow> service_runtime option" where
  "service_of im name = omap_find (st_services (im_state im)) name"

definition target_of :: "impl \<Rightarrow> target_name \<Rightarrow> target_record option" where
  "target_of im name = omap_find (st_targets (im_state im)) name"

definition capability_of :: "impl \<Rightarrow> target_name \<Rightarrow> capability_slot option" where
  "capability_of im name = omap_find (st_capabilities (im_state im)) name"

definition fence_token_of :: "impl \<Rightarrow> service_name \<Rightarrow> fence_token" where
  "fence_token_of im service =
    (case omap_find (st_fences (im_state im)) service of None \<Rightarrow> initial_gen | Some f \<Rightarrow> fr_token f)"

definition witness_of :: "impl \<Rightarrow> service_name \<Rightarrow> target_name \<Rightarrow> fence_witness option" where
  "witness_of im service target = omap_find (st_witnesses (im_state im)) (Witness_Key service target)"

definition failure_of :: "impl \<Rightarrow> evidence_id \<Rightarrow> failure_evidence option" where
  "failure_of im i = omap_find (st_failures (im_state im)) i"

definition latest_failure_of :: "impl \<Rightarrow> service_name \<Rightarrow> failure_evidence option" where
  "latest_failure_of im service =
    (case omap_find (st_latest_failure (im_state im)) service of
       None \<Rightarrow> None | Some i \<Rightarrow> if is_nil i then None else failure_of im i)"

subsection \<open>Fingerprints\<close>

definition capability_fingerprint :: "capability_evidence \<Rightarrow> digest" where
  "capability_fingerprint v = writer_digest (seq
    [encode_name (ce_target v), encode_gen (ce_generation v), encode_capability_set (ce_capabilities v),
     encode_gen (ce_topology_generation v), encode_target_incarnation (ce_incarnation v),
     encode_name (ce_source v)] new_writer)"

definition failure_fingerprint :: "failure_evidence \<Rightarrow> digest" where
  "failure_fingerprint v = writer_digest (seq
    [encode_name (fe_service v), encode_target_ref (fe_target v), put_enum kFailureClasses (fe_failure_class v),
     put_enum kAmbiguity (fe_ambiguity v), encode_name (pv_source (fe_provenance v)),
     encode_gen (pv_sequence (fe_provenance v)), encode_gen (fe_topology_generation v),
     encode_gen (fe_capability_generation v), encode_gen (fe_policy_generation v)] new_writer)"

definition dependency_fingerprint :: "dependency_observation \<Rightarrow> digest" where
  "dependency_fingerprint v = writer_digest (seq
    [encode_name (dob_service v), encode_name (dob_dependency v), put_enum kDependencyHealth (dob_health v),
     encode_target_ref (dob_observed_target v), encode_name (pv_source (dob_provenance v)),
     encode_gen (pv_sequence (dob_provenance v)), encode_gen (dob_topology_generation v)] new_writer)"

subsection \<open>Persistence\<close>

text \<open>The payload of a failed writer is empty.\<close>

definition make_record :: "record_kind \<Rightarrow> (writer \<Rightarrow> writer) \<Rightarrow> jrecord" where
  "make_record kind f = \<lparr>rc_kind = kind, rc_payload = wr_buffer (f new_writer)\<rparr>"

definition persist :: "jrecord list \<Rightarrow> impl \<Rightarrow> reason \<times> impl" where
  "persist records im =
    (case im_store im of
       None \<Rightarrow> (R_Ok, im)
     | Some st \<Rightarrow>
         (case commit_transaction records st (im_disk im) of ((code, st'), d') \<Rightarrow>
           let im1 = im\<lparr>im_store := Some st', im_disk := d'\<rparr> in
           if code \<noteq> R_Ok then (code, im1)
           else (R_Ok, in_state (bump sa_journal_transactions_update) im1)))"

definition maybe_compact :: "impl \<Rightarrow> reason \<times> impl" where
  "maybe_compact im =
    (case im_store im of
       None \<Rightarrow> (R_Ok, im)
     | Some st \<Rightarrow>
         (case encoded (encode_state (im_state im)) of
            None \<Rightarrow> (R_Oversized, im)
          | Some buffer \<Rightarrow>
              (case compact buffer st (im_disk im) of ((code, st'), d') \<Rightarrow>
                let im1 = im\<lparr>im_store := Some st', im_disk := d'\<rparr> in
                (code, if code = R_Ok then in_state (bump sa_journal_compactions_update) im1 else im1))))"

definition rotate_if_due :: "impl \<Rightarrow> reason \<times> impl" where
  "rotate_if_due im =
    (case im_store im of
       None \<Rightarrow> (R_Ok, im)
     | Some st \<Rightarrow> if \<not> rotation_due st then (R_Ok, im) else maybe_compact im)"

subsection \<open>Explanations\<close>

definition note_step :: "reason \<Rightarrow> string \<Rightarrow> string \<Rightarrow> u64 \<Rightarrow> explanation \<Rightarrow> explanation" where
  "note_step code subject detail value e = e\<lparr>ex_steps := ex_steps e @
    [\<lparr>es_code = code, es_subject = subject, es_detail = detail, es_value = value\<rparr>]\<rparr>"

definition record_explanation :: "explanation \<Rightarrow> impl \<Rightarrow> impl" where
  "record_explanation e im =
    (let im1 = in_state (bump sa_explanations_recorded_update) im;
         im2 = im1\<lparr>im_explanations := el_record e (im_explanations im1)\<rparr>
     in in_state (\<lambda>s. s\<lparr>st_stats := (st_stats s)\<lparr>sa_explanations_evicted := of_nat (el_evicted (im_explanations im2))\<rparr>\<rparr>) im2)"

definition begin_explanation :: "service_name \<Rightarrow> request_key \<Rightarrow> impl \<Rightarrow> explanation" where
  "begin_explanation service key im = default_explanation
    \<lparr>ex_service := service, ex_request := key, ex_tick := st_tick (im_state im), ex_epoch := st_epoch (im_state im),
     ex_policy_generation := st_policy_generation (im_state im),
     ex_topology_generation := st_topology_generation (im_state im), ex_fence := fence_token_of im service\<rparr>"

definition finish_ingest_explanation :: "explanation \<Rightarrow> impl \<Rightarrow> explanation \<times> impl" where
  "finish_ingest_explanation e im =
    (let e' = (if ex_outcome e = R_Ok then e\<lparr>ex_accepted := True\<rparr> else e) in (e', record_explanation e' im))"

subsection \<open>Request cache\<close>

definition cached :: "request_key \<Rightarrow> impl \<Rightarrow> request_cache_entry option" where
  "cached key im = (if is_nil key then None else omap_find (st_request_cache (im_state im)) key)"

text \<open>The oldest entries leave until there is room.\<close>

fun evict_requests :: "nat \<Rightarrow> request_key list \<Rightarrow> (request_key, request_cache_entry) omap \<Rightarrow>
    request_key list \<times> (request_key, request_cache_entry) omap" where
  "evict_requests bound [] cache = ([], cache)"
| "evict_requests bound (oldest # order) cache =
    (if omap_size cache \<ge> bound then evict_requests bound order (omap_erase oldest cache) else (oldest # order, cache))"

definition remember :: "request_key \<Rightarrow> request_cache_entry \<Rightarrow> impl \<Rightarrow> impl" where
  "remember key entry im =
    (if is_nil key then im
     else if omap_find (st_request_cache (im_state im)) key \<noteq> None
     then in_state (\<lambda>s. s\<lparr>st_request_cache := omap_put key entry (st_request_cache s)\<rparr>) im
     else in_state (\<lambda>s.
       case evict_requests (cf_max_request_cache (im_config im)) (st_request_order s) (st_request_cache s) of
         (order, cache) \<Rightarrow> s\<lparr>st_request_cache := omap_put key entry cache, st_request_order := order @ [key]\<rparr>) im)"

definition refusal :: "explanation \<Rightarrow> reason \<Rightarrow> string \<Rightarrow> string \<Rightarrow> u64 \<Rightarrow> impl \<Rightarrow> recovery_decision \<times> impl" where
  "refusal e code subject detail value im =
    (let e1 = note_step code subject detail value (e\<lparr>ex_outcome := code, ex_accepted := False\<rparr>);
         im1 = (if \<not> is_nil (ex_request e1) \<and> code \<noteq> R_ProtocolViolation \<and> code \<noteq> R_QueueCapacityExceeded \<and>
                   code \<noteq> R_RequestUnknown
                then remember (ex_request e1) (default_request_cache_entry
                  \<lparr>rq_kind := RequestKind_Failover, rq_outcome := code, rq_accepted := False,
                   rq_recorded := st_tick (im_state im), rq_policy_generation := st_policy_generation (im_state im),
                   rq_topology_generation := st_topology_generation (im_state im)\<rparr>) im
                else im)
     in (default_recovery_decision\<lparr>dc_outcome := code, dc_accepted := False, dc_explanation := e1\<rparr>,
         record_explanation e1 im1))"

definition refusal_simple :: "explanation \<Rightarrow> reason \<Rightarrow> impl \<Rightarrow> recovery_decision \<times> impl" where
  "refusal_simple e code = refusal e code [] [] 0"

definition begin_request :: "request_key \<Rightarrow> impl \<Rightarrow> reason \<times> impl" where
  "begin_request key im =
    (if is_nil key then (R_Ok, im)
     else case cn_begin key (cf_max_request_cache (im_config im)) (im_cancels im) of
       ((ok, capacity), c) \<Rightarrow>
         (if ok then R_Ok else if capacity then R_QueueCapacityExceeded else R_ProtocolViolation,
          im\<lparr>im_cancels := c\<rparr>))"

text \<open>The steps whose bit is set in the mask.\<close>

definition masked_steps :: "u32 \<Rightarrow> plan_step list" where
  "masked_steps mask' = map (\<lambda>(index, kind). \<lparr>pn_kind = kind, pn_subject = [], pn_mandatory = True\<rparr>)
    (filter (\<lambda>(index, kind). bit mask' index) (enumerate 0 (map fst kPlanStepKinds)))"

definition replay_cached :: "request_cache_entry \<Rightarrow> explanation \<Rightarrow> failover_request \<Rightarrow> impl \<Rightarrow> recovery_decision \<times> impl" where
  "replay_cached entry e request im =
    (let plan = default_recovery_plan\<lparr>pl_service := fq_service request, pl_generation := rq_generation entry,
           pl_fence := rq_fence entry, pl_lease_term := rq_lease_term entry, pl_from := rq_from entry,
           pl_to := rq_to entry, pl_steps := masked_steps (rq_plan_step_mask entry)\<rparr>;
         intent = (if rq_has_intent entry then Some (default_failover_intent
           \<lparr>fi_attempt := rq_attempt entry, fi_service := fq_service request, fi_generation := rq_generation entry,
            fi_fence := rq_fence entry, fi_lease_term := rq_lease_term entry, fi_from := rq_from entry,
            fi_to := rq_to entry, fi_epoch := ex_epoch e, fi_policy_generation := rq_policy_generation entry,
            fi_topology_generation := rq_topology_generation entry, fi_issued := rq_recorded entry\<rparr>) else None);
         e1 = note_step R_AcceptDuplicateReplayCached (str (fq_service request)) txt_request_key_already_decided
           (id_value (fq_key request))
           (e\<lparr>ex_outcome := rq_outcome entry, ex_accepted := rq_accepted entry,
              ex_failover_generation := rq_generation entry, ex_fence := rq_fence entry\<rparr>)
     in (\<lparr>dc_outcome = rq_outcome entry, dc_accepted = rq_accepted entry, dc_duplicate = True, dc_plan = plan,
          dc_intent = intent, dc_explanation = e1\<rparr>,
         in_state (bump sa_failovers_duplicate_update) (record_explanation e1 im)))"

subsection \<open>Changes of a runtime\<close>

definition invalidate_verification :: "service_runtime \<Rightarrow> service_runtime" where
  "invalidate_verification sv = sv\<lparr>sv_activation_accepted := False, sv_effect_verified := False,
    sv_state_transfer_verified := False, sv_continuity := ContinuityClass_Unknown\<rparr>"

definition append_attempt :: "fabric_config \<Rightarrow> attempt_record \<Rightarrow> service_runtime \<Rightarrow> service_runtime" where
  "append_attempt config a sv =
    (let history = sv_history sv @ [a];
         evicted = length history - cf_max_attempt_history config
     in sv\<lparr>sv_history := drop evicted history,
           sv_attempts_evicted := (saturating_inc ^^ evicted) (sv_attempts_evicted sv)\<rparr>)"

definition valid_policy :: "policy_descriptor \<Rightarrow> bool" where
  "valid_policy p \<longleftrightarrow> \<not> (pd_max_attempts_per_generation p = 0 \<or> pd_max_plan_steps p = 0 \<or>
     pd_max_fallback_candidates p = 0 \<or> pd_dependency_max_depth p = 0 \<or> pd_evidence_max_age_ticks p = 0)"

fun validate_specs :: "service_name \<Rightarrow> dependency_spec list \<Rightarrow> service_name list \<Rightarrow> reason" where
  "validate_specs name [] seen = R_Ok"
| "validate_specs name (spec # specs) seen =
    (if name_empty (ds_service spec) then R_Malformed
     else if ds_service spec = name then R_DependencySelfReference
     else if ds_service spec \<in> set seen then R_DuplicateIdentity
     else validate_specs name specs (ds_service spec # seen))"

definition validate_descriptor :: "fabric_config \<Rightarrow> service_descriptor \<Rightarrow> reason" where
  "validate_descriptor config d =
    (if name_empty (sd_name d) \<or> name_empty (sd_scope d) then R_Malformed
     else if length (sd_dependencies d) > cf_max_dependencies_per_service config then R_DependencyCapacityExceeded
     else validate_specs (sd_name d) (sd_dependencies d) [])"

text \<open>An evicted failure is no longer the latest of any service.\<close>

definition evict_failure :: "evidence_id \<Rightarrow> state \<Rightarrow> state" where
  "evict_failure oldest s =
    (let s1 = (if omap_find (st_failures s) oldest \<noteq> None
               then bump sa_evidence_evicted_update (s\<lparr>st_failures := omap_erase oldest (st_failures s)\<rparr>) else s)
     in s1\<lparr>st_latest_failure := omap_map (\<lambda>_ i. if i = oldest then nil_id else i) (st_latest_failure s1)\<rparr>)"

fun evict_failures :: "nat \<Rightarrow> evidence_id list \<Rightarrow> state \<Rightarrow> state" where
  "evict_failures bound [] s = s\<lparr>st_failure_order := []\<rparr>"
| "evict_failures bound (oldest # order) s =
    (if omap_size (st_failures s) \<ge> bound then evict_failures bound order (evict_failure oldest s)
     else s\<lparr>st_failure_order := oldest # order\<rparr>)"

definition evict_failures_if_needed :: "fabric_config \<Rightarrow> state \<Rightarrow> state" where
  "evict_failures_if_needed config s = evict_failures (cf_max_evidence_records config) (st_failure_order s) s"

fun device_rank :: "device_kind \<Rightarrow> u8" where
  "device_rank DeviceKind_Dpu = 3" | "device_rank DeviceKind_SmartNic = 2"
| "device_rank DeviceKind_HostCpu = 1" | "device_rank DeviceKind_Synthetic = 0"

end
