(* ===== verification/Replay.thy ===== *)
theory Replay
  imports Fabric_Core
begin

text \<open>
  \<^verbatim>\<open>Fabric::Impl::apply_record\<close>: the effect of one journal record on the state. \<open>None\<close> is
  a record that is refused; bytes behind the decoded value are not looked at.
\<close>

definition payload :: "'a decoder \<Rightarrow> jrecord \<Rightarrow> 'a option" where
  "payload d r = fst (d (new_reader (rc_payload r)))"

definition mark_source :: "provenance \<Rightarrow> digest \<Rightarrow> state \<Rightarrow> state" where
  "mark_source p content s = s\<lparr>st_watermarks := omap_put (pv_source p)
    \<lparr>sw_sequence = pv_sequence p, sw_digest = content, sw_tick = pv_tick p\<rparr> (st_watermarks s)\<rparr>"

definition apply_service :: "service_descriptor \<Rightarrow> state \<Rightarrow> state" where
  "apply_service d s = s\<lparr>st_services := omap_put (sd_name d)
    (default_service_runtime\<lparr>sv_descriptor := d, sv_lifecycle := LifecyclePhase_Registered\<rparr>) (st_services s)\<rparr>"

definition apply_policy :: "policy_descriptor \<Rightarrow> state \<Rightarrow> state" where
  "apply_policy p s = s\<lparr>st_policy := p, st_policy_generation := pd_generation p\<rparr>"

definition apply_capability :: "capability_evidence \<Rightarrow> state \<Rightarrow> state" where
  "apply_capability e s = s\<lparr>st_capabilities := omap_put (ce_target e)
    \<lparr>cp_evidence = e, cp_requires_reconfirmation = False\<rparr> (st_capabilities s)\<rparr>"

definition apply_failure :: "failure_evidence \<Rightarrow> state \<Rightarrow> state" where
  "apply_failure e s = mark_source (fe_provenance e) (fe_content_digest e)
    (s\<lparr>st_failures := omap_put (fe_id e) e (st_failures s), st_failure_order := st_failure_order s @ [fe_id e],
      st_latest_failure := omap_put (fe_service e) (fe_id e) (st_latest_failure s)\<rparr>)"

definition apply_dependency :: "dependency_observation \<Rightarrow> state \<Rightarrow> state" where
  "apply_dependency b s = mark_source (dob_provenance b) (dob_content_digest b)
    (s\<lparr>st_dependencies := omap_put (dob_service b)
        (omap_put (dob_dependency b) \<lparr>dp_observation = b, dp_requires_reconfirmation = False\<rparr>
          (value_or (omap_find (st_dependencies s) (dob_service b)) omap_empty)) (st_dependencies s)\<rparr>)"

definition apply_change :: "runtime_change \<Rightarrow> state \<Rightarrow> state" where
  "apply_change c s = s\<lparr>st_services := omap_put (rx_service c) (rx_runtime c) (st_services s),
    st_fences := (if rx_has_fence c then omap_put (rx_service c) (rx_fence c) (st_fences s) else st_fences s),
    st_witnesses := foldl (\<lambda>m (target, w). omap_put (Witness_Key (rx_service c) target) w m) (st_witnesses s) (rx_witnesses c)\<rparr>"

definition apply_retirement :: "target_name \<Rightarrow> state \<Rightarrow> state" where
  "apply_retirement t s = s\<lparr>st_targets := omap_erase t (st_targets s), st_capabilities := omap_erase t (st_capabilities s)\<rparr>"

definition apply_withdrawal :: "service_name \<Rightarrow> state \<Rightarrow> state" where
  "apply_withdrawal name s =
    (case omap_find (st_services s) name of
       None \<Rightarrow> s
     | Some sv \<Rightarrow> s\<lparr>st_services := omap_put name (sv\<lparr>sv_lifecycle := LifecyclePhase_Withdrawn\<rparr>) (st_services s)\<rparr>)"

definition apply_source :: "source_name \<times> source_role \<Rightarrow> state \<Rightarrow> state" where
  "apply_source e s = s\<lparr>st_sources := omap_put (fst e) (snd e) (st_sources s)\<rparr>"

text \<open>A role outside the enumeration is refused without marking the reader.\<close>

definition decode_source_record :: "(source_name \<times> source_role) decoder" where
  "decode_source_record = dbind decode_name (\<lambda>source. dbind get_u8 (\<lambda>role.
    if \<not> enum_valid role kSourceRoles then (\<lambda>r. (None, r)) else dreturn (source, enum_of kSourceRoles role)))"

definition decode_epoch_record :: "(coordinator_epoch \<times> boot_id) decoder" where
  "decode_epoch_record = dbind decode_gen_u64 (\<lambda>epoch. dbind decode_gen_u64 (\<lambda>boot. dreturn (epoch, boot)))"

definition is_runtime_change :: "record_kind \<Rightarrow> bool" where
  "is_runtime_change k \<longleftrightarrow> k \<in> {AttemptCommitted, AttemptAcknowledged, EffectRecorded, AmbiguityResolved,
    FailbackCommitted, RecoveryResumed}"

definition apply_record :: "fabric_config \<Rightarrow> jrecord \<Rightarrow> state \<Rightarrow> state option" where
  "apply_record config r s =
    (if is_runtime_change (rc_kind r)
     then map_option (\<lambda>c. apply_change c s) (payload (decode_runtime_change config) r)
     else case rc_kind r of
       ServiceRegistered \<Rightarrow> map_option (\<lambda>d. apply_service d s) (payload decode_service_descriptor r)
     | TargetUpserted \<Rightarrow>
         map_option (\<lambda>t. s\<lparr>st_targets := omap_put (tr_name t) t (st_targets s)\<rparr>) (payload decode_target_record r)
     | TopologyGenerationSet \<Rightarrow>
         map_option (\<lambda>g. s\<lparr>st_topology_generation := g\<rparr>) (payload decode_gen_u64 r)
     | PolicySet \<Rightarrow> map_option (\<lambda>p. apply_policy p s) (payload decode_policy_descriptor r)
     | CapabilityIngested \<Rightarrow> map_option (\<lambda>e. apply_capability e s) (payload decode_capability_evidence r)
     | FailureIngested \<Rightarrow> map_option (\<lambda>e. apply_failure e s) (payload decode_failure_evidence r)
     | DependencyIngested \<Rightarrow> map_option (\<lambda>b. apply_dependency b s) (payload decode_dependency_observation r)
     | TargetRetired \<Rightarrow> map_option (\<lambda>t. apply_retirement t s) (payload decode_name r)
     | ServiceWithdrawn \<Rightarrow> map_option (\<lambda>n. apply_withdrawal n s) (payload decode_name r)
     | SourceRegistered \<Rightarrow> map_option (\<lambda>e. apply_source e s) (payload decode_source_record r)
     | EpochAdvanced \<Rightarrow>
         map_option (\<lambda>(epoch, boot). s\<lparr>st_epoch := epoch, st_boot := boot\<rparr>) (payload decode_epoch_record r)
     | _ \<Rightarrow> None)"

text \<open>A record made by an encoder that succeeds is applied as the value that was encoded.\<close>

lemma payload_made:
  assumes "carries m k f d x" and "encoded f \<noteq> None"
  shows "payload d (make_record kind f) = Some x"
proof -
  obtain bs where bs: "encoded f = Some bs" using assms(2) by auto
  note dec = encoded_decodes [OF assms(1) bs]
  have "d (new_reader bs) = (Some x, advance (length bs) (new_reader bs))"
    using decodesD [OF dec(1) new_reader_ready [OF dec(2)], of "[]" "[]"] by simp
  moreover have "rc_payload (make_record kind f) = bs"
    using bs by (auto simp: make_record_def encoded_def Let_def split: if_splits)
  ultimately show ?thesis by (simp add: payload_def)
qed

end
