(* ===== verification/Ingest.thy ===== *)
theory Ingest
  imports Replay
begin

text \<open>
  Enrolment, topology, policy and the ingestion of evidence: the \<^verbatim>\<open>do_...\<close> functions that
  answer a reason and extend an explanation. Each is a chain of guards; what survives them is made
  durable by \<open>durably\<close>, which only then changes the state.
\<close>

type_synonym ingest_result = "(reason \<times> explanation) \<times> impl"

definition answer :: "reason \<Rightarrow> string \<Rightarrow> string \<Rightarrow> u64 \<Rightarrow> explanation \<Rightarrow> impl \<Rightarrow> ingest_result" where
  "answer code subject detail value e im = ((code, note_step code subject detail value e), im)"

text \<open>A refusal that is counted.\<close>

definition counted_answer ::
  "((u64 \<Rightarrow> u64) \<Rightarrow> fabric_stats \<Rightarrow> fabric_stats) \<Rightarrow> reason \<Rightarrow> string \<Rightarrow> string \<Rightarrow> u64 \<Rightarrow> explanation \<Rightarrow> impl \<Rightarrow> ingest_result" where
  "counted_answer counter code subject detail value e im = answer code subject detail value e (in_state (bump counter) im)"

text \<open>The tail of every handler: commit the record, apply the change, rotate, answer with the last
  of the closing notes.\<close>

fun closing :: "string \<Rightarrow> (reason \<times> string \<times> u64) list \<Rightarrow> explanation \<Rightarrow> impl \<Rightarrow> ingest_result" where
  "closing subject [] e im = ((R_Ok, e), im)"
| "closing subject [(code, detail, value)] e im = answer code subject detail value e im"
| "closing subject ((code, detail, value) # n # ns) e im =
    closing subject (n # ns) (note_step code subject detail value e) im"

definition durably ::
  "jrecord \<Rightarrow> string \<Rightarrow> (state \<Rightarrow> state) \<Rightarrow> (reason \<times> string \<times> u64) list \<Rightarrow> explanation \<Rightarrow> impl \<Rightarrow> ingest_result" where
  "durably r subject change notes e im =
    (case persist [r] im of (code, im1) \<Rightarrow>
     if code \<noteq> R_Ok then answer code subject txt_durable_commit_failed 0 e im1
     else case rotate_if_due (in_state change im1) of (compacted, im2) \<Rightarrow>
     if compacted \<noteq> R_Ok then answer compacted subject txt_compaction_failed 0 e im2
     else closing subject notes e im2)"

subsection \<open>Enrolment and topology\<close>

definition do_enroll_source :: "source_name \<Rightarrow> source_role \<Rightarrow> explanation \<Rightarrow> impl \<Rightarrow> ingest_result" where
  "do_enroll_source source role e im =
    (if \<not> im_opened im then answer R_ShuttingDown (str source) txt_runtime_is_not_open 0 e im
     else if name_empty source then answer R_Malformed [] txt_source_name_is_empty 0 e im
     else case role_of im source of
       Some existing \<Rightarrow>
         if existing = role
         then answer R_AcceptDuplicateIdempotent (str source) txt_source_already_enrolled_with_this_role 0 e im
         else answer R_DuplicateIdentity (str source) txt_source_already_enrolled_with_a_different_role 0 e im
     | None \<Rightarrow>
     if omap_size (st_sources (im_state im)) \<ge> cf_max_sources (im_config im)
     then answer R_RegistryCapacityExceeded (str source) txt_source_registry_is_full 0 e im
     else case peek_tick im of
       None \<Rightarrow> answer R_GenerationExhausted (str source) txt_logical_tick_exhausted 0 e im
     | Some stamp \<Rightarrow>
       durably (make_record SourceRegistered (seq [encode_name source, put_enum kSourceRoles role])) (str source)
         (\<lambda>s. bump sa_sources_enrolled_update (s\<lparr>st_tick := stamp, st_sources := omap_put source role (st_sources s)\<rparr>))
         [(R_AcceptSourceEnrolled, txt_source_enrolled, 0)] e im)"

definition new_runtime :: "service_descriptor \<Rightarrow> logical_tick \<Rightarrow> service_runtime" where
  "new_runtime descriptor stamp = default_service_runtime\<lparr>sv_descriptor := descriptor,
    sv_lifecycle := LifecyclePhase_Registered, sv_last_change := stamp, sv_last_reason := R_Ok\<rparr>"

definition do_register_service :: "service_descriptor \<Rightarrow> source_name \<Rightarrow> explanation \<Rightarrow> impl \<Rightarrow> ingest_result" where
  "do_register_service descriptor registrar e im =
    (let name = sd_name descriptor in
     if \<not> im_opened im then answer R_ShuttingDown (str name) txt_runtime_is_not_open 0 e im
     else if \<not> role_satisfies im registrar SourceRole_TopologyReporter
     then counted_answer sa_evidence_rejected_unauthorized_update R_EvidenceReporterUnauthorized (str registrar)
       txt_registrar_is_not_an_enrolled_topology_reporter 0 e im
     else let valid = validate_descriptor (im_config im) descriptor in
     if valid \<noteq> R_Ok then answer valid (str name) txt_service_descriptor_is_not_usable 0 e im
     else case service_of im name of
       Some existing \<Rightarrow>
         if sv_descriptor existing = descriptor
         then answer R_AcceptDuplicateIdempotent (str name) txt_service_already_registered_with_an_identical 0 e im
         else answer R_DuplicateService (str name) txt_service_already_registered_with_a_different 0 e im
     | None \<Rightarrow>
     if omap_size (st_services (im_state im)) \<ge> cf_max_services (im_config im)
     then answer R_RegistryCapacityExceeded (str name) txt_service_registry_is_full 0 e im
     else case peek_tick im of
       None \<Rightarrow> answer R_GenerationExhausted (str name) txt_logical_tick_exhausted 0 e im
     | Some stamp \<Rightarrow>
     if encoded (encode_service_descriptor descriptor) = None
     then answer R_Oversized (str name) txt_descriptor_encoding_exceeded_the_configured 0 e im
     else durably (make_record ServiceRegistered (encode_service_descriptor descriptor)) (str name)
       (\<lambda>s. bump sa_services_registered_update
         (s\<lparr>st_tick := stamp, st_services := omap_put name (new_runtime descriptor stamp) (st_services s)\<rparr>))
       [(R_AcceptServiceRegistered, txt_service_registered, 0)] e im)"

text \<open>The checks of a target that is already registered; \<open>None\<close> lets it pass.\<close>

definition existing_target_refusal :: "target_record \<Rightarrow> target_record \<Rightarrow> (reason \<times> string \<times> u64) option" where
  "existing_target_refusal target existing =
    (if tr_incarnation target < tr_incarnation existing
     then Some (R_IncarnationRegression, txt_incarnation_may_not_move_backwards, gen_value (ti_host (tr_incarnation existing)))
     else if tr_incarnation target = tr_incarnation existing then
       (if existing = target
        then Some (R_AcceptDuplicateIdempotent, txt_target_already_registered_at_this_incarnation, 0)
        else Some (R_DuplicateTarget, txt_target_redefined_at_the_same_incarnation, 0))
     else None)"

definition do_register_target :: "target_record \<Rightarrow> source_name \<Rightarrow> explanation \<Rightarrow> impl \<Rightarrow> ingest_result" where
  "do_register_target target registrar e im =
    (let name = tr_name target; existing = target_of im name in
     if \<not> im_opened im then answer R_ShuttingDown (str name) txt_runtime_is_not_open 0 e im
     else if \<not> role_satisfies im registrar SourceRole_TopologyReporter
     then counted_answer sa_evidence_rejected_unauthorized_update R_EvidenceReporterUnauthorized (str registrar)
       txt_registrar_is_not_an_enrolled_topology_reporter 0 e im
     else if name_empty name \<or> name_empty (tr_host target) \<or> name_empty (tr_device target) \<or> name_empty (tr_scope target)
     then answer R_Malformed (str name) txt_target_identity_is_incomplete 0 e im
     else if is_initial (ti_host (tr_incarnation target)) \<or> is_initial (ti_device (tr_incarnation target))
     then answer R_ImpossibleValue (str name) txt_incarnation_zero_never_names_an_adopted_target 0 e im
     else case (case existing of Some t \<Rightarrow> existing_target_refusal target t
                | None \<Rightarrow> if omap_size (st_targets (im_state im)) \<ge> cf_max_targets (im_config im)
                         then Some (R_RegistryCapacityExceeded, txt_target_registry_is_full, 0) else None) of
       Some (code, detail, value) \<Rightarrow> answer code (str name) detail value e im
     | None \<Rightarrow>
     case peek_tick im of
       None \<Rightarrow> answer R_GenerationExhausted (str name) txt_logical_tick_exhausted 0 e im
     | Some stamp \<Rightarrow>
       let stamped = target\<lparr>tr_topology_generation := st_topology_generation (im_state im)\<rparr> in
       durably (make_record TargetUpserted (encode_target_record stamped)) (str name)
         (\<lambda>s. bump sa_targets_registered_update (s\<lparr>st_tick := stamp, st_targets := omap_put name stamped (st_targets s)\<rparr>))
         [(R_AcceptTargetRegistered,
           if existing \<noteq> None then txt_target_re_adopted_at_a_newer_incarnation else txt_target_registered, 0)] e im)"

definition do_set_topology_generation :: "topology_generation \<Rightarrow> source_name \<Rightarrow> explanation \<Rightarrow> impl \<Rightarrow> ingest_result" where
  "do_set_topology_generation generation reporter e im =
    (let current = st_topology_generation (im_state im) in
     if \<not> im_opened im then answer R_ShuttingDown [] txt_runtime_is_not_open 0 e im
     else if \<not> role_satisfies im reporter SourceRole_TopologyReporter
     then counted_answer sa_evidence_rejected_unauthorized_update R_EvidenceReporterUnauthorized (str reporter)
       txt_reporter_is_not_an_enrolled_topology_reporter 0 e im
     else if generation < current
     then answer R_StaleGeneration (str reporter) txt_topology_generation_may_not_move_backwards (gen_value current) e im
     else if generation = current
     then answer R_AcceptDuplicateIdempotent (str reporter) txt_topology_generation_already_current 0 e im
     else case peek_tick im of
       None \<Rightarrow> answer R_GenerationExhausted (str reporter) txt_logical_tick_exhausted 0 e im
     | Some stamp \<Rightarrow>
       durably (make_record TopologyGenerationSet (put_u64 (gen_value generation))) (str reporter)
         (\<lambda>s. s\<lparr>st_tick := stamp, st_topology_generation := generation\<rparr>)
         [(R_AcceptTopologyGenerationAdvanced,
           txt_topology_generation_advanced_capability_evidence, gen_value generation)] e im)"

definition do_set_policy :: "policy_descriptor \<Rightarrow> explanation \<Rightarrow> impl \<Rightarrow> ingest_result" where
  "do_set_policy policy e im =
    (let subject = str (pd_scope policy); current = st_policy_generation (im_state im) in
     if \<not> im_opened im then answer R_ShuttingDown [] txt_runtime_is_not_open 0 e im
     else if \<not> valid_policy policy
     then answer R_ImpossibleValue subject txt_policy_contains_a_zero_budget_that_would_forbid 0 e im
     else if pd_generation policy < current
     then answer R_StaleGeneration subject txt_policy_generation_may_not_move_backwards (gen_value current) e im
     else if pd_generation policy = current then
       (if policy = st_policy (im_state im)
        then answer R_AcceptDuplicateIdempotent subject txt_policy_already_current 0 e im
        else answer R_GenerationConflict subject txt_policy_redefined_at_the_same_generation 0 e im)
     else case peek_tick im of
       None \<Rightarrow> answer R_GenerationExhausted subject txt_logical_tick_exhausted 0 e im
     | Some stamp \<Rightarrow>
       durably (make_record PolicySet (encode_policy_descriptor policy)) subject
         (\<lambda>s. s\<lparr>st_tick := stamp, st_policy := policy, st_policy_generation := pd_generation policy\<rparr>)
         [(R_AcceptPolicyGenerationAdvanced, txt_policy_generation_advanced, gen_value (pd_generation policy))] e im)"

definition withdrawn :: "logical_tick \<Rightarrow> service_runtime \<Rightarrow> service_runtime" where
  "withdrawn stamp sv = sv\<lparr>sv_lifecycle := LifecyclePhase_Withdrawn, sv_recovery := RecoveryPhase_None,
    sv_continuity := ContinuityClass_None, sv_last_change := stamp, sv_last_reason := R_TransitionRefused\<rparr>"

definition change_service :: "service_name \<Rightarrow> (service_runtime \<Rightarrow> service_runtime) \<Rightarrow> state \<Rightarrow> state" where
  "change_service name f s =
    (case omap_find (st_services s) name of
       None \<Rightarrow> s | Some sv \<Rightarrow> s\<lparr>st_services := omap_put name (f sv) (st_services s)\<rparr>)"

definition do_withdraw_service :: "service_name \<Rightarrow> source_name \<Rightarrow> explanation \<Rightarrow> impl \<Rightarrow> ingest_result" where
  "do_withdraw_service service requester e im =
    (if \<not> im_opened im then answer R_ShuttingDown (str service) txt_runtime_is_not_open 0 e im
     else if \<not> role_satisfies im requester SourceRole_Operator
     then counted_answer sa_evidence_rejected_unauthorized_update R_NoAuthority (str requester)
       txt_withdrawal_requires_an_enrolled_operator 0 e im
     else case service_of im service of
       None \<Rightarrow> answer R_UnknownService (str service) txt_service_is_not_registered 0 e im
     | Some runtime \<Rightarrow>
     if sv_lifecycle runtime = LifecyclePhase_Withdrawn
     then answer R_AcceptDuplicateIdempotent (str service) txt_service_already_withdrawn 0 e im
     else case peek_tick im of
       None \<Rightarrow> answer R_GenerationExhausted (str service) txt_logical_tick_exhausted 0 e im
     | Some stamp \<Rightarrow>
       durably (make_record ServiceWithdrawn (encode_name service)) (str service)
         (\<lambda>s. bump sa_withdrawn_services_update (change_service service (withdrawn stamp) (s\<lparr>st_tick := stamp\<rparr>)))
         [(R_AcceptServiceWithdrawn, txt_service_withdrawn, 0)] e im)"

definition do_retire_target :: "target_name \<Rightarrow> source_name \<Rightarrow> explanation \<Rightarrow> impl \<Rightarrow> ingest_result" where
  "do_retire_target target requester e im =
    (if \<not> im_opened im then answer R_ShuttingDown (str target) txt_runtime_is_not_open 0 e im
     else if \<not> role_satisfies im requester SourceRole_TopologyReporter
     then counted_answer sa_evidence_rejected_unauthorized_update R_EvidenceReporterUnauthorized (str requester)
       txt_retiring_a_target_requires_an_enrolled_topology 0 e im
     else case target_of im target of
       None \<Rightarrow> answer R_UnknownTarget (str target) txt_target_is_not_registered 0 e im
     | Some _ \<Rightarrow>
     case peek_tick im of
       None \<Rightarrow> answer R_GenerationExhausted (str target) txt_logical_tick_exhausted 0 e im
     | Some stamp \<Rightarrow>
       durably (make_record TargetRetired (encode_name target)) (str target)
         (\<lambda>s. s\<lparr>st_tick := stamp, st_targets := omap_erase target (st_targets s),
               st_capabilities := omap_erase target (st_capabilities s)\<rparr>)
         [(R_AcceptTargetRetired, txt_target_removed_from_the_governed_topology_any, 0)] e im)"

subsection \<open>Capability evidence\<close>

text \<open>A guard that fires: the counter it bumps, if any, and the note.\<close>

type_synonym objection =
  "((u64 \<Rightarrow> u64) \<Rightarrow> fabric_stats \<Rightarrow> fabric_stats) option \<times> reason \<times> string \<times> string \<times> u64"

definition object :: "objection \<Rightarrow> explanation \<Rightarrow> impl \<Rightarrow> ingest_result" where
  "object ob e im =
    (case ob of (counter, code, subject, detail, value) \<Rightarrow>
      (case counter of None \<Rightarrow> answer code subject detail value e im
       | Some c \<Rightarrow> counted_answer c code subject detail value e im))"

text \<open>The first guard that fires.\<close>

fun first_objection :: "(bool \<times> objection) list \<Rightarrow> objection option" where
  "first_objection [] = None"
| "first_objection ((fires, ob) # gs) = (if fires then Some ob else first_objection gs)"

definition retained_capability_objections :: "capability_evidence \<Rightarrow> capability_slot option \<Rightarrow> (bool \<times> objection) list" where
  "retained_capability_objections evidence existing =
    (let subject = str (ce_target evidence) in
     case existing of
       None \<Rightarrow> []
     | Some slot \<Rightarrow>
         let old = cp_evidence slot in
         if ce_incarnation old \<noteq> ce_incarnation evidence then []
         else
         [(ce_generation evidence < ce_generation old,
           (Some sa_evidence_rejected_stale_update, R_SupersededGeneration, subject,
            txt_capability_generation_is_older_than_the_retained, gen_value (ce_generation old))),
          (ce_generation evidence = ce_generation old \<and> ce_capabilities evidence = ce_capabilities old \<and>
           ce_incarnation evidence = ce_incarnation old,
           (None, R_AcceptDuplicateIdempotent, subject, txt_capability_generation_already_recorded, 0)),
          (ce_generation evidence = ce_generation old,
           (Some sa_evidence_rejected_conflict_update, R_EvidenceConflicting, subject,
            txt_capability_generation_reused_with_different, 0))])"

definition do_ingest_capability :: "capability_evidence \<Rightarrow> explanation \<Rightarrow> impl \<Rightarrow> ingest_result" where
  "do_ingest_capability evidence e im =
    (let subject = str (ce_target evidence) in
     if \<not> im_opened im then answer R_ShuttingDown subject txt_runtime_is_not_open 0 e im
     else if \<not> role_satisfies im (ce_source evidence) SourceRole_CapabilityReporter
     then counted_answer sa_evidence_rejected_unauthorized_update R_EvidenceReporterUnauthorized (str (ce_source evidence))
       txt_source_is_not_an_enrolled_capability_reporter 0 e im
     else case target_of im (ce_target evidence) of
       None \<Rightarrow> answer R_UnknownTarget subject txt_target_is_not_registered 0 e im
     | Some target \<Rightarrow>
     let computed = capability_fingerprint evidence in
     case first_objection
       ([(ce_incarnation evidence \<noteq> tr_incarnation target,
          (Some sa_evidence_rejected_stale_update, R_StaleGeneration, subject,
           txt_capability_evidence_names_a_different_target, gen_value (ti_host (tr_incarnation target)))),
         (ce_topology_generation evidence \<noteq> st_topology_generation (im_state im),
          (Some sa_evidence_rejected_stale_update, R_EvidenceTopologyMismatch, subject,
           txt_capability_evidence_was_observed_under_a,
           gen_value (st_topology_generation (im_state im))))] @
        retained_capability_objections evidence (capability_of im (ce_target evidence)) @
        [(ce_content_digest evidence \<noteq> zero_digest \<and> ce_content_digest evidence \<noteq> computed,
          (None, R_Malformed, subject, txt_capability_content_digest_does_not_match_the, 0))]) of
       Some ob \<Rightarrow> object ob e im
     | None \<Rightarrow>
     case peek_tick im of
       None \<Rightarrow> answer R_GenerationExhausted subject txt_logical_tick_exhausted 0 e im
     | Some stamp \<Rightarrow>
       let rec = evidence\<lparr>ce_content_digest := computed, ce_tick := stamp\<rparr> in
       durably (make_record CapabilityIngested (encode_capability_evidence rec)) subject
         (\<lambda>s. bump sa_capabilities_ingested_update (s\<lparr>st_tick := stamp,
           st_capabilities := omap_put (ce_target evidence)
             \<lparr>cp_evidence = rec, cp_requires_reconfirmation = False\<rparr> (st_capabilities s)\<rparr>))
         [(R_AcceptCapabilityRecorded, txt_capability_evidence_accepted, gen_value (ce_generation rec))] e im)"

subsection \<open>Failure evidence\<close>

definition provenance_objections :: "impl \<Rightarrow> failure_evidence \<Rightarrow> (bool \<times> objection) list" where
  "provenance_objections im evidence =
    (let p = fe_provenance evidence; source = str (pv_source p) in
     [(is_initial (pv_sequence p),
       (None, R_EvidenceIncomplete, source, txt_evidence_sequence_zero_never_names_a_delivered, 0)),
      (pv_epoch p \<noteq> st_epoch (im_state im),
       (Some sa_evidence_rejected_stale_update, R_AuthoritySuperseded, source,
        txt_evidence_was_produced_under_a_previous, gen_value (pv_epoch p))),
      (pv_boot p \<noteq> st_boot (im_state im),
       (Some sa_evidence_rejected_stale_update, R_BootMismatch, source,
        txt_evidence_was_produced_during_a_previous_boot, gen_value (pv_boot p)))])"

definition watermark_objections :: "impl \<Rightarrow> failure_evidence \<Rightarrow> digest \<Rightarrow> (bool \<times> objection) list" where
  "watermark_objections im evidence fingerprint =
    (let p = fe_provenance evidence; source = str (pv_source p) in
     case omap_find (st_watermarks (im_state im)) (pv_source p) of
       None \<Rightarrow> []
     | Some w \<Rightarrow>
       [(pv_sequence p = sw_sequence w \<and> fingerprint = sw_digest w,
         (None, R_AcceptDuplicateIdempotent, source, txt_evidence_sequence_already_applied, gen_value (pv_sequence p))),
        (pv_sequence p = sw_sequence w,
         (Some sa_evidence_rejected_conflict_update, R_EvidenceConflicting, source,
          txt_evidence_sequence_reused_with_different_content, gen_value (pv_sequence p))),
        (pv_sequence p < sw_sequence w,
         (Some sa_evidence_rejected_stale_update, R_EvidenceReplayRejected, source,
          txt_evidence_sequence_is_older_than_the_recorded, gen_value (sw_sequence w)))])"

definition content_objections ::
  "impl \<Rightarrow> service_runtime \<Rightarrow> failure_evidence \<Rightarrow> digest \<Rightarrow> (bool \<times> objection) list" where
  "content_objections im runtime evidence fingerprint =
    (let service = str (fe_service evidence); target = str (tg_target (fe_target evidence));
         incarnation = tg_incarnation (fe_target evidence) in
     [(fe_topology_generation evidence \<noteq> st_topology_generation (im_state im),
       (Some sa_evidence_rejected_stale_update, R_EvidenceTopologyMismatch, service,
        txt_evidence_was_observed_under_a_different_topology, gen_value (st_topology_generation (im_state im)))),
      (fe_policy_generation evidence > st_policy_generation (im_state im),
       (None, R_FutureGeneration, service,
        txt_evidence_cites_a_policy_generation_newer_than_the, gen_value (fe_policy_generation evidence))),
      (case capability_of im (tg_target (fe_target evidence)) of None \<Rightarrow> False
         | Some slot \<Rightarrow> fe_capability_generation evidence > ce_generation (cp_evidence slot),
       (None, R_FutureGeneration, target,
        txt_evidence_cites_a_capability_generation_newer_than, gen_value (fe_capability_generation evidence))),
      (is_initial (ti_host incarnation) \<or> is_initial (ti_device incarnation),
       (None, R_ImpossibleValue, target, txt_evidence_names_an_incarnation_of_zero, 0)),
      (sv_active runtime \<noteq> None \<and> sv_active runtime \<noteq> Some (fe_target evidence),
       (None, R_EvidenceTargetMismatch, target, txt_evidence_does_not_name_the_current_active, 0)),
      (fe_content_digest evidence \<noteq> zero_digest \<and> fe_content_digest evidence \<noteq> fingerprint,
       (None, R_Malformed, service, txt_evidence_content_digest_does_not_match_the, 0))] @
     (if is_nil (fe_id evidence) then [] else
      case failure_of im (fe_id evidence) of
        None \<Rightarrow> []
      | Some retained \<Rightarrow>
          [(fe_content_digest retained = fingerprint \<and> fe_service retained = fe_service evidence,
            (None, R_AcceptDuplicateIdempotent, service, txt_evidence_identifier_already_retained, id_value (fe_id evidence))),
           (True,
            (Some sa_evidence_rejected_conflict_update, R_EvidenceConflicting, service,
             txt_evidence_identifier_reused_with_different_content, id_value (fe_id evidence)))]))"

definition await_operator :: "evidence_id \<Rightarrow> logical_tick \<Rightarrow> service_runtime \<Rightarrow> service_runtime" where
  "await_operator i stamp sv = (invalidate_verification (sv\<lparr>sv_ambiguity_pending := True, sv_pending_ambiguity := i,
    sv_recovery := RecoveryPhase_AmbiguityPending, sv_lifecycle := LifecyclePhase_RecoveryPending\<rparr>))
    \<lparr>sv_last_change := stamp, sv_last_reason := R_AmbiguityUnresolved\<rparr>"

text \<open>The change that follows the commit of the evidence.\<close>

definition retain_failure :: "fabric_config \<Rightarrow> u64 \<Rightarrow> failure_evidence \<Rightarrow> logical_tick \<Rightarrow> state \<Rightarrow> state" where
  "retain_failure config next_evidence evidence stamp s =
    (let s1 = s\<lparr>st_tick := stamp\<rparr>;
         s2 = (if fe_id evidence = Id next_evidence then s1\<lparr>st_next_evidence_id := next_evidence + 1\<rparr> else s1);
         s3 = bump sa_failures_ingested_update (apply_failure evidence (evict_failures_if_needed config s2))
     in if fe_ambiguity evidence \<noteq> AmbiguityState_Unambiguous
        then bump sa_ambiguity_pending_update (change_service (fe_service evidence) (await_operator (fe_id evidence) stamp) s3)
        else s3)"

definition do_ingest_failure :: "failure_evidence \<Rightarrow> explanation \<Rightarrow> impl \<Rightarrow> ingest_result" where
  "do_ingest_failure evidence e im =
    (let service = str (fe_service evidence); target = tg_target (fe_target evidence);
         source = pv_source (fe_provenance evidence) in
     if \<not> im_opened im then answer R_ShuttingDown service txt_runtime_is_not_open 0 e im
     else if \<not> role_satisfies im source SourceRole_FailureReporter
     then counted_answer sa_evidence_rejected_unauthorized_update R_EvidenceReporterUnauthorized (str source)
       txt_source_is_not_an_enrolled_failure_reporter 0 e im
     else case service_of im (fe_service evidence) of
       None \<Rightarrow> answer R_UnknownService service txt_service_is_not_registered 0 e im
     | Some runtime \<Rightarrow>
     if target_of im target = None then answer R_UnknownTarget (str target) txt_target_is_not_registered 0 e im
     else let fingerprint = failure_fingerprint evidence in
     case first_objection (provenance_objections im evidence @ watermark_objections im evidence fingerprint @
         content_objections im runtime evidence fingerprint) of
       Some ob \<Rightarrow> object ob e im
     | None \<Rightarrow>
     case peek_tick im of
       None \<Rightarrow> answer R_GenerationExhausted service txt_logical_tick_exhausted 0 e im
     | Some stamp \<Rightarrow>
     let next_evidence = st_next_evidence_id (im_state im) in
     if is_nil (fe_id evidence) \<and> \<not> id_available next_evidence
     then answer R_GenerationExhausted service txt_evidence_identifier_space_exhausted 0 e im
     else let rec = evidence\<lparr>fe_content_digest := fingerprint,
                fe_id := (if is_nil (fe_id evidence) then Id next_evidence else fe_id evidence),
                fe_provenance := (fe_provenance evidence)\<lparr>pv_tick := stamp\<rparr>\<rparr> in
       durably (make_record FailureIngested (encode_failure_evidence rec)) service
         (retain_failure (im_config im) next_evidence rec stamp)
         (if fe_ambiguity evidence \<noteq> AmbiguityState_Unambiguous
          then [(R_AmbiguityRequiresOperator,
                 txt_ambiguous_failure_evidence_recorded_recovery_is, id_value (fe_id rec)),
                (R_AcceptFailureRecorded, txt_ambiguous_failure_evidence_accepted, id_value (fe_id rec))]
          else [(R_AcceptFailureRecorded, txt_failure_evidence_accepted, id_value (fe_id rec))]) e im)"

subsection \<open>Dependency observations\<close>

definition observation_objections :: "impl \<Rightarrow> dependency_observation \<Rightarrow> digest \<Rightarrow> (bool \<times> objection) list" where
  "observation_objections im b fingerprint =
    (let p = dob_provenance b; source = str (pv_source p); service = str (dob_service b) in
     [(dob_service b = dob_dependency b,
       (None, R_DependencySelfReference, service, txt_a_service_cannot_depend_on_itself, 0)),
      (is_initial (pv_sequence p),
       (None, R_EvidenceIncomplete, source, txt_observation_sequence_zero_never_names_a_delivered, 0)),
      (pv_epoch p \<noteq> st_epoch (im_state im),
       (Some sa_evidence_rejected_stale_update, R_AuthoritySuperseded, source,
        txt_observation_was_produced_under_a_previous, 0)),
      (pv_boot p \<noteq> st_boot (im_state im),
       (Some sa_evidence_rejected_stale_update, R_BootMismatch, source,
        txt_observation_was_produced_during_a_previous_boot, 0))] @
     (case omap_find (st_watermarks (im_state im)) (pv_source p) of
        None \<Rightarrow> []
      | Some w \<Rightarrow>
        [(pv_sequence p = sw_sequence w \<and> fingerprint = sw_digest w,
          (None, R_AcceptDuplicateIdempotent, source, txt_observation_sequence_already_applied, 0)),
         (pv_sequence p = sw_sequence w,
          (Some sa_evidence_rejected_conflict_update, R_EvidenceConflicting, source,
           txt_observation_sequence_reused_with_different, 0)),
         (pv_sequence p < sw_sequence w,
          (Some sa_evidence_rejected_stale_update, R_EvidenceReplayRejected, source,
           txt_observation_sequence_is_older_than_the_recorded, 0))]) @
     [(dob_topology_generation b \<noteq> st_topology_generation (im_state im),
       (Some sa_evidence_rejected_stale_update, R_EvidenceTopologyMismatch, service,
        txt_observation_was_made_under_a_different_topology, 0)),
      (dob_content_digest b \<noteq> zero_digest \<and> dob_content_digest b \<noteq> fingerprint,
       (None, R_Malformed, service, txt_observation_content_digest_does_not_match_the, 0))])"

definition retain_dependency :: "fabric_config \<Rightarrow> dependency_observation \<Rightarrow> logical_tick \<Rightarrow> state \<Rightarrow> state" where
  "retain_dependency config b stamp s =
    (let bucket = value_or (omap_find (st_dependencies s) (dob_service b)) omap_empty;
         s1 = s\<lparr>st_tick := stamp\<rparr>;
         s2 = (if omap_size bucket \<ge> cf_max_dependencies_per_service config \<and> omap_find bucket (dob_dependency b) = None
               then bump sa_dependency_depth_truncated_update s1 else s1)
     in bump sa_dependencies_ingested_update (apply_dependency b s2))"

definition do_ingest_dependency :: "dependency_observation \<Rightarrow> explanation \<Rightarrow> impl \<Rightarrow> ingest_result" where
  "do_ingest_dependency b e im =
    (let service = str (dob_service b); source = pv_source (dob_provenance b) in
     if \<not> im_opened im then answer R_ShuttingDown service txt_runtime_is_not_open 0 e im
     else if \<not> role_satisfies im source SourceRole_DependencyReporter
     then counted_answer sa_evidence_rejected_unauthorized_update R_EvidenceReporterUnauthorized (str source)
       txt_source_is_not_an_enrolled_dependency_reporter 0 e im
     else if service_of im (dob_service b) = None
     then answer R_UnknownService service txt_service_is_not_registered 0 e im
     else if service_of im (dob_dependency b) = None
     then answer R_UnknownService (str (dob_dependency b)) txt_dependency_service_is_not_registered 0 e im
     else let fingerprint = dependency_fingerprint b in
     case first_objection (observation_objections im b fingerprint) of
       Some ob \<Rightarrow> object ob e im
     | None \<Rightarrow>
     case peek_tick im of
       None \<Rightarrow> answer R_GenerationExhausted service txt_logical_tick_exhausted 0 e im
     | Some stamp \<Rightarrow>
       let rec = b\<lparr>dob_content_digest := fingerprint, dob_provenance := (dob_provenance b)\<lparr>pv_tick := stamp\<rparr>\<rparr> in
       durably (make_record DependencyIngested (encode_dependency_observation rec)) service
         (retain_dependency (im_config im) rec stamp)
         [(R_AcceptDependencyRecorded, txt_dependency_observation_accepted, 0)] e im)"

end
