(* ===== verification/Qualify.thy ===== *)
theory Qualify
  imports Ingest "HOL-Library.Product_Lexorder"
begin

text \<open>
  The gates before a recovery: the traversal of the declared dependencies, the choice of a fallback
  in canonical order, and the plan of the recovery steps.
\<close>

subsection \<open>Dependencies\<close>

text \<open>What one declared dependency of \<open>owner\<close> is worth under the current authority.\<close>

definition dependency_verdict :: "impl \<Rightarrow> service_name \<Rightarrow> dependency_spec \<Rightarrow> reason" where
  "dependency_verdict im owner spec =
    (let s = im_state im;
         slot = (case omap_find (st_dependencies s) owner of
                   None \<Rightarrow> None | Some bucket \<Rightarrow> omap_find bucket (ds_service spec))
     in if service_of im (ds_service spec) = None then R_UnknownService
        else case slot of
          None \<Rightarrow> R_DependencyUnknown
        | Some sl \<Rightarrow>
          let b = dp_observation sl in
          if dp_requires_reconfirmation sl then R_DependencyUnresolved
          else if pv_epoch (dob_provenance b) \<noteq> st_epoch s \<or> pv_boot (dob_provenance b) \<noteq> st_boot s
          then R_DependencyUnresolved
          else if dob_topology_generation b \<noteq> st_topology_generation s then R_DependencyUnresolved
          else if dob_health b = DependencyHealth_Unknown then R_DependencyUnknown
          else if dob_health b = DependencyHealth_Failed then R_DependencyHardUnmet
          else if dob_health b = DependencyHealth_Degraded \<and> ds_kind spec = DependencyKind_Hard
          then R_DependencyHardUnmet
          else R_Ok)"

text \<open>The traversal: the services seen, the nodes to visit, the explanation with the number of
  notes it took, the first reason that blocks, and how often the depth ceiling stopped it.\<close>

record traversal =
  qs_visited :: "service_name list"
  qs_pending :: "(service_name \<times> service_descriptor \<times> u32) list"
  qs_explanation :: explanation
  qs_emitted :: nat
  qs_blocking :: reason
  qs_truncated :: nat

definition emit :: "reason \<Rightarrow> string \<Rightarrow> string \<Rightarrow> u64 \<Rightarrow> traversal \<Rightarrow> traversal" where
  "emit code subject detail value q =
    (if qs_emitted q < 8
     then q\<lparr>qs_explanation := note_step code subject detail value (qs_explanation q), qs_emitted := qs_emitted q + 1\<rparr>
     else q)"

definition block :: "dependency_spec \<Rightarrow> reason \<Rightarrow> traversal \<Rightarrow> traversal" where
  "block spec code q =
    (if ds_kind spec = DependencyKind_Hard \<and> qs_blocking q = R_Ok then q\<lparr>qs_blocking := code\<rparr> else q)"

definition visit_spec :: "impl \<Rightarrow> service_name \<Rightarrow> u32 \<Rightarrow> dependency_spec \<Rightarrow> traversal \<Rightarrow> traversal" where
  "visit_spec im owner depth spec q =
    (let name = ds_service spec in
     if name \<in> set (qs_visited q)
     then block spec R_DependencyCycle
       (emit R_DependencyCycle (str name) txt_dependency_already_visited_traversal_stopped_on 0 q)
     else let q1 = q\<lparr>qs_visited := name # qs_visited q,
                     qs_pending := qs_pending q @ (case service_of im name of
                       None \<Rightarrow> [] | Some sv \<Rightarrow> [(name, sv_descriptor sv, depth + 1)])\<rparr>;
              code = dependency_verdict im owner spec in
     if code = R_Ok then emit R_Ok (str name) txt_dependency_satisfied 0 q1
     else block spec code (emit code (str name)
       (if ds_kind spec = DependencyKind_Hard then txt_hard_dependency else txt_soft_dependency) 0 q1))"

definition visit_node :: "impl \<Rightarrow> service_name \<times> service_descriptor \<times> u32 \<Rightarrow> traversal \<Rightarrow> traversal" where
  "visit_node im node q =
    (case node of (owner, descriptor, depth) \<Rightarrow>
     if depth \<ge> pd_dependency_max_depth (st_policy (im_state im)) then
       (if sd_dependencies descriptor \<noteq> []
        then emit R_DependencyDepthExceeded (str owner)
          txt_dependency_traversal_stopped_at_the_policy_depth (ucast depth) (q\<lparr>qs_truncated := qs_truncated q + 1\<rparr>)
        else q)
     else foldl (\<lambda>q spec. visit_spec im owner depth spec q) q (sd_dependencies descriptor))"

text \<open>Every registered service is queued at most once, which bounds the traversal.\<close>

definition unvisited :: "impl \<Rightarrow> service_name list \<Rightarrow> nat" where
  "unvisited im visited = length (filter (\<lambda>n. n \<notin> set visited) (omap_keys (st_services (im_state im))))"

lemma unvisited_Cons:
  "n \<notin> set visited \<Longrightarrow> unvisited im (n # visited) + (if service_of im n = None then 0 else 1) = unvisited im visited"
proof -
  let ?keys = "omap_keys (st_services (im_state im))"
  assume n: "n \<notin> set visited"
  have d: "distinct ?keys" by (simp add: omap_keys_def)
  have "length (filter (\<lambda>k. k \<notin> set (n # visited)) ks) + (if n \<in> set ks then 1 else 0) =
      length (filter (\<lambda>k. k \<notin> set visited) ks)" if "distinct ks" for ks
    using that n by (induction ks) auto
  from this [OF d] show ?thesis
    unfolding unvisited_def service_of_def find_None_keys
    by (cases "n \<in> fst ` set (entries (st_services (im_state im)))") (simp_all add: omap_keys_def)
qed

definition remaining_work :: "impl \<Rightarrow> traversal \<Rightarrow> nat" where
  "remaining_work im q = unvisited im (qs_visited q) + length (qs_pending q)"

lemma emit_simps [simp]:
  "qs_visited (emit c s d v q) = qs_visited q" "qs_pending (emit c s d v q) = qs_pending q"
  "qs_blocking (emit c s d v q) = qs_blocking q" "qs_truncated (emit c s d v q) = qs_truncated q"
  by (simp_all add: emit_def)

lemma block_simps [simp]:
  "qs_visited (block sp c q) = qs_visited q" "qs_pending (block sp c q) = qs_pending q"
  "qs_truncated (block sp c q) = qs_truncated q" "qs_explanation (block sp c q) = qs_explanation q"
  by (simp_all add: block_def)

lemma visit_spec_work: "remaining_work im (visit_spec im owner depth spec q) = remaining_work im q"
  using unvisited_Cons [of "ds_service spec" "qs_visited q" im]
  by (auto simp: visit_spec_def remaining_work_def Let_def split: option.splits)

lemma visit_node_work: "remaining_work im (visit_node im node q) = remaining_work im q"
proof -
  obtain owner descriptor depth where node: "node = (owner, descriptor, depth)" by (cases node)
  have "remaining_work im (foldl (\<lambda>q spec. visit_spec im owner depth spec q) q specs) = remaining_work im q" for specs
    by (induction specs arbitrary: q) (simp_all add: visit_spec_work)
  then show ?thesis by (simp add: node visit_node_def) (simp add: remaining_work_def)
qed

function traverse :: "impl \<Rightarrow> traversal \<Rightarrow> traversal" where
  "traverse im q =
    (case qs_pending q of
       [] \<Rightarrow> q
     | node # rest \<Rightarrow> traverse im (visit_node im node (q\<lparr>qs_pending := rest\<rparr>)))"
  by auto

termination
proof (relation "measure (\<lambda>(im, q). remaining_work im q)", simp)
  fix im node rest and q :: traversal
  assume "qs_pending q = node # rest"
  then have "remaining_work im (visit_node im node (q\<lparr>qs_pending := rest\<rparr>)) < remaining_work im q"
    by (simp add: visit_node_work) (simp add: remaining_work_def)
  then show "((im, visit_node im node (q\<lparr>qs_pending := rest\<rparr>)), im, q) \<in> measure (\<lambda>(im, q). remaining_work im q)"
    by simp
qed

declare traverse.simps [simp del]

definition qualify_dependencies :: "service_runtime \<Rightarrow> explanation \<Rightarrow> impl \<Rightarrow> (reason \<times> explanation) \<times> impl" where
  "qualify_dependencies runtime e im =
    (let d = sv_descriptor runtime;
         q = traverse im \<lparr>qs_visited = [sd_name d], qs_pending = [(sd_name d, d, 0)], qs_explanation = e,
               qs_emitted = 0, qs_blocking = R_Ok, qs_truncated = 0\<rparr>
     in ((qs_blocking q, qs_explanation q), in_state (bump sa_dependency_depth_truncated_update ^^ qs_truncated q) im))"

subsection \<open>Candidates\<close>

definition evaluate_candidate :: "impl \<Rightarrow> service_runtime \<Rightarrow> target_record \<Rightarrow> reason" where
  "evaluate_candidate im runtime t =
    (let d = sv_descriptor runtime; s = im_state im in
     if tr_scope t \<noteq> sd_scope d then R_FallbackNotInGovernedScope
     else if is_initial (ti_host (tr_incarnation t)) \<or> is_initial (ti_device (tr_incarnation t)) then R_ImpossibleValue
     else if (case witness_of im (sd_name d) (tr_name t) of None \<Rightarrow> False
              | Some w \<Rightarrow> tr_incarnation t \<le> fw_incarnation w) then R_FallbackFenced
     else case capability_of im (tr_name t) of
       None \<Rightarrow> R_FallbackUnsupported
     | Some slot \<Rightarrow>
       if cp_requires_reconfirmation slot then R_FallbackCapabilityGenerationStale
       else if ce_topology_generation (cp_evidence slot) \<noteq> st_topology_generation s then R_FallbackCapabilityGenerationStale
       else if ce_incarnation (cp_evidence slot) \<noteq> tr_incarnation t then R_FallbackCapabilityGenerationStale
       else if \<not> contains_all (ce_capabilities (cp_evidence slot)) (sd_required_capabilities d) then R_FallbackIncompatible
       else if (case latest_failure_of im (sd_name d) of None \<Rightarrow> False
                | Some f \<Rightarrow> tg_target (fe_target f) = tr_name t) then R_FallbackUnhealthy
       else R_Ok)"

text \<open>Other hosts first, then the higher device rank, then the name.\<close>

definition candidate_key :: "target_record option \<Rightarrow> target_record \<Rightarrow> bool \<times> u8 \<times> target_name" where
  "candidate_key failed_record t =
    ((case failed_record of None \<Rightarrow> False | Some f \<Rightarrow> tr_host t = tr_host f),
     255 - device_rank (tr_kind t), tr_name t)"

definition ordered_candidates :: "impl \<Rightarrow> service_runtime \<Rightarrow> target_ref \<Rightarrow> target_record list" where
  "ordered_candidates im runtime failed =
    (let failed_record = (if tg_valid failed then target_of im (tg_target failed) else None)
     in sort_key (candidate_key failed_record)
       (map snd (filter (\<lambda>(name, t). \<not> (tg_valid failed \<and> name = tg_target failed) \<and>
           \<not> (case sv_active runtime of None \<Rightarrow> False | Some a \<Rightarrow> name = tg_target a))
         (entries (st_targets (im_state im))))))"

definition candidate_ceiling :: "impl \<Rightarrow> nat" where
  "candidate_ceiling im =
    (let p = pd_max_fallback_candidates (st_policy (im_state im))
     in min (cf_max_fallback_candidates (im_config im)) (if p = 0 then 1 else unat p))"

definition severity :: "reason \<Rightarrow> nat" where
  "severity code =
    (if code = R_FallbackFenced then 0 else if code = R_FallbackIncompatible then 1
     else if code = R_FallbackCapabilityGenerationStale then 2 else if code = R_FallbackUnsupported then 3
     else if code = R_FallbackUnhealthy then 4 else if code = R_FallbackNotInGovernedScope then 5 else 6)"

definition worst_rejection :: "(reason, u32) omap \<Rightarrow> reason" where
  "worst_rejection rejections =
    (let codes = omap_keys rejections
     in foldl (\<lambda>best code. if severity code < severity best \<or> severity code = severity best \<and> code < best
               then code else best) (hd codes) codes)"

text \<open>The first candidate that passes, or the rejections with the notes about them.\<close>

fun scan_candidates ::
  "impl \<Rightarrow> service_runtime \<Rightarrow> target_record list \<Rightarrow> nat \<Rightarrow> (reason, u32) omap \<Rightarrow> explanation \<Rightarrow>
   target_record option \<times> (reason, u32) omap \<times> explanation" where
  "scan_candidates im runtime [] emitted rejections e = (None, rejections, e)"
| "scan_candidates im runtime (t # ts) emitted rejections e =
    (let reject = evaluate_candidate im runtime t in
     if reject = R_Ok then (Some t, rejections, e)
     else scan_candidates im runtime ts (if emitted < 8 then emitted + 1 else emitted)
       (omap_put reject (value_or (omap_find rejections reject) 0 + 1) rejections)
       (if emitted < 8 then note_step reject (str (tr_name t)) txt_fallback_candidate_rejected 0 e else e))"

definition select_fallback ::
  "service_runtime \<Rightarrow> target_ref \<Rightarrow> explanation \<Rightarrow> impl \<Rightarrow> (reason \<times> target_record option \<times> explanation) \<times> impl" where
  "select_fallback runtime failed e im =
    (let candidates = ordered_candidates im runtime failed;
         ceiling = candidate_ceiling im;
         truncated = length candidates > ceiling;
         e1 = (if truncated then note_step R_FallbackCandidateLimitReached (str (sd_name (sv_descriptor runtime)))
                 txt_candidate_set_ordered_canonically_then_truncated
                 (of_nat (length candidates - ceiling)) e else e);
         im1 = (if truncated then in_state (bump sa_fallback_candidates_truncated_update) im else im)
     in case scan_candidates im runtime (take ceiling candidates) 0 omap_empty e1 of
       (Some t, rejections, e2) \<Rightarrow> ((R_Ok, Some t, e2), im1)
     | (None, rejections, e2) \<Rightarrow>
         ((if omap_size rejections = 0 then R_NoEligibleFallback else worst_rejection rejections, None, e2), im1))"

subsection \<open>The plan\<close>

definition required_steps :: "service_runtime \<Rightarrow> target_ref \<Rightarrow> target_record \<Rightarrow> plan_step list" where
  "required_steps runtime from' to =
    (let d = sv_descriptor runtime;
         step = (\<lambda>kind subject. \<lparr>pn_kind = kind, pn_subject = subject, pn_mandatory = True\<rparr>);
         target = str (tr_name to)
     in [step PlanStepKind_AdvanceFence (str (sd_name d))] @
        (if tg_valid from' then [step PlanStepKind_FencePreviousTarget (str (tg_target from'))] else []) @
        [step PlanStepKind_TransferLease target, step PlanStepKind_EmitIntent target,
         step PlanStepKind_AwaitActivationEffect target] @
        (if sd_statefulness d = Statefulness_Stateful \<and> ps_contains (sd_preconditions d) Precondition_StateTransfer
         then [step PlanStepKind_AwaitStateTransfer target] else []) @
        [step PlanStepKind_AwaitServiceHealth target, step PlanStepKind_ClaimContinuity target])"

definition build_plan ::
  "impl \<Rightarrow> service_runtime \<Rightarrow> target_ref \<Rightarrow> target_record \<Rightarrow> explanation \<Rightarrow> reason \<times> recovery_plan \<times> explanation" where
  "build_plan im runtime from' to e =
    (let steps = required_steps runtime from' to;
         config_ceiling = (if cf_max_plan_steps (im_config im) = 0 then 1 else cf_max_plan_steps (im_config im));
         p = pd_max_plan_steps (st_policy (im_state im));
         policy_ceiling = (if p = 0 then 1 else unat p);
         ceiling = min config_ceiling policy_ceiling
     in if length steps > ceiling then
          let omitted = length steps - ceiling
          in (R_PlanStepLimitReached,
              default_recovery_plan\<lparr>pl_omitted_steps := omitted, pl_steps := take ceiling steps\<rparr>,
              note_step R_PlanStepLimitReached (str (sd_name (sv_descriptor runtime)))
                txt_required_recovery_steps_exceed_the_policy_ceiling (of_nat omitted) e)
        else (R_Ok, default_recovery_plan\<lparr>pl_steps := steps\<rparr>, e))"

end
