(* ===== verification/Commit.thy ===== *)
theory Commit
  imports Qualify
begin

text \<open>
  \<^verbatim>\<open>commit_recovery\<close>: the durable commit of one recovery attempt. The identity of the attempt is
  chosen first, the next runtime, fence and witnesses are computed from it, their change is
  persisted as one record, and only then the state, the intent queue, the request cache and the
  cancellation registry are changed.
\<close>

datatype (plugins only: code) commit_mode = InitialPlacement | Failover_Mode | Resume_Mode

record commit_result =
  cr_code :: reason
  cr_plan :: recovery_plan
  cr_intent :: "failover_intent option"

definition commit_failed :: "reason \<Rightarrow> recovery_plan \<Rightarrow> commit_result" where
  "commit_failed code plan = \<lparr>cr_code = code, cr_plan = plan, cr_intent = None\<rparr>"

text \<open>The numbers of an attempt. A resume keeps generation, fence, term and attempt.\<close>

record attempt_numbers =
  an_generation :: failover_generation
  an_fence :: fence_token
  an_term :: lease_term
  an_attempt :: u64
  an_lease :: u64
  an_plan :: u64

definition next_numbers ::
  "commit_mode \<Rightarrow> service_name \<Rightarrow> service_runtime \<Rightarrow> impl \<Rightarrow>
   failover_generation option \<times> fence_token option \<times> lease_term option" where
  "next_numbers mode service runtime im =
    (if mode = Resume_Mode
     then (Some (sv_generation runtime), Some (sv_fence runtime),
           case sv_lease runtime of Some l \<Rightarrow> Some (lr_term l) | None \<Rightarrow> Some (Gen 1))
     else (gen_successor (sv_generation runtime), gen_successor (fence_token_of im service),
           case sv_lease runtime of Some l \<Rightarrow> gen_successor (lr_term l) | None \<Rightarrow> Some (Gen 1)))"

definition attempt_identity ::
  "commit_mode \<Rightarrow> service_name \<Rightarrow> service_runtime \<Rightarrow> impl \<Rightarrow> reason + attempt_numbers" where
  "attempt_identity mode service runtime im =
    (case next_numbers mode service runtime im of
       (None, _, _) \<Rightarrow> Inl R_GenerationExhausted
     | (Some generation, None, _) \<Rightarrow> Inl R_FenceExhausted
     | (Some generation, Some fence, None) \<Rightarrow> Inl R_LeaseTermExhausted
     | (Some generation, Some fence, Some term') \<Rightarrow>
         let attempt = (if mode = Resume_Mode then id_value (sv_current_attempt runtime)
                        else st_next_attempt_id (im_state im));
             lease = st_next_lease_id (im_state im);
             plan = st_next_plan_id (im_state im)
         in if \<not> id_available attempt \<or> \<not> id_available lease \<or> \<not> id_available plan then Inl R_GenerationExhausted
            else Inr \<lparr>an_generation = generation, an_fence = fence, an_term = term', an_attempt = attempt,
                      an_lease = lease, an_plan = plan\<rparr>)"

definition numbered_plan ::
  "recovery_plan \<Rightarrow> attempt_numbers \<Rightarrow> service_name \<Rightarrow> target_ref \<Rightarrow> target_ref \<Rightarrow> recovery_plan" where
  "numbered_plan plan n service from' to_ref = plan\<lparr>pl_id := Id (an_plan n), pl_service := service,
    pl_generation := an_generation n, pl_fence := an_fence n, pl_lease_term := an_term n, pl_from := from',
    pl_to := to_ref\<rparr>"

definition committed_attempt ::
  "attempt_numbers \<Rightarrow> service_name \<Rightarrow> target_ref \<Rightarrow> target_ref \<Rightarrow> coordinator_epoch \<Rightarrow> logical_tick \<Rightarrow> reason \<Rightarrow> attempt_record" where
  "committed_attempt n service from' to_ref epoch stamp trigger =
    \<lparr>ar_id = Id (an_attempt n), ar_service = service, ar_generation = an_generation n, ar_fence = an_fence n,
     ar_from = from', ar_to = to_ref, ar_lease_term = an_term n, ar_epoch = epoch, ar_opened = stamp,
     ar_phase = RecoveryPhase_Authorized, ar_outcome = AttemptOutcome_Committed, ar_durable_committed = True,
     ar_acknowledged = False, ar_restart_downgraded = False, ar_last_reason = trigger\<rparr>"

definition reissued :: "coordinator_epoch \<Rightarrow> reason \<Rightarrow> attempt_record \<Rightarrow> attempt_record" where
  "reissued epoch trigger a = a\<lparr>ar_epoch := epoch, ar_phase := RecoveryPhase_Authorized,
    ar_outcome := AttemptOutcome_Committed, ar_durable_committed := True, ar_acknowledged := False,
    ar_restart_downgraded := False, ar_last_reason := trigger\<rparr>"

text \<open>A resume rewrites the first entry of its attempt; otherwise, or when there is none, the
  attempt is appended. The oldest entries beyond the bound leave.\<close>

definition recorded_attempt :: "fabric_config \<Rightarrow> commit_mode \<Rightarrow> attempt_record \<Rightarrow> service_runtime \<Rightarrow> service_runtime" where
  "recorded_attempt config mode a runtime =
    (if mode = Resume_Mode \<and> list_ex (\<lambda>h. ar_id h = ar_id a) (sv_history runtime)
     then let history = update_first (\<lambda>h. ar_id h = ar_id a) (reissued (ar_epoch a) (ar_last_reason a)) (sv_history runtime);
              evicted = length history - cf_max_attempt_history config
          in runtime\<lparr>sv_history := drop evicted history,
                     sv_attempts_evicted := (saturating_inc ^^ evicted) (sv_attempts_evicted runtime)\<rparr>
     else append_attempt config a runtime)"

definition remember_origin :: "impl \<Rightarrow> target_ref \<Rightarrow> service_runtime \<Rightarrow> service_runtime" where
  "remember_origin im from' sv =
    (if sv_pre_failover_target sv = None \<and> tg_valid from' then
       sv\<lparr>sv_pre_failover_target := Some from',
          sv_pre_failover_capability := (case capability_of im (tg_target from') of
            Some slot \<Rightarrow> ce_generation (cp_evidence slot) | None \<Rightarrow> initial_gen),
          sv_pre_failover_topology := st_topology_generation (im_state im),
          sv_pre_failover_policy := st_policy_generation (im_state im)\<rparr>
     else sv)"

text \<open>\<open>remember_origin\<close> looks at the previous runtime, whose origin the steps before it keep.\<close>

definition committed_runtime ::
  "impl \<Rightarrow> commit_mode \<Rightarrow> attempt_numbers \<Rightarrow> service_name \<Rightarrow> target_ref \<Rightarrow> target_ref \<Rightarrow> logical_tick \<Rightarrow> reason \<Rightarrow>
   service_runtime \<Rightarrow> service_runtime" where
  "committed_runtime im mode n service from' to_ref stamp trigger runtime =
    (let a = committed_attempt n service from' to_ref (st_epoch (im_state im)) stamp trigger;
         sv1 = (recorded_attempt (im_config im) mode a runtime)
           \<lparr>sv_generation := an_generation n, sv_fence := an_fence n,
            sv_lease := Some \<lparr>lr_service = service, lr_id = Id (an_lease n), lr_term = an_term n,
              lr_scope = sd_scope (sv_descriptor runtime), lr_holder = to_ref, lr_epoch = st_epoch (im_state im),
              lr_issued = stamp\<rparr>,
            sv_current_attempt := Id (an_attempt n),
            sv_attempts_since_verified := (if mode = InitialPlacement then sv_attempts_since_verified runtime
              else sv_attempts_since_verified runtime + 1),
            sv_active := Some to_ref, sv_fallback := Some to_ref,
            sv_recovery := RecoveryPhase_Authorized, sv_lifecycle := LifecyclePhase_RecoveryAuthorized\<rparr>;
         sv2 = (invalidate_verification sv1)\<lparr>sv_failover_recorded := True, sv_ambiguity_pending := False,
            sv_pending_ambiguity := nil_id, sv_last_reason := trigger, sv_last_change := stamp\<rparr>;
         sv3 = remember_origin im from' sv2
     in if mode = InitialPlacement
        then sv3\<lparr>sv_recovery := RecoveryPhase_IntentRecorded, sv_lifecycle := LifecyclePhase_Active,
                 sv_failover_recorded := False, sv_pre_failover_target := None\<rparr>
        else sv3)"

definition committed_fence :: "attempt_numbers \<Rightarrow> service_name \<Rightarrow> target_ref \<Rightarrow> coordinator_epoch \<Rightarrow> logical_tick \<Rightarrow> fence_record" where
  "committed_fence n service to_ref epoch stamp =
    \<lparr>fr_service = service, fr_token = an_fence n, fr_holder = to_ref, fr_attempt = Id (an_attempt n),
     fr_epoch = epoch, fr_issued = stamp\<rparr>"

definition witness_updates :: "attempt_numbers \<Rightarrow> target_ref \<Rightarrow> topology_generation \<Rightarrow> (target_name \<times> fence_witness) list" where
  "witness_updates n from' topology =
    (if tg_valid from' then [(tg_target from', \<lparr>fw_token = an_fence n, fw_incarnation = tg_incarnation from',
       fw_topology_generation = topology\<rparr>)] else [])"

definition recovery_change ::
  "impl \<Rightarrow> commit_mode \<Rightarrow> attempt_numbers \<Rightarrow> service_name \<Rightarrow> target_ref \<Rightarrow> target_ref \<Rightarrow> logical_tick \<Rightarrow> reason \<Rightarrow>
   service_runtime \<Rightarrow> runtime_change" where
  "recovery_change im mode n service from' to_ref stamp trigger runtime =
    \<lparr>rx_service = service, rx_runtime = committed_runtime im mode n service from' to_ref stamp trigger runtime,
     rx_fence = committed_fence n service to_ref (st_epoch (im_state im)) stamp, rx_has_fence = True,
     rx_witnesses = witness_updates n from' (st_topology_generation (im_state im))\<rparr>"

definition committed_intent ::
  "commit_mode \<Rightarrow> attempt_numbers \<Rightarrow> service_name \<Rightarrow> target_ref \<Rightarrow> target_ref \<Rightarrow> logical_tick \<Rightarrow> state \<Rightarrow> failover_intent" where
  "committed_intent mode n service from' to_ref stamp s =
    \<lparr>fi_attempt = Id (an_attempt n), fi_service = service, fi_generation = an_generation n, fi_fence = an_fence n,
     fi_lease_term = an_term n, fi_from = from', fi_to = to_ref, fi_epoch = st_epoch s,
     fi_policy_generation = st_policy_generation s, fi_topology_generation = st_topology_generation s,
     fi_issued = stamp, fi_reissue_after_restart = (mode = Resume_Mode)\<rparr>"

definition step_mask :: "plan_step list \<Rightarrow> u32" where
  "step_mask steps = foldl (\<lambda>m p. m OR push_bit (ordinal kPlanStepKinds (pn_kind p)) 1) 0 steps"

definition text_digest :: "string \<Rightarrow> digest" where
  "text_digest t = builder_value (builder_update builder_start (text_bytes t))"

definition committed_entry ::
  "commit_mode \<Rightarrow> attempt_numbers \<Rightarrow> target_ref \<Rightarrow> target_ref \<Rightarrow> logical_tick \<Rightarrow> recovery_plan \<Rightarrow> state \<Rightarrow> request_cache_entry" where
  "committed_entry mode n from' to_ref stamp plan s = default_request_cache_entry
    \<lparr>rq_kind := (if mode = Resume_Mode then RequestKind_Resume
                 else if mode = InitialPlacement then RequestKind_Placement else RequestKind_Failover),
     rq_outcome := R_AcceptIntentEmitted, rq_accepted := True, rq_attempt := Id (an_attempt n),
     rq_generation := an_generation n, rq_fence := an_fence n, rq_lease_term := an_term n,
     rq_policy_generation := st_policy_generation s, rq_topology_generation := st_topology_generation s,
     rq_from := from', rq_to := to_ref, rq_has_intent := True, rq_plan_step_mask := step_mask (pl_steps plan),
     rq_recorded := stamp, rq_response_digest := text_digest (dump (recovery_plan_json plan))\<rparr>"

subsection \<open>Applying the committed change\<close>

definition apply_committed ::
  "commit_mode \<Rightarrow> attempt_numbers \<Rightarrow> logical_tick \<Rightarrow> runtime_change \<Rightarrow> nat \<Rightarrow> state \<Rightarrow> state" where
  "apply_committed mode n stamp change evicted s =
    (let s1 = s\<lparr>st_tick := stamp,
             st_next_attempt_id := (if mode = Resume_Mode then st_next_attempt_id s else an_attempt n + 1),
             st_next_lease_id := an_lease n + 1, st_next_plan_id := an_plan n + 1\<rparr>;
         s2 = bump sa_attempts_recorded_update (apply_change change s1)
     in s2\<lparr>st_stats := sa_attempts_evicted_update (saturating_inc ^^ evicted) (st_stats s2)\<rparr>)"

definition emit_intent :: "failover_intent \<Rightarrow> impl \<Rightarrow> impl" where
  "emit_intent intent im =
    (case iq_push intent (im_intents im) of
       (True, q) \<Rightarrow> in_state (bump sa_intents_emitted_update) (im\<lparr>im_intents := q\<rparr>)
     | (False, q) \<Rightarrow> in_state (bump sa_intents_dropped_update) (im\<lparr>im_intents := q\<rparr>))"

definition commit_notes :: "attempt_numbers \<Rightarrow> target_ref \<Rightarrow> target_record \<Rightarrow> explanation \<Rightarrow> explanation" where
  "commit_notes n from' to e =
    (let target = str (tr_name to);
         e1 = (if tg_valid from' then note_step R_AcceptFenceAdvanced (str (tg_target from'))
                 txt_previous_target_fenced_out_at_the_new_durable (gen_value (an_fence n)) e else e)
     in note_step R_AcceptIntentEmitted target txt_governed_failover_intent_emitted 0
         (note_step R_AcceptLeaseTransferred target txt_lease_term_transferred (gen_value (an_term n))
           (note_step R_AcceptFallbackCapabilityCompatible target
             txt_fallback_capability_is_supported_current_and 0 e1)))"

text \<open>What follows the durable commit cannot fail any more; a failed compaction is only noted.\<close>

definition after_commit ::
  "commit_mode \<Rightarrow> attempt_numbers \<Rightarrow> failover_request \<Rightarrow> target_record \<Rightarrow> target_ref \<Rightarrow> logical_tick \<Rightarrow> recovery_plan \<Rightarrow>
   runtime_change \<Rightarrow> nat \<Rightarrow> explanation \<Rightarrow> impl \<Rightarrow> (commit_result \<times> explanation) \<times> impl" where
  "after_commit mode n request to from' stamp plan change evicted e im =
    (let to_ref = \<lparr>tg_target = tr_name to, tg_incarnation = tr_incarnation to\<rparr>;
         im1 = in_state (apply_committed mode n stamp change evicted) im;
         intent = committed_intent mode n (fq_service request) from' to_ref stamp (im_state im1);
         im2 = emit_intent intent im1;
         im3 = remember (fq_key request) (committed_entry mode n from' to_ref stamp plan (im_state im2)) im2;
         im4 = (if is_nil (fq_key request) then im3
                else im3\<lparr>im_cancels := cn_guard_commit (fq_key request) (im_cancels im3)\<rparr>);
         e1 = commit_notes n from' to e
     in case rotate_if_due im4 of (compacted, im5) \<Rightarrow>
        ((\<lparr>cr_code = R_Ok, cr_plan = plan, cr_intent = Some intent\<rparr>,
          if compacted \<noteq> R_Ok then note_step compacted (str (tr_name to)) txt_compaction_after_commit_failed 0 e1 else e1),
         im5))"

text \<open>The cancellation guard, when the request has a key.\<close>

definition commit_guard :: "request_key \<Rightarrow> impl \<Rightarrow> reason" where
  "commit_guard key im =
    (if is_nil key then R_Ok
     else case cn_guard key (im_cancels im) of (known, cancelled) \<Rightarrow>
       if \<not> known then R_RequestUnknown else if cancelled then R_Cancelled else R_Ok)"

definition commit_recovery ::
  "failover_request \<Rightarrow> service_runtime \<Rightarrow> target_record \<Rightarrow> target_ref \<Rightarrow> reason \<Rightarrow> commit_mode \<Rightarrow> explanation \<Rightarrow> impl \<Rightarrow>
   (commit_result \<times> explanation) \<times> impl" where
  "commit_recovery request runtime to from' trigger mode e im =
    (let service = fq_service request;
         to_ref = \<lparr>tg_target = tr_name to, tg_incarnation = tr_incarnation to\<rparr>;
         none = default_recovery_plan in
     case peek_tick im of
       None \<Rightarrow> ((commit_failed R_GenerationExhausted none, e), im)
     | Some stamp \<Rightarrow>
     let guard = commit_guard (fq_key request) im in
     if guard \<noteq> R_Ok
     then ((commit_failed guard none, e),
           if guard = R_Cancelled then in_state (bump sa_requests_cancelled_update) im else im)
     else case attempt_identity mode service runtime im of
       Inl code \<Rightarrow> ((commit_failed code none, e), im)
     | Inr n \<Rightarrow>
     case build_plan im runtime from' to e of (plan_code, plan0, e1) \<Rightarrow>
     let plan = numbered_plan plan0 n service from' to_ref in
     if plan_code \<noteq> R_Ok then ((commit_failed plan_code plan, e1), im)
     else let change = recovery_change im mode n service from' to_ref stamp trigger runtime in
     if encoded (encode_runtime_change change) = None then ((commit_failed R_Oversized plan, e1), im)
     else case persist [make_record (if mode = Resume_Mode then RecoveryResumed else AttemptCommitted)
                          (encode_runtime_change change)] im of (code, im1) \<Rightarrow>
     if code \<noteq> R_Ok then ((commit_failed code plan, e1), im1)
     else after_commit mode n request to from' stamp plan change
            (unat (sv_attempts_evicted (rx_runtime change) - sv_attempts_evicted runtime)) e1 im1)"

end
