(* ===== verification/Decision_Texts.thy ===== *)
theory Decision_Texts
  imports Prelude
begin

text \<open>
  The detail sentences of the explanation steps, one constant per sentence of src/src/fabric.cpp.
  They stay folded in every proof, so a step of an explanation is a small term.
\<close>

definition txt_a_hard_dependency_is_not_satisfied :: string where
  "txt_a_hard_dependency_is_not_satisfied = ''a hard dependency is not satisfied''"

definition txt_a_hard_dependency_is_not_satisfied_by_current :: string where
  "txt_a_hard_dependency_is_not_satisfied_by_current = ''a hard dependency is not satisfied by current, fresh evidence''"

definition txt_a_healthy_report_is_not_sufficient_without_a :: string where
  "txt_a_healthy_report_is_not_sufficient_without_a = ''a healthy report is not sufficient without a preceding accepted activation for this attempt''"

definition txt_a_recovery_attempt_is_already_authorized :: string where
  "txt_a_recovery_attempt_is_already_authorized = ''a recovery attempt is already authorized''"

definition txt_a_recovery_attempt_is_already_authorized_for_this :: string where
  "txt_a_recovery_attempt_is_already_authorized_for_this = ''a recovery attempt is already authorized for this service''"

definition txt_activating_a_replacement_while_the_previous :: string where
  "txt_activating_a_replacement_while_the_previous = ''activating a replacement while the previous target may still be live risks dual active operation''"

definition txt_ambiguity_resolution_requires_an_enrolled :: string where
  "txt_ambiguity_resolution_requires_an_enrolled = ''ambiguity resolution requires an enrolled operator''"

definition txt_authorized_non_evidence_trigger :: string where
  "txt_authorized_non_evidence_trigger = ''authorized non-evidence trigger''"

definition txt_cancellation_recorded_before_commit :: string where
  "txt_cancellation_recorded_before_commit = ''cancellation recorded before commit''"

definition txt_cancellation_registry_is_full :: string where
  "txt_cancellation_registry_is_full = ''cancellation registry is full''"

definition txt_capability_evidence_for_the_original_target_is :: string where
  "txt_capability_evidence_for_the_original_target_is = ''capability evidence for the original target is not current for its new incarnation''"

definition txt_continuity_is_not_claimed_at_the_full_class_for :: string where
  "txt_continuity_is_not_claimed_at_the_full_class_for = ''continuity is not claimed at the full class for this service''"

definition txt_effect_record_exceeded_the_configured_ceiling :: string where
  "txt_effect_record_exceeded_the_configured_ceiling = ''effect record exceeded the configured ceiling''"

definition txt_effect_report_already_applied :: string where
  "txt_effect_report_already_applied = ''effect report already applied''"

definition txt_effect_report_evaluated :: string where
  "txt_effect_report_evaluated = ''effect report evaluated''"

definition txt_establishing_a_placement_requires_an_enrolled :: string where
  "txt_establishing_a_placement_requires_an_enrolled = ''establishing a placement requires an enrolled operator''"

definition txt_evidence_carries_a_future_logical_tick :: string where
  "txt_evidence_carries_a_future_logical_tick = ''evidence carries a future logical tick''"

definition txt_evidence_is_older_than_the_policy_freshness_bound :: string where
  "txt_evidence_is_older_than_the_policy_freshness_bound = ''evidence is older than the policy freshness bound''"

definition txt_evidence_names_a_different_service :: string where
  "txt_evidence_names_a_different_service = ''evidence names a different service''"

definition txt_evidence_was_accepted_during_a_previous_boot :: string where
  "txt_evidence_was_accepted_during_a_previous_boot = ''evidence was accepted during a previous boot''"

definition txt_evidence_was_accepted_under_a_previous :: string where
  "txt_evidence_was_accepted_under_a_previous = ''evidence was accepted under a previous coordinator epoch''"

definition txt_executor_accepted_the_governed_intent :: string where
  "txt_executor_accepted_the_governed_intent = ''executor accepted the governed intent''"

definition txt_executor_refused_the_governed_intent :: string where
  "txt_executor_refused_the_governed_intent = ''executor refused the governed intent''"

definition txt_failback_would_reuse_the_capability_generation :: string where
  "txt_failback_would_reuse_the_capability_generation = ''failback would reuse the capability generation that was already superseded''"

definition txt_no_ambiguous_outcome_is_pending :: string where
  "txt_no_ambiguous_outcome_is_pending = ''no ambiguous outcome is pending''"

definition txt_no_attempt_matches_the_acknowledgement :: string where
  "txt_no_attempt_matches_the_acknowledgement = ''no attempt matches the acknowledgement''"

definition txt_no_capability_evidence_is_retained_for_the :: string where
  "txt_no_capability_evidence_is_retained_for_the = ''no capability evidence is retained for the original target''"

definition txt_no_eligible_fallback_satisfies_scope_fence :: string where
  "txt_no_eligible_fallback_satisfies_scope_fence = ''no eligible fallback satisfies scope, fence, capability and health rules''"

definition txt_no_failover_was_recorded_for_this_service :: string where
  "txt_no_failover_was_recorded_for_this_service = ''no failover was recorded for this service''"

definition txt_no_failure_evidence_was_supplied_for_this :: string where
  "txt_no_failure_evidence_was_supplied_for_this = ''no failure evidence was supplied for this recovery request''"

definition txt_no_recovery_attempt_is_outstanding :: string where
  "txt_no_recovery_attempt_is_outstanding = ''no recovery attempt is outstanding''"

definition txt_no_restart_downgraded_attempt_is_waiting_for :: string where
  "txt_no_restart_downgraded_attempt_is_waiting_for = ''no restart-downgraded attempt is waiting for authorization''"

definition txt_no_such_request_is_in_flight :: string where
  "txt_no_such_request_is_in_flight = ''no such request is in flight''"

definition txt_operator_declared_the_target_alive_no_replacement :: string where
  "txt_operator_declared_the_target_alive_no_replacement = ''operator declared the target alive; no replacement was activated''"

definition txt_original_target_re_adopted_at_a_newer_incarnation :: string where
  "txt_original_target_re_adopted_at_a_newer_incarnation = ''original target re-adopted at a newer incarnation with a newer capability generation''"

definition txt_planned_or_operator_triggered_recovery_requires :: string where
  "txt_planned_or_operator_triggered_recovery_requires = ''planned or operator-triggered recovery requires explicit authorization''"

definition txt_request_key_is_already_in_flight :: string where
  "txt_request_key_is_already_in_flight = ''request key is already in flight''"

definition txt_requester_is_not_an_enrolled_operator :: string where
  "txt_requester_is_not_an_enrolled_operator = ''requester is not an enrolled operator''"

definition txt_resolution_does_not_name_the_pending_ambiguous :: string where
  "txt_resolution_does_not_name_the_pending_ambiguous = ''resolution does not name the pending ambiguous evidence''"

definition txt_resuming_recovery_requires_an_enrolled_operator :: string where
  "txt_resuming_recovery_requires_an_enrolled_operator = ''resuming recovery requires an enrolled operator''"

definition txt_service_already_has_an_authoritative_placement :: string where
  "txt_service_already_has_an_authoritative_placement = ''service already has an authoritative placement; use recovery or failback''"

definition txt_service_has_no_active_placement_to_recover_from :: string where
  "txt_service_has_no_active_placement_to_recover_from = ''service has no active placement to recover from''"

definition txt_service_is_withdrawn :: string where
  "txt_service_is_withdrawn = ''service is withdrawn''"

definition txt_source_is_not_an_enrolled_effect_reporter :: string where
  "txt_source_is_not_an_enrolled_effect_reporter = ''source is not an enrolled effect reporter''"

definition txt_the_acknowledgement_cites_a_fence_this_runtime :: string where
  "txt_the_acknowledgement_cites_a_fence_this_runtime = ''the acknowledgement cites a fence this runtime never minted''"

definition txt_the_acknowledgement_cites_a_stale_durable_fence :: string where
  "txt_the_acknowledgement_cites_a_stale_durable_fence = ''the acknowledgement cites a stale durable fence''"

definition txt_the_acknowledgement_cites_a_superseded_failover :: string where
  "txt_the_acknowledgement_cites_a_superseded_failover = ''the acknowledgement cites a superseded failover generation''"

definition txt_the_active_target_is_absent_from_topology_but :: string where
  "txt_the_active_target_is_absent_from_topology_but = ''the active target is absent from topology, but absence is not permission to activate a replacement without authoritative failure evidence''"

definition txt_the_attempt_is_already_verified_no_further_effect :: string where
  "txt_the_attempt_is_already_verified_no_further_effect = ''the attempt is already verified; no further effect is accepted''"

definition txt_the_attempt_record_is_missing :: string where
  "txt_the_attempt_record_is_missing = ''the attempt record is missing''"

definition txt_the_attempt_was_already_acknowledged :: string where
  "txt_the_attempt_was_already_acknowledged = ''the attempt was already acknowledged''"

definition txt_the_current_policy_does_not_permit_failback :: string where
  "txt_the_current_policy_does_not_permit_failback = ''the current policy does not permit failback''"

definition txt_the_downgraded_attempt_record_is_missing :: string where
  "txt_the_downgraded_attempt_record_is_missing = ''the downgraded attempt record is missing''"

definition txt_the_effect_cites_a_fence_never_minted_here :: string where
  "txt_the_effect_cites_a_fence_never_minted_here = ''the effect cites a fence never minted here''"

definition txt_the_effect_cites_a_stale_durable_fence :: string where
  "txt_the_effect_cites_a_stale_durable_fence = ''the effect cites a stale durable fence''"

definition txt_the_effect_cites_a_superseded_generation :: string where
  "txt_the_effect_cites_a_superseded_generation = ''the effect cites a superseded generation''"

definition txt_the_effect_names_a_different_attempt :: string where
  "txt_the_effect_names_a_different_attempt = ''the effect names a different attempt''"

definition txt_the_effect_names_a_target_that_is_not_the_planned :: string where
  "txt_the_effect_names_a_target_that_is_not_the_planned = ''the effect names a target that is not the planned one''"

definition txt_the_effect_names_an_incarnation_that_is_not :: string where
  "txt_the_effect_names_an_incarnation_that_is_not = ''the effect names an incarnation that is not current for this target''"

definition txt_the_effect_names_an_incarnation_that_was_never :: string where
  "txt_the_effect_names_an_incarnation_that_was_never = ''the effect names an incarnation that was never planned for this attempt''"

definition txt_the_effect_names_an_unregistered_target :: string where
  "txt_the_effect_names_an_unregistered_target = ''the effect names an unregistered target''"

definition txt_the_effect_was_reported_during_a_previous_boot :: string where
  "txt_the_effect_was_reported_during_a_previous_boot = ''the effect was reported during a previous boot''"

definition txt_the_effect_was_reported_under_a_previous :: string where
  "txt_the_effect_was_reported_under_a_previous = ''the effect was reported under a previous coordinator epoch''"

definition txt_the_failback_commit_was_refused :: string where
  "txt_the_failback_commit_was_refused = ''the failback commit was refused''"

definition txt_the_failure_evidence_is_ambiguous_and_cannot :: string where
  "txt_the_failure_evidence_is_ambiguous_and_cannot = ''the failure evidence is ambiguous and cannot justify recovery''"

definition txt_the_original_target_has_not_been_re_adopted_at_a :: string where
  "txt_the_original_target_has_not_been_re_adopted_at_a = ''the original target has not been re-adopted at a newer incarnation''"

definition txt_the_original_target_is_no_longer_registered :: string where
  "txt_the_original_target_is_no_longer_registered = ''the original target is no longer registered''"

definition txt_the_original_target_no_longer_supports_the :: string where
  "txt_the_original_target_no_longer_supports_the = ''the original target no longer supports the required capability set''"

definition txt_the_pending_ambiguous_evidence_is_no_longer :: string where
  "txt_the_pending_ambiguous_evidence_is_no_longer = ''the pending ambiguous evidence is no longer retained''"

definition txt_the_placement_commit_was_refused :: string where
  "txt_the_placement_commit_was_refused = ''the placement commit was refused''"

definition txt_the_planned_fallback_target_has_been_re_adopted :: string where
  "txt_the_planned_fallback_target_has_been_re_adopted = ''the planned fallback target has been re-adopted at a different incarnation''"

definition txt_the_planned_fallback_target_is_no_longer :: string where
  "txt_the_planned_fallback_target_is_no_longer = ''the planned fallback target is no longer registered''"

definition txt_the_planned_fallback_target_is_no_longer_eligible :: string where
  "txt_the_planned_fallback_target_is_no_longer_eligible = ''the planned fallback target is no longer eligible''"

definition txt_the_policy_attempt_ceiling_was_reached_without_a :: string where
  "txt_the_policy_attempt_ceiling_was_reached_without_a = ''the policy attempt ceiling was reached without a verified effect''"

definition txt_the_preferred_target_is_not_the_recorded_pre :: string where
  "txt_the_preferred_target_is_not_the_recorded_pre = ''the preferred target is not the recorded pre-failover target''"

definition txt_the_re_issued_recovery_was_refused :: string where
  "txt_the_re_issued_recovery_was_refused = ''the re-issued recovery was refused''"

definition txt_the_recovery_commit_was_refused :: string where
  "txt_the_recovery_commit_was_refused = ''the recovery commit was refused''"

definition txt_the_referenced_failure_evidence_is_not_retained :: string where
  "txt_the_referenced_failure_evidence_is_not_retained = ''the referenced failure evidence is not retained''"

definition txt_the_request_already_committed_durably :: string where
  "txt_the_request_already_committed_durably = ''the request already committed durably''"

definition txt_the_request_cites_a_policy_generation_that_is_not :: string where
  "txt_the_request_cites_a_policy_generation_that_is_not = ''the request cites a policy generation that is not current''"

definition txt_the_request_cites_a_topology_generation_that_is :: string where
  "txt_the_request_cites_a_topology_generation_that_is = ''the request cites a topology generation that is not current''"

definition txt_the_requested_placement_target_is_not_eligible :: string where
  "txt_the_requested_placement_target_is_not_eligible = ''the requested placement target is not eligible''"

definition txt_the_service_requires_explicit_operator :: string where
  "txt_the_service_requires_explicit_operator = ''the service requires explicit operator authorization for recovery''"

definition txt_the_transferred_state_generation_is_older_than :: string where
  "txt_the_transferred_state_generation_is_older_than = ''the transferred state generation is older than the last known durable generation''"

end
