(* ===== verification/Decisions.thy ===== *)
theory Decisions
  imports Commit Decision_Texts
begin

text \<open>
  The recovery decisions: placement, failover, resume, ambiguity resolution, failback,
  acknowledgement and effect report. Each is a chain of guards that refuse with an explanation; the
  ones that authorise a placement end in \<^verbatim>\<open>commit_recovery\<close>.
\<close>

type_synonym decision = "recovery_decision \<times> impl"

definition refuse_with :: "objection \<Rightarrow> explanation \<Rightarrow> impl \<Rightarrow> decision" where
  "refuse_with ob e im =
    (case ob of (counter, code, subject, detail, value) \<Rightarrow>
      refusal e code subject detail value (case counter of None \<Rightarrow> im | Some c \<Rightarrow> in_state (bump c) im))"

definition objection_code :: "objection \<Rightarrow> reason" where
  "objection_code ob = (case ob of (counter, code, subject, detail, value) \<Rightarrow> code)"

text \<open>An accepted decision, with its explanation on record.\<close>

definition accepted ::
  "reason \<Rightarrow> ((u64 \<Rightarrow> u64) \<Rightarrow> fabric_stats \<Rightarrow> fabric_stats) option \<Rightarrow> commit_result \<Rightarrow> explanation \<Rightarrow> impl \<Rightarrow> decision" where
  "accepted outcome counter result e im =
    (let e1 = e\<lparr>ex_outcome := outcome, ex_accepted := True, ex_failover_generation := pl_generation (cr_plan result),
           ex_fence := pl_fence (cr_plan result)\<rparr>;
         im1 = (case counter of None \<Rightarrow> im | Some c \<Rightarrow> in_state (bump c) im)
     in (default_recovery_decision\<lparr>dc_outcome := outcome, dc_accepted := True, dc_plan := cr_plan result,
           dc_intent := cr_intent result, dc_explanation := e1\<rparr>, record_explanation e1 im1))"

text \<open>The replay of a cached answer for a request that only has a key and a service.\<close>

definition keyed :: "request_key \<Rightarrow> service_name \<Rightarrow> failover_request" where
  "keyed key service = default_failover_request\<lparr>fq_key := key, fq_service := service\<rparr>"

subsection \<open>Placement\<close>

definition placement_objections ::
  "impl \<Rightarrow> service_runtime \<Rightarrow> placement_request \<Rightarrow> (bool \<times> objection) list" where
  "placement_objections im runtime request =
    (let service = str (pq_service request) in
     [(\<not> role_satisfies im (pq_requester request) SourceRole_Operator,
       (Some sa_evidence_rejected_unauthorized_update, R_NoAuthority, str (pq_requester request),
        txt_establishing_a_placement_requires_an_enrolled, 0)),
      (sv_lifecycle runtime = LifecyclePhase_Withdrawn,
       (None, R_ServiceStateIncompatible, service, txt_service_is_withdrawn, 0)),
      (sv_active runtime \<noteq> None,
       (None, R_ServiceStateIncompatible, service,
        txt_service_already_has_an_authoritative_placement, 0))] @
     (case target_of im (pq_target request) of
        None \<Rightarrow> [(True, (None, R_UnknownTarget, str (pq_target request), txt_target_is_not_registered, 0))]
      | Some t \<Rightarrow> let reject = evaluate_candidate im runtime t in
          [(reject \<noteq> R_Ok,
            (None, reject, str (tr_name t), txt_the_requested_placement_target_is_not_eligible, 0))]))"

definition do_establish_placement :: "placement_request \<Rightarrow> impl \<Rightarrow> decision" where
  "do_establish_placement request im =
    (let service = pq_service request; e = begin_explanation service (pq_key request) im in
     if \<not> im_opened im then refusal_simple e R_ShuttingDown im
     else case cached (pq_key request) im of
       Some entry \<Rightarrow> replay_cached entry e (keyed (pq_key request) service) im
     | None \<Rightarrow>
     case service_of im service of
       None \<Rightarrow> refusal e R_UnknownService (str service) txt_service_is_not_registered 0 im
     | Some runtime \<Rightarrow>
     case first_objection (placement_objections im runtime request) of
       Some ob \<Rightarrow> refuse_with ob e im
     | None \<Rightarrow>
     case target_of im (pq_target request) of
       None \<Rightarrow> refusal e R_UnknownTarget (str (pq_target request)) txt_target_is_not_registered 0 im
     | Some to \<Rightarrow>
     case qualify_dependencies runtime e im of ((dependency, e1), im1) \<Rightarrow>
     if dependency \<noteq> R_Ok
     then refusal e1 dependency (str service) txt_a_hard_dependency_is_not_satisfied_by_current 0 im1
     else case commit_recovery ((keyed (pq_key request) service)
         \<lparr>fq_trigger := RecoveryTrigger_OperatorCommand, fq_requester := pq_requester request,
          fq_operator_authorized := True\<rparr>)
         runtime to default_target_ref R_AcceptPlacementEstablished InitialPlacement e1 im1 of ((result, e2), im2) \<Rightarrow>
     if cr_code result \<noteq> R_Ok
     then refuse_with (Some sa_failovers_refused_update, cr_code result, str service,
       txt_the_placement_commit_was_refused, 0) e2 im2
     else accepted R_AcceptPlacementEstablished (Some sa_placements_established_update) result e2 im2)"

subsection \<open>Failover and resume\<close>

text \<open>A refused recovery leaves its reason on the service.\<close>

definition refuse_failover :: "objection \<Rightarrow> service_name \<Rightarrow> explanation \<Rightarrow> impl \<Rightarrow> decision" where
  "refuse_failover ob service e im =
    refuse_with ob e (in_state (change_service service (\<lambda>sv. sv\<lparr>sv_last_reason := objection_code ob\<rparr>)) im)"

definition resumable ::
  "impl \<Rightarrow> service_runtime \<Rightarrow> failover_request \<Rightarrow> objection + attempt_record \<times> target_record" where
  "resumable im runtime request =
    (let service = str (fq_service request) in
     if sv_recovery runtime \<noteq> RecoveryPhase_IntentRecorded
     then Inl (None, R_NoFailoverInProgress, service, txt_no_restart_downgraded_attempt_is_waiting_for, 0)
     else if \<not> role_satisfies im (fq_requester request) SourceRole_Operator
     then Inl (None, R_NoAuthority, service, txt_resuming_recovery_requires_an_enrolled_operator, 0)
     else case current_attempt_record runtime of
       None \<Rightarrow> Inl (None, R_NoFailoverInProgress, service, txt_the_downgraded_attempt_record_is_missing, 0)
     | Some previous \<Rightarrow>
     case target_of im (tg_target (ar_to previous)) of
       None \<Rightarrow> Inl (None, R_UnknownTarget, service, txt_the_planned_fallback_target_is_no_longer, 0)
     | Some to \<Rightarrow>
     if tr_incarnation to \<noteq> tg_incarnation (ar_to previous)
     then Inl (None, R_IncarnationMismatch, service,
       txt_the_planned_fallback_target_has_been_re_adopted, 0)
     else let reject = evaluate_candidate im runtime to in
     if reject \<noteq> R_Ok then Inl (None, reject, service, txt_the_planned_fallback_target_is_no_longer_eligible, 0)
     else Inr (previous, to))"

definition do_resume :: "service_runtime \<Rightarrow> failover_request \<Rightarrow> explanation \<Rightarrow> impl \<Rightarrow> decision" where
  "do_resume runtime request e im =
    (let service = fq_service request in
     case resumable im runtime request of
       Inl ob \<Rightarrow> refuse_failover ob service e im
     | Inr (previous, to) \<Rightarrow>
     case commit_recovery request runtime to (ar_from previous) R_AcceptRecoveryReissueSameFence Resume_Mode
         (note_step R_AcceptRecoveryReissueSameFence (str (tr_name to))
            txt_re_issuing_the_persisted_attempt_under_the_new (gen_value (ar_fence previous)) e)
         (in_state (bump sa_recovery_reissues_update) im) of ((result, e1), im1) \<Rightarrow>
     if cr_code result \<noteq> R_Ok
     then refuse_failover (Some sa_failovers_refused_update, cr_code result, str service,
       txt_the_re_issued_recovery_was_refused, 0) service e1 im1
     else accepted R_AcceptIntentEmitted None result e1 im1)"

text \<open>What the evidence of a request must satisfy under the current authority.\<close>

definition evidence_objections ::
  "impl \<Rightarrow> service_runtime \<Rightarrow> failover_request \<Rightarrow> failure_evidence \<Rightarrow> (bool \<times> objection) list" where
  "evidence_objections im runtime request ev =
    (let s = im_state im; p = fe_provenance ev; service = str (fq_service request);
         age = tick_value (st_tick s) - tick_value (pv_tick p) in
     [(fe_service ev \<noteq> fq_service request,
       (None, R_EvidenceIncomplete, service, txt_evidence_names_a_different_service, 0)),
      (sv_active runtime = None,
       (None, R_InvalidState, service, txt_service_has_no_active_placement_to_recover_from, 0)),
      (sv_active runtime \<noteq> Some (fe_target ev),
       (None, R_EvidenceTargetMismatch, service, txt_evidence_does_not_name_the_current_active, 0)),
      (pv_epoch p \<noteq> st_epoch s,
       (None, R_AuthoritySuperseded, service, txt_evidence_was_accepted_under_a_previous,
        gen_value (pv_epoch p))),
      (pv_boot p \<noteq> st_boot s,
       (None, R_BootMismatch, service, txt_evidence_was_accepted_during_a_previous_boot, gen_value (pv_boot p))),
      (pv_tick p > st_tick s,
       (None, R_ImpossibleValue, service, txt_evidence_carries_a_future_logical_tick, 0)),
      (age > ucast (pd_evidence_max_age_ticks (st_policy s)),
       (Some sa_evidence_rejected_stale_update, R_EvidenceStale, service,
        txt_evidence_is_older_than_the_policy_freshness_bound, age)),
      (fe_topology_generation ev \<noteq> st_topology_generation s,
       (None, R_EvidenceTopologyMismatch, service, txt_evidence_was_observed_under_a_different_topology,
        gen_value (fe_topology_generation ev))),
      (fe_policy_generation ev > st_policy_generation s,
       (None, R_FutureGeneration, service, txt_evidence_cites_a_policy_generation_newer_than_the,
        gen_value (fe_policy_generation ev)))])"

text \<open>Why a recovery may proceed: a refusal, ambiguous evidence, or a qualified trigger with its code.\<close>

datatype (plugins only: code) gate =
  Gate_Refused objection | Gate_Ambiguous failure_evidence | Gate_Qualified "failure_evidence option" reason

definition recovery_gate :: "impl \<Rightarrow> service_runtime \<Rightarrow> failover_request \<Rightarrow> gate" where
  "recovery_gate im runtime request =
    (let service = str (fq_service request) in
     if fq_trigger request = RecoveryTrigger_FailureEvidence then
       if is_nil (fq_evidence request) then
         (if (case sv_active runtime of None \<Rightarrow> False | Some a \<Rightarrow> target_of im (tg_target a) = None)
          then Gate_Refused (None, R_TargetDisappearanceIsNotPermission, service,
            txt_the_active_target_is_absent_from_topology_but, 0)
          else Gate_Refused (None, R_EvidenceMissing, service,
            txt_no_failure_evidence_was_supplied_for_this, 0))
       else case failure_of im (fq_evidence request) of
         None \<Rightarrow> Gate_Refused (None, R_EvidenceMissing, service,
           txt_the_referenced_failure_evidence_is_not_retained, id_value (fq_evidence request))
       | Some ev \<Rightarrow>
       case first_objection (evidence_objections im runtime request ev) of
         Some ob \<Rightarrow> Gate_Refused ob
       | None \<Rightarrow>
       if fe_ambiguity ev \<noteq> AmbiguityState_Unambiguous then Gate_Ambiguous ev
       else Gate_Qualified (Some ev)
         (if fe_failure_class ev = FailureClass_OperatorDeclared then R_AcceptQualifiedPlannedRecovery
          else R_AcceptQualifiedPrimaryFailure)
     else if \<not> fq_operator_authorized request
     then Gate_Refused (None, R_NoAuthority, service,
       txt_planned_or_operator_triggered_recovery_requires, 0)
     else if \<not> role_satisfies im (fq_requester request) SourceRole_Operator
     then Gate_Refused (None, R_NoAuthority, service, txt_requester_is_not_an_enrolled_operator, 0)
     else Gate_Qualified None R_AcceptQualifiedPlannedRecovery)"

text \<open>Ambiguous evidence marks the service in memory and refuses.\<close>

definition ambiguity_marked :: "evidence_id \<Rightarrow> service_runtime \<Rightarrow> service_runtime" where
  "ambiguity_marked i sv = (invalidate_verification (sv\<lparr>sv_ambiguity_pending := True, sv_pending_ambiguity := i,
    sv_recovery := RecoveryPhase_AmbiguityPending, sv_lifecycle := LifecyclePhase_RecoveryPending\<rparr>))
    \<lparr>sv_last_reason := R_AmbiguityUnresolved\<rparr>"

definition refuse_ambiguous :: "failure_evidence \<Rightarrow> service_name \<Rightarrow> explanation \<Rightarrow> impl \<Rightarrow> decision" where
  "refuse_ambiguous ev service e im =
    refuse_failover (None, R_AmbiguityUnresolved, str service,
        txt_the_failure_evidence_is_ambiguous_and_cannot, id_value (fe_id ev)) service
      (note_step R_AmbiguityDualActiveRisk (str service)
        txt_activating_a_replacement_while_the_previous 0 e)
      (in_state (\<lambda>s. bump sa_ambiguity_pending_update (change_service service (ambiguity_marked (fe_id ev)) s)) im)"

text \<open>From a qualified trigger to the commit.\<close>

definition do_recover ::
  "service_runtime \<Rightarrow> failover_request \<Rightarrow> failure_evidence option \<Rightarrow> reason \<Rightarrow> explanation \<Rightarrow> impl \<Rightarrow> decision" where
  "do_recover runtime request evidence trigger e im =
    (let service = fq_service request; name = str service in
     if ps_contains (sd_preconditions (sv_descriptor runtime)) Precondition_OperatorAuthorization \<and>
        \<not> fq_operator_authorized request
     then refuse_failover (None, R_NoAuthority, name,
       txt_the_service_requires_explicit_operator, 0) service e im
     else let e1 = (case evidence of
         Some ev \<Rightarrow> note_step trigger name txt_failure_evidence_qualified (id_value (fe_id ev)) e
       | None \<Rightarrow> note_step trigger name txt_authorized_non_evidence_trigger 0 e) in
     case qualify_dependencies runtime e1 im of ((dependency, e2), im1) \<Rightarrow>
     if dependency \<noteq> R_Ok
     then refuse_failover (None, dependency, name,
       txt_a_hard_dependency_is_not_satisfied_by_current, 0) service e2 im1
     else let from' = value_or (sv_active runtime) default_target_ref in
     case select_fallback runtime from' e2 im1 of
       ((code, None, e3), im2) \<Rightarrow>
         refuse_failover (None, code, name,
           txt_no_eligible_fallback_satisfies_scope_fence, 0) service e3 im2
     | ((code, Some chosen, e3), im2) \<Rightarrow>
     case commit_recovery request runtime chosen from' trigger Failover_Mode
         (note_step R_AcceptFallbackCapabilityCompatible (str (tr_name chosen))
           txt_fallback_capability_set_covers_the_required_set
           (case capability_of im2 (tr_name chosen) of None \<Rightarrow> 0
            | Some slot \<Rightarrow> gen_value (ce_generation (cp_evidence slot))) e3) im2 of ((result, e4), im3) \<Rightarrow>
     if cr_code result \<noteq> R_Ok
     then (case refuse_failover (Some sa_failovers_refused_update, cr_code result, name,
             txt_the_recovery_commit_was_refused, 0) service e4 im3 of (refused, im4) \<Rightarrow>
           (refused\<lparr>dc_plan := cr_plan result\<rparr>, im4))
     else accepted R_AcceptIntentEmitted (Some sa_failovers_accepted_update) result e4 im3)"

definition do_request_failover :: "failover_request \<Rightarrow> bool \<Rightarrow> impl \<Rightarrow> decision" where
  "do_request_failover request resume im =
    (let service = fq_service request; name = str service; e = begin_explanation service (fq_key request) im in
     if \<not> im_opened im then refusal_simple e R_ShuttingDown im
     else case cached (fq_key request) im of
       Some entry \<Rightarrow> replay_cached entry e request im
     | None \<Rightarrow>
     case service_of im service of
       None \<Rightarrow> refusal e R_UnknownService name txt_service_is_not_registered 0 im
     | Some runtime \<Rightarrow>
     if sv_lifecycle runtime = LifecyclePhase_Withdrawn
     then refuse_failover (None, R_ServiceStateIncompatible, name, txt_service_is_withdrawn, 0) service e im
     else if resume then do_resume runtime request e im
     else if sv_lifecycle runtime = LifecyclePhase_RecoveryAuthorized \<or> sv_lifecycle runtime = LifecyclePhase_RecoveryInFlight
     then refuse_failover (None, R_FailoverAlreadyInProgress, name,
       txt_a_recovery_attempt_is_already_authorized_for_this, 0) service e im
     else if sv_attempts_since_verified runtime \<ge> pd_max_attempts_per_generation (st_policy (im_state im))
     then refuse_failover (None, R_AttemptBudgetExhausted, name,
       txt_the_policy_attempt_ceiling_was_reached_without_a, ucast (sv_attempts_since_verified runtime))
       service e im
     else case recovery_gate im runtime request of
       Gate_Refused ob \<Rightarrow> refuse_failover ob service e im
     | Gate_Ambiguous ev \<Rightarrow> refuse_ambiguous ev service e im
     | Gate_Qualified evidence trigger \<Rightarrow> do_recover runtime request evidence trigger e im)"

subsection \<open>Ambiguity\<close>

definition resolution_objections ::
  "impl \<Rightarrow> service_runtime \<Rightarrow> ambiguity_resolution \<Rightarrow> (bool \<times> objection) list" where
  "resolution_objections im runtime resolution =
    (let service = str (am_service resolution) in
     [(\<not> role_satisfies im (am_resolved_by resolution) SourceRole_Operator,
       (Some sa_evidence_rejected_unauthorized_update, R_NoAuthority, str (am_resolved_by resolution),
        txt_ambiguity_resolution_requires_an_enrolled, 0)),
      (\<not> sv_ambiguity_pending runtime,
       (None, R_AmbiguityAlreadyResolved, service, txt_no_ambiguous_outcome_is_pending, 0)),
      (am_evidence resolution \<noteq> sv_pending_ambiguity runtime,
       (None, R_EvidenceIncomplete, service, txt_resolution_does_not_name_the_pending_ambiguous,
        id_value (sv_pending_ambiguity runtime))),
      (failure_of im (am_evidence resolution) = None,
       (None, R_EvidenceMissing, service, txt_the_pending_ambiguous_evidence_is_no_longer, 0))])"

text \<open>A change of one runtime without a fence, made durable as one record. The stamp and the new
  runtime are stored only after the commit.\<close>

definition plain_change :: "service_name \<Rightarrow> service_runtime \<Rightarrow> runtime_change" where
  "plain_change service sv = \<lparr>rx_service = service, rx_runtime = sv, rx_fence = default_fence_record,
    rx_has_fence = False, rx_witnesses = []\<rparr>"

definition store_runtime :: "service_name \<Rightarrow> service_runtime \<Rightarrow> logical_tick \<Rightarrow> state \<Rightarrow> state" where
  "store_runtime service sv stamp s = s\<lparr>st_tick := stamp, st_services := omap_put service sv (st_services s)\<rparr>"

text \<open>A decision that carries no plan and no intent.\<close>

definition concluded :: "reason \<Rightarrow> bool \<Rightarrow> bool \<Rightarrow> explanation \<Rightarrow> impl \<Rightarrow> decision" where
  "concluded outcome accept duplicate e im =
    (default_recovery_decision\<lparr>dc_outcome := outcome, dc_accepted := accept, dc_duplicate := duplicate,
       dc_explanation := e\<rparr>, record_explanation e im)"

definition declared_alive :: "logical_tick \<Rightarrow> service_runtime \<Rightarrow> service_runtime" where
  "declared_alive stamp sv = sv\<lparr>sv_ambiguity_pending := False, sv_pending_ambiguity := nil_id,
    sv_recovery := RecoveryPhase_Refused, sv_lifecycle := LifecyclePhase_Failed,
    sv_continuity := ContinuityClass_None, sv_last_change := stamp,
    sv_last_reason := R_AcceptAmbiguityResolvedNoFailover\<rparr>"

definition resolve_no_failover ::
  "service_runtime \<Rightarrow> service_name \<Rightarrow> logical_tick \<Rightarrow> explanation \<Rightarrow> impl \<Rightarrow> decision" where
  "resolve_no_failover runtime service stamp e im =
    (let next = declared_alive stamp runtime; name = str service in
     case persist [make_record AmbiguityResolved (encode_runtime_change (plain_change service next))] im of (code, im1) \<Rightarrow>
     if code \<noteq> R_Ok then refusal e code name txt_durable_commit_failed 0 im1
     else case rotate_if_due (in_state (\<lambda>s. bump sa_ambiguity_resolved_update (store_runtime service next stamp s)) im1) of
       (compacted, im2) \<Rightarrow>
     if compacted \<noteq> R_Ok then refusal e compacted name txt_compaction_failed 0 im2
     else concluded R_AcceptAmbiguityResolvedNoFailover True False
       (note_step R_AcceptAmbiguityResolvedNoFailover name
         txt_operator_declared_the_target_alive_no_replacement 0
         (e\<lparr>ex_outcome := R_AcceptAmbiguityResolvedNoFailover, ex_accepted := True\<rparr>)) im2)"

text \<open>The evidence is promoted and the ordinary request follows; the note is made on an explanation
  that is dropped.\<close>

definition resolution_request :: "ambiguity_resolution \<Rightarrow> failover_request" where
  "resolution_request resolution =
    \<lparr>fq_key = am_key resolution, fq_service = am_service resolution,
     fq_trigger = (if am_confirm_failure resolution then RecoveryTrigger_FailureEvidence
                   else RecoveryTrigger_OperatorCommand),
     fq_evidence = am_evidence resolution, fq_requester = am_resolved_by resolution,
     fq_operator_authorized = am_confirm_failure resolution\<rparr>"

definition ambiguity_cleared :: "service_runtime \<Rightarrow> service_runtime" where
  "ambiguity_cleared sv = sv\<lparr>sv_ambiguity_pending := False, sv_pending_ambiguity := nil_id\<rparr>"

definition promoted :: "failure_evidence \<Rightarrow> failure_evidence" where
  "promoted ev = ev\<lparr>fe_ambiguity := AmbiguityState_Unambiguous, fe_content_digest := zero_digest\<rparr>"

definition resolve_confirmed ::
  "failure_evidence \<Rightarrow> ambiguity_resolution \<Rightarrow> logical_tick \<Rightarrow> explanation \<Rightarrow> impl \<Rightarrow> decision" where
  "resolve_confirmed evidence resolution stamp e im =
    (let service = am_service resolution in
     case persist [make_record FailureIngested (encode_failure_evidence (promoted evidence))] im of (code, im1) \<Rightarrow>
     if code \<noteq> R_Ok then refusal e code (str service) txt_durable_commit_failed 0 im1
     else do_request_failover (resolution_request resolution) False
       (in_state (\<lambda>s. bump sa_ambiguity_resolved_update
         (change_service service ambiguity_cleared (s\<lparr>st_tick := stamp, st_failures := omap_put (fe_id evidence) (promoted evidence) (st_failures s)\<rparr>))) im1))"

definition do_resolve_ambiguity :: "ambiguity_resolution \<Rightarrow> impl \<Rightarrow> decision" where
  "do_resolve_ambiguity resolution im =
    (let service = am_service resolution; e = begin_explanation service (am_key resolution) im in
     if \<not> im_opened im then refusal_simple e R_ShuttingDown im
     else case cached (am_key resolution) im of
       Some entry \<Rightarrow> replay_cached entry e (keyed (am_key resolution) service) im
     | None \<Rightarrow>
     case service_of im service of
       None \<Rightarrow> refusal e R_UnknownService (str service) txt_service_is_not_registered 0 im
     | Some runtime \<Rightarrow>
     case first_objection (resolution_objections im runtime resolution) of
       Some ob \<Rightarrow> refuse_with ob e im
     | None \<Rightarrow>
     case failure_of im (am_evidence resolution) of
       None \<Rightarrow> refusal e R_EvidenceMissing (str service) txt_the_pending_ambiguous_evidence_is_no_longer 0 im
     | Some evidence \<Rightarrow>
     case peek_tick im of
       None \<Rightarrow> refusal e R_GenerationExhausted (str service) txt_logical_tick_exhausted 0 im
     | Some stamp \<Rightarrow>
     if \<not> am_confirm_failure resolution then resolve_no_failover runtime service stamp e im
     else resolve_confirmed evidence resolution stamp e im)"

subsection \<open>Failback\<close>

definition original_capability_objections ::
  "impl \<Rightarrow> service_runtime \<Rightarrow> string \<Rightarrow> target_name \<Rightarrow> target_incarnation \<Rightarrow> (bool \<times> objection) list" where
  "original_capability_objections im runtime name target incarnation =
    (case capability_of im target of
       None \<Rightarrow> [(True, (None, R_FallbackUnsupported, name,
                  txt_no_capability_evidence_is_retained_for_the, 0))]
     | Some slot \<Rightarrow>
       let ev = cp_evidence slot in
       [(cp_requires_reconfirmation slot \<or> ce_topology_generation ev \<noteq> st_topology_generation (im_state im) \<or>
         ce_incarnation ev \<noteq> incarnation,
         (None, R_FallbackCapabilityGenerationStale, name,
          txt_capability_evidence_for_the_original_target_is, 0)),
        (is_initial (sv_pre_failover_capability runtime) \<or> ce_generation ev \<le> sv_pre_failover_capability runtime,
         (None, R_FailbackStaleGeneration, name,
          txt_failback_would_reuse_the_capability_generation,
          gen_value (sv_pre_failover_capability runtime))),
        (\<not> contains_all (ce_capabilities ev) (sd_required_capabilities (sv_descriptor runtime)),
         (None, R_FallbackIncompatible, name,
          txt_the_original_target_no_longer_supports_the, 0))])"

text \<open>The gates of a failback: the original target as it is registered now, or the refusal.\<close>

definition failback_gate :: "impl \<Rightarrow> service_runtime \<Rightarrow> failback_request \<Rightarrow> objection + target_record" where
  "failback_gate im runtime request =
    (let s = im_state im; name = str (bq_service request) in
     if \<not> pd_allow_failback (st_policy s)
     then Inl (None, R_FailbackNotEligible, name, txt_the_current_policy_does_not_permit_failback, 0)
     else case (if sv_failover_recorded runtime then sv_pre_failover_target runtime else None) of
       None \<Rightarrow> Inl (None, R_FailbackNoFailoverRecorded, name, txt_no_failover_was_recorded_for_this_service, 0)
     | Some original \<Rightarrow>
     if bq_observed_topology_generation request \<noteq> st_topology_generation s
     then Inl (None, R_FailbackStaleGeneration, name,
       txt_the_request_cites_a_topology_generation_that_is, gen_value (st_topology_generation s))
     else if bq_observed_policy_generation request \<noteq> st_policy_generation s
     then Inl (None, R_FailbackStaleGeneration, name,
       txt_the_request_cites_a_policy_generation_that_is_not, gen_value (st_policy_generation s))
     else if bq_preferred_target request \<noteq> tg_target original
     then Inl (None, R_FailbackNotEligible, name,
       txt_the_preferred_target_is_not_the_recorded_pre, 0)
     else case target_of im (tg_target original) of
       None \<Rightarrow> Inl (None, R_FailbackOriginalUnavailable, name, txt_the_original_target_is_no_longer_registered, 0)
     | Some record' \<Rightarrow>
     if tr_incarnation record' \<le> tg_incarnation original
     then Inl (None, R_FailbackOriginalFenceStale, name,
       txt_the_original_target_has_not_been_re_adopted_at_a, gen_value (ti_host (tg_incarnation original)))
     else case first_objection (original_capability_objections im runtime name (tg_target original) (tr_incarnation record') @
       [(sv_lifecycle runtime = LifecyclePhase_RecoveryAuthorized \<or> sv_lifecycle runtime = LifecyclePhase_RecoveryInFlight,
         (None, R_FailbackInProgress, name, txt_a_recovery_attempt_is_already_authorized, 0))]) of
       Some ob \<Rightarrow> Inl ob
     | None \<Rightarrow> Inr record')"

definition refuse_failback :: "objection \<Rightarrow> explanation \<Rightarrow> impl \<Rightarrow> decision" where
  "refuse_failback ob e im = refuse_with ob e (in_state (bump sa_failbacks_refused_update) im)"

text \<open>The origin of the failover is forgotten in memory, after the commit.\<close>

definition origin_forgotten :: "service_runtime \<Rightarrow> service_runtime" where
  "origin_forgotten sv = sv\<lparr>sv_pre_failover_target := None, sv_failover_recorded := False\<rparr>"

definition do_request_failback :: "failback_request \<Rightarrow> impl \<Rightarrow> decision" where
  "do_request_failback request im =
    (let service = bq_service request; name = str service; e = begin_explanation service (bq_key request) im in
     if \<not> im_opened im then refusal_simple e R_ShuttingDown im
     else case cached (bq_key request) im of
       Some entry \<Rightarrow> replay_cached entry e (keyed (bq_key request) service) im
     | None \<Rightarrow>
     case service_of im service of
       None \<Rightarrow> refusal e R_UnknownService name txt_service_is_not_registered 0 im
     | Some runtime \<Rightarrow>
     case failback_gate im runtime request of
       Inl ob \<Rightarrow> refuse_failback ob e im
     | Inr record' \<Rightarrow>
     case qualify_dependencies runtime e im of ((dependency, e1), im1) \<Rightarrow>
     if dependency \<noteq> R_Ok
     then refuse_failback (None, dependency, name, txt_a_hard_dependency_is_not_satisfied, 0) e1 im1
     else let e2 = note_step R_AcceptFailbackGenerationFresh (str (tr_name record'))
            txt_original_target_re_adopted_at_a_newer_incarnation
            (case capability_of im (bq_preferred_target request) of None \<Rightarrow> 0
             | Some slot \<Rightarrow> gen_value (ce_generation (cp_evidence slot))) e1 in
     case commit_recovery
         \<lparr>fq_key = bq_key request, fq_service = service, fq_trigger = RecoveryTrigger_OperatorCommand,
          fq_evidence = nil_id, fq_requester = bq_requester request, fq_operator_authorized = True\<rparr>
         runtime record' (value_or (sv_active runtime) default_target_ref) R_AcceptFailbackGenerationFresh
         Failover_Mode e2 im1 of ((result, e3), im2) \<Rightarrow>
     if cr_code result \<noteq> R_Ok
     then refuse_failback (None, cr_code result, name, txt_the_failback_commit_was_refused, 0) e3 im2
     else accepted R_AcceptFailbackGenerationFresh (Some sa_failbacks_accepted_update) result e3
       (in_state (change_service service origin_forgotten) im2))"

subsection \<open>Acknowledgement\<close>

text \<open>The first service, in name order, whose current attempt is the one named.\<close>

definition attempt_owner :: "impl \<Rightarrow> attempt_id \<Rightarrow> service_runtime option" where
  "attempt_owner im i = find (\<lambda>sv. sv_current_attempt sv = i) (map snd (entries (st_services (im_state im))))"

definition acknowledged :: "intent_ack \<Rightarrow> logical_tick \<Rightarrow> service_runtime \<Rightarrow> service_runtime" where
  "acknowledged ack stamp runtime =
    (if ia_accepted ack then
       (update_current_attempt (\<lambda>a. a\<lparr>ar_acknowledged := True,
          ar_outcome := (if ar_outcome a = AttemptOutcome_Committed then AttemptOutcome_Acknowledged else ar_outcome a)\<rparr>)
          runtime)
       \<lparr>sv_recovery := (if sv_recovery runtime \<noteq> RecoveryPhase_Verified \<and> sv_recovery runtime \<noteq> RecoveryPhase_EffectReported
          then RecoveryPhase_ActivationRequested else sv_recovery runtime),
        sv_last_reason := R_AcceptIntentEmitted, sv_last_change := stamp\<rparr>
     else
       (invalidate_verification ((update_current_attempt (\<lambda>a. a\<lparr>ar_acknowledged := True,
          ar_outcome := AttemptOutcome_Refused, ar_last_reason := R_TransitionRefused\<rparr>) runtime)
       \<lparr>sv_recovery := RecoveryPhase_Refused, sv_lifecycle := LifecyclePhase_Failed,
        sv_last_reason := R_TransitionRefused\<rparr>))\<lparr>sv_last_change := stamp\<rparr>)"

definition acknowledgement_objections :: "service_runtime \<Rightarrow> intent_ack \<Rightarrow> (bool \<times> objection) list" where
  "acknowledgement_objections runtime ack =
    (let name = str (sd_name (sv_descriptor runtime)) in
     [(ia_generation ack \<noteq> sv_generation runtime,
       (None, R_SupersededGeneration, name, txt_the_acknowledgement_cites_a_superseded_failover, 0)),
      (ia_fence ack < sv_fence runtime,
       (None, R_FenceStale, name, txt_the_acknowledgement_cites_a_stale_durable_fence, gen_value (sv_fence runtime))),
      (ia_fence ack > sv_fence runtime,
       (None, R_FenceRegression, name, txt_the_acknowledgement_cites_a_fence_this_runtime, 0)),
      (current_attempt_record runtime = None,
       (None, R_NoFailoverInProgress, name, txt_the_attempt_record_is_missing, 0)),
      (case current_attempt_record runtime of None \<Rightarrow> False | Some a \<Rightarrow> ar_acknowledged a,
       (None, R_AcceptDuplicateIdempotent, name, txt_the_attempt_was_already_acknowledged, 0))])"

definition do_acknowledge_intent :: "intent_ack \<Rightarrow> impl \<Rightarrow> decision" where
  "do_acknowledge_intent ack im =
    (let e = begin_explanation empty_name (ia_key ack) im; s = im_state im in
     if \<not> im_opened im then refusal_simple e R_ShuttingDown im
     else case attempt_owner im (ia_attempt ack) of
       None \<Rightarrow> refusal e R_NoFailoverInProgress [] txt_no_attempt_matches_the_acknowledgement (id_value (ia_attempt ack)) im
     | Some runtime \<Rightarrow>
     let service = sd_name (sv_descriptor runtime); name = str service;
         e1 = e\<lparr>ex_service := service, ex_epoch := st_epoch s, ex_policy_generation := st_policy_generation s,
                ex_topology_generation := st_topology_generation s, ex_failover_generation := sv_generation runtime,
                ex_fence := sv_fence runtime\<rparr> in
     case first_objection (acknowledgement_objections runtime ack) of
       Some ob \<Rightarrow> refuse_with ob e1 im
     | None \<Rightarrow>
     case peek_tick im of
       None \<Rightarrow> refusal e1 R_GenerationExhausted name txt_logical_tick_exhausted 0 im
     | Some stamp \<Rightarrow>
     let next = acknowledged ack stamp runtime in
     case persist [make_record AttemptAcknowledged (encode_runtime_change (plain_change service next))] im of (code, im1) \<Rightarrow>
     if code \<noteq> R_Ok then refusal e1 code name txt_durable_commit_failed 0 im1
     else case rotate_if_due (in_state (store_runtime service next stamp) im1) of (compacted, im2) \<Rightarrow>
     if compacted \<noteq> R_Ok then refusal e1 compacted name txt_compaction_failed 0 im2
     else let outcome = (if ia_accepted ack then R_AcceptIntentEmitted else R_TransitionRefused) in
       concluded outcome (ia_accepted ack) False
         (note_step outcome (str (ia_executor ack))
           (if ia_accepted ack then txt_executor_accepted_the_governed_intent else txt_executor_refused_the_governed_intent) 0
           (e1\<lparr>ex_outcome := outcome, ex_accepted := ia_accepted ack\<rparr>)) im2)"

subsection \<open>Effect reports\<close>

definition effect_objections :: "impl \<Rightarrow> service_runtime \<Rightarrow> effect_report \<Rightarrow> (bool \<times> objection) list" where
  "effect_objections im runtime report =
    (let s = im_state im; p = er_provenance report; name = str (er_service report); target = tg_target (er_target report) in
     [(cf_require_enrolled_effect_reporter (im_config im) \<and> \<not> role_satisfies im (pv_source p) SourceRole_EffectReporter,
       (Some sa_evidence_rejected_unauthorized_update, R_EffectReporterUnauthorized, name,
        txt_source_is_not_an_enrolled_effect_reporter, 0)),
      (pv_epoch p \<noteq> st_epoch s,
       (None, R_AuthoritySuperseded, name, txt_the_effect_was_reported_under_a_previous,
        gen_value (pv_epoch p))),
      (pv_boot p \<noteq> st_boot s,
       (None, R_BootMismatch, name, txt_the_effect_was_reported_during_a_previous_boot, gen_value (pv_boot p))),
      (is_nil (sv_current_attempt runtime),
       (None, R_NoFailoverInProgress, name, txt_no_recovery_attempt_is_outstanding, 0)),
      (er_attempt report \<noteq> sv_current_attempt runtime,
       (None, R_EffectAttemptMismatch, name, txt_the_effect_names_a_different_attempt,
        id_value (sv_current_attempt runtime))),
      (er_generation report \<noteq> sv_generation runtime,
       (None, R_SupersededGeneration, name, txt_the_effect_cites_a_superseded_generation,
        gen_value (sv_generation runtime))),
      (er_fence report < sv_fence runtime,
       (None, R_FenceStale, name, txt_the_effect_cites_a_stale_durable_fence, gen_value (sv_fence runtime))),
      (er_fence report > sv_fence runtime,
       (None, R_FenceRegression, name, txt_the_effect_cites_a_fence_never_minted_here, 0)),
      (case sv_fallback runtime of None \<Rightarrow> True | Some f \<Rightarrow> target \<noteq> tg_target f,
       (None, R_EffectMismatch, name, txt_the_effect_names_a_target_that_is_not_the_planned, 0)),
      (target_of im target = None,
       (None, R_UnknownTarget, name, txt_the_effect_names_an_unregistered_target, 0)),
      (case target_of im target of None \<Rightarrow> False | Some t \<Rightarrow> tr_incarnation t \<noteq> tg_incarnation (er_target report),
       (None, R_IncarnationMismatch, name, txt_the_effect_names_an_incarnation_that_is_not, 0)),
      (sv_fallback runtime \<noteq> Some (er_target report),
       (None, R_EffectMismatch, name,
        txt_the_effect_names_an_incarnation_that_was_never, 0))])"

definition refuse_effect :: "objection \<Rightarrow> explanation \<Rightarrow> impl \<Rightarrow> decision" where
  "refuse_effect ob e im = refuse_with ob e (in_state (bump sa_effects_refused_update) im)"

definition effect_seen :: "fabric_config \<Rightarrow> effect_id \<Rightarrow> logical_tick \<Rightarrow> service_runtime \<Rightarrow> service_runtime" where
  "effect_seen config i stamp sv =
    (let seen = sv_effects_seen sv @ [i]
     in sv\<lparr>sv_effects_seen := drop (length seen - cf_max_attempt_history config) seen, sv_last_change := stamp\<rparr>)"

text \<open>The continuity a healthy report earns.\<close>

definition earned_continuity :: "policy_descriptor \<Rightarrow> service_runtime \<Rightarrow> continuity_class \<times> reason" where
  "earned_continuity policy runtime =
    (if sd_statefulness (sv_descriptor runtime) = Statefulness_Stateless \<or> sv_state_transfer_verified runtime
     then (ContinuityClass_Full, R_AcceptContinuityVerified)
     else if pd_allow_degraded_continuity policy
     then (ContinuityClass_Degraded, R_AcceptContinuityDegradedStateful)
     else (ContinuityClass_None, R_ContinuityNotVerified))"

text \<open>The outcome of a report and the runtime after it, or the refusal.\<close>

definition effect_outcome ::
  "policy_descriptor \<Rightarrow> service_runtime \<Rightarrow> service_runtime \<Rightarrow> effect_report \<Rightarrow> objection + reason \<times> service_runtime" where
  "effect_outcome policy runtime next report =
    (let name = str (er_service report) in
     if er_result report = EffectResult_Negative
     then Inr (R_EffectNegative, invalidate_verification (next\<lparr>sv_last_reason := R_EffectNegative,
       sv_recovery := RecoveryPhase_EffectReported, sv_lifecycle := LifecyclePhase_Failed\<rparr>))
     else case er_kind report of
       EffectKind_ActivationAccepted \<Rightarrow>
         Inr (R_AcceptEffectVerified, next\<lparr>sv_activation_accepted := True, sv_recovery := RecoveryPhase_EffectReported,
           sv_last_reason := R_AcceptEffectVerified\<rparr>)
     | EffectKind_DeactivationAcknowledged \<Rightarrow>
         Inr (R_AcceptEffectVerified, next\<lparr>sv_recovery := RecoveryPhase_EffectReported,
           sv_last_reason := R_AcceptEffectVerified\<rparr>)
     | EffectKind_StateTransferComplete \<Rightarrow>
         if er_state_generation report < sd_last_known_state_generation (sv_descriptor runtime)
         then Inl (None, R_StateGenerationStale, name,
           txt_the_transferred_state_generation_is_older_than,
           gen_value (sd_last_known_state_generation (sv_descriptor runtime)))
         else Inr (R_AcceptStateTransferVerified, next\<lparr>sv_state_transfer_verified := True,
           sv_last_reason := R_AcceptStateTransferVerified\<rparr>)
     | EffectKind_ServiceHealthy \<Rightarrow>
         if \<not> sv_activation_accepted runtime
         then Inl (None, R_EffectUnverified, name,
           txt_a_healthy_report_is_not_sufficient_without_a, 0)
         else case earned_continuity policy runtime of (continuity, outcome) \<Rightarrow>
           Inr (outcome, next\<lparr>sv_effect_verified := True, sv_recovery := RecoveryPhase_Verified,
             sv_lifecycle := LifecyclePhase_FallbackActive, sv_attempts_since_verified := 0,
             sv_continuity := continuity, sv_last_reason := outcome\<rparr>))"

definition apply_effect :: "effect_report \<Rightarrow> service_runtime \<Rightarrow> logical_tick \<Rightarrow> state \<Rightarrow> state" where
  "apply_effect report next stamp s =
    (let s1 = store_runtime (er_service report) next stamp s in
     if er_result report = EffectResult_Negative then bump sa_effects_refused_update s1
     else let s2 = bump sa_effects_accepted_update s1
          in if sv_effect_verified next then bump sa_effects_verified_update s2 else s2)"

definition conclude_effect :: "effect_report \<Rightarrow> reason \<Rightarrow> service_runtime \<Rightarrow> explanation \<Rightarrow> impl \<Rightarrow> decision" where
  "conclude_effect report outcome next e im =
    (let name = str (er_service report);
         accept = er_result report \<noteq> EffectResult_Negative \<and> sv_recovery next \<noteq> RecoveryPhase_None;
         e1 = e\<lparr>ex_outcome := outcome, ex_accepted := accept\<rparr>;
         e2 = (if sv_effect_verified next
               then e1\<lparr>ex_failover_generation := sv_generation next, ex_fence := sv_fence next\<rparr> else e1);
         e3 = note_step outcome name txt_effect_report_evaluated (id_value (er_id report)) e2;
         e4 = (if sv_effect_verified next \<and> sv_continuity next \<noteq> ContinuityClass_Full
               then note_step R_ContinuityNotVerified name
                 txt_continuity_is_not_claimed_at_the_full_class_for 0 e3 else e3)
     in concluded outcome accept False e4 im)"

definition do_report_effect :: "effect_report \<Rightarrow> impl \<Rightarrow> decision" where
  "do_report_effect report im =
    (let service = er_service report; name = str service; e = begin_explanation service nil_id im in
     if \<not> im_opened im then refusal_simple e R_ShuttingDown im
     else case service_of im service of
       None \<Rightarrow> refusal e R_UnknownService name txt_service_is_not_registered 0 im
     | Some runtime \<Rightarrow>
     case first_objection (effect_objections im runtime report) of
       Some ob \<Rightarrow> refuse_effect ob e im
     | None \<Rightarrow>
     if \<not> is_nil (er_id report) \<and> er_id report \<in> set (sv_effects_seen runtime)
     then concluded R_AcceptDuplicateIdempotent True True
       (note_step R_AcceptDuplicateIdempotent name txt_effect_report_already_applied (id_value (er_id report))
         (e\<lparr>ex_outcome := R_AcceptDuplicateIdempotent, ex_accepted := True\<rparr>))
       (in_state (bump sa_effect_reports_replayed_update) im)
     else if sv_recovery runtime = RecoveryPhase_Verified \<and> er_kind report \<noteq> EffectKind_ServiceHealthy
     then refuse_effect (None, R_EffectAlreadyVerified, name,
       txt_the_attempt_is_already_verified_no_further_effect, 0) e im
     else case peek_tick im of
       None \<Rightarrow> refuse_effect (None, R_GenerationExhausted, name, txt_logical_tick_exhausted, 0) e im
     | Some stamp \<Rightarrow>
     case effect_outcome (st_policy (im_state im)) runtime
         (effect_seen (im_config im) (er_id report) stamp runtime) report of
       Inl ob \<Rightarrow> refuse_effect ob e im
     | Inr (outcome, next) \<Rightarrow>
     if encoded (encode_runtime_change (plain_change service next)) = None
     then refuse_effect (None, R_Oversized, name, txt_effect_record_exceeded_the_configured_ceiling, 0) e im
     else case persist [make_record EffectRecorded (encode_runtime_change (plain_change service next))] im of (code, im1) \<Rightarrow>
     if code \<noteq> R_Ok then refuse_effect (None, code, name, txt_durable_commit_failed, 0) e im1
     else case rotate_if_due (in_state (apply_effect report next stamp) im1) of (compacted, im2) \<Rightarrow>
     if compacted \<noteq> R_Ok then refuse_effect (None, compacted, name, txt_compaction_failed, 0) e im2
     else conclude_effect report outcome next e im2)"

end
