(* ===== verification/Lifecycle.thy ===== *)
theory Lifecycle
  imports Decisions
begin

text \<open>
  Opening and closing the runtime, the conservative restart, the fence check, and the public
  operations of \<^verbatim>\<open>Fabric\<close>: each takes the mutex, so a call is one step on the runtime.
\<close>

subsection \<open>Restart\<close>

text \<open>The records up to the first that is refused; what was applied stays.\<close>

fun recover_from_store :: "fabric_config \<Rightarrow> jrecord list \<Rightarrow> state \<Rightarrow> reason \<times> state" where
  "recover_from_store config [] s = (R_Ok, s)"
| "recover_from_store config (r # rs) s =
    (case apply_record config r s of None \<Rightarrow> (R_StoreCorrupt, s) | Some s' \<Rightarrow> recover_from_store config rs s')"

definition outcome_unknown :: "attempt_record \<Rightarrow> bool" where
  "outcome_unknown a \<longleftrightarrow> ar_durable_committed a \<and> \<not> ar_acknowledged a"

definition downgrade_attempt :: "attempt_record \<Rightarrow> attempt_record" where
  "downgrade_attempt a =
    (if outcome_unknown a
     then a\<lparr>ar_outcome := AttemptOutcome_OutcomeUnknown, ar_restart_downgraded := True,
            ar_last_reason := R_RestartConservativeDowngrade\<rparr> else a)"

definition in_flight :: "recovery_phase \<Rightarrow> bool" where
  "in_flight p \<longleftrightarrow> p \<in> {RecoveryPhase_IntentRecorded, RecoveryPhase_Authorized, RecoveryPhase_ActivationRequested,
    RecoveryPhase_EffectReported}"

definition downgrade_runtime :: "service_runtime \<Rightarrow> service_runtime" where
  "downgrade_runtime sv =
    (let sv1 = sv\<lparr>sv_history := map downgrade_attempt (sv_history sv)\<rparr>;
         sv2 = (if in_flight (sv_recovery sv)
                then sv1\<lparr>sv_recovery := RecoveryPhase_IntentRecorded, sv_lifecycle := LifecyclePhase_RecoveryPending,
                         sv_last_reason := R_RestartConservativeDowngrade\<rparr>
                else if sv_recovery sv = RecoveryPhase_AmbiguityPending
                then sv1\<lparr>sv_lifecycle := LifecyclePhase_RecoveryPending, sv_last_reason := R_AmbiguityUnresolved\<rparr>
                else sv1)
     in sv2\<lparr>sv_activation_accepted := False, sv_effect_verified := False, sv_state_transfer_verified := False,
            sv_continuity := ContinuityClass_Unknown, sv_effects_seen := []\<rparr>)"

definition is_downgraded :: "service_runtime \<Rightarrow> bool" where
  "is_downgraded sv \<longleftrightarrow> list_ex outcome_unknown (sv_history sv) \<or> in_flight (sv_recovery sv) \<or>
    sv_recovery sv = RecoveryPhase_AmbiguityPending"

definition omap_values :: "('k::linorder, 'v) omap \<Rightarrow> 'v list" where
  "omap_values m = map snd (entries m)"

text \<open>The successor, or 1 when there is none.\<close>

definition next_or_one :: "'tag gen \<Rightarrow> 'tag gen" where
  "next_or_one g = (let n = value_or (gen_successor g) (Gen 1) in if is_initial n then Gen 1 else n)"

definition restarted_state :: "state \<Rightarrow> state" where
  "restarted_state s = s\<lparr>st_epoch := next_or_one (st_epoch s), st_boot := next_or_one (st_boot s),
    st_services := omap_map (\<lambda>_. downgrade_runtime) (st_services s),
    st_capabilities := omap_map (\<lambda>_ slot. slot\<lparr>cp_requires_reconfirmation := True\<rparr>) (st_capabilities s),
    st_dependencies := omap_map (\<lambda>_. omap_map (\<lambda>_ slot. slot\<lparr>dp_requires_reconfirmation := True\<rparr>)) (st_dependencies s)\<rparr>"

definition apply_restart_recovery :: "impl \<Rightarrow> impl" where
  "apply_restart_recovery im =
    (let s = im_state im; s' = restarted_state s; services = omap_values (st_services s)
     in im\<lparr>im_state := s', im_restart :=
          \<lparr>ru_store = ru_store (im_restart im), ru_previous_epoch = st_epoch s, ru_epoch = st_epoch s',
           ru_boot = st_boot s',
           ru_services_downgraded = of_nat (length (filter is_downgraded services)),
           ru_attempts_marked_unknown = of_nat (sum_list (map (\<lambda>sv. length (filter outcome_unknown (sv_history sv))) services)),
           ru_capability_evidence_invalidated = of_nat (omap_size (st_capabilities s)),
           ru_dependency_observations_invalidated = of_nat (sum_list (map omap_size (omap_values (st_dependencies s)))),
           ru_failure_evidence_invalidated = of_nat (omap_size (st_failures s)),
           ru_conservative = True\<rparr>\<rparr>)"

subsection \<open>Opening\<close>

definition fresh_state :: "fabric_config \<Rightarrow> state" where
  "fresh_state config =
    (let policy = (if valid_policy (cf_initial_policy config) then cf_initial_policy config else default_policy_descriptor)
     in default_state\<lparr>st_policy := policy, st_policy_generation := pd_generation policy, st_epoch := Gen 1,
          st_boot := Gen 1\<rparr>)"

definition open_options :: "fabric_config \<Rightarrow> string \<Rightarrow> store_options" where
  "open_options config directory = \<lparr>so_directory = directory, so_max_journal_bytes = cf_max_journal_bytes config,
    so_retained_generations = 4, so_max_record_payload_bytes = push_bit 20 1, so_read_only = False\<rparr>"

text \<open>The snapshot, when there is one, and whether it recovered anything.\<close>

definition load_state :: "fabric_config \<Rightarrow> bytes \<Rightarrow> state \<Rightarrow> reason + bool \<times> state" where
  "load_state config snapshot fresh =
    (if snapshot = [] then Inr (False, fresh)
     else case decode_state config (new_reader snapshot) of
       (None, r) \<Rightarrow> Inl (if \<not> rd_failed r then R_StoreCorrupt else rd_error r)
     | (Some loaded, r) \<Rightarrow> if \<not> at_end r then Inl R_StoreCorrupt else Inr (True, loaded))"

definition epoch_record :: "state \<Rightarrow> jrecord" where
  "epoch_record s = make_record EpochAdvanced (seq [put_u64 (gen_value (st_epoch s)), put_u64 (gen_value (st_boot s))])"

definition finish_open :: "bool \<Rightarrow> impl \<Rightarrow> reason \<times> impl" where
  "finish_open recovered im =
    (if \<not> recovered then (R_Ok, im\<lparr>im_opened := True\<rparr>)
     else let im1 = apply_restart_recovery im in
     case persist [epoch_record (im_state im1)] im1 of (code, im2) \<Rightarrow>
     if code \<noteq> R_Ok then (code, im2)
     else case rotate_if_due im2 of (compacted, im3) \<Rightarrow>
     if compacted \<noteq> R_Ok then (compacted, im3) else (R_Ok, im3\<lparr>im_opened := True\<rparr>))"

definition fabric_open :: "impl \<Rightarrow> reason \<times> impl" where
  "fabric_open im =
    (if im_opened im then (R_InvalidState, im)
     else let config = im_config im;
              im1 = im\<lparr>im_state := fresh_state config, im_explanations := el_clear (im_explanations im),
                       im_intents := iq_reopen (im_intents im), im_restart := default_restart_summary\<rparr> in
     case cf_store_directory config of
       None \<Rightarrow> (R_Ok, im1\<lparr>im_opened := True\<rparr>)
     | Some directory \<Rightarrow>
     case store_open (open_options config directory) (im_disk im1) of
       ((report, result), d) \<Rightarrow>
     let im2 = im1\<lparr>im_disk := d, im_restart := (im_restart im1)\<lparr>ru_store := report\<rparr>\<rparr> in
     case result of
       None \<Rightarrow> (if rp_reason report = R_Ok then R_StoreUnavailable else rp_reason report, im2)
     | Some o' \<Rightarrow>
     let im3 = im2\<lparr>im_store := Some (op_store o')\<rparr> in
     case load_state config (op_snapshot o') (im_state im3) of
       Inl code \<Rightarrow> (code, im3)
     | Inr (from_snapshot, s) \<Rightarrow>
     case recover_from_store config (op_records o') s of (replay, s') \<Rightarrow>
     let im4 = im3\<lparr>im_state := s'\<rparr> in
     if replay \<noteq> R_Ok then (replay, im4)
     else if \<not> valid_policy (st_policy s') then (R_StoreSemanticsIncompatible, im4)
     else finish_open (from_snapshot \<or> op_records o' \<noteq> []) im4)"

definition fabric_close :: "impl \<Rightarrow> reason \<times> impl" where
  "fabric_close im =
    (if \<not> im_opened im then (R_InvalidState, im)
     else (R_Ok, im\<lparr>im_opened := False, im_intents := iq_close (im_intents im), im_store := None\<rparr>))"

subsection \<open>The fence check\<close>

definition verify_fence :: "fence_check \<Rightarrow> impl \<Rightarrow> fence_verdict" where
  "verify_fence check im =
    (let witness = witness_of im (fk_service check) (tg_target (fk_holder check));
         v0 = (case witness of None \<Rightarrow> default_fence_verdict
               | Some w \<Rightarrow> default_fence_verdict\<lparr>fv_had_witness := True, fv_fenced_incarnation := fw_incarnation w\<rparr>)
     in case omap_find (st_fences (im_state im)) (fk_service check) of
          None \<Rightarrow> v0\<lparr>fv_code := R_NoAuthority\<rparr>
        | Some f \<Rightarrow>
          let v = v0\<lparr>fv_current := fr_token f, fv_current_holder := fr_holder f\<rparr> in
          if fk_presented check < fr_token f then v\<lparr>fv_code := R_FenceStale\<rparr>
          else if fk_presented check > fr_token f then v\<lparr>fv_code := R_FenceRegression\<rparr>
          else if fk_holder check \<noteq> fr_holder f then v\<lparr>fv_code := R_FenceHeldByOther\<rparr>
          else if fv_had_witness v \<and> tg_incarnation (fk_holder check) \<le> fv_fenced_incarnation v
          then v\<lparr>fv_code := R_FallbackFenced\<rparr>
          else v\<lparr>fv_authorized := True, fv_code := R_AcceptFenceAdvanced\<rparr>)"

subsection \<open>The public operations\<close>

text \<open>An ingest operation: begin an explanation, run the handler, put the explanation on record.\<close>

definition ingest :: "service_name \<Rightarrow> (explanation \<Rightarrow> impl \<Rightarrow> ingest_result) \<Rightarrow> impl \<Rightarrow> (reason \<times> explanation) \<times> impl" where
  "ingest service handler im =
    (case handler (begin_explanation service nil_id im) im of ((code, e), im1) \<Rightarrow>
     case finish_ingest_explanation e im1 of (e', im2) \<Rightarrow> ((code, e'), im2))"

definition enroll_source :: "source_name \<Rightarrow> source_role \<Rightarrow> impl \<Rightarrow> (reason \<times> explanation) \<times> impl" where
  "enroll_source source role = ingest empty_name (do_enroll_source source role)"

definition register_service :: "service_descriptor \<Rightarrow> source_name \<Rightarrow> impl \<Rightarrow> (reason \<times> explanation) \<times> impl" where
  "register_service descriptor registrar = ingest (sd_name descriptor) (do_register_service descriptor registrar)"

definition register_target :: "target_record \<Rightarrow> source_name \<Rightarrow> impl \<Rightarrow> (reason \<times> explanation) \<times> impl" where
  "register_target target registrar = ingest empty_name (do_register_target target registrar)"

definition set_topology_generation :: "topology_generation \<Rightarrow> source_name \<Rightarrow> impl \<Rightarrow> (reason \<times> explanation) \<times> impl" where
  "set_topology_generation generation reporter = ingest empty_name (do_set_topology_generation generation reporter)"

definition set_policy :: "policy_descriptor \<Rightarrow> impl \<Rightarrow> (reason \<times> explanation) \<times> impl" where
  "set_policy policy = ingest empty_name (do_set_policy policy)"

definition withdraw_service :: "service_name \<Rightarrow> source_name \<Rightarrow> impl \<Rightarrow> (reason \<times> explanation) \<times> impl" where
  "withdraw_service service requester = ingest service (do_withdraw_service service requester)"

definition retire_target :: "target_name \<Rightarrow> source_name \<Rightarrow> impl \<Rightarrow> (reason \<times> explanation) \<times> impl" where
  "retire_target target requester = ingest empty_name (do_retire_target target requester)"

definition ingest_capability :: "capability_evidence \<Rightarrow> impl \<Rightarrow> (reason \<times> explanation) \<times> impl" where
  "ingest_capability evidence = ingest empty_name (do_ingest_capability evidence)"

definition ingest_failure :: "failure_evidence \<Rightarrow> impl \<Rightarrow> (reason \<times> explanation) \<times> impl" where
  "ingest_failure evidence = ingest (fe_service evidence) (do_ingest_failure evidence)"

definition ingest_dependency :: "dependency_observation \<Rightarrow> impl \<Rightarrow> (reason \<times> explanation) \<times> impl" where
  "ingest_dependency observation = ingest (dob_service observation) (do_ingest_dependency observation)"

text \<open>A keyed recovery request: the cached answer, the registration of its key, the handler, the
  release of the key.\<close>

definition keyed_request :: "failover_request \<Rightarrow> (impl \<Rightarrow> decision) \<Rightarrow> impl \<Rightarrow> decision" where
  "keyed_request replay handler im =
    (let key = fq_key replay; service = fq_service replay; e = begin_explanation service key im in
     case cached key im of
       Some entry \<Rightarrow> replay_cached entry e replay im
     | None \<Rightarrow>
     case begin_request key im of (registered, im1) \<Rightarrow>
     if registered \<noteq> R_Ok
     then refusal (begin_explanation service key im1) registered (str service)
       (if registered = R_QueueCapacityExceeded then txt_cancellation_registry_is_full
        else txt_request_key_is_already_in_flight) 0 im1
     else case handler im1 of (decision, im2) \<Rightarrow>
       (decision, im2\<lparr>im_cancels := cn_release_if_active key (im_cancels im2)\<rparr>))"

definition establish_placement :: "placement_request \<Rightarrow> impl \<Rightarrow> decision" where
  "establish_placement request =
    keyed_request (keyed (pq_key request) (pq_service request)) (do_establish_placement request)"

definition request_failover :: "failover_request \<Rightarrow> impl \<Rightarrow> decision" where
  "request_failover request = keyed_request request (do_request_failover request False)"

definition resume_recovery :: "failover_request \<Rightarrow> impl \<Rightarrow> decision" where
  "resume_recovery request = keyed_request request (do_request_failover request True)"

definition resolve_ambiguity :: "ambiguity_resolution \<Rightarrow> impl \<Rightarrow> decision" where
  "resolve_ambiguity resolution =
    keyed_request (keyed (am_key resolution) (am_service resolution)) (do_resolve_ambiguity resolution)"

definition request_failback :: "failback_request \<Rightarrow> impl \<Rightarrow> decision" where
  "request_failback request =
    keyed_request (keyed (bq_key request) (bq_service request)) (do_request_failback request)"

definition acknowledge_intent :: "intent_ack \<Rightarrow> impl \<Rightarrow> decision" where
  "acknowledge_intent = do_acknowledge_intent"

definition report_effect :: "effect_report \<Rightarrow> impl \<Rightarrow> decision" where
  "report_effect = do_report_effect"

definition cancel :: "request_key \<Rightarrow> impl \<Rightarrow> (reason \<times> explanation) \<times> impl" where
  "cancel key im =
    (case cn_cancel key (im_cancels im) of ((recorded, too_late, unknown), c) \<Rightarrow>
     let im1 = im\<lparr>im_cancels := c\<rparr>;
         (code, detail, im2) =
           (if recorded then (R_Cancelled, txt_cancellation_recorded_before_commit,
              in_state (bump sa_requests_cancelled_update) im1)
            else if too_late then (R_CancelTooLate, txt_the_request_already_committed_durably,
              in_state (bump sa_cancels_too_late_update) im1)
            else (R_RequestUnknown, txt_no_such_request_is_in_flight, im1));
         e = (note_step code [] detail (id_value key) (begin_explanation empty_name key im))
               \<lparr>ex_outcome := code, ex_accepted := False\<rparr>
     in ((code, e), record_explanation e im2))"

definition take_intent :: "impl \<Rightarrow> failover_intent option \<times> impl" where
  "take_intent im =
    (case iq_try_pop (im_intents im) of
       (None, q) \<Rightarrow> (None, im\<lparr>im_intents := q\<rparr>)
     | (Some i, q) \<Rightarrow> (Some i, in_state (bump sa_intents_consumed_update) (im\<lparr>im_intents := q\<rparr>)))"

text \<open>The waiting consumer; the outer \<open>None\<close> is a call that is still blocked.\<close>

definition wait_for_intent :: "impl \<Rightarrow> (failover_intent option \<times> impl) option" where
  "wait_for_intent im = map_option (\<lambda>(i, q). (i, im\<lparr>im_intents := q\<rparr>)) (iq_wait_pop (im_intents im))"

definition explain :: "service_name \<Rightarrow> impl \<Rightarrow> explanation list" where
  "explain service im = el_for_service service (im_explanations im)"

definition explain_all :: "impl \<Rightarrow> explanation list" where
  "explain_all im = el_all (im_explanations im)"

definition pending_intents :: "impl \<Rightarrow> failover_intent list" where
  "pending_intents im = iq_queue (im_intents im)"

definition intent_queue_depth :: "impl \<Rightarrow> nat" where
  "intent_queue_depth im = length (iq_queue (im_intents im))"

definition snapshot_digest_text :: "impl \<Rightarrow> string" where
  "snapshot_digest_text im = digest_to_hex (writer_digest (encode_state (im_state im) new_writer))"

end
