(* ===== verification/View.thy ===== *)
theory View
  imports Lifecycle
begin

text \<open>
  The views: the projection of the runtime that \<^verbatim>\<open>Fabric::view\<close> returns, and the JSON of
  the view, the counters, the restart summary and the fence verdict.
\<close>

record service_view =
  vw_name :: service_name
  vw_scope :: scope_name
  vw_statefulness :: statefulness
  vw_lifecycle :: lifecycle_phase
  vw_recovery :: recovery_phase
  vw_continuity :: continuity_class
  vw_active :: "target_ref option"
  vw_fallback :: "target_ref option"
  vw_generation :: failover_generation
  vw_fence :: fence_token
  vw_lease_term :: lease_term
  vw_current_attempt :: attempt_id
  vw_last_outcome :: attempt_outcome
  vw_effect_verified :: bool
  vw_state_transfer_verified :: bool
  vw_ambiguity_pending :: bool
  vw_failover_recorded :: bool
  vw_last_reason :: reason
  vw_attempts_recorded :: nat
  vw_attempts_evicted :: u64
  vw_last_change :: logical_tick

record fabric_view =
  vf_epoch :: coordinator_epoch
  vf_boot :: boot_id
  vf_tick :: logical_tick
  vf_topology_generation :: topology_generation
  vf_policy_generation :: policy_generation
  vf_policy :: policy_descriptor
  vf_services :: "service_view list"
  vf_targets :: "target_record list"
  vf_stats :: fabric_stats

definition service_view_of :: "service_name \<Rightarrow> service_runtime \<Rightarrow> service_view" where
  "service_view_of name sv =
    \<lparr>vw_name = name, vw_scope = sd_scope (sv_descriptor sv), vw_statefulness = sd_statefulness (sv_descriptor sv),
     vw_lifecycle = sv_lifecycle sv, vw_recovery = sv_recovery sv, vw_continuity = sv_continuity sv,
     vw_active = sv_active sv, vw_fallback = sv_fallback sv, vw_generation = sv_generation sv,
     vw_fence = sv_fence sv,
     vw_lease_term = (case sv_lease sv of None \<Rightarrow> initial_gen | Some l \<Rightarrow> lr_term l),
     vw_current_attempt = sv_current_attempt sv,
     vw_last_outcome = (case current_attempt_record sv of None \<Rightarrow> AttemptOutcome_Pending | Some a \<Rightarrow> ar_outcome a),
     vw_effect_verified = sv_effect_verified sv, vw_state_transfer_verified = sv_state_transfer_verified sv,
     vw_ambiguity_pending = sv_ambiguity_pending sv, vw_failover_recorded = sv_failover_recorded sv,
     vw_last_reason = sv_last_reason sv, vw_attempts_recorded = length (sv_history sv),
     vw_attempts_evicted = sv_attempts_evicted sv, vw_last_change = sv_last_change sv\<rparr>"

definition build_view :: "impl \<Rightarrow> fabric_view" where
  "build_view im =
    (let s = im_state im in
     \<lparr>vf_epoch = st_epoch s, vf_boot = st_boot s, vf_tick = st_tick s,
      vf_topology_generation = st_topology_generation s, vf_policy_generation = st_policy_generation s,
      vf_policy = st_policy s, vf_services = map (\<lambda>(name, sv). service_view_of name sv) (entries (st_services s)),
      vf_targets = omap_values (st_targets s), vf_stats = st_stats s\<rparr>)"

subsection \<open>JSON\<close>

definition target_ref_json_or_null :: "target_ref option \<Rightarrow> json" where
  "target_ref_json_or_null r = (case r of None \<Rightarrow> JNull | Some t \<Rightarrow> target_ref_json t)"

definition service_view_json :: "service_view \<Rightarrow> json" where
  "service_view_json v = json_object
   [(''active'', target_ref_json_or_null (vw_active v)),
    (''ambiguity_pending'', JBool (vw_ambiguity_pending v)),
    (''attempts_evicted'', JUnsigned (vw_attempts_evicted v)),
    (''attempts_recorded'', JUnsigned (of_nat (vw_attempts_recorded v))),
    (''continuity'', JText (continuity_class_text (vw_continuity v))),
    (''current_attempt'', JUnsigned (id_value (vw_current_attempt v))),
    (''effect_verified'', JBool (vw_effect_verified v)),
    (''failover_generation'', JUnsigned (gen_value (vw_generation v))),
    (''failover_recorded'', JBool (vw_failover_recorded v)),
    (''fallback'', target_ref_json_or_null (vw_fallback v)),
    (''fence'', JUnsigned (gen_value (vw_fence v))),
    (''last_change'', JUnsigned (tick_value (vw_last_change v))),
    (''last_outcome'', JText (attempt_outcome_text (vw_last_outcome v))),
    (''last_reason'', JText (reason_code_text (vw_last_reason v))),
    (''lease_term'', JUnsigned (gen_value (vw_lease_term v))),
    (''lifecycle'', JText (lifecycle_phase_text (vw_lifecycle v))),
    (''name'', JText (str (vw_name v))),
    (''recovery'', JText (recovery_phase_text (vw_recovery v))),
    (''scope'', JText (str (vw_scope v))),
    (''state_transfer_verified'', JBool (vw_state_transfer_verified v)),
    (''statefulness'', JText (statefulness_text (vw_statefulness v)))]"

definition service_semantic_json :: "service_view \<Rightarrow> json" where
  "service_semantic_json v = json_object
   [(''active'', target_ref_json_or_null (vw_active v)),
    (''ambiguity_pending'', JBool (vw_ambiguity_pending v)),
    (''continuity'', JText (continuity_class_text (vw_continuity v))),
    (''current_attempt'', JUnsigned (id_value (vw_current_attempt v))),
    (''effect_verified'', JBool (vw_effect_verified v)),
    (''failover_generation'', JUnsigned (gen_value (vw_generation v))),
    (''failover_recorded'', JBool (vw_failover_recorded v)),
    (''fallback'', target_ref_json_or_null (vw_fallback v)),
    (''fence'', JUnsigned (gen_value (vw_fence v))),
    (''last_reason'', JText (reason_code_text (vw_last_reason v))),
    (''lease_term'', JUnsigned (gen_value (vw_lease_term v))),
    (''lifecycle'', JText (lifecycle_phase_text (vw_lifecycle v))),
    (''name'', JText (str (vw_name v))),
    (''recovery'', JText (recovery_phase_text (vw_recovery v))),
    (''scope'', JText (str (vw_scope v))),
    (''state_transfer_verified'', JBool (vw_state_transfer_verified v)),
    (''statefulness'', JText (statefulness_text (vw_statefulness v)))]"

definition fabric_stats_json :: "fabric_stats \<Rightarrow> json" where
  "fabric_stats_json s = json_object (map (\<lambda>(name, get, set). (name, JUnsigned (get s))) stats_fields)"

definition store_report_json :: "recovery_report \<Rightarrow> json" where
  "store_report_json r = json_object
   [(''bytes_accepted'', JUnsigned (rp_bytes_accepted r)),
    (''bytes_discarded'', JUnsigned (rp_bytes_discarded r)),
    (''classification'', JText (recovery_class_text (rp_classification r))),
    (''format_version'', JUnsigned (ucast (rp_format_version r))),
    (''journal_generation'', JUnsigned (ucast (rp_journal_generation r))),
    (''reason'', JText (reason_code_text (rp_reason r))),
    (''replayed_digest'', JText (digest_to_hex (rp_replayed_digest r))),
    (''snapshot_generation'', JUnsigned (ucast (rp_snapshot_generation r))),
    (''transactions_applied'', JUnsigned (rp_transactions_applied r)),
    (''transactions_dropped'', JUnsigned (rp_transactions_dropped r)),
    (''truncated_tail_repaired'', JBool (rp_truncated_tail_repaired r))]"

definition restart_summary_json :: "restart_summary \<Rightarrow> json" where
  "restart_summary_json r = json_object
   [(''attempts_marked_unknown'', JUnsigned (ucast (ru_attempts_marked_unknown r))),
    (''boot'', JUnsigned (gen_value (ru_boot r))),
    (''capability_evidence_invalidated'', JUnsigned (ucast (ru_capability_evidence_invalidated r))),
    (''conservative'', JBool (ru_conservative r)),
    (''dependency_observations_invalidated'', JUnsigned (ucast (ru_dependency_observations_invalidated r))),
    (''epoch'', JUnsigned (gen_value (ru_epoch r))),
    (''failure_evidence_invalidated'', JUnsigned (ucast (ru_failure_evidence_invalidated r))),
    (''previous_epoch'', JUnsigned (gen_value (ru_previous_epoch r))),
    (''services_downgraded'', JUnsigned (ucast (ru_services_downgraded r))),
    (''store'', store_report_json (ru_store r))]"

definition semantic_json :: "fabric_view \<Rightarrow> json" where
  "semantic_json v = json_object
   [(''boot'', JUnsigned (gen_value (vf_boot v))),
    (''epoch'', JUnsigned (gen_value (vf_epoch v))),
    (''policy'', policy_descriptor_json (vf_policy v)),
    (''policy_generation'', JUnsigned (gen_value (vf_policy_generation v))),
    (''schema_version'', JUnsigned (ucast kCanonicalSchemaVersion)),
    (''services'', JArray (map service_semantic_json (vf_services v))),
    (''targets'', JArray (map target_record_json (vf_targets v))),
    (''topology_generation'', JUnsigned (gen_value (vf_topology_generation v)))]"

definition semantic_digest :: "fabric_view \<Rightarrow> digest" where
  "semantic_digest v = text_digest (dump (semantic_json v))"

definition version_string :: string where
  "version_string = ''1.0.0''"

definition fabric_view_json :: "fabric_view \<Rightarrow> json" where
  "fabric_view_json v = json_object
   [(''boot'', JUnsigned (gen_value (vf_boot v))),
    (''epoch'', JUnsigned (gen_value (vf_epoch v))),
    (''policy'', policy_descriptor_json (vf_policy v)),
    (''policy_generation'', JUnsigned (gen_value (vf_policy_generation v))),
    (''runtime_version'', JText version_string),
    (''schema_version'', JUnsigned (ucast kCanonicalSchemaVersion)),
    (''services'', JArray (map service_view_json (vf_services v))),
    (''stats'', fabric_stats_json (vf_stats v)),
    (''targets'', JArray (map target_record_json (vf_targets v))),
    (''tick'', JUnsigned (tick_value (vf_tick v))),
    (''topology_generation'', JUnsigned (gen_value (vf_topology_generation v)))]"

definition canonical_text :: "bool \<Rightarrow> fabric_view \<Rightarrow> string" where
  "canonical_text pretty v = (if pretty then dump_pretty (fabric_view_json v) else dump (fabric_view_json v))"

definition export_canonical :: "bool \<Rightarrow> impl \<Rightarrow> string" where
  "export_canonical pretty im = canonical_text pretty (build_view im)"

definition fence_verdict_json :: "fence_verdict \<Rightarrow> json" where
  "fence_verdict_json v = json_object
   [(''authorized'', JBool (fv_authorized v)),
    (''code'', JText (reason_code_text (fv_code v))),
    (''current'', JUnsigned (gen_value (fv_current v))),
    (''current_holder'', target_ref_json (fv_current_holder v)),
    (''fenced_incarnation'', incarnation_json (fv_fenced_incarnation v)),
    (''had_witness'', JBool (fv_had_witness v))]"

definition recovery_report_text :: "recovery_report \<Rightarrow> string" where
  "recovery_report_text r =
    ''recovery='' @ recovery_class_text (rp_classification r) @
    '' reason='' @ reason_code_text (rp_reason r) @
    '' snapshot_gen='' @ to_decimal (ucast (rp_snapshot_generation r)) @
    '' journal_gen='' @ to_decimal (ucast (rp_journal_generation r)) @
    '' transactions_applied='' @ to_decimal (rp_transactions_applied r) @
    '' transactions_dropped='' @ to_decimal (rp_transactions_dropped r) @
    '' records_replayed='' @ to_decimal (rp_records_replayed r) @
    '' bytes_accepted='' @ to_decimal (rp_bytes_accepted r) @
    '' bytes_discarded='' @ to_decimal (rp_bytes_discarded r) @
    '' torn_tail='' @ (if rp_truncated_tail_repaired r then ''yes'' else ''no'')"

end
