(* ===== verification/Protocol.thy ===== *)
theory Protocol
  imports View
begin

text \<open>
  The framed protocol of protocol.cpp: frames, requests and responses as bytes, and the executor
  that runs one decoded request against the runtime. The frame channel over a socket is in theory
  Channel.
\<close>

subsection \<open>Messages and requests\<close>

datatype (plugins only: code) wire_message =
  WM_Hello
| WM_Welcome
| WM_Request
| WM_Response
| WM_Error
| WM_Shutdown
| WM_Cancel

definition kWireMessages :: "(wire_message \<times> string) list" where
  "kWireMessages =
   [(WM_Hello, ''hello''),
    (WM_Welcome, ''welcome''),
    (WM_Request, ''request''),
    (WM_Response, ''response''),
    (WM_Error, ''error''),
    (WM_Shutdown, ''shutdown''),
    (WM_Cancel, ''cancel'')]"

definition wire_message_values :: "(wire_message \<times> u16) list" where
  "wire_message_values =
   [(WM_Hello, 1), (WM_Welcome, 2), (WM_Request, 3), (WM_Response, 4), (WM_Error, 5), (WM_Shutdown, 6), (WM_Cancel, 7)]"

text \<open>The enumerator with a value, and the value of an enumerator.\<close>

definition value_of :: "('e \<times> u16) list \<Rightarrow> 'e \<Rightarrow> u16" where
  "value_of table v = (case map_of table v of Some n \<Rightarrow> n | None \<Rightarrow> 0)"

definition with_value :: "('e \<times> u16) list \<Rightarrow> u16 \<Rightarrow> 'e option" where
  "with_value table n = map_option fst (find (\<lambda>(v, m). m = n) table)"

definition wire_message_text :: "wire_message \<Rightarrow> string" where
  "wire_message_text v = lookup_text kWireMessages v"

definition wire_message_parse :: "string \<Rightarrow> wire_message option" where
  "wire_message_parse text = map_option fst (find (\<lambda>(v, t). t = text) kWireMessages)"

text \<open>\<open>WR_Unlisted\<close> is a value of the enumeration's type that no enumerator has.\<close>

datatype (plugins only: code) wire_request_kind =
  WR_QueryView
| WR_Export
| WR_Explain
| WR_Stats
| WR_Recovery
| WR_PullIntent
| WR_EnrollSource
| WR_RegisterService
| WR_RegisterTarget
| WR_SetTopologyGeneration
| WR_SetPolicy
| WR_WithdrawService
| WR_EstablishPlacement
| WR_IngestCapability
| WR_IngestFailure
| WR_IngestDependency
| WR_RequestFailover
| WR_ResolveAmbiguity
| WR_ResumeRecovery
| WR_RequestFailback
| WR_AcknowledgeIntent
| WR_ReportEffect
| WR_VerifyFence
| WR_CancelRequest
| WR_Shutdown
| WR_Unlisted u16

definition kWireRequests :: "(wire_request_kind \<times> string) list" where
  "kWireRequests =
   [(WR_QueryView, ''query_view''),
    (WR_Export, ''export''),
    (WR_Explain, ''explain''),
    (WR_Stats, ''stats''),
    (WR_Recovery, ''recovery''),
    (WR_PullIntent, ''pull_intent''),
    (WR_EnrollSource, ''enroll_source''),
    (WR_RegisterService, ''register_service''),
    (WR_RegisterTarget, ''register_target''),
    (WR_SetTopologyGeneration, ''set_topology_generation''),
    (WR_SetPolicy, ''set_policy''),
    (WR_WithdrawService, ''withdraw_service''),
    (WR_EstablishPlacement, ''establish_placement''),
    (WR_IngestCapability, ''ingest_capability''),
    (WR_IngestFailure, ''ingest_failure''),
    (WR_IngestDependency, ''ingest_dependency''),
    (WR_RequestFailover, ''request_failover''),
    (WR_ResolveAmbiguity, ''resolve_ambiguity''),
    (WR_ResumeRecovery, ''resume_recovery''),
    (WR_RequestFailback, ''request_failback''),
    (WR_AcknowledgeIntent, ''acknowledge_intent''),
    (WR_ReportEffect, ''report_effect''),
    (WR_VerifyFence, ''verify_fence''),
    (WR_CancelRequest, ''cancel_request''),
    (WR_Shutdown, ''shutdown'')]"

definition wire_request_values :: "(wire_request_kind \<times> u16) list" where
  "wire_request_values =
   [(WR_QueryView, 1),
    (WR_Export, 2),
    (WR_Explain, 3),
    (WR_Stats, 4),
    (WR_Recovery, 5),
    (WR_PullIntent, 6),
    (WR_EnrollSource, 10),
    (WR_RegisterService, 11),
    (WR_RegisterTarget, 12),
    (WR_SetTopologyGeneration, 13),
    (WR_SetPolicy, 14),
    (WR_WithdrawService, 15),
    (WR_EstablishPlacement, 16),
    (WR_IngestCapability, 20),
    (WR_IngestFailure, 21),
    (WR_IngestDependency, 22),
    (WR_RequestFailover, 30),
    (WR_ResolveAmbiguity, 31),
    (WR_ResumeRecovery, 32),
    (WR_RequestFailback, 33),
    (WR_AcknowledgeIntent, 34),
    (WR_ReportEffect, 35),
    (WR_VerifyFence, 40),
    (WR_CancelRequest, 41),
    (WR_Shutdown, 50)]"

definition wire_request_value :: "wire_request_kind \<Rightarrow> u16" where
  "wire_request_value k = (case k of WR_Unlisted n \<Rightarrow> n | _ \<Rightarrow> value_of wire_request_values k)"

definition wire_request_of :: "u16 \<Rightarrow> wire_request_kind" where
  "wire_request_of n = value_or (with_value wire_request_values n) (WR_Unlisted n)"

definition wire_request_text :: "wire_request_kind \<Rightarrow> string" where
  "wire_request_text v = lookup_text kWireRequests v"

definition wire_request_parse :: "string \<Rightarrow> wire_request_kind option" where
  "wire_request_parse text = map_option fst (find (\<lambda>(v, t). t = text) kWireRequests)"

subsection \<open>Frames\<close>

definition kWireMagic :: u32 where "kWireMagic = 0x4F464652"
definition kWireHeaderBytes :: nat where "kWireHeaderBytes = 24"
definition kDefaultMaxFramePayload :: nat where "kDefaultMaxFramePayload = 1048576"
definition kAbsoluteMaxFramePayload :: nat where "kAbsoluteMaxFramePayload = 67108864"
definition kProtocolVersion :: u16 where "kProtocolVersion = 1"

record frame =
  fm_kind :: wire_message
  fm_correlation :: u64
  fm_payload :: bytes

definition payload_crc :: "bytes \<Rightarrow> u32" where
  "payload_crc content = (if content = [] then 0 else crc32c content 0)"

definition wire_header :: "frame \<Rightarrow> bytes" where
  "wire_header f = be32 kWireMagic @ be16 kProtocolVersion @ be16 (value_of wire_message_values (fm_kind f)) @
    be64 (fm_correlation f) @ be32 (of_nat (length (fm_payload f))) @ be32 (payload_crc (fm_payload f))"

definition encode_frame :: "nat \<Rightarrow> frame \<Rightarrow> reason + bytes" where
  "encode_frame max_payload f =
    (if length (fm_payload f) > min max_payload kAbsoluteMaxFramePayload then Inl R_Oversized
     else if length (fm_payload f) > 4294967295 then Inl R_Oversized
     else Inr (wire_header f @ fm_payload f))"

text \<open>The frame and the bytes it occupied.\<close>

definition decode_frame :: "nat \<Rightarrow> bytes \<Rightarrow> reason + frame \<times> nat" where
  "decode_frame max_payload data =
    (if length data < kWireHeaderBytes then Inl R_Truncated
     else if read_u32 data \<noteq> kWireMagic then Inl R_Malformed
     else if read_u16 (drop 4 data) \<noteq> kProtocolVersion then Inl R_ProtocolVersionMismatch
     else case with_value wire_message_values (read_u16 (drop 6 data)) of
       None \<Rightarrow> Inl R_UnsupportedSemantics
     | Some kind \<Rightarrow>
     let len = unat (read_u32 (drop 16 data)); content = take len (drop kWireHeaderBytes data) in
     if len > min max_payload kAbsoluteMaxFramePayload then Inl R_FrameTooLarge
     else if length data < kWireHeaderBytes + len then Inl R_Truncated
     else if read_u32 (drop 20 data) \<noteq> payload_crc content then Inl R_ChecksumMismatch
     else Inr (\<lparr>fm_kind = kind, fm_correlation = read_u64 (drop 8 data), fm_payload = content\<rparr>,
               kWireHeaderBytes + len))"

subsection \<open>Requests and responses\<close>

record wire_request =
  wq_kind :: wire_request_kind
  wq_key :: u64
  wq_body :: bytes

record wire_response =
  wp_status :: reason
  wp_accepted :: bool
  wp_duplicate :: bool
  wp_body :: string

definition default_wire_response :: wire_response where
  "default_wire_response = \<lparr>wp_status = R_Ok, wp_accepted = False, wp_duplicate = False, wp_body = []\<rparr>"

definition bounded :: "nat \<Rightarrow> (writer \<Rightarrow> writer) \<Rightarrow> reason + bytes" where
  "bounded max_payload f =
    (case encoded f of
       None \<Rightarrow> Inl R_Oversized
     | Some bs \<Rightarrow> if length bs > min max_payload kAbsoluteMaxFramePayload then Inl R_Oversized else Inr bs)"

definition encode_request :: "nat \<Rightarrow> wire_request \<Rightarrow> reason + bytes" where
  "encode_request max_payload q = bounded max_payload (seq
    [put_u16 (wire_request_value (wq_kind q)), put_u64 (wq_key q), put_blob (wq_body q)])"

text \<open>A read that failed without marking the reader was short.\<close>

definition read_failure :: "reason \<Rightarrow> reader \<Rightarrow> reason" where
  "read_failure why r = (if rd_failed r then rd_error r else why)"

definition decode_request :: "bytes \<Rightarrow> reason + wire_request" where
  "decode_request data =
    (case dbind get_u16 (\<lambda>kind. dbind get_u64 (\<lambda>key. dreturn (kind, key))) (new_reader data) of
       (None, r) \<Rightarrow> Inl (read_failure R_Truncated r)
     | (Some (kind, key), r) \<Rightarrow>
       if kind = 0 \<or> kind > 50 then Inl R_UnsupportedSemantics
       else case get_blob r of
         (None, r') \<Rightarrow> Inl (rd_error r')
       | (Some body, r') \<Rightarrow>
         if \<not> at_end r' then Inl R_Malformed
         else Inr \<lparr>wq_kind = wire_request_of kind, wq_key = key, wq_body = body\<rparr>)"

definition encode_response :: "nat \<Rightarrow> wire_response \<Rightarrow> reason + bytes" where
  "encode_response max_payload p = bounded max_payload (seq
    [put_u16 (reason_value (wp_status p)), put_bool (wp_accepted p), put_bool (wp_duplicate p), put_text (wp_body p)])"

definition decode_response :: "bytes \<Rightarrow> reason + wire_response" where
  "decode_response data =
    (case dbind get_u16 (\<lambda>status. dbind get_bool (\<lambda>accepted. dbind get_bool (\<lambda>duplicate. dbind get_text (\<lambda>body.
        dreturn \<lparr>wp_status = Reason status, wp_accepted = accepted, wp_duplicate = duplicate, wp_body = body\<rparr>))))
        (new_reader data) of
       (None, r) \<Rightarrow> Inl (read_failure R_Truncated r)
     | (Some p, r) \<Rightarrow>
       if \<not> reason_known (wp_status p) then Inl R_UnsupportedSemantics
       else if \<not> at_end r then Inl R_Malformed else Inr p)"

subsection \<open>Execution\<close>

definition reason_json :: "reason \<Rightarrow> json" where
  "reason_json code = json_object
    [(''code'', JText (reason_code_text code)), (''family'', JText (reason_family code)),
     (''summary'', JText (reason_summary code))]"

definition refusal_response :: "reason \<Rightarrow> wire_response" where
  "refusal_response code = default_wire_response\<lparr>wp_status := code,
    wp_body := dump (json_object [(''accepted'', JBool False), (''status'', reason_json code)])\<rparr>"

definition reason_response :: "reason \<Rightarrow> explanation \<Rightarrow> wire_response" where
  "reason_response code e = default_wire_response\<lparr>wp_status := code, wp_accepted := reason_is_accept code,
    wp_body := dump (json_object [(''accepted'', JBool (reason_is_accept code)), (''explanation'', explanation_json e),
      (''status'', reason_json code)])\<rparr>"

definition decision_response :: "recovery_decision \<Rightarrow> wire_response" where
  "decision_response d = \<lparr>wp_status = dc_outcome d, wp_accepted = dc_accepted d, wp_duplicate = dc_duplicate d,
    wp_body = dump (recovery_decision_json d)\<rparr>"

text \<open>The outcome of an execution: the status code and, when the request was understood, the response.
  A body that does not decode, or has bytes left, changes nothing.\<close>

type_synonym execution = "(reason \<times> wire_response option) \<times> impl"

definition with_body :: "'a decoder \<Rightarrow> bytes \<Rightarrow> ('a \<Rightarrow> impl \<Rightarrow> execution) \<Rightarrow> impl \<Rightarrow> execution" where
  "with_body d body run im =
    (case d (new_reader body) of
       (Some x, r) \<Rightarrow> if at_end r then run x im else ((read_failure R_Malformed r, None), im)
     | (None, r) \<Rightarrow> ((read_failure R_Malformed r, None), im))"

definition without_body :: "bytes \<Rightarrow> (impl \<Rightarrow> execution) \<Rightarrow> impl \<Rightarrow> execution" where
  "without_body body run im = (if at_end (new_reader body) then run im else ((R_Malformed, None), im))"

definition answered :: "string \<Rightarrow> impl \<Rightarrow> execution" where
  "answered body im = ((R_Ok, Some (default_wire_response\<lparr>wp_accepted := True, wp_body := body\<rparr>)), im)"

definition by_reason :: "(impl \<Rightarrow> (reason \<times> explanation) \<times> impl) \<Rightarrow> impl \<Rightarrow> execution" where
  "by_reason operation im =
    (case operation im of ((code, e), im') \<Rightarrow> ((code, Some (reason_response code e)), im'))"

definition by_decision :: "(impl \<Rightarrow> decision) \<Rightarrow> impl \<Rightarrow> execution" where
  "by_decision operation im =
    (case operation im of (d, im') \<Rightarrow> ((dc_outcome d, Some (decision_response d)), im'))"

definition pull_intent :: "impl \<Rightarrow> execution" where
  "pull_intent im =
    (case take_intent im of
       (Some i, im') \<Rightarrow> answered (dump (json_object [(''intent'', failover_intent_json i), (''pending'', JBool True)])) im'
     | (None, im') \<Rightarrow> answered (dump (json_object [(''intent'', JNull), (''pending'', JBool False)])) im')"

definition checked_enum :: "('e \<times> string) list \<Rightarrow> u8 \<Rightarrow> ('e \<Rightarrow> impl \<Rightarrow> execution) \<Rightarrow> impl \<Rightarrow> execution" where
  "checked_enum table v run im =
    (if \<not> enum_valid v table then ((R_UnsupportedSemantics, None), im) else run (enum_of table v) im)"

definition execute_failover :: "bool \<Rightarrow> request_key \<Rightarrow> bytes \<Rightarrow> impl \<Rightarrow> execution" where
  "execute_failover resume key body = with_body
    (dbind decode_name (\<lambda>service. dbind get_u8 (\<lambda>trigger. dbind get_u64 (\<lambda>evidence. dbind decode_name (\<lambda>requester.
     dbind get_bool (\<lambda>authorized. dreturn (service, trigger, evidence, requester, authorized))))))) body
    (\<lambda>(service, trigger, evidence, requester, authorized). checked_enum kRecoveryTriggers trigger (\<lambda>t.
      by_decision ((if resume then resume_recovery else request_failover)
        \<lparr>fq_key = key, fq_service = service, fq_trigger = t, fq_evidence = Id evidence, fq_requester = requester,
         fq_operator_authorized = authorized\<rparr>)))"

definition execute_resolution :: "request_key \<Rightarrow> bytes \<Rightarrow> impl \<Rightarrow> execution" where
  "execute_resolution key body = with_body
    (dbind decode_name (\<lambda>service. dbind get_u64 (\<lambda>evidence. dbind get_bool (\<lambda>confirm. dbind decode_name (\<lambda>operator.
     dreturn \<lparr>am_key = key, am_service = service, am_evidence = Id evidence, am_confirm_failure = confirm,
       am_resolved_by = operator\<rparr>))))) body (\<lambda>resolution. by_decision (resolve_ambiguity resolution))"

definition execute_failback :: "request_key \<Rightarrow> bytes \<Rightarrow> impl \<Rightarrow> execution" where
  "execute_failback key body = with_body
    (dbind decode_name (\<lambda>service. dbind decode_name (\<lambda>target. dbind get_u64 (\<lambda>topology. dbind get_u64 (\<lambda>policy.
     dbind decode_name (\<lambda>requester. dreturn
      \<lparr>bq_key = key, bq_service = service, bq_preferred_target = target, bq_observed_topology_generation = Gen topology,
       bq_observed_policy_generation = Gen policy, bq_requester = requester\<rparr>)))))) body
    (\<lambda>failback. by_decision (request_failback failback))"

definition execute_acknowledgement :: "request_key \<Rightarrow> bytes \<Rightarrow> impl \<Rightarrow> execution" where
  "execute_acknowledgement key body = with_body
    (dbind get_u64 (\<lambda>attempt. dbind get_u64 (\<lambda>fence. dbind get_u64 (\<lambda>generation. dbind get_bool (\<lambda>ok.
     dbind decode_name (\<lambda>executor. dreturn
      \<lparr>ia_key = key, ia_attempt = Id attempt, ia_fence = Gen fence, ia_generation = Gen generation, ia_accepted = ok,
       ia_executor = executor\<rparr>)))))) body (\<lambda>ack. by_decision (acknowledge_intent ack))"

definition execute_verify :: "bytes \<Rightarrow> impl \<Rightarrow> execution" where
  "execute_verify body = with_body
    (dbind decode_name (\<lambda>service. dbind decode_target_ref (\<lambda>holder. dbind get_u64 (\<lambda>token.
     dreturn \<lparr>fk_service = service, fk_holder = holder, fk_presented = Gen token\<rparr>)))) body
    (\<lambda>check im. let v = verify_fence check im in
      ((fv_code v, Some (default_wire_response\<lparr>wp_status := fv_code v, wp_accepted := fv_authorized v,
         wp_body := dump (fence_verdict_json v)\<rparr>)), im))"

definition execute_placement :: "request_key \<Rightarrow> bytes \<Rightarrow> impl \<Rightarrow> execution" where
  "execute_placement key body = with_body
    (dbind decode_name (\<lambda>service. dbind decode_name (\<lambda>target. dbind decode_name (\<lambda>requester.
     dreturn \<lparr>pq_key = key, pq_service = service, pq_target = target, pq_requester = requester\<rparr>)))) body
    (\<lambda>placement. by_decision (establish_placement placement))"

definition paired :: "'a decoder \<Rightarrow> 'b decoder \<Rightarrow> ('a \<times> 'b) decoder" where
  "paired a b = dbind a (\<lambda>x. dbind b (\<lambda>y. dreturn (x, y)))"

text \<open>The registry requests: enrolment, topology, policy and evidence.\<close>

definition execute_ingest :: "wire_request_kind \<Rightarrow> bytes \<Rightarrow> impl \<Rightarrow> execution" where
  "execute_ingest kind body =
    (case kind of
       WR_EnrollSource \<Rightarrow> with_body (paired decode_name get_u8) body
         (\<lambda>(source, role). checked_enum kSourceRoles role (\<lambda>r. by_reason (enroll_source source r)))
     | WR_RegisterService \<Rightarrow> with_body (paired decode_name decode_service_descriptor) body
         (\<lambda>(registrar, descriptor). by_reason (register_service descriptor registrar))
     | WR_RegisterTarget \<Rightarrow> with_body (paired decode_name decode_target_record) body
         (\<lambda>(registrar, target). by_reason (register_target target registrar))
     | WR_SetTopologyGeneration \<Rightarrow> with_body (paired get_u64 decode_name) body
         (\<lambda>(generation, reporter). by_reason (set_topology_generation (Gen generation) reporter))
     | WR_SetPolicy \<Rightarrow> with_body decode_policy_descriptor body (\<lambda>policy. by_reason (set_policy policy))
     | WR_WithdrawService \<Rightarrow> with_body (paired decode_name decode_name) body
         (\<lambda>(service, requester). by_reason (withdraw_service service requester))
     | WR_IngestCapability \<Rightarrow> with_body decode_capability_evidence body (\<lambda>v. by_reason (ingest_capability v))
     | WR_IngestFailure \<Rightarrow> with_body decode_failure_evidence body (\<lambda>v. by_reason (ingest_failure v))
     | WR_IngestDependency \<Rightarrow> with_body decode_dependency_observation body (\<lambda>v. by_reason (ingest_dependency v))
     | _ \<Rightarrow> (\<lambda>im. ((R_RequestUnknown, None), im)))"

definition execute_request :: "wire_request \<Rightarrow> impl \<Rightarrow> execution" where
  "execute_request q im =
    (let body = wq_body q; key = Id (wq_key q) in
     case wq_kind q of
       WR_QueryView \<Rightarrow> without_body body (\<lambda>im. answered (canonical_text False (build_view im)) im) im
     | WR_Export \<Rightarrow> without_body body (\<lambda>im. answered (export_canonical False im) im) im
     | WR_Stats \<Rightarrow> without_body body (\<lambda>im. answered (dump (fabric_stats_json (st_stats (im_state im)))) im) im
     | WR_Recovery \<Rightarrow> without_body body (\<lambda>im. answered (dump (restart_summary_json (im_restart im))) im) im
     | WR_Explain \<Rightarrow> with_body decode_name body
         (\<lambda>service im. answered (dump (JArray (map explanation_json (explain service im)))) im) im
     | WR_PullIntent \<Rightarrow> without_body body pull_intent im
     | WR_EstablishPlacement \<Rightarrow> execute_placement key body im
     | WR_RequestFailover \<Rightarrow> execute_failover False key body im
     | WR_ResumeRecovery \<Rightarrow> execute_failover True key body im
     | WR_ResolveAmbiguity \<Rightarrow> execute_resolution key body im
     | WR_RequestFailback \<Rightarrow> execute_failback key body im
     | WR_AcknowledgeIntent \<Rightarrow> execute_acknowledgement key body im
     | WR_ReportEffect \<Rightarrow> with_body decode_effect_report body (\<lambda>report. by_decision (report_effect report)) im
     | WR_VerifyFence \<Rightarrow> execute_verify body im
     | WR_CancelRequest \<Rightarrow> with_body get_u64 body (\<lambda>target. by_reason (cancel (Id target))) im
     | WR_Shutdown \<Rightarrow> without_body body
         (answered (dump (json_object [(''accepted'', JBool True), (''status'', json_object [(''code'', JText ''OK'')])]))) im
     | kind \<Rightarrow> execute_ingest kind body im)"

end
