(* ===== verification/Command_Line.thy ===== *)
theory Command_Line
  imports Protocol
begin

text \<open>
  The text processing of the two programs under src/apps: the options of the daemon, and for the client
  the tokens of a line, the flags of a command and the lists inside one argument.
\<close>

subsection \<open>Cutting strings\<close>

text \<open>The text before and after the last occurrence of a character, as \<open>rfind\<close> and \<open>substr\<close> give it.\<close>

fun last_split :: "char \<Rightarrow> string \<Rightarrow> (string \<times> string) option" where
  "last_split c [] = None"
| "last_split c (x # xs) =
    (case last_split c xs of
       Some (before, rest) \<Rightarrow> Some (x # before, rest)
     | None \<Rightarrow> if x = c then Some ([], xs) else None)"

definition first_split :: "char \<Rightarrow> string \<Rightarrow> (string \<times> string) option" where
  "first_split c s =
    (if c \<in> set s then Some (takeWhile (\<lambda>x. x \<noteq> c) s, tl (dropWhile (\<lambda>x. x \<noteq> c) s)) else None)"

fun split_loop :: "char \<Rightarrow> string \<Rightarrow> string \<Rightarrow> string list" where
  "split_loop separator current [] = [current]"
| "split_loop separator current (c # text) =
    (if c = separator then current # split_loop separator [] text
     else split_loop separator (current @ [c]) text)"

definition split :: "string \<Rightarrow> char \<Rightarrow> string list" where
  "split text separator = split_loop separator [] text"

definition blank :: "char \<Rightarrow> bool" where
  "blank c \<longleftrightarrow> c \<in> {CHR '' '', CHR 0x09, CHR 0x0D, CHR 0x0A}"

text \<open>A token is under construction exactly when its text is not empty, so the flag \<open>in_token\<close> of the
  code is the test for the empty string.\<close>

fun tokenize_loop :: "string \<Rightarrow> string \<Rightarrow> string list" where
  "tokenize_loop current [] = (if current = [] then [] else [current])"
| "tokenize_loop current (c # line) =
    (if blank c then (if current = [] then tokenize_loop [] line else current # tokenize_loop [] line)
     else tokenize_loop (current @ [c]) line)"

definition tokenize :: "string \<Rightarrow> string list" where
  "tokenize line = tokenize_loop [] line"

subsection \<open>The arguments of a command\<close>

record args =
  positional :: "string list"
  flags :: "(string \<times> string) list"

definition no_args :: args where
  "no_args = \<lparr>positional = [], flags = []\<rparr>"

definition has_flag :: "args \<Rightarrow> string \<Rightarrow> bool" where
  "has_flag a name \<longleftrightarrow> (\<exists>flag \<in> set (flags a). fst flag = name)"

definition get_flag :: "args \<Rightarrow> string \<Rightarrow> string option" where
  "get_flag a name = map_of (flags a) name"

text \<open>The number of a flag; \<open>None\<close> is the failure the code records in \<open>ok\<close>.\<close>

definition number_flag :: "args \<Rightarrow> string \<Rightarrow> u64 \<Rightarrow> u64 option" where
  "number_flag a name fallback =
    (case get_flag a name of None \<Rightarrow> Some fallback | Some value \<Rightarrow> parse_decimal value)"

definition dashed :: "string \<Rightarrow> bool" where
  "dashed token \<longleftrightarrow> take 2 token = ''--''"

definition add_flag :: "string \<Rightarrow> string \<Rightarrow> args \<Rightarrow> args" where
  "add_flag name value a = a\<lparr>flags := (name, value) # flags a\<rparr>"

fun parse_args :: "string list \<Rightarrow> args" where
  "parse_args [] = no_args"
| "parse_args (token # tokens) =
    (if length token > 2 \<and> dashed token then
       case first_split (CHR ''='') token of
         Some (name, value) \<Rightarrow> add_flag (drop 2 name) value (parse_args tokens)
       | None \<Rightarrow> (case tokens of
           [] \<Rightarrow> add_flag (drop 2 token) [] no_args
         | next # rest \<Rightarrow>
             if dashed next then add_flag (drop 2 token) [] (parse_args (next # rest))
             else add_flag (drop 2 token) next (parse_args rest))
     else let a = parse_args tokens in a\<lparr>positional := token # positional a\<rparr>)"

subsection \<open>The options of the daemon\<close>

record daemon_options =
  dp_host :: string
  dp_port :: nat
  dp_store_directory :: string
  dp_max_connections :: nat
  dp_workers :: nat
  dp_max_frame :: nat
  dp_allow_remote_shutdown :: bool
  dp_announce_ready :: bool

definition default_daemon_options :: daemon_options where
  "default_daemon_options =
    \<lparr>dp_host = ''127.0.0.1'', dp_port = 0, dp_store_directory = [], dp_max_connections = 32, dp_workers = 4,
     dp_max_frame = kDefaultMaxFramePayload, dp_allow_remote_shutdown = False, dp_announce_ready = False\<rparr>"

definition bounded_number :: "nat \<Rightarrow> string \<Rightarrow> nat option" where
  "bounded_number most text =
    (case parse_decimal text of
       None \<Rightarrow> None
     | Some n \<Rightarrow> if n = 0 \<or> unat n > most then None else Some (unat n))"

text \<open>\<open>HOST:PORT\<close>, as both programs read it.\<close>

definition parse_endpoint :: "string \<Rightarrow> (string \<times> nat) option" where
  "parse_endpoint text =
    (case last_split (CHR '':'') text of
       None \<Rightarrow> None
     | Some (host, port) \<Rightarrow>
       (case parse_decimal port of
          None \<Rightarrow> None
        | Some n \<Rightarrow> if unat n > 65535 then None else Some (host, unat n)))"

text \<open>The options that take a value, which is the next argument; \<open>None\<close> is an unknown option.\<close>

definition valued_option :: "string \<Rightarrow> (string \<Rightarrow> daemon_options \<Rightarrow> daemon_options option) option" where
  "valued_option argument =
    map_of
     [(''--listen'', \<lambda>value o'. map_option (\<lambda>(host, port). o'\<lparr>dp_host := host, dp_port := port\<rparr>) (parse_endpoint value)),
      (''--store'', \<lambda>value o'. Some (o'\<lparr>dp_store_directory := value\<rparr>)),
      (''--workers'', \<lambda>value o'. map_option (\<lambda>n. o'\<lparr>dp_workers := n\<rparr>) (bounded_number 64 value)),
      (''--max-connections'', \<lambda>value o'. map_option (\<lambda>n. o'\<lparr>dp_max_connections := n\<rparr>) (bounded_number 4096 value)),
      (''--max-frame-bytes'', \<lambda>value o'. map_option (\<lambda>n. o'\<lparr>dp_max_frame := n\<rparr>) (bounded_number kAbsoluteMaxFramePayload value))]
     argument"

fun parse_options :: "string list \<Rightarrow> daemon_options \<Rightarrow> daemon_options option" where
  "parse_options [] o' = Some o'"
| "parse_options (argument # rest) o' =
    (if argument \<in> {''--help'', ''-h''} then None
     else case valued_option argument of
       Some set_value \<Rightarrow>
         (case rest of
            [] \<Rightarrow> None
          | value # rest' \<Rightarrow> (case set_value value o' of None \<Rightarrow> None | Some o'' \<Rightarrow> parse_options rest' o''))
     | None \<Rightarrow>
         if argument = ''--allow-remote-shutdown'' then parse_options rest (o'\<lparr>dp_allow_remote_shutdown := True\<rparr>)
         else if argument = ''--ready'' then parse_options rest (o'\<lparr>dp_announce_ready := True\<rparr>)
         else None)"

end
