(* ===== verification/Channel.thy ===== *)
theory Channel
  imports Protocol
begin

text \<open>
  The frame channel of protocol.cpp over one connected socket. A socket is the segments that the
  operating system will deliver, in order, and the outcomes of its next writes: a receive returns a
  non-empty part of the next segment, the end of the list or an empty segment is the end of the
  stream or an error, and a send writes at least one byte of the chunk it was given or fails.
\<close>

subsection \<open>Sockets\<close>

datatype send_outcome = Send_Error | Sent nat

record socket =
  sk_valid :: bool
  sk_arriving :: "bytes list"
  sk_sends :: "send_outcome list"
  sk_sent :: bytes

definition socket_close :: "socket \<Rightarrow> socket" where
  "socket_close sk = sk\<lparr>sk_valid := False\<rparr>"

definition socket_interrupt :: "socket \<Rightarrow> socket" where
  "socket_interrupt sk = socket_close sk"

text \<open>An exhausted script means that writes take all they are given.\<close>

definition next_send :: "nat \<Rightarrow> socket \<Rightarrow> nat option \<times> socket" where
  "next_send chunk sk =
    (case sk_sends sk of
       [] \<Rightarrow> (Some chunk, sk)
     | Send_Error # script \<Rightarrow> (None, sk\<lparr>sk_sends := script\<rparr>)
     | Sent k # script \<Rightarrow> (if k = 0 then None else Some (min k chunk), sk\<lparr>sk_sends := script\<rparr>))"

lemma next_send_some: "next_send chunk sk = (Some k, sk') \<Longrightarrow> k \<le> chunk \<and> (0 < chunk \<longrightarrow> 0 < k)"
  by (auto simp: next_send_def split: list.splits send_outcome.splits if_splits)

lemma next_send_progress:
  "(Some written, sk') = next_send (min (length data) 0x100000) sk \<Longrightarrow> data \<noteq> [] \<Longrightarrow> 0 < written"
  using next_send_some [of "min (length data) 0x100000" sk written sk'] by auto

function send_loop :: "bytes \<Rightarrow> socket \<Rightarrow> bool \<times> socket" where
  "send_loop data sk =
    (if data = [] then (True, sk)
     else case next_send (min (length data) 0x100000) sk of
       (None, sk') \<Rightarrow> (False, sk')
     | (Some written, sk') \<Rightarrow>
         send_loop (drop written data) (sk'\<lparr>sk_sent := sk_sent sk' @ take written data\<rparr>))"
  by pat_completeness auto

termination
  by (relation "measure (\<lambda>(data, sk). length data)") (auto dest: next_send_progress)

declare send_loop.simps [simp del]

definition send_all :: "bytes \<Rightarrow> socket \<Rightarrow> bool \<times> socket" where
  "send_all data sk = (if \<not> sk_valid sk then (False, sk) else send_loop data sk)"

text \<open>The bytes that were read and the segments left, whether or not all bytes came.\<close>

fun recv_loop :: "nat \<Rightarrow> bytes list \<Rightarrow> bool \<times> bytes \<times> bytes list" where
  "recv_loop n [] = (n = 0, [], [])"
| "recv_loop n (segment # segments) =
    (if n = 0 then (True, [], segment # segments)
     else if segment = [] then (False, [], segments)
     else if n < length segment then (True, take n segment, drop n segment # segments)
     else case recv_loop (n - length segment) segments of (ok, bs, rest) \<Rightarrow> (ok, segment @ bs, rest))"

definition recv_exact :: "nat \<Rightarrow> socket \<Rightarrow> bool \<times> bytes \<times> socket" where
  "recv_exact n sk =
    (if \<not> sk_valid sk then (False, [], sk)
     else case recv_loop n (sk_arriving sk) of (ok, bs, rest) \<Rightarrow> (ok, bs, sk\<lparr>sk_arriving := rest\<rparr>))"

subsection \<open>Frames over a socket\<close>

record channel =
  ch_socket :: socket
  ch_max_payload :: nat
  ch_buffer :: bytes
  ch_begin :: nat

definition new_channel :: "socket \<Rightarrow> nat \<Rightarrow> channel" where
  "new_channel sk max_payload = \<lparr>ch_socket = sk, ch_max_payload = max_payload, ch_buffer = [], ch_begin = 0\<rparr>"

text \<open>Bytes that were read before a failure are dropped with the resized buffer.\<close>

definition fill :: "nat \<Rightarrow> channel \<Rightarrow> bool \<times> channel" where
  "fill needed ch =
    (if length (ch_buffer ch) - ch_begin ch \<ge> needed then (True, ch)
     else let ch1 = (if ch_begin ch > 0 then ch\<lparr>ch_buffer := drop (ch_begin ch) (ch_buffer ch), ch_begin := 0\<rparr> else ch) in
     if needed > ch_max_payload ch + kWireHeaderBytes then (False, ch1)
     else case recv_exact (needed - length (ch_buffer ch1)) (ch_socket ch1) of (ok, bs, sk) \<Rightarrow>
       (ok, ch1\<lparr>ch_socket := sk, ch_buffer := (if ok then ch_buffer ch1 @ bs else ch_buffer ch1)\<rparr>))"

definition send_frame :: "frame \<Rightarrow> channel \<Rightarrow> bool \<times> channel" where
  "send_frame f ch =
    (case encode_frame (ch_max_payload ch) f of
       Inl _ \<Rightarrow> (False, ch)
     | Inr bs \<Rightarrow> case send_all bs (ch_socket ch) of (ok, sk) \<Rightarrow> (ok, ch\<lparr>ch_socket := sk\<rparr>))"

definition buffered :: "channel \<Rightarrow> bytes" where
  "buffered ch = drop (ch_begin ch) (ch_buffer ch)"

definition recv_frame :: "channel \<Rightarrow> (reason + frame) \<times> channel" where
  "recv_frame ch =
    (case fill kWireHeaderBytes ch of (ok, ch1) \<Rightarrow>
     if \<not> ok then (Inl R_TransportClosed, ch1)
     else if read_u32 (buffered ch1) \<noteq> kWireMagic then (Inl R_Malformed, ch1)
     else if read_u16 (drop 4 (buffered ch1)) \<noteq> kProtocolVersion then (Inl R_ProtocolVersionMismatch, ch1)
     else let len = unat (read_u32 (drop 16 (buffered ch1))) in
     if len > min (ch_max_payload ch1) kAbsoluteMaxFramePayload then (Inl R_FrameTooLarge, ch1)
     else case fill (kWireHeaderBytes + len) ch1 of (ok2, ch2) \<Rightarrow>
     if \<not> ok2 then (Inl R_TransportClosed, ch2)
     else case decode_frame (ch_max_payload ch2) (buffered ch2) of
       Inl code \<Rightarrow> (Inl code, ch2)
     | Inr (f, consumed) \<Rightarrow> (Inr f, ch2\<lparr>ch_begin := ch_begin ch2 + consumed\<rparr>))"

text \<open>What the channel can still deliver: the buffered bytes, then the arriving ones.\<close>

definition pending :: "channel \<Rightarrow> bytes" where
  "pending ch = buffered ch @ concat (sk_arriving (ch_socket ch))"

lemma recv_loop_split:
  "recv_loop n segs = (ok, bs, rest) \<Longrightarrow> concat segs = bs @ concat rest \<and> (ok \<longrightarrow> length bs = n)"
proof (induction n segs arbitrary: ok bs rest rule: recv_loop.induct)
  case (2 n segment segments)
  obtain ok' bs' rest' where tail: "recv_loop (n - length segment) segments = (ok', bs', rest')"
    by (cases "recv_loop (n - length segment) segments")
  consider "n = 0" | "n \<noteq> 0" "segment = []" | "segment \<noteq> []" "0 < n" "n < length segment" | "segment \<noteq> []" "length segment \<le> n"
    by linarith
  then show ?case
  proof cases
    case 4
    then have "n \<noteq> 0" "\<not> n < length segment" by (cases segment, auto)+
    with 2(1) [OF this(1) 4(1) this(2) tail] 2(2) 4 tail show ?thesis by auto
  qed (use 2(2) in auto)
qed simp

lemma recv_exact_split:
  "recv_exact n sk = (ok, bs, sk') \<Longrightarrow>
   concat (sk_arriving sk) = (if sk_valid sk then bs else []) @ concat (sk_arriving sk') \<and> (ok \<longrightarrow> sk_valid sk \<and> length bs = n) \<and> sk_valid sk' = sk_valid sk"
  by (auto simp: recv_exact_def split: if_splits prod.splits dest!: recv_loop_split)

text \<open>The channel with its buffer moved to the front.\<close>

definition compacted :: "channel \<Rightarrow> channel" where
  "compacted ch = (if ch_begin ch > 0 then ch\<lparr>ch_buffer := drop (ch_begin ch) (ch_buffer ch), ch_begin := 0\<rparr> else ch)"

lemma compacted_simps [simp]:
  "ch_socket (compacted ch) = ch_socket ch" "ch_max_payload (compacted ch) = ch_max_payload ch"
  "ch_begin (compacted ch) = 0" "ch_buffer (compacted ch) = buffered ch"
  by (simp_all add: compacted_def buffered_def)

lemma fill_cases:
  assumes "fill needed ch = (ok, ch')"
  obtains (enough) "ok" "ch' = ch" "needed \<le> length (buffered ch)"
    | (oversized) "\<not> ok" "ch' = compacted ch" "ch_max_payload ch + kWireHeaderBytes < needed"
    | (short) bs sk where "\<not> ok" "recv_exact (needed - length (buffered ch)) (ch_socket ch) = (False, bs, sk)"
        "ch' = (compacted ch)\<lparr>ch_socket := sk\<rparr>"
    | (filled) bs sk where "ok" "recv_exact (needed - length (buffered ch)) (ch_socket ch) = (True, bs, sk)"
        "ch' = (compacted ch)\<lparr>ch_socket := sk, ch_buffer := buffered ch @ bs\<rparr>" "length (buffered ch) < needed"
        "needed \<le> ch_max_payload ch + kWireHeaderBytes"
proof -
  have l: "length (ch_buffer ch) - ch_begin ch = length (buffered ch)" by (simp add: buffered_def)
  obtain ok' bs sk where r: "recv_exact (needed - length (buffered ch)) (ch_socket ch) = (ok', bs, sk)"
    by (cases "recv_exact (needed - length (buffered ch)) (ch_socket ch)") auto
  have f: "fill needed ch =
    (if length (buffered ch) \<ge> needed then (True, ch)
     else if needed > ch_max_payload ch + kWireHeaderBytes then (False, compacted ch)
     else (ok', (compacted ch)\<lparr>ch_socket := sk, ch_buffer := (if ok' then buffered ch @ bs else buffered ch)\<rparr>))"
    unfolding fill_def l Let_def by (fold compacted_def) (simp add: r)
  have same: "(compacted ch)\<lparr>ch_socket := sk, ch_buffer := buffered ch\<rparr> = (compacted ch)\<lparr>ch_socket := sk\<rparr>"
    by (simp add: compacted_def buffered_def)
  consider "length (buffered ch) \<ge> needed" | "length (buffered ch) < needed" "needed > ch_max_payload ch + kWireHeaderBytes"
    | "length (buffered ch) < needed" "needed \<le> ch_max_payload ch + kWireHeaderBytes" "ok'"
    | "length (buffered ch) < needed" "needed \<le> ch_max_payload ch + kWireHeaderBytes" "\<not> ok'" by linarith
  then show ?thesis
  proof cases
    case 1 with assms f show ?thesis using enough by simp
  next
    case 2 with assms f show ?thesis using oversized by simp
  next
    case 3 with assms f r show ?thesis using filled [of bs sk] by simp
  next
    case 4 with assms f r show ?thesis using short [of bs sk] by (simp add: same)
  qed
qed

lemma buffered_simps [simp]:
  "buffered (ch\<lparr>ch_socket := sk\<rparr>) = buffered ch" "buffered (compacted ch) = buffered ch"
  "buffered (ch\<lparr>ch_socket := sk, ch_buffer := bs\<rparr>) = drop (ch_begin ch) bs"
  "buffered (ch\<lparr>ch_begin := k\<rparr>) = drop k (ch_buffer ch)"
  by (simp_all add: buffered_def compacted_def)

lemma fill_pending:
  assumes "fill needed ch = (ok, ch')"
  shows "length (pending ch') \<le> length (pending ch) \<and>
    (ok \<longrightarrow> pending ch' = pending ch \<and> needed \<le> length (buffered ch') \<and> ch_max_payload ch' = ch_max_payload ch)"
  using assms
proof (cases rule: fill_cases)
  case (short bs sk)
  then show ?thesis using recv_exact_split [OF short(2)] by (simp add: pending_def split: if_splits)
next
  case (filled bs sk)
  then show ?thesis using recv_exact_split [OF filled(2)] by (simp add: pending_def split: if_splits)
qed (simp_all add: pending_def)

lemma decode_frame_consumed:
  assumes "decode_frame max_payload data = Inr (f, consumed)"
  shows "24 \<le> consumed \<and> consumed \<le> length data"
proof -
  have "consumed = kWireHeaderBytes + unat (read_u32 (drop 16 data))" "\<not> length data < kWireHeaderBytes + unat (read_u32 (drop 16 data))"
    using assms unfolding decode_frame_def by (simp_all add: Let_def split: if_split_asm option.split_asm)
  then show ?thesis by (simp add: kWireHeaderBytes_def)
qed

text \<open>Every frame consumes bytes, so that a loop over the frames of a connection ends.\<close>

lemma recv_frame_pending:
  assumes "recv_frame ch = (Inr f, ch')"
  shows "length (pending ch') < length (pending ch)"
proof -
  obtain ch1 where 1: "fill kWireHeaderBytes ch = (True, ch1)"
    using assms by (auto simp: recv_frame_def split: prod.splits if_splits)
  let ?len = "unat (read_u32 (drop 16 (buffered ch1)))"
  obtain ch2 consumed where 2: "fill (kWireHeaderBytes + ?len) ch1 = (True, ch2)"
      "decode_frame (ch_max_payload ch2) (buffered ch2) = Inr (f, consumed)" "ch' = ch2\<lparr>ch_begin := ch_begin ch2 + consumed\<rparr>"
    using assms 1 by (auto simp: recv_frame_def Let_def split: prod.splits if_splits sum.splits)
  from decode_frame_consumed [OF 2(2)]
  have "length (pending ch') < length (pending ch2)"
    by (auto simp: pending_def 2(3) buffered_def)
  also have "\<dots> \<le> length (pending ch)"
    using fill_pending [OF 1] fill_pending [OF 2(1)] by simp
  finally show ?thesis .
qed

end
