(* ===== verification/Client.thy ===== *)
theory Client
  imports Command_Line Channel "HOL-Library.Monad_Syntax"
begin

text \<open>
  The client off: each command line is read into the call it stands for, the call is encoded as a request,
  and the request is transmitted to the runtime in the process or to a daemon. Printing is the text that
  would be printed.
\<close>

subsection \<open>Reading arguments\<close>

definition check :: "bool \<Rightarrow> unit option" where
  "check b = (if b then Some () else None)"

definition argument :: "args \<Rightarrow> nat \<Rightarrow> string option" where
  "argument a i = (if i < length (positional a) then Some (positional a ! i) else None)"

definition name_at :: "args \<Rightarrow> nat \<Rightarrow> 'tag name option" where
  "name_at a i = Option.bind (argument a i) name_parse"

definition number_at :: "args \<Rightarrow> nat \<Rightarrow> u64 option" where
  "number_at a i = Option.bind (argument a i) parse_decimal"

definition parsed_at :: "(string \<Rightarrow> 'a option) \<Rightarrow> args \<Rightarrow> nat \<Rightarrow> 'a option" where
  "parsed_at parse a i = Option.bind (argument a i) parse"

definition parse_capabilities :: "string \<Rightarrow> capability_set option" where
  "parse_capabilities text =
    (if text = [] \<or> text = ''-'' then Some default_capability_set
     else map_option (\<lambda>codes. fold cs_insert codes default_capability_set)
       (those (map capability_code_parse (split text (CHR '','')))))"

definition parse_preconditions :: "string \<Rightarrow> precondition_set option" where
  "parse_preconditions text =
    (if text = [] \<or> text = ''-'' then Some default_precondition_set
     else map_option (\<lambda>vs. fold ps_insert vs default_precondition_set)
       (those (map precondition_parse (split text (CHR '','')))))"

definition parse_dependency :: "string \<Rightarrow> dependency_spec option" where
  "parse_dependency token =
    (case split token (CHR '':'') of
       [service, kind] \<Rightarrow> do {
         s \<leftarrow> name_parse service;
         k \<leftarrow> dependency_kind_parse kind;
         Some (default_dependency_spec\<lparr>ds_service := s, ds_kind := k\<rparr>) }
     | _ \<Rightarrow> None)"

definition parse_dependencies :: "string \<Rightarrow> dependency_spec list option" where
  "parse_dependencies text =
    (if text = [] \<or> text = ''-'' then Some [] else those (map parse_dependency (split text (CHR '',''))))"

text \<open>A flag whose value is parsed when it is there.\<close>

definition optional_flag :: "args \<Rightarrow> string \<Rightarrow> (string \<Rightarrow> 'a option) \<Rightarrow> 'a \<Rightarrow> 'a option" where
  "optional_flag a name parse fallback = (case get_flag a name of None \<Rightarrow> Some fallback | Some value \<Rightarrow> parse value)"

definition registrar_of :: "args \<Rightarrow> source_name option" where
  "registrar_of a = name_parse (value_or (get_flag a ''registrar'') ''topo'')"

text \<open>What a local client reads from its runtime a remote one takes from a flag.\<close>

definition observed :: "state option \<Rightarrow> args \<Rightarrow> string \<Rightarrow> (state \<Rightarrow> 'tag gen) \<Rightarrow> 'tag gen option" where
  "observed local a name field =
    (case local of Some s \<Rightarrow> Some (field s) | None \<Rightarrow> map_option Gen (number_flag a name 0))"

definition incarnation_flags :: "args \<Rightarrow> target_incarnation option" where
  "incarnation_flags a = do {
    host \<leftarrow> number_flag a ''inc-host'' 0;
    device \<leftarrow> number_flag a ''inc-dev'' 0;
    Some (Target_Incarnation (Gen host) (Gen device)) }"

subsection \<open>The calls\<close>

datatype client_call =
  Plain wire_request_kind
| Explain_Call service_name
| Enroll_Call source_name source_role
| Service_Call service_descriptor source_name
| Target_Call target_record source_name
| Topology_Call u64 source_name
| Policy_Call policy_descriptor
| Withdraw_Call service_name source_name
| Place_Call placement_request
| Capability_Call capability_evidence
| Fail_Call failure_evidence
| Dep_Call dependency_observation
| Failover_Call bool failover_request
| Resolve_Call ambiguity_resolution
| Failback_Call failback_request
| Ack_Call intent_ack
| Effect_Call effect_report
| Cancel_Call u64
| Fence_Call fence_check

definition enroll_call :: "args \<Rightarrow> client_call option" where
  "enroll_call a = do { source \<leftarrow> name_at a 0; role \<leftarrow> parsed_at source_role_parse a 1; Some (Enroll_Call source role) }"

definition service_call :: "args \<Rightarrow> client_call option" where
  "service_call a = do {
    name \<leftarrow> name_at a 0;
    scope \<leftarrow> name_at a 1;
    statefulness \<leftarrow> parsed_at statefulness_parse a 2;
    capabilities \<leftarrow> optional_flag a ''caps'' parse_capabilities default_capability_set;
    dependencies \<leftarrow> optional_flag a ''deps'' parse_dependencies [];
    preconditions \<leftarrow> optional_flag a ''pre'' parse_preconditions default_precondition_set;
    generation \<leftarrow> number_flag a ''state-gen'' 0;
    registrar \<leftarrow> registrar_of a;
    Some (Service_Call
      \<lparr>sd_name = name, sd_scope = scope, sd_statefulness = statefulness, sd_required_capabilities = capabilities,
       sd_preconditions = preconditions, sd_dependencies = dependencies, sd_last_known_state_generation = Gen generation\<rparr>
      registrar) }"

definition target_call :: "args \<Rightarrow> client_call option" where
  "target_call a = do {
    name \<leftarrow> name_at a 0;
    host \<leftarrow> name_at a 1;
    device \<leftarrow> name_at a 2;
    kind \<leftarrow> parsed_at device_kind_parse a 3;
    scope \<leftarrow> name_at a 4;
    host_incarnation \<leftarrow> number_at a 5;
    device_incarnation \<leftarrow> number_at a 6;
    registrar \<leftarrow> registrar_of a;
    Some (Target_Call (default_target_record
      \<lparr>tr_name := name, tr_host := host, tr_device := device, tr_kind := kind, tr_scope := scope,
       tr_incarnation := Target_Incarnation (Gen host_incarnation) (Gen device_incarnation)\<rparr>) registrar) }"

definition policy_call :: "args \<Rightarrow> client_call option" where
  "policy_call a = do {
    generation \<leftarrow> number_at a 0;
    scope \<leftarrow> name_at a 1;
    attempts \<leftarrow> number_flag a ''max-attempts'' (ucast (pd_max_attempts_per_generation default_policy_descriptor));
    steps \<leftarrow> number_flag a ''max-plan-steps'' (ucast (pd_max_plan_steps default_policy_descriptor));
    candidates \<leftarrow> number_flag a ''candidates'' (ucast (pd_max_fallback_candidates default_policy_descriptor));
    age \<leftarrow> number_flag a ''evidence-max-age'' (ucast (pd_evidence_max_age_ticks default_policy_descriptor));
    depth \<leftarrow> number_flag a ''dependency-depth'' (ucast (pd_dependency_max_depth default_policy_descriptor));
    degraded \<leftarrow> number_flag a ''allow-degraded'' (of_bool (pd_allow_degraded_continuity default_policy_descriptor));
    failback \<leftarrow> number_flag a ''allow-failback'' (of_bool (pd_allow_failback default_policy_descriptor));
    ambiguous \<leftarrow> number_flag a ''require-operator-ambiguous'' (of_bool (pd_require_operator_for_ambiguous default_policy_descriptor));
    check (attempts \<le> 0xFFFFFFFF \<and> steps \<le> 0xFFFFFFFF \<and> candidates \<le> 0xFFFFFFFF \<and> age \<le> 0xFFFFFFFF \<and> depth \<le> 0xFFFFFFFF);
    Some (Policy_Call
      \<lparr>pd_generation = Gen generation, pd_scope = scope, pd_max_attempts_per_generation = ucast attempts,
       pd_max_plan_steps = ucast steps, pd_max_fallback_candidates = ucast candidates, pd_evidence_max_age_ticks = ucast age,
       pd_dependency_max_depth = ucast depth, pd_require_operator_for_ambiguous = (ambiguous \<noteq> 0),
       pd_allow_degraded_continuity = (degraded \<noteq> 0), pd_allow_failback = (failback \<noteq> 0)\<rparr>) }"

definition place_call :: "args \<Rightarrow> client_call option" where
  "place_call a = do {
    key \<leftarrow> number_flag a ''key'' 0;
    service \<leftarrow> name_at a 0;
    target \<leftarrow> name_at a 1;
    requester \<leftarrow> name_at a 2;
    Some (Place_Call \<lparr>pq_key = Id key, pq_service = service, pq_target = target, pq_requester = requester\<rparr>) }"

definition capability_call :: "state option \<Rightarrow> args \<Rightarrow> client_call option" where
  "capability_call local a = do {
    target \<leftarrow> name_at a 0;
    generation \<leftarrow> number_at a 1;
    capabilities \<leftarrow> parsed_at parse_capabilities a 2;
    host_incarnation \<leftarrow> number_at a 3;
    device_incarnation \<leftarrow> number_at a 4;
    source \<leftarrow> name_at a 5;
    topology \<leftarrow> (case get_flag a ''topology'' of
      None \<Rightarrow> map_option (\<lambda>s. gen_value (st_topology_generation s)) local
    | Some value \<Rightarrow> parse_decimal value);
    Some (Capability_Call (default_capability_evidence
      \<lparr>ce_target := target, ce_generation := Gen generation, ce_capabilities := capabilities,
       ce_topology_generation := Gen topology, ce_source := source,
       ce_incarnation := Target_Incarnation (Gen host_incarnation) (Gen device_incarnation)\<rparr>)) }"

definition fail_call :: "state option \<Rightarrow> args \<Rightarrow> client_call option" where
  "fail_call local a = do {
    service \<leftarrow> name_at a 0;
    target \<leftarrow> name_at a 1;
    failure \<leftarrow> parsed_at failure_class_parse a 2;
    source \<leftarrow> name_at a 3;
    sequence \<leftarrow> number_at a 4;
    ambiguous \<leftarrow> number_flag a ''ambiguous'' 0;
    check (ambiguous \<le> 2);
    identifier \<leftarrow> number_flag a ''id'' 0;
    incarnation \<leftarrow> incarnation_flags a;
    epoch \<leftarrow> observed local a ''epoch'' st_epoch;
    boot \<leftarrow> observed local a ''boot'' st_boot;
    topology \<leftarrow> observed local a ''topology'' st_topology_generation;
    Some (Fail_Call (default_failure_evidence
      \<lparr>fe_id := Id identifier, fe_service := service, fe_target := \<lparr>tg_target = target, tg_incarnation = incarnation\<rparr>,
       fe_failure_class := failure, fe_ambiguity := enum_of kAmbiguity (ucast ambiguous),
       fe_provenance := default_provenance\<lparr>pv_source := source, pv_sequence := Gen sequence, pv_epoch := epoch, pv_boot := boot\<rparr>,
       fe_topology_generation := topology\<rparr>)) }"

definition dep_call :: "state option \<Rightarrow> args \<Rightarrow> client_call option" where
  "dep_call local a = do {
    service \<leftarrow> name_at a 0;
    dependency \<leftarrow> name_at a 1;
    health \<leftarrow> parsed_at dependency_health_parse a 2;
    source \<leftarrow> name_at a 3;
    sequence \<leftarrow> number_at a 4;
    epoch \<leftarrow> observed local a ''epoch'' st_epoch;
    boot \<leftarrow> observed local a ''boot'' st_boot;
    topology \<leftarrow> observed local a ''topology'' st_topology_generation;
    Some (Dep_Call (default_dependency_observation
      \<lparr>dob_service := service, dob_dependency := dependency, dob_health := health,
       dob_provenance := default_provenance\<lparr>pv_source := source, pv_sequence := Gen sequence, pv_epoch := epoch, pv_boot := boot\<rparr>,
       dob_topology_generation := topology\<rparr>)) }"

definition failover_call :: "bool \<Rightarrow> args \<Rightarrow> client_call option" where
  "failover_call resume a = do {
    key \<leftarrow> number_flag a ''key'' 0;
    service \<leftarrow> name_at a 0;
    if resume then do {
      requester \<leftarrow> name_at a 1;
      Some (Failover_Call True (default_failover_request
        \<lparr>fq_key := Id key, fq_service := service, fq_requester := requester, fq_operator_authorized := True,
         fq_trigger := RecoveryTrigger_OperatorCommand\<rparr>)) }
    else do {
      trigger \<leftarrow> recovery_trigger_parse (value_or (get_flag a ''trigger'') ''failure_evidence'');
      requester \<leftarrow> name_parse (value_or (get_flag a ''requester'') ''operator'');
      evidence \<leftarrow> number_flag a ''evidence'' 0;
      authorized \<leftarrow> number_flag a ''authorized'' 0;
      Some (Failover_Call False
        \<lparr>fq_key = Id key, fq_service = service, fq_trigger = trigger, fq_evidence = Id evidence, fq_requester = requester,
         fq_operator_authorized = (authorized \<noteq> 0)\<rparr>) } }"

definition word_choice :: "string \<Rightarrow> string \<Rightarrow> args \<Rightarrow> nat \<Rightarrow> bool option" where
  "word_choice yes no a i =
    parsed_at (\<lambda>t. if t = yes then Some True else if t = no then Some False else None) a i"

definition resolve_call :: "args \<Rightarrow> client_call option" where
  "resolve_call a = do {
    key \<leftarrow> number_flag a ''key'' 0;
    service \<leftarrow> name_at a 0;
    evidence \<leftarrow> number_at a 1;
    operator \<leftarrow> name_at a 3;
    confirm \<leftarrow> word_choice ''confirm'' ''deny'' a 2;
    Some (Resolve_Call \<lparr>am_key = Id key, am_service = service, am_evidence = Id evidence, am_confirm_failure = confirm,
      am_resolved_by = operator\<rparr>) }"

definition failback_call :: "state option \<Rightarrow> args \<Rightarrow> client_call option" where
  "failback_call local a = do {
    key \<leftarrow> number_flag a ''key'' 0;
    service \<leftarrow> name_at a 0;
    target \<leftarrow> name_at a 1;
    requester \<leftarrow> name_at a 2;
    topology \<leftarrow> observed local a ''topology'' st_topology_generation;
    policy \<leftarrow> observed local a ''policy'' st_policy_generation;
    Some (Failback_Call \<lparr>bq_key = Id key, bq_service = service, bq_preferred_target = target,
      bq_observed_topology_generation = topology, bq_observed_policy_generation = policy, bq_requester = requester\<rparr>) }"

definition ack_call :: "args \<Rightarrow> client_call option" where
  "ack_call a = do {
    attempt \<leftarrow> number_at a 0;
    fence \<leftarrow> number_at a 1;
    generation \<leftarrow> number_at a 2;
    executor \<leftarrow> name_at a 4;
    accepted \<leftarrow> word_choice ''accept'' ''reject'' a 3;
    key \<leftarrow> number_flag a ''key'' 0;
    Some (Ack_Call \<lparr>ia_key = Id key, ia_attempt = Id attempt, ia_fence = Gen fence, ia_generation = Gen generation,
      ia_accepted = accepted, ia_executor = executor\<rparr>) }"

definition effect_call :: "state option \<Rightarrow> args \<Rightarrow> client_call option" where
  "effect_call local a = do {
    service \<leftarrow> name_at a 0;
    attempt \<leftarrow> number_at a 1;
    generation \<leftarrow> number_at a 2;
    fence \<leftarrow> number_at a 3;
    target \<leftarrow> name_at a 4;
    kind \<leftarrow> parsed_at effect_kind_parse a 5;
    outcome \<leftarrow> parsed_at effect_result_parse a 6;
    source \<leftarrow> name_at a 7;
    identifier \<leftarrow> number_flag a ''id'' 0;
    state_generation \<leftarrow> number_flag a ''state-gen'' 0;
    incarnation \<leftarrow> incarnation_flags a;
    epoch \<leftarrow> observed local a ''epoch'' st_epoch;
    boot \<leftarrow> observed local a ''boot'' st_boot;
    Some (Effect_Call
      \<lparr>er_id = Id identifier, er_service = service, er_attempt = Id attempt, er_generation = Gen generation, er_fence = Gen fence,
       er_target = \<lparr>tg_target = target, tg_incarnation = incarnation\<rparr>, er_kind = kind, er_result = outcome,
       er_state_generation = Gen state_generation,
       er_provenance = default_provenance\<lparr>pv_source := source, pv_epoch := epoch, pv_boot := boot\<rparr>\<rparr>) }"

definition fence_call :: "args \<Rightarrow> client_call option" where
  "fence_call a = do {
    service \<leftarrow> name_at a 0;
    target \<leftarrow> name_at a 1;
    token \<leftarrow> number_at a 2;
    incarnation \<leftarrow> incarnation_flags a;
    Some (Fence_Call \<lparr>fk_service = service, fk_holder = \<lparr>tg_target = target, tg_incarnation = incarnation\<rparr>,
      fk_presented = Gen token\<rparr>) }"

text \<open>The call of a command line; the state is the one of a local runtime.\<close>

definition command_call :: "state option \<Rightarrow> string \<Rightarrow> args \<Rightarrow> client_call option" where
  "command_call local command a =
    (if command = ''view'' then Some (Plain WR_QueryView)
     else if command = ''export'' then Some (Plain WR_Export)
     else if command = ''stats'' then Some (Plain WR_Stats)
     else if command = ''recovery'' then Some (Plain WR_Recovery)
     else if command = ''intents'' \<or> command = ''pull'' then Some (Plain WR_PullIntent)
     else if command = ''explain'' then map_option Explain_Call (name_at a 0)
     else if command = ''enroll'' then enroll_call a
     else if command = ''service'' then service_call a
     else if command = ''target'' then target_call a
     else if command = ''topology'' then do {
       generation \<leftarrow> number_at a 0; reporter \<leftarrow> name_at a 1; Some (Topology_Call generation reporter) }
     else if command = ''policy'' then policy_call a
     else if command = ''withdraw'' then do {
       service \<leftarrow> name_at a 0; requester \<leftarrow> name_at a 1; Some (Withdraw_Call service requester) }
     else if command = ''place'' then place_call a
     else if command = ''capability'' then capability_call local a
     else if command = ''fail'' then fail_call local a
     else if command = ''dep'' then dep_call local a
     else if command = ''failover'' then failover_call False a
     else if command = ''resume'' then failover_call True a
     else if command = ''resolve'' then resolve_call a
     else if command = ''failback'' then failback_call local a
     else if command = ''ack'' then ack_call a
     else if command = ''effect'' then effect_call local a
     else if command = ''cancel'' then map_option Cancel_Call (number_at a 0)
     else if command = ''fence'' then fence_call a
     else if command = ''shutdown'' then Some (Plain WR_Shutdown)
     else None)"

subsection \<open>Requests\<close>

definition put_name :: "'tag name \<Rightarrow> writer \<Rightarrow> writer" where
  "put_name n = put_text (str n)"

definition failover_body :: "failover_request \<Rightarrow> writer \<Rightarrow> writer" where
  "failover_body r = seq [put_name (fq_service r), put_u8 (of_nat (ordinal kRecoveryTriggers (fq_trigger r))),
    put_u64 (id_value (fq_evidence r)), put_name (fq_requester r), put_bool (fq_operator_authorized r)]"

definition resolve_body :: "ambiguity_resolution \<Rightarrow> writer \<Rightarrow> writer" where
  "resolve_body r = seq [put_name (am_service r), put_u64 (id_value (am_evidence r)), put_bool (am_confirm_failure r),
    put_name (am_resolved_by r)]"

definition failback_body :: "failback_request \<Rightarrow> writer \<Rightarrow> writer" where
  "failback_body r = seq [put_name (bq_service r), put_name (bq_preferred_target r),
    put_u64 (gen_value (bq_observed_topology_generation r)), put_u64 (gen_value (bq_observed_policy_generation r)),
    put_name (bq_requester r)]"

definition ack_body :: "intent_ack \<Rightarrow> writer \<Rightarrow> writer" where
  "ack_body r = seq [put_u64 (id_value (ia_attempt r)), put_u64 (gen_value (ia_fence r)), put_u64 (gen_value (ia_generation r)),
    put_bool (ia_accepted r), put_name (ia_executor r)]"

definition fence_body :: "fence_check \<Rightarrow> writer \<Rightarrow> writer" where
  "fence_body c = seq [put_name (fk_service c), encode_target_ref (fk_holder c), put_u64 (gen_value (fk_presented c))]"

definition place_body :: "placement_request \<Rightarrow> writer \<Rightarrow> writer" where
  "place_body r = seq [put_name (pq_service r), put_name (pq_target r), put_name (pq_requester r)]"

text \<open>The kind, the key and the body of the request for a call.\<close>

fun call_parts :: "client_call \<Rightarrow> wire_request_kind \<times> u64 \<times> (writer \<Rightarrow> writer)" where
  "call_parts (Plain kind) = (kind, 0, seq [])"
| "call_parts (Explain_Call service) = (WR_Explain, 0, seq [put_name service])"
| "call_parts (Enroll_Call source role) = (WR_EnrollSource, 0, seq [put_name source, put_enum kSourceRoles role])"
| "call_parts (Service_Call d registrar) = (WR_RegisterService, 0, seq [put_name registrar, encode_service_descriptor d])"
| "call_parts (Target_Call t registrar) = (WR_RegisterTarget, 0, seq [put_name registrar, encode_target_record t])"
| "call_parts (Topology_Call g reporter) = (WR_SetTopologyGeneration, 0, seq [put_u64 g, put_name reporter])"
| "call_parts (Policy_Call p) = (WR_SetPolicy, 0, encode_policy_descriptor p)"
| "call_parts (Withdraw_Call service requester) = (WR_WithdrawService, 0, seq [put_name service, put_name requester])"
| "call_parts (Place_Call r) = (WR_EstablishPlacement, id_value (pq_key r), place_body r)"
| "call_parts (Capability_Call ev) = (WR_IngestCapability, 0, encode_capability_evidence ev)"
| "call_parts (Fail_Call ev) = (WR_IngestFailure, 0, encode_failure_evidence ev)"
| "call_parts (Dep_Call ob) = (WR_IngestDependency, 0, encode_dependency_observation ob)"
| "call_parts (Failover_Call resume r) =
    (if resume then WR_ResumeRecovery else WR_RequestFailover, id_value (fq_key r), failover_body r)"
| "call_parts (Resolve_Call r) = (WR_ResolveAmbiguity, id_value (am_key r), resolve_body r)"
| "call_parts (Failback_Call r) = (WR_RequestFailback, id_value (bq_key r), failback_body r)"
| "call_parts (Ack_Call r) = (WR_AcknowledgeIntent, id_value (ia_key r), ack_body r)"
| "call_parts (Effect_Call r) = (WR_ReportEffect, 0, encode_effect_report r)"
| "call_parts (Cancel_Call key) = (WR_CancelRequest, 0, seq [put_u64 key])"
| "call_parts (Fence_Call c) = (WR_VerifyFence, 0, fence_body c)"

definition call_request :: "client_call \<Rightarrow> wire_request" where
  "call_request c =
    (case call_parts c of (kind, key, body) \<Rightarrow> \<lparr>wq_kind = kind, wq_key = key, wq_body = wr_buffer (body new_writer)\<rparr>)"

subsection \<open>Surfaces\<close>

text \<open>The runtime in the process, or a channel to a daemon with the next correlation number.\<close>

datatype surface = Local impl | Remote channel u64

definition local_state :: "surface \<Rightarrow> state option" where
  "local_state sf = (case sf of Local im \<Rightarrow> Some (im_state im) | Remote _ _ \<Rightarrow> None)"

definition transmit :: "wire_request \<Rightarrow> surface \<Rightarrow> (bool \<times> string list) \<times> surface" where
  "transmit q sf =
    (case sf of
       Local im \<Rightarrow>
         (case execute_request q im of ((code, given), im') \<Rightarrow>
          let body = wp_body (value_or given default_wire_response) in
          ((reason_is_accept code,
            [if body \<noteq> [] then body else ''{\"status\":\"'' @ reason_code_text code @ ''\"}'']), Local im'))
     | Remote ch correlation \<Rightarrow>
       let failed = (\<lambda>ch'. ((False, []), Remote ch' (correlation + 1))) in
       (case encode_request (ch_max_payload ch) q of
          Inl _ \<Rightarrow> failed ch
        | Inr content \<Rightarrow>
          (case send_frame \<lparr>fm_kind = WM_Request, fm_correlation = correlation, fm_payload = content\<rparr> ch of (ok, ch1) \<Rightarrow>
           if \<not> ok then failed ch1
           else case recv_frame ch1 of
             (Inl _, ch2) \<Rightarrow> failed ch2
           | (Inr f, ch2) \<Rightarrow>
             if fm_kind f \<noteq> WM_Response then failed ch2
             else case decode_response (fm_payload f) of
               Inl _ \<Rightarrow> failed ch2
             | Inr p \<Rightarrow> ((reason_is_accept (wp_status p), [wp_body p]), Remote ch2 (correlation + 1)))))"

definition run_command :: "string \<Rightarrow> args \<Rightarrow> surface \<Rightarrow> (bool \<times> string list) \<times> surface" where
  "run_command command a sf =
    (case command_call (local_state sf) command a of
       None \<Rightarrow> ((False, []), sf)
     | Some c \<Rightarrow> transmit (call_request c) sf)"

text \<open>The exit code, what is printed on the standard output, and the surface afterwards.\<close>

definition run_tokens :: "string list \<Rightarrow> surface \<Rightarrow> (nat \<times> string list) \<times> surface" where
  "run_tokens tokens sf =
    (case tokens of
       [] \<Rightarrow> ((0, []), sf)
     | command # rest \<Rightarrow>
       if command = ''help'' then ((0, []), sf)
       else case run_command command (parse_args rest) sf of ((ok, out), sf') \<Rightarrow> ((if ok then 0 else 1, out), sf'))"

text \<open>What \<open>fgets\<close> reads: at most 8191 characters, up to and with the end of the line.\<close>

fun cut_line :: "nat \<Rightarrow> string \<Rightarrow> string \<times> string" where
  "cut_line 0 s = ([], s)"
| "cut_line (Suc n) [] = ([], [])"
| "cut_line (Suc n) (c # s) =
    (if c = CHR 0x0A then ([c], s) else case cut_line n s of (line, rest) \<Rightarrow> (c # line, rest))"

lemma cut_line_append: "cut_line n s = (line, rest) \<Longrightarrow> s = line @ rest"
  by (induction n s arbitrary: line rest rule: cut_line.induct) (auto split: if_splits prod.splits)

lemma cut_line_shorter:
  assumes "s \<noteq> []" "0 < n" "cut_line n s = (line, rest)"
  shows "length rest < length s"
proof -
  obtain c t m where s: "s = c # t" "n = Suc m" using assms(1,2) by (cases s; cases n) auto
  obtain line' rest' where "cut_line m t = (line', rest')" by (cases "cut_line m t")
  with cut_line_append [OF this] s assms(3) show ?thesis by (auto split: if_splits)
qed

lemma script_rest: "(line, rest) = cut_line 8191 s \<Longrightarrow> s \<noteq> [] \<Longrightarrow> length rest < length s"
  using cut_line_shorter [of s 8191 line rest] by simp

function script_lines :: "string \<Rightarrow> string list" where
  "script_lines s = (if s = [] then [] else case cut_line 8191 s of (line, rest) \<Rightarrow> line # script_lines rest)"
  by pat_completeness auto

termination
  by (relation "measure length") (auto dest: script_rest)

declare script_lines.simps [simp del]

text \<open>A line ends at a zero character, as the C string of the buffer does, and at a comment.\<close>

definition script_line :: "string \<Rightarrow> string" where
  "script_line line = takeWhile (\<lambda>c. c \<noteq> CHR ''#'') (takeWhile (\<lambda>c. c \<noteq> CHR 0x00) line)"

fun run_lines :: "string list \<Rightarrow> nat \<Rightarrow> surface \<Rightarrow> (nat \<times> string list) \<times> surface" where
  "run_lines [] status sf = ((status, []), sf)"
| "run_lines (raw # rest) status sf =
    (let line = script_line raw; tokens = tokenize line in
     if tokens = [] then run_lines rest status sf
     else case run_tokens tokens sf of ((code, out), sf1) \<Rightarrow>
       (case run_lines rest (if code \<noteq> 0 then code else status) sf1 of ((status', outs), sf2) \<Rightarrow>
         ((status', (''> '' @ line) # out @ outs), sf2)))"

definition run_script :: "string \<Rightarrow> surface \<Rightarrow> (nat \<times> string list) \<times> surface" where
  "run_script text sf = run_lines (script_lines text) 0 sf"

subsection \<open>The process\<close>

record client_context =
  cx_remote :: bool
  cx_host :: string
  cx_port :: nat
  cx_store_directory :: string
  cx_max_frame :: nat

definition default_context :: client_context where
  "default_context = \<lparr>cx_remote = False, cx_host = ''127.0.0.1'', cx_port = 0, cx_store_directory = [],
    cx_max_frame = kDefaultMaxFramePayload\<rparr>"

text \<open>The options before the command: the context, the script and whether the commands come from the
  standard input, and the command. \<open>Inl\<close> is an exit before anything is opened.\<close>

definition set_option :: "string \<Rightarrow> string \<Rightarrow> client_context \<times> string \<Rightarrow> (client_context \<times> string) option" where
  "set_option token value state =
    (case state of (cx, script) \<Rightarrow>
     if token = ''--store'' then Some (cx\<lparr>cx_store_directory := value\<rparr>, script)
     else if token = ''--script'' then Some (cx, value)
     else if token = ''--connect'' then
       map_option (\<lambda>(host, port). (cx\<lparr>cx_remote := True, cx_host := host, cx_port := port\<rparr>, script)) (parse_endpoint value)
     else map_option (\<lambda>n. (cx\<lparr>cx_max_frame := n\<rparr>, script)) (bounded_number kAbsoluteMaxFramePayload value))"

fun client_options :: "string list \<Rightarrow> client_context \<times> string \<Rightarrow> bool \<Rightarrow> nat + (client_context \<times> string) \<times> bool \<times> string list" where
  "client_options [] state from_stdin = Inr (state, from_stdin, [])"
| "client_options (token # tokens) state from_stdin =
    (if token \<in> {''--store'', ''--connect'', ''--max-frame-bytes'', ''--script''} then
       (case tokens of
          [] \<Rightarrow> Inl 1
        | given # rest \<Rightarrow>
          (case set_option token given state of None \<Rightarrow> Inl 1 | Some state' \<Rightarrow> client_options rest state' from_stdin))
     else if token = ''--stdin'' then client_options tokens state True
     else if token \<in> {''--help'', ''-h''} then Inl 0
     else Inr (state, from_stdin, token # tokens))"

definition hello_frame :: "u64 \<Rightarrow> frame" where
  "hello_frame correlation = \<lparr>fm_kind = WM_Hello, fm_correlation = correlation,
    fm_payload = wr_buffer (seq [put_u16 kProtocolVersion, put_text ''off''] new_writer)\<rparr>"

text \<open>The connection and the directory are what the operating system gives.\<close>

definition open_surface :: "client_context \<Rightarrow> socket option \<Rightarrow> disk \<Rightarrow> surface option" where
  "open_surface cx connection d =
    (if cx_remote cx then
       (case connection of
          None \<Rightarrow> None
        | Some sk \<Rightarrow>
          (case send_frame (hello_frame 1) (new_channel sk (cx_max_frame cx)) of (ok, ch) \<Rightarrow>
           if \<not> ok then None
           else case recv_frame ch of
             (Inl _, _) \<Rightarrow> None
           | (Inr f, ch') \<Rightarrow> if fm_kind f \<noteq> WM_Welcome then None else Some (Remote ch' 2)))
     else case fabric_open (new_impl (if cx_store_directory cx = [] then default_fabric_config
         else default_fabric_config\<lparr>cf_store_directory := Some (cx_store_directory cx)\<rparr>) d) of
       (opened, im) \<Rightarrow> if opened = R_Ok then Some (Local im) else None)"

definition close_surface :: "surface \<Rightarrow> surface" where
  "close_surface sf = (case sf of Local im \<Rightarrow> Local (snd (fabric_close im)) | _ \<Rightarrow> sf)"

text \<open>The whole client: the exit code, the standard output and the surface at the end. The files are the
  contents of a script, if it can be opened, and of the standard input.\<close>

definition client_main ::
    "string list \<Rightarrow> (string \<Rightarrow> string option) \<Rightarrow> string \<Rightarrow> socket option \<Rightarrow> disk \<Rightarrow> (nat \<times> string list) \<times> surface option" where
  "client_main arguments files input connection d =
    (case client_options arguments (default_context, []) False of
       Inl code \<Rightarrow> ((code, []), None)
     | Inr ((cx, script), from_stdin, command) \<Rightarrow>
       if script = [] \<and> \<not> from_stdin \<and> command = [] then ((2, []), None)
       else case open_surface cx connection d of
         None \<Rightarrow> ((1, []), None)
       | Some sf \<Rightarrow>
         if script \<noteq> [] then
           (case files script of
              None \<Rightarrow> ((1, []), Some sf)
            | Some text \<Rightarrow> (case run_script text sf of (r, sf') \<Rightarrow> (r, Some (close_surface sf'))))
         else if from_stdin then (case run_script input sf of (r, sf') \<Rightarrow> (r, Some (close_surface sf')))
         else (case run_tokens command sf of (r, sf') \<Rightarrow> (r, Some (close_surface sf'))))"

end
