(* ===== verification/Daemon.thy ===== *)
theory Daemon
  imports Command_Line Channel
begin

text \<open>
  The daemon offd: its accept queue, the service of one connection as a state machine whose steps are a
  receive, a call of the runtime and a send, and the whole process, in which an acceptor and the workers
  take their steps in any order. The runtime guards every call with its own lock, so a call is one step.
\<close>

subsection \<open>The queue of accepted connections\<close>

record 'a accept_queue =
  aq_entries :: "'a list"
  aq_capacity :: nat
  aq_closed :: bool

definition new_accept_queue :: "nat \<Rightarrow> 'a accept_queue" where
  "new_accept_queue capacity =
    \<lparr>aq_entries = [], aq_capacity = (if capacity = 0 then 1 else capacity), aq_closed = False\<rparr>"

definition aq_push :: "'a \<Rightarrow> 'a accept_queue \<Rightarrow> bool \<times> 'a accept_queue" where
  "aq_push x q =
    (if aq_closed q \<or> length (aq_entries q) \<ge> aq_capacity q then (False, q)
     else (True, q\<lparr>aq_entries := aq_entries q @ [x]\<rparr>))"

text \<open>A pop blocks until there is an entry or the queue is closed; entries are still handed out after
  the queue was closed.\<close>

datatype 'a popped = Blocked | Exhausted | Popped 'a

definition aq_pop :: "'a accept_queue \<Rightarrow> 'a popped \<times> 'a accept_queue" where
  "aq_pop q =
    (case aq_entries q of
       [] \<Rightarrow> (if aq_closed q then Exhausted else Blocked, q)
     | x # xs \<Rightarrow> (Popped x, q\<lparr>aq_entries := xs\<rparr>))"

definition aq_close :: "'a accept_queue \<Rightarrow> 'a accept_queue" where
  "aq_close q = q\<lparr>aq_closed := True\<rparr>"

subsection \<open>One connection\<close>

definition send_error :: "u64 \<Rightarrow> reason \<Rightarrow> channel \<Rightarrow> channel" where
  "send_error correlation code ch = snd (send_frame
    \<lparr>fm_kind = WM_Error, fm_correlation = correlation, fm_payload = wr_buffer (put_u16 (reason_value code) new_writer)\<rparr> ch)"

text \<open>Where the service of a connection stands: before its first frame, about to answer a valid greeting,
  waiting for a frame, holding a frame, holding an answer.\<close>

datatype session_phase =
  Greeting
| Welcoming u64
| Awaiting
| Handling frame
| Replying u64 "wire_request_kind" wire_response
| Ended

record session =
  sn_channel :: channel
  sn_phase :: session_phase

definition new_session :: "daemon_options \<Rightarrow> socket \<Rightarrow> session" where
  "new_session o' sk = \<lparr>sn_channel = new_channel sk (dp_max_frame o'), sn_phase = Greeting\<rparr>"

definition greet :: "channel \<Rightarrow> session" where
  "greet ch =
    (case recv_frame ch of
       (Inl _, ch') \<Rightarrow> \<lparr>sn_channel = ch', sn_phase = Ended\<rparr>
     | (Inr f, ch') \<Rightarrow>
       if fm_kind f \<noteq> WM_Hello then
         \<lparr>sn_channel = send_error (fm_correlation f) R_ProtocolViolation ch', sn_phase = Ended\<rparr>
       else case fst (dbind get_u16 (\<lambda>version. dbind get_text (\<lambda>client. dreturn version)) (new_reader (fm_payload f))) of
         None \<Rightarrow> \<lparr>sn_channel = ch', sn_phase = Ended\<rparr>
       | Some version \<Rightarrow>
         if version \<noteq> kProtocolVersion then
           \<lparr>sn_channel = send_error (fm_correlation f) R_ProtocolVersionMismatch ch', sn_phase = Ended\<rparr>
         else \<lparr>sn_channel = ch', sn_phase = Welcoming (fm_correlation f)\<rparr>)"

definition welcome_frame :: "u64 \<Rightarrow> impl \<Rightarrow> frame" where
  "welcome_frame correlation im = \<lparr>fm_kind = WM_Welcome, fm_correlation = correlation,
    fm_payload = wr_buffer (seq [put_u16 kProtocolVersion, put_u64 (gen_value (st_epoch (im_state im))),
      put_u64 (gen_value (st_boot (im_state im)))] new_writer)\<rparr>"

text \<open>The kind that is left in the request when it does not decode: the one on the wire as soon as it is in
  range, even when the rest of the request is malformed.\<close>

definition decoded_kind :: "bytes \<Rightarrow> wire_request_kind" where
  "decoded_kind data =
    (case fst (dbind get_u16 (\<lambda>kind. dbind get_u64 (\<lambda>key. dreturn kind)) (new_reader data)) of
       None \<Rightarrow> WR_QueryView
     | Some kind \<Rightarrow> if kind = 0 \<or> kind > 50 then WR_QueryView else wire_request_of kind)"

definition bare_refusal :: "reason \<Rightarrow> string" where
  "bare_refusal code = ''{\"accepted\":false,\"status\":{\"code\":\"'' @ reason_code_text code @ ''\"}}''"

definition answer_request :: "bytes \<Rightarrow> impl \<Rightarrow> wire_response \<times> impl" where
  "answer_request data im =
    (case decode_request data of
       Inl code \<Rightarrow> (default_wire_response\<lparr>wp_status := code, wp_body := bare_refusal code\<rparr>, im)
     | Inr q \<Rightarrow> (case execute_request q im of ((executed, given), im') \<Rightarrow>
         let p = value_or given default_wire_response in
         (if wp_body p = [] then p\<lparr>wp_status := executed, wp_body := bare_refusal executed\<rparr> else p, im')))"

definition handle_frame :: "frame \<Rightarrow> impl \<Rightarrow> session_phase \<times> impl" where
  "handle_frame f im =
    (case fm_kind f of
       WM_Cancel \<Rightarrow>
         (case fst (get_u64 (new_reader (fm_payload f))) of
            None \<Rightarrow> (Awaiting, im)
          | Some key \<Rightarrow> (Awaiting, snd (cancel (Id key) im)))
     | WM_Request \<Rightarrow>
         (case answer_request (fm_payload f) im of (p, im') \<Rightarrow>
           (Replying (fm_correlation f) (decoded_kind (fm_payload f)) p, im'))
     | _ \<Rightarrow> (Ended, im))"

text \<open>The answer is sent, and then a shutdown that is allowed stops the daemon, whose beginning is the
  first result.\<close>

definition reply :: "daemon_options \<Rightarrow> u64 \<Rightarrow> wire_request_kind \<Rightarrow> wire_response \<Rightarrow> channel \<Rightarrow> bool \<times> session" where
  "reply o' correlation kind p ch =
    (case encode_response (dp_max_frame o') p of
       Inl _ \<Rightarrow> (False, \<lparr>sn_channel = ch, sn_phase = Ended\<rparr>)
     | Inr content \<Rightarrow>
       (case send_frame \<lparr>fm_kind = WM_Response, fm_correlation = correlation, fm_payload = content\<rparr> ch of (ok, ch') \<Rightarrow>
        if \<not> ok then (False, \<lparr>sn_channel = ch', sn_phase = Ended\<rparr>)
        else if kind = WR_Shutdown \<and> dp_allow_remote_shutdown o' then (True, \<lparr>sn_channel = ch', sn_phase = Ended\<rparr>)
        else (False, \<lparr>sn_channel = ch', sn_phase = Awaiting\<rparr>)))"

definition serve_step :: "daemon_options \<Rightarrow> session \<Rightarrow> impl \<Rightarrow> bool \<times> session \<times> impl" where
  "serve_step o' sn im =
    (case sn_phase sn of
       Greeting \<Rightarrow> (False, greet (sn_channel sn), im)
     | Welcoming correlation \<Rightarrow>
         (case send_frame (welcome_frame correlation im) (sn_channel sn) of (ok, ch) \<Rightarrow>
           (False, \<lparr>sn_channel = ch, sn_phase = (if ok then Awaiting else Ended)\<rparr>, im))
     | Awaiting \<Rightarrow>
         (case recv_frame (sn_channel sn) of
            (Inl _, ch) \<Rightarrow> (False, \<lparr>sn_channel = ch, sn_phase = Ended\<rparr>, im)
          | (Inr f, ch) \<Rightarrow> (False, \<lparr>sn_channel = ch, sn_phase = Handling f\<rparr>, im))
     | Handling f \<Rightarrow>
         (case handle_frame f im of (phase, im') \<Rightarrow> (False, sn\<lparr>sn_phase := phase\<rparr>, im'))
     | Replying correlation kind p \<Rightarrow>
         (case reply o' correlation kind p (sn_channel sn) of (stop, sn') \<Rightarrow> (stop, sn', im))
     | Ended \<Rightarrow> (False, sn, im))"

subsection \<open>The process\<close>

text \<open>A worker waits for a connection, has taken one that is not registered yet, serves it, or has ended.\<close>

datatype worker = Idle | Taken socket | Serving session | Exited

record daemon =
  dn_options :: daemon_options
  dn_impl :: impl
  dn_listening :: bool
  dn_stopping :: bool
  dn_accepting :: bool
  dn_queue :: "socket accept_queue"
  dn_workers :: "worker list"
  dn_live :: int
  dn_accepted :: nat
  dn_rejected :: nat
  dn_finished :: bool

definition interrupt_session :: "session \<Rightarrow> session" where
  "interrupt_session sn = sn\<lparr>sn_channel := (sn_channel sn)\<lparr>ch_socket := socket_interrupt (ch_socket (sn_channel sn))\<rparr>\<rparr>"

text \<open>The registered connections are those of the workers that serve one.\<close>

definition interrupt_worker :: "worker \<Rightarrow> worker" where
  "interrupt_worker w = (case w of Serving sn \<Rightarrow> Serving (interrupt_session sn) | _ \<Rightarrow> w)"

definition begin_shutdown :: "daemon \<Rightarrow> daemon" where
  "begin_shutdown dn = dn\<lparr>dn_stopping := True, dn_listening := False, dn_workers := map interrupt_worker (dn_workers dn)\<rparr>"

definition set_worker :: "nat \<Rightarrow> worker \<Rightarrow> daemon \<Rightarrow> daemon" where
  "set_worker i w dn = dn\<lparr>dn_workers := (dn_workers dn)[i := w]\<rparr>"

text \<open>A connection whose service has ended is taken from the registry and destroyed.\<close>

definition release :: "nat \<Rightarrow> daemon \<Rightarrow> daemon" where
  "release i dn =
    (case dn_workers dn ! i of
       Serving sn \<Rightarrow> if sn_phase sn = Ended then set_worker i Idle dn\<lparr>dn_live := dn_live dn - 1\<rparr> else dn
     | _ \<Rightarrow> dn)"

definition worker_step :: "nat \<Rightarrow> daemon \<Rightarrow> daemon" where
  "worker_step i dn =
    (if i \<ge> length (dn_workers dn) then dn
     else case dn_workers dn ! i of
       Idle \<Rightarrow>
         (case aq_pop (dn_queue dn) of
            (Blocked, q) \<Rightarrow> dn
          | (Exhausted, q) \<Rightarrow> set_worker i Exited dn
          | (Popped sk, q) \<Rightarrow> set_worker i (Taken sk) dn\<lparr>dn_queue := q\<rparr>)
     | Taken sk \<Rightarrow> set_worker i (Serving (new_session (dn_options dn) sk)) dn
     | Serving sn \<Rightarrow>
         (case serve_step (dn_options dn) sn (dn_impl dn) of (stop, sn', im) \<Rightarrow>
           let dn' = set_worker i (Serving sn') dn\<lparr>dn_impl := im\<rparr> in
           release i (if stop then begin_shutdown dn' else dn'))
     | Exited \<Rightarrow> dn)"

text \<open>The loop of the acceptor has ended: the listener is closed and so is the queue.\<close>

definition stop_accepting :: "daemon \<Rightarrow> daemon" where
  "stop_accepting dn = dn\<lparr>dn_accepting := False, dn_listening := False, dn_queue := aq_close (dn_queue dn)\<rparr>"

definition accept_connection :: "socket \<Rightarrow> daemon \<Rightarrow> daemon" where
  "accept_connection sk dn =
    (case aq_push sk (dn_queue dn) of (ok, q) \<Rightarrow>
     let dn' = dn\<lparr>dn_queue := q, dn_accepted := dn_accepted dn + 1,
                  dn_live := dn_live dn + (if ok then 1 else 0),
                  dn_rejected := dn_rejected dn + (if ok then 0 else 1)\<rparr> in
     if dn_stopping dn then stop_accepting dn' else dn')"

text \<open>What happens next: the operating system hands over a connection (it may do so even while a shutdown
  closes the listener), the acceptor sees that accepting failed or that the daemon stops, a worker takes
  its next step, or the last worker was joined.\<close>

datatype daemon_event = Accepts socket | Accept_Fails | Works nat | Joined

definition daemon_step :: "daemon_event \<Rightarrow> daemon \<Rightarrow> daemon" where
  "daemon_step ev dn =
    (case ev of
       Accepts sk \<Rightarrow> if dn_accepting dn then accept_connection sk dn else dn
     | Accept_Fails \<Rightarrow> if dn_accepting dn then stop_accepting dn else dn
     | Works i \<Rightarrow> worker_step i dn
     | Joined \<Rightarrow>
         if \<not> dn_accepting dn \<and> \<not> dn_finished dn \<and> (\<forall>w \<in> set (dn_workers dn). w = Exited)
         then dn\<lparr>dn_impl := snd (fabric_close (dn_impl dn)), dn_finished := True\<rparr> else dn)"

definition daemon_run :: "daemon_event list \<Rightarrow> daemon \<Rightarrow> daemon" where
  "daemon_run evs dn = fold daemon_step evs dn"

definition daemon_config :: "daemon_options \<Rightarrow> fabric_config" where
  "daemon_config o' = (if dp_store_directory o' = [] then default_fabric_config
     else default_fabric_config\<lparr>cf_store_directory := Some (dp_store_directory o')\<rparr>)"

text \<open>The process up to its loops, or its exit code; whether the listener could be opened is the
  operating system's answer.\<close>

definition daemon_start :: "string list \<Rightarrow> disk \<Rightarrow> bool \<Rightarrow> nat + daemon" where
  "daemon_start arguments d listener =
    (case parse_options arguments default_daemon_options of
       None \<Rightarrow> Inl 2
     | Some o' \<Rightarrow>
       (case fabric_open (new_impl (daemon_config o') d) of (opened, im) \<Rightarrow>
        if opened \<noteq> R_Ok then Inl 3
        else if \<not> listener then Inl 4
        else Inr \<lparr>dn_options = o', dn_impl = im, dn_listening = True, dn_stopping = False, dn_accepting = True,
                  dn_queue = new_accept_queue (dp_max_connections o'), dn_workers = replicate (dp_workers o') Idle,
                  dn_live = 0, dn_accepted = 0, dn_rejected = 0, dn_finished = False\<rparr>))"

end
