(* ===== verification/Store_Durability.thy ===== *)
theory Store_Durability
  imports Store
begin

text \<open>
  What the store promises. A journal is related to the list of transactions it holds; scanning
  and assembling give them back; a commit that is interrupted at any byte is all or nothing; a
  compaction replaces the journal by the snapshot. \<open>sound_store\<close> is the refinement relation
  between a store with its disk and the abstract contents: a snapshot and the transactions since.
\<close>

subsection \<open>Reading frames\<close>

lemma read_u16_be [simp]: "read_u16 (be16 v @ rest) = v"
  by (simp add: read_u16_def be16_def be_roundtrip_u16 numeral_2_eq_2)

lemma read_u32_be [simp]: "read_u32 (be32 v @ rest) = v"
  by (simp add: read_u32_def be32_def be_roundtrip_u32)

lemma read_u64_be [simp]: "read_u64 (be64 v @ rest) = v"
  by (simp add: read_u64_def be64_def be_roundtrip_u64)

lemma read_be_exact [simp]: "read_u32 (be32 v) = v" "read_u64 (be64 w) = w"
  using read_u32_be [of v "[]"] read_u64_be [of w "[]"] by simp_all

lemma length_be [simp]: "length (be16 a) = 2" "length (be32 b) = 4" "length (be64 c) = 8"
  by (simp_all add: be16_def be32_def be64_def)

lemma record_kind_of_value [simp]: "record_kind_of (record_kind_value k) = k"
  by (cases k) (simp_all add: record_kind_of_def kRecordKinds_def)

lemma record_kind_value_range: "record_kind_value k \<noteq> 0" "unat (record_kind_value k) \<le> kRecordKindMax"
  by (cases k; simp add: kRecordKindMax_def)+

lemma length_frame_header [simp]: "length (frame_header k s p) = 24"
  by (simp add: frame_header_def)

lemma frame_header_fields:
  "read_u32 (frame_header k s p) = kFrameMagic"
  "read_u16 (drop 4 (frame_header k s p)) = kStoreFormatVersion"
  "read_u16 (drop 6 (frame_header k s p)) = record_kind_value k"
  "read_u32 (drop 8 (frame_header k s p)) = of_nat (length p)"
  "read_u64 (drop 12 (frame_header k s p)) = s"
  "read_u32 (drop 20 (frame_header k s p)) = checksum p"
  by (simp_all add: frame_header_def)

lemma length_record_frame: "length (build_record_frame k s p) = 28 + length p"
  by (simp add: build_record_frame_def Let_def)

definition frame_of :: "record_kind \<times> u64 \<times> bytes \<Rightarrow> bytes" where
  "frame_of e = (case e of (k, s, p) \<Rightarrow> build_record_frame k s p)"

definition raw_of :: "nat \<Rightarrow> record_kind \<times> u64 \<times> bytes \<Rightarrow> raw_frame" where
  "raw_of offset e = (case e of (k, s, p) \<Rightarrow>
     \<lparr>rf_kind = k, rf_sequence = s, rf_payload = p, rf_offset = offset, rf_bytes = length (frame_of e)\<rparr>)"

definition fits :: "u32 \<Rightarrow> record_kind \<times> u64 \<times> bytes \<Rightarrow> bool" where
  "fits max_payload e = (case e of (k, s, p) \<Rightarrow> length p \<le> unat max_payload)"

lemma fits_length: "fits mp (k, s, p) \<Longrightarrow> unat (of_nat (length p) :: u32) = length p \<and> \<not> (of_nat (length p) :: u32) > mp"
proof -
  assume "fits mp (k, s, p)"
  then have "length p \<le> unat mp" by (simp add: fits_def)
  moreover have "unat mp < 2 ^ 32" using unat_less_exp [of mp] by simp
  ultimately have "unat (of_nat (length p) :: u32) = length p" by (simp add: unat_of_nat)
  with \<open>length p \<le> unat mp\<close> show ?thesis by (simp add: word_less_nat_alt)
qed

text \<open>A complete frame is accepted and the scan moves behind it.\<close>

lemma scan_step:
  assumes data: "drop offset data = frame_of e @ rest" and off: "offset \<le> length data" and e: "fits mp e"
  shows "scan_frames mp data offset frames =
    scan_frames mp data (offset + length (frame_of e)) (frames @ [raw_of offset e])"
proof -
  obtain k s p where ksp: "e = (k, s, p)" by (cases e)
  let ?h = "frame_header k s p"
  have d: "drop offset data = ?h @ p @ be32 (crc32c (?h @ p) 0) @ rest"
    using data by (simp add: ksp frame_of_def build_record_frame_def Let_def)
  then have "length (drop offset data) = 28 + length p + length rest" by simp
  then have len: "length data = offset + 28 + length p + length rest" using off by simp
  have drops: "drop (offset + n) data = drop n (drop offset data)" for n
    by (simp add: add.commute)
  have header: "take 24 (drop offset data) = ?h" using d by simp
  have payload: "take (length p) (drop (offset + 24) data) = p"
    unfolding drops d by simp
  have trailer: "take 4 (drop (offset + (24 + length p)) data) = be32 (crc32c (?h @ p) 0)"
    using drops [of "24 + length p"] d by simp
  have n: "unat (of_nat (length p) :: u32) = length p" "\<not> (of_nat (length p) :: u32) > mp"
    using fits_length [of mp k s p] e ksp by simp_all
  have crc: "crc_update (crc_update 0 ?h) p = crc32c (?h @ p) 0"
    using crc_update_append [of 0 ?h p] crc_update_start [of "?h @ p"] by simp
  have fl: "length (frame_of (k, s, p)) = 28 + length p"
    by (simp add: frame_of_def length_record_frame)
  have kind: "\<not> kRecordKindMax < unat (record_kind_value k)"
    using record_kind_value_range(2) [of k] by simp
  show ?thesis
    by (subst scan_frames.simps)
      (simp add: len header payload trailer n crc fl frame_header_fields record_kind_value_range(1) kind
        kFrameHeaderBytes_def kFrameTrailerBytes_def Let_def raw_of_def ksp add.assoc)
qed

text \<open>A proper prefix of a frame at the end of the file is a torn tail.\<close>

lemma scan_torn:
  assumes data: "data = pre @ take n (frame_of e)" and n: "0 < n" "n < length (frame_of e)" and e: "fits mp e"
  shows "scan_frames mp data (length pre) frames = (Scan_TornTail, frames, length pre)"
proof -
  obtain k s p where ksp: "e = (k, s, p)" by (cases e)
  let ?h = "frame_header k s p"
  have fr: "frame_of e = ?h @ p @ be32 (crc32c (?h @ p) 0)"
    by (simp add: ksp frame_of_def build_record_frame_def Let_def)
  have fl: "length (frame_of e) = 28 + length p"
    by (simp add: ksp frame_of_def length_record_frame)
  have len: "length data = length pre + n" using n data by simp
  show ?thesis
  proof (cases "n < 28")
    case True
    with n show ?thesis
      by (subst scan_frames.simps) (simp add: len kFrameHeaderBytes_def kFrameTrailerBytes_def)
  next
    case False
    then have header: "take 24 (drop (length pre) data) = ?h"
      using data fr by (simp add: min_def)
    have l: "unat (of_nat (length p) :: u32) = length p" "\<not> (of_nat (length p) :: u32) > mp"
      using fits_length [of mp k s p] e ksp by simp_all
    have big: "length pre + (24 + length p + 4) > length data" using n fl len by simp
    show ?thesis
      using False big
      by (subst scan_frames.simps)
        (simp add: len header l frame_header_fields record_kind_value_range not_less
          kFrameHeaderBytes_def kFrameTrailerBytes_def Let_def)
  qed
qed

lemma scan_end: "scan_frames mp data (length data) frames = (Scan_Clean, frames, 0)"
  by (subst scan_frames.simps) (simp add: kFrameHeaderBytes_def)

text \<open>The frames of a list of entries, at their offsets.\<close>

fun raws_from :: "nat \<Rightarrow> (record_kind \<times> u64 \<times> bytes) list \<Rightarrow> raw_frame list" where
  "raws_from offset [] = []"
| "raws_from offset (e # es) = raw_of offset e # raws_from (offset + length (frame_of e)) es"

definition jimage :: "(record_kind \<times> u64 \<times> bytes) list \<Rightarrow> bytes" where
  "jimage es = concat (map frame_of es)"

lemma image_simps [simp]: "jimage [] = []" "jimage (e # es) = frame_of e @ jimage es" "jimage (es @ fs) = jimage es @ jimage fs"
  by (simp_all add: jimage_def)

lemma scan_entries:
  assumes "data = pre @ jimage es @ rest" and "list_all (fits mp) es"
  shows "scan_frames mp data (length pre) frames =
    scan_frames mp data (length (pre @ jimage es)) (frames @ raws_from (length pre) es)"
  using assms
proof (induction es arbitrary: pre frames)
  case Nil
  then show ?case by simp
next
  case (Cons e es)
  have "scan_frames mp data (length pre) frames =
      scan_frames mp data (length pre + length (frame_of e)) (frames @ [raw_of (length pre) e])"
    using Cons.prems by (intro scan_step [where rest = "jimage es @ rest"]) simp_all
  also have "\<dots> = scan_frames mp data (length (pre @ jimage (e # es)))
      (frames @ [raw_of (length pre) e] @ raws_from (length (pre @ frame_of e)) es)"
    using Cons.IH [of "pre @ frame_of e" "frames @ [raw_of (length pre) e]"] Cons.prems by simp
  finally show ?case by simp
qed

lemma scan_image:
  assumes "list_all (fits mp) es"
  shows "scan_frames mp (jimage es) 0 [] = (Scan_Clean, raws_from 0 es, 0)"
  using scan_entries [of "jimage es" "[]" es "[]" mp "[]"] assms scan_end by simp

text \<open>An jimage cut at any byte: the entries that are complete, and whether bytes are left over.\<close>

fun complete_entries :: "nat \<Rightarrow> (record_kind \<times> u64 \<times> bytes) list \<Rightarrow> (record_kind \<times> u64 \<times> bytes) list" where
  "complete_entries n [] = []"
| "complete_entries n (e # es) =
    (if length (frame_of e) \<le> n then e # complete_entries (n - length (frame_of e)) es else [])"

lemma take_image:
  "take n (jimage es) = jimage (complete_entries n es) @
     (if length (complete_entries n es) = length es then []
      else take (n - length (jimage (complete_entries n es))) (frame_of (es ! length (complete_entries n es))))"
  by (induction n es rule: complete_entries.induct) auto

lemma complete_entries_prefix: "\<exists>k. complete_entries n es = take k es"
proof (induction n es rule: complete_entries.induct)
  case (2 n e es)
  then show ?case
    by (cases "length (frame_of e) \<le> n") (auto intro: exI [of _ "Suc _"] exI [of _ 0])
qed simp

lemma complete_entries_le: "length (jimage (complete_entries n es)) \<le> n"
  by (induction n es rule: complete_entries.induct) auto

lemma complete_entries_next:
  "length (complete_entries n es) < length es \<Longrightarrow>
   n - length (jimage (complete_entries n es)) < length (frame_of (es ! length (complete_entries n es)))"
  by (induction n es rule: complete_entries.induct) (auto simp: diff_diff_add)

lemma length_complete_entries: "length (complete_entries n es) \<le> length es"
  by (induction n es rule: complete_entries.induct) auto

text \<open>Scanning the complete jimage of \<open>es\<close> followed by a cut jimage of \<open>fs\<close>.\<close>

lemma scan_cut:
  assumes fit: "list_all (fits mp) (es @ fs)" and data: "data = jimage es @ take n (jimage fs)"
  defines "whole \<equiv> complete_entries n fs"
  shows "scan_frames mp data 0 [] =
    (if length data = length (jimage (es @ whole)) then (Scan_Clean, raws_from 0 (es @ whole), 0)
     else (Scan_TornTail, raws_from 0 (es @ whole), length (jimage (es @ whole))))"
proof -
  define rest where "rest = (if length whole = length fs then []
      else take (n - length (jimage whole)) (frame_of (fs ! length whole)))"
  have data': "data = [] @ jimage (es @ whole) @ rest"
    using data take_image [of n fs] by (simp add: rest_def whole_def)
  obtain k where k: "whole = take k fs" using complete_entries_prefix [of n fs] whole_def by blast
  then have fitd: "list_all (fits mp) (es @ whole)"
    using fit by (simp add: list_all_takeI)
  have scan: "scan_frames mp data 0 [] = scan_frames mp data (length (jimage (es @ whole))) (raws_from 0 (es @ whole))"
    using scan_entries [OF data' fitd, of "[]"] by simp
  show ?thesis
  proof (cases "rest = []")
    case True
    then have "length data = length (jimage (es @ whole))" using data' by simp
    then show ?thesis using scan scan_end [of mp data] by simp
  next
    case False
    then have lt: "length whole < length fs"
      using length_complete_entries [of n fs] by (auto simp: rest_def whole_def split: if_splits)
    then have r: "rest = take (n - length (jimage whole)) (frame_of (fs ! length whole))"
      by (simp add: rest_def)
    have "list_all (fits mp) fs" using fit by simp
    with lt have "fits mp (fs ! length whole)" by (simp add: list_all_length)
    then have "scan_frames mp data (length (jimage (es @ whole))) (raws_from 0 (es @ whole)) =
        (Scan_TornTail, raws_from 0 (es @ whole), length (jimage (es @ whole)))"
      using data' r False complete_entries_next [of n fs] lt
      by (intro scan_torn [where n = "n - length (jimage whole)" and e = "fs ! length whole"]) (auto simp: whole_def)
    moreover have "length data \<noteq> length (jimage (es @ whole))" using data' False by simp
    ultimately show ?thesis using scan by simp
  qed
qed

subsection \<open>Transactions\<close>

type_synonym entry = "record_kind \<times> u64 \<times> bytes"

fun record_entries :: "u64 \<Rightarrow> jrecord list \<Rightarrow> entry list" where
  "record_entries s [] = []"
| "record_entries s (r # rs) = (rc_kind r, s, rc_payload r) # record_entries (s + 1) rs"

definition transaction_entries :: "u64 \<Rightarrow> jrecord list \<Rightarrow> entry list" where
  "transaction_entries s records =
    (BeginTransaction, s, be64 s) # record_entries (s + 1) records @
    [(CommitTransaction, s + 1 + of_nat (length records), be64 s)]"

definition next_start :: "u64 \<Rightarrow> jrecord list \<Rightarrow> u64" where
  "next_start s records = s + 1 + of_nat (length records) + 1"

fun journal_entries :: "u64 \<Rightarrow> jrecord list list \<Rightarrow> entry list" where
  "journal_entries s [] = []"
| "journal_entries s (t # ts) = transaction_entries s t @ journal_entries (next_start s t) ts"

fun journal_end :: "u64 \<Rightarrow> jrecord list list \<Rightarrow> u64" where
  "journal_end s [] = s"
| "journal_end s (t # ts) = journal_end (next_start s t) ts"

lemma journal_entries_append: "journal_entries s (ts @ us) = journal_entries s ts @ journal_entries (journal_end s ts) us"
  by (induction ts arbitrary: s) simp_all

lemma journal_end_append: "journal_end s (ts @ us) = journal_end (journal_end s ts) us"
  by (induction ts arbitrary: s) simp_all

lemma record_frames_entries: "record_frames s rs = map frame_of (record_entries s rs)"
  by (induction rs arbitrary: s) (simp_all add: frame_of_def)

lemma transaction_frames_entries: "transaction_frames s rs = map frame_of (transaction_entries s rs)"
  by (simp add: transaction_frames_def transaction_entries_def record_frames_entries frame_of_def)

lemma concat_transaction_frames: "concat (transaction_frames s rs) = jimage (transaction_entries s rs)"
  by (simp add: transaction_frames_entries jimage_def)

lemma length_record_entries [simp]: "length (record_entries s rs) = length rs"
  by (induction rs arbitrary: s) simp_all

lemma length_transaction_entries [simp]: "length (transaction_entries s rs) = length rs + 2"
  by (simp add: transaction_entries_def)

text \<open>What the commit checks of the records, and room in the sequence numbers.\<close>

definition plain :: "u32 \<Rightarrow> jrecord \<Rightarrow> bool" where
  "plain mp r \<longleftrightarrow> rc_kind r \<noteq> BeginTransaction \<and> rc_kind r \<noteq> CommitTransaction \<and> length (rc_payload r) \<le> unat mp"

lemma check_records_Ok: "check_records mp rs = R_Ok \<longleftrightarrow> list_all (plain mp) rs"
  by (induction mp rs rule: check_records.induct) (auto simp: plain_def not_less)

definition room :: "u64 \<Rightarrow> jrecord list \<Rightarrow> bool" where
  "room s rs \<longleftrightarrow> unat s + length rs + 2 < 2 ^ 64"

lemma room_unat: "room s rs \<Longrightarrow> k \<le> length rs + 2 \<Longrightarrow> unat (s + of_nat k) = unat s + k"
proof -
  assume r: "room s rs" and k: "k \<le> length rs + 2"
  then have "unat (of_nat k :: u64) = k" by (simp add: room_def unat_of_nat)
  with r k show ?thesis by (simp add: room_def unat_add_lem [THEN iffD1])
qed

lemma next_start_unat: "room s rs \<Longrightarrow> unat (next_start s rs) = unat s + length rs + 2"
  using room_unat [of s rs "length rs + 2"] by (simp add: next_start_def ac_simps)

text \<open>Assembling a transaction after another: its records are pending until the commit frame.\<close>

definition after_begin :: "u64 \<Rightarrow> assembly \<Rightarrow> assembly" where
  "after_begin s a = a\<lparr>as_in_transaction := True, as_transaction_id := s, as_pending := [],
     as_previous_sequence := s, as_have_previous := True\<rparr>"

definition before :: "assembly \<Rightarrow> u64 \<Rightarrow> bool" where
  "before a s \<longleftrightarrow> \<not> as_have_previous a \<or> as_previous_sequence a < s"

lemma assemble_append: "assemble (fs @ gs) a = (case assemble fs a of Inl r \<Rightarrow> Inl r | Inr b \<Rightarrow> assemble gs b)"
  by (induction fs arbitrary: a) (auto split: sum.splits)

lemma raws_from_append: "raws_from k (es @ fs) = raws_from k es @ raws_from (k + length (jimage es)) fs"
  by (induction es arbitrary: k) (simp_all add: add.assoc)

lemma assemble_begin:
  "\<not> as_in_transaction a \<Longrightarrow> before a s \<Longrightarrow>
   assemble_frame (raw_of k (BeginTransaction, s, be64 s)) a = Inr (after_begin s a)"
  by (auto simp: assemble_frame_def raw_of_def before_def payload_u64_def after_begin_def Let_def)

lemma assemble_record:
  assumes "as_in_transaction a" "before a s" "kind \<noteq> BeginTransaction" "kind \<noteq> CommitTransaction"
    "length (as_recovered a) + length (as_pending a) < kMaxReplayRecords"
  shows "assemble_frame (raw_of k (kind, s, p)) a =
    Inr (a\<lparr>as_pending := as_pending a @ [\<lparr>rc_kind = kind, rc_payload = p\<rparr>],
           as_previous_sequence := s, as_have_previous := True\<rparr>)"
  using assms by (auto simp: assemble_frame_def raw_of_def before_def Let_def)

lemma assemble_records:
  assumes "as_in_transaction a" "before a s" "list_all (plain mp) rs"
    "length (as_recovered a) + length (as_pending a) + length rs \<le> kMaxReplayRecords"
    "unat s + length rs < 2 ^ 64"
  shows "assemble (raws_from k (record_entries s rs)) a =
    Inr (a\<lparr>as_pending := as_pending a @ rs,
           as_previous_sequence := (if rs = [] then as_previous_sequence a else s + of_nat (length rs) - 1),
           as_have_previous := as_have_previous a \<or> rs \<noteq> []\<rparr>)"
  using assms
proof (induction rs arbitrary: a s k)
  case Nil
  then show ?case by simp
next
  case (Cons r rs)
  let ?b = "a\<lparr>as_pending := as_pending a @ [r], as_previous_sequence := s, as_have_previous := True\<rparr>"
  have "assemble_frame (raw_of k (rc_kind r, s, rc_payload r)) a = Inr ?b"
    using Cons.prems by (subst assemble_record) (auto simp: plain_def)
  moreover have "s < s + 1"
  proof (rule word_succ_less)
    show "s \<noteq> - 1"
      using Cons.prems(5) unat_max [where 'a = 64] by (auto simp del: unsigned_minus_1_eq_mask)
  qed
  moreover have "unat (s + 1) = Suc (unat s)"
    using \<open>s < s + 1\<close> by (metis word_succ_unat word_not_simps(3) add_cancel_right_right word_order.extremum_strict)
  ultimately show ?case
    using Cons.prems Cons.IH [of ?b "s + 1" "k + length (frame_of (rc_kind r, s, rc_payload r))"]
    by (auto simp: before_def)
qed

text \<open>What assembling leaves: the recovered records grow, the report only counts.\<close>

definition counted :: "recovery_report \<Rightarrow> recovery_report \<Rightarrow> bool" where
  "counted r r' \<longleftrightarrow> (\<exists>x y. r' = r\<lparr>rp_transactions_applied := x, rp_records_replayed := y\<rparr>)"

lemma counted_refl: "counted r r"
  unfolding counted_def by (rule exI [of _ "rp_transactions_applied r"], rule exI [of _ "rp_records_replayed r"]) simp

lemma counted_trans: "counted r s \<Longrightarrow> counted s t \<Longrightarrow> counted r t"
  unfolding counted_def by (auto, blast)

lemma counted_fields:
  "counted r r' \<Longrightarrow> rp_classification r' = rp_classification r \<and> rp_reason r' = rp_reason r \<and>
     rp_truncated_tail_repaired r' = rp_truncated_tail_repaired r"
  by (auto simp: counted_def)

definition assembled :: "assembly \<Rightarrow> jrecord list \<Rightarrow> u64 \<Rightarrow> assembly \<Rightarrow> bool" where
  "assembled a rs q b \<longleftrightarrow> \<not> as_in_transaction b \<and> as_recovered b = as_recovered a @ rs \<and>
     as_previous_sequence b = q \<and> as_have_previous b \<and> counted (as_report a) (as_report b)"

lemma assemble_commit:
  assumes "as_in_transaction a" "before a s" "as_transaction_id a = t"
  shows "\<exists>b. assemble_frame (raw_of k (CommitTransaction, s, be64 t)) a = Inr b \<and>
    \<not> as_in_transaction b \<and> as_recovered b = as_recovered a @ as_pending a \<and> as_previous_sequence b = s \<and>
    as_have_previous b \<and> counted (as_report a) (as_report b)"
  using assms by (auto simp: assemble_frame_def raw_of_def before_def payload_u64_def Let_def counted_def)

lemma assemble_transaction:
  assumes a: "\<not> as_in_transaction a" "before a s" and rs: "list_all (plain mp) rs"
    and cap: "length (as_recovered a) + length rs \<le> kMaxReplayRecords" and room: "room s rs"
  shows "\<exists>b. assemble (raws_from k (transaction_entries s rs)) a = Inr b \<and>
    assembled a rs (s + 1 + of_nat (length rs)) b"
proof -
  let ?a1 = "after_begin s a"
  have 1: "unat (s + 1) = Suc (unat s)" using room_unat [OF room, of 1] by simp
  then have lt: "s < s + 1" by (simp add: word_less_nat_alt)
  let ?k1 = "k + length (frame_of (BeginTransaction, s, be64 s))"
  let ?a2 = "?a1\<lparr>as_pending := as_pending ?a1 @ rs,
           as_previous_sequence := (if rs = [] then as_previous_sequence ?a1 else s + 1 + of_nat (length rs) - 1),
           as_have_previous := as_have_previous ?a1 \<or> rs \<noteq> []\<rparr>"
  have recs: "assemble (raws_from ?k1 (record_entries (s + 1) rs)) ?a1 = Inr ?a2"
    using lt rs cap room 1
    by (intro assemble_records) (auto simp: after_begin_def before_def room_def)
  let ?e = "s + 1 + of_nat (length rs)"
  have e: "unat ?e = unat s + 1 + length rs"
    using room_unat [OF room, of "length rs + 1"] by (simp add: ac_simps)
  have p: "unat (s + of_nat (length rs)) = unat s + length rs"
    using room_unat [OF room, of "length rs"] by simp
  have "before ?a2 ?e"
    using e p by (auto simp: before_def after_begin_def word_less_nat_alt)
  then obtain b where b: "assemble_frame (raw_of (?k1 + length (jimage (record_entries (s + 1) rs)))
        (CommitTransaction, ?e, be64 s)) ?a2 = Inr b"
      "\<not> as_in_transaction b" "as_recovered b = as_recovered a @ rs" "as_previous_sequence b = ?e"
      "as_have_previous b" "counted (as_report a) (as_report b)"
    using assemble_commit [of ?a2 ?e s] by (auto simp: after_begin_def)
  have "assemble (raws_from k (transaction_entries s rs)) a = Inr b"
    using assemble_begin [OF a, of k] recs b(1)
    by (simp add: transaction_entries_def raws_from_append assemble_append)
  with b show ?thesis by (auto simp: assembled_def)
qed

fun roomy :: "u64 \<Rightarrow> jrecord list list \<Rightarrow> bool" where
  "roomy s [] = True"
| "roomy s (t # ts) \<longleftrightarrow> room s t \<and> roomy (next_start s t) ts"

lemma roomy_append: "roomy s (ts @ us) \<longleftrightarrow> roomy s ts \<and> roomy (journal_end s ts) us"
  by (induction ts arbitrary: s) auto

lemma next_start_previous: "next_start s t - 1 = s + 1 + of_nat (length t)"
  by (simp add: next_start_def)

lemma assemble_journal:
  assumes "\<not> as_in_transaction a" "before a s" "list_all (list_all (plain mp)) ts"
    "length (as_recovered a) + length (concat ts) \<le> kMaxReplayRecords" "roomy s ts" "ts \<noteq> []"
  shows "\<exists>b. assemble (raws_from k (journal_entries s ts)) a = Inr b \<and>
    assembled a (concat ts) (journal_end s ts - 1) b"
  using assms
proof (induction ts arbitrary: a s k)
  case Nil
  then show ?case by simp
next
  case (Cons t ts)
  then obtain b where b: "assemble (raws_from k (transaction_entries s t)) a = Inr b"
      "assembled a t (s + 1 + of_nat (length t)) b"
    using assemble_transaction [of a s mp t k] by auto
  show ?case
  proof (cases "ts = []")
    case True
    with b show ?thesis by (simp add: next_start_def ac_simps)
  next
    case False
    have n: "unat (next_start s t) = unat s + length t + 2"
      using Cons.prems(5) by (simp add: next_start_unat)
    have "unat (s + 1 + of_nat (length t)) = unat s + 1 + length t"
      using room_unat [of s t "length t + 1"] Cons.prems(5) by (simp add: ac_simps)
    with b n have "before b (next_start s t)"
      by (simp add: before_def assembled_def word_less_nat_alt)
    then obtain c where c: "assemble (raws_from (k + length (jimage (transaction_entries s t)))
          (journal_entries (next_start s t) ts)) b = Inr c"
        "assembled b (concat ts) (journal_end (next_start s t) ts - 1) c"
      using Cons.IH [of b "next_start s t"] Cons.prems False b(2) by (auto simp: assembled_def)
    then have "assembled a (concat (t # ts)) (journal_end s (t # ts) - 1) c"
      using b(2) by (auto simp: assembled_def intro: counted_trans)
    with b c show ?thesis by (auto simp: raws_from_append assemble_append)
  qed
qed

text \<open>A transaction cut before its commit frame stays open and contributes nothing.\<close>

lemma take_record_entries: "take n (record_entries s rs) = record_entries s (take n rs)"
  by (induction n arbitrary: s rs) (auto simp: take_Suc split: list.split, case_tac rs, auto)

lemma assemble_cut:
  assumes a: "\<not> as_in_transaction a" "before a s" and rs: "list_all (plain mp) rs"
    and cap: "length (as_recovered a) + length rs \<le> kMaxReplayRecords" and room: "room s rs"
    and n: "0 < n" "n < length rs + 2"
  shows "\<exists>b. assemble (raws_from k (take n (transaction_entries s rs))) a = Inr b \<and>
    as_in_transaction b \<and> as_recovered b = as_recovered a \<and> as_report b = as_report a \<and>
    as_have_previous b \<and> as_previous_sequence b = s + of_nat (n - 1)"
proof -
  obtain j where j: "n = Suc j" "j \<le> length rs" using n by (cases n) auto
  let ?rs = "take j rs"
  have t: "take n (transaction_entries s rs) = (BeginTransaction, s, be64 s) # record_entries (s + 1) ?rs"
    using j by (simp add: transaction_entries_def take_record_entries)
  let ?a1 = "after_begin s a"
  have 1: "unat (s + 1) = Suc (unat s)" using room_unat [OF room, of 1] by simp
  then have lt: "s < s + 1" by (simp add: word_less_nat_alt)
  let ?k1 = "k + length (frame_of (BeginTransaction, s, be64 s))"
  have "assemble (raws_from ?k1 (record_entries (s + 1) ?rs)) ?a1 =
    Inr (?a1\<lparr>as_pending := as_pending ?a1 @ ?rs,
           as_previous_sequence := (if ?rs = [] then as_previous_sequence ?a1 else s + 1 + of_nat (length ?rs) - 1),
           as_have_previous := as_have_previous ?a1 \<or> ?rs \<noteq> []\<rparr>)"
    using lt rs cap room 1 j
    by (intro assemble_records [where mp = mp]) (auto simp: after_begin_def before_def room_def list_all_takeI)
  then show ?thesis
    using assemble_begin [OF a, of k] j unfolding t
    by (auto simp: after_begin_def)
qed

subsection \<open>File names\<close>

lemma lower_hex_digit:
  assumes "n < 16"
  shows "lower_hex_value (kHexDigits ! n) = Some (of_nat n)"
proof -
  from assms have "n \<in> {0, 1, 2, 3, 4, 5, 6, 7, 8, 9, 10, 11, 12, 13, 14, 15}"
    unfolding insert_iff empty_iff by presburger
  then show ?thesis
    by (elim insertE emptyE) (simp_all add: lower_hex_value_def kHexDigits_def less_eq_char_def)
qed

lemma nibble_u32: "unat (w AND 0xF :: u32) < 16" "push_bit 4 (drop_bit (s + 4) w) OR (drop_bit s w AND 0xF) = drop_bit s w"
proof -
  have m: "v AND 0xF = take_bit 4 v" for v :: u32
    by (simp add: take_bit_eq_mask mask_eq_exp_minus_1)
  show "unat (w AND 0xF) < 16"
    unfolding m using take_bit_nat_less_exp [of 4 "unat w"] by (simp add: unsigned_take_bit_eq)
  show "push_bit 4 (drop_bit (s + 4) w) OR (drop_bit s w AND 0xF) = drop_bit s w"
    unfolding m by (intro bit_word_eqI) (auto simp: bit_simps not_le not_less add.commute)
qed

lemma parse_generation_step:
  "parse_generation_digits (kHexDigits ! unat (drop_bit s g AND 0xF) # cs) (drop_bit (s + 4) g) =
   parse_generation_digits cs (drop_bit s g)"
  by (simp add: lower_hex_digit nibble_u32)

lemma parse_generation_file_name: "parse_generation_file_name (generation_file_name p g) p = Some g"
proof -
  let ?ds = "map (\<lambda>shift. kHexDigits ! unat (drop_bit shift g AND 0xF)) [28, 24, 20, 16, 12, 8, 4, 0]"
  have "parse_generation_digits ?ds 0 = Some g"
    using parse_generation_step [of 28 g] parse_generation_step [of 24 g] parse_generation_step [of 20 g]
      parse_generation_step [of 16 g] parse_generation_step [of 12 g] parse_generation_step [of 8 g]
      parse_generation_step [of 4 g] parse_generation_step [of 0 g]
    by (simp add: drop_bit_word_beyond del: parse_generation_digits.simps(2))
  then show ?thesis
    by (simp add: parse_generation_file_name_def generation_file_name_def nth_append)
qed

lemma generation_file_name_length: "length (generation_file_name p g) = length p + 14"
  by (simp add: generation_file_name_def)

lemma parse_generation_length: "parse_generation_file_name name p = Some g \<Longrightarrow> length name = length p + 14"
  by (auto simp: parse_generation_file_name_def split: if_splits)

lemma parse_other_kind [simp]:
  "parse_generation_file_name (journal_file_name g) ''snapshot'' = None"
  "parse_generation_file_name (snapshot_file_name g) ''journal'' = None"
  by (simp_all add: parse_generation_file_name_def journal_file_name_def snapshot_file_name_def
      generation_file_name_length)

lemma parse_own_kind [simp]:
  "parse_generation_file_name (journal_file_name g) ''journal'' = Some g"
  "parse_generation_file_name (snapshot_file_name g) ''snapshot'' = Some g"
  by (simp_all add: journal_file_name_def snapshot_file_name_def parse_generation_file_name)

lemma file_names_distinct:
  "journal_file_name g \<noteq> snapshot_file_name h"
  "journal_file_name g = journal_file_name h \<longleftrightarrow> g = h" "snapshot_file_name g = snapshot_file_name h \<longleftrightarrow> g = h"
proof -
  show "journal_file_name g \<noteq> snapshot_file_name h"
    using parse_other_kind(1) [of g] parse_own_kind(2) [of h] by (metis option.distinct(1))
  show "journal_file_name g = journal_file_name h \<longleftrightarrow> g = h"
    using parse_own_kind(1) [of g] parse_own_kind(1) [of h] by (metis option.inject)
  show "snapshot_file_name g = snapshot_file_name h \<longleftrightarrow> g = h"
    using parse_own_kind(2) [of g] parse_own_kind(2) [of h] by (metis option.inject)
qed

text \<open>The newest generation is the maximum over the names that parse.\<close>

definition generations :: "disk \<Rightarrow> string \<Rightarrow> u32 set" where
  "generations d p = {g. \<exists>name. omap_find (dk_files d) name \<noteq> None \<and> parse_generation_file_name name p = Some g}"

lemma newest_foldl:
  "foldl (newer_generation p) best names = Some g \<longleftrightarrow>
    (best = Some g \<or> (\<exists>n \<in> set names. parse_generation_file_name n p = Some g)) \<and>
    (\<forall>b. best = Some b \<longrightarrow> b \<le> g) \<and>
    (\<forall>n \<in> set names. \<forall>h. parse_generation_file_name n p = Some h \<longrightarrow> h \<le> g)"
proof (induction names arbitrary: best)
  case Nil
  then show ?case by auto
next
  case (Cons n names)
  show ?case
  proof (cases "parse_generation_file_name n p")
    case None
    with Cons [of best] show ?thesis by (simp add: newer_generation_def)
  next
    case (Some h)
    note h = Some
    show ?thesis
    proof (cases best)
      case None
      with h have "newer_generation p best n = Some h" by (simp add: newer_generation_def)
      with None h Cons [of "Some h"] show ?thesis by auto
    next
      case (Some b)
      with h have "newer_generation p best n = Some (max b h)" by (auto simp: newer_generation_def max_def)
      moreover have "max b h = b \<or> max b h = h" by (simp add: max_def)
      ultimately show ?thesis using Some h Cons [of "Some (max b h)"] by auto
    qed
  qed
qed

lemma find_keys: "omap_find m k \<noteq> None \<longleftrightarrow> k \<in> set (omap_keys m)"
  by (simp add: omap_keys_def find_None_keys)

lemma newest_generation_Some:
  "newest_generation d p = Some g \<longleftrightarrow> g \<in> generations d p \<and> (\<forall>h \<in> generations d p. h \<le> g)"
  unfolding newest_generation_def newest_foldl generations_def find_keys by blast

lemma newest_generation_None: "newest_generation d p = None \<longleftrightarrow> generations d p = {}"
proof
  assume none: "newest_generation d p = None"
  show "generations d p = {}"
  proof (rule ccontr)
    assume ne: "generations d p \<noteq> {}"
    have "finite (generations d p)" by simp
    with ne have "Max (generations d p) \<in> generations d p" "\<forall>h \<in> generations d p. h \<le> Max (generations d p)"
      by simp_all
    then have "newest_generation d p = Some (Max (generations d p))"
      by (simp add: newest_generation_Some)
    with none show False by simp
  qed
next
  assume "generations d p = {}"
  then show "newest_generation d p = None"
    using newest_generation_Some [of d p] by (cases "newest_generation d p") auto
qed

subsection \<open>Snapshots\<close>

lemma length_snapshot_frame: "length (build_snapshot_frame p) = 20 + length p"
  by (simp add: build_snapshot_frame_def Let_def)

lemma parse_snapshot_frame:
  "parse_snapshot_header (build_snapshot_frame p) = Some (kStoreFormatVersion, of_nat (length p))"
  by (simp add: parse_snapshot_header_def build_snapshot_frame_def Let_def kSnapshotHeaderBytes_def)

lemma load_snapshot_frame:
  assumes "file_content d (snapshot_file_name g) = build_snapshot_frame p" and "length p + 20 \<le> kMaxSnapshotBytes"
  shows "load_snapshot d g r =
    Inr (p, r\<lparr>rp_bytes_accepted := rp_bytes_accepted r + of_nat (length (build_snapshot_frame p))\<rparr>)"
proof -
  have "unat (of_nat (length p) :: u32) = length p"
    using assms(2) by (simp add: unat_of_nat kMaxSnapshotBytes_def)
  moreover have "drop 20 (build_snapshot_frame p) = p"
    by (simp add: build_snapshot_frame_def Let_def)
  moreover have "p = [] \<or> crc32c p 0 = read_u32 (drop 12 (build_snapshot_frame p))"
    by (simp add: build_snapshot_frame_def Let_def checksum_def)
  ultimately show ?thesis
    using assms by (auto simp: load_snapshot_def Let_def parse_snapshot_frame length_snapshot_frame kSnapshotHeaderBytes_def)
qed

text \<open>The snapshot that an open will load.\<close>

definition snapshot_held :: "disk \<Rightarrow> u32 \<Rightarrow> bytes \<Rightarrow> bool" where
  "snapshot_held d j snap \<longleftrightarrow>
    (case newest_generation d ''snapshot'' of
       None \<Rightarrow> snap = []
     | Some g \<Rightarrow> g \<le> j \<and> file_content d (snapshot_file_name g) = build_snapshot_frame snap \<and>
         length snap + 20 \<le> kMaxSnapshotBytes)"

lemma disk_file_simps [simp]:
  "omap_find (dk_files (set_file path bs d)) path = Some bs"
  "path' \<noteq> path \<Longrightarrow> omap_find (dk_files (set_file path bs d)) path' = omap_find (dk_files d) path'"
  "file_content (set_file path bs d) path = bs"
  "path' \<noteq> path \<Longrightarrow> file_content (set_file path bs d) path' = file_content d path'"
  "dk_script (set_file path bs d) = dk_script d"
  "set_file path bs (set_file path cs d) = set_file path bs d"
  by (simp_all add: set_file_def file_content_def)

lemma set_file_same: "omap_find (dk_files d) path = Some bs \<Longrightarrow> set_file path bs d = d"
  unfolding set_file_def by (metis disk.surjective disk.update_convs(1) omap_eqI omap_find_put fun_upd_triv)

lemma io_call_quiet: "dk_script d = [] \<Longrightarrow> io_call d = (True, d)"
  by (simp add: io_call_def next_io_def)

lemma generations_existing:
  "omap_find (dk_files d) path \<noteq> None \<Longrightarrow> generations (set_file path bs d) p = generations d p"
  unfolding generations_def set_file_def by (auto simp: omap_find_put)

lemma newest_cong: "generations d p = generations d' p \<Longrightarrow> newest_generation d p = newest_generation d' p"
proof -
  assume eq: "generations d p = generations d' p"
  have "newest_generation d p = Some g \<longleftrightarrow> newest_generation d' p = Some g" for g
    by (simp only: newest_generation_Some eq)
  then show ?thesis by (metis not_None_eq)
qed

lemma newest_existing:
  "omap_find (dk_files d) path \<noteq> None \<Longrightarrow> newest_generation (set_file path bs d) p = newest_generation d p"
  by (intro newest_cong generations_existing)

lemma snapshot_held_journal:
  "omap_find (dk_files d) (journal_file_name j) \<noteq> None \<Longrightarrow>
   snapshot_held (set_file (journal_file_name j) bs d) i snap = snapshot_held d i snap"
  unfolding snapshot_held_def
  by (simp add: newest_existing file_names_distinct(1) [symmetric] split: option.split)

subsection \<open>Opening a journal\<close>

definition good_options :: "store_options \<Rightarrow> bool" where
  "good_options o1 \<longleftrightarrow> \<not> so_read_only o1 \<and> so_directory o1 \<noteq> []"

text \<open>What an open returns once the journal scans without corruption and its frames assemble.\<close>

lemma store_open_scanned:
  assumes opts: "good_options opts" and quiet: "dk_script d = []"
    and j: "newest_generation d ''journal'' = Some j" and snap: "snapshot_held d j snap"
    and content: "omap_find (dk_files d) (journal_file_name j) = Some data" "length data \<le> read_bound opts"
    and scan: "scan_frames (so_max_record_payload_bytes opts) data 0 [] = (if torn then Scan_TornTail else Scan_Clean, frames, bad)"
    and asm: "\<And>r. \<exists>a. assemble frames (start_assembly r) = Inr a \<and> as_recovered a = recs \<and>
      as_previous_sequence a = q \<and> counted r (as_report a) \<and> as_in_transaction a = dangling"
  shows "\<exists>rep st. store_open opts d =
    ((rep, Some \<lparr>op_store = st, op_snapshot = snap, op_records = recs\<rparr>),
     set_file (journal_file_name j) (if torn then take bad data else data) d) \<and>
    rp_classification rep = (if torn then RC_TornTailRepaired else if dangling then RC_TransactionDropped else RC_CleanReopen) \<and>
    sr_options st = opts \<and> sr_open st \<and> sr_journal_generation st = j \<and> sr_next_sequence st = q + 1 \<and>
    sr_snapshot_generation st = value_or (newest_generation d ''snapshot'') 0 \<and>
    sr_journal_bytes st = of_nat (if torn then bad else length data)"
proof -
  let ?s = "newest_generation d ''snapshot''"
  let ?path = "journal_file_name j"
  define r0 where "r0 = default_recovery_report\<lparr>rp_snapshot_generation := value_or ?s 0, rp_journal_generation := j\<rparr>"
  obtain r1 where load: "(case ?s of None \<Rightarrow> Inr ([], r0) | Some g \<Rightarrow> load_snapshot d g r0) = Inr (snap, r1)"
    and r1: "rp_classification r1 = RC_Empty" "\<not> rp_truncated_tail_repaired r1"
    using snap by (cases ?s) (auto simp: snapshot_held_def load_snapshot_frame r0_def default_recovery_report_def)
  have le: "value_or ?s 0 \<le> j"
    using snap by (cases ?s) (auto simp: snapshot_held_def)
  define r2 where "r2 = (if torn then (refuse RC_TornTailRepaired R_TornTailTruncated r1)
      \<lparr>rp_bytes_discarded := rp_bytes_discarded r1 + of_nat (length data - bad), rp_truncated_tail_repaired := True\<rparr> else r1)"
  have scanned: "scan_for_open opts d ?s (Some j) r1 = Inr (frames, bad, length data, True, r2)"
    using le content scan by (simp add: scan_for_open_def scan_journal_def r2_def)
  obtain a where a: "assemble frames (start_assembly r2) = Inr a" "as_recovered a = recs"
      "as_previous_sequence a = q" "counted r2 (as_report a)" "as_in_transaction a = dangling"
    using asm by blast
  have fields: "rp_classification (as_report a) = (if torn then RC_TornTailRepaired else RC_Empty)"
      "rp_truncated_tail_repaired (as_report a) = torn"
    using counted_fields [OF a(4)] r1 by (auto simp: r2_def refuse_def)
  define r3 where "r3 = (classify_open (?s \<noteq> None) True a)\<lparr>rp_replayed_digest := replayed_digest (as_recovered a)\<rparr>"
  have r3: "rp_classification r3 =
        (if torn then RC_TornTailRepaired else if dangling then RC_TransactionDropped else RC_CleanReopen)"
      "rp_truncated_tail_repaired r3 = torn"
    using fields a(5) by (auto simp: r3_def classify_open_def Let_def)
  define st where "st = (default_store opts)\<lparr>sr_snapshot_generation := value_or ?s 0, sr_journal_generation := j,
      sr_open := True, sr_journal_bytes := of_nat (if torn then bad else length data), sr_next_sequence := q + 1\<rparr>"
  have jour: "open_journal opts (value_or ?s 0) j q bad (length data) r3 d =
      ((r3, Some st), set_file ?path (if torn then take bad data else data) d)"
    using opts quiet content(1) r3(2)
    by (auto simp: open_journal_def good_options_def Let_def truncate_file_def disk_open_append_def io_call_quiet
        file_content_def st_def set_file_same)
  have "store_open opts d =
      (case (case ?s of None \<Rightarrow> Inr ([], r0) | Some g \<Rightarrow> load_snapshot d g r0) of
         Inl r \<Rightarrow> ((r, None), d) | Inr (sn, r) \<Rightarrow> open_contents opts ?s (Some j) sn r d)"
    using opts quiet
    by (simp add: store_open_def good_options_def io_call_quiet Let_def r0_def j cong: option.case_cong sum.case_cong)
  also have "\<dots> = open_contents opts ?s (Some j) snap r1 d" unfolding load by simp
  also have "\<dots> = ((r3\<lparr>rp_bytes_accepted := rp_bytes_accepted r3 + of_nat (if torn then bad else length data)\<rparr>,
      Some \<lparr>op_store = st, op_snapshot = snap, op_records = recs\<rparr>),
      set_file ?path (if torn then take bad data else data) d)"
    using scanned a(1,2,3) jour r3(2) by (simp add: open_contents_def Let_def r3_def)
  finally show ?thesis
    using r3 by (intro exI conjI) (assumption, auto simp: st_def default_store_def)
qed

subsection \<open>A store and its abstract contents\<close>

definition journal_limits :: "store_options \<Rightarrow> jrecord list list \<Rightarrow> bool" where
  "journal_limits opts ts \<longleftrightarrow>
    list_all (list_all (plain (so_max_record_payload_bytes opts))) ts \<and>
    length (concat ts) \<le> kMaxReplayRecords \<and> roomy 1 ts \<and>
    length (jimage (journal_entries 1 ts)) \<le> read_bound opts"

definition sound_store :: "store \<Rightarrow> disk \<Rightarrow> bytes \<Rightarrow> jrecord list list \<Rightarrow> bool" where
  "sound_store st d snap ts \<longleftrightarrow>
    good_options (sr_options st) \<and> sr_open st \<and> journal_limits (sr_options st) ts \<and>
    newest_generation d ''journal'' = Some (sr_journal_generation st) \<and>
    sr_snapshot_generation st = value_or (newest_generation d ''snapshot'') 0 \<and>
    snapshot_held d (sr_journal_generation st) snap \<and>
    omap_find (dk_files d) (journal_file_name (sr_journal_generation st)) = Some (jimage (journal_entries 1 ts)) \<and>
    sr_next_sequence st = journal_end 1 ts \<and>
    sr_journal_bytes st = of_nat (length (jimage (journal_entries 1 ts)))"

lemma be64_fits: "so_max_record_payload_bytes opts \<ge> 8 \<Longrightarrow> fits (so_max_record_payload_bytes opts) (k, s, be64 v)"
  by (simp add: fits_def word_le_nat_alt)

lemma record_entries_fit: "list_all (plain mp) rs \<Longrightarrow> list_all (fits mp) (record_entries s rs)"
  by (induction rs arbitrary: s) (auto simp: plain_def fits_def)

lemma transaction_entries_fit:
  "mp \<ge> 8 \<Longrightarrow> list_all (plain mp) rs \<Longrightarrow> list_all (fits mp) (transaction_entries s rs)"
  by (simp add: transaction_entries_def record_entries_fit) (simp add: fits_def word_le_nat_alt)

lemma journal_entries_fit:
  "mp \<ge> 8 \<Longrightarrow> list_all (list_all (plain mp)) ts \<Longrightarrow> list_all (fits mp) (journal_entries s ts)"
  by (induction ts arbitrary: s) (simp_all add: transaction_entries_fit)

lemma assemble_from_start:
  assumes "list_all (list_all (plain mp)) ts" "length (concat ts) \<le> kMaxReplayRecords" "roomy 1 ts"
  shows "\<exists>a. assemble (raws_from k (journal_entries 1 ts)) (start_assembly r) = Inr a \<and>
    as_recovered a = concat ts \<and> as_previous_sequence a = journal_end 1 ts - 1 \<and> counted r (as_report a) \<and>
    \<not> as_in_transaction a \<and> (ts \<noteq> [] \<longrightarrow> as_have_previous a) \<and> (ts = [] \<longrightarrow> a = start_assembly r)"
proof (cases "ts = []")
  case True
  then show ?thesis by (simp add: start_assembly_def counted_refl)
next
  case False
  then show ?thesis
    using assemble_journal [of "start_assembly r" 1 mp ts k] assms
    by (auto simp: start_assembly_def before_def assembled_def)
qed

text \<open>Opening a sound store again gives its contents, the same store, and changes nothing.\<close>

lemma reopen_sound:
  assumes s: "sound_store st d snap ts" and quiet: "dk_script d = []" and mp: "so_max_record_payload_bytes (sr_options st) \<ge> 8"
  shows "\<exists>rep. store_open (sr_options st) d =
    ((rep, Some \<lparr>op_store = st, op_snapshot = snap, op_records = concat ts\<rparr>), d) \<and>
    rp_classification rep = RC_CleanReopen"
proof -
  let ?opts = "sr_options st" and ?j = "sr_journal_generation st"
  let ?data = "jimage (journal_entries 1 ts)"
  have lim: "journal_limits ?opts ts" using s by (simp add: sound_store_def)
  have scan: "scan_frames (so_max_record_payload_bytes ?opts) ?data 0 [] = (Scan_Clean, raws_from 0 (journal_entries 1 ts), 0)"
    using lim mp by (intro scan_image journal_entries_fit) (auto simp: journal_limits_def)
  have "\<exists>rep st'. store_open ?opts d =
    ((rep, Some \<lparr>op_store = st', op_snapshot = snap, op_records = concat ts\<rparr>),
     set_file (journal_file_name ?j) (if False then take 0 ?data else ?data) d) \<and>
    rp_classification rep = (if False then RC_TornTailRepaired else if False then RC_TransactionDropped else RC_CleanReopen) \<and>
    sr_options st' = ?opts \<and> sr_open st' \<and> sr_journal_generation st' = ?j \<and>
    sr_next_sequence st' = (journal_end 1 ts - 1) + 1 \<and>
    sr_snapshot_generation st' = value_or (newest_generation d ''snapshot'') 0 \<and>
    sr_journal_bytes st' = of_nat (if False then 0 else length ?data)"
  proof (rule store_open_scanned)
    show "scan_frames (so_max_record_payload_bytes ?opts) ?data 0 [] =
        (if False then Scan_TornTail else Scan_Clean, raws_from 0 (journal_entries 1 ts), 0)"
      using scan by simp
    fix r
    show "\<exists>a. assemble (raws_from 0 (journal_entries 1 ts)) (start_assembly r) = Inr a \<and> as_recovered a = concat ts \<and>
      as_previous_sequence a = journal_end 1 ts - 1 \<and> counted r (as_report a) \<and> as_in_transaction a = False"
      using assemble_from_start [of _ ts 0 r] lim by (auto simp: journal_limits_def)
  qed (use s quiet lim in \<open>auto simp: sound_store_def journal_limits_def\<close>)
  then obtain rep st' where o: "store_open ?opts d =
      ((rep, Some \<lparr>op_store = st', op_snapshot = snap, op_records = concat ts\<rparr>), set_file (journal_file_name ?j) ?data d)"
      "rp_classification rep = RC_CleanReopen"
    and st': "sr_options st' = ?opts" "sr_open st'" "sr_journal_generation st' = ?j"
      "sr_next_sequence st' = journal_end 1 ts" "sr_journal_bytes st' = of_nat (length ?data)"
      "sr_snapshot_generation st' = value_or (newest_generation d ''snapshot'') 0"
    by auto
  have "st' = st" using st' s by (simp add: sound_store_def)
  moreover have "set_file (journal_file_name ?j) ?data d = d"
    using s by (intro set_file_same) (simp add: sound_store_def)
  ultimately show ?thesis using o by auto
qed

subsection \<open>Committing\<close>

lemma disk_append_quiet:
  "dk_script d = [] \<Longrightarrow> disk_append path bs d = (True, set_file path (file_content d path @ bs) d)"
  by (simp add: disk_append_def next_io_def)

lemma write_frames_quiet:
  "dk_script d = [] \<Longrightarrow> omap_find (dk_files d) path = Some bs \<Longrightarrow>
   write_frames path fs d = (True, set_file path (bs @ concat fs) d)"
proof (induction fs arbitrary: bs d)
  case Nil
  then show ?case by (simp add: set_file_same)
next
  case (Cons f fs)
  have "file_content d path = bs" using Cons.prems(2) by (simp add: file_content_def)
  with Cons.prems(1) have "disk_append path f d = (True, set_file path (bs @ f) d)"
    by (simp add: disk_append_quiet)
  then show ?case
    using Cons.IH [of "set_file path (bs @ f) d" "bs @ f"] Cons.prems by simp
qed

lemma room_overflow:
  assumes "room s rs"
  shows "add_overflow s (of_nat (length rs) + 1) = Some (s + (of_nat (length rs) + 1))"
proof -
  have "unat (of_nat (length rs + 1) :: u64) = length rs + 1"
    using assms by (simp only: unat_of_nat) (simp add: room_def)
  then have u: "unat (of_nat (length rs) + 1 :: u64) = length rs + 1"
    by (simp add: add.commute)
  have "unat s + (length rs + 1) < 2 ^ 64" using assms by (simp add: room_def)
  then show ?thesis unfolding add_overflow_exact u by simp
qed

text \<open>Without I/O errors a commit succeeds and appends its transaction to the contents.\<close>

lemma commit_quiet:
  assumes open': "good_options (sr_options st)" "sr_open st" and quiet: "dk_script d = []"
    and rs: "rs \<noteq> []" "list_all (plain (so_max_record_payload_bytes (sr_options st))) rs" "room (sr_next_sequence st) rs"
    and content: "omap_find (dk_files d) (journal_file_name (sr_journal_generation st)) = Some bs"
  shows "commit_transaction rs st d =
    ((R_Ok, st\<lparr>sr_journal_bytes := sr_journal_bytes st + of_nat (length (jimage (transaction_entries (sr_next_sequence st) rs))),
               sr_next_sequence := next_start (sr_next_sequence st) rs\<rparr>),
     set_file (journal_file_name (sr_journal_generation st))
       (bs @ jimage (transaction_entries (sr_next_sequence st) rs)) d)"
proof -
  let ?s = "sr_next_sequence st" and ?path = "journal_file_name (sr_journal_generation st)"
  let ?d = "set_file ?path (bs @ jimage (transaction_entries ?s rs)) d"
  have written: "write_frames ?path (transaction_frames ?s rs) d = (True, ?d)"
    using write_frames_quiet [OF quiet content] by (simp add: concat_transaction_frames)
  have checked: "check_records (so_max_record_payload_bytes (sr_options st)) rs = R_Ok"
    using rs(2) by (simp add: check_records_Ok)
  have synced: "io_call ?d = (True, ?d)" using quiet by (simp add: io_call_quiet)
  have "\<not> so_read_only (sr_options st)" using open'(1) by (simp add: good_options_def)
  then show ?thesis
    unfolding commit_transaction_def Let_def checked room_overflow [OF rs(3)] option.case written prod.case synced
      concat_transaction_frames next_start_def
    using open'(2) rs(1) by (simp only: if_False if_True simp_thms bool.case)
qed

lemma journal_limits_snoc:
  "journal_limits opts (ts @ [rs]) \<Longrightarrow> journal_limits opts ts \<and> list_all (plain (so_max_record_payload_bytes opts)) rs \<and>
     room (journal_end 1 ts) rs \<and> length (concat ts) + length rs \<le> kMaxReplayRecords"
  by (auto simp: journal_limits_def roomy_append journal_entries_append)

lemma commit_sound:
  assumes s: "sound_store st d snap ts" and quiet: "dk_script d = []" and rs: "rs \<noteq> []"
    and lim: "journal_limits (sr_options st) (ts @ [rs])"
  shows "\<exists>st' d'. commit_transaction rs st d = ((R_Ok, st'), d') \<and> sound_store st' d' snap (ts @ [rs]) \<and>
    dk_script d' = [] \<and> sr_options st' = sr_options st"
proof -
  let ?j = "sr_journal_generation st" and ?e = "transaction_entries (journal_end 1 ts) rs"
  note l = journal_limits_snoc [OF lim]
  have content: "omap_find (dk_files d) (journal_file_name ?j) = Some (jimage (journal_entries 1 ts))"
    and nxt: "sr_next_sequence st = journal_end 1 ts"
    using s by (simp_all add: sound_store_def)
  let ?d = "set_file (journal_file_name ?j) (jimage (journal_entries 1 ts) @ jimage ?e) d"
  let ?st = "st\<lparr>sr_journal_bytes := sr_journal_bytes st + of_nat (length (jimage ?e)),
               sr_next_sequence := next_start (journal_end 1 ts) rs\<rparr>"
  have "commit_transaction rs st d = ((R_Ok, ?st), ?d)"
    using commit_quiet [OF _ _ quiet rs _ _ content] s l nxt by (simp add: sound_store_def)
  moreover have "sound_store ?st ?d snap (ts @ [rs])"
    using s lim content
    by (simp add: sound_store_def journal_entries_append journal_end_append newest_existing snapshot_held_journal)
  ultimately show ?thesis using quiet by auto
qed

text \<open>A crash while the frames are written leaves a prefix of them.\<close>

definition crashed :: "store \<Rightarrow> disk \<Rightarrow> jrecord list \<Rightarrow> nat \<Rightarrow> disk" where
  "crashed st d rs n =
    (let path = journal_file_name (sr_journal_generation st)
     in set_file path (file_content d path @ take n (concat (transaction_frames (sr_next_sequence st) rs))) d)"

lemma image_complete:
  "length (jimage es) \<le> n \<longleftrightarrow> complete_entries n es = es"
proof
  assume "complete_entries n es = es"
  then show "length (jimage es) \<le> n" using complete_entries_le [of n es] by simp
next
  show "length (jimage es) \<le> n \<Longrightarrow> complete_entries n es = es"
    by (induction n es rule: complete_entries.induct) auto
qed

lemma image_pos: "es \<noteq> [] \<Longrightarrow> 0 < length (jimage es)"
proof (cases es)
  case (Cons e fs)
  obtain k s p where "e = (k, s, p)" by (cases e)
  then have "0 < length (frame_of e)" by (simp add: frame_of_def length_record_frame)
  with Cons show ?thesis by simp
qed simp

lemma word_pred_less: "w \<noteq> 0 \<Longrightarrow> w - 1 < (w :: u64)"
  using word_succ_less [of "w - 1"] by (simp add: diff_eq_eq)

text \<open>What the frames of a cut transaction assemble to.\<close>

lemma assemble_prefix:
  assumes lim: "journal_limits opts (ts @ [rs])"
  shows "\<exists>a. assemble (raws_from 0 (journal_entries 1 ts @ take k (transaction_entries (journal_end 1 ts) rs))) (start_assembly r) = Inr a \<and>
    as_recovered a = concat ts @ (if length rs + 2 \<le> k then rs else []) \<and>
    as_previous_sequence a = journal_end 1 ts - 1 + of_nat (min k (length rs + 2)) \<and>
    counted r (as_report a) \<and> as_in_transaction a = (0 < k \<and> k < length rs + 2)"
proof -
  let ?s = "journal_end 1 ts" and ?k0 = "0 + length (jimage (journal_entries 1 ts))"
  note l = journal_limits_snoc [OF lim]
  obtain a where a: "assemble (raws_from 0 (journal_entries 1 ts)) (start_assembly r) = Inr a"
      "as_recovered a = concat ts" "as_previous_sequence a = ?s - 1" "counted r (as_report a)"
      "\<not> as_in_transaction a" "ts = [] \<Longrightarrow> \<not> as_have_previous a"
    using assemble_from_start [of "so_max_record_payload_bytes opts" ts 0 r] l
    by (auto simp: journal_limits_def start_assembly_def)
  have "before a ?s"
  proof (cases "ts = []")
    case True
    with a(6) show ?thesis by (simp add: before_def)
  next
    case False
    have "?s \<noteq> 0"
    proof -
      obtain us t where ts: "ts = us @ [t]" using False by (metis append_butlast_last_id)
      then have "roomy 1 ts" using l by (simp add: journal_limits_def)
      then have "room (journal_end 1 us) t" by (simp add: ts roomy_append)
      then have "unat ?s = unat (journal_end 1 us) + length t + 2" by (simp add: ts journal_end_append next_start_unat)
      then show ?thesis by auto
    qed
    then have "?s - 1 < ?s" by (rule word_pred_less)
    with a(3) show ?thesis by (simp add: before_def)
  qed
  note begin' = a(5) this
  consider (none) "k = 0" | (cut) "0 < k" "k < length rs + 2" | (all) "length rs + 2 \<le> k" by linarith
  then show ?thesis
  proof cases
    case none
    with a show ?thesis by auto
  next
    case cut
    then obtain b where b: "assemble (raws_from ?k0 (take k (transaction_entries ?s rs))) a = Inr b"
        "as_in_transaction b" "as_recovered b = as_recovered a" "as_report b = as_report a"
        "as_previous_sequence b = ?s + of_nat (k - 1)"
      using assemble_cut [OF begin', of "so_max_record_payload_bytes opts" rs k ?k0] l a(2) by auto
    have "?s + of_nat (k - 1) = ?s - 1 + of_nat k" using cut by (simp add: of_nat_diff)
    moreover have "assemble (raws_from 0 (journal_entries 1 ts @ take k (transaction_entries ?s rs))) (start_assembly r) = Inr b"
      using a(1) b(1) by (simp add: raws_from_append assemble_append)
    ultimately show ?thesis
      using a(2,4) b(2,3,4,5) cut by (intro exI [of _ b]) simp
  next
    case all
    then have "take k (transaction_entries ?s rs) = transaction_entries ?s rs" by simp
    moreover obtain b where b: "assemble (raws_from ?k0 (transaction_entries ?s rs)) a = Inr b"
        "assembled a rs (?s + 1 + of_nat (length rs)) b"
      using assemble_transaction [OF begin', of "so_max_record_payload_bytes opts" rs ?k0] l a(2) by auto
    moreover have "?s - 1 + of_nat (min k (length rs + 2)) = ?s + 1 + of_nat (length rs)"
      using all by (simp add: min_def)
    ultimately show ?thesis
      using a(1,2,4) all
      by (intro exI [of _ b]) (auto simp: raws_from_append assemble_append assembled_def intro: counted_trans)
  qed
qed

lemma opens_crashed:
  fixes n :: nat
  assumes s: "sound_store st d snap ts" and quiet: "dk_script d = []" and lim: "journal_limits (sr_options st) (ts @ [rs])"
    and mp: "so_max_record_payload_bytes (sr_options st) \<ge> 8"
  defines "es \<equiv> transaction_entries (journal_end 1 ts) rs"
  defines "k \<equiv> length (complete_entries n es)"
  shows "\<exists>rep st'. store_open (sr_options st) (crashed st d rs n) =
    ((rep, Some \<lparr>op_store = st', op_snapshot = snap,
        op_records = concat ts @ (if length (jimage es) \<le> n then rs else [])\<rparr>),
     set_file (journal_file_name (sr_journal_generation st)) (jimage (journal_entries 1 ts @ take k es)) d) \<and>
    sr_options st' = sr_options st \<and> sr_open st' \<and> sr_journal_generation st' = sr_journal_generation st \<and>
    sr_next_sequence st' = journal_end 1 ts + of_nat k"
proof -
  let ?opts = "sr_options st" and ?j = "sr_journal_generation st" and ?path = "journal_file_name (sr_journal_generation st)"
  let ?data = "jimage (journal_entries 1 ts) @ take n (jimage es)" and ?whole = "jimage (journal_entries 1 ts @ take k es)"
  let ?d = "crashed st d rs n"
  define torn where "torn = (length ?data \<noteq> length ?whole)"
  note l = journal_limits_snoc [OF lim]
  have content: "omap_find (dk_files d) ?path = Some (jimage (journal_entries 1 ts))"
    and nxt: "sr_next_sequence st = journal_end 1 ts"
    using s by (simp_all add: sound_store_def)
  have dk: "?d = set_file ?path ?data d"
    using content by (simp add: crashed_def Let_def file_content_def nxt concat_transaction_frames es_def)
  have pre: "complete_entries n es = take k es"
    unfolding k_def using complete_entries_prefix [of n es] by (metis append_eq_conv_conj append_take_drop_id)
  have kle: "k \<le> length rs + 2" using length_complete_entries [of n es] by (simp add: k_def es_def)
  have all: "length (jimage es) \<le> n \<longleftrightarrow> length rs + 2 \<le> k"
    using image_complete [of es n] pre kle by (auto simp: es_def k_def)
  have fit: "list_all (fits (so_max_record_payload_bytes ?opts)) (journal_entries 1 ts @ es)"
    using l mp by (simp add: es_def journal_limits_def journal_entries_fit transaction_entries_fit)
  have scan: "scan_frames (so_max_record_payload_bytes ?opts) ?data 0 [] =
      (if torn then Scan_TornTail else Scan_Clean, raws_from 0 (journal_entries 1 ts @ take k es), if torn then length ?whole else 0)"
    using scan_cut [OF fit refl, of n] by (simp add: torn_def pre)
  have kept: "(if torn then take (if torn then length ?whole else 0) ?data else ?data) = ?whole"
  proof -
    have "?data = ?whole @ drop (length (jimage (take k es))) (take n (jimage es))"
      using take_image [of n es] pre by (simp add: min_def)
    then have "take (length ?whole) ?data = ?whole" by (metis append_eq_conv_conj)
    moreover have "take (length ?data) ?data = ?data" by (rule take_all) (rule order_refl)
    ultimately show ?thesis unfolding torn_def by presburger
  qed
  have bound: "length ?data \<le> read_bound ?opts"
    using lim by (auto simp: journal_limits_def journal_entries_append es_def)
  have "\<exists>rep st'. store_open ?opts ?d =
    ((rep, Some \<lparr>op_store = st', op_snapshot = snap, op_records = concat ts @ (if length rs + 2 \<le> k then rs else [])\<rparr>),
     set_file ?path (if torn then take (if torn then length ?whole else 0) ?data else ?data) ?d) \<and>
    rp_classification rep = (if torn then RC_TornTailRepaired else if 0 < k \<and> k < length rs + 2
      then RC_TransactionDropped else RC_CleanReopen) \<and>
    sr_options st' = ?opts \<and> sr_open st' \<and> sr_journal_generation st' = ?j \<and>
    sr_next_sequence st' = (journal_end 1 ts - 1 + of_nat (min k (length rs + 2))) + 1 \<and>
    sr_snapshot_generation st' = value_or (newest_generation ?d ''snapshot'') 0 \<and>
    sr_journal_bytes st' = of_nat (if torn then (if torn then length ?whole else 0) else length ?data)"
  proof (rule store_open_scanned)
    show "scan_frames (so_max_record_payload_bytes ?opts) ?data 0 [] =
        (if torn then Scan_TornTail else Scan_Clean, raws_from 0 (journal_entries 1 ts @ take k es), if torn then length ?whole else 0)"
      by (rule scan)
    show "\<exists>a. assemble (raws_from 0 (journal_entries 1 ts @ take k es)) (start_assembly r) = Inr a \<and>
        as_recovered a = concat ts @ (if length rs + 2 \<le> k then rs else []) \<and>
        as_previous_sequence a = journal_end 1 ts - 1 + of_nat (min k (length rs + 2)) \<and>
        counted r (as_report a) \<and> as_in_transaction a = (0 < k \<and> k < length rs + 2)" for r
      unfolding es_def by (rule assemble_prefix [OF lim])
  qed (use s quiet content bound in \<open>auto simp: dk sound_store_def newest_existing snapshot_held_journal\<close>)
  then show ?thesis
    unfolding kept all using kle by (auto simp: dk min_def)
qed

text \<open>Whatever part of a transaction reached the disk, it is replayed completely or not at all.\<close>

lemma crash_atomic:
  assumes "sound_store st d snap ts" "dk_script d = []" "journal_limits (sr_options st) (ts @ [rs])"
    "so_max_record_payload_bytes (sr_options st) \<ge> 8"
  shows "\<exists>rep st' d'. store_open (sr_options st) (crashed st d rs n) =
    ((rep, Some \<lparr>op_store = st', op_snapshot = snap,
        op_records = concat ts @ (if length (concat (transaction_frames (sr_next_sequence st) rs)) \<le> n then rs else [])\<rparr>), d')"
proof -
  have "sr_next_sequence st = journal_end 1 ts" using assms(1) by (simp add: sound_store_def)
  then show ?thesis
    using opens_crashed [OF assms, of n] by (auto simp: concat_transaction_frames)
qed

text \<open>A torn transaction whose first frames are complete stays in the journal. The next commit
  writes a begin frame behind it, and the journal that results is refused by the next open.\<close>

lemma store_open_refused:
  assumes opts: "good_options opts" and quiet: "dk_script d = []"
    and j: "newest_generation d ''journal'' = Some j" and snap: "snapshot_held d j snap"
    and content: "omap_find (dk_files d) (journal_file_name j) = Some data" "length data \<le> read_bound opts"
    and scan: "scan_frames (so_max_record_payload_bytes opts) data 0 [] = (Scan_Clean, frames, bad)"
    and asm: "\<And>r. \<exists>r'. assemble frames (start_assembly r) = Inl (refuse RC_Corrupt R_Corrupt r')"
  shows "\<exists>rep. store_open opts d = ((rep, None), d) \<and> rp_classification rep = RC_Corrupt"
proof -
  let ?s = "newest_generation d ''snapshot''"
  define r0 where "r0 = default_recovery_report\<lparr>rp_snapshot_generation := value_or ?s 0, rp_journal_generation := j\<rparr>"
  obtain r1 where load: "(case ?s of None \<Rightarrow> Inr ([], r0) | Some g \<Rightarrow> load_snapshot d g r0) = Inr (snap, r1)"
    using snap by (cases ?s) (auto simp: snapshot_held_def load_snapshot_frame)
  have le: "value_or ?s 0 \<le> j"
    using snap by (cases ?s) (auto simp: snapshot_held_def)
  have scanned: "scan_for_open opts d ?s (Some j) r1 = Inr (frames, bad, length data, True, r1)"
    using le content scan by (simp add: scan_for_open_def scan_journal_def)
  obtain r' where a: "assemble frames (start_assembly r1) = Inl (refuse RC_Corrupt R_Corrupt r')"
    using asm by blast
  have "store_open opts d =
      (case (case ?s of None \<Rightarrow> Inr ([], r0) | Some g \<Rightarrow> load_snapshot d g r0) of
         Inl r \<Rightarrow> ((r, None), d) | Inr (sn, r) \<Rightarrow> open_contents opts ?s (Some j) sn r d)"
    using opts quiet
    by (simp add: store_open_def good_options_def io_call_quiet Let_def r0_def j cong: option.case_cong sum.case_cong)
  also have "\<dots> = ((refuse RC_Corrupt R_Corrupt r', None), d)"
    unfolding load by (simp add: open_contents_def scanned a)
  finally show ?thesis by (simp add: refuse_def)
qed

lemma length_record_image: "length (jimage (record_entries s rs)) = sum_list (map (\<lambda>r. 28 + length (rc_payload r)) rs)"
  by (induction rs arbitrary: s) (simp_all add: frame_of_def length_record_frame)

lemma length_transaction_image:
  "length (jimage (transaction_entries s rs)) = 72 + sum_list (map (\<lambda>r. 28 + length (rc_payload r)) rs)"
  by (simp add: transaction_entries_def length_record_image) (simp add: frame_of_def length_record_frame)

lemma dangling_then_commit_corrupt:
  assumes s: "sound_store st d snap ts" and quiet: "dk_script d = []" and lim: "journal_limits (sr_options st) (ts @ [rs])"
    and mp: "so_max_record_payload_bytes (sr_options st) \<ge> 8"
    and n: "36 \<le> n" "n < length (concat (transaction_frames (sr_next_sequence st) rs))"
    and rs': "rs' \<noteq> []" "list_all (plain (so_max_record_payload_bytes (sr_options st))) rs'"
    and fits': "unat (sr_next_sequence st) + length rs + length rs' + 4 < 2 ^ 64"
      "length (jimage (journal_entries 1 (ts @ [rs]))) + length (concat (transaction_frames 0 rs')) \<le> read_bound (sr_options st)"
  shows "\<exists>rep st' d' st'' d''. store_open (sr_options st) (crashed st d rs n) =
      ((rep, Some \<lparr>op_store = st', op_snapshot = snap, op_records = concat ts\<rparr>), d') \<and>
    commit_transaction rs' st' d' = ((R_Ok, st''), d'') \<and>
    (\<exists>rep'. store_open (sr_options st) d'' = ((rep', None), d'') \<and> rp_classification rep' = RC_Corrupt)"
proof -
  let ?opts = "sr_options st" and ?j = "sr_journal_generation st" and ?path = "journal_file_name (sr_journal_generation st)"
  define q where "q = journal_end 1 ts"
  define es where "es = transaction_entries q rs"
  define k where "k = length (complete_entries n es)"
  note l = journal_limits_snoc [OF lim]
  have nxt: "sr_next_sequence st = q" using s by (simp add: sound_store_def q_def)
  have long: "n < length (jimage es)" using n(2) by (simp add: nxt concat_transaction_frames es_def)
  have "0 < k" using n(1)
    by (simp add: k_def es_def transaction_entries_def) (simp add: frame_of_def length_record_frame)
  moreover have "k < length rs + 2"
  proof -
    obtain j where "complete_entries n es = take j es" using complete_entries_prefix [of n es] by blast
    moreover have "complete_entries n es \<noteq> es" using long image_complete [of es n] by simp
    ultimately show ?thesis by (auto simp: k_def es_def)
  qed
  ultimately have k: "0 < k" "k < length rs + 2" .
  let ?old = "journal_entries 1 ts @ take k es"
  let ?d1 = "set_file ?path (jimage ?old) d"
  obtain rep st' where o1: "store_open ?opts (crashed st d rs n) =
      ((rep, Some \<lparr>op_store = st', op_snapshot = snap, op_records = concat ts\<rparr>), ?d1)"
    and st': "sr_options st' = ?opts" "sr_open st'" "sr_journal_generation st' = ?j" "sr_next_sequence st' = q + of_nat k"
    using opens_crashed [OF s quiet lim mp, of n] long unfolding q_def [symmetric] es_def [symmetric] k_def [symmetric]
    by auto
  let ?new = "transaction_entries (q + of_nat k) rs'"
  have content: "omap_find (dk_files ?d1) ?path = Some (jimage ?old)" by simp
  have r: "unat (q + of_nat k) = unat q + k"
    using room_unat [of q rs k] l k by (simp add: q_def)
  then have room': "room (sr_next_sequence st') rs'"
    using fits'(1) k nxt by (simp add: st' room_def)
  let ?d2 = "set_file ?path (jimage ?old @ jimage ?new) ?d1"
  obtain st'' where o2: "commit_transaction rs' st' ?d1 = ((R_Ok, st''), ?d2)"
    using commit_quiet [of st' ?d1 rs' "jimage ?old"] s st' quiet rs' room' by (auto simp: sound_store_def)
  have d2: "?d2 = set_file ?path (jimage (?old @ ?new)) d" by simp
  have "length (jimage (take k es)) \<le> length (jimage es)"
    by (metis append_take_drop_id image_simps(3) le_add1 length_append)
  then have bound: "length (jimage (?old @ ?new)) \<le> read_bound ?opts"
    using fits'(2) by (simp add: journal_entries_append q_def es_def concat_transaction_frames length_transaction_image)
  have fit: "list_all (fits (so_max_record_payload_bytes ?opts)) (?old @ ?new)"
    using l mp rs'(2) by (simp add: es_def journal_limits_def journal_entries_fit transaction_entries_fit list_all_takeI)
  have asm: "\<exists>r'. assemble (raws_from 0 (?old @ ?new)) (start_assembly r) = Inl (refuse RC_Corrupt R_Corrupt r')" for r
  proof -
    obtain a where a: "assemble (raws_from 0 ?old) (start_assembly r) = Inr a" "as_in_transaction a"
      using assemble_prefix [OF lim, of k r] k by (auto simp: q_def es_def)
    have "\<exists>r'. assemble_frame (raw_of i (BeginTransaction, v, be64 v)) a = Inl (refuse RC_Corrupt R_Corrupt r')" for i v
      using a(2) by (auto simp: assemble_frame_def raw_of_def Let_def)
    then obtain r' where "assemble_frame (raw_of (0 + length (jimage ?old))
        (BeginTransaction, q + of_nat k, be64 (q + of_nat k))) a = Inl (refuse RC_Corrupt R_Corrupt r')"
      by blast
    then have "assemble (raws_from 0 (?old @ ?new)) (start_assembly r) = Inl (refuse RC_Corrupt R_Corrupt r')"
      unfolding raws_from_append [of 0 ?old] assemble_append a(1) by (simp add: transaction_entries_def)
    then show ?thesis by blast
  qed
  have "\<exists>rep'. store_open ?opts ?d2 = ((rep', None), ?d2) \<and> rp_classification rep' = RC_Corrupt"
  proof (rule store_open_refused)
    show "scan_frames (so_max_record_payload_bytes ?opts) (jimage (?old @ ?new)) 0 [] = (Scan_Clean, raws_from 0 (?old @ ?new), 0)"
      using fit by (rule scan_image)
    show "\<exists>r'. assemble (raws_from 0 (?old @ ?new)) (start_assembly r) = Inl (refuse RC_Corrupt R_Corrupt r')" for r
      by (rule asm)
    show "length (jimage (?old @ ?new)) \<le> read_bound ?opts" by (rule bound)
  qed (use s quiet in \<open>auto simp: sound_store_def newest_existing snapshot_held_journal\<close>)
  with o1 o2 show ?thesis by blast
qed

subsection \<open>Compaction\<close>

lemma generations_set_file:
  "generations (set_file name bs d) p =
    generations d p \<union> (case parse_generation_file_name name p of None \<Rightarrow> {} | Some g \<Rightarrow> {g})"
proof -
  have "omap_find (dk_files (set_file name bs d)) x \<noteq> None \<longleftrightarrow> x = name \<or> omap_find (dk_files d) x \<noteq> None" for x
    by (simp add: set_file_def omap_find_put)
  then show ?thesis unfolding generations_def by (auto split: option.splits)
qed

lemma newest_set_greater:
  assumes "parse_generation_file_name name p = Some g" and "\<And>h. newest_generation d p = Some h \<Longrightarrow> h \<le> g"
  shows "newest_generation (set_file name bs d) p = Some g"
proof -
  have "\<forall>h \<in> generations d p. h \<le> g"
  proof (cases "newest_generation d p")
    case None
    then show ?thesis by (simp add: newest_generation_None)
  next
    case (Some h)
    with assms(2) show ?thesis by (fastforce simp: newest_generation_Some)
  qed
  with assms(1) show ?thesis by (auto simp: newest_generation_Some generations_set_file)
qed

lemma newest_set_other:
  "parse_generation_file_name name p = None \<Longrightarrow> newest_generation (set_file name bs d) p = newest_generation d p"
  by (intro newest_cong) (simp add: generations_set_file)

lemma parse_temp [simp]:
  "parse_generation_file_name (snapshot_file_name g @ ''.tmp'') ''snapshot'' = None"
  "parse_generation_file_name (snapshot_file_name g @ ''.tmp'') ''journal'' = None"
  by (simp_all add: parse_generation_file_name_def snapshot_file_name_def generation_file_name_length)

lemma temp_distinct: "snapshot_file_name g @ ''.tmp'' \<noteq> snapshot_file_name h" "snapshot_file_name g @ ''.tmp'' \<noteq> journal_file_name h"
proof -
  show "snapshot_file_name g @ ''.tmp'' \<noteq> snapshot_file_name h"
    using parse_temp(1) [of g] parse_own_kind(2) [of h] by (metis option.distinct(1))
  show "snapshot_file_name g @ ''.tmp'' \<noteq> journal_file_name h"
    using parse_temp(2) [of g] parse_own_kind(1) [of h] by (metis option.distinct(1))
qed

lemma write_atomic_quiet:
  assumes quiet: "dk_script d = []" and data: "data \<noteq> []"
  shows "\<exists>d'. write_file_atomically path data d = (True, d') \<and> dk_script d' = [] \<and>
    omap_find (dk_files d') = (omap_find (dk_files d)) (path @ ''.tmp'' := None, path \<mapsto> data)"
proof -
  let ?t = "path @ ''.tmp''"
  have ne: "path \<noteq> ?t" by simp
  let ?d1 = "set_file ?t [] d" and ?d2 = "set_file ?t data d"
  let ?d4 = "disk_remove ?t (set_file path data ?d2)"
  have 1: "disk_open_write ?t d = (True, ?d1)" using quiet by (simp add: disk_open_write_def io_call_quiet)
  have 2: "disk_append ?t data ?d1 = (True, ?d2)" using quiet by (simp add: disk_append_quiet)
  have 3: "io_call ?d2 = (True, ?d2)" using quiet by (simp add: io_call_quiet)
  have 4: "atomic_replace ?t path ?d2 = (True, ?d4)" using quiet by (simp add: atomic_replace_def io_call_quiet)
  have "write_file_atomically path data d = (True, ?d4)"
    using data unfolding write_file_atomically_def Let_def 1 prod.case by (simp add: 2 3 4)
  moreover have "omap_find (dk_files ?d4) = (omap_find (dk_files d)) (?t := None, path \<mapsto> data)"
    using ne by (rule_tac ext) (simp add: disk_remove_def set_file_def omap_find_put omap_find_erase)
  moreover have "dk_script ?d4 = []" using quiet by (simp add: disk_remove_def)
  ultimately show ?thesis by blast
qed

lemma find_remove_expired:
  "omap_find (dk_files (remove_expired g r d)) name = (if expired g r name then None else omap_find (dk_files d) name)"
proof -
  have "omap_find (dk_files (foldl (\<lambda>d name. if expired g r name then disk_remove name d else d) d ns)) name =
      (if expired g r name \<and> name \<in> set ns then None else omap_find (dk_files d) name)" for ns
    by (induction ns arbitrary: d) (auto simp: disk_remove_def omap_find_erase)
  moreover have "name \<notin> set (omap_keys (dk_files d)) \<Longrightarrow> omap_find (dk_files d) name = None"
    using find_keys by blast
  ultimately show ?thesis by (auto simp: remove_expired_def)
qed

lemma script_remove_expired: "dk_script (remove_expired g r d) = dk_script d"
proof -
  have "dk_script (foldl (\<lambda>d name. if expired g r name then disk_remove name d else d) d ns) = dk_script d" for ns
    by (induction ns arbitrary: d) (auto simp: disk_remove_def)
  then show ?thesis by (simp add: remove_expired_def)
qed

lemma expired_older:
  assumes "expired g r name"
  shows "\<exists>h. (parse_generation_file_name name ''snapshot'' = Some h \<or> parse_generation_file_name name ''journal'' = Some h) \<and> h < g"
proof -
  obtain h where h: "parse_generation_file_name name ''snapshot'' = Some h \<or> parse_generation_file_name name ''journal'' = Some h"
      "r < g" "h < g - r"
    using assms by (auto simp: expired_def split: option.splits)
  have "g - r \<le> g" using h(2) by (simp add: word_le_nat_alt word_less_nat_alt unat_sub_if')
  with h(3) have "h < g" by (rule less_le_trans)
  with h(1) show ?thesis by blast
qed

lemma not_expired_current: "\<not> expired g r (snapshot_file_name g)" "\<not> expired g r (journal_file_name g)"
  using expired_older [of g r "snapshot_file_name g"] expired_older [of g r "journal_file_name g"] by auto

lemma newest_remove_expired:
  assumes "parse_generation_file_name name p = Some g" "p = ''snapshot'' \<or> p = ''journal''"
    "omap_find (dk_files d) name \<noteq> None" "\<not> expired g r name" "\<forall>h \<in> generations d p. h \<le> g"
  shows "newest_generation (remove_expired g r d) p = Some g"
  using assms unfolding newest_generation_Some by (auto simp: generations_def find_remove_expired)

text \<open>A compaction leaves a store whose contents are the snapshot alone.\<close>

lemma compact_sound:
  assumes s: "sound_store st d snap ts" and quiet: "dk_script d = []" and room: "sr_journal_generation st \<noteq> - 1"
    and len: "length snap' + 20 \<le> kMaxSnapshotBytes"
  shows "\<exists>st' d'. compact snap' st d = ((R_Ok, st'), d') \<and> sound_store st' d' snap' [] \<and> dk_script d' = [] \<and>
    sr_options st' = sr_options st"
proof -
  let ?opts = "sr_options st" and ?j = "sr_journal_generation st" and ?frame = "build_snapshot_frame snap'"
  define g where "g = ?j + 1"
  let ?sp = "snapshot_file_name g" and ?jp = "journal_file_name g"
  have jg: "?j < g" unfolding g_def using room by (rule word_succ_less)
  have ne: "?frame \<noteq> []" using length_snapshot_frame [of snap'] by auto
  obtain d1 where d1: "write_file_atomically ?sp ?frame d = (True, d1)" "dk_script d1 = []"
      "omap_find (dk_files d1) = (omap_find (dk_files d)) (?sp @ ''.tmp'' := None, ?sp \<mapsto> ?frame)"
    using write_atomic_quiet [OF quiet ne] by blast
  let ?d2 = "set_file ?jp [] d1"
  have 2: "disk_open_write ?jp d1 = (True, ?d2)" using d1(2) by (simp add: disk_open_write_def io_call_quiet)
  have 3: "io_call ?d2 = (True, ?d2)" using d1(2) by (simp add: io_call_quiet)
  have 4: "disk_open_append ?jp ?d2 = (True, ?d2)" using d1(2) by (simp add: disk_open_append_def io_call_quiet)
  let ?r = "max 1 (so_retained_generations ?opts)"
  let ?d5 = "remove_expired g ?r ?d2"
  let ?st = "(store_close st)\<lparr>sr_open := True, sr_journal_bytes := 0, sr_next_sequence := 1,
                  sr_snapshot_generation := g, sr_journal_generation := g\<rparr>"
  have good: "good_options ?opts" using s by (simp add: sound_store_def)
  have eq: "compact snap' st d = ((R_Ok, ?st), ?d5)"
    using good room len
    unfolding compact_def Let_def g_def [symmetric] d1(1) 2 3 4 prod.case
    by (simp add: good_options_def)
  have find2: "omap_find (dk_files ?d2) =
      (omap_find (dk_files d)) (?sp @ ''.tmp'' := None, ?sp \<mapsto> ?frame, ?jp \<mapsto> [])"
    by (rule ext) (simp add: set_file_def omap_find_put d1(3))
  have older: "\<forall>h \<in> generations ?d2 p. h \<le> g" if p: "p = ''snapshot'' \<or> p = ''journal''" for p
  proof
    fix h
    assume "h \<in> generations ?d2 p"
    then obtain name where name: "omap_find (dk_files ?d2) name \<noteq> None" "parse_generation_file_name name p = Some h"
      by (auto simp: generations_def)
    show "h \<le> g"
    proof (cases "name = ?sp \<or> name = ?jp")
      case True
      with name(2) p show ?thesis by auto
    next
      case False
      then have "h \<in> generations d p" using name by (auto simp: find2 generations_def split: if_splits)
      moreover have "\<forall>h \<in> generations d ''journal''. h \<le> ?j" "\<forall>h \<in> generations d ''snapshot''. h \<le> ?j"
        using s by (auto simp: sound_store_def newest_generation_Some newest_generation_None snapshot_held_def
            split: option.splits)
      ultimately show ?thesis using p jg by auto
    qed
  qed
  have sp: "?sp \<noteq> ?jp" by (metis file_names_distinct(1))
  have newest_s: "newest_generation ?d5 ''snapshot'' = Some g"
    using older sp by (intro newest_remove_expired [where name = ?sp]) (auto simp: find2 not_expired_current)
  have newest_j: "newest_generation ?d5 ''journal'' = Some g"
    using older by (intro newest_remove_expired [where name = ?jp]) (auto simp: find2 not_expired_current)
  have content: "file_content ?d5 ?sp = ?frame" "omap_find (dk_files ?d5) ?jp = Some []"
    using sp by (simp_all add: file_content_def find_remove_expired not_expired_current find2)
  have "journal_limits ?opts []" using s by (simp add: sound_store_def journal_limits_def)
  then have "sound_store ?st ?d5 snap' []"
    using good newest_s newest_j content len
    by (simp add: sound_store_def snapshot_held_def store_close_def)
  with eq d1(2) show ?thesis by (auto simp: script_remove_expired store_close_def)
qed

text \<open>A crash between the steps of a compaction recovers the old contents or the snapshot.\<close>

lemma open_after_snapshot_rename:
  assumes s: "sound_store st d snap ts" and quiet: "dk_script d = []" and room: "sr_journal_generation st \<noteq> - 1"
    and len: "length snap' + 20 \<le> kMaxSnapshotBytes"
  shows "\<exists>rep st' d'. store_open (sr_options st)
      (set_file (snapshot_file_name (sr_journal_generation st + 1)) (build_snapshot_frame snap') d) =
    ((rep, Some \<lparr>op_store = st', op_snapshot = snap', op_records = []\<rparr>), d')"
proof -
  let ?opts = "sr_options st" and ?j = "sr_journal_generation st" and ?frame = "build_snapshot_frame snap'"
  define g where "g = ?j + 1"
  let ?d = "set_file (snapshot_file_name g) ?frame d"
  have jg: "?j < g" unfolding g_def using room by (rule word_succ_less)
  have newest_s: "newest_generation ?d ''snapshot'' = Some g"
    using s jg by (intro newest_set_greater) (auto simp: sound_store_def snapshot_held_def)
  have newest_j: "newest_generation ?d ''journal'' = Some ?j"
    using s by (simp add: newest_set_other sound_store_def)
  define r0 where "r0 = default_recovery_report\<lparr>rp_snapshot_generation := g, rp_journal_generation := ?j\<rparr>"
  obtain r1 where load: "load_snapshot ?d g r0 = Inr (snap', r1)" and r1: "\<not> rp_truncated_tail_repaired r1"
    using load_snapshot_frame [of ?d g snap' r0] len by (auto simp: r0_def default_recovery_report_def)
  have good: "good_options ?opts" using s by (simp add: sound_store_def)
  have "store_open ?opts ?d = open_contents ?opts (Some g) (Some ?j) snap' r1 ?d"
    using good quiet newest_s newest_j load
    by (simp add: store_open_def good_options_def io_call_quiet Let_def r0_def)
  moreover have "scan_for_open ?opts ?d (Some g) (Some ?j) r1 = Inr ([], 0, 0, False, r1)"
    using jg leD [of g ?j] by (auto simp: scan_for_open_def)
  moreover have "\<not> rp_truncated_tail_repaired ((classify_open True False (start_assembly r1))\<lparr>rp_replayed_digest := x\<rparr>)" for x
    using r1 by (simp add: classify_open_def start_assembly_def Let_def)
  ultimately show ?thesis
    using good quiet
    by (simp add: open_contents_def open_journal_def good_options_def Let_def disk_open_append_def io_call_quiet
        start_assembly_def g_def [symmetric])
qed

lemma open_before_snapshot_rename:
  assumes s: "sound_store st d snap ts" and quiet: "dk_script d = []" and mp: "so_max_record_payload_bytes (sr_options st) \<ge> 8"
  shows "\<exists>rep st' d'. store_open (sr_options st) (set_file (snapshot_file_name g @ ''.tmp'') bs d) =
    ((rep, Some \<lparr>op_store = st', op_snapshot = snap, op_records = concat ts\<rparr>), d')"
proof -
  let ?d = "set_file (snapshot_file_name g @ ''.tmp'') bs d"
  have "sound_store st ?d snap ts"
    using s by (auto simp: sound_store_def snapshot_held_def newest_set_other disk_file_simps temp_distinct
        temp_distinct [symmetric] split: option.splits)
  from reopen_sound [OF this _ mp] quiet show ?thesis by auto
qed

end
