(* ===== verification/Steps.thy ===== *)
theory Steps
  imports Lifecycle
begin

text \<open>
  The abstract specification of the runtime. \<open>state_step\<close> lists the transitions the decision state
  may take; \<open>evolves\<close> is what a call of the runtime may do to it: a sequence of such transitions,
  beside the bookkeeping of counters, explanations, the request cache and the store, which
  \<open>core\<close> leaves out. The theory Evolution shows that every operation of the code refines it.
\<close>

subsection \<open>Postconditions\<close>

text \<open>\<open>post Q r\<close>: the result and the runtime after it satisfy \<open>Q\<close>. The rules follow the shape of the
  code, so that the guards on the way to a result are facts in its goal.\<close>

definition post :: "('r \<Rightarrow> 's \<Rightarrow> bool) \<Rightarrow> 'r \<times> 's \<Rightarrow> bool" where
  "post Q r \<longleftrightarrow> Q (fst r) (snd r)"

lemma post_pair [simp]: "post Q (r, s) \<longleftrightarrow> Q r s"
  by (simp add: post_def)

lemma post_if: "(b \<Longrightarrow> post Q x) \<Longrightarrow> (\<not> b \<Longrightarrow> post Q y) \<Longrightarrow> post Q (if b then x else y)"
  by simp

lemma post_let: "(\<And>v. v = a \<Longrightarrow> post Q (f v)) \<Longrightarrow> post Q (let v = a in f v)"
  by simp

lemma post_option:
  "(e = None \<Longrightarrow> post Q x) \<Longrightarrow> (\<And>v. e = Some v \<Longrightarrow> post Q (f v)) \<Longrightarrow> post Q (case e of None \<Rightarrow> x | Some v \<Rightarrow> f v)"
  by (cases e) auto

lemma post_sum:
  "(\<And>v. e = Inl v \<Longrightarrow> post Q (f v)) \<Longrightarrow> (\<And>v. e = Inr v \<Longrightarrow> post Q (g v)) \<Longrightarrow>
   post Q (case e of Inl v \<Rightarrow> f v | Inr v \<Rightarrow> g v)"
  by (cases e) auto

lemma post_prod: "(\<And>a b. e = (a, b) \<Longrightarrow> post Q (f a b)) \<Longrightarrow> post Q (case e of (a, b) \<Rightarrow> f a b)"
  by (cases e) auto

lemma post_bind: "post (\<lambda>a b. post Q (f a b)) e \<Longrightarrow> post Q (case e of (a, b) \<Rightarrow> f a b)"
  by (cases e) simp

lemmas post_rules = post_if post_let post_option post_sum post_prod

lemma post_mono: "post Q r \<Longrightarrow> (\<And>x s. Q x s \<Longrightarrow> R x s) \<Longrightarrow> post R r"
  by (simp add: post_def)

lemma postD: "post Q r \<Longrightarrow> r = (x, s) \<Longrightarrow> Q x s"
  by simp

subsection \<open>The decision state\<close>

definition core :: "state \<Rightarrow> state" where
  "core s = s\<lparr>st_stats := default_fabric_stats, st_request_cache := omap_empty, st_request_order := []\<rparr>"

lemma core_core [simp]: "core (core s) = core s"
  by (simp add: core_def)

lemma core_bump [simp]: "core (bump c s) = core s"
  by (simp add: core_def bump_def)

lemma core_bumps [simp]: "core ((bump c ^^ k) s) = core s"
  by (induction k) simp_all

lemma core_bookkeeping [simp]:
  "core (s\<lparr>st_stats := x\<rparr>) = core s" "core (s\<lparr>st_request_cache := y\<rparr>) = core s"
  "core (s\<lparr>st_request_order := z\<rparr>) = core s" "core (s\<lparr>st_request_cache := y, st_request_order := z\<rparr>) = core s"
  by (simp_all add: core_def)

lemma core_fields [simp]:
  "st_epoch (core s) = st_epoch s" "st_boot (core s) = st_boot s" "st_tick (core s) = st_tick s"
  "st_topology_generation (core s) = st_topology_generation s" "st_policy_generation (core s) = st_policy_generation s"
  "st_policy (core s) = st_policy s" "st_next_evidence_id (core s) = st_next_evidence_id s"
  "st_next_attempt_id (core s) = st_next_attempt_id s" "st_next_lease_id (core s) = st_next_lease_id s"
  "st_next_plan_id (core s) = st_next_plan_id s" "st_targets (core s) = st_targets s"
  "st_capabilities (core s) = st_capabilities s" "st_services (core s) = st_services s"
  "st_dependencies (core s) = st_dependencies s" "st_failures (core s) = st_failures s"
  "st_failure_order (core s) = st_failure_order s" "st_latest_failure (core s) = st_latest_failure s"
  "st_fences (core s) = st_fences s" "st_witnesses (core s) = st_witnesses s" "st_sources (core s) = st_sources s"
  "st_watermarks (core s) = st_watermarks s"
  by (simp_all add: core_def)

lemma core_eq_iff:
  "core s = core t \<longleftrightarrow>
    st_epoch s = st_epoch t \<and> st_boot s = st_boot t \<and> st_tick s = st_tick t \<and>
    st_topology_generation s = st_topology_generation t \<and> st_policy_generation s = st_policy_generation t \<and>
    st_policy s = st_policy t \<and> st_next_evidence_id s = st_next_evidence_id t \<and>
    st_next_attempt_id s = st_next_attempt_id t \<and> st_next_lease_id s = st_next_lease_id t \<and>
    st_next_plan_id s = st_next_plan_id t \<and> st_targets s = st_targets t \<and> st_capabilities s = st_capabilities t \<and>
    st_services s = st_services t \<and> st_dependencies s = st_dependencies t \<and> st_failures s = st_failures t \<and>
    st_failure_order s = st_failure_order t \<and> st_latest_failure s = st_latest_failure t \<and>
    st_fences s = st_fences t \<and> st_witnesses s = st_witnesses t \<and> st_sources s = st_sources t \<and>
    st_watermarks s = st_watermarks t"
  by (cases s; cases t) (auto simp: core_def)

subsection \<open>Transitions of one service\<close>

text \<open>What may happen to a registered service outside a commit.\<close>

inductive runtime_step :: "fabric_config \<Rightarrow> service_runtime \<Rightarrow> service_runtime \<Rightarrow> bool" for config where
  Withdrawn: "runtime_step config sv (withdrawn stamp sv)"
| Awaiting: "runtime_step config sv (await_operator i stamp sv)"
| Reasoned: "runtime_step config sv (sv\<lparr>sv_last_reason := code\<rparr>)"
| Marked: "runtime_step config sv (ambiguity_marked i sv)"
| Cleared: "runtime_step config sv (ambiguity_cleared sv)"
| Alive: "runtime_step config sv (declared_alive stamp sv)"
| Acked: "runtime_step config sv (acknowledged ack stamp sv)"
| Effected: "effect_outcome policy sv (effect_seen config i stamp sv) report = Inr (outcome, sv') \<Longrightarrow>
    runtime_step config sv sv'"
| Forgotten: "runtime_step config sv (origin_forgotten sv)"

inductive_cases runtime_stepE: "runtime_step config sv sv'"

subsection \<open>Transitions of the decision state\<close>

text \<open>What a mode of recovery presupposes of the service: its first placement has none, a failover
  leaves the active one, a resume goes where the recorded attempt went.\<close>

definition mode_fits :: "commit_mode \<Rightarrow> service_runtime \<Rightarrow> target_ref \<Rightarrow> target_ref \<Rightarrow> bool" where
  "mode_fits mode sv from' to_ref \<longleftrightarrow>
    (case mode of
       InitialPlacement \<Rightarrow> sv_active sv = None \<and> from' = default_target_ref
     | Failover_Mode \<Rightarrow> from' = value_or (sv_active sv) default_target_ref
     | Resume_Mode \<Rightarrow> (\<exists>a. current_attempt_record sv = Some a \<and> to_ref = ar_to a \<and> from' = ar_from a))"

text \<open>A source's sequence number that is newer than its watermark.\<close>

definition fresh_sequence :: "state \<Rightarrow> provenance \<Rightarrow> bool" where
  "fresh_sequence s p \<longleftrightarrow> (\<forall>w. omap_find (st_watermarks s) (pv_source p) = Some w \<longrightarrow> sw_sequence w < pv_sequence p)"

inductive state_step :: "fabric_config \<Rightarrow> state \<Rightarrow> state \<Rightarrow> bool" for config where
  Bookkeeping: "core t = core s \<Longrightarrow> state_step config s t"
| Ticked: "tick_successor (st_tick s) = Some stamp \<Longrightarrow> state_step config s (s\<lparr>st_tick := stamp\<rparr>)"
| Source_Enrolled:
    "omap_find (st_sources s) source = None \<Longrightarrow> omap_size (st_sources s) < cf_max_sources config \<Longrightarrow>
     state_step config s (s\<lparr>st_sources := omap_put source role (st_sources s)\<rparr>)"
| Service_Added:
    "omap_find (st_services s) (sd_name d) = None \<Longrightarrow> omap_size (st_services s) < cf_max_services config \<Longrightarrow>
     validate_descriptor config d = R_Ok \<Longrightarrow>
     state_step config s (s\<lparr>st_services := omap_put (sd_name d) (new_runtime d stamp) (st_services s)\<rparr>)"
| Target_Added:
    "tr_topology_generation t = st_topology_generation s \<Longrightarrow>
     (case omap_find (st_targets s) (tr_name t) of
        None \<Rightarrow> omap_size (st_targets s) < cf_max_targets config
      | Some old \<Rightarrow> tr_incarnation old < tr_incarnation t) \<Longrightarrow>
     state_step config s (s\<lparr>st_targets := omap_put (tr_name t) t (st_targets s)\<rparr>)"
| Target_Removed:
    "state_step config s (s\<lparr>st_targets := omap_erase t (st_targets s), st_capabilities := omap_erase t (st_capabilities s)\<rparr>)"
| Topology_Advanced:
    "st_topology_generation s < g \<Longrightarrow> state_step config s (s\<lparr>st_topology_generation := g\<rparr>)"
| Policy_Advanced:
    "valid_policy p \<Longrightarrow> st_policy_generation s < pd_generation p \<Longrightarrow>
     state_step config s (s\<lparr>st_policy := p, st_policy_generation := pd_generation p\<rparr>)"
| Capability_Recorded:
    "omap_find (st_targets s) (ce_target ev) = Some t \<Longrightarrow> ce_incarnation ev = tr_incarnation t \<Longrightarrow>
     ce_topology_generation ev = st_topology_generation s \<Longrightarrow>
     (case omap_find (st_capabilities s) (ce_target ev) of
        None \<Rightarrow> True
      | Some slot \<Rightarrow> ce_incarnation (cp_evidence slot) = ce_incarnation ev \<longrightarrow>
          ce_generation (cp_evidence slot) < ce_generation ev) \<Longrightarrow>
     state_step config s (s\<lparr>st_capabilities :=
       omap_put (ce_target ev) \<lparr>cp_evidence = ev, cp_requires_reconfirmation = False\<rparr> (st_capabilities s)\<rparr>)"
| Evidence_Numbered: "state_step config s (s\<lparr>st_next_evidence_id := st_next_evidence_id s + 1\<rparr>)"
| Failures_Trimmed: "state_step config s (evict_failures_if_needed config s)"
| Failure_Recorded:
    "pv_epoch (fe_provenance ev) = st_epoch s \<Longrightarrow> pv_boot (fe_provenance ev) = st_boot s \<Longrightarrow>
     fe_topology_generation ev = st_topology_generation s \<Longrightarrow>
     st_failure_order s = [] \<or> omap_size (st_failures s) < cf_max_evidence_records config \<Longrightarrow>
     fresh_sequence s (fe_provenance ev) \<Longrightarrow>
     state_step config s (apply_failure ev s)"
| Failure_Promoted:
    "omap_find (st_failures s) i = Some ev \<Longrightarrow>
     state_step config s (s\<lparr>st_failures := omap_put (fe_id ev) (promoted ev) (st_failures s)\<rparr>)"
| Dependency_Recorded:
    "pv_epoch (dob_provenance b) = st_epoch s \<Longrightarrow> pv_boot (dob_provenance b) = st_boot s \<Longrightarrow>
     dob_topology_generation b = st_topology_generation s \<Longrightarrow>
     fresh_sequence s (dob_provenance b) \<Longrightarrow>
     state_step config s (apply_dependency b s)"
| Service_Changed:
    "omap_find (st_services s) name = Some sv \<Longrightarrow> runtime_step config sv sv' \<Longrightarrow>
     state_step config s (s\<lparr>st_services := omap_put name sv' (st_services s)\<rparr>)"
| Committed:
    "core (im_state im) = core s \<Longrightarrow> im_config im = config \<Longrightarrow>
     omap_find (st_services s) service = Some sv \<Longrightarrow> mode_fits mode sv from' to_ref \<Longrightarrow>
     attempt_identity mode service sv im = Inr n \<Longrightarrow> tick_successor (st_tick s) = Some stamp \<Longrightarrow>
     state_step config s
       (apply_committed mode n stamp (recovery_change im mode n service from' to_ref stamp trigger sv) k s)"

inductive_cases state_stepE: "state_step config s t"

abbreviation state_steps :: "fabric_config \<Rightarrow> state \<Rightarrow> state \<Rightarrow> bool" where
  "state_steps config \<equiv> (state_step config)\<^sup>*\<^sup>*"

text \<open>Services and targets are registered under their own names.\<close>

definition well_named :: "state \<Rightarrow> bool" where
  "well_named s \<longleftrightarrow>
    (\<forall>name sv. omap_find (st_services s) name = Some sv \<longrightarrow> sd_name (sv_descriptor sv) = name) \<and>
    (\<forall>name t. omap_find (st_targets s) name = Some t \<longrightarrow> tr_name t = name)"

text \<open>The intent queue: at its back a push, at its front a pop.\<close>

inductive queue_step :: "intent_queue \<Rightarrow> intent_queue \<Rightarrow> bool" where
  Pushed: "queue_step q (snd (iq_push i q))"
| Popped: "queue_step q (snd (iq_try_pop q))"

definition evolves :: "impl \<Rightarrow> impl \<Rightarrow> bool" where
  "evolves im im' \<longleftrightarrow> im_config im' = im_config im \<and> im_opened im' = im_opened im \<and>
    state_steps (im_config im) (im_state im) (im_state im') \<and> queue_step\<^sup>*\<^sup>* (im_intents im) (im_intents im')"

lemma evolves_refl [simp]: "evolves im im"
  by (simp add: evolves_def)

lemma evolves_trans: "evolves im im' \<Longrightarrow> evolves im' im'' \<Longrightarrow> evolves im im''"
  by (simp add: evolves_def) (meson rtranclp_trans)

text \<open>Calls that leave the decision state and the queue alone.\<close>

definition quiet :: "impl \<Rightarrow> impl \<Rightarrow> bool" where
  "quiet im im' \<longleftrightarrow> im_config im' = im_config im \<and> im_opened im' = im_opened im \<and>
    core (im_state im') = core (im_state im) \<and> im_intents im' = im_intents im"

lemma quiet_refl [simp]: "quiet im im"
  by (simp add: quiet_def)

lemma quiet_trans: "quiet im im' \<Longrightarrow> quiet im' im'' \<Longrightarrow> quiet im im''"
  by (simp add: quiet_def)

lemma quiet_evolves: "quiet im im' \<Longrightarrow> evolves im im'"
  by (simp add: quiet_def evolves_def) (blast intro: Bookkeeping)

lemma evolves_quiet: "evolves im im' \<Longrightarrow> quiet im' im'' \<Longrightarrow> evolves im im''"
  by (blast intro: evolves_trans quiet_evolves)

lemma quiet_then: "quiet im im' \<Longrightarrow> evolves im' im'' \<Longrightarrow> evolves im im''"
  by (blast intro: evolves_trans quiet_evolves)

text \<open>A change of the state that is a sequence of transitions.\<close>

lemma in_state_simps [simp]:
  "im_state (in_state f im) = f (im_state im)" "im_config (in_state f im) = im_config im"
  "im_opened (in_state f im) = im_opened im" "im_intents (in_state f im) = im_intents im"
  "im_cancels (in_state f im) = im_cancels im" "im_store (in_state f im) = im_store im"
  "im_disk (in_state f im) = im_disk im" "im_explanations (in_state f im) = im_explanations im"
  "im_restart (in_state f im) = im_restart im"
  by (simp_all add: in_state_def)

lemma evolves_state: "state_steps (im_config im) (im_state im) (f (im_state im)) \<Longrightarrow> evolves im (in_state f im)"
  by (simp add: evolves_def)

lemma quiet_bump [simp]: "quiet im (in_state (bump c) im') \<longleftrightarrow> quiet im im'"
  by (simp add: quiet_def)

subsection \<open>What the shared services leave alone\<close>

lemma quiet_record_explanation [simp]: "quiet im (record_explanation e im') \<longleftrightarrow> quiet im im'"
  by (simp add: quiet_def record_explanation_def Let_def)

lemma quiet_remember [simp]: "quiet im (remember key entry im') \<longleftrightarrow> quiet im im'"
  by (simp add: quiet_def remember_def split: prod.splits)

lemma persist_quiet: "post (\<lambda>_. quiet im) (persist records im)"
  by (auto simp: persist_def quiet_def Let_def split: option.splits prod.splits)

lemma maybe_compact_quiet: "post (\<lambda>_. quiet im) (maybe_compact im)"
  by (auto simp: maybe_compact_def quiet_def Let_def split: option.splits prod.splits)

lemma rotate_quiet: "post (\<lambda>_. quiet im) (rotate_if_due im)"
  using maybe_compact_quiet [of im] by (auto simp: rotate_if_due_def split: option.splits)

lemma refusal_quiet: "post (\<lambda>_. quiet im) (refusal e code subject detail value im)"
  by (simp add: refusal_def Let_def)

lemma replay_quiet: "post (\<lambda>_. quiet im) (replay_cached entry e request im)"
  by (simp add: replay_cached_def Let_def)

lemma begin_request_quiet: "post (\<lambda>_. quiet im) (begin_request key im)"
  by (auto simp: begin_request_def quiet_def split: prod.splits)

lemmas quietD = postD [OF persist_quiet] postD [OF rotate_quiet] postD [OF begin_request_quiet]

end
