(* ===== verification/Protocol_Properties.thy ===== *)
theory Protocol_Properties
  imports Protocol Store_Durability Steps
begin

text \<open>
  The promises of the wire protocol: frames, requests and responses are read back as they were
  written, an incomplete frame is recognised as such, and a request that is not understood has no effect.
\<close>

subsection \<open>Frames\<close>

lemma wire_message_of_value [simp]: "with_value wire_message_values (value_of wire_message_values m) = Some m"
  by (cases m) (simp_all add: with_value_def value_of_def wire_message_values_def)

lemma length_wire_header [simp]: "length (wire_header f) = 24"
  by (simp add: wire_header_def)

lemma wire_header_fields:
  "read_u32 (wire_header f @ rest) = kWireMagic"
  "read_u16 (drop 4 (wire_header f) @ rest) = kProtocolVersion"
  "read_u16 (drop 6 (wire_header f) @ rest) = value_of wire_message_values (fm_kind f)"
  "read_u64 (drop 8 (wire_header f) @ rest) = fm_correlation f"
  "read_u32 (drop 16 (wire_header f) @ rest) = of_nat (length (fm_payload f))"
  "read_u32 (drop 20 (wire_header f) @ rest) = payload_crc (fm_payload f)"
  by (simp_all add: wire_header_def)

lemma encoded_frame:
  assumes "encode_frame max_payload f = Inr bs"
  shows "bs = wire_header f @ fm_payload f" "unat (of_nat (length (fm_payload f)) :: u32) = length (fm_payload f)"
    "length (fm_payload f) \<le> min max_payload kAbsoluteMaxFramePayload"
  using assms by (auto simp: encode_frame_def unat_of_nat split: if_splits)

lemma frame_decoded:
  assumes "encode_frame max_payload f = Inr bs"
  shows "decode_frame max_payload (bs @ rest) = Inr (f, length bs)"
  using encoded_frame [OF assms]
  by (simp add: decode_frame_def wire_header_fields kWireHeaderBytes_def Let_def not_less)

text \<open>C35: A frame survives the stream. What \<open>encode_frame\<close> writes is decoded as the frame, whatever bytes follow it, with the number of bytes it occupied; and every proper prefix of it is reported as truncated, never as another frame or another error.\<close>

theorem frame_roundtrip:
  assumes "encode_frame max_payload f = Inr bs"
  shows "decode_frame max_payload (bs @ rest) = Inr (f, length bs) \<and>
    (\<forall>n < length bs. decode_frame max_payload (take n bs) = Inl R_Truncated)"
proof -
  note e = encoded_frame [OF assms]
  note frame_decoded [OF assms]
  moreover have "decode_frame max_payload (take n bs) = Inl R_Truncated" if n: "n < length bs" for n
  proof (cases "n < 24")
    case True
    with n show ?thesis by (simp add: decode_frame_def kWireHeaderBytes_def)
  next
    case False
    then have t: "take n bs = wire_header f @ take (n - 24) (fm_payload f)" by (simp add: e(1))
    have "n - 24 < length (fm_payload f)" using n False by (simp add: e(1))
    then show ?thesis
      using e(3) unfolding t by (simp add: decode_frame_def e(2) wire_header_fields kWireHeaderBytes_def Let_def not_less)
  qed
  ultimately show ?thesis by blast
qed

theorem frame_roundtrip_witness:
  "\<exists>bs. length bs = 26 \<and>
    decode_frame 1024 (bs @ [9]) = Inr (\<lparr>fm_kind = WM_Request, fm_correlation = 7, fm_payload = [1, 2]\<rparr>, 26) \<and>
    decode_frame 1024 (take 25 bs) = Inl R_Truncated"
proof -
  let ?f = "\<lparr>fm_kind = WM_Request, fm_correlation = 7, fm_payload = [1, 2]\<rparr>"
  have "encode_frame 1024 ?f = Inr (wire_header ?f @ [1, 2])"
    by (simp add: encode_frame_def kAbsoluteMaxFramePayload_def)
  from frame_roundtrip [OF this, of "[9]"]
  have "decode_frame 1024 ((wire_header ?f @ [1, 2]) @ [9]) = Inr (?f, 26)"
    "decode_frame 1024 (take 25 (wire_header ?f @ [1, 2])) = Inl R_Truncated"
    by (simp_all del: append_assoc take_append)
  then show ?thesis by (intro exI [of _ "wire_header ?f @ [1, 2]"]) simp
qed

subsection \<open>Requests and responses\<close>

definition listed :: "wire_request_kind \<Rightarrow> bool" where
  "listed k \<longleftrightarrow> (\<forall>n. k \<noteq> WR_Unlisted n)"

lemma listed_value:
  "listed k \<Longrightarrow> wire_request_of (wire_request_value k) = k \<and> wire_request_value k \<noteq> 0 \<and> \<not> wire_request_value k > 50"
  by (cases k) (simp_all add: listed_def wire_request_of_def wire_request_value_def with_value_def value_of_def wire_request_values_def)

lemma bounded_encoded: "bounded max_payload f = Inr bs \<Longrightarrow> encoded f = Some bs"
  by (auto simp: bounded_def split: option.splits if_splits)

text \<open>The parts of a request in one decoder.\<close>

definition request_parts :: "(u16 \<times> u64 \<times> bytes) decoder" where
  "request_parts = dbind get_u16 (\<lambda>kind. dbind get_u64 (\<lambda>key. dbind get_blob (\<lambda>body. dreturn (kind, key, body))))"

lemma decode_request_parts:
  "request_parts (new_reader bs) = (Some (kind, key, body), r) \<Longrightarrow> at_end r \<Longrightarrow> kind \<noteq> 0 \<Longrightarrow> \<not> kind > 50 \<Longrightarrow>
   decode_request bs = Inr \<lparr>wq_kind = wire_request_of kind, wq_key = key, wq_body = body\<rparr>"
  by (auto simp: request_parts_def decode_request_def dbind_def dreturn_def split: prod.splits option.splits if_splits)

lemma carries_request: "carries m 2 (seq [put_u16 kind, put_u64 key, put_blob body]) request_parts (kind, key, body)"
  unfolding request_parts_def by (rule codec_rules | simp)+

lemma carries_response:
  "carries m 2 (seq [put_u16 (reason_value (wp_status p)), put_bool (wp_accepted p), put_bool (wp_duplicate p), put_text (wp_body p)])
    (dbind get_u16 (\<lambda>status. dbind get_bool (\<lambda>accepted. dbind get_bool (\<lambda>duplicate. dbind get_text (\<lambda>body.
      dreturn \<lparr>wp_status = Reason status, wp_accepted = accepted, wp_duplicate = duplicate, wp_body = body\<rparr>))))) p"
  by (cases p) (rule codec_rules | simp)+

lemma encoded_read:
  assumes "carries 0 k f d x" "encoded f = Some bs"
  shows "\<exists>r. d (new_reader bs) = (Some x, r) \<and> at_end r"
  using complete_decode_encoded [OF assms] by (auto simp: complete_decode_def split: prod.splits if_splits option.splits)

lemma request_decoded:
  assumes "listed (wq_kind q)" "encode_request max_payload q = Inr bs"
  shows "decode_request bs = Inr q"
  using encoded_read [OF carries_request bounded_encoded [OF assms(2) [unfolded encode_request_def]]]
    decode_request_parts listed_value [OF assms(1)] by fastforce

lemma response_decoded:
  assumes "reason_known (wp_status p)" "encode_response max_payload p = Inr cs"
  shows "decode_response cs = Inr p"
  using encoded_read [OF carries_response bounded_encoded [OF assms(2) [unfolded encode_response_def]]] assms(1)
  by (auto simp: decode_response_def)

text \<open>Requests and responses survive the wire. A request of a listed kind and a response with a known status that the encoders accept are decoded as they were.\<close>

theorem request_response_roundtrip:
  assumes "listed (wq_kind q)" "encode_request max_payload q = Inr bs"
    and "reason_known (wp_status p)" "encode_response max_payload p = Inr cs"
  shows "decode_request bs = Inr q \<and> decode_response cs = Inr p"
  using request_decoded [OF assms(1,2)] response_decoded [OF assms(3,4)] by blast

lemma within_blob: "length b \<le> 4096 \<Longrightarrow> within (4 + length b) (put_blob b)"
proof -
  assume b: "length b \<le> 4096"
  then have "put_blob b w = reserved (length (prefixed b)) (append_bytes (prefixed b)) w" if "wr_limits w = default_limits" for w
    using that by (simp add: put_blob_prefixed put_prefixed_def narrow_nat default_limits_def reserved_prefixed [of b, simplified])
  with within_reserved [of "prefixed b"] show ?thesis by (simp add: within_def)
qed

lemma within_bounded:
  assumes "within n f" "n \<le> max_payload" "n \<le> 1024"
  shows "\<exists>bs. bounded max_payload f = Inr bs"
proof -
  have "\<not> wr_failed (f new_writer) \<and> length (wr_buffer (f new_writer)) \<le> n"
    using assms unfolding within_def by (drule_tac x = new_writer in spec) (simp add: new_writer_def)
  with assms show ?thesis by (auto simp: bounded_def encoded_def Let_def kAbsoluteMaxFramePayload_def min_def)
qed

theorem request_response_roundtrip_witness:
  "\<exists>bs cs. decode_request bs = Inr \<lparr>wq_kind = WR_CancelRequest, wq_key = 3, wq_body = [7, 8]\<rparr> \<and>
    decode_response cs = Inr \<lparr>wp_status = R_Cancelled, wp_accepted = False, wp_duplicate = True, wp_body = ''x''\<rparr>"
proof -
  let ?q = "\<lparr>wq_kind = WR_CancelRequest, wq_key = 3, wq_body = [7, 8]\<rparr>"
    and ?p = "\<lparr>wp_status = R_Cancelled, wp_accepted = False, wp_duplicate = True, wp_body = ''x''\<rparr>"
  have "within 1024 (seq [put_u16 v, put_u64 3, put_blob [7, 8]])" for v
    by (rule within_le, (rule within_rules within_blob | simp)+)
  then obtain bs where bs: "encode_request 1024 ?q = Inr bs"
    unfolding encode_request_def using within_bounded [of 1024 _ 1024] by fastforce
  have "within 1024 (seq [put_u16 v, put_bool False, put_bool True, put_text ''x''])" for v
    by (rule within_le, (rule within_rules | simp)+)
  then obtain cs where cs: "encode_response 1024 ?p = Inr cs"
    unfolding encode_response_def using within_bounded [of 1024 _ 1024] by fastforce
  have "listed (wq_kind ?q)" "reason_known (wp_status ?p)" by (simp add: listed_def, code_simp)
  with request_response_roundtrip [OF _ bs _ cs] show ?thesis by blast
qed

subsection \<open>Requests that are not understood\<close>

text \<open>Without a response nothing has happened.\<close>

definition harmless_silence :: "impl \<Rightarrow> reason \<times> wire_response option \<Rightarrow> impl \<Rightarrow> bool" where
  "harmless_silence im x im' \<longleftrightarrow> (snd x = None \<longrightarrow> im' = im)"

lemma silence_rules:
  "(\<And>x im. post (harmless_silence im) (run x im)) \<Longrightarrow> post (harmless_silence im) (with_body d body run im)"
  "(\<And>im. post (harmless_silence im) (run' im)) \<Longrightarrow> post (harmless_silence im) (without_body body run' im)"
  "post (harmless_silence im) (answered text im)"
  "post (harmless_silence im) (by_reason operation im)"
  "post (harmless_silence im) (by_decision decision im)"
  "(\<And>x. post (harmless_silence im) (run'' x im)) \<Longrightarrow> post (harmless_silence im) (checked_enum table v run'' im)"
  by (auto simp: with_body_def without_body_def answered_def by_reason_def by_decision_def checked_enum_def
      harmless_silence_def post_def split: prod.splits option.splits)

lemma silent_execution: "post (harmless_silence im) (execute_request q im)"
proof -
  have "post (harmless_silence im) (pull_intent im)" for im
    by (auto simp: pull_intent_def answered_def harmless_silence_def post_def split: prod.splits option.splits)
  moreover have "post (harmless_silence im) (execute_ingest k body im)" for k body
    by (cases k)
      (auto simp: execute_ingest_def harmless_silence_def intro!: silence_rules split: prod.splits)
  ultimately show ?thesis
    unfolding execute_request_def Let_def
    by (cases "wq_kind q")
      (auto simp: execute_placement_def execute_failover_def execute_resolution_def execute_failback_def
        execute_acknowledgement_def execute_verify_def Let_def harmless_silence_def intro!: silence_rules split: prod.splits)
qed

text \<open>C36: A request that is not understood has no effect. When the executor gives no response, because the body does not decode, has bytes left, holds a value outside its enumeration, or the kind is unknown, the runtime is as it was.\<close>

theorem malformed_request_changes_nothing:
  assumes "execute_request q im = ((code, None), im')"
  shows "im' = im"
  using silent_execution [of im q] assms by (simp add: harmless_silence_def)

theorem malformed_request_changes_nothing_witness:
  "\<exists>code im'. execute_request \<lparr>wq_kind = WR_PullIntent, wq_key = 0, wq_body = [1]\<rparr> (new_impl default_fabric_config
      \<lparr>dk_files = omap_empty, dk_script = []\<rparr>) = ((code, None), im') \<and>
    im' = new_impl default_fabric_config \<lparr>dk_files = omap_empty, dk_script = []\<rparr>"
proof -
  let ?im = "new_impl default_fabric_config \<lparr>dk_files = omap_empty, dk_script = []\<rparr>"
  obtain im' where x: "execute_request \<lparr>wq_kind = WR_PullIntent, wq_key = 0, wq_body = [1]\<rparr> ?im = ((R_Malformed, None), im')"
    by (simp add: execute_request_def without_body_def at_end_def new_reader_def Let_def kAbsoluteMaxTotalBytes_def)
  from malformed_request_changes_nothing [OF this] x show ?thesis by blast
qed

end
