(* ===== verification/Channel_Properties.thy ===== *)
theory Channel_Properties
  imports Channel Protocol_Properties
begin

text \<open>
  The promises of the frame channel: however the stream is cut into segments, the reader yields the
  frames that were written, in order, and a writer whose sends are partial writes every byte once.
\<close>

subsection \<open>Writing\<close>

lemma send_loop_sent:
  "send_loop data sk = (ok, sk') \<Longrightarrow> \<exists>n. sk_sent sk' = sk_sent sk @ take n data \<and> (if ok then length data \<le> n else n < length data)"
proof (induction data sk arbitrary: ok sk' rule: send_loop.induct)
  case (1 data sk)
  obtain w sk1 where n: "next_send (min (length data) 0x100000) sk = (w, sk1)" by (cases "next_send (min (length data) 0x100000) sk")
  have sent: "sk_sent sk1 = sk_sent sk"
    using n by (auto simp: next_send_def split: list.splits send_outcome.splits if_splits)
  show ?case
  proof (cases "data = [] \<or> w = None")
    case True
    have "sk_sent sk' = sk_sent sk @ take 0 data" "if ok then length data \<le> 0 else 0 < length data"
      using True 1(2) n sent unfolding send_loop.simps [of data sk] by (auto split: if_split_asm)
    then show ?thesis by blast
  next
    case False
    then obtain k where k: "w = Some k" "data \<noteq> []" by auto
    with 1(2) n have "send_loop (drop k data) (sk1\<lparr>sk_sent := sk_sent sk1 @ take k data\<rparr>) = (ok, sk')"
      by (simp add: send_loop.simps [of data sk])
    from 1(1) [OF k(2) n [symmetric] k(1) this]
    obtain m where m: "sk_sent sk' = (sk_sent sk @ take k data) @ take m (drop k data)" "if ok then length (drop k data) \<le> m else m < length (drop k data)"
      by (auto simp: sent)
    then have "sk_sent sk' = sk_sent sk @ take (k + m) data" by (simp add: take_add)
    with m(2) show ?thesis by (intro exI [of _ "k + m"]) auto
  qed
qed

lemma next_send_valid: "next_send k sk = (w, sk') \<Longrightarrow> sk_valid sk' = sk_valid sk"
  by (auto simp: next_send_def split: list.splits send_outcome.splits if_splits)

lemma send_loop_valid: "send_loop data sk = (ok, sk') \<Longrightarrow> sk_valid sk' = sk_valid sk"
proof (induction data sk arbitrary: ok sk' rule: send_loop.induct)
  case (1 data sk)
  obtain w sk1 where n: "next_send (min (length data) 0x100000) sk = (w, sk1)" by (cases "next_send (min (length data) 0x100000) sk")
  note v = next_send_valid [OF n]
  show ?case
  proof (cases w)
    case None
    with 1(2) n v show ?thesis unfolding send_loop.simps [of data sk] by (simp split: if_split_asm)
  next
    case (Some k)
    have "sk_valid sk' = sk_valid sk1" if "data \<noteq> []"
      using 1(1) [OF that n [symmetric] Some, of ok sk'] 1(2) n Some that by (simp add: send_loop.simps [of data sk])
    with 1(2) v show ?thesis by (cases "data = []") (simp_all add: send_loop.simps)
  qed
qed

lemma send_frame_sent:
  assumes "send_frame f ch = (ok, ch')" "sk_valid (ch_socket ch)"
  shows "sk_valid (ch_socket ch') \<and> ch_max_payload ch' = ch_max_payload ch \<and>
    (\<exists>g bs n. encode_frame (ch_max_payload ch) g = Inr bs \<and> sk_sent (ch_socket ch') = sk_sent (ch_socket ch) @ take n bs \<and>
      (if ok then g = f \<and> length bs \<le> n else n < length bs))"
proof (cases "encode_frame (ch_max_payload ch) f")
  case (Inl code)
  let ?g = "\<lparr>fm_kind = WM_Cancel, fm_correlation = 0, fm_payload = []\<rparr>"
  have "encode_frame (ch_max_payload ch) ?g = Inr (wire_header ?g)" by (simp add: encode_frame_def)
  moreover have "0 < length (wire_header ?g)" by simp
  moreover have "ch' = ch \<and> \<not> ok" using assms(1) Inl by (simp add: send_frame_def)
  ultimately show ?thesis using assms(2) by (metis append.right_neutral take0 take_0)
next
  case (Inr bs)
  then obtain sk' where s: "send_loop bs (ch_socket ch) = (ok, sk')" "ch' = ch\<lparr>ch_socket := sk'\<rparr>"
    using assms by (auto simp: send_frame_def send_all_def split: prod.splits)
  obtain n where "sk_sent sk' = sk_sent (ch_socket ch) @ take n bs" "if ok then length bs \<le> n else n < length bs"
    using send_loop_sent [OF s(1)] by blast
  with Inr s(2) have "encode_frame (ch_max_payload ch) f = Inr bs \<and> sk_sent (ch_socket ch') = sk_sent (ch_socket ch) @ take n bs \<and>
      (if ok then f = f \<and> length bs \<le> n else n < length bs)"
    by simp
  moreover have "sk_valid (ch_socket ch') \<and> ch_max_payload ch' = ch_max_payload ch"
    using send_loop_valid [OF s(1)] s(2) assms(2) by simp
  ultimately show ?thesis by blast
qed

text \<open>A writer sends its frames until a send fails; the frames that were sent.\<close>

fun send_frames :: "frame list \<Rightarrow> channel \<Rightarrow> frame list \<times> channel" where
  "send_frames [] ch = ([], ch)"
| "send_frames (f # fs) ch =
    (case send_frame f ch of
       (False, ch') \<Rightarrow> ([], ch')
     | (True, ch') \<Rightarrow> (case send_frames fs ch' of (sent, ch'') \<Rightarrow> (f # sent, ch'')))"

lemma send_frames_sent:
  assumes "send_frames fs ch = (sent, ch')" "sk_valid (ch_socket ch)"
  shows "\<exists>encodings g bs n. list_all2 (\<lambda>f bs. encode_frame (ch_max_payload ch) f = Inr bs) sent encodings \<and>
    encode_frame (ch_max_payload ch) g = Inr bs \<and> n < length bs \<and>
    sk_sent (ch_socket ch') = sk_sent (ch_socket ch) @ concat encodings @ take n bs"
  using assms
proof (induction fs arbitrary: ch sent)
  case Nil
  let ?g = "\<lparr>fm_kind = WM_Cancel, fm_correlation = 0, fm_payload = []\<rparr>"
  have "encode_frame (ch_max_payload ch) ?g = Inr (wire_header ?g)" by (simp add: encode_frame_def)
  moreover have "0 < length (wire_header ?g)" by simp
  moreover have "sent = [] \<and> ch' = ch" using Nil by simp
  ultimately show ?case by (metis (no_types, lifting) append.right_neutral concat.simps(1) list_all2_Nil take0 take_0)
next
  case (Cons f fs)
  obtain ok ch1 where f: "send_frame f ch = (ok, ch1)" by (cases "send_frame f ch")
  obtain g bs n where g: "sk_valid (ch_socket ch1)" "ch_max_payload ch1 = ch_max_payload ch" "encode_frame (ch_max_payload ch) g = Inr bs"
      "sk_sent (ch_socket ch1) = sk_sent (ch_socket ch) @ take n bs" "if ok then g = f \<and> length bs \<le> n else n < length bs"
    using send_frame_sent [OF f Cons.prems(2)] by blast
  show ?case
  proof (cases ok)
    case False
    with Cons.prems f g have "sent = []" "ch' = ch1" "n < length bs" by simp_all
    with g(3,4) show ?thesis by (intro exI [of _ "[]"] exI [of _ g] exI [of _ bs] exI [of _ n]) simp
  next
    case True
    then obtain sent' where r: "send_frames fs ch1 = (sent', ch')" "sent = f # sent'"
      using Cons.prems(1) f by (auto split: prod.splits)
    obtain encodings h cs m where "list_all2 (\<lambda>f bs. encode_frame (ch_max_payload ch) f = Inr bs) sent' encodings"
        "encode_frame (ch_max_payload ch) h = Inr cs" "m < length cs"
        "sk_sent (ch_socket ch') = sk_sent (ch_socket ch1) @ concat encodings @ take m cs"
      using Cons.IH [OF r(1) g(1)] g(2) by auto
    with True g r(2) show ?thesis by (intro exI [of _ "bs # encodings"] exI [of _ h] exI [of _ cs] exI [of _ m]) simp
  qed
qed

subsection \<open>Reading\<close>

lemma recv_loop_enough:
  assumes "n \<le> length (concat segs)" "[] \<notin> set segs"
  shows "\<exists>rest. recv_loop n segs = (True, take n (concat segs), rest) \<and> [] \<notin> set rest"
  using assms
proof (induction n segs rule: recv_loop.induct)
  case (2 n segment segments)
  show ?case
  proof (cases "n = 0 \<or> n < length segment")
    case True
    with 2(3) show ?thesis by auto
  next
    case False
    then have n: "n \<noteq> 0" "\<not> n < length segment" "segment \<noteq> []" "length segment \<le> n" using 2(3) by auto
    moreover have "n - length segment \<le> length (concat segments)" "[] \<notin> set segments" using 2(2,3) n by auto
    ultimately obtain rest where "recv_loop (n - length segment) segments = (True, take (n - length segment) (concat segments), rest)"
      "[] \<notin> set rest" using 2(1) by blast
    with n show ?thesis by auto
  qed
qed auto

text \<open>A channel over a healthy stream.\<close>

definition flowing :: "channel \<Rightarrow> bool" where
  "flowing ch \<longleftrightarrow> sk_valid (ch_socket ch) \<and> [] \<notin> set (sk_arriving (ch_socket ch))"

lemma fill_enough:
  assumes "flowing ch" "needed \<le> length (pending ch)" "needed \<le> ch_max_payload ch + kWireHeaderBytes"
  shows "\<exists>ch'. fill needed ch = (True, ch') \<and> flowing ch'"
proof (cases "fill needed ch")
  case (Pair ok ch')
  have arriving: "needed - length (buffered ch) \<le> length (concat (sk_arriving (ch_socket ch)))"
    using assms(2) by (simp add: pending_def)
  from Pair show ?thesis
  proof (cases rule: fill_cases)
    case oversized
    with assms show ?thesis by simp
  next
    case (short bs sk)
    from recv_loop_enough [OF arriving] assms(1) short(2) show ?thesis
      by (auto simp: recv_exact_def flowing_def)
  next
    case (filled bs sk)
    from recv_loop_enough [OF arriving] assms(1) filled(2) have "sk_valid sk" "[] \<notin> set (sk_arriving sk)"
      by (auto simp: recv_exact_def flowing_def)
    with Pair filled show ?thesis by (simp add: flowing_def)
  qed (use assms Pair in auto)
qed

lemma header_buffered:
  assumes "pending ch = wire_header f @ rest" "kWireHeaderBytes \<le> length (buffered ch)"
  shows "\<exists>tail. buffered ch = wire_header f @ tail"
proof -
  have "take 24 (buffered ch) = wire_header f"
    using assms(2) arg_cong [OF assms(1), of "take 24"] by (simp add: pending_def kWireHeaderBytes_def)
  then show ?thesis by (metis append_take_drop_id)
qed

lemma buffered_advance: "buffered (ch\<lparr>ch_begin := ch_begin ch + k\<rparr>) = drop k (buffered ch)"
  by (simp add: buffered_def add.commute)

lemma recv_frame_next:
  assumes "flowing ch" "encode_frame (ch_max_payload ch) f = Inr bs" "pending ch = bs @ rest"
  shows "\<exists>ch'. recv_frame ch = (Inr f, ch') \<and> flowing ch' \<and> pending ch' = rest \<and> ch_max_payload ch' = ch_max_payload ch"
proof -
  note e = encoded_frame [OF assms(2)]
  have l: "length bs = 24 + length (fm_payload f)" by (simp add: e(1))
  obtain ch1 where 1: "fill kWireHeaderBytes ch = (True, ch1)" "flowing ch1"
    using fill_enough [OF assms(1), of kWireHeaderBytes] l assms(3) by (auto simp: kWireHeaderBytes_def)
  note p1 = fill_pending [OF 1(1)]
  obtain tail where t: "buffered ch1 = wire_header f @ tail"
    using header_buffered [of ch1 f] p1 assms(3) by (auto simp: e(1))
  obtain ch2 where 2: "fill (kWireHeaderBytes + length (fm_payload f)) ch1 = (True, ch2)" "flowing ch2"
    using fill_enough [OF 1(2), of "kWireHeaderBytes + length (fm_payload f)"] l p1 assms(3) e(3) by (auto simp: kWireHeaderBytes_def)
  note p2 = fill_pending [OF 2(1)]
  have pb: "pending ch2 = bs @ rest" "length bs \<le> length (buffered ch2)" using p1 p2 assms(3) l by (simp_all add: kWireHeaderBytes_def)
  define tail2 where "tail2 = drop (length bs) (buffered ch2)"
  have "take (length bs) (buffered ch2) = bs" "tail2 @ concat (sk_arriving (ch_socket ch2)) = rest"
    using arg_cong [OF pb(1), of "take (length bs)"] arg_cong [OF pb(1), of "drop (length bs)"] pb(2)
    by (simp_all add: pending_def tail2_def)
  then have t2: "buffered ch2 = bs @ tail2" "tail2 @ concat (sk_arriving (ch_socket ch2)) = rest"
    unfolding tail2_def by (metis append_take_drop_id, blast)
  have "decode_frame (ch_max_payload ch2) (buffered ch2) = Inr (f, length bs)"
    using frame_decoded [OF assms(2), of tail2] p1 p2 by (simp add: t2)
  then have "recv_frame ch = (Inr f, ch2\<lparr>ch_begin := ch_begin ch2 + length bs\<rparr>)"
    using e(3) p1 by (simp add: recv_frame_def 1 t wire_header_fields e(2) 2 Let_def not_less)
  moreover have "pending (ch2\<lparr>ch_begin := ch_begin ch2 + length bs\<rparr>) = rest"
    using t2 by (simp add: pending_def buffered_advance del: buffered_simps)
  ultimately show ?thesis using 2(2) p1 p2 by (simp add: flowing_def)
qed

lemma fill_short:
  assumes "length (pending ch) < needed"
  shows "\<exists>ch'. fill needed ch = (False, ch')"
proof (cases "fill needed ch")
  case (Pair ok ch')
  with fill_pending [OF Pair] assms show ?thesis by (cases ok) (auto simp: pending_def)
qed

text \<open>An incomplete frame is the end of the stream, whether its header has arrived or not.\<close>

lemma recv_frame_cut:
  assumes "flowing ch" "encode_frame (ch_max_payload ch) f = Inr bs" "n < length bs" "pending ch = take n bs"
  shows "\<exists>ch'. recv_frame ch = (Inl R_TransportClosed, ch')"
proof (cases "n < 24")
  case True
  with fill_short [of ch kWireHeaderBytes] assms(3,4) show ?thesis by (auto simp: recv_frame_def kWireHeaderBytes_def)
next
  case False
  note e = encoded_frame [OF assms(2)]
  have p: "pending ch = wire_header f @ take (n - 24) (fm_payload f)" using False assms(4) by (simp add: e(1))
  obtain ch1 where 1: "fill kWireHeaderBytes ch = (True, ch1)" "flowing ch1"
    using fill_enough [OF assms(1), of kWireHeaderBytes] by (auto simp: p kWireHeaderBytes_def)
  note p1 = fill_pending [OF 1(1)]
  obtain tail where t: "buffered ch1 = wire_header f @ tail"
    using header_buffered [of ch1 f] p1 p by auto
  have "length (pending ch1) < kWireHeaderBytes + length (fm_payload f)"
    using p1 p assms(3) False by (simp add: e(1) kWireHeaderBytes_def)
  from fill_short [OF this] show ?thesis
    using e(3) p1 by (auto simp: recv_frame_def 1 t wire_header_fields e(2) Let_def not_less)
qed

text \<open>The frames of a connection up to the first failure, as the loops of the daemon read them.\<close>

function recv_frames :: "channel \<Rightarrow> frame list \<times> reason" where
  "recv_frames ch =
    (case recv_frame ch of
       (Inl code, _) \<Rightarrow> ([], code)
     | (Inr f, ch') \<Rightarrow> (case recv_frames ch' of (fs, code) \<Rightarrow> (f # fs, code)))"
  by pat_completeness auto

termination
  by (relation "measure (length \<circ> pending)") (simp_all add: recv_frame_pending [OF sym])

declare recv_frames.simps [simp del]

lemma stream_frames:
  assumes "list_all2 (\<lambda>f bs. encode_frame (ch_max_payload ch) f = Inr bs) fs encodings"
    and "encode_frame (ch_max_payload ch) unfinished = Inr partial" "n < length partial"
    and "pending ch = concat encodings @ take n partial" "flowing ch"
  shows "recv_frames ch = (fs, R_TransportClosed)"
proof -
  have "recv_frames ch' = (fs, R_TransportClosed)"
    if "flowing ch'" "ch_max_payload ch' = ch_max_payload ch" "pending ch' = concat encodings @ take n partial" for ch'
    using assms(1) that
  proof (induction arbitrary: ch' rule: list_all2_induct)
    case Nil
    then show ?case using recv_frame_cut [of ch' unfinished partial n] assms(2,3) by (auto simp: recv_frames.simps [of ch'])
  next
    case (Cons f fs bs encodings)
    then obtain ch'' where "recv_frame ch' = (Inr f, ch'')" "flowing ch''" "ch_max_payload ch'' = ch_max_payload ch"
      "pending ch'' = concat encodings @ take n partial"
      using recv_frame_next [of ch' f bs "concat encodings @ take n partial"] by auto
    with Cons.IH [of ch''] show ?case by (simp add: recv_frames.simps [of ch'])
  qed
  with assms(4,5) show ?thesis by simp
qed

text \<open>C34: Frames cross a connection in order, each at most once. However the writes of the sender are cut short or fail, and in whatever non-empty pieces the bytes that were sent arrive, the receiver yields exactly the frames whose sending succeeded and then reports that the connection is closed; a frame that was cut off is never taken for another one.\<close>

theorem stream_delivers_frames:
  assumes "send_frames fs (new_channel \<lparr>sk_valid = True, sk_arriving = replies, sk_sends = script, sk_sent = []\<rparr> max_payload) = (sent, ch)"
    and "concat segments = sk_sent (ch_socket ch)" "[] \<notin> set segments"
  shows "recv_frames (new_channel \<lparr>sk_valid = True, sk_arriving = segments, sk_sends = script', sk_sent = []\<rparr> max_payload) =
    (sent, R_TransportClosed)"
proof -
  obtain encodings g bs n where "list_all2 (\<lambda>f bs. encode_frame max_payload f = Inr bs) sent encodings"
      "encode_frame max_payload g = Inr bs" "n < length bs" "concat segments = concat encodings @ take n bs"
    using send_frames_sent [OF assms(1)] assms(2) by (auto simp: new_channel_def)
  with assms(3) show ?thesis
    by (intro stream_frames) (auto simp: new_channel_def flowing_def pending_def buffered_def)
qed

theorem stream_delivers_frames_witness:
  "\<exists>bs. recv_frames (new_channel \<lparr>sk_valid = True, sk_arriving = [take 5 bs, drop 5 bs], sk_sends = [], sk_sent = []\<rparr> 1024) =
    ([\<lparr>fm_kind = WM_Request, fm_correlation = 7, fm_payload = [1, 2]\<rparr>], R_TransportClosed) \<and> length bs = 29"
proof -
  let ?f = "\<lparr>fm_kind = WM_Request, fm_correlation = 7, fm_payload = [1, 2]\<rparr>"
  let ?bs = "wire_header ?f @ [1, 2] @ take 3 (wire_header ?f)"
  have "encode_frame 1024 ?f = Inr (wire_header ?f @ [1, 2])"
    by (simp add: encode_frame_def kAbsoluteMaxFramePayload_def)
  then have sent: "send_frames [?f, ?f] (new_channel \<lparr>sk_valid = True, sk_arriving = [], sk_sends = [Sent 25, Sent 9, Sent 3, Send_Error], sk_sent = []\<rparr> 1024) =
    ([?f], \<lparr>ch_socket = \<lparr>sk_valid = True, sk_arriving = [], sk_sends = [], sk_sent = ?bs\<rparr>, ch_max_payload = 1024, ch_buffer = [], ch_begin = 0\<rparr>)"
    by (simp add: send_frame_def new_channel_def send_all_def next_send_def send_loop.simps)
  have cut: "[] \<notin> set [take 5 ?bs, drop 5 ?bs]" using length_wire_header [of ?f] by (auto simp del: length_wire_header)
  have all: "concat [take 5 ?bs, drop 5 ?bs] = ?bs" by (simp only: concat.simps append_Nil2 append_take_drop_id)
  have "recv_frames (new_channel \<lparr>sk_valid = True, sk_arriving = [take 5 ?bs, drop 5 ?bs], sk_sends = [], sk_sent = []\<rparr> 1024) = ([?f], R_TransportClosed)"
    by (rule stream_delivers_frames [OF sent _ cut]) (simp only: all channel.simps socket.simps)
  moreover have "length ?bs = 29" by simp
  ultimately show ?thesis by blast
qed

end
