(* ===== verification/Evolution.thy ===== *)
theory Evolution
  imports Steps
begin

text \<open>
  Every operation of the runtime refines the transitions of Steps: the handlers one by one, then
  the public operations, then any sequence of them.
\<close>

subsection \<open>Sequences of transitions\<close>

lemma steps_one: "state_step config s t \<Longrightarrow> state_steps config s t"
  by (rule r_into_rtranclp)

lemma steps_then: "state_steps config s t \<Longrightarrow> state_step config t u \<Longrightarrow> state_steps config s u"
  by (rule rtranclp.rtrancl_into_rtrancl)

lemma steps_trans: "state_steps config s t \<Longrightarrow> state_steps config t u \<Longrightarrow> state_steps config s u"
  by (rule rtranclp_trans)

lemma steps_core: "state_steps config s t \<Longrightarrow> core u = core t \<Longrightarrow> state_steps config s u"
  by (erule steps_then) (rule Bookkeeping)

lemma steps_ticked:
  "tick_successor (st_tick s) = Some stamp \<Longrightarrow> state_steps config (s\<lparr>st_tick := stamp\<rparr>) t \<Longrightarrow> state_steps config s t"
  by (rule converse_rtranclp_into_rtranclp) (simp_all add: Ticked)

lemma steps_ticked_one:
  "tick_successor (st_tick s) = Some stamp \<Longrightarrow> state_step config (s\<lparr>st_tick := stamp\<rparr>) t \<Longrightarrow> core u = core t \<Longrightarrow>
   state_steps config s u"
  by (rule steps_ticked) (auto intro: steps_core steps_one)

lemma change_service_steps:
  "(\<And>sv. omap_find (st_services s) name = Some sv \<Longrightarrow> runtime_step config sv (f sv)) \<Longrightarrow>
   state_steps config s (change_service name f s)"
  by (auto simp: change_service_def split: option.splits intro: steps_one Service_Changed)

subsection \<open>Ingestion\<close>

lemma answer_post [simp]: "post Q (answer code subject detail value e im) \<longleftrightarrow> Q (code, note_step code subject detail value e) im"
  by (simp add: answer_def)

lemma counted_answer_post [simp]: "post (\<lambda>_. quiet im0) (counted_answer c code subject detail value e im) \<longleftrightarrow> quiet im0 im"
  by (simp add: counted_answer_def)

lemma counted_answer_evolves [simp]: "post (\<lambda>_. evolves im) (counted_answer c code subject detail value e im)"
  by (simp add: counted_answer_def quiet_evolves)

lemma object_quiet: "post (\<lambda>_. quiet im) (object ob e im)"
  by (auto simp: object_def split: prod.splits option.splits)

lemma object_evolves [simp]: "post (\<lambda>_. evolves im) (object ob e im)"
  using object_quiet by (rule post_mono) (rule quiet_evolves)

lemma closing_same: "snd (closing subject ns e im) = im"
    by (induction subject ns e im rule: closing.induct) (simp_all add: answer_def)

lemma durably_evolves:
  assumes "\<And>s. core s = core (im_state im) \<Longrightarrow> state_steps (im_config im) s (change s)"
  shows "post (\<lambda>_. evolves im) (durably r subject change notes e im)"
proof -
  obtain code im1 where p: "persist [r] im = (code, im1)" by fastforce
  have q1: "quiet im im1" using p by (rule quietD)
  obtain c im2 where rot: "rotate_if_due (in_state change im1) = (c, im2)" by fastforce
  have "state_steps (im_config im1) (im_state im1) (change (im_state im1))"
    using assms q1 by (simp add: quiet_def)
  then have "evolves im1 (in_state change im1)" by (rule evolves_state)
  with q1 have e: "evolves im (in_state change im1)" by (rule quiet_then)
  have "quiet (in_state change im1) im2" using rot by (rule quietD)
  with e have "evolves im im2" by (rule evolves_quiet)
  with q1 show ?thesis
    by (auto simp: durably_def p rot answer_def post_def closing_same quiet_evolves)
qed

text \<open>The changes that the handlers make durable.\<close>

lemma enrolled_steps:
  assumes "tick_successor (st_tick s) = Some stamp" "omap_find (st_sources s) source = None"
    and "omap_size (st_sources s) < cf_max_sources config"
  shows "state_steps config s (bump k (s\<lparr>st_tick := stamp, st_sources := omap_put source role (st_sources s)\<rparr>))"
  using assms(1) Source_Enrolled [of "s\<lparr>st_tick := stamp\<rparr>" source config role]
  by (rule steps_ticked_one) (simp_all add: assms)

lemma registered_steps:
  assumes "tick_successor (st_tick s) = Some stamp" "omap_find (st_services s) (sd_name d) = None"
    and "omap_size (st_services s) < cf_max_services config" "validate_descriptor config d = R_Ok"
  shows "state_steps config s
    (bump k (s\<lparr>st_tick := stamp, st_services := omap_put (sd_name d) (new_runtime d stamp) (st_services s)\<rparr>))"
  using assms(1) Service_Added [of "s\<lparr>st_tick := stamp\<rparr>" d config stamp]
  by (rule steps_ticked_one) (simp_all add: assms)

lemma upserted_steps:
  assumes "tick_successor (st_tick s) = Some stamp" "tr_topology_generation t = st_topology_generation s"
    and "case omap_find (st_targets s) (tr_name t) of None \<Rightarrow> omap_size (st_targets s) < cf_max_targets config
         | Some old \<Rightarrow> tr_incarnation old < tr_incarnation t"
  shows "state_steps config s (bump k (s\<lparr>st_tick := stamp, st_targets := omap_put (tr_name t) t (st_targets s)\<rparr>))"
  using assms(1) Target_Added [of t "s\<lparr>st_tick := stamp\<rparr>" config]
  by (rule steps_ticked_one) (use assms(2,3) in \<open>simp_all split: option.splits\<close>)

lemma topology_steps:
  assumes "tick_successor (st_tick s) = Some stamp" "st_topology_generation s < g"
  shows "state_steps config s (s\<lparr>st_tick := stamp, st_topology_generation := g\<rparr>)"
  using assms(1) Topology_Advanced [of "s\<lparr>st_tick := stamp\<rparr>" g config]
  by (rule steps_ticked_one) (simp_all add: assms)

lemma policy_steps:
  assumes "tick_successor (st_tick s) = Some stamp" "valid_policy p" "st_policy_generation s < pd_generation p"
  shows "state_steps config s (s\<lparr>st_tick := stamp, st_policy := p, st_policy_generation := pd_generation p\<rparr>)"
  using assms(1) Policy_Advanced [of p "s\<lparr>st_tick := stamp\<rparr>" config]
  by (rule steps_ticked_one) (simp_all add: assms)

lemma retired_steps:
  assumes "tick_successor (st_tick s) = Some stamp"
  shows "state_steps config s
    (s\<lparr>st_tick := stamp, st_targets := omap_erase t (st_targets s), st_capabilities := omap_erase t (st_capabilities s)\<rparr>)"
  using assms(1) Target_Removed [of config "s\<lparr>st_tick := stamp\<rparr>" t]
  by (rule steps_ticked_one) simp_all

lemma changed_steps:
  assumes "tick_successor (st_tick s) = Some stamp"
    and "\<And>sv. omap_find (st_services s) name = Some sv \<Longrightarrow> runtime_step config sv (f sv)"
  shows "state_steps config s (bump k (change_service name f (s\<lparr>st_tick := stamp\<rparr>)))"
  using assms(1) change_service_steps [of "s\<lparr>st_tick := stamp\<rparr>" name config f]
  by (rule steps_ticked [OF _ steps_core]) (simp_all add: assms)

lemma capability_steps:
  assumes "tick_successor (st_tick s) = Some stamp"
    and "omap_find (st_targets s) (ce_target ev) = Some t" "ce_incarnation ev = tr_incarnation t"
    and "ce_topology_generation ev = st_topology_generation s"
    and "case omap_find (st_capabilities s) (ce_target ev) of None \<Rightarrow> True
         | Some slot \<Rightarrow> ce_incarnation (cp_evidence slot) = ce_incarnation ev \<longrightarrow>
             ce_generation (cp_evidence slot) < ce_generation ev"
  shows "state_steps config s (bump k (s\<lparr>st_tick := stamp, st_capabilities :=
    omap_put (ce_target ev) \<lparr>cp_evidence = ev, cp_requires_reconfirmation = False\<rparr> (st_capabilities s)\<rparr>))"
  using assms(1) Capability_Recorded [of "s\<lparr>st_tick := stamp\<rparr>" ev t config]
  by (rule steps_ticked_one) (use assms(2-) in \<open>simp_all split: option.splits\<close>)

subsection \<open>The ingest handlers\<close>

lemma first_objectionD:
  "first_objection gs = None \<Longrightarrow> (fires, ob) \<in> set gs \<Longrightarrow> \<not> fires"
  by (induction gs rule: first_objection.induct) (auto split: if_splits)

lemma first_objection_append:
  "first_objection (gs @ hs) = None \<longleftrightarrow> first_objection gs = None \<and> first_objection hs = None"
  by (induction gs rule: first_objection.induct) auto

lemma do_enroll_source_evolves: "post (\<lambda>_. evolves im) (do_enroll_source source role e im)"
  unfolding do_enroll_source_def
  by (intro post_rules durably_evolves enrolled_steps; simp add: core_eq_iff peek_tick_def role_of_def)

lemma do_register_service_evolves: "post (\<lambda>_. evolves im) (do_register_service d registrar e im)"
  unfolding do_register_service_def
  apply (intro post_rules durably_evolves; (simp; fail)?)
  subgoal for name valid stamp s
    using registered_steps [of s stamp d "im_config im" sa_services_registered_update]
    by (simp add: core_eq_iff peek_tick_def service_of_def)
  done

lemma existing_target_refusal_None:
  "existing_target_refusal t old = None \<Longrightarrow> tr_incarnation old < tr_incarnation t"
  by (auto simp: existing_target_refusal_def split: if_splits)

lemma do_register_target_evolves: "post (\<lambda>_. evolves im) (do_register_target t registrar e im)"
  unfolding do_register_target_def
  apply (intro post_rules durably_evolves; (simp; fail)?)
  subgoal for name existing stamp stamped s
    using upserted_steps [of s stamp stamped "im_config im" sa_targets_registered_update]
    by (auto simp: core_eq_iff peek_tick_def target_of_def split: option.splits if_splits dest: existing_target_refusal_None)
  done

lemma do_set_topology_generation_evolves: "post (\<lambda>_. evolves im) (do_set_topology_generation g reporter e im)"
  unfolding do_set_topology_generation_def
  by (intro post_rules durably_evolves topology_steps; simp add: core_eq_iff peek_tick_def)

lemma do_set_policy_evolves: "post (\<lambda>_. evolves im) (do_set_policy policy e im)"
  unfolding do_set_policy_def
  by (intro post_rules durably_evolves policy_steps; simp add: core_eq_iff peek_tick_def)

lemma do_withdraw_service_evolves: "post (\<lambda>_. evolves im) (do_withdraw_service service requester e im)"
  unfolding do_withdraw_service_def
  by (intro post_rules durably_evolves changed_steps; simp add: core_eq_iff peek_tick_def Withdrawn)

lemma do_retire_target_evolves: "post (\<lambda>_. evolves im) (do_retire_target t requester e im)"
  unfolding do_retire_target_def
  by (intro post_rules durably_evolves retired_steps; simp add: core_eq_iff peek_tick_def)

lemma capability_accepted:
  assumes "first_objection (retained_capability_objections ev existing) = None"
  shows "case existing of None \<Rightarrow> True
    | Some slot \<Rightarrow> ce_incarnation (cp_evidence slot) = ce_incarnation ev \<longrightarrow>
        ce_generation (cp_evidence slot) < ce_generation ev"
  using assms by (auto simp: retained_capability_objections_def Let_def split: option.splits if_splits)

lemma do_ingest_capability_evolves: "post (\<lambda>_. evolves im) (do_ingest_capability ev e im)"
  unfolding do_ingest_capability_def
  apply (intro post_rules durably_evolves; (simp; fail)?)
  subgoal for subject target computed stamp rec s
    using capability_steps [of s stamp rec target "im_config im" sa_capabilities_ingested_update]
      capability_accepted [of ev "capability_of im (ce_target ev)"]
    by (simp add: core_eq_iff peek_tick_def target_of_def capability_of_def first_objection_append
        split: if_splits option.splits)
  done

subsection \<open>Failure evidence\<close>

text \<open>Making room keeps everything but the failures, and makes room.\<close>

lemma evict_failure_frame [frame]:
  "st_watermarks (evict_failure i s) = st_watermarks s" "st_epoch (evict_failure i s) = st_epoch s"
  "st_boot (evict_failure i s) = st_boot s" "st_topology_generation (evict_failure i s) = st_topology_generation s"
  "st_failures (evict_failure i s) = omap_erase i (st_failures s)" "st_services (evict_failure i s) = st_services s"
  "st_fences (evict_failure i s) = st_fences s" "st_witnesses (evict_failure i s) = st_witnesses s"
  "st_tick (evict_failure i s) = st_tick s" "st_policy_generation (evict_failure i s) = st_policy_generation s"
  "st_policy (evict_failure i s) = st_policy s" "st_sources (evict_failure i s) = st_sources s"
  "st_targets (evict_failure i s) = st_targets s" "st_capabilities (evict_failure i s) = st_capabilities s"
  "st_dependencies (evict_failure i s) = st_dependencies s" "st_next_attempt_id (evict_failure i s) = st_next_attempt_id s"
  by (auto simp: evict_failure_def Let_def bump_def intro!: omap_eqI simp: omap_find_erase fun_upd_idem_iff)

lemma evict_failures_frame [frame]:
  "st_watermarks (evict_failures bound order s) = st_watermarks s"
  "st_epoch (evict_failures bound order s) = st_epoch s" "st_boot (evict_failures bound order s) = st_boot s"
  "st_topology_generation (evict_failures bound order s) = st_topology_generation s"
  "st_services (evict_failures bound order s) = st_services s" "st_fences (evict_failures bound order s) = st_fences s"
  "st_witnesses (evict_failures bound order s) = st_witnesses s" "st_tick (evict_failures bound order s) = st_tick s"
  "st_policy_generation (evict_failures bound order s) = st_policy_generation s"
  "st_policy (evict_failures bound order s) = st_policy s" "st_sources (evict_failures bound order s) = st_sources s"
  "st_targets (evict_failures bound order s) = st_targets s"
  "st_capabilities (evict_failures bound order s) = st_capabilities s"
  "st_dependencies (evict_failures bound order s) = st_dependencies s"
  "st_next_attempt_id (evict_failures bound order s) = st_next_attempt_id s"
  by (induction bound order s rule: evict_failures.induct) (simp_all add: frame)

lemma evict_failures_room:
  "st_failure_order (evict_failures bound order s) = [] \<or> omap_size (st_failures (evict_failures bound order s)) < bound"
  by (induction bound order s rule: evict_failures.induct) simp_all

lemma retain_failure_steps:
  assumes "tick_successor (st_tick s) = Some stamp"
    and "pv_epoch (fe_provenance ev) = st_epoch s" "pv_boot (fe_provenance ev) = st_boot s"
    and "fe_topology_generation ev = st_topology_generation s"
    and "fresh_sequence s (fe_provenance ev)"
    and "next_evidence = st_next_evidence_id s"
  shows "state_steps config s (retain_failure config next_evidence ev stamp s)"
proof -
  define s1 where "s1 = s\<lparr>st_tick := stamp\<rparr>"
  define s2 where "s2 = (if fe_id ev = Id next_evidence then s1\<lparr>st_next_evidence_id := next_evidence + 1\<rparr> else s1)"
  define s3 where "s3 = evict_failures_if_needed config s2"
  have 2: "state_steps config s1 s2"
    using Evidence_Numbered [of config s1] by (auto simp: s2_def s1_def assms(6) intro: steps_one)
  have 3: "state_steps config s1 s3"
    using 2 Failures_Trimmed unfolding s3_def by (rule steps_then)
  have "state_step config s3 (apply_failure ev s3)"
  proof (rule Failure_Recorded)
    show "st_failure_order s3 = [] \<or> omap_size (st_failures s3) < cf_max_evidence_records config"
      unfolding s3_def evict_failures_if_needed_def by (rule evict_failures_room)
  qed (use assms in \<open>simp_all add: fresh_sequence_def s3_def evict_failures_if_needed_def frame s2_def s1_def\<close>)
  with 3 have 4: "state_steps config s1 (apply_failure ev s3)" by (rule steps_then)
  have "state_steps config s1 (retain_failure config next_evidence ev stamp s)"
  proof (cases "fe_ambiguity ev = AmbiguityState_Unambiguous")
    case True
    with 4 show ?thesis
      by (simp add: retain_failure_def Let_def steps_core flip: s1_def s2_def s3_def)
  next
    case False
    have 5: "state_steps config s1 (bump sa_failures_ingested_update (apply_failure ev s3))"
      using 4 by (rule steps_core) simp
    also have "state_steps config \<dots> (change_service (fe_service ev) (await_operator (fe_id ev) stamp) \<dots>)"
      by (rule change_service_steps) (rule Awaiting)
    finally have "state_steps config s1
      (change_service (fe_service ev) (await_operator (fe_id ev) stamp) (bump sa_failures_ingested_update (apply_failure ev s3)))" .
    then show ?thesis
      by (rule steps_core) (simp add: retain_failure_def Let_def False flip: s1_def s2_def s3_def)
  qed
  then show ?thesis unfolding s1_def by (rule steps_ticked [OF assms(1)])
qed

lemma failure_accepted:
  assumes "first_objection (provenance_objections im ev @ watermark_objections im ev fp @
    content_objections im runtime ev fp) = None"
  shows "pv_epoch (fe_provenance ev) = st_epoch (im_state im)" "pv_boot (fe_provenance ev) = st_boot (im_state im)"
    "fe_topology_generation ev = st_topology_generation (im_state im)"
    "\<not> is_nil (fe_id ev) \<Longrightarrow> omap_find (st_failures (im_state im)) (fe_id ev) = None"
    "fresh_sequence (im_state im) (fe_provenance ev)"
  using assms
  by (auto simp: first_objection_append provenance_objections_def watermark_objections_def content_objections_def
      Let_def failure_of_def fresh_sequence_def split: option.splits if_splits)

lemma do_ingest_failure_evolves: "post (\<lambda>_. evolves im) (do_ingest_failure ev e im)"
  unfolding do_ingest_failure_def
  apply (intro post_rules durably_evolves; (simp; fail)?)
  subgoal for service target source runtime fp stamp nx rec s
    using failure_accepted [of im ev fp runtime]
    by (intro retain_failure_steps) (simp_all add: core_eq_iff peek_tick_def fresh_sequence_def)
  done

subsection \<open>Dependency observations\<close>

lemma observation_accepted:
  assumes "first_objection (observation_objections im b fp) = None"
  shows "pv_epoch (dob_provenance b) = st_epoch (im_state im)" "pv_boot (dob_provenance b) = st_boot (im_state im)"
    "dob_topology_generation b = st_topology_generation (im_state im)"
    "fresh_sequence (im_state im) (dob_provenance b)"
  using assms
  by (auto simp: first_objection_append observation_objections_def Let_def fresh_sequence_def split: option.splits if_splits)

lemma retain_dependency_steps:
  assumes "tick_successor (st_tick s) = Some stamp"
    and "pv_epoch (dob_provenance b) = st_epoch s" "pv_boot (dob_provenance b) = st_boot s"
    and "dob_topology_generation b = st_topology_generation s"
    and "fresh_sequence s (dob_provenance b)"
  shows "state_steps config s (retain_dependency config b stamp s)"
  using assms(1) Dependency_Recorded [of b "s\<lparr>st_tick := stamp\<rparr>" config]
  by (rule steps_ticked_one)
     (use assms(2-) in \<open>simp_all add: retain_dependency_def Let_def core_eq_iff apply_dependency_def mark_source_def bump_def
       fresh_sequence_def\<close>)

lemma do_ingest_dependency_evolves: "post (\<lambda>_. evolves im) (do_ingest_dependency b e im)"
  unfolding do_ingest_dependency_def
  apply (intro post_rules durably_evolves; (simp; fail)?)
  subgoal for service source fp stamp rec s
    using observation_accepted [of im b fp]
    by (intro retain_dependency_steps) (simp_all add: core_eq_iff peek_tick_def fresh_sequence_def)
  done

subsection \<open>Answers of the decisions\<close>

lemma quiet_lookups:
  assumes "quiet im im'"
  shows "service_of im' = service_of im" "target_of im' = target_of im" "capability_of im' = capability_of im"
    "role_of im' = role_of im" "failure_of im' = failure_of im" "fence_token_of im' = fence_token_of im"
    "witness_of im' = witness_of im" "im_config im' = im_config im" "peek_tick im' = peek_tick im"
  using assms
  by (auto simp: quiet_def core_eq_iff service_of_def target_of_def capability_of_def role_of_def failure_of_def
      fence_token_of_def witness_of_def peek_tick_def fun_eq_iff)

lemma quiet_cancels [simp]: "quiet im (im'\<lparr>im_cancels := c\<rparr>) \<longleftrightarrow> quiet im im'"
  by (simp add: quiet_def)

lemma refusal_evolves: "evolves im im1 \<Longrightarrow> post (\<lambda>_. evolves im) (refusal e code subject detail v im1)"
  using refusal_quiet [of im1 e code subject detail v] by (auto intro: post_mono evolves_quiet)

lemma refusal_simple_evolves: "post (\<lambda>_. evolves im) (refusal_simple e code im)"
  by (simp add: refusal_simple_def refusal_evolves)

lemma replay_evolves: "post (\<lambda>_. evolves im) (replay_cached entry e request im)"
  using replay_quiet by (rule post_mono) (rule quiet_evolves)

lemma evolves_bump: "evolves im im1 \<Longrightarrow> evolves im (in_state (bump c) im1)"
  by (erule evolves_quiet) simp

lemma refuse_with_evolves: "evolves im im1 \<Longrightarrow> post (\<lambda>_. evolves im) (refuse_with ob e im1)"
  by (auto simp: refuse_with_def split: prod.splits option.splits intro!: refusal_evolves evolves_bump)

lemma reasoned_evolves: "evolves im im1 \<Longrightarrow>
    evolves im (in_state (change_service service (\<lambda>sv. sv\<lparr>sv_last_reason := code\<rparr>)) im1)"
  by (erule evolves_trans, rule evolves_state, rule change_service_steps) (rule Reasoned)

lemma refuse_failover_evolves: "evolves im im1 \<Longrightarrow> post (\<lambda>_. evolves im) (refuse_failover ob service e im1)"
  unfolding refuse_failover_def by (intro refuse_with_evolves reasoned_evolves)

lemma refuse_failback_evolves: "evolves im im1 \<Longrightarrow> post (\<lambda>_. evolves im) (refuse_failback ob e im1)"
  unfolding refuse_failback_def by (intro refuse_with_evolves evolves_bump)

lemma refuse_effect_evolves: "evolves im im1 \<Longrightarrow> post (\<lambda>_. evolves im) (refuse_effect ob e im1)"
  unfolding refuse_effect_def by (intro refuse_with_evolves evolves_bump)

lemma accepted_evolves: "evolves im im1 \<Longrightarrow> post (\<lambda>_. evolves im) (accepted outcome counter result e im1)"
  by (auto simp: accepted_def Let_def split: option.splits elim!: evolves_quiet)

lemma concluded_evolves: "evolves im im1 \<Longrightarrow> post (\<lambda>_. evolves im) (concluded outcome accept duplicate e im1)"
  by (auto simp: concluded_def elim!: evolves_quiet)

lemma qualify_quiet: "post (\<lambda>_. quiet im) (qualify_dependencies runtime e im)"
  by (simp add: qualify_dependencies_def Let_def quiet_def)

lemma select_quiet: "post (\<lambda>_. quiet im) (select_fallback runtime failed e im)"
  by (auto simp: select_fallback_def Let_def quiet_def split: prod.splits option.splits)

subsection \<open>The commit\<close>

lemma emit_evolves: "evolves im (emit_intent i im)"
proof -
  have "evolves im (im\<lparr>im_intents := snd (iq_push i (im_intents im))\<rparr>)"
    by (simp add: evolves_def r_into_rtranclp Pushed)
  then show ?thesis
    by (auto simp: emit_intent_def split: prod.splits bool.splits intro: evolves_bump)
qed

lemma after_commit_evolves:
  assumes "evolves im (in_state (apply_committed mode n stamp change evicted) im1)"
  shows "post (\<lambda>_. evolves im) (after_commit mode n request to from' stamp plan change evicted e im1)"
proof -
  have "post (\<lambda>_. evolves im) (rotate_if_due im4)"
    if "quiet (emit_intent i (in_state (apply_committed mode n stamp change evicted) im1)) im4" for i im4
    using rotate_quiet [of im4] evolves_quiet [OF evolves_trans [OF assms emit_evolves] that]
    by (auto intro: post_mono evolves_quiet)
  note rotated = this
  show ?thesis
    unfolding after_commit_def
    apply (intro post_let post_bind)
    apply (simp only: post_pair)
    subgoal for to_ref im1a intent im2 im3 im4 e1
      by (rule rotated [where i = intent]) simp
    done
qed

lemma committed_evolves:
  assumes "quiet im im1" and "attempt_identity mode service sv im = Inr n" and "peek_tick im = Some stamp"
    and "service_of im service = Some sv" and "mode_fits mode sv from' to_ref"
  shows "evolves im
    (in_state (apply_committed mode n stamp (recovery_change im mode n service from' to_ref stamp trigger sv) k) im1)"
proof (rule quiet_then [OF assms(1) evolves_state [OF steps_one]])
  have "core (im_state im) = core (im_state im1)" and c: "im_config im = im_config im1"
    using assms(1) by (simp_all add: quiet_def)
  with assms show "state_step (im_config im1) (im_state im1)
      (apply_committed mode n stamp (recovery_change im mode n service from' to_ref stamp trigger sv) k (im_state im1))"
    by (intro Committed) (simp_all add: core_eq_iff service_of_def peek_tick_def)
qed

lemma commit_recovery_evolves:
  assumes "service_of im (fq_service request) = Some runtime"
    and "mode_fits mode runtime from' \<lparr>tg_target = tr_name to, tg_incarnation = tr_incarnation to\<rparr>"
  shows "post (\<lambda>_. evolves im) (commit_recovery request runtime to from' trigger mode e im)"
  unfolding commit_recovery_def
  apply (intro post_rules after_commit_evolves)
  apply (simp_all only: post_pair evolves_refl)
    apply (simp add: quiet_evolves)
   apply (rule quiet_evolves, erule quietD(1))
  apply (rule committed_evolves [OF quietD(1)])
      apply (assumption | rule assms)+
  done

subsection \<open>The decisions\<close>

lemma commitD:
  assumes "quiet im im1" and "service_of im (fq_service request) = Some runtime"
    and "mode_fits mode runtime from' \<lparr>tg_target = tr_name to, tg_incarnation = tr_incarnation to\<rparr>"
    and "commit_recovery request runtime to from' trigger mode e im1 = (r, im2)"
  shows "evolves im im2"
  using quiet_then [OF assms(1) postD [OF commit_recovery_evolves assms(4)]] assms(2,3)
  by (simp add: quiet_lookups [OF assms(1)])

lemmas evolves_answers =
  refusal_evolves refusal_simple_evolves replay_evolves refuse_with_evolves refuse_failover_evolves
  refuse_failback_evolves refuse_effect_evolves accepted_evolves concluded_evolves

lemmas qualifyD = postD [OF qualify_quiet]
lemmas selectD = postD [OF select_quiet]

lemma placement_accepted:
  assumes "first_objection (placement_objections im runtime request) = None"
  shows "sv_active runtime = None" "sv_lifecycle runtime \<noteq> LifecyclePhase_Withdrawn"
    "role_satisfies im (pq_requester request) SourceRole_Operator"
    "\<exists>t. target_of im (pq_target request) = Some t \<and> evaluate_candidate im runtime t = R_Ok"
  using assms
  by (auto simp: placement_objections_def Let_def split: option.splits if_splits)

lemma keyed_simps [simp]:
  "fq_service (keyed key service) = service" "fq_key (keyed key service) = key"
  by (simp_all add: keyed_def)

lemma do_establish_placement_evolves: "post (\<lambda>_. evolves im) (do_establish_placement request im)"
  unfolding do_establish_placement_def
  apply (intro post_rules evolves_answers evolves_refl)
    apply (simp_all only:)
    apply (rule quiet_evolves, erule qualifyD)
   apply (erule commitD [OF qualifyD, rotated 3], assumption, simp,
      simp add: mode_fits_def placement_accepted)+
  done

lemma resumableD:
  assumes "resumable im runtime request = Inr (previous, to)"
  shows "sv_recovery runtime = RecoveryPhase_IntentRecorded" "current_attempt_record runtime = Some previous"
    "role_satisfies im (fq_requester request) SourceRole_Operator"
    "target_of im (tg_target (ar_to previous)) = Some to" "tr_incarnation to = tg_incarnation (ar_to previous)"
    "evaluate_candidate im runtime to = R_Ok"
  using assms by (auto simp: resumable_def Let_def split: option.splits if_splits)

lemma do_resume_evolves:
  assumes "well_named (im_state im)" and "service_of im (fq_service request) = Some runtime"
  shows "post (\<lambda>_. evolves im) (do_resume runtime request e im)"
proof -
  have fits: "mode_fits Resume_Mode runtime (ar_from previous) \<lparr>tg_target = tr_name to, tg_incarnation = tr_incarnation to\<rparr>"
    if "resumable im runtime request = Inr (previous, to)" for previous to
    using resumableD [OF that] assms(1) by (auto simp: mode_fits_def well_named_def target_of_def)
  have q: "quiet im (in_state (bump sa_recovery_reissues_update) im)" by simp
  show ?thesis
    unfolding do_resume_def
    apply (intro post_rules evolves_answers evolves_refl)
     apply (simp_all only:)
     apply (erule commitD [OF q, rotated 2], rule assms, erule fits)+
    done
qed

lemma failover_mode_fits: "mode_fits Failover_Mode sv (value_or (sv_active sv) default_target_ref) to_ref"
  by (simp add: mode_fits_def)

lemma do_recover_evolves:
  assumes "service_of im (fq_service request) = Some runtime"
  shows "post (\<lambda>_. evolves im) (do_recover runtime request evidence trigger e im)"
proof -
  have q: "quiet im im2" if "qualify_dependencies runtime e1 im = (d, im1)" "select_fallback runtime f e2 im1 = (c, im2)"
    for e1 d im1 f e2 c im2
    using quiet_trans [OF qualifyD [OF that(1)] selectD [OF that(2)]] .
  have c: "evolves im im3"
    if "qualify_dependencies runtime e1 im = (d, im1)" "select_fallback runtime f e2 im1 = (c, im2)"
      "commit_recovery request runtime to (value_or (sv_active runtime) default_target_ref) t Failover_Mode e3 im2 = (r, im3)"
    for e1 d im1 f e2 c im2 to t e3 r im3
    by (rule commitD [OF q [OF that(1,2)] assms failover_mode_fits that(3)])
  show ?thesis
    unfolding do_recover_def
    apply (intro post_rules evolves_answers evolves_refl)
       apply (simp_all only: post_pair)
       apply (rule quiet_evolves, erule qualifyD)
      apply (rule quiet_evolves, erule (1) q)
     apply (erule postD [OF refuse_failover_evolves [OF c], rotated 3], assumption+)
    apply (erule (2) c)
    done
qed

lemma refuse_ambiguous_evolves: "post (\<lambda>_. evolves im) (refuse_ambiguous ev service e im)"
proof -
  have "state_steps config s (bump c (change_service service (ambiguity_marked i) s))" for config s c i
    by (rule steps_core [OF change_service_steps]) (simp_all add: Marked)
  then show ?thesis
    unfolding refuse_ambiguous_def by (intro refuse_failover_evolves evolves_state)
qed

lemma do_request_failover_evolves:
  assumes "well_named (im_state im)"
  shows "post (\<lambda>_. evolves im) (do_request_failover request resume im)"
proof -
  have gate: "post Q (case g of Gate_Refused ob \<Rightarrow> f ob | Gate_Ambiguous ev \<Rightarrow> h ev | Gate_Qualified ev t \<Rightarrow> k ev t)"
    if "\<And>ob. post Q (f ob)" "\<And>ev. post Q (h ev)" "\<And>ev t. post Q (k ev t)" for Q g f h k
    using that by (cases g) simp_all
  show ?thesis
    unfolding do_request_failover_def
    apply (intro post_rules gate evolves_answers refuse_ambiguous_evolves evolves_refl)
     apply (rule do_resume_evolves [OF assms], simp)
    apply (rule do_recover_evolves, simp)
    done
qed

text \<open>A runtime that was made durable and is now stored.\<close>

lemma stored_evolves:
  assumes "quiet im im1" and "peek_tick im = Some stamp" and "service_of im service = Some sv"
    and "runtime_step (im_config im) sv sv'"
    and "\<And>s. core (f s) = core (store_runtime service sv' stamp s)"
  shows "evolves im (in_state f im1)"
proof (rule quiet_then [OF assms(1) evolves_state])
  let ?s = "im_state im1"
  have t: "tick_successor (st_tick ?s) = Some stamp" and "omap_find (st_services ?s) service = Some sv"
    and c: "im_config im1 = im_config im"
    using assms(1-3) by (auto simp: quiet_def core_eq_iff peek_tick_def service_of_def)
  then have "state_step (im_config im1) (?s\<lparr>st_tick := stamp\<rparr>) (store_runtime service sv' stamp ?s)"
    using Service_Changed [of "?s\<lparr>st_tick := stamp\<rparr>" service sv "im_config im1" sv'] assms(4)
    by (simp add: store_runtime_def)
  with t show "state_steps (im_config im1) ?s (f ?s)"
    by (rule steps_ticked_one) (rule assms(5))
qed

lemma resolve_no_failover_evolves:
  assumes "peek_tick im = Some stamp" and "service_of im service = Some runtime"
  shows "post (\<lambda>_. evolves im) (resolve_no_failover runtime service stamp e im)"
proof -
  have changed: "evolves im (in_state (\<lambda>s. bump k (store_runtime service (declared_alive stamp runtime) stamp s)) im1)"
    if "persist rs im = (c, im1)" for rs c im1 k
    using quietD(1) [OF that] assms by (rule stored_evolves) (simp_all add: Alive)
  show ?thesis
    unfolding resolve_no_failover_def
    apply (intro post_rules evolves_answers evolves_refl)
      apply (simp_all only:)
      apply (rule quiet_evolves, erule quietD(1))
     apply (erule evolves_quiet [OF changed], erule quietD(2))+
    done
qed

lemma resolve_confirmed_evolves:
  assumes "well_named (im_state im)" and "peek_tick im = Some stamp"
    and "failure_of im (am_evidence resolution) = Some evidence"
  shows "post (\<lambda>_. evolves im) (resolve_confirmed evidence resolution stamp e im)"
proof -
  let ?f = "\<lambda>s. bump sa_ambiguity_resolved_update
    (change_service (am_service resolution) ambiguity_cleared
      (s\<lparr>st_tick := stamp, st_failures := omap_put (fe_id evidence) (promoted evidence) (st_failures s)\<rparr>))"
  have promoted: "evolves im (in_state ?f im1)" and named: "well_named (im_state (in_state ?f im1))" if "quiet im im1" for im1
  proof -
    let ?s = "im_state im1"
    have t: "tick_successor (st_tick ?s) = Some stamp" and "omap_find (st_failures ?s) (am_evidence resolution) = Some evidence"
      and w: "well_named ?s"
      using assms that by (auto simp: quiet_def core_eq_iff peek_tick_def failure_of_def well_named_def)
    then have "state_step (im_config im1) (?s\<lparr>st_tick := stamp\<rparr>)
        (?s\<lparr>st_tick := stamp, st_failures := omap_put (fe_id evidence) (promoted evidence) (st_failures ?s)\<rparr>)"
      using Failure_Promoted [of "?s\<lparr>st_tick := stamp\<rparr>" "am_evidence resolution" evidence] by simp
    then have "state_steps (im_config im1) ?s
        (?s\<lparr>st_tick := stamp, st_failures := omap_put (fe_id evidence) (promoted evidence) (st_failures ?s)\<rparr>)"
      by (intro steps_ticked [OF t] steps_one)
    then have "state_steps (im_config im1) ?s (?f ?s)"
      by (rule steps_core [OF steps_trans [OF _ change_service_steps]]) (simp_all add: Cleared)
    then show "evolves im (in_state ?f im1)"
      by (intro quiet_then [OF that] evolves_state)
    show "well_named (im_state (in_state ?f im1))"
      using w by (auto simp: well_named_def bump_def change_service_def ambiguity_cleared_def omap_find_put split: option.splits)
  qed
  show ?thesis
    unfolding resolve_confirmed_def
    apply (intro post_rules evolves_answers evolves_refl)
     apply (rule quiet_evolves, erule quietD(1))
    apply (rule post_mono [OF do_request_failover_evolves])
     apply (simp only:, rule named, erule quietD(1))
    apply (erule evolves_trans [rotated], simp only:, rule promoted, erule quietD(1))
    done
qed

lemma resolution_accepted:
  assumes "first_objection (resolution_objections im runtime resolution) = None"
  shows "role_satisfies im (am_resolved_by resolution) SourceRole_Operator" "sv_ambiguity_pending runtime"
    "am_evidence resolution = sv_pending_ambiguity runtime"
  using assms by (auto simp: resolution_objections_def Let_def split: if_splits)

lemma do_resolve_ambiguity_evolves:
  assumes "well_named (im_state im)"
  shows "post (\<lambda>_. evolves im) (do_resolve_ambiguity resolution im)"
  unfolding do_resolve_ambiguity_def
  by (intro post_rules evolves_answers evolves_refl resolve_no_failover_evolves resolve_confirmed_evolves)
     (simp_all add: assms)

lemma forgotten_evolves: "evolves im im1 \<Longrightarrow> evolves im (in_state (change_service service origin_forgotten) im1)"
  by (erule evolves_trans, rule evolves_state, rule change_service_steps) (rule Forgotten)

lemma do_request_failback_evolves: "post (\<lambda>_. evolves im) (do_request_failback request im)"
  unfolding do_request_failback_def
  apply (intro post_rules evolves_answers evolves_refl forgotten_evolves)
    apply (simp_all only: post_pair)
    apply (rule quiet_evolves, erule qualifyD)
   apply (erule commitD [OF qualifyD, rotated 3], assumption, simp, rule failover_mode_fits)+
  done

subsection \<open>Acknowledgement and effects\<close>

lemma attempt_ownerD:
  assumes "well_named (im_state im)" and "attempt_owner im i = Some sv"
  shows "service_of im (sd_name (sv_descriptor sv)) = Some sv" "sv_current_attempt sv = i"
proof -
  obtain name where "(name, sv) \<in> set (entries (st_services (im_state im)))" and i: "sv_current_attempt sv = i"
    using assms(2) by (auto simp: attempt_owner_def find_Some_iff in_set_conv_nth) (metis nth_mem prod.collapse)
  then have "omap_find (st_services (im_state im)) name = Some sv" by (simp add: find_entries)
  with assms(1) show "service_of im (sd_name (sv_descriptor sv)) = Some sv"
    by (auto simp: well_named_def service_of_def)
  show "sv_current_attempt sv = i" by (rule i)
qed

lemma do_acknowledge_intent_evolves:
  assumes "well_named (im_state im)"
  shows "post (\<lambda>_. evolves im) (do_acknowledge_intent ack im)"
proof -
  have stored: "evolves im (in_state (store_runtime (sd_name (sv_descriptor sv)) (acknowledged ack stamp sv) stamp) im1)"
    if "persist rs im = (c, im1)" "peek_tick im = Some stamp" "attempt_owner im (ia_attempt ack) = Some sv" for rs c im1 stamp sv
    using quietD(1) [OF that(1)] that(2) attempt_ownerD(1) [OF assms that(3)] Acked
    by (rule stored_evolves) simp
  show ?thesis
    unfolding do_acknowledge_intent_def
    apply (intro post_rules evolves_answers evolves_refl)
      apply (simp_all only: post_pair)
      apply (rule quiet_evolves, erule quietD(1))
     apply (erule evolves_quiet [OF stored quietD(2), rotated 3], assumption+)+
    done
qed

lemma do_report_effect_evolves: "post (\<lambda>_. evolves im) (do_report_effect report im)"
proof -
  have core: "core (apply_effect report sv' stamp s) = core (store_runtime (er_service report) sv' stamp s)" for sv' stamp s
    by (simp add: apply_effect_def Let_def)
  have stored: "evolves im (in_state (apply_effect report sv' stamp) im1)"
    if "persist rs im = (c, im1)" "peek_tick im = Some stamp" "service_of im (er_service report) = Some sv"
      "effect_outcome p sv (effect_seen (im_config im) i stamp sv) report = Inr (outcome, sv')"
    for rs c im1 stamp sv p i outcome sv'
    using quietD(1) [OF that(1)] that(2,3) Effected [OF that(4)] by (rule stored_evolves) (rule core)
  show ?thesis
    unfolding do_report_effect_def conclude_effect_def
    apply (intro post_rules evolves_answers evolves_refl evolves_bump)
      apply (simp_all only: post_pair)
      apply (rule quiet_evolves, erule quietD(1))
     apply (erule evolves_quiet [OF stored quietD(2), rotated 4], assumption+)+
    done
qed

end
