(* ===== verification/Operations.thy ===== *)
theory Operations
  imports Evolution
begin

text \<open>
  The public operations as one type of calls, sequences of calls, and the rules that carry an
  invariant or an order of the abstract specification over to every sequence of calls.
\<close>

subsection \<open>The public operations refine the transitions\<close>

lemma recorded_evolves: "evolves im im1 \<Longrightarrow> evolves im (record_explanation e im1)"
  by (erule evolves_quiet) simp

lemma ingest_evolves:
  assumes "\<And>e. post (\<lambda>_. evolves im) (handler e im)"
  shows "post (\<lambda>_. evolves im) (ingest service handler im)"
  unfolding ingest_def
  apply (intro post_rules)
  subgoal for a im1 code e e' im2
    using postD [OF assms] by (auto simp: finish_ingest_explanation_def Let_def intro!: recorded_evolves)
  done

lemma keyed_request_evolves:
  assumes "\<And>im1. quiet im im1 \<Longrightarrow> post (\<lambda>_. evolves im1) (handler im1)"
  shows "post (\<lambda>_. evolves im) (keyed_request replay handler im)"
  unfolding keyed_request_def
  apply (intro post_rules evolves_answers evolves_refl)
   apply (rule quiet_evolves, erule quietD(3))
  subgoal for key service e a im1 d im2
    using quietD(3) [of key im a im1] assms [of im1]
    by (auto intro: evolves_quiet quiet_then dest: postD)
  done

lemma cancel_quiet: "post (\<lambda>_. quiet im) (cancel key im)"
  by (auto simp: cancel_def Let_def quiet_def record_explanation_def split: prod.splits)

lemma take_intent_evolves: "post (\<lambda>_. evolves im) (take_intent im)"
proof -
  have "evolves im (im\<lparr>im_intents := snd (iq_try_pop (im_intents im))\<rparr>)"
    by (simp add: evolves_def r_into_rtranclp Popped)
  then show ?thesis
    by (auto simp: take_intent_def post_def split: prod.splits option.splits intro: evolves_bump)
qed

subsection \<open>Calls\<close>

datatype (plugins only: code) operation =
  Enroll source_name source_role
| Register_Service service_descriptor source_name
| Register_Target target_record source_name
| Set_Topology topology_generation source_name
| Set_Policy policy_descriptor
| Withdraw service_name source_name
| Retire target_name source_name
| Capability capability_evidence
| Failure failure_evidence
| Dependency dependency_observation
| Place placement_request
| Failover failover_request
| Resume failover_request
| Resolve ambiguity_resolution
| Failback failback_request
| Acknowledge intent_ack
| Effect effect_report
| Cancel request_key
| Take_Intent

text \<open>The runtime after a call; the results are dropped.\<close>

fun perform :: "operation \<Rightarrow> impl \<Rightarrow> impl" where
  "perform (Enroll source role) im = snd (enroll_source source role im)"
| "perform (Register_Service d registrar) im = snd (register_service d registrar im)"
| "perform (Register_Target t registrar) im = snd (register_target t registrar im)"
| "perform (Set_Topology g reporter) im = snd (set_topology_generation g reporter im)"
| "perform (Set_Policy p) im = snd (set_policy p im)"
| "perform (Withdraw service requester) im = snd (withdraw_service service requester im)"
| "perform (Retire t requester) im = snd (retire_target t requester im)"
| "perform (Capability ev) im = snd (ingest_capability ev im)"
| "perform (Failure ev) im = snd (ingest_failure ev im)"
| "perform (Dependency b) im = snd (ingest_dependency b im)"
| "perform (Place r) im = snd (establish_placement r im)"
| "perform (Failover r) im = snd (request_failover r im)"
| "perform (Resume r) im = snd (resume_recovery r im)"
| "perform (Resolve r) im = snd (resolve_ambiguity r im)"
| "perform (Failback r) im = snd (request_failback r im)"
| "perform (Acknowledge a) im = snd (acknowledge_intent a im)"
| "perform (Effect r) im = snd (report_effect r im)"
| "perform (Cancel key) im = snd (cancel key im)"
| "perform Take_Intent im = snd (take_intent im)"

definition perform_all :: "operation list \<Rightarrow> impl \<Rightarrow> impl" where
  "perform_all ops im = fold perform ops im"

lemma perform_all_simps [simp]:
  "perform_all [] im = im" "perform_all (op # ops) im = perform_all ops (perform op im)"
  by (simp_all add: perform_all_def)

lemma perform_all_append: "perform_all (ops @ ops') im = perform_all ops' (perform_all ops im)"
  by (simp add: perform_all_def)

lemma post_snd: "post (\<lambda>_. P) r \<Longrightarrow> P (snd r)"
  by (simp add: post_def)

lemma quiet_well_named: "quiet im im' \<Longrightarrow> well_named (im_state im') = well_named (im_state im)"
  by (simp add: quiet_def core_eq_iff well_named_def)

lemmas public_defs =
  enroll_source_def register_service_def register_target_def set_topology_generation_def set_policy_def
  withdraw_service_def retire_target_def ingest_capability_def ingest_failure_def ingest_dependency_def
  establish_placement_def request_failover_def resume_recovery_def resolve_ambiguity_def request_failback_def
  acknowledge_intent_def report_effect_def

lemma cancel_evolves: "post (\<lambda>_. evolves im) (cancel key im)"
  using cancel_quiet by (rule post_mono) (rule quiet_evolves)

lemmas handler_evolves =
  do_enroll_source_evolves do_register_service_evolves do_register_target_evolves
  do_set_topology_generation_evolves do_set_policy_evolves do_withdraw_service_evolves
  do_retire_target_evolves do_ingest_capability_evolves do_ingest_failure_evolves do_ingest_dependency_evolves

lemma perform_evolves:
  assumes "well_named (im_state im)"
  shows "evolves im (perform op im)"
proof -
  have w: "well_named (im_state im1)" if "quiet im im1" for im1
    using assms that by (simp add: quiet_well_named)
  have "post (\<lambda>_. evolves im) (establish_placement r im)" for r
    unfolding establish_placement_def by (intro keyed_request_evolves do_establish_placement_evolves)
  moreover have "post (\<lambda>_. evolves im) (request_failover r im)" "post (\<lambda>_. evolves im) (resume_recovery r im)" for r
    unfolding request_failover_def resume_recovery_def
    by (intro keyed_request_evolves do_request_failover_evolves; erule w)+
  moreover have "post (\<lambda>_. evolves im) (resolve_ambiguity r im)" for r
    unfolding resolve_ambiguity_def by (intro keyed_request_evolves do_resolve_ambiguity_evolves; erule w)
  moreover have "post (\<lambda>_. evolves im) (request_failback r im)" for r
    unfolding request_failback_def by (intro keyed_request_evolves do_request_failback_evolves)
  moreover have "post (\<lambda>_. evolves im) (acknowledge_intent a im)" "post (\<lambda>_. evolves im) (report_effect r im)" for a r
    unfolding acknowledge_intent_def report_effect_def
    by (intro do_acknowledge_intent_evolves do_report_effect_evolves assms)+
  ultimately show ?thesis
    by (cases op)
       (simp_all add: public_defs(1-10) post_snd ingest_evolves handler_evolves cancel_evolves take_intent_evolves)
qed

subsection \<open>Invariants and orders of the specification\<close>

locale spec_invariant =
  fixes I :: "fabric_config \<Rightarrow> state \<Rightarrow> bool"
  assumes step: "state_step config s t \<Longrightarrow> I config s \<Longrightarrow> I config t"
begin

lemma steps: "state_steps config s t \<Longrightarrow> I config s \<Longrightarrow> I config t"
  by (induction rule: rtranclp_induct) (auto intro: step)

lemma evolved: "evolves im im' \<Longrightarrow> I (im_config im) (im_state im) \<Longrightarrow> I (im_config im') (im_state im')"
  by (auto simp: evolves_def intro: steps)

end

locale spec_order = spec_invariant +
  fixes R :: "state \<Rightarrow> state \<Rightarrow> bool"
  assumes order_refl: "R s s"
    and order_trans: "R s t \<Longrightarrow> R t u \<Longrightarrow> R s u"
    and order_step: "state_step config s t \<Longrightarrow> I config s \<Longrightarrow> R s t"
begin

lemma order_steps: "state_steps config s t \<Longrightarrow> I config s \<Longrightarrow> R s t"
proof (induction rule: rtranclp_induct)
  case base
  show ?case by (rule order_refl)
next
  case (step t u)
  then have "I config t" by (auto intro: steps)
  with step show ?case by (auto intro: order_trans order_step)
qed

lemma order_evolved: "evolves im im' \<Longrightarrow> I (im_config im) (im_state im) \<Longrightarrow> R (im_state im) (im_state im')"
  by (auto simp: evolves_def intro: order_steps)

end

subsection \<open>What a transition does to the services\<close>

text \<open>The change of one service keeps its identity, its authority and the shape of its history.\<close>

lemma map_update_first: "(\<And>x. g (f x) = g x) \<Longrightarrow> map g (update_first P f xs) = map g xs"
  by (induction xs) auto

lemma map_update_current: "(\<And>a. g (f a) = g a) \<Longrightarrow>
    map g (sv_history (update_current_attempt f sv)) = map g (sv_history sv)"
  by (simp add: update_current_attempt_def map_update_first flip: rev_map)

lemma update_current_frame [simp]:
  "sv_descriptor (update_current_attempt f sv) = sv_descriptor sv"
  "sv_active (update_current_attempt f sv) = sv_active sv" "sv_fallback (update_current_attempt f sv) = sv_fallback sv"
  "sv_generation (update_current_attempt f sv) = sv_generation sv" "sv_fence (update_current_attempt f sv) = sv_fence sv"
  "sv_lease (update_current_attempt f sv) = sv_lease sv"
  "sv_current_attempt (update_current_attempt f sv) = sv_current_attempt sv"
  "sv_effects_seen (update_current_attempt f sv) = sv_effects_seen sv"
  "sv_continuity (update_current_attempt f sv) = sv_continuity sv"
  "sv_effect_verified (update_current_attempt f sv) = sv_effect_verified sv"
  "sv_activation_accepted (update_current_attempt f sv) = sv_activation_accepted sv"
  "sv_state_transfer_verified (update_current_attempt f sv) = sv_state_transfer_verified sv"
  by (simp_all add: update_current_attempt_def)

lemma invalidate_frame [simp]:
  "sv_descriptor (invalidate_verification sv) = sv_descriptor sv" "sv_active (invalidate_verification sv) = sv_active sv"
  "sv_fallback (invalidate_verification sv) = sv_fallback sv" "sv_generation (invalidate_verification sv) = sv_generation sv"
  "sv_fence (invalidate_verification sv) = sv_fence sv" "sv_lease (invalidate_verification sv) = sv_lease sv"
  "sv_current_attempt (invalidate_verification sv) = sv_current_attempt sv"
  "sv_history (invalidate_verification sv) = sv_history sv" "sv_effects_seen (invalidate_verification sv) = sv_effects_seen sv"
  "sv_continuity (invalidate_verification sv) = ContinuityClass_Unknown"
  "\<not> sv_effect_verified (invalidate_verification sv)" "\<not> sv_activation_accepted (invalidate_verification sv)"
  "\<not> sv_state_transfer_verified (invalidate_verification sv)"
  by (simp_all add: invalidate_verification_def)

lemma effect_seen_frame [simp]:
  "sv_descriptor (effect_seen config i stamp sv) = sv_descriptor sv" "sv_active (effect_seen config i stamp sv) = sv_active sv"
  "sv_fallback (effect_seen config i stamp sv) = sv_fallback sv"
  "sv_generation (effect_seen config i stamp sv) = sv_generation sv" "sv_fence (effect_seen config i stamp sv) = sv_fence sv"
  "sv_lease (effect_seen config i stamp sv) = sv_lease sv"
  "sv_current_attempt (effect_seen config i stamp sv) = sv_current_attempt sv"
  "sv_history (effect_seen config i stamp sv) = sv_history sv"
  by (simp_all add: effect_seen_def Let_def)

definition authority :: "service_runtime \<Rightarrow>
    service_descriptor \<times> target_ref option \<times> target_ref option \<times> failover_generation \<times> fence_token \<times>
    lease_record option \<times> attempt_id \<times> (attempt_id \<times> target_ref) list" where
  "authority sv = (sv_descriptor sv, sv_active sv, sv_fallback sv, sv_generation sv, sv_fence sv, sv_lease sv,
    sv_current_attempt sv, map (\<lambda>a. (ar_id a, ar_to a)) (sv_history sv))"

lemma effect_outcome_authority:
  assumes "effect_outcome p sv (effect_seen config i stamp sv) report = Inr (outcome, sv')"
  shows "authority sv' = authority sv"
  using assms
  by (auto simp: effect_outcome_def authority_def Let_def split: if_splits effect_kind.splits prod.splits)

lemma runtime_step_authority: "runtime_step config sv sv' \<Longrightarrow> authority sv' = authority sv"
proof (induction rule: runtime_step.induct)
  case (Effected policy sv i stamp report outcome sv')
  then show ?case by (rule effect_outcome_authority)
qed (auto simp: authority_def withdrawn_def await_operator_def ambiguity_marked_def ambiguity_cleared_def
    declared_alive_def origin_forgotten_def acknowledged_def intro: map_update_current)

lemma runtime_step_frame:
  assumes "runtime_step config sv sv'"
  shows "sv_descriptor sv' = sv_descriptor sv" "sv_active sv' = sv_active sv" "sv_fallback sv' = sv_fallback sv"
    "sv_generation sv' = sv_generation sv" "sv_fence sv' = sv_fence sv" "sv_lease sv' = sv_lease sv"
    "sv_current_attempt sv' = sv_current_attempt sv"
    "map (\<lambda>a. (ar_id a, ar_to a)) (sv_history sv') = map (\<lambda>a. (ar_id a, ar_to a)) (sv_history sv)"
  using runtime_step_authority [OF assms] by (simp_all add: authority_def)

end
