(* ===== verification/Invariants.thy ===== *)
theory Invariants
  imports Operations
begin

text \<open>
  The invariants of the specification and the orders it climbs: names, bounds, the agreement of
  fences and services, continuity, and the generations that never fall.
\<close>

subsection \<open>What a commit does to the state\<close>

lemma apply_committed_frame [frame]:
  "st_services (apply_committed mode n stamp c k s) = omap_put (rx_service c) (rx_runtime c) (st_services s)"
  "st_fences (apply_committed mode n stamp c k s) =
    (if rx_has_fence c then omap_put (rx_service c) (rx_fence c) (st_fences s) else st_fences s)"
  "st_witnesses (apply_committed mode n stamp c k s) =
    foldl (\<lambda>m (target, w). omap_put (Witness_Key (rx_service c) target) w m) (st_witnesses s) (rx_witnesses c)"
  "st_tick (apply_committed mode n stamp c k s) = stamp"
  "st_next_attempt_id (apply_committed mode n stamp c k s) =
    (if mode = Resume_Mode then st_next_attempt_id s else an_attempt n + 1)"
  "st_epoch (apply_committed mode n stamp c k s) = st_epoch s" "st_boot (apply_committed mode n stamp c k s) = st_boot s"
  "st_topology_generation (apply_committed mode n stamp c k s) = st_topology_generation s"
  "st_policy_generation (apply_committed mode n stamp c k s) = st_policy_generation s"
  "st_policy (apply_committed mode n stamp c k s) = st_policy s"
  "st_targets (apply_committed mode n stamp c k s) = st_targets s"
  "st_capabilities (apply_committed mode n stamp c k s) = st_capabilities s"
  "st_dependencies (apply_committed mode n stamp c k s) = st_dependencies s"
  "st_failures (apply_committed mode n stamp c k s) = st_failures s"
  "st_failure_order (apply_committed mode n stamp c k s) = st_failure_order s"
  "st_sources (apply_committed mode n stamp c k s) = st_sources s"
  "st_watermarks (apply_committed mode n stamp c k s) = st_watermarks s"
  by (simp_all add: apply_committed_def Let_def bump_def apply_change_def)

lemma recovery_change_frame [frame]:
  "rx_service (recovery_change im mode n service from' to_ref stamp trigger sv) = service"
  "rx_runtime (recovery_change im mode n service from' to_ref stamp trigger sv) =
    committed_runtime im mode n service from' to_ref stamp trigger sv"
  "rx_fence (recovery_change im mode n service from' to_ref stamp trigger sv) =
    committed_fence n service to_ref (st_epoch (im_state im)) stamp"
  "rx_has_fence (recovery_change im mode n service from' to_ref stamp trigger sv)"
  "rx_witnesses (recovery_change im mode n service from' to_ref stamp trigger sv) =
    witness_updates n from' (st_topology_generation (im_state im))"
  by (simp_all add: recovery_change_def)

lemma remember_origin_frame [simp]:
  "sv_descriptor (remember_origin im from' sv) = sv_descriptor sv" "sv_active (remember_origin im from' sv) = sv_active sv"
  "sv_fallback (remember_origin im from' sv) = sv_fallback sv" "sv_generation (remember_origin im from' sv) = sv_generation sv"
  "sv_fence (remember_origin im from' sv) = sv_fence sv" "sv_lease (remember_origin im from' sv) = sv_lease sv"
  "sv_current_attempt (remember_origin im from' sv) = sv_current_attempt sv"
  "sv_history (remember_origin im from' sv) = sv_history sv" "sv_effects_seen (remember_origin im from' sv) = sv_effects_seen sv"
  "sv_continuity (remember_origin im from' sv) = sv_continuity sv"
  "sv_effect_verified (remember_origin im from' sv) = sv_effect_verified sv"
  "sv_activation_accepted (remember_origin im from' sv) = sv_activation_accepted sv"
  "sv_state_transfer_verified (remember_origin im from' sv) = sv_state_transfer_verified sv"
  by (simp_all add: remember_origin_def)

lemma recorded_attempt_frame [simp]:
  "sv_descriptor (recorded_attempt config mode a sv) = sv_descriptor sv"
  "sv_effects_seen (recorded_attempt config mode a sv) = sv_effects_seen sv"
  by (simp_all add: recorded_attempt_def append_attempt_def Let_def)

lemma committed_runtime_frame [frame]:
  "sv_descriptor (committed_runtime im mode n service from' to_ref stamp trigger sv) = sv_descriptor sv"
  "sv_active (committed_runtime im mode n service from' to_ref stamp trigger sv) = Some to_ref"
  "sv_fallback (committed_runtime im mode n service from' to_ref stamp trigger sv) = Some to_ref"
  "sv_generation (committed_runtime im mode n service from' to_ref stamp trigger sv) = an_generation n"
  "sv_fence (committed_runtime im mode n service from' to_ref stamp trigger sv) = an_fence n"
  "sv_current_attempt (committed_runtime im mode n service from' to_ref stamp trigger sv) = Id (an_attempt n)"
  "sv_history (committed_runtime im mode n service from' to_ref stamp trigger sv) =
    sv_history (recorded_attempt (im_config im) mode
      (committed_attempt n service from' to_ref (st_epoch (im_state im)) stamp trigger) sv)"
  "sv_effects_seen (committed_runtime im mode n service from' to_ref stamp trigger sv) = sv_effects_seen sv"
  "sv_continuity (committed_runtime im mode n service from' to_ref stamp trigger sv) = ContinuityClass_Unknown"
  "\<not> sv_effect_verified (committed_runtime im mode n service from' to_ref stamp trigger sv)"
  "\<not> sv_activation_accepted (committed_runtime im mode n service from' to_ref stamp trigger sv)"
  "\<not> sv_state_transfer_verified (committed_runtime im mode n service from' to_ref stamp trigger sv)"
  by (simp_all add: committed_runtime_def Let_def)

lemma attempt_identityD:
  assumes "attempt_identity mode service sv im = Inr n"
  shows "mode \<noteq> Resume_Mode \<Longrightarrow> gen_successor (sv_generation sv) = Some (an_generation n)"
    "mode \<noteq> Resume_Mode \<Longrightarrow> gen_successor (fence_token_of im service) = Some (an_fence n)"
    "mode \<noteq> Resume_Mode \<Longrightarrow> an_attempt n = st_next_attempt_id (im_state im)"
    "mode = Resume_Mode \<Longrightarrow> an_generation n = sv_generation sv"
    "mode = Resume_Mode \<Longrightarrow> an_fence n = sv_fence sv"
    "mode = Resume_Mode \<Longrightarrow> Id (an_attempt n) = sv_current_attempt sv"
    "id_available (an_attempt n)"
  using assms
  by (auto simp: attempt_identity_def next_numbers_def Let_def split: option.splits if_splits)

subsection \<open>Names\<close>

lemma runtime_step_descriptor: "runtime_step config sv sv' \<Longrightarrow> sv_descriptor sv' = sv_descriptor sv"
  by (rule runtime_step_frame)

text \<open>The steps that leave the registries of services and targets alone.\<close>

lemmas small_frames = frame evict_failures_if_needed_def apply_failure_def apply_dependency_def mark_source_def

lemma well_named_step: "state_step config s t \<Longrightarrow> well_named s \<Longrightarrow> well_named t"
proof (induction rule: state_step.induct)
  case (Service_Changed s name sv sv')
  then show ?case by (auto simp: well_named_def omap_find_put runtime_step_descriptor)
qed (auto simp: well_named_def omap_find_put omap_find_erase small_frames core_eq_iff new_runtime_def split: if_splits)

interpretation named: spec_invariant "\<lambda>_. well_named"
  by unfold_locales (rule well_named_step)

lemma perform_named: "well_named (im_state im) \<Longrightarrow> well_named (im_state (perform op im))"
  using named.evolved perform_evolves by blast

lemma perform_all_named: "well_named (im_state im) \<Longrightarrow> well_named (im_state (perform_all ops im))"
  by (induction ops arbitrary: im) (simp_all add: perform_named)

lemma perform_all_evolves: "well_named (im_state im) \<Longrightarrow> evolves im (perform_all ops im)"
  by (induction ops arbitrary: im) (auto intro: perform_evolves perform_named evolves_trans)

end
