(* ===== verification/Safety.thy ===== *)
theory Safety
  imports Invariants
begin

text \<open>
  What every sequence of calls keeps of the decision state: bounds on the registries and histories,
  the rule by which continuity is claimed, the agreement of fences and services, and the orders
  that the clocks, the generations and the fence tokens climb.
\<close>

subsection \<open>Invariants of one service\<close>

definition every_service :: "(service_runtime \<Rightarrow> bool) \<Rightarrow> state \<Rightarrow> bool" where
  "every_service P s \<longleftrightarrow> (\<forall>name sv. omap_find (st_services s) name = Some sv \<longrightarrow> P sv)"

lemma every_serviceD: "every_service P s \<Longrightarrow> omap_find (st_services s) name = Some sv \<Longrightarrow> P sv"
  by (auto simp: every_service_def)

locale service_invariant =
  fixes P :: "fabric_config \<Rightarrow> service_runtime \<Rightarrow> bool"
  assumes born: "P config (new_runtime d stamp)"
    and changed: "runtime_step config sv sv' \<Longrightarrow> P config sv \<Longrightarrow> P config sv'"
    and committed: "P config sv \<Longrightarrow> im_config im = config \<Longrightarrow>
      P config (committed_runtime im mode n service from' to_ref stamp trigger sv)"
begin

lemma service_step: "state_step config s t \<Longrightarrow> every_service (P config) s \<Longrightarrow> every_service (P config) t"
proof (induction rule: state_step.induct)
  case (Service_Added s d stamp)
  then show ?case by (auto simp: every_service_def omap_find_put born)
next
  case (Service_Changed s name sv sv')
  then show ?case by (auto simp: every_service_def omap_find_put intro: changed)
next
  case (Committed im s service sv mode from' to_ref n stamp trigger k)
  then show ?case by (auto simp: every_service_def omap_find_put frame intro: committed)
qed (auto simp: every_service_def frame evict_failures_if_needed_def apply_failure_def apply_dependency_def
    mark_source_def core_eq_iff)

end

sublocale service_invariant \<subseteq> spec_invariant "\<lambda>config. every_service (P config)"
  by unfold_locales (rule service_step)

subsection \<open>Bounds\<close>

definition bounded_service :: "fabric_config \<Rightarrow> service_runtime \<Rightarrow> bool" where
  "bounded_service config sv \<longleftrightarrow> length (sv_history sv) \<le> cf_max_attempt_history config \<and>
    length (sv_effects_seen sv) \<le> cf_max_attempt_history config"

lemma update_first_length [simp]: "length (update_first P f xs) = length xs"
  by (induction xs) auto

lemma recorded_attempt_bounded:
  "length (sv_history (recorded_attempt config mode a sv)) \<le> cf_max_attempt_history config"
  by (auto simp: recorded_attempt_def append_attempt_def Let_def)

lemma runtime_step_history: "runtime_step config sv sv' \<Longrightarrow> length (sv_history sv') = length (sv_history sv)"
  by (drule runtime_step_frame(8)) (metis length_map)

lemma effect_seen_bounded: "length (sv_effects_seen (effect_seen config i stamp sv)) \<le> cf_max_attempt_history config"
  by (simp add: effect_seen_def Let_def)

lemma effect_outcome_seen:
  "effect_outcome p sv sv1 report = Inr (outcome, sv') \<Longrightarrow> sv_effects_seen sv' = sv_effects_seen sv1"
  by (auto simp: effect_outcome_def Let_def split: if_splits effect_kind.splits prod.splits)

lemma runtime_step_seen:
  "runtime_step config sv sv' \<Longrightarrow>
   sv_effects_seen sv' = sv_effects_seen sv \<or> length (sv_effects_seen sv') \<le> cf_max_attempt_history config"
proof (induction rule: runtime_step.induct)
  case (Effected policy sv i stamp report outcome sv')
  then show ?case using effect_outcome_seen effect_seen_bounded by metis
qed (auto simp: withdrawn_def await_operator_def ambiguity_marked_def ambiguity_cleared_def declared_alive_def
    origin_forgotten_def acknowledged_def)

interpretation history: service_invariant bounded_service
proof
  show "bounded_service config sv'" if "runtime_step config sv sv'" "bounded_service config sv" for config sv sv'
    using that runtime_step_seen [OF that(1)] by (auto simp: bounded_service_def runtime_step_history)
qed (auto simp: bounded_service_def new_runtime_def default_service_runtime_def frame recorded_attempt_bounded)

text \<open>The registries. An evidence record beyond the bound is only kept when the order of arrival is
  empty, so one record is always possible.\<close>

definition bounded_registries :: "fabric_config \<Rightarrow> state \<Rightarrow> bool" where
  "bounded_registries config s \<longleftrightarrow> omap_size (st_sources s) \<le> cf_max_sources config \<and>
    omap_size (st_services s) \<le> cf_max_services config \<and> omap_size (st_targets s) \<le> cf_max_targets config"

lemma omap_size_put_known: "omap_find m k = Some v \<Longrightarrow> omap_size (omap_put k w m) = omap_size m"
  by (simp add: omap_size_put)

lemma bounded_registries_step: "state_step config s t \<Longrightarrow> bounded_registries config s \<Longrightarrow> bounded_registries config t"
proof (induction rule: state_step.induct)
  case (Target_Removed s name)
  then show ?case using omap_size_erase_le [of name "st_targets s"] by (auto simp: bounded_registries_def)
qed (auto simp: bounded_registries_def omap_size_put frame evict_failures_if_needed_def apply_failure_def
    apply_dependency_def mark_source_def core_eq_iff split: option.splits)

interpretation registries: spec_invariant bounded_registries
  by unfold_locales (rule bounded_registries_step)

text \<open>The retained failure evidence: each under its own number, every number in the order of arrival.\<close>

definition failures_within :: "nat \<Rightarrow> evidence_id list \<Rightarrow> state \<Rightarrow> bool" where
  "failures_within m order s \<longleftrightarrow> omap_size (st_failures s) \<le> m \<and>
    (\<forall>i ev. omap_find (st_failures s) i = Some ev \<longrightarrow> fe_id ev = i \<and> i \<in> set order)"

definition bounded_failures :: "fabric_config \<Rightarrow> state \<Rightarrow> bool" where
  "bounded_failures config s \<longleftrightarrow> failures_within (max 1 (cf_max_evidence_records config)) (st_failure_order s) s"

lemma omap_size_0: "(\<And>k. omap_find m k = None) \<Longrightarrow> omap_size m = 0"
  using omap_eqI [of m omap_empty] by simp

lemma evict_failure_within: "failures_within m (oldest # order) s \<Longrightarrow> failures_within m order (evict_failure oldest s)"
  using omap_size_erase_le [of oldest "st_failures s"]
  by (auto simp: failures_within_def frame omap_find_erase split: if_splits)

lemma evict_failures_within:
  "failures_within m order s \<Longrightarrow>
   failures_within m (st_failure_order (evict_failures bound order s)) (evict_failures bound order s)"
proof (induction bound order s rule: evict_failures.induct)
  case (1 bound s)
  then show ?case by (simp add: failures_within_def)
next
  case (2 bound oldest order s)
  show ?case
  proof (cases "bound \<le> omap_size (st_failures s)")
    case True
    with 2 show ?thesis by (simp add: evict_failure_within)
  next
    case False
    with 2(2) show ?thesis by (simp add: failures_within_def)
  qed
qed

lemma bounded_failures_step: "state_step config s t \<Longrightarrow> bounded_failures config s \<Longrightarrow> bounded_failures config t"
proof (induction rule: state_step.induct)
  case (Failures_Trimmed s)
  then show ?case
    unfolding bounded_failures_def evict_failures_if_needed_def by (rule evict_failures_within)
next
  case (Failure_Recorded ev s)
  have "omap_size (st_failures s) < max 1 (cf_max_evidence_records config)"
    using Failure_Recorded(4)
  proof
    assume "st_failure_order s = []"
    with Failure_Recorded(6) have "omap_find (st_failures s) i = None" for i
      by (cases "omap_find (st_failures s) i") (auto simp: bounded_failures_def failures_within_def)
    then show ?thesis by (simp add: omap_size_0)
  qed simp
  with Failure_Recorded(6) show ?case
    by (auto simp: bounded_failures_def failures_within_def apply_failure_def mark_source_def omap_find_put omap_size_put split: if_splits)
next
  case (Failure_Promoted s i ev)
  then show ?case
    by (auto simp: bounded_failures_def failures_within_def omap_find_put omap_size_put_known promoted_def split: if_splits)
qed (auto simp: bounded_failures_def failures_within_def frame apply_dependency_def mark_source_def core_eq_iff)

interpretation failures: spec_invariant bounded_failures
  by unfold_locales (rule bounded_failures_step)

subsection \<open>Continuity\<close>

text \<open>Full continuity is claimed only for a verified effect that followed an accepted activation, of a
  stateless service or one whose state transfer was verified.\<close>

definition continuity_earned :: "service_runtime \<Rightarrow> bool" where
  "continuity_earned sv \<longleftrightarrow> (sv_effect_verified sv \<longrightarrow> sv_activation_accepted sv) \<and>
    (sv_continuity sv = ContinuityClass_Full \<longrightarrow> sv_effect_verified sv \<and>
      (sd_statefulness (sv_descriptor sv) = Statefulness_Stateless \<or> sv_state_transfer_verified sv))"

lemma effect_continuity:
  "effect_outcome p sv (effect_seen config i stamp sv) report = Inr (outcome, sv') \<Longrightarrow> continuity_earned sv \<Longrightarrow>
   continuity_earned sv'"
  by (auto simp: effect_outcome_def continuity_earned_def effect_seen_def earned_continuity_def Let_def
      split: if_splits effect_kind.splits prod.splits)

interpretation continuity: service_invariant "\<lambda>_. continuity_earned"
proof
  show "continuity_earned sv'" if "runtime_step config sv sv'" "continuity_earned sv" for config sv sv'
    using that
  proof (induction rule: runtime_step.induct)
    case (Effected policy sv i stamp report outcome sv')
    then show ?case by (blast intro: effect_continuity)
  qed (auto simp: continuity_earned_def withdrawn_def await_operator_def ambiguity_marked_def ambiguity_cleared_def
      declared_alive_def origin_forgotten_def acknowledged_def)
qed (auto simp: continuity_earned_def new_runtime_def default_service_runtime_def frame)

end
