(* ===== verification/Authority.thy ===== *)
theory Authority
  imports Safety
begin

text \<open>
  Authority over a service: the durable fence, the active target, the current attempt and its
  history agree in every state the runtime reaches, and the fence tokens only climb.
\<close>

subsection \<open>Fences and services agree\<close>

text \<open>A service without a fence has never been placed. The fence of a placed service names its token,
  its attempt and its holder, and the history says the same of that attempt.\<close>

definition agrees :: "fence_record option \<Rightarrow> service_runtime \<Rightarrow> bool" where
  "agrees fence sv \<longleftrightarrow>
    (case fence of
       None \<Rightarrow> sv_active sv = None \<and> is_nil (sv_current_attempt sv) \<and> sv_history sv = []
     | Some f \<Rightarrow> fr_token f = sv_fence sv \<and> fr_attempt f = sv_current_attempt sv \<and> \<not> is_nil (sv_current_attempt sv) \<and>
         sv_active sv = Some (fr_holder f) \<and> sv_fallback sv = Some (fr_holder f) \<and>
         (\<forall>a \<in> set (sv_history sv). ar_id a = sv_current_attempt sv \<longrightarrow> ar_to a = fr_holder f))"

text \<open>The numbers of attempts, the current one and those of the history, are below the next one.\<close>

definition numbered :: "u64 \<Rightarrow> service_runtime \<Rightarrow> bool" where
  "numbered next_id sv \<longleftrightarrow> id_value (sv_current_attempt sv) < next_id \<and> (\<forall>a \<in> set (sv_history sv). id_value (ar_id a) < next_id)"

definition fence_agreement :: "state \<Rightarrow> bool" where
  "fence_agreement s \<longleftrightarrow> 0 < st_next_attempt_id s \<and>
    (\<forall>name sv. omap_find (st_services s) name = Some sv \<longrightarrow>
      agrees (omap_find (st_fences s) name) sv \<and> numbered (st_next_attempt_id s) sv) \<and>
    (\<forall>name f. omap_find (st_fences s) name = Some f \<longrightarrow> omap_find (st_services s) name \<noteq> None)"

definition trail :: "service_runtime \<Rightarrow> (attempt_id \<times> target_ref) list" where
  "trail sv = map (\<lambda>a. (ar_id a, ar_to a)) (sv_history sv)"

lemma agrees_trail:
  "agrees fence sv \<longleftrightarrow>
    (case fence of
       None \<Rightarrow> sv_active sv = None \<and> is_nil (sv_current_attempt sv) \<and> trail sv = []
     | Some f \<Rightarrow> fr_token f = sv_fence sv \<and> fr_attempt f = sv_current_attempt sv \<and> \<not> is_nil (sv_current_attempt sv) \<and>
         sv_active sv = Some (fr_holder f) \<and> sv_fallback sv = Some (fr_holder f) \<and>
         (\<forall>(i, to_ref) \<in> set (trail sv). i = sv_current_attempt sv \<longrightarrow> to_ref = fr_holder f))"
  by (simp add: agrees_def trail_def split: option.split)

lemma numbered_trail:
  "numbered n sv \<longleftrightarrow> id_value (sv_current_attempt sv) < n \<and> (\<forall>(i, to_ref) \<in> set (trail sv). id_value i < n)"
  by (simp add: numbered_def trail_def)

lemma authority_same:
  assumes "authority sv' = authority sv"
  shows "trail sv' = trail sv" "sv_active sv' = sv_active sv" "sv_fallback sv' = sv_fallback sv"
    "sv_fence sv' = sv_fence sv" "sv_current_attempt sv' = sv_current_attempt sv"
  using assms by (simp_all add: authority_def trail_def)

lemma agrees_authority: "authority sv' = authority sv \<Longrightarrow> agrees fence sv' = agrees fence sv"
  using authority_same [of sv' sv] by (cases fence) (simp_all add: agrees_trail)

lemma numbered_authority: "authority sv' = authority sv \<Longrightarrow> numbered n sv' = numbered n sv"
  using authority_same [of sv' sv] by (simp add: numbered_trail)

subsection \<open>A commit\<close>

lemma findD: "find P xs = Some x \<Longrightarrow> x \<in> set xs \<and> P x"
  by (induction xs) (auto split: if_splits)

lemma current_attempt_recordD:
  "current_attempt_record sv = Some a \<Longrightarrow> a \<in> set (sv_history sv) \<and> ar_id a = sv_current_attempt sv"
  unfolding current_attempt_record_def by (drule findD) simp

lemma reissued_frame [simp]: "ar_id (reissued epoch trigger a) = ar_id a" "ar_to (reissued epoch trigger a) = ar_to a"
  by (simp_all add: reissued_def)

lemma committed_attempt_frame [simp]:
  "ar_id (committed_attempt n service from' to_ref epoch stamp trigger) = Id (an_attempt n)"
  "ar_to (committed_attempt n service from' to_ref epoch stamp trigger) = to_ref"
  by (simp_all add: committed_attempt_def)

lemma recorded_attempt_entries:
  "h \<in> set (sv_history (recorded_attempt config mode a sv)) \<Longrightarrow>
   (ar_id h = ar_id a \<and> ar_to h = ar_to a) \<or> (\<exists>h' \<in> set (sv_history sv). ar_id h' = ar_id h \<and> ar_to h' = ar_to h)"
proof -
  assume h: "h \<in> set (sv_history (recorded_attempt config mode a sv))"
  have first: "\<exists>x \<in> set xs. ar_id x = ar_id y \<and> ar_to x = ar_to y"
    if "y \<in> set (update_first P (reissued epoch trigger) xs)" for y P epoch trigger xs
    using that by (induction xs) (auto split: if_splits)
  show ?thesis
  proof (cases "mode = Resume_Mode \<and> list_ex (\<lambda>h. ar_id h = ar_id a) (sv_history sv)")
    case True
    with h have "h \<in> set (update_first (\<lambda>h. ar_id h = ar_id a) (reissued (ar_epoch a) (ar_last_reason a)) (sv_history sv))"
      by (simp add: recorded_attempt_def Let_def in_set_dropD)
    then show ?thesis using first by blast
  next
    case False
    with h have "h \<in> set (sv_history sv @ [a])"
      by (auto simp: recorded_attempt_def append_attempt_def Let_def dest!: in_set_dropD)
    then show ?thesis by auto
  qed
qed

text \<open>The fence that a commit leaves names the token, the attempt and the target of the new runtime.
  A resume keeps the holder of the fence it resumes under.\<close>

lemma agrees_history:
  "agrees fence sv \<Longrightarrow> a \<in> set (sv_history sv) \<Longrightarrow> ar_id a = sv_current_attempt sv \<Longrightarrow>
   \<exists>f. fence = Some f \<and> fr_holder f = ar_to a \<and> fr_token f = sv_fence sv \<and> fr_attempt f = sv_current_attempt sv"
  by (cases fence) (auto simp: agrees_def)

lemma resume_target:
  assumes "agrees fence sv" "mode_fits Resume_Mode sv from' to_ref"
  shows "\<exists>f. fence = Some f \<and> fr_holder f = to_ref \<and> fr_token f = sv_fence sv \<and> fr_attempt f = sv_current_attempt sv"
  using assms agrees_history by (fastforce simp: mode_fits_def dest!: current_attempt_recordD)

lemma earlier_entry:
  assumes "agrees (omap_find (st_fences s) service) sv" "numbered (st_next_attempt_id s) sv"
    and "core (im_state im) = core s" "mode_fits mode sv from' to_ref" "attempt_identity mode service sv im = Inr n"
    and "h \<in> set (sv_history sv)" "ar_id h = Id (an_attempt n)"
  shows "ar_to h = to_ref"
proof (cases "mode = Resume_Mode")
  case True
  then have "ar_id h = sv_current_attempt sv" using attempt_identityD(6) [OF assms(5)] assms(7) by simp
  then show ?thesis
    using agrees_history [OF assms(1,6)] resume_target [OF assms(1), of from' to_ref] assms(4) True by auto
next
  case False
  then have "id_value (ar_id h) = st_next_attempt_id s"
    using attempt_identityD(3) [OF assms(5)] assms(3,7) by (simp add: core_eq_iff)
  then show ?thesis using assms(2,6) by (auto simp: numbered_def)
qed

lemma commit_agrees:
  assumes "agrees (omap_find (st_fences s) service) sv" "numbered (st_next_attempt_id s) sv"
    and "core (im_state im) = core s" "mode_fits mode sv from' to_ref" "attempt_identity mode service sv im = Inr n"
  shows "agrees (Some (committed_fence n service to_ref epoch stamp))
      (committed_runtime im mode n service from' to_ref stamp trigger sv)"
proof -
  have "ar_to a = to_ref"
    if "a \<in> set (sv_history (committed_runtime im mode n service from' to_ref stamp trigger sv))" "ar_id a = Id (an_attempt n)" for a
    using that recorded_attempt_entries earlier_entry [OF assms] by (fastforce simp: frame)
  moreover have "an_attempt n \<noteq> 0"
    using attempt_identityD(7) [OF assms(5)] by (simp add: id_available_def)
  ultimately show ?thesis
    by (simp add: agrees_def committed_fence_def frame is_nil_def)
qed

text \<open>The number of the attempt is below the next one, which a commit never moves back.\<close>

lemma commit_next:
  assumes "numbered (st_next_attempt_id s) sv" "core (im_state im) = core s" "attempt_identity mode service sv im = Inr n"
  shows "st_next_attempt_id s \<le> st_next_attempt_id (apply_committed mode n stamp c k s)"
    "an_attempt n < st_next_attempt_id (apply_committed mode n stamp c k s)"
proof -
  note n = attempt_identityD [OF assms(3)]
  have "an_attempt n < an_attempt n + 1" using n(7) by (intro word_succ_less) (simp add: id_available_def)
  moreover have "mode \<noteq> Resume_Mode \<Longrightarrow> an_attempt n = st_next_attempt_id s" using n(3) assms(2) by (simp add: core_eq_iff)
  moreover have "mode = Resume_Mode \<Longrightarrow> an_attempt n < st_next_attempt_id s"
    using n(6) assms(1) by (metis ident.sel numbered_def)
  ultimately show "st_next_attempt_id s \<le> st_next_attempt_id (apply_committed mode n stamp c k s)"
    "an_attempt n < st_next_attempt_id (apply_committed mode n stamp c k s)"
    by (auto simp: frame)
qed

lemma numbered_mono: "numbered n sv \<Longrightarrow> n \<le> m \<Longrightarrow> numbered m sv"
  by (auto simp: numbered_def)

lemma commit_numbered:
  assumes "numbered m sv" "an_attempt n < m"
  shows "numbered m (committed_runtime im mode n service from' to_ref stamp trigger sv)"
proof -
  have "id_value (ar_id a) < m"
    if "a \<in> set (sv_history (committed_runtime im mode n service from' to_ref stamp trigger sv))" for a
    using that recorded_attempt_entries assms by (fastforce simp: frame numbered_def)
  with assms(2) show ?thesis by (simp add: numbered_def frame)
qed

subsection \<open>The invariant\<close>

lemma fence_agreement_step: "state_step config s t \<Longrightarrow> fence_agreement s \<Longrightarrow> fence_agreement t"
proof (induction rule: state_step.induct)
  case (Service_Added s d stamp)
  then have "omap_find (st_fences s) (sd_name d) = None" by (metis fence_agreement_def not_Some_eq)
  with Service_Added show ?case
    by (auto simp: fence_agreement_def omap_find_put new_runtime_def default_service_runtime_def agrees_def
        numbered_def is_nil_def)
next
  case (Service_Changed s name sv sv')
  then show ?case
    using agrees_authority [OF runtime_step_authority] numbered_authority [OF runtime_step_authority]
    by (auto simp: fence_agreement_def omap_find_put)
next
  case (Committed im s service sv mode from' to_ref n stamp trigger k)
  let ?t = "apply_committed mode n stamp (recovery_change im mode n service from' to_ref stamp trigger sv) k s"
  have old: "agrees (omap_find (st_fences s) service) sv" "numbered (st_next_attempt_id s) sv"
    using Committed by (auto simp: fence_agreement_def)
  note up = commit_next [OF old(2) Committed(1,5)]
  have "numbered (st_next_attempt_id ?t) sv" by (rule numbered_mono [OF old(2) up(1)])
  then have "numbered (st_next_attempt_id ?t) (committed_runtime im mode n service from' to_ref stamp trigger sv)"
    by (rule commit_numbered [OF _ up(2)])
  moreover have "0 < st_next_attempt_id ?t" using up(2) by (rule le_less_trans [OF word_zero_le])
  ultimately show ?case
    using Committed commit_agrees [OF old Committed(1,4,5)] numbered_mono [OF _ up(1)]
    by (auto simp: fence_agreement_def omap_find_put frame)
qed (auto simp: fence_agreement_def small_frames core_eq_iff)

interpretation fences: spec_invariant "\<lambda>_. fence_agreement"
  by unfold_locales (rule fence_agreement_step)

subsection \<open>The order of the fences\<close>

text \<open>A map whose entries stay and only change along an order.\<close>

definition grows :: "('v \<Rightarrow> 'v \<Rightarrow> bool) \<Rightarrow> ('k::linorder, 'v) omap \<Rightarrow> ('k, 'v) omap \<Rightarrow> bool" where
  "grows R m n \<longleftrightarrow> (\<forall>k v. omap_find m k = Some v \<longrightarrow> (\<exists>w. omap_find n k = Some w \<and> R v w))"

lemma growsD: "grows R m n \<Longrightarrow> omap_find m k = Some v \<Longrightarrow> \<exists>w. omap_find n k = Some w \<and> R v w"
  by (simp add: grows_def)

lemma grows_refl: "(\<And>v. R v v) \<Longrightarrow> grows R m m"
  by (simp add: grows_def)

lemma grows_trans:
  assumes "\<And>u v w. R u v \<Longrightarrow> R v w \<Longrightarrow> R u w" "grows R m n" "grows R n l"
  shows "grows R m l"
  unfolding grows_def
proof (intro allI impI)
  fix k u
  assume "omap_find m k = Some u"
  from growsD [OF assms(2) this] obtain v where v: "omap_find n k = Some v" "R u v" by blast
  from growsD [OF assms(3) v(1)] obtain w where "omap_find l k = Some w" "R v w" by blast
  then show "\<exists>w. omap_find l k = Some w \<and> R u w" using assms(1) v(2) by blast
qed

lemma grows_put:
  "(\<And>v. R v v) \<Longrightarrow> (\<And>v. omap_find m k = Some v \<Longrightarrow> R v w) \<Longrightarrow> grows R m (omap_put k w m)"
  by (auto simp: grows_def omap_find_put)

text \<open>A fence never disappears, its token never falls, and as long as the token stays the holder and
  the attempt stay: one token names one holder.\<close>

definition fence_climbs :: "fence_record \<Rightarrow> fence_record \<Rightarrow> bool" where
  "fence_climbs f g \<longleftrightarrow> fr_token f < fr_token g \<or>
    fr_token g = fr_token f \<and> fr_holder g = fr_holder f \<and> fr_attempt g = fr_attempt f"

definition fences_climb :: "state \<Rightarrow> state \<Rightarrow> bool" where
  "fences_climb s t \<longleftrightarrow> grows fence_climbs (st_fences s) (st_fences t)"

lemma fence_climbs_refl [simp]: "fence_climbs f f"
  by (simp add: fence_climbs_def)

lemma fence_climbs_trans: "fence_climbs f g \<Longrightarrow> fence_climbs g h \<Longrightarrow> fence_climbs f h"
  by (auto simp: fence_climbs_def)

lemma commit_climbs:
  assumes "agrees (omap_find (st_fences s) service) sv" "omap_find (st_fences s) service = Some f"
    and "core (im_state im) = core s" "mode_fits mode sv from' to_ref" "attempt_identity mode service sv im = Inr n"
  shows "fence_climbs f (committed_fence n service to_ref epoch stamp)"
proof (cases "mode = Resume_Mode")
  case True
  then show ?thesis
    using resume_target [OF assms(1), of from' to_ref] assms(2,4) attempt_identityD(5,6) [OF assms(5)]
    by (auto simp: fence_climbs_def committed_fence_def)
next
  case False
  have "fence_token_of im service = fr_token f"
    using assms(2,3) by (simp add: fence_token_of_def core_eq_iff)
  then show ?thesis
    using gen_successor_greater [OF attempt_identityD(2) [OF assms(5) False]]
    by (simp add: fence_climbs_def committed_fence_def)
qed

lemma fences_climb_step: "state_step config s t \<Longrightarrow> fence_agreement s \<Longrightarrow> fences_climb s t"
proof (induction rule: state_step.induct)
  case (Committed im s service sv mode from' to_ref n stamp trigger k)
  then have "agrees (omap_find (st_fences s) service) sv" by (auto simp: fence_agreement_def)
  then show ?case
    using commit_climbs [OF _ _ Committed(1,4,5)] by (auto simp: fences_climb_def frame intro!: grows_put)
qed (simp_all add: fences_climb_def grows_refl small_frames core_eq_iff)

lemma fences_climb_order: "fences_climb s s" "fences_climb s t \<Longrightarrow> fences_climb t u \<Longrightarrow> fences_climb s u"
  unfolding fences_climb_def by (rule grows_refl) (auto intro: grows_trans fence_climbs_trans)

interpretation fence_order: spec_order "\<lambda>_. fence_agreement" fences_climb
  by unfold_locales (blast intro: fences_climb_order fences_climb_step)+

subsection \<open>Witnesses\<close>

text \<open>The witness left against a former target is never above the fence of its service.\<close>

definition witnesses_below :: "state \<Rightarrow> bool" where
  "witnesses_below s \<longleftrightarrow> (\<forall>key w. omap_find (st_witnesses s) key = Some w \<longrightarrow>
    (\<exists>f. omap_find (st_fences s) (wk_service key) = Some f \<and> fw_token w \<le> fr_token f))"

lemma witnesses_find:
  "omap_find (foldl (\<lambda>m (target, w). omap_put (Witness_Key service target) w m) ws (witness_updates n from' topology)) key =
    (if tg_valid from' \<and> key = Witness_Key service (tg_target from')
     then Some \<lparr>fw_token = an_fence n, fw_incarnation = tg_incarnation from', fw_topology_generation = topology\<rparr>
     else omap_find ws key)"
  by (simp add: witness_updates_def omap_find_put)

lemma witnesses_below_step:
  "state_step config s t \<Longrightarrow> fence_agreement s \<and> witnesses_below s \<Longrightarrow> witnesses_below t"
proof (induction rule: state_step.induct)
  case (Committed im s service sv mode from' to_ref n stamp trigger k)
  then have "agrees (omap_find (st_fences s) service) sv" by (auto simp: fence_agreement_def)
  note climb = commit_climbs [OF this _ Committed(1,4,5)]
  let ?t = "apply_committed mode n stamp (recovery_change im mode n service from' to_ref stamp trigger sv) k s"
  let ?f = "committed_fence n service to_ref (st_epoch (im_state im)) stamp"
  have fence: "omap_find (st_fences ?t) = (omap_find (st_fences s))(service \<mapsto> ?f)"
    by (simp add: frame omap_find_put)
  have "\<exists>f. omap_find (st_fences ?t) (wk_service key) = Some f \<and> fw_token w \<le> fr_token f"
    if "omap_find (st_witnesses ?t) key = Some w" for key w
  proof (cases "tg_valid from' \<and> key = Witness_Key service (tg_target from')")
    case True
    with that show ?thesis by (auto simp: fence frame witnesses_find committed_fence_def)
  next
    case False
    with that obtain f where f: "omap_find (st_fences s) (wk_service key) = Some f" "fw_token w \<le> fr_token f"
      using Committed by (auto simp: witnesses_below_def frame witnesses_find)
    moreover have "fr_token f \<le> fr_token ?f" if "wk_service key = service"
      using climb [of f "st_epoch (im_state im)" stamp] f(1) that by (auto simp: fence_climbs_def)
    ultimately show ?thesis by (auto simp: fence intro: order_trans)
  qed
  then show ?case by (simp add: witnesses_below_def)
qed (auto simp: witnesses_below_def small_frames core_eq_iff)

interpretation witnesses: spec_invariant "\<lambda>_ s. fence_agreement s \<and> witnesses_below s"
  by unfold_locales (blast intro: fence_agreement_step witnesses_below_step)

subsection \<open>Clocks, generations and watermarks\<close>

text \<open>Between two restarts the epoch and the boot stay; the tick, the topology and the policy only move
  forward; a service keeps its descriptor and never loses generations; a source keeps its role, and
  its sequence never falls back.\<close>

definition clocks_forward :: "state \<Rightarrow> state \<Rightarrow> bool" where
  "clocks_forward s t \<longleftrightarrow> st_epoch t = st_epoch s \<and> st_boot t = st_boot s \<and> st_tick s \<le> st_tick t \<and>
    st_topology_generation s \<le> st_topology_generation t \<and> st_policy_generation s \<le> st_policy_generation t \<and>
    st_next_attempt_id s \<le> st_next_attempt_id t"

definition service_forward :: "service_runtime \<Rightarrow> service_runtime \<Rightarrow> bool" where
  "service_forward sv sv' \<longleftrightarrow> sv_descriptor sv' = sv_descriptor sv \<and> sv_generation sv \<le> sv_generation sv'"

definition watermark_forward :: "source_watermark \<Rightarrow> source_watermark \<Rightarrow> bool" where
  "watermark_forward w w' \<longleftrightarrow> sw_sequence w \<le> sw_sequence w'"

definition services_forward :: "state \<Rightarrow> state \<Rightarrow> bool" where
  "services_forward s t \<longleftrightarrow> grows service_forward (st_services s) (st_services t)"

definition sources_forward :: "state \<Rightarrow> state \<Rightarrow> bool" where
  "sources_forward s t \<longleftrightarrow> grows (=) (st_sources s) (st_sources t) \<and>
    grows watermark_forward (st_watermarks s) (st_watermarks t)"

lemma forward_refl [simp]: "service_forward sv sv" "watermark_forward w w"
  by (simp_all add: service_forward_def watermark_forward_def)

lemma forward_trans:
  "service_forward sv sv' \<Longrightarrow> service_forward sv' sv'' \<Longrightarrow> service_forward sv sv''"
  "watermark_forward w w' \<Longrightarrow> watermark_forward w' w'' \<Longrightarrow> watermark_forward w w''"
  by (auto simp: service_forward_def watermark_forward_def)

lemma tick_successor_le: "tick_successor t = Some u \<Longrightarrow> t \<le> u"
  by (rule less_imp_le) (rule tick_successor_greater)

lemma clocks_forward_step: "state_step config s t \<Longrightarrow> fence_agreement s \<Longrightarrow> clocks_forward s t"
proof (induction rule: state_step.induct)
  case (Committed im s service sv mode from' to_ref n stamp trigger k)
  then have "numbered (st_next_attempt_id s) sv" by (auto simp: fence_agreement_def)
  from commit_next(1) [OF this Committed(1,5)] show ?case
    using Committed(6) by (simp add: clocks_forward_def frame tick_successor_le)
qed (auto simp: clocks_forward_def small_frames core_eq_iff tick_successor_le)

lemma services_forward_step: "state_step config s t \<Longrightarrow> services_forward s t"
proof (induction rule: state_step.induct)
  case (Service_Changed s name sv sv')
  then show ?case
    using runtime_step_frame [OF Service_Changed(2)] by (auto simp: services_forward_def service_forward_def intro!: grows_put)
next
  case (Committed im s service sv mode from' to_ref n stamp trigger k)
  have "sv_generation sv \<le> an_generation n"
    using attempt_identityD(1,4) [OF Committed(5)] gen_successor_greater less_imp_le by (cases "mode = Resume_Mode") auto
  with Committed(3) show ?case
    by (auto simp: services_forward_def service_forward_def frame intro!: grows_put)
qed (auto simp: services_forward_def small_frames core_eq_iff intro!: grows_refl grows_put)

lemma sources_forward_step: "state_step config s t \<Longrightarrow> sources_forward s t"
proof (induction rule: state_step.induct)
  case (Failure_Recorded ev s)
  then show ?case
    by (auto simp: sources_forward_def apply_failure_def mark_source_def fresh_sequence_def watermark_forward_def
        intro!: grows_put grows_refl less_imp_le)
next
  case (Dependency_Recorded b s)
  then show ?case
    by (auto simp: sources_forward_def apply_dependency_def mark_source_def fresh_sequence_def watermark_forward_def
        intro!: grows_put grows_refl less_imp_le)
qed (auto simp: sources_forward_def small_frames core_eq_iff intro!: grows_refl grows_put)

lemma services_forward_order:
  "services_forward s s" "services_forward s t \<Longrightarrow> services_forward t u \<Longrightarrow> services_forward s u"
  unfolding services_forward_def by (auto intro: grows_refl grows_trans forward_trans)

lemma sources_forward_order:
  "sources_forward s s" "sources_forward s t \<Longrightarrow> sources_forward t u \<Longrightarrow> sources_forward s u"
  unfolding sources_forward_def by (auto intro: grows_refl grows_trans forward_trans)

lemma clocks_forward_order:
  "clocks_forward s s" "clocks_forward s t \<Longrightarrow> clocks_forward t u \<Longrightarrow> clocks_forward s u"
  unfolding clocks_forward_def by auto

interpretation clock_order: spec_order "\<lambda>_. fence_agreement" clocks_forward
  by unfold_locales (blast intro: clocks_forward_order clocks_forward_step)+

interpretation service_order: spec_order "\<lambda>_ _. True" services_forward
  by unfold_locales (blast intro: services_forward_order services_forward_step)+

interpretation source_order: spec_order "\<lambda>_ _. True" sources_forward
  by unfold_locales (blast intro: sources_forward_order sources_forward_step)+

end
