(* ===== verification/Scenario.thy ===== *)
theory Scenario
  imports Authority
begin

text \<open>
  One small runtime at which the properties are applied: a stateless service on the target \<open>edge\<close>,
  a second target \<open>spare\<close> with current capability evidence, one operator and one reporter, and
  retained failure evidence against \<open>edge\<close>. It has no store.
\<close>

definition demo_name :: service_name where "demo_name = Name ''gateway''"
definition demo_operator :: source_name where "demo_operator = Name ''op''"
definition demo_reporter :: source_name where "demo_reporter = Name ''probe''"

definition demo_incarnation :: target_incarnation where
  "demo_incarnation = Target_Incarnation (Gen 1) (Gen 1)"

definition demo_target :: "string \<Rightarrow> string \<Rightarrow> target_record" where
  "demo_target name host = default_target_record\<lparr>tr_name := Name name, tr_host := Name host,
    tr_device := Name ''dpu'', tr_scope := Name ''zone'', tr_incarnation := demo_incarnation\<rparr>"

definition edge :: target_ref where "edge = \<lparr>tg_target = Name ''edge'', tg_incarnation = demo_incarnation\<rparr>"
definition spare :: target_ref where "spare = \<lparr>tg_target = Name ''spare'', tg_incarnation = demo_incarnation\<rparr>"

definition demo_capability :: capability_slot where
  "demo_capability = \<lparr>cp_evidence = default_capability_evidence\<lparr>ce_target := Name ''spare'', ce_generation := Gen 1,
    ce_incarnation := demo_incarnation\<rparr>, cp_requires_reconfirmation = False\<rparr>"

definition demo_attempt :: attempt_record where
  "demo_attempt = default_attempt_record\<lparr>ar_id := Id 1, ar_service := demo_name, ar_generation := Gen 1,
    ar_fence := Gen 1, ar_to := edge, ar_durable_committed := True, ar_acknowledged := True\<rparr>"

definition demo_runtime :: service_runtime where
  "demo_runtime = default_service_runtime
    \<lparr>sv_descriptor := default_service_descriptor\<lparr>sd_name := demo_name, sd_scope := Name ''zone''\<rparr>,
     sv_lifecycle := LifecyclePhase_Active, sv_recovery := RecoveryPhase_IntentRecorded,
     sv_active := Some edge, sv_fallback := Some edge, sv_generation := Gen 1, sv_fence := Gen 1,
     sv_current_attempt := Id 1, sv_history := [demo_attempt]\<rparr>"

definition demo_fence :: fence_record where
  "demo_fence = default_fence_record\<lparr>fr_service := demo_name, fr_token := Gen 1, fr_holder := edge, fr_attempt := Id 1\<rparr>"

definition demo_evidence :: failure_evidence where
  "demo_evidence = default_failure_evidence\<lparr>fe_id := Id 7, fe_service := demo_name, fe_target := edge,
    fe_provenance := default_provenance\<lparr>pv_source := demo_reporter, pv_sequence := Gen 1, pv_epoch := Gen 1, pv_boot := Gen 1\<rparr>\<rparr>"

definition demo_state :: state where
  "demo_state = (fresh_state default_fabric_config)
    \<lparr>st_next_attempt_id := 2,
     st_targets := omap_of [(Name ''edge'', demo_target ''edge'' ''h1''), (Name ''spare'', demo_target ''spare'' ''h2'')],
     st_capabilities := omap_of [(Name ''spare'', demo_capability)],
     st_services := omap_of [(demo_name, demo_runtime)],
     st_failures := omap_of [(Id 7, demo_evidence)], st_failure_order := [Id 7],
     st_latest_failure := omap_of [(demo_name, Id 7)],
     st_fences := omap_of [(demo_name, demo_fence)],
     st_sources := omap_of [(demo_operator, SourceRole_Operator), (demo_reporter, SourceRole_FailureReporter)],
     st_watermarks := omap_of [(demo_reporter, \<lparr>sw_sequence = Gen 1, sw_digest = zero_digest, sw_tick = Tick 0\<rparr>)]\<rparr>"

definition demo :: impl where
  "demo = (new_impl default_fabric_config \<lparr>dk_files = omap_empty, dk_script = []\<rparr>)\<lparr>im_state := demo_state, im_opened := True\<rparr>"

definition demo_failover :: failover_request where
  "demo_failover = default_failover_request\<lparr>fq_key := Id 5, fq_service := demo_name,
    fq_trigger := RecoveryTrigger_FailureEvidence, fq_evidence := Id 7, fq_requester := demo_reporter\<rparr>"

lemmas demo_names = demo_name_def demo_operator_def demo_reporter_def demo_incarnation_def edge_def spare_def demo_target_def

lemma demo_fields [simp]:
  "im_opened demo" "im_config demo = default_fabric_config" "im_state demo = demo_state" "im_store demo = None"
  "im_cancels demo = new_cancel_registry" "im_intents demo = new_intent_queue (cf_max_intent_queue default_fabric_config)"
  by (simp_all add: demo_def new_impl_def)

lemma demo_state_fields [simp]:
  "st_epoch demo_state = Gen 1" "st_boot demo_state = Gen 1" "st_tick demo_state = Tick 0"
  "st_topology_generation demo_state = initial_gen" "st_policy_generation demo_state = initial_gen"
  "st_policy demo_state = default_policy_descriptor" "st_next_attempt_id demo_state = 2"
  "st_next_lease_id demo_state = 1" "st_next_plan_id demo_state = 1" "st_next_evidence_id demo_state = 1"
  "st_dependencies demo_state = omap_empty" "st_witnesses demo_state = omap_empty"
  "st_request_cache demo_state = omap_empty" "st_request_order demo_state = []"
  "st_failure_order demo_state = [Id 7]"
  by (simp_all add: demo_state_def fresh_state_def default_fabric_config_def default_policy_descriptor_def
      valid_policy_def default_state_def)

lemma demo_lookups [simp]:
  "omap_find (st_services demo_state) name = (if name = demo_name then Some demo_runtime else None)"
  "omap_find (st_targets demo_state) target =
    (if target = Name ''edge'' then Some (demo_target ''edge'' ''h1'')
     else if target = Name ''spare'' then Some (demo_target ''spare'' ''h2'') else None)"
  "omap_find (st_capabilities demo_state) target = (if target = Name ''spare'' then Some demo_capability else None)"
  "omap_find (st_failures demo_state) i = (if i = Id 7 then Some demo_evidence else None)"
  "omap_find (st_latest_failure demo_state) name = (if name = demo_name then Some (Id 7) else None)"
  "omap_find (st_fences demo_state) name = (if name = demo_name then Some demo_fence else None)"
  "omap_find (st_sources demo_state) source = (if source = demo_operator then Some SourceRole_Operator
     else if source = demo_reporter then Some SourceRole_FailureReporter else None)"
  "omap_find (st_watermarks demo_state) source = (if source = demo_reporter
     then Some \<lparr>sw_sequence = Gen 1, sw_digest = zero_digest, sw_tick = Tick 0\<rparr> else None)"
  by (auto simp: demo_state_def omap_of_def omap_find_put demo_names)

lemma demo_named: "well_named (im_state demo)"
  by (simp add: well_named_def demo_runtime_def demo_target_def)

lemma demo_agreement: "fence_agreement (im_state demo)"
  by (simp add: fence_agreement_def demo_runtime_def demo_fence_def demo_attempt_def agrees_def numbered_def is_nil_def)

subsection \<open>A failover of the demonstration service\<close>

lemma demo_gate: "recovery_gate im demo_runtime demo_failover = Gate_Qualified (Some demo_evidence) R_AcceptQualifiedPrimaryFailure"
  if "im_state im = demo_state"
  using that
  by (simp add: recovery_gate_def demo_failover_def is_nil_def failure_of_def evidence_objections_def Let_def demo_evidence_def
      demo_runtime_def default_policy_descriptor_def default_failure_evidence_def default_provenance_def less_gen_def
      less_tick_def default_failover_request_def)

lemma demo_dependencies: "qualify_dependencies demo_runtime e im = ((R_Ok, e), im)" if "im_state im = demo_state"
  using that
  by (simp add: qualify_dependencies_def demo_runtime_def default_service_descriptor_def traverse.simps visit_node_def
      default_policy_descriptor_def)

lemma demo_targets: "entries (st_targets demo_state) =
    [(Name ''edge'', demo_target ''edge'' ''h1''), (Name ''spare'', demo_target ''spare'' ''h2'')]"
  by (simp add: demo_state_def omap_of_def entries_put less_name_def)

lemma demo_candidate: "evaluate_candidate im demo_runtime (demo_target ''spare'' ''h2'') = R_Ok" if "im_state im = demo_state"
  using that
  by (simp add: evaluate_candidate_def Let_def demo_target_def demo_runtime_def demo_incarnation_def is_initial_def
      witness_of_def capability_of_def demo_capability_def contains_all_def default_capability_set_def
      latest_failure_of_def failure_of_def is_nil_def demo_evidence_def edge_def default_service_descriptor_def
      default_capability_evidence_def)

lemma demo_select:
  "select_fallback demo_runtime edge e im = ((R_Ok, Some (demo_target ''spare'' ''h2''), e), im)"
  if "im_state im = demo_state" "im_config im = default_fabric_config"
proof -
  have "ordered_candidates im demo_runtime edge = [demo_target ''spare'' ''h2'']"
    using that(1) by (simp add: ordered_candidates_def demo_targets edge_def demo_runtime_def tg_valid_def)
  moreover have "candidate_ceiling im = 32"
    using that by (simp add: candidate_ceiling_def default_policy_descriptor_def default_fabric_config_def)
  ultimately show ?thesis
    using that by (simp add: select_fallback_def demo_candidate Let_def)
qed

lemma demo_identity:
  "attempt_identity Failover_Mode demo_name demo_runtime im =
    Inr \<lparr>an_generation = Gen 2, an_fence = Gen 2, an_term = Gen 1, an_attempt = 2, an_lease = 1, an_plan = 1\<rparr>"
  if "im_state im = demo_state"
  using that
  by (simp add: attempt_identity_def next_numbers_def demo_runtime_def gen_successor_def fence_token_of_def demo_fence_def
      default_service_runtime_def id_available_def Let_def)

lemma demo_plan:
  "\<exists>plan. build_plan im demo_runtime edge (demo_target ''spare'' ''h2'') e = (R_Ok, plan, e)"
  if "im_state im = demo_state" "im_config im = default_fabric_config"
  using that
  by (simp add: build_plan_def required_steps_def demo_runtime_def default_service_descriptor_def Let_def
      default_fabric_config_def default_policy_descriptor_def)

definition demo_numbers :: attempt_numbers where
  "demo_numbers = \<lparr>an_generation = Gen 2, an_fence = Gen 2, an_term = Gen 1, an_attempt = 2, an_lease = 1, an_plan = 1\<rparr>"

definition demo_change :: runtime_change where
  "demo_change = recovery_change demo Failover_Mode demo_numbers demo_name edge spare (Tick 1)
    R_AcceptQualifiedPrimaryFailure demo_runtime"

lemma demo_change_same:
  "recovery_change im Failover_Mode demo_numbers demo_name edge spare (Tick 1) R_AcceptQualifiedPrimaryFailure demo_runtime =
    demo_change" if "im_state im = demo_state" "im_config im = default_fabric_config"
  using that by (simp add: demo_change_def recovery_change_def committed_runtime_def remember_origin_def capability_of_def Let_def)

lemma demo_change_within: "within 2000 (encode_runtime_change demo_change)"
    apply (simp add: demo_change_def recovery_change_def committed_runtime_def recorded_attempt_def append_attempt_def default_fabric_config_def
        Let_def remember_origin_def
        capability_of_def invalidate_verification_def demo_runtime_def default_service_runtime_def
        default_service_descriptor_def edge_def spare_def tg_valid_def demo_name_def witness_updates_def demo_numbers_def
        committed_fence_def committed_attempt_def demo_attempt_def default_attempt_record_def default_target_ref_def
        encode_runtime_change_def encode_service_runtime_def encode_service_descriptor_def encode_name_def encode_gen_def
        encode_flags_def encode_optional_def encode_attempt_history_def put_enum_def encode_capability_set_def
        encode_precondition_set_def encode_target_ref_def encode_target_incarnation_def encode_lease_record_def
        encode_attempt_record_def encode_fence_record_def encode_witness_def name_empty_def encode_id_def encode_tick_def
        put_presence_def)
    apply (rule within_le)
     apply (rule within_rules | simp add: encode_attempt_record_def encode_target_ref_def encode_target_incarnation_def
        encode_name_def encode_gen_def encode_id_def encode_tick_def put_enum_def)+
    done

lemma demo_change_encodes: "encoded (encode_runtime_change demo_change) \<noteq> None"
  by (rule within_encoded [OF demo_change_within]) simp

subsection \<open>The call\<close>

text \<open>The runtime while the request is in flight.\<close>

definition demo_running :: impl where
  "demo_running = demo\<lparr>im_cancels := snd (cn_begin (Id 5) 2048 new_cancel_registry)\<rparr>"

lemma demo_running_fields [simp]:
  "im_state demo_running = demo_state" "im_config demo_running = default_fabric_config" "im_opened demo_running"
  "im_store demo_running = None" "im_intents demo_running = new_intent_queue (cf_max_intent_queue default_fabric_config)"
  by (simp_all add: demo_running_def)

lemma demo_begin: "begin_request (Id 5) demo = (R_Ok, demo_running)"
  by (simp add: begin_request_def is_nil_def demo_running_def cn_begin_def new_cancel_registry_def default_fabric_config_def Let_def)

lemma demo_guard: "commit_guard (Id 5) demo_running = R_Ok"
  by (simp add: commit_guard_def is_nil_def cn_guard_def demo_running_def cn_begin_def new_cancel_registry_def Let_def)

lemma after_commit_Ok: "cr_code (fst (fst (after_commit mode n request to from' stamp plan change k e im))) = R_Ok"
  by (simp add: after_commit_def Let_def split: prod.split)

text \<open>Without a store, a commit whose guards pass succeeds.\<close>

lemma commit_succeeds:
  assumes "peek_tick im = Some stamp" "commit_guard (fq_key request) im = R_Ok"
    and "attempt_identity mode (fq_service request) runtime im = Inr n" "build_plan im runtime from' to e = (R_Ok, plan, e1)"
    and "encoded (encode_runtime_change (recovery_change im mode n (fq_service request) from'
      \<lparr>tg_target = tr_name to, tg_incarnation = tr_incarnation to\<rparr> stamp trigger runtime)) \<noteq> None" "im_store im = None"
  shows "\<exists>result e' im'. commit_recovery request runtime to from' trigger mode e im = ((result, e'), im') \<and> cr_code result = R_Ok"
proof -
  obtain plan' change k where "commit_recovery request runtime to from' trigger mode e im =
      after_commit mode n request to from' stamp plan' change k e1 im"
    using assms by (simp add: commit_recovery_def Let_def persist_def)
  with after_commit_Ok show ?thesis by (metis fst_conv surj_pair)
qed

lemma demo_committed:
  "\<exists>result e' im'. commit_recovery demo_failover demo_runtime (demo_target ''spare'' ''h2'') edge
    R_AcceptQualifiedPrimaryFailure Failover_Mode e demo_running = ((result, e'), im') \<and> cr_code result = R_Ok"
proof -
  have to: "\<lparr>tg_target = tr_name (demo_target ''spare'' ''h2''), tg_incarnation = tr_incarnation (demo_target ''spare'' ''h2'')\<rparr> = spare"
    "fq_service demo_failover = demo_name" "fq_key demo_failover = Id 5"
    by (simp_all add: demo_target_def spare_def demo_failover_def)
  obtain plan where plan: "build_plan demo_running demo_runtime edge (demo_target ''spare'' ''h2'') e = (R_Ok, plan, e)"
    using demo_plan by fastforce
  have enc: "encoded (encode_runtime_change (recovery_change demo_running Failover_Mode demo_numbers (fq_service demo_failover)
      edge \<lparr>tg_target = tr_name (demo_target ''spare'' ''h2''), tg_incarnation = tr_incarnation (demo_target ''spare'' ''h2'')\<rparr>
      (Tick 1) R_AcceptQualifiedPrimaryFailure demo_runtime)) \<noteq> None"
    unfolding to using demo_change_encodes demo_change_same [of demo_running] by simp
  have "attempt_identity Failover_Mode (fq_service demo_failover) demo_runtime demo_running = Inr demo_numbers"
    by (simp add: to demo_identity demo_numbers_def)
  from commit_succeeds [OF _ _ this plan enc] show ?thesis
    by (simp add: peek_tick_def tick_successor_def to demo_guard)
qed

lemma demo_answer:
  "\<exists>d im'. request_failover demo_failover demo = (d, im') \<and> dc_accepted d \<and> \<not> dc_duplicate d"
proof -
  have r: "fq_key demo_failover = Id 5" "fq_service demo_failover = demo_name"
    by (simp_all add: demo_failover_def)
  have sv: "sv_lifecycle demo_runtime = LifecyclePhase_Active" "sv_active demo_runtime = Some edge"
    "sv_attempts_since_verified demo_runtime = 0" "\<not> ps_contains (sd_preconditions (sv_descriptor demo_runtime)) c" for c
    by (simp_all add: demo_runtime_def default_service_runtime_def default_service_descriptor_def ps_contains_def
        default_precondition_set_def)
  let ?e = "note_step R_AcceptFallbackCapabilityCompatible (str (tr_name (demo_target ''spare'' ''h2'')))
    txt_fallback_capability_set_covers_the_required_set
    (case capability_of demo_running (tr_name (demo_target ''spare'' ''h2'')) of
       None \<Rightarrow> 0 | Some slot \<Rightarrow> gen_value (ce_generation (cp_evidence slot)))
    (note_step R_AcceptQualifiedPrimaryFailure (str demo_name) txt_failure_evidence_qualified
      (id_value (fe_id demo_evidence)) (begin_explanation demo_name (Id 5) demo_running))"
  obtain result e' im' where commit: "commit_recovery demo_failover demo_runtime (demo_target ''spare'' ''h2'') edge
      R_AcceptQualifiedPrimaryFailure Failover_Mode ?e demo_running = ((result, e'), im')" "cr_code result = R_Ok"
    using demo_committed [of ?e] by blast
  have "request_failover demo_failover demo =
    (case accepted R_AcceptIntentEmitted (Some sa_failovers_accepted_update) result e' im' of (decision, im2) \<Rightarrow>
      (decision, im2\<lparr>im_cancels := cn_release_if_active (Id 5) (im_cancels im2)\<rparr>))"
    using commit
    by (simp add: request_failover_def keyed_request_def r cached_def is_nil_def demo_begin Let_def
        do_request_failover_def service_of_def sv demo_gate default_policy_descriptor_def
        do_recover_def demo_dependencies demo_select)
  then show ?thesis by (simp add: accepted_def Let_def default_recovery_decision_def)
qed

subsection \<open>A resume of the same service\<close>

text \<open>The capability of \<open>edge\<close> is confirmed and its failure is no longer the latest one.\<close>

definition stranded :: impl where
  "stranded = in_state (\<lambda>s. s\<lparr>st_capabilities := omap_put (Name ''edge'')
    (demo_capability\<lparr>cp_evidence := (cp_evidence demo_capability)\<lparr>ce_target := Name ''edge''\<rparr>\<rparr>) (st_capabilities s),
    st_latest_failure := omap_empty\<rparr>) demo"

definition demo_resume :: failover_request where
  "demo_resume = default_failover_request\<lparr>fq_service := demo_name, fq_requester := demo_operator\<rparr>"

lemma demo_resume_fields: "fq_key demo_resume = nil_id" "fq_service demo_resume = demo_name" "fq_requester demo_resume = demo_operator"
  by (simp_all add: demo_resume_def default_failover_request_def)

lemma stranded_fields:
  "im_opened stranded" "im_config stranded = default_fabric_config" "im_store stranded = None"
  "st_services (im_state stranded) = st_services demo_state" "st_targets (im_state stranded) = st_targets demo_state"
  "st_fences (im_state stranded) = st_fences demo_state" "st_sources (im_state stranded) = st_sources demo_state"
  "st_witnesses (im_state stranded) = omap_empty" "st_tick (im_state stranded) = Tick 0"
  "st_topology_generation (im_state stranded) = initial_gen" "st_latest_failure (im_state stranded) = omap_empty"
  "st_next_attempt_id (im_state stranded) = 2" "st_next_lease_id (im_state stranded) = 1" "st_next_plan_id (im_state stranded) = 1"
  "st_policy (im_state stranded) = default_policy_descriptor" "st_epoch (im_state stranded) = Gen 1"
  "omap_find (st_capabilities (im_state stranded)) (Name ''edge'') =
    Some (demo_capability\<lparr>cp_evidence := (cp_evidence demo_capability)\<lparr>ce_target := Name ''edge''\<rparr>\<rparr>)"
  by (simp_all add: stranded_def)

lemma stranded_named: "well_named (im_state stranded)"
  using demo_named by (simp add: well_named_def stranded_fields)

lemma stranded_agreement: "fence_agreement (im_state stranded)"
  using demo_agreement by (simp add: fence_agreement_def stranded_fields)

lemma stranded_candidate: "evaluate_candidate stranded demo_runtime (demo_target ''edge'' ''h1'') = R_Ok"
  by (simp add: evaluate_candidate_def Let_def stranded_fields demo_target_def demo_runtime_def demo_incarnation_def is_initial_def
      witness_of_def capability_of_def demo_capability_def contains_all_def default_capability_set_def
      latest_failure_of_def default_service_descriptor_def default_capability_evidence_def)

lemma stranded_resumable: "resumable stranded demo_runtime demo_resume = Inr (demo_attempt, demo_target ''edge'' ''h1'')"
proof -
  have "sv_recovery demo_runtime = RecoveryPhase_IntentRecorded" "current_attempt_record demo_runtime = Some demo_attempt"
    "ar_to demo_attempt = edge" "tg_target edge = Name ''edge''" "tg_incarnation edge = tr_incarnation (demo_target ''edge'' ''h1'')"
    by (simp_all add: demo_runtime_def current_attempt_record_def demo_attempt_def edge_def demo_target_def)
  then show ?thesis
    by (simp add: resumable_def Let_def stranded_candidate role_satisfies_def role_of_def target_of_def stranded_fields
        demo_resume_fields)
qed

definition resume_numbers :: attempt_numbers where
  "resume_numbers = \<lparr>an_generation = Gen 1, an_fence = Gen 1, an_term = Gen 1, an_attempt = 1, an_lease = 1, an_plan = 1\<rparr>"

lemma stranded_identity: "attempt_identity Resume_Mode demo_name demo_runtime im = Inr resume_numbers"
  if "im = in_state (bump c) stranded"
  using that
  by (simp add: attempt_identity_def next_numbers_def demo_runtime_def default_service_runtime_def id_available_def Let_def
      stranded_fields resume_numbers_def bump_def)

lemma stranded_change_encodes: "encoded (encode_runtime_change (recovery_change (in_state (bump c) stranded) Resume_Mode
    resume_numbers demo_name default_target_ref edge (Tick 1) R_AcceptRecoveryReissueSameFence demo_runtime)) \<noteq> None"
proof (rule within_encoded)
  show "within 2000 (encode_runtime_change (recovery_change (in_state (bump c) stranded) Resume_Mode
      resume_numbers demo_name default_target_ref edge (Tick 1) R_AcceptRecoveryReissueSameFence demo_runtime))"
    apply (simp add: recovery_change_def committed_runtime_def recorded_attempt_def append_attempt_def default_fabric_config_def
        Let_def remember_origin_def stranded_fields reissued_def bump_def
        capability_of_def invalidate_verification_def demo_runtime_def default_service_runtime_def
        default_service_descriptor_def edge_def tg_valid_def demo_name_def witness_updates_def resume_numbers_def
        committed_fence_def committed_attempt_def demo_attempt_def default_attempt_record_def default_target_ref_def
        encode_runtime_change_def encode_service_runtime_def encode_service_descriptor_def encode_name_def encode_gen_def
        encode_flags_def encode_optional_def encode_attempt_history_def put_enum_def encode_capability_set_def
        encode_precondition_set_def encode_target_ref_def encode_target_incarnation_def encode_lease_record_def
        encode_attempt_record_def encode_fence_record_def encode_witness_def name_empty_def encode_id_def encode_tick_def
        put_presence_def)
    apply (rule within_le)
     apply (rule within_rules | simp add: encode_attempt_record_def encode_target_ref_def encode_target_incarnation_def
        encode_name_def encode_gen_def encode_id_def encode_tick_def put_enum_def)+
    done
qed simp

lemma stranded_committed:
  "\<exists>result e' im'. commit_recovery demo_resume demo_runtime (demo_target ''edge'' ''h1'') default_target_ref
    R_AcceptRecoveryReissueSameFence Resume_Mode e (in_state (bump c) stranded) = ((result, e'), im') \<and> cr_code result = R_Ok"
proof -
  let ?im = "in_state (bump c) stranded"
  have to: "\<lparr>tg_target = tr_name (demo_target ''edge'' ''h1''), tg_incarnation = tr_incarnation (demo_target ''edge'' ''h1'')\<rparr> = edge"
    by (simp add: demo_target_def edge_def)
  have plan: "\<exists>plan. build_plan ?im demo_runtime default_target_ref (demo_target ''edge'' ''h1'') e = (R_Ok, plan, e)"
    by (simp add: build_plan_def required_steps_def demo_runtime_def default_service_descriptor_def Let_def stranded_fields
        default_fabric_config_def default_policy_descriptor_def bump_def)
  then obtain plan where plan: "build_plan ?im demo_runtime default_target_ref (demo_target ''edge'' ''h1'') e = (R_Ok, plan, e)"
    by blast
  have enc: "encoded (encode_runtime_change (recovery_change ?im Resume_Mode resume_numbers (fq_service demo_resume)
      default_target_ref \<lparr>tg_target = tr_name (demo_target ''edge'' ''h1''), tg_incarnation = tr_incarnation (demo_target ''edge'' ''h1'')\<rparr>
      (Tick 1) R_AcceptRecoveryReissueSameFence demo_runtime)) \<noteq> None"
    unfolding to demo_resume_fields by (rule stranded_change_encodes)
  have "attempt_identity Resume_Mode (fq_service demo_resume) demo_runtime ?im = Inr resume_numbers"
    unfolding demo_resume_fields by (rule stranded_identity) simp
  from commit_succeeds [OF _ _ this plan enc] show ?thesis
    by (simp add: peek_tick_def tick_successor_def demo_resume_fields stranded_fields commit_guard_def is_nil_def bump_def)
qed

lemma stranded_answer:
  "\<exists>d im'. resume_recovery demo_resume stranded = (d, im') \<and> dc_accepted d \<and> \<not> dc_duplicate d"
proof -
  have sv: "sv_lifecycle demo_runtime = LifecyclePhase_Active" "ar_from demo_attempt = default_target_ref"
    by (simp_all add: demo_runtime_def demo_attempt_def default_attempt_record_def)
  let ?e = "note_step R_AcceptRecoveryReissueSameFence (str (tr_name (demo_target ''edge'' ''h1'')))
    txt_re_issuing_the_persisted_attempt_under_the_new (gen_value (ar_fence demo_attempt))
    (begin_explanation demo_name nil_id stranded)"
  obtain result e' im' where "commit_recovery demo_resume demo_runtime (demo_target ''edge'' ''h1'') default_target_ref
      R_AcceptRecoveryReissueSameFence Resume_Mode ?e (in_state (bump sa_recovery_reissues_update) stranded) = ((result, e'), im')"
      "cr_code result = R_Ok"
    using stranded_committed [of ?e] by blast
  then have "resume_recovery demo_resume stranded =
    (case accepted R_AcceptIntentEmitted None result e' im' of (decision, im2) \<Rightarrow>
      (decision, im2\<lparr>im_cancels := cn_release_if_active nil_id (im_cancels im2)\<rparr>))"
    by (simp add: resume_recovery_def keyed_request_def demo_resume_fields cached_def is_nil_def begin_request_def Let_def
        do_request_failover_def service_of_def sv stranded_fields do_resume_def stranded_resumable)
  then show ?thesis by (simp add: accepted_def Let_def default_recovery_decision_def)
qed

end
