(* ===== verification/Guarantees.thy ===== *)
theory Guarantees
  imports Scenario
begin

text \<open>
  What the runtime promises over every sequence of public calls: refinement of the transition
  system, the agreement and the order of fences, the bounds, continuity, and what a restart keeps.
\<close>

subsection \<open>Refinement\<close>



subsection \<open>Authority\<close>





text \<open>What the verdict on a claim says, field by field.\<close>

lemma verdict_code:
  "fv_code (verify_fence check im) =
    (case omap_find (st_fences (im_state im)) (fk_service check) of
       None \<Rightarrow> R_NoAuthority
     | Some f \<Rightarrow>
         if fk_presented check < fr_token f then R_FenceStale
         else if fr_token f < fk_presented check then R_FenceRegression
         else if fk_holder check \<noteq> fr_holder f then R_FenceHeldByOther
         else if \<exists>w. witness_of im (fk_service check) (tg_target (fk_holder check)) = Some w \<and>
                tg_incarnation (fk_holder check) \<le> fw_incarnation w then R_FallbackFenced
         else R_AcceptFenceAdvanced)"
  by (auto simp: verify_fence_def Let_def default_fence_verdict_def split: option.splits)

lemma verdict_authorized:
  "fv_authorized (verify_fence check im) \<longleftrightarrow> fv_code (verify_fence check im) = R_AcceptFenceAdvanced"
  by (auto simp: verify_fence_def Let_def default_fence_verdict_def split: option.splits)

lemma verdict_current:
  assumes "omap_find (st_fences (im_state im)) (fk_service check) = Some f"
  shows "fv_current (verify_fence check im) = fr_token f" "fv_current_holder (verify_fence check im) = fr_holder f"
  using assms by (auto simp: verify_fence_def Let_def)



definition demo_claim :: fence_check where
  "demo_claim = \<lparr>fk_service = demo_name, fk_holder = edge, fk_presented = initial_gen\<rparr>"


subsection \<open>Bounds, continuity, clocks\<close>


lemma demo_sizes: "omap_size (st_sources demo_state) = 2" "omap_size (st_services demo_state) = 1"
    "omap_size (st_targets demo_state) = 2" "omap_size (st_failures demo_state) = 1"
  by (simp_all add: demo_state_def omap_of_def omap_size_put demo_names)



text \<open>The demonstration service after a verified effect on \<open>edge\<close>.\<close>

definition verified_demo :: impl where
  "verified_demo = in_state (\<lambda>s. s\<lparr>st_services := omap_put demo_name (demo_runtime\<lparr>sv_effect_verified := True,
    sv_activation_accepted := True, sv_continuity := ContinuityClass_Full\<rparr>) (st_services s)\<rparr>) demo"


text \<open>Time only moves forward between two restarts: over any sequence of public calls the coordinator epoch and the boot stay, the tick, the topology generation, the policy generation and the attempt counter never fall, an enrolled source keeps its role and its evidence sequence never falls, and a service keeps its descriptor and never loses a failover generation.\<close>

theorem clocks_only_advance:
  assumes "well_named (im_state im)" "fence_agreement (im_state im)" and "s = im_state im" "t = im_state (perform_all ops im)"
  shows "st_epoch t = st_epoch s \<and> st_boot t = st_boot s \<and> st_tick s \<le> st_tick t \<and>
    st_topology_generation s \<le> st_topology_generation t \<and> st_policy_generation s \<le> st_policy_generation t \<and>
    st_next_attempt_id s \<le> st_next_attempt_id t \<and>
    (\<forall>source role. omap_find (st_sources s) source = Some role \<longrightarrow> omap_find (st_sources t) source = Some role) \<and>
    (\<forall>source w. omap_find (st_watermarks s) source = Some w \<longrightarrow>
      (\<exists>w'. omap_find (st_watermarks t) source = Some w' \<and> sw_sequence w \<le> sw_sequence w')) \<and>
    (\<forall>name sv. omap_find (st_services s) name = Some sv \<longrightarrow>
      (\<exists>sv'. omap_find (st_services t) name = Some sv' \<and> sv_descriptor sv' = sv_descriptor sv \<and>
        sv_generation sv \<le> sv_generation sv'))"
proof -
  have e: "evolves im (perform_all ops im)" by (rule perform_all_evolves [OF assms(1)])
  have "clocks_forward s t" "services_forward s t" "sources_forward s t"
    using clock_order.order_evolved [OF e] service_order.order_evolved [OF e] source_order.order_evolved [OF e] assms(2-4)
    by blast+
  then show ?thesis
    by (simp add: clocks_forward_def services_forward_def sources_forward_def grows_def service_forward_def
        watermark_forward_def)
qed

theorem clocks_only_advance_witness:
  "Tick 0 \<le> st_tick (im_state (perform_all [Failover demo_failover, Take_Intent] demo))"
  using clocks_only_advance [OF demo_named demo_agreement refl refl, of "[Failover demo_failover, Take_Intent]"] by simp

end
