(* ===== verification/Daemon_Properties.thy ===== *)
theory Daemon_Properties
  imports Daemon Channel_Properties Guarantees
begin

text \<open>
  The promises of the daemon: whatever its peers send and however its threads interleave, the runtime
  changes only by public calls, the resources stay within the configured bounds, every connection ends,
  and a stopped daemon runs to completion.
\<close>

subsection \<open>A request is at most one call\<close>

definition called :: "impl \<Rightarrow> impl \<Rightarrow> bool" where
  "called im im' \<longleftrightarrow> im' = im \<or> (\<exists>op. im' = perform op im)"

lemma called_refl [simp]: "called im im"
  by (simp add: called_def)

lemma called_perform [simp]: "called im (perform op im)"
  by (auto simp: called_def)

lemma called_perform_all: "called im im' \<Longrightarrow> \<exists>ops. im' = perform_all ops im"
  by (auto simp: called_def intro: exI [of _ "[]"] exI [of _ "[op]" for op])

lemma called_rules:
  "(\<And>x im. post (\<lambda>_. called im) (run x im)) \<Longrightarrow> post (\<lambda>_. called im) (with_body d body run im)"
  "(\<And>im. post (\<lambda>_. called im) (run' im)) \<Longrightarrow> post (\<lambda>_. called im) (without_body body run' im)"
  "post (\<lambda>_. called im) (answered text im)"
  "(\<And>im. snd (operation im) = perform op im) \<Longrightarrow> post (\<lambda>_. called im) (by_reason operation im)"
  "(\<And>im. snd (decision im) = perform op im) \<Longrightarrow> post (\<lambda>_. called im) (by_decision decision im)"
  "(\<And>x im. post (\<lambda>_. called im) (run'' x im)) \<Longrightarrow> post (\<lambda>_. called im) (checked_enum table v run'' im)"
  by (auto simp: with_body_def without_body_def answered_def by_reason_def by_decision_def checked_enum_def
      post_def split: prod.splits option.splits) (metis called_perform snd_conv)+

lemma pull_intent_called: "post (\<lambda>_. called im) (pull_intent im)"
proof -
  have "called im (snd (take_intent im))" using called_perform [of im Take_Intent] by simp
  then show ?thesis by (auto simp: pull_intent_def answered_def post_def split: prod.splits option.splits)
qed

lemma execute_ingest_called: "post (\<lambda>_. called im) (execute_ingest k body im)"
  by (cases k)
    (auto simp: execute_ingest_def intro!: called_rules intro: perform.simps [symmetric] split: prod.splits)

lemma execute_request_called: "post (\<lambda>_. called im) (execute_request q im)"
  unfolding execute_request_def Let_def
  by (cases "wq_kind q")
    (auto simp: execute_placement_def execute_failover_def execute_resolution_def execute_failback_def
      execute_acknowledgement_def execute_verify_def Let_def execute_ingest_called pull_intent_called
      intro!: called_rules intro: perform.simps [symmetric] split: prod.splits)

lemma answer_request_called: "called im (snd (answer_request data im))"
  using execute_request_called by (auto simp: answer_request_def Let_def post_def split: sum.splits prod.splits)
    (metis snd_conv)+

lemma handle_frame_called: "called im (snd (handle_frame f im))"
proof -
  have "called im (snd (cancel (Id key) im))" for key using called_perform [of im "Cancel (Id key)"] by simp
  with answer_request_called show ?thesis
    by (auto simp: handle_frame_def split_beta split: wire_message.splits option.splits)
qed

lemma serve_step_called: "called im (snd (snd (serve_step o' sn im)))"
  using handle_frame_called
  by (auto simp: serve_step_def split_beta split: session_phase.splits sum.splits)

subsection \<open>The runtime of a daemon\<close>

definition ran_out :: "daemon \<Rightarrow> bool" where
  "ran_out dn \<longleftrightarrow> (dn_finished dn \<longrightarrow> \<not> dn_accepting dn \<and> (\<forall>w \<in> set (dn_workers dn). w = Exited))"

lemma release_frame [simp]:
  "dn_impl (release i dn) = dn_impl dn" "dn_finished (release i dn) = dn_finished dn"
  "dn_accepting (release i dn) = dn_accepting dn" "dn_options (release i dn) = dn_options dn"
  "dn_queue (release i dn) = dn_queue dn" "length (dn_workers (release i dn)) = length (dn_workers dn)"
  by (auto simp: release_def set_worker_def split: worker.splits)

lemma begin_shutdown_frame [simp]:
  "dn_impl (begin_shutdown dn) = dn_impl dn" "dn_finished (begin_shutdown dn) = dn_finished dn"
  "dn_accepting (begin_shutdown dn) = dn_accepting dn" "dn_options (begin_shutdown dn) = dn_options dn"
  "dn_queue (begin_shutdown dn) = dn_queue dn" "dn_live (begin_shutdown dn) = dn_live dn"
  "length (dn_workers (begin_shutdown dn)) = length (dn_workers dn)"
  by (simp_all add: begin_shutdown_def)

lemma set_worker_frame [simp]:
  "dn_impl (set_worker i w dn) = dn_impl dn" "dn_finished (set_worker i w dn) = dn_finished dn"
  "dn_accepting (set_worker i w dn) = dn_accepting dn" "dn_options (set_worker i w dn) = dn_options dn"
  "dn_queue (set_worker i w dn) = dn_queue dn" "dn_live (set_worker i w dn) = dn_live dn"
  "dn_workers (set_worker i w dn) = (dn_workers dn)[i := w]"
  by (simp_all add: set_worker_def)

lemma stop_accepting_frame [simp]:
  "dn_impl (stop_accepting dn) = dn_impl dn" "dn_finished (stop_accepting dn) = dn_finished dn"
  "\<not> dn_accepting (stop_accepting dn)" "dn_options (stop_accepting dn) = dn_options dn"
  "dn_workers (stop_accepting dn) = dn_workers dn" "dn_live (stop_accepting dn) = dn_live dn"
  "dn_accepted (stop_accepting dn) = dn_accepted dn" "dn_rejected (stop_accepting dn) = dn_rejected dn"
  "dn_queue (stop_accepting dn) = aq_close (dn_queue dn)"
  by (simp_all add: stop_accepting_def)

lemma worker_step_frame:
  "dn_finished (worker_step i dn) = dn_finished dn" "dn_accepting (worker_step i dn) = dn_accepting dn"
  "dn_options (worker_step i dn) = dn_options dn"
  by (simp_all add: worker_step_def split_beta Let_def split: worker.splits popped.splits)

lemma worker_step_called: "called (dn_impl dn) (dn_impl (worker_step i dn))"
  using serve_step_called by (auto simp: worker_step_def split_beta Let_def split: worker.splits popped.splits)

lemma worker_step_exited: "\<forall>w \<in> set (dn_workers dn). w = Exited \<Longrightarrow> worker_step i dn = dn"
proof -
  assume "\<forall>w \<in> set (dn_workers dn). w = Exited"
  then have "i < length (dn_workers dn) \<Longrightarrow> dn_workers dn ! i = Exited" by simp
  then show ?thesis by (simp add: worker_step_def)
qed

lemma accept_frame [simp]:
  "dn_impl (accept_connection sk dn) = dn_impl dn" "dn_finished (accept_connection sk dn) = dn_finished dn"
  "dn_options (accept_connection sk dn) = dn_options dn" "dn_workers (accept_connection sk dn) = dn_workers dn"
  by (simp_all add: accept_connection_def split_beta Let_def)

lemma daemon_step_ran_out: "ran_out dn \<Longrightarrow> ran_out (daemon_step ev dn)"
  by (cases ev) (auto simp: daemon_step_def ran_out_def worker_step_frame worker_step_exited)

text \<open>One step: at most one public call while the daemon runs, and at the end the runtime is closed.\<close>

lemma daemon_step_calls:
  assumes "ran_out dn"
  shows "(dn_finished dn \<longrightarrow> dn_finished (daemon_step ev dn) \<and> dn_impl (daemon_step ev dn) = dn_impl dn) \<and>
    (\<not> dn_finished dn \<longrightarrow>
      (if dn_finished (daemon_step ev dn) then dn_impl (daemon_step ev dn) = snd (fabric_close (dn_impl dn))
       else called (dn_impl dn) (dn_impl (daemon_step ev dn))))"
proof (cases ev)
  case (Works i)
  then show ?thesis
    using assms worker_step_called [of dn i] worker_step_exited [of dn i]
    by (auto simp: daemon_step_def worker_step_frame ran_out_def)
qed (use assms in \<open>auto simp: daemon_step_def ran_out_def\<close>)

definition closed_if :: "bool \<Rightarrow> impl \<Rightarrow> impl" where
  "closed_if finished im = (if finished then snd (fabric_close im) else im)"

lemma daemon_run_calls:
  assumes "ran_out dn" "\<not> dn_finished dn"
  shows "ran_out (daemon_run evs dn) \<and>
    (\<exists>ops. dn_impl (daemon_run evs dn) = closed_if (dn_finished (daemon_run evs dn)) (perform_all ops (dn_impl dn)))"
proof (induction evs rule: rev_induct)
  case Nil
  show ?case using assms by (auto simp: daemon_run_def closed_if_def intro: exI [of _ "[]"])
next
  case (snoc ev evs)
  let ?dn = "daemon_run evs dn"
  obtain ops where ops: "ran_out ?dn" "dn_impl ?dn = closed_if (dn_finished ?dn) (perform_all ops (dn_impl dn))"
    using snoc by blast
  have next_one: "daemon_run (evs @ [ev]) dn = daemon_step ev ?dn" by (simp add: daemon_run_def)
  have "\<exists>ops. dn_impl (daemon_step ev ?dn) = closed_if (dn_finished (daemon_step ev ?dn)) (perform_all ops (dn_impl dn))"
  proof (cases "dn_finished ?dn \<or> dn_finished (daemon_step ev ?dn)")
    case True
    with daemon_step_calls [OF ops(1), of ev] ops(2) show ?thesis
      by (cases "dn_finished ?dn") (auto simp: closed_if_def intro: exI [of _ ops])
  next
    case False
    with daemon_step_calls [OF ops(1), of ev] obtain ops' where "dn_impl (daemon_step ev ?dn) = perform_all ops' (dn_impl ?dn)"
      using called_perform_all by metis
    with False ops(2) show ?thesis by (auto simp: closed_if_def intro: exI [of _ "ops @ ops'"] simp flip: perform_all_append)
  qed
  with daemon_step_ran_out [OF ops(1)] show ?case by (simp add: next_one)
qed

lemma daemon_run_finished: "ran_out dn \<Longrightarrow> dn_finished dn \<Longrightarrow>
    ran_out (daemon_run evs dn) \<and> dn_finished (daemon_run evs dn) \<and> dn_impl (daemon_run evs dn) = dn_impl dn"
  using daemon_step_calls daemon_step_ran_out by (induction evs rule: rev_induct) (simp_all add: daemon_run_def)

lemma daemon_run_state:
  assumes "ran_out dn"
  shows "\<exists>ops. im_state (dn_impl (daemon_run evs dn)) = im_state (perform_all ops (dn_impl dn))"
proof (cases "dn_finished dn")
  case True
  with daemon_run_finished [OF assms] show ?thesis by (metis perform_all_simps(1))
next
  case False
  with daemon_run_calls [OF assms, of evs] show ?thesis by (auto simp: closed_if_def fabric_close_def)
qed

lemma daemon_start_open:
  assumes "daemon_start arguments d listener = Inr dn"
  obtains o' im where "parse_options arguments default_daemon_options = Some o'"
    "fabric_open (new_impl (daemon_config o') d) = (R_Ok, im)" "listener"
    "dn = \<lparr>dn_options = o', dn_impl = im, dn_listening = True, dn_stopping = False, dn_accepting = True,
       dn_queue = new_accept_queue (dp_max_connections o'), dn_workers = replicate (dp_workers o') Idle,
       dn_live = 0, dn_accepted = 0, dn_rejected = 0, dn_finished = False\<rparr>"
  using assms by (auto simp: daemon_start_def split: option.splits prod.splits if_splits)

text \<open>A daemon without a store.\<close>

definition demo_daemon :: daemon where
  "demo_daemon = (case daemon_start [] \<lparr>dk_files = omap_empty, dk_script = []\<rparr> True of Inr dn \<Rightarrow> dn | Inl _ \<Rightarrow> undefined)"

lemma demo_daemon_start: "daemon_start [] \<lparr>dk_files = omap_empty, dk_script = []\<rparr> True = Inr demo_daemon"
  by (simp add: demo_daemon_def daemon_start_def default_daemon_options_def daemon_config_def fabric_open_def new_impl_def
      default_fabric_config_def Let_def split_beta)

definition demo_daemon_with :: "impl \<Rightarrow> daemon" where
  "demo_daemon_with im = \<lparr>dn_options = default_daemon_options, dn_impl = im, dn_listening = True, dn_stopping = False,
      dn_accepting = True, dn_queue = new_accept_queue 32, dn_workers = replicate 4 Idle,
      dn_live = 0, dn_accepted = 0, dn_rejected = 0, dn_finished = False\<rparr>"

lemma demo_daemon_is: "\<exists>im. demo_daemon = demo_daemon_with im"
  using demo_daemon_start by (rule daemon_start_open) (auto simp: default_daemon_options_def demo_daemon_with_def)

text \<open>C13: The daemon adds nothing to the runtime. Whatever connections arrive, whatever bytes they carry, however their writes fail and however the acceptor and the workers interleave, the runtime of a daemon is the one that some sequence of public calls makes of the runtime it opened, closed once the daemon has finished.\<close>

theorem daemon_runs_public_calls:
  assumes "daemon_start arguments d listener = Inr dn"
  shows "\<exists>ops. dn_impl (daemon_run evs dn) =
    (if dn_finished (daemon_run evs dn) then snd (fabric_close (perform_all ops (dn_impl dn))) else perform_all ops (dn_impl dn))"
proof -
  have "ran_out dn" "\<not> dn_finished dn" using assms by (auto elim!: daemon_start_open simp: ran_out_def)
  from daemon_run_calls [OF this, of evs] show ?thesis by (auto simp: closed_if_def)
qed

theorem daemon_runs_public_calls_witness:
  "\<exists>ops. dn_impl (daemon_run [Accept_Fails, Works 0, Joined] demo_daemon) =
    (if dn_finished (daemon_run [Accept_Fails, Works 0, Joined] demo_daemon)
     then snd (fabric_close (perform_all ops (dn_impl demo_daemon))) else perform_all ops (dn_impl demo_daemon))"
  by (rule daemon_runs_public_calls [OF demo_daemon_start])



subsection \<open>Bounds\<close>

lemma send_loop_arriving: "send_loop data sk = (ok, sk') \<Longrightarrow> sk_arriving sk' = sk_arriving sk"
proof (induction data sk arbitrary: ok sk' rule: send_loop.induct)
  case (1 data sk)
  obtain w sk1 where n: "next_send (min (length data) 0x100000) sk = (w, sk1)" by (cases "next_send (min (length data) 0x100000) sk")
  have v: "sk_arriving sk1 = sk_arriving sk"
    using n by (auto simp: next_send_def split: list.splits send_outcome.splits if_splits)
  show ?case
  proof (cases w)
    case None
    with 1(2) n v show ?thesis unfolding send_loop.simps [of data sk] by (simp split: if_split_asm)
  next
    case (Some k)
    have "sk_arriving sk' = sk_arriving sk1" if "data \<noteq> []"
      using 1(1) [OF that n [symmetric] Some, of ok sk'] 1(2) n Some that by (simp add: send_loop.simps [of data sk])
    with 1(2) v show ?thesis by (cases "data = []") (simp_all add: send_loop.simps)
  qed
qed

lemma send_frame_keeps:
  "send_frame f ch = (ok, ch') \<Longrightarrow> pending ch' = pending ch \<and> ch_buffer ch' = ch_buffer ch \<and> ch_max_payload ch' = ch_max_payload ch"
  by (auto simp: send_frame_def send_all_def pending_def split: sum.splits prod.splits if_splits dest: send_loop_arriving)

lemma send_frame_keeps_snd: "pending (snd (send_frame f ch)) = pending ch"
  by (metis prod.collapse send_frame_keeps)

text \<open>What a connection can hold in memory.\<close>

definition buffer_bounded :: "daemon_options \<Rightarrow> channel \<Rightarrow> bool" where
  "buffer_bounded o' ch \<longleftrightarrow> ch_max_payload ch = dp_max_frame o' \<and> length (ch_buffer ch) \<le> dp_max_frame o' + kWireHeaderBytes"

lemma fill_bounded:
  assumes "fill needed ch = (ok, ch')" "buffer_bounded o' ch"
  shows "buffer_bounded o' ch'"
  using assms(1)
proof (cases rule: fill_cases)
  case (filled bs sk)
  then show ?thesis using recv_exact_split [OF filled(2)] assms(2) by (simp add: buffer_bounded_def)
qed (use assms(2) in \<open>auto simp: buffer_bounded_def compacted_def\<close>)

lemma recv_frame_bounded: "buffer_bounded o' ch \<Longrightarrow> buffer_bounded o' (snd (recv_frame ch))"
proof -
  assume b: "buffer_bounded o' ch"
  obtain ok ch1 where 1: "fill kWireHeaderBytes ch = (ok, ch1)" by (cases "fill kWireHeaderBytes ch")
  obtain ok2 ch2 where 2: "fill (kWireHeaderBytes + unat (read_u32 (drop 16 (buffered ch1)))) ch1 = (ok2, ch2)"
    by (cases "fill (kWireHeaderBytes + unat (read_u32 (drop 16 (buffered ch1)))) ch1")
  have b1: "buffer_bounded o' ch1" using fill_bounded [OF 1 b] .
  have "buffer_bounded o' (ch2\<lparr>ch_begin := n\<rparr>)" "buffer_bounded o' ch2" for n
    using fill_bounded [OF 2 b1] by (simp_all add: buffer_bounded_def)
  with b1 show ?thesis by (auto simp: recv_frame_def 1 2 Let_def split: sum.splits)
qed

lemma send_frame_bounded: "buffer_bounded o' ch \<Longrightarrow> buffer_bounded o' (snd (send_frame f ch))"
  using send_frame_keeps [of f ch] by (cases "send_frame f ch") (simp add: buffer_bounded_def)

lemma greet_bounded: "buffer_bounded o' ch \<Longrightarrow> buffer_bounded o' (sn_channel (greet ch))"
  using recv_frame_bounded [of o' ch]
  by (auto simp: greet_def send_error_def split_beta intro: send_frame_bounded split: sum.splits option.splits)

lemma reply_bounded: "buffer_bounded o' ch \<Longrightarrow> buffer_bounded o' (sn_channel (snd (reply o' c k p ch)))"
  using send_frame_bounded [of o' ch] by (auto simp: reply_def split_beta split: sum.splits)

lemma serve_step_bounded:
  assumes "buffer_bounded o' (sn_channel sn)"
  shows "buffer_bounded o' (sn_channel (fst (snd (serve_step o' sn im))))"
  using assms recv_frame_bounded [OF assms] greet_bounded [OF assms] send_frame_bounded [OF assms] reply_bounded [OF assms]
  by (auto simp: serve_step_def split_beta split: session_phase.splits sum.splits)

text \<open>The connections a worker counts for.\<close>

definition live_worker :: "worker \<Rightarrow> bool" where
  "live_worker w \<longleftrightarrow> (case w of Idle \<Rightarrow> False | Exited \<Rightarrow> False | _ \<Rightarrow> True)"

definition live_workers :: "worker list \<Rightarrow> nat" where
  "live_workers ws = length (filter live_worker ws)"

definition worker_bounded :: "daemon_options \<Rightarrow> worker \<Rightarrow> bool" where
  "worker_bounded o' w \<longleftrightarrow> (case w of Serving sn \<Rightarrow> buffer_bounded o' (sn_channel sn) | _ \<Rightarrow> True)"

definition daemon_bounded :: "daemon \<Rightarrow> bool" where
  "daemon_bounded dn \<longleftrightarrow>
    length (dn_workers dn) = dp_workers (dn_options dn) \<and>
    length (aq_entries (dn_queue dn)) \<le> aq_capacity (dn_queue dn) \<and>
    aq_capacity (dn_queue dn) = max 1 (dp_max_connections (dn_options dn)) \<and>
    dn_live dn = int (length (aq_entries (dn_queue dn)) + live_workers (dn_workers dn)) \<and>
    (\<forall>w \<in> set (dn_workers dn). worker_bounded (dn_options dn) w)"

lemma live_workers_update:
  assumes "i < length ws"
  shows "int (live_workers (ws[i := w])) = int (live_workers ws) - of_bool (live_worker (ws ! i)) + of_bool (live_worker w)"
proof -
  have "ws = take i ws @ ws ! i # drop (Suc i) ws" using assms by (simp add: id_take_nth_drop)
  from arg_cong [OF this, of live_workers]
  have "live_workers ws = live_workers (take i ws) + of_bool (live_worker (ws ! i)) + live_workers (drop (Suc i) ws)"
    by (simp add: live_workers_def)
  moreover have "live_workers (ws[i := w]) = live_workers (take i ws) + of_bool (live_worker w) + live_workers (drop (Suc i) ws)"
    using assms by (simp add: upd_conv_take_nth_drop live_workers_def)
  ultimately show ?thesis by simp
qed

lemma interrupt_worker_simps [simp]:
  "live_worker (interrupt_worker w) = live_worker w" "worker_bounded o' (interrupt_worker w) = worker_bounded o' w"
  by (simp_all add: live_worker_def worker_bounded_def interrupt_worker_def interrupt_session_def buffer_bounded_def split: worker.splits)

lemma set_worker_bounded: "\<forall>w \<in> set ws. P w \<Longrightarrow> P v \<Longrightarrow> \<forall>w \<in> set (ws[i := v]). P w"
  by (auto dest: set_update_subset_insert [THEN subsetD])

lemma daemon_bounded_update:
  assumes "daemon_bounded dn" "i < length (dn_workers dn)" "worker_bounded (dn_options dn) w"
    and "dn_workers dn' = (dn_workers dn)[i := w]" "dn_options dn' = dn_options dn"
    and "aq_capacity (dn_queue dn') = aq_capacity (dn_queue dn)"
    and "length (aq_entries (dn_queue dn')) \<le> length (aq_entries (dn_queue dn))"
    and "dn_live dn' - int (length (aq_entries (dn_queue dn'))) - of_bool (live_worker w) =
      dn_live dn - int (length (aq_entries (dn_queue dn))) - of_bool (live_worker (dn_workers dn ! i))"
  shows "daemon_bounded dn'"
proof -
  have "\<forall>v \<in> set ((dn_workers dn)[i := w]). worker_bounded (dn_options dn) v"
    using assms(1,3) by (intro set_worker_bounded) (simp_all add: daemon_bounded_def)
  with assms live_workers_update [OF assms(2), of w] show ?thesis by (simp add: daemon_bounded_def)
qed

lemma release_bounded:
  assumes "daemon_bounded dn" "i < length (dn_workers dn)"
  shows "daemon_bounded (release i dn)"
proof (cases "\<exists>sn. dn_workers dn ! i = Serving sn \<and> sn_phase sn = Ended")
  case True
  then obtain sn where "dn_workers dn ! i = Serving sn" "sn_phase sn = Ended" by blast
  then show ?thesis
    by (intro daemon_bounded_update [OF assms, of Idle]) (simp_all add: release_def worker_bounded_def live_worker_def)
next
  case False
  with assms(1) show ?thesis by (auto simp: release_def split: worker.splits)
qed

lemma begin_shutdown_bounded: "daemon_bounded dn \<Longrightarrow> daemon_bounded (begin_shutdown dn)"
  by (auto simp: daemon_bounded_def begin_shutdown_def live_workers_def filter_map comp_def)

lemma serving_bounded:
  "daemon_bounded dn \<Longrightarrow> i < length (dn_workers dn) \<Longrightarrow> dn_workers dn ! i = Serving sn \<Longrightarrow> buffer_bounded (dn_options dn) (sn_channel sn)"
  using nth_mem [of i "dn_workers dn"] by (fastforce simp: daemon_bounded_def worker_bounded_def)

lemma worker_step_serving:
  assumes "i < length (dn_workers dn)" "dn_workers dn ! i = Serving sn" "serve_step (dn_options dn) sn (dn_impl dn) = (stop, sn', im)"
  shows "worker_step i dn = release i ((if stop then begin_shutdown else id) (set_worker i (Serving sn') dn\<lparr>dn_impl := im\<rparr>))"
  using assms by (simp add: worker_step_def Let_def)

lemma worker_step_bounded:
  assumes "daemon_bounded dn"
  shows "daemon_bounded (worker_step i dn)"
proof (cases "i < length (dn_workers dn)")
  case True
  note update = daemon_bounded_update [OF assms True]
  show ?thesis
  proof (cases "dn_workers dn ! i")
    case Idle
    show ?thesis
    proof (cases "aq_entries (dn_queue dn)")
      case Nil
      show ?thesis
      proof (cases "aq_closed (dn_queue dn)")
        case True
        with Idle Nil \<open>i < _\<close> show ?thesis
          by (intro update [of Exited]) (simp_all add: worker_step_def aq_pop_def worker_bounded_def live_worker_def)
      qed (use assms Idle Nil True in \<open>simp add: worker_step_def aq_pop_def\<close>)
    next
      case (Cons sk sks)
      with Idle True show ?thesis
        by (intro update [of "Taken sk"]) (simp_all add: worker_step_def aq_pop_def worker_bounded_def live_worker_def)
    qed
  next
    case (Taken sk)
    let ?sn = "new_session (dn_options dn) sk"
    have "buffer_bounded (dn_options dn) (sn_channel ?sn)"
      by (simp add: buffer_bounded_def new_session_def new_channel_def)
    with Taken True show ?thesis
      by (intro update [of "Serving ?sn"]) (simp_all add: worker_step_def worker_bounded_def live_worker_def)
  next
    case (Serving sn)
    obtain stop sn' im where s: "serve_step (dn_options dn) sn (dn_impl dn) = (stop, sn', im)" by (cases "serve_step (dn_options dn) sn (dn_impl dn)")
    from serve_step_bounded [OF serving_bounded [OF assms True Serving], of "dn_impl dn"] s
    have "buffer_bounded (dn_options dn) (sn_channel sn')" by simp
    then have "daemon_bounded (set_worker i (Serving sn') dn\<lparr>dn_impl := im\<rparr>)"
      using Serving by (intro update [of "Serving sn'"]) (simp_all add: worker_bounded_def live_worker_def)
    then show ?thesis
      unfolding worker_step_serving [OF True Serving s]
      using True by (cases stop) (auto intro!: release_bounded begin_shutdown_bounded)
  qed (use assms True in \<open>simp add: worker_step_def\<close>)
qed (use assms in \<open>simp add: worker_step_def\<close>)

lemma accept_connection_bounded: "daemon_bounded dn \<Longrightarrow> daemon_bounded (accept_connection sk dn)"
  by (auto simp: accept_connection_def aq_push_def Let_def stop_accepting_def aq_close_def daemon_bounded_def)

lemma daemon_step_bounded: "daemon_bounded dn \<Longrightarrow> daemon_bounded (daemon_step ev dn)"
  by (cases ev) (auto simp: daemon_step_def worker_step_bounded accept_connection_bounded,
    simp_all add: stop_accepting_def aq_close_def daemon_bounded_def)

lemma daemon_run_bounded: "daemon_bounded dn \<Longrightarrow> daemon_bounded (daemon_run evs dn)"
  by (induction evs rule: rev_induct) (simp_all add: daemon_run_def daemon_step_bounded)

lemma endpoint_bounded: "parse_endpoint text = Some (host, port) \<Longrightarrow> port \<le> 65535"
  by (auto simp: parse_endpoint_def split: option.splits if_splits prod.splits)

lemma bounded_number_bounds: "bounded_number most text = Some n \<Longrightarrow> 1 \<le> n \<and> n \<le> most"
  by (auto simp: bounded_number_def unat_gt_0 Suc_le_eq split: option.splits if_splits)

definition options_bounded :: "daemon_options \<Rightarrow> bool" where
  "options_bounded o' \<longleftrightarrow> dp_port o' \<le> 65535 \<and> 1 \<le> dp_workers o' \<and> dp_workers o' \<le> 64 \<and>
    1 \<le> dp_max_connections o' \<and> dp_max_connections o' \<le> 4096 \<and> 1 \<le> dp_max_frame o' \<and> dp_max_frame o' \<le> kAbsoluteMaxFramePayload"

lemma valued_option_bounded:
  "valued_option argument = Some set_value \<Longrightarrow> set_value value o' = Some o'' \<Longrightarrow> options_bounded o' \<Longrightarrow> options_bounded o''"
  by (auto simp: valued_option_def options_bounded_def dest!: bounded_number_bounds endpoint_bounded split: if_splits)

lemma parse_options_bounded: "parse_options arguments o' = Some o'' \<Longrightarrow> options_bounded o' \<Longrightarrow> options_bounded o''"
proof (induction arguments o' rule: parse_options.induct)
  case (2 argument rest o')
  have "options_bounded (o'\<lparr>dp_allow_remote_shutdown := b\<rparr>)" "options_bounded (o'\<lparr>dp_announce_ready := b\<rparr>)" for b
    using 2(5) by (simp_all add: options_bounded_def)
  with 2 valued_option_bounded show ?case
    by (auto split: if_split_asm list.split_asm option.split_asm)
qed simp

text \<open>C30: The resources of the daemon are bounded before any work is admitted. After any events a daemon has the configured 1 to 64 workers, at most the configured 1 to 4096 queued connections, every connection buffers at most one frame of the configured size, which is at most the absolute limit, and the live connections it counts are exactly the queued ones and those its workers hold, so that the counter never goes below zero.\<close>

theorem daemon_resources_bounded:
  assumes "daemon_start arguments d listener = Inr dn"
  shows "let dn' = daemon_run evs dn; o' = dn_options dn' in
    o' = dn_options dn \<and> 1 \<le> dp_workers o' \<and> dp_workers o' \<le> 64 \<and> length (dn_workers dn') = dp_workers o' \<and>
    dp_max_connections o' \<le> 4096 \<and> length (aq_entries (dn_queue dn')) \<le> dp_max_connections o' \<and>
    dp_max_frame o' \<le> kAbsoluteMaxFramePayload \<and>
    (\<forall>sn. Serving sn \<in> set (dn_workers dn') \<longrightarrow> length (ch_buffer (sn_channel sn)) \<le> dp_max_frame o' + kWireHeaderBytes) \<and>
    dn_live dn' = int (length (aq_entries (dn_queue dn')) + live_workers (dn_workers dn'))"
proof -
  obtain o' im where start: "parse_options arguments default_daemon_options = Some o'"
    "dn = \<lparr>dn_options = o', dn_impl = im, dn_listening = True, dn_stopping = False, dn_accepting = True,
       dn_queue = new_accept_queue (dp_max_connections o'), dn_workers = replicate (dp_workers o') Idle,
       dn_live = 0, dn_accepted = 0, dn_rejected = 0, dn_finished = False\<rparr>"
    using assms by (rule daemon_start_open)
  have "options_bounded default_daemon_options"
    by (simp add: options_bounded_def default_daemon_options_def kDefaultMaxFramePayload_def kAbsoluteMaxFramePayload_def)
  with start(1) have o': "options_bounded o'" by (rule parse_options_bounded)
  have "live_workers (replicate n Idle) = 0" for n by (simp add: live_workers_def live_worker_def)
  with o' have "daemon_bounded dn"
    by (auto simp: start(2) daemon_bounded_def new_accept_queue_def options_bounded_def worker_bounded_def)
  from daemon_run_bounded [OF this, of evs]
  have b: "daemon_bounded (daemon_run evs dn)" .
  have same: "dn_options (daemon_run evs dn) = o'"
    by (induction evs rule: rev_induct)
      (auto simp: start(2) daemon_run_def daemon_step_def worker_step_frame split: daemon_event.splits)
  have "length (ch_buffer (sn_channel sn)) \<le> dp_max_frame o' + kWireHeaderBytes" if "Serving sn \<in> set (dn_workers (daemon_run evs dn))" for sn
    using b that same by (force simp: daemon_bounded_def worker_bounded_def buffer_bounded_def)
  with b same o' show ?thesis by (simp add: daemon_bounded_def options_bounded_def Let_def start(2))
qed

theorem daemon_resources_bounded_witness:
  "dp_workers (dn_options (daemon_run [Accept_Fails, Works 0] demo_daemon)) \<le> 64 \<and>
    length (dn_workers (daemon_run [Accept_Fails, Works 0] demo_daemon)) = dp_workers (dn_options demo_daemon)"
  using daemon_resources_bounded [OF demo_daemon_start, of "[Accept_Fails, Works 0]"] by (metis (no_types, lifting))

subsection \<open>Every connection ends\<close>

fun phase_weight :: "nat \<Rightarrow> session_phase \<Rightarrow> nat" where
  "phase_weight n Greeting = 3 * n + 1"
| "phase_weight n (Welcoming _) = 3 * n + 2"
| "phase_weight n Awaiting = 3 * n + 1"
| "phase_weight n (Handling _) = 3 * n + 3"
| "phase_weight n (Replying _ _ _) = 3 * n + 2"
| "phase_weight n Ended = 0"

definition session_weight :: "session \<Rightarrow> nat" where
  "session_weight sn = phase_weight (length (pending (sn_channel sn))) (sn_phase sn)"

lemma session_weight_simps [simp]:
  "session_weight \<lparr>sn_channel = ch, sn_phase = phase\<rparr> = phase_weight (length (pending ch)) phase"
  by (simp add: session_weight_def)

lemma greet_weight: "session_weight (greet ch) < 3 * length (pending ch) + 1"
proof (cases "recv_frame ch")
  case (Pair x ch')
  show ?thesis
  proof (cases x)
    case (Inr f)
    with Pair recv_frame_pending [of ch f ch'] show ?thesis
      by (auto simp: greet_def split: option.splits)
  qed (simp add: greet_def Pair)
qed

lemma reply_weight: "session_weight (snd (reply o' c k p ch)) < 3 * length (pending ch) + 2"
  by (auto simp: reply_def split_beta send_frame_keeps_snd split: sum.splits)

lemma handle_frame_weight: "phase_weight n (fst (handle_frame f im)) < 3 * n + 3"
  by (auto simp: handle_frame_def split_beta split: wire_message.splits option.splits)

lemma serve_step_weight:
  assumes "sn_phase sn \<noteq> Ended"
  shows "session_weight (fst (snd (serve_step o' sn im))) < session_weight sn"
proof (cases "sn_phase sn")
  case Greeting
  then show ?thesis using greet_weight [of "sn_channel sn"] by (simp add: serve_step_def session_weight_def)
next
  case (Welcoming c)
  then show ?thesis
    by (auto simp: serve_step_def session_weight_def split_beta send_frame_keeps_snd)
next
  case Awaiting
  obtain x ch where r: "recv_frame (sn_channel sn) = (x, ch)" by (cases "recv_frame (sn_channel sn)")
  with Awaiting recv_frame_pending show ?thesis
    by (cases x) (fastforce simp: serve_step_def session_weight_def)+
next
  case (Handling f)
  then show ?thesis using handle_frame_weight [of "length (pending (sn_channel sn))" f im]
    by (simp add: serve_step_def session_weight_def split_beta)
next
  case (Replying c k p)
  then show ?thesis using reply_weight [of o' c k p "sn_channel sn"] by (simp add: serve_step_def session_weight_def split_beta)
qed (use assms in simp)

text \<open>A session beside other users of the runtime, which is in any state at each of its steps.\<close>

definition serve_among :: "daemon_options \<Rightarrow> impl list \<Rightarrow> session \<Rightarrow> session" where
  "serve_among o' ims sn = fold (\<lambda>im sn. fst (snd (serve_step o' sn im))) ims sn"

lemma serve_among_weight: "sn_phase (serve_among o' ims sn) = Ended \<or> session_weight (serve_among o' ims sn) + length ims \<le> session_weight sn"
proof (induction ims arbitrary: sn)
  case (Cons im ims)
  show ?case
  proof (cases "sn_phase sn = Ended")
    case True
    then have "serve_among o' ims' sn = sn" for ims' by (induction ims') (simp_all add: serve_among_def serve_step_def)
    with True show ?thesis by simp
  next
    case False
    from Cons [of "fst (snd (serve_step o' sn im))"] serve_step_weight [OF False, of o' im] show ?thesis
      by (auto simp: serve_among_def)
  qed
qed (simp add: serve_among_def)



subsection \<open>A stopped daemon finishes\<close>

fun worker_weight :: "worker \<Rightarrow> nat" where
  "worker_weight Exited = 0"
| "worker_weight Idle = 1"
| "worker_weight (Taken sk) = 3 * length (concat (sk_arriving sk)) + 4"
| "worker_weight (Serving sn) = session_weight sn + 2"

text \<open>The steps the workers can still take once no connection is accepted any more.\<close>

definition work_left :: "daemon \<Rightarrow> nat" where
  "work_left dn = sum_list (map (\<lambda>sk. 3 * length (concat (sk_arriving sk)) + 4) (aq_entries (dn_queue dn))) +
    sum_list (map worker_weight (dn_workers dn))"

lemma interrupt_worker_weight [simp]: "worker_weight (interrupt_worker w) = worker_weight w" "interrupt_worker w = Exited \<longleftrightarrow> w = Exited"
  by (cases w; simp add: interrupt_worker_def interrupt_session_def session_weight_def pending_def socket_interrupt_def socket_close_def)+

lemma weight_update:
  assumes "i < length ws"
  shows "sum_list (map worker_weight (ws[i := w])) + worker_weight (ws ! i) = sum_list (map worker_weight ws) + worker_weight w"
proof -
  have "ws = take i ws @ ws ! i # drop (Suc i) ws" using assms by (simp add: id_take_nth_drop)
  from arg_cong [OF this, of "\<lambda>ws. sum_list (map worker_weight ws)"] show ?thesis
    using assms by (simp add: upd_conv_take_nth_drop)
qed

lemma work_left_begin_shutdown [simp]: "work_left (begin_shutdown dn) = work_left dn"
  by (simp add: work_left_def begin_shutdown_def comp_def)

lemma work_left_release:
  "i < length (dn_workers dn) \<Longrightarrow> work_left (release i dn) \<le> work_left dn"
  using weight_update [of i "dn_workers dn" Idle]
  by (auto simp: work_left_def release_def session_weight_def split: worker.splits)

lemma release_ended:
  "i < length (dn_workers dn) \<Longrightarrow> dn_workers dn ! i = Serving sn \<Longrightarrow> sn_phase sn = Ended \<Longrightarrow> work_left (release i dn) < work_left dn"
  using weight_update [of i "dn_workers dn" Idle] by (auto simp: work_left_def release_def)

lemma worker_step_weight:
  assumes "aq_closed (dn_queue dn)" "i < length (dn_workers dn)" "dn_workers dn ! i \<noteq> Exited"
  shows "work_left (worker_step i dn) < work_left dn"
proof (cases "dn_workers dn ! i")
  case Idle
  then show ?thesis
    using assms weight_update [OF assms(2), of Exited] weight_update [OF assms(2), of "Taken (hd (aq_entries (dn_queue dn)))"]
    by (cases "aq_entries (dn_queue dn)") (simp_all add: worker_step_def aq_pop_def work_left_def)
next
  case (Taken sk)
  then show ?thesis
    using assms weight_update [OF assms(2), of "Serving (new_session (dn_options dn) sk)"]
    by (simp add: worker_step_def work_left_def new_session_def new_channel_def pending_def buffered_def)
next
  case (Serving sn)
  obtain stop sn' im where s: "serve_step (dn_options dn) sn (dn_impl dn) = (stop, sn', im)" by (cases "serve_step (dn_options dn) sn (dn_impl dn)")
  let ?dn = "set_worker i (Serving sn') dn\<lparr>dn_impl := im\<rparr>"
  have w: "work_left ?dn + session_weight sn = work_left dn + session_weight sn'"
    using weight_update [OF assms(2), of "Serving sn'"] Serving by (simp add: work_left_def)
  show ?thesis
  proof (cases "sn_phase sn = Ended")
    case True
    then have "sn' = sn" "stop = False" using s by (auto simp: serve_step_def)
    with w True release_ended [of i ?dn sn] assms(2) show ?thesis
      unfolding worker_step_serving [OF assms(2) Serving s] by simp
  next
    case False
    with serve_step_weight [of sn "dn_options dn" "dn_impl dn"] s w have "work_left ?dn < work_left dn" by simp
    with work_left_release [of i ?dn] work_left_release [of i "begin_shutdown ?dn"] assms(2) show ?thesis
      unfolding worker_step_serving [OF assms(2) Serving s] by (cases stop) auto
  qed
qed (use assms in simp)

lemma worker_step_keeps:
  "length (dn_workers (worker_step i dn)) = length (dn_workers dn)"
  "aq_closed (dn_queue (worker_step i dn)) = aq_closed (dn_queue dn)"
  "j \<noteq> i \<Longrightarrow> j < length (dn_workers dn) \<Longrightarrow> dn_workers (worker_step i dn) ! j = Exited \<longleftrightarrow> dn_workers dn ! j = Exited"
  by (simp_all add: worker_step_def aq_pop_def release_def begin_shutdown_def set_worker_def split_beta Let_def
      split: worker.splits popped.splits list.splits)

lemma worker_step_weight_le: "aq_closed (dn_queue dn) \<Longrightarrow> work_left (worker_step i dn) \<le> work_left dn"
  using worker_step_weight [of dn i] by (cases "i < length (dn_workers dn) \<and> dn_workers dn ! i \<noteq> Exited") (auto simp: worker_step_def)

definition worker_round :: "nat list \<Rightarrow> daemon \<Rightarrow> daemon" where
  "worker_round order dn = fold worker_step order dn"

lemma worker_round_keeps:
  "length (dn_workers (worker_round order dn)) = length (dn_workers dn)"
  "aq_closed (dn_queue (worker_round order dn)) = aq_closed (dn_queue dn)"
  "dn_accepting (worker_round order dn) = dn_accepting dn" "dn_finished (worker_round order dn) = dn_finished dn"
  by (induction order arbitrary: dn) (simp_all add: worker_round_def worker_step_keeps worker_step_frame)

lemma worker_round_le: "aq_closed (dn_queue dn) \<Longrightarrow> work_left (worker_round order dn) \<le> work_left dn"
proof (induction order arbitrary: dn)
  case (Cons j order)
  have "work_left (worker_round order (worker_step j dn)) \<le> work_left (worker_step j dn)"
    using Cons by (simp add: worker_step_keeps)
  with worker_step_weight_le [OF Cons.prems, of j] show ?case by (simp add: worker_round_def)
qed (simp add: worker_round_def)

lemma worker_round_weight:
  "aq_closed (dn_queue dn) \<Longrightarrow> i \<in> set order \<Longrightarrow> i < length (dn_workers dn) \<Longrightarrow> dn_workers dn ! i \<noteq> Exited \<Longrightarrow>
   work_left (worker_round order dn) < work_left dn"
proof (induction order arbitrary: dn)
  case (Cons j order)
  have step: "worker_round (j # order) dn = worker_round order (worker_step j dn)" by (simp add: worker_round_def)
  show ?case
  proof (cases "j = i")
    case True
    with worker_round_le [of "worker_step j dn" order] worker_step_weight [of dn i] Cons.prems show ?thesis
      unfolding step by (simp add: worker_step_keeps)
  next
    case False
    with Cons.IH [of "worker_step j dn"] worker_step_weight_le [of dn j] Cons.prems show ?thesis
      by (simp add: step worker_step_keeps)
  qed
qed simp

lemma worker_round_exited: "\<forall>w \<in> set (dn_workers dn). w = Exited \<Longrightarrow> worker_round order dn = dn"
  by (induction order) (simp_all add: worker_round_def worker_step_exited)

lemma rounds_exit:
  assumes "aq_closed (dn_queue dn)" "set order = {..<length (dn_workers dn)}" "work_left dn \<le> n"
  shows "\<forall>w \<in> set (dn_workers ((worker_round order ^^ n) dn)). w = Exited"
  using assms
proof (induction n arbitrary: dn)
  case 0
  have "\<not> (\<exists>i < length (dn_workers dn). dn_workers dn ! i \<noteq> Exited)" using worker_step_weight [OF 0(1)] 0(3) by fastforce
  then show ?case by (auto simp: in_set_conv_nth)
next
  case (Suc n)
  show ?case
  proof (cases "\<forall>w \<in> set (dn_workers dn). w = Exited")
    case True
    then have "(worker_round order ^^ k) dn = dn" for k by (induction k) (simp_all add: worker_round_exited)
    with True show ?thesis by metis
  next
    case False
    then obtain i where "i < length (dn_workers dn)" "dn_workers dn ! i \<noteq> Exited" by (auto simp: in_set_conv_nth)
    with worker_round_weight [OF Suc(2), of i order] Suc(3,4) have "work_left (worker_round order dn) \<le> n" by auto
    from Suc.IH [OF _ _ this] Suc(2,3) show ?thesis by (simp add: worker_round_keeps funpow_swap1)
  qed
qed

lemma daemon_rounds:
  "daemon_run (concat (replicate n (map Works order))) dn = (worker_round order ^^ n) dn"
proof (induction n arbitrary: dn)
  case (Suc n)
  have "daemon_step (Works i) = worker_step i" for i by (rule ext) (simp add: daemon_step_def)
  then have "fold daemon_step (map Works order) dn = worker_round order dn" for dn
    by (simp add: worker_round_def fold_map comp_def)
  with Suc show ?case by (simp add: daemon_run_def funpow_swap1)
qed (simp add: daemon_run_def)

lemma rounds_keep:
  "dn_accepting ((worker_round order ^^ n) dn) = dn_accepting dn" "dn_finished ((worker_round order ^^ n) dn) = dn_finished dn"
  by (induction n) (simp_all add: worker_round_keeps)

definition closing :: "daemon \<Rightarrow> bool" where
  "closing dn \<longleftrightarrow> (\<not> dn_accepting dn \<longrightarrow> aq_closed (dn_queue dn))"

lemma daemon_run_closing: "closing dn \<Longrightarrow> closing (daemon_run evs dn)"
  by (induction evs rule: rev_induct)
    (auto simp: daemon_run_def daemon_step_def closing_def worker_step_frame worker_step_keeps accept_connection_def
      aq_push_def aq_close_def Let_def split: daemon_event.splits)

lemma daemon_run_append: "daemon_run (evs @ evs') dn = daemon_run evs' (daemon_run evs dn)"
  by (simp add: daemon_run_def)



end
