(* ===== verification/Record_Sizes.thy ===== *)
theory Record_Sizes
  imports State_Codec
begin

text \<open>
  How many bytes the codecs of valid records write at most, so that an encoder that starts with an empty
  buffer succeeds.
\<close>

lemma within_name: "canonical_name n \<Longrightarrow> within 68 (encode_name n)"
  unfolding encode_name_def by (rule within_le [OF within_text]) (simp_all add: canonical_name_def kMaxNameLength_def)

lemma within_seq_map: "(\<And>x. x \<in> set xs \<Longrightarrow> within k (f x)) \<Longrightarrow> within (k * length xs) (seq (map f xs))"
proof (induction xs)
  case (Cons x xs)
  then have "within (k + k * length xs) (seq (f x # map f xs))" by (intro within_Cons) simp_all
  then show ?case by (simp add: algebra_simps)
qed (simp add: within_Nil)

lemma within_fields:
  "within 8 (encode_id i)" "within 8 (encode_gen g)" "within 8 (encode_tick t)" "within 16 (encode_digest d)"
  "within 16 (encode_target_incarnation v)" "within 8 (encode_capability_set cs)" "within 4 (encode_precondition_set ps)"
  "canonical_name (tg_target r) \<Longrightarrow> within 84 (encode_target_ref r)"
  "canonical_name (pv_source p) \<Longrightarrow> within 100 (encode_provenance p)"
  "valid_dependency_spec ds \<Longrightarrow> within 70 (encode_dependency_spec ds)"
  unfolding encode_id_def encode_gen_def encode_tick_def encode_digest_def encode_target_incarnation_def encode_capability_set_def
    encode_precondition_set_def encode_target_ref_def encode_provenance_def encode_dependency_spec_def valid_dependency_spec_def
  by (rule within_le, (rule within_rules within_name | assumption | simp)+)+

lemma service_descriptor_within:
  assumes "valid_service_descriptor d" "length (sd_dependencies d) \<le> 1048576"
  shows "within (200 + 70 * length (sd_dependencies d)) (encode_service_descriptor d)"
proof -
  have "within (70 * length (sd_dependencies d)) (seq (map encode_dependency_spec (sd_dependencies d)))"
    using assms(1) by (intro within_seq_map within_fields) (auto simp: valid_service_descriptor_def list_all_iff)
  note list = within_list [OF assms(2) this]
  show ?thesis
    using assms(1) unfolding encode_service_descriptor_def valid_service_descriptor_def
    by - (rule within_le, (rule within_Cons within_Nil within_name within_fields within_enum list | simp)+)
qed

lemma within_records:
  "valid_target_record t \<Longrightarrow> within 500 (encode_target_record t)" "valid_policy_descriptor p \<Longrightarrow> within 500 (encode_policy_descriptor p)"
  "valid_capability_evidence ce \<Longrightarrow> within 500 (encode_capability_evidence ce)"
  "valid_failure_evidence fe \<Longrightarrow> within 500 (encode_failure_evidence fe)"
  "valid_dependency_observation ob \<Longrightarrow> within 500 (encode_dependency_observation ob)"
  "valid_effect_report r \<Longrightarrow> within 500 (encode_effect_report r)"
  unfolding encode_target_record_def encode_policy_descriptor_def encode_capability_evidence_def encode_failure_evidence_def
    encode_dependency_observation_def encode_effect_report_def valid_target_record_def valid_policy_descriptor_def
    valid_capability_evidence_def valid_failure_evidence_def valid_target_ref_def valid_provenance_def
    valid_dependency_observation_def valid_effect_report_def
  by (rule within_le, (rule within_rules within_name within_fields | simp)+)+


subsection \<open>Runtimes\<close>

lemma within_references:
  "valid_target_ref r \<Longrightarrow> within 84 (encode_target_ref r)"
  "valid_lease_record l \<Longrightarrow> within 300 (encode_lease_record l)"
  "valid_fence_record f \<Longrightarrow> within 300 (encode_fence_record f)"
  "valid_attempt_record a \<Longrightarrow> within 400 (encode_attempt_record a)"
  "within 40 (encode_witness w)" "within 5 (encode_flags sv)" "within 8 (put_id i)"
  unfolding encode_lease_record_def encode_fence_record_def encode_attempt_record_def encode_witness_def encode_flags_def
    valid_lease_record_def valid_fence_record_def valid_attempt_record_def valid_target_ref_def put_id_def
  by (rule within_le, (rule within_rules within_name within_fields | simp)+)+

lemma within_optional:
  assumes "\<And>x. x \<in> set_option v \<Longrightarrow> within n (enc x)"
  shows "within (1 + n) (encode_optional enc v)"
proof (cases v)
  case None
  then show ?thesis by (simp add: encode_optional_def within_le [OF within_words(7)])
next
  case (Some x)
  have "within (1 + (n + 0)) (seq [put_presence, enc x])"
    using assms Some by (intro within_Cons within_words within_Nil) simp
  with Some show ?thesis by (simp add: encode_optional_def)
qed

text \<open>A runtime whose lists are of a moderate length fits the writer many times over.\<close>

lemma service_runtime_within:
  assumes v: "valid_service_runtime config sv" and d: "length (sd_dependencies (sv_descriptor sv)) \<le> 100000"
    and h: "cf_max_attempt_history config \<le> 100000"
  shows "within 50000000 (encode_service_runtime sv)"
proof -
  have "within (400 * length (sv_history sv)) (seq (map encode_attempt_record (sv_history sv)))"
    using v by (intro within_seq_map within_references) (auto simp: valid_service_runtime_def list_all_iff)
  moreover have "length (sv_history sv) \<le> 100000" "length (sv_effects_seen sv) \<le> 100000"
    using v h by (simp_all add: valid_service_runtime_def)
  ultimately have history: "within 40000004 (encode_attempt_history (sv_history sv))"
    and effects: "within 800004 (encode_list put_id (sv_effects_seen sv))"
    unfolding encode_attempt_history_def
    using within_seq_map [of "sv_effects_seen sv" 8 put_id] within_references(7)
    by (auto intro!: within_le [OF within_list])
  have descriptor: "within 7000200 (encode_service_descriptor (sv_descriptor sv))"
    using v d by (intro within_le [OF service_descriptor_within]) (simp_all add: valid_service_runtime_def)
  have refs: "within 85 (encode_optional encode_target_ref (sv_active sv))"
    "within 85 (encode_optional encode_target_ref (sv_fallback sv))"
    "within 85 (encode_optional encode_target_ref (sv_pre_failover_target sv))"
    "within 301 (encode_optional encode_lease_record (sv_lease sv))"
    using v unfolding valid_service_runtime_def
    by (auto intro!: within_le [OF within_optional [OF within_references(1)]] within_le [OF within_optional [OF within_references(2)]])
  show ?thesis
    unfolding encode_service_runtime_def put_enum_def
    by (rule within_le, (rule within_Cons within_Nil within_words within_enum within_references(6) descriptor history effects refs)+) simp
qed

lemma plain_change_encodes:
  assumes "valid_service_runtime config (rx_runtime c)" "length (sd_dependencies (sv_descriptor (rx_runtime c))) \<le> 100000"
    and "cf_max_attempt_history config \<le> 100000" "canonical_name (rx_service c)" "\<not> rx_has_fence c" "rx_witnesses c = []"
  shows "encoded (encode_runtime_change c) \<noteq> None"
proof (rule within_encoded)
  have "within 4 (encode_list (\<lambda>e. seq [encode_name (fst e), encode_witness (snd e)]) (rx_witnesses c))"
    using within_list [of "[]" 0] within_Nil assms(6) by simp
  moreover note service_runtime_within [OF assms(1-3)] within_name [OF assms(4)]
  ultimately have "within (68 + (50000000 + (1 + (0 + (4 + 0))))) (encode_runtime_change c)"
    unfolding encode_runtime_change_def using assms(5)
    by (simp only: if_False) (intro within_Cons within_words within_skip within_Nil)
  then show "within 50001000 (encode_runtime_change c)" by (rule within_le) simp
qed simp

end
