(* ===== verification/Client_Properties.thy ===== *)
theory Client_Properties
  imports Client Daemon_Properties Record_Sizes
begin

text \<open>
  The promises of the client: every command line it accepts reaches the operation it names with the
  arguments that were given, and a command has one meaning whether it runs in the process or through a
  daemon.
\<close>

subsection \<open>Answers\<close>

lemma decimal_nonempty: "decimal_loop v \<noteq> [] \<longleftrightarrow> v \<noteq> 0"
  by (subst decimal_loop.simps) (simp add: word_gt_0)

lemma dump_into_nonempty: "dump_into indent j \<noteq> []"
  using decimal_nonempty by (cases j) (auto simp: to_decimal_def escaped_def)

lemma dump_nonempty [simp]: "dump j \<noteq> []"
  by (simp add: dump_def dump_into_nonempty)

text \<open>An answer carries its own status, and a text.\<close>

definition answers_well :: "reason \<times> wire_response option \<Rightarrow> impl \<Rightarrow> bool" where
  "answers_well x im \<longleftrightarrow> (\<forall>p. snd x = Some p \<longrightarrow> wp_status p = fst x \<and> wp_body p \<noteq> [])"

lemma answers_well_rules:
  "(\<And>x im. post answers_well (run x im)) \<Longrightarrow> post answers_well (with_body d body run im)"
  "(\<And>im. post answers_well (run' im)) \<Longrightarrow> post answers_well (without_body body run' im)"
  "post answers_well (answered (dump j) im)"
  "post answers_well (by_reason operation im)"
  "post answers_well (by_decision decision im)"
  "(\<And>x im. post answers_well (run'' x im)) \<Longrightarrow> post answers_well (checked_enum table v run'' im)"
  by (auto simp: with_body_def without_body_def answered_def by_reason_def by_decision_def checked_enum_def
      answers_well_def post_def default_wire_response_def reason_response_def decision_response_def split: prod.splits option.splits)

lemma execute_request_answers: "post answers_well (execute_request q im)"
proof -
  have "post answers_well (pull_intent im)" for im
    by (auto simp: pull_intent_def intro: answers_well_rules split: prod.splits option.splits)
  moreover have "post answers_well (execute_ingest k body im)" for k body
    by (cases k) (auto simp: execute_ingest_def answers_well_def intro!: answers_well_rules split: prod.splits)
  ultimately show ?thesis
    unfolding execute_request_def Let_def
    by (cases "wq_kind q")
      (auto simp: execute_placement_def execute_failover_def execute_resolution_def execute_failback_def
        execute_acknowledgement_def execute_verify_def Let_def canonical_text_def export_canonical_def
        answers_well_def default_wire_response_def intro!: answers_well_rules split: prod.splits)
qed

subsection \<open>The meaning of a call\<close>

text \<open>What a command asks of the runtime, without any bytes in between.\<close>

fun call_meaning :: "client_call \<Rightarrow> impl \<Rightarrow> execution" where
  "call_meaning (Plain kind) im =
    (case kind of
       WR_QueryView \<Rightarrow> answered (canonical_text False (build_view im)) im
     | WR_Export \<Rightarrow> answered (export_canonical False im) im
     | WR_Stats \<Rightarrow> answered (dump (fabric_stats_json (st_stats (im_state im)))) im
     | WR_Recovery \<Rightarrow> answered (dump (restart_summary_json (im_restart im))) im
     | WR_PullIntent \<Rightarrow> pull_intent im
     | _ \<Rightarrow> answered (dump (json_object [(''accepted'', JBool True), (''status'', json_object [(''code'', JText ''OK'')])])) im)"
| "call_meaning (Explain_Call service) im = answered (dump (JArray (map explanation_json (explain service im)))) im"
| "call_meaning (Enroll_Call source role) im = by_reason (enroll_source source role) im"
| "call_meaning (Service_Call d registrar) im = by_reason (register_service d registrar) im"
| "call_meaning (Target_Call t registrar) im = by_reason (register_target t registrar) im"
| "call_meaning (Topology_Call g reporter) im = by_reason (set_topology_generation (Gen g) reporter) im"
| "call_meaning (Policy_Call p) im = by_reason (set_policy p) im"
| "call_meaning (Withdraw_Call service requester) im = by_reason (withdraw_service service requester) im"
| "call_meaning (Place_Call r) im = by_decision (establish_placement r) im"
| "call_meaning (Capability_Call ev) im = by_reason (ingest_capability ev) im"
| "call_meaning (Fail_Call ev) im = by_reason (ingest_failure ev) im"
| "call_meaning (Dep_Call ob) im = by_reason (ingest_dependency ob) im"
| "call_meaning (Failover_Call resume r) im = by_decision ((if resume then resume_recovery else request_failover) r) im"
| "call_meaning (Resolve_Call r) im = by_decision (resolve_ambiguity r) im"
| "call_meaning (Failback_Call r) im = by_decision (request_failback r) im"
| "call_meaning (Ack_Call r) im = by_decision (acknowledge_intent r) im"
| "call_meaning (Effect_Call r) im = by_decision (report_effect r) im"
| "call_meaning (Cancel_Call key) im = by_reason (cancel (Id key)) im"
| "call_meaning (Fence_Call c) im = (let v = verify_fence c im in
    ((fv_code v, Some (default_wire_response\<lparr>wp_status := fv_code v, wp_accepted := fv_authorized v,
      wp_body := dump (fence_verdict_json v)\<rparr>)), im))"

text \<open>What the reading of a command line guarantees of its call.\<close>

fun call_well_formed :: "client_call \<Rightarrow> bool" where
  "call_well_formed (Plain kind) \<longleftrightarrow> kind \<in> {WR_QueryView, WR_Export, WR_Stats, WR_Recovery, WR_PullIntent, WR_Shutdown}"
| "call_well_formed (Explain_Call service) \<longleftrightarrow> canonical_name service"
| "call_well_formed (Enroll_Call source role) \<longleftrightarrow> canonical_name source"
| "call_well_formed (Service_Call d registrar) \<longleftrightarrow> valid_service_descriptor d \<and> canonical_name registrar"
| "call_well_formed (Target_Call t registrar) \<longleftrightarrow> valid_target_record t \<and> canonical_name registrar"
| "call_well_formed (Topology_Call g reporter) \<longleftrightarrow> canonical_name reporter"
| "call_well_formed (Policy_Call p) \<longleftrightarrow> valid_policy_descriptor p"
| "call_well_formed (Withdraw_Call service requester) \<longleftrightarrow> canonical_name service \<and> canonical_name requester"
| "call_well_formed (Place_Call r) \<longleftrightarrow> canonical_name (pq_service r) \<and> canonical_name (pq_target r) \<and> canonical_name (pq_requester r)"
| "call_well_formed (Capability_Call ev) \<longleftrightarrow> valid_capability_evidence ev"
| "call_well_formed (Fail_Call ev) \<longleftrightarrow> valid_failure_evidence ev"
| "call_well_formed (Dep_Call ob) \<longleftrightarrow> valid_dependency_observation ob"
| "call_well_formed (Failover_Call resume r) \<longleftrightarrow> canonical_name (fq_service r) \<and> canonical_name (fq_requester r)"
| "call_well_formed (Resolve_Call r) \<longleftrightarrow> canonical_name (am_service r) \<and> canonical_name (am_resolved_by r)"
| "call_well_formed (Failback_Call r) \<longleftrightarrow>
    canonical_name (bq_service r) \<and> canonical_name (bq_preferred_target r) \<and> canonical_name (bq_requester r)"
| "call_well_formed (Ack_Call r) \<longleftrightarrow> canonical_name (ia_executor r)"
| "call_well_formed (Effect_Call r) \<longleftrightarrow> valid_effect_report r"
| "call_well_formed (Cancel_Call key) \<longleftrightarrow> True"
| "call_well_formed (Fence_Call c) \<longleftrightarrow> canonical_name (fk_service c) \<and> valid_target_ref (fk_holder c)"

lemma name_at_canonical: "name_at a i = Some n \<Longrightarrow> canonical_name n"
  by (auto simp: name_at_def name_parse_iff split: bind_splits)

lemma registrar_canonical: "registrar_of a = Some n \<Longrightarrow> canonical_name n"
  by (auto simp: registrar_of_def name_parse_iff)

lemma empty_canonical [simp]: "canonical_name empty_name"
  by (simp add: canonical_name_def)

lemma those_all: "those (map f xs) = Some ys \<Longrightarrow> (\<And>x y. f x = Some y \<Longrightarrow> P y) \<Longrightarrow> list_all P ys"
  by (induction xs arbitrary: ys) (auto split: option.splits)

lemma parse_dependencies_valid: "parse_dependencies text = Some ds \<Longrightarrow> list_all valid_dependency_spec ds"
proof -
  have "parse_dependency token = Some d \<Longrightarrow> valid_dependency_spec d" for token d
    by (auto simp: parse_dependency_def valid_dependency_spec_def name_parse_iff split: list.splits bind_splits)
  then show "parse_dependencies text = Some ds \<Longrightarrow> list_all valid_dependency_spec ds"
    by (auto simp: parse_dependencies_def split: if_splits intro: those_all)
qed

lemma known_capability: "capability_bit code AND NOT known_capability_bits = 0"
  by (cases code) (simp_all add: capability_bit_def known_capability_bits_def kCapabilityCodes_def ordinal_def)

lemma known_precondition: "precondition_bit v AND NOT known_precondition_bits = 0"
  by (cases v) (simp_all add: precondition_bit_def known_precondition_bits_def kPreconditions_def ordinal_def)

lemma inserted_known:
  "valid_capability_set s \<Longrightarrow> valid_capability_set (cs_insert c s)"
  "valid_precondition_set t \<Longrightarrow> valid_precondition_set (ps_insert v t)"
  using known_capability [of c] known_precondition [of v]
  by (simp_all add: valid_capability_set_def cs_insert_def valid_precondition_set_def ps_insert_def bit.conj_disj_distrib2)

lemma fold_known:
  "valid_capability_set s \<Longrightarrow> valid_capability_set (fold cs_insert cs s)"
  "valid_precondition_set t \<Longrightarrow> valid_precondition_set (fold ps_insert vs t)"
  by (induction cs arbitrary: s) (simp_all add: inserted_known, induction vs arbitrary: t, simp_all add: inserted_known)

lemma default_known [simp]: "valid_capability_set default_capability_set" "valid_precondition_set default_precondition_set"
  by (simp_all add: valid_capability_set_def valid_precondition_set_def default_capability_set_def default_precondition_set_def)

lemma parse_sets_valid:
  "parse_capabilities text = Some s \<Longrightarrow> valid_capability_set s" "parse_preconditions text = Some t \<Longrightarrow> valid_precondition_set t"
  by (auto simp: parse_capabilities_def parse_preconditions_def fold_known split: if_splits)

lemma optional_flag_parsed:
  "optional_flag a name parse fallback = Some x \<Longrightarrow> (\<And>t x. parse t = Some x \<Longrightarrow> P x) \<Longrightarrow> P fallback \<Longrightarrow> P x"
  by (auto simp: optional_flag_def split: option.splits)

lemmas call_defs =
  enroll_call_def service_call_def target_call_def policy_call_def place_call_def capability_call_def fail_call_def dep_call_def
  failover_call_def resolve_call_def failback_call_def ack_call_def effect_call_def fence_call_def

lemmas validity_defs =
  valid_target_record_def valid_policy_descriptor_def valid_capability_evidence_def valid_failure_evidence_def
  valid_target_ref_def valid_provenance_def valid_dependency_observation_def valid_effect_report_def
  default_provenance_def default_dependency_observation_def default_failure_evidence_def default_capability_evidence_def
  default_target_record_def default_failover_request_def default_target_ref_def

lemma parsed_capabilities: "parsed_at parse_capabilities a i = Some s \<Longrightarrow> valid_capability_set s"
  by (auto simp: parsed_at_def parse_sets_valid split: bind_splits)

lemma service_call_well_formed: "service_call a = Some c \<Longrightarrow> call_well_formed c"
  by (auto simp: service_call_def valid_service_descriptor_def name_at_canonical registrar_canonical parse_sets_valid parse_dependencies_valid
      split: bind_splits elim!: optional_flag_parsed)

lemmas reading = name_at_canonical registrar_canonical parsed_capabilities name_parse_iff

lemma fixed_call_well_formed:
  "enroll_call a = Some c \<Longrightarrow> call_well_formed c" "target_call a = Some c \<Longrightarrow> call_well_formed c"
  "place_call a = Some c \<Longrightarrow> call_well_formed c" "failback_call local a = Some c \<Longrightarrow> call_well_formed c"
  "fence_call a = Some c \<Longrightarrow> call_well_formed c" "resolve_call a = Some c \<Longrightarrow> call_well_formed c"
  "ack_call a = Some c \<Longrightarrow> call_well_formed c"
  by (auto simp: call_defs validity_defs reading split: bind_splits)

lemma policy_call_well_formed: "policy_call a = Some c \<Longrightarrow> call_well_formed c"
  by (auto simp: policy_call_def validity_defs reading split: bind_splits)

lemma evidence_call_well_formed:
  "capability_call local a = Some c \<Longrightarrow> call_well_formed c" "dep_call local a = Some c \<Longrightarrow> call_well_formed c"
  "fail_call local a = Some c \<Longrightarrow> call_well_formed c" "effect_call local a = Some c \<Longrightarrow> call_well_formed c"
  by (auto simp: call_defs validity_defs reading split: bind_splits)

lemma failover_call_well_formed: "failover_call resume a = Some c \<Longrightarrow> call_well_formed c"
  by (auto simp: failover_call_def validity_defs reading split: bind_splits if_splits)

lemma if_someE: "(if b then x else y) = Some c \<Longrightarrow> (x = Some c \<Longrightarrow> P) \<Longrightarrow> (y = Some c \<Longrightarrow> P) \<Longrightarrow> P"
  by (cases b) simp_all

lemma command_call_well_formed: "command_call local command a = Some c \<Longrightarrow> call_well_formed c"
  unfolding command_call_def
  by (elim if_someE)
    (auto simp: reading split: bind_splits intro: fixed_call_well_formed policy_call_well_formed evidence_call_well_formed
      failover_call_well_formed service_call_well_formed)

text \<open>A body that was written is read back as the call it encodes.\<close>

lemma with_body_encoded:
  assumes "carries 0 k f d x" "encoded f \<noteq> None"
  shows "with_body d (wr_buffer (f new_writer)) run im = run x im"
proof -
  obtain bs where bs: "encoded f = Some bs" using assms(2) by blast
  then have "bs = wr_buffer (f new_writer)" by (auto simp: encoded_def Let_def split: if_splits)
  with encoded_read [OF assms(1) bs] show ?thesis by (auto simp: with_body_def)
qed

lemma carries_named [codec_rules]: "canonical_name v \<Longrightarrow> k \<le> 4 \<Longrightarrow> carries m k (put_name v) decode_name v"
  using carries_name [of v k m] by (simp add: put_name_def encode_name_def)

lemma carries_paired [codec_rules]:
  "carries m k f a x \<Longrightarrow> carries m 0 (seq [g]) (dbind b (\<lambda>y. dreturn (x, y))) (x, y) \<Longrightarrow> carries m k (seq [f, g]) (paired a b) (x, y)"
  unfolding paired_def by (rule carries_Cons)

lemma carries_single [codec_rules]: "carries m k f d x \<Longrightarrow> carries m k (seq [f]) d x"
  by (simp add: seq_single)

lemma checked_enum_written:
  "checked_enum kSourceRoles (of_nat (ordinal kSourceRoles role)) run im = run role im"
  "checked_enum kRecoveryTriggers (of_nat (ordinal kRecoveryTriggers trigger)) run' im = run' trigger im"
  using enum_back [OF source_role_listed, of role] enum_back [OF recovery_trigger_listed, of trigger]
  by (simp_all add: checked_enum_def kSourceRoles_def kRecoveryTriggers_def)

lemma carries_bodies:
  "canonical_name (fq_service r1) \<Longrightarrow> canonical_name (fq_requester r1) \<Longrightarrow> carries 0 0 (failover_body r1)
    (dbind decode_name (\<lambda>service. dbind get_u8 (\<lambda>trigger. dbind get_u64 (\<lambda>evidence. dbind decode_name (\<lambda>requester.
     dbind get_bool (\<lambda>authorized. dreturn (service, trigger, evidence, requester, authorized)))))))
    (fq_service r1, of_nat (ordinal kRecoveryTriggers (fq_trigger r1)), id_value (fq_evidence r1), fq_requester r1, fq_operator_authorized r1)"
  "canonical_name (am_service r2) \<Longrightarrow> canonical_name (am_resolved_by r2) \<Longrightarrow> carries 0 0 (resolve_body r2)
    (dbind decode_name (\<lambda>service. dbind get_u64 (\<lambda>evidence. dbind get_bool (\<lambda>confirm. dbind decode_name (\<lambda>operator.
     dreturn \<lparr>am_key = Id (id_value (am_key r2)), am_service = service, am_evidence = Id evidence, am_confirm_failure = confirm,
       am_resolved_by = operator\<rparr>))))) r2"
  "canonical_name (bq_service r3) \<Longrightarrow> canonical_name (bq_preferred_target r3) \<Longrightarrow> canonical_name (bq_requester r3) \<Longrightarrow> carries 0 0 (failback_body r3)
    (dbind decode_name (\<lambda>service. dbind decode_name (\<lambda>target. dbind get_u64 (\<lambda>topology. dbind get_u64 (\<lambda>policy.
     dbind decode_name (\<lambda>requester. dreturn
      \<lparr>bq_key = Id (id_value (bq_key r3)), bq_service = service, bq_preferred_target = target, bq_observed_topology_generation = Gen topology,
       bq_observed_policy_generation = Gen policy, bq_requester = requester\<rparr>)))))) r3"
  "canonical_name (ia_executor r4) \<Longrightarrow> carries 0 0 (ack_body r4)
    (dbind get_u64 (\<lambda>attempt. dbind get_u64 (\<lambda>fence. dbind get_u64 (\<lambda>generation. dbind get_bool (\<lambda>ok.
     dbind decode_name (\<lambda>executor. dreturn
      \<lparr>ia_key = Id (id_value (ia_key r4)), ia_attempt = Id attempt, ia_fence = Gen fence, ia_generation = Gen generation, ia_accepted = ok,
       ia_executor = executor\<rparr>)))))) r4"
  "canonical_name (fk_service r5) \<Longrightarrow> valid_target_ref (fk_holder r5) \<Longrightarrow> carries 0 0 (fence_body r5)
    (dbind decode_name (\<lambda>service. dbind decode_target_ref (\<lambda>holder. dbind get_u64 (\<lambda>token.
     dreturn \<lparr>fk_service = service, fk_holder = holder, fk_presented = Gen token\<rparr>)))) r5"
  "canonical_name (pq_service r6) \<Longrightarrow> canonical_name (pq_target r6) \<Longrightarrow> canonical_name (pq_requester r6) \<Longrightarrow> carries 0 0 (place_body r6)
    (dbind decode_name (\<lambda>service. dbind decode_name (\<lambda>target. dbind decode_name (\<lambda>requester.
     dreturn \<lparr>pq_key = Id (id_value (pq_key r6)), pq_service = service, pq_target = target, pq_requester = requester\<rparr>)))) r6"
  unfolding failover_body_def resolve_body_def failback_body_def ack_body_def fence_body_def place_body_def
  by (rule codec_rules | simp)+

text \<open>The executor inverts the encoding of a call.\<close>

lemma executed_call:
  assumes "call_well_formed c" "encoded (snd (snd (call_parts c))) \<noteq> None"
  shows "execute_request (call_request c) im = call_meaning c im"
proof -
  note run = execute_request_def call_request_def Let_def execute_ingest_def
  show ?thesis
  proof (cases c)
    case (Plain kind)
    have "at_end (new_reader (wr_buffer (seq [] new_writer)))"
      by (simp add: seq_simps new_writer_def new_reader_def at_end_def kAbsoluteMaxTotalBytes_def)
    with Plain assms(1) show ?thesis by (auto simp: run without_body_def)
  next
    case (Explain_Call service)
    with assms with_body_encoded [OF carries_single [OF carries_named [of service 0 0]]] show ?thesis by (simp add: run)
  next
    case (Enroll_Call source role)
    then have "carries 0 0 (seq [put_name source, put_enum kSourceRoles role]) (paired decode_name get_u8)
        (source, of_nat (ordinal kSourceRoles role))"
      using assms(1) unfolding put_enum_def by - (rule codec_rules | simp)+
    from with_body_encoded [OF this] Enroll_Call assms(2) show ?thesis by (simp add: run checked_enum_written)
  next
    case (Service_Call d registrar)
    then have "carries 0 0 (seq [put_name registrar, encode_service_descriptor d]) (paired decode_name decode_service_descriptor) (registrar, d)"
      using assms(1) by - (rule codec_rules | simp)+
    from with_body_encoded [OF this] Service_Call assms(2) show ?thesis by (simp add: run)
  next
    case (Target_Call t registrar)
    then have "carries 0 0 (seq [put_name registrar, encode_target_record t]) (paired decode_name decode_target_record) (registrar, t)"
      using assms(1) by - (rule codec_rules | simp)+
    from with_body_encoded [OF this] Target_Call assms(2) show ?thesis by (simp add: run)
  next
    case (Topology_Call g reporter)
    then have "carries 0 0 (seq [put_u64 g, put_name reporter]) (paired get_u64 decode_name) (g, reporter)"
      using assms(1) by - (rule codec_rules | simp)+
    from with_body_encoded [OF this] Topology_Call assms(2) show ?thesis by (simp add: run)
  next
    case (Withdraw_Call service requester)
    then have "carries 0 0 (seq [put_name service, put_name requester]) (paired decode_name decode_name) (service, requester)"
      using assms(1) by - (rule codec_rules | simp)+
    from with_body_encoded [OF this] Withdraw_Call assms(2) show ?thesis by (simp add: run)
  next
    case (Policy_Call p)
    with assms with_body_encoded [OF carries_policy_descriptor [of p 0 0]] show ?thesis by (simp add: run)
  next
    case (Place_Call r)
    with assms with_body_encoded [OF carries_bodies(6) [of r]] show ?thesis by (simp add: run execute_placement_def)
  next
    case (Capability_Call ev)
    with assms with_body_encoded [OF carries_capability_evidence [of ev 0 0]] show ?thesis by (simp add: run)
  next
    case (Fail_Call ev)
    with assms with_body_encoded [OF carries_failure_evidence [of ev 0 0]] show ?thesis by (simp add: run)
  next
    case (Dep_Call ob)
    with assms with_body_encoded [OF carries_dependency_observation [of ob 0 0]] show ?thesis by (simp add: run)
  next
    case (Failover_Call resume r)
    with assms with_body_encoded [OF carries_bodies(1) [of r]] show ?thesis
      by (cases r) (simp add: run execute_failover_def checked_enum_written)
  next
    case (Resolve_Call r)
    with assms with_body_encoded [OF carries_bodies(2) [of r]] show ?thesis by (simp add: run execute_resolution_def)
  next
    case (Failback_Call r)
    with assms with_body_encoded [OF carries_bodies(3) [of r]] show ?thesis by (simp add: run execute_failback_def)
  next
    case (Ack_Call r)
    with assms with_body_encoded [OF carries_bodies(4) [of r]] show ?thesis by (simp add: run execute_acknowledgement_def)
  next
    case (Effect_Call r)
    with assms with_body_encoded [OF carries_effect_report [of r 0 0]] show ?thesis by (simp add: run)
  next
    case (Cancel_Call key)
    with assms with_body_encoded [OF carries_single [OF carries_u64 [of 0 0 key]]] show ?thesis by (simp add: run)
  next
    case (Fence_Call k)
    with assms with_body_encoded [OF carries_bodies(5) [of k]] show ?thesis by (simp add: run execute_verify_def)
  qed
qed

lemma within_named: "canonical_name n \<Longrightarrow> within 68 (put_name n)"
  using within_name [of n] by (simp add: put_name_def encode_name_def)

text \<open>Every body of a well formed call fits the writer, with at most a million dependencies.\<close>

definition few_dependencies :: "client_call \<Rightarrow> bool" where
  "few_dependencies c \<longleftrightarrow> (\<forall>d r. c = Service_Call d r \<longrightarrow> length (sd_dependencies d) \<le> 1048576)"

lemma within_bodies:
  "canonical_name (fq_service r1) \<Longrightarrow> canonical_name (fq_requester r1) \<Longrightarrow> within 1000 (failover_body r1)"
  "canonical_name (am_service r2) \<Longrightarrow> canonical_name (am_resolved_by r2) \<Longrightarrow> within 1000 (resolve_body r2)"
  "canonical_name (bq_service r3) \<Longrightarrow> canonical_name (bq_preferred_target r3) \<Longrightarrow> canonical_name (bq_requester r3) \<Longrightarrow> within 1000 (failback_body r3)"
  "canonical_name (ia_executor r4) \<Longrightarrow> within 1000 (ack_body r4)"
  "canonical_name (fk_service r5) \<Longrightarrow> valid_target_ref (fk_holder r5) \<Longrightarrow> within 1000 (fence_body r5)"
  "canonical_name (pq_service r6) \<Longrightarrow> canonical_name (pq_target r6) \<Longrightarrow> canonical_name (pq_requester r6) \<Longrightarrow> within 1000 (place_body r6)"
  unfolding failover_body_def resolve_body_def failback_body_def ack_body_def fence_body_def place_body_def valid_target_ref_def
  by (rule within_le, (rule within_rules within_named within_fields | simp)+)+

lemma within_seqs:
  "within 500 f \<Longrightarrow> canonical_name n \<Longrightarrow> within 1000 (seq [put_name n, f])" "canonical_name n \<Longrightarrow> within 1000 (seq [put_name n])"
  "within 500 f \<Longrightarrow> within 1000 f" "canonical_name n \<Longrightarrow> within 1000 (seq [put_u64 g, put_name n])"
  "within 1000 (seq [put_u64 g])" "within 1000 (seq [])"
  "canonical_name n \<Longrightarrow> within 1000 (seq [put_name n, put_enum table e])"
  "canonical_name n \<Longrightarrow> canonical_name n' \<Longrightarrow> within 1000 (seq [put_name n, put_name n'])"
  unfolding put_enum_def by (rule within_le, (rule within_rules within_named | assumption | simp)+)+

lemma call_within:
  assumes "call_well_formed c" "\<And>d r. c \<noteq> Service_Call d r"
  shows "within 1000 (snd (snd (call_parts c)))"
proof (cases c)
  case (Service_Call d r)
  with assms(2) show ?thesis by blast
qed (use assms(1) in \<open>simp_all add: within_seqs within_records within_bodies\<close>)

lemma call_encoded:
  assumes "call_well_formed c" "few_dependencies c"
  shows "encoded (snd (snd (call_parts c))) \<noteq> None"
proof (cases "\<exists>d r. c = Service_Call d r")
  case True
  then obtain d r where c: "c = Service_Call d r" by blast
  with assms have "within (68 + (200 + 70 * length (sd_dependencies d) + 0)) (snd (snd (call_parts c)))"
    by (simp only: call_parts.simps snd_conv call_well_formed.simps few_dependencies_def)
      (intro within_Cons within_named within_Nil service_descriptor_within; simp)
  with assms(2) c show ?thesis by (intro within_encoded) (auto simp: few_dependencies_def)
next
  case False
  with call_within [OF assms(1)] show ?thesis by (intro within_encoded) auto
qed



subsection \<open>In the process or through a daemon\<close>

text \<open>The three steps in which a session serves one request.\<close>

definition serve_request :: "daemon_options \<Rightarrow> session \<Rightarrow> impl \<Rightarrow> session \<times> impl" where
  "serve_request o' sn im =
    (case serve_step o' sn im of (_, sn1, im1) \<Rightarrow>
     case serve_step o' sn1 im1 of (_, sn2, im2) \<Rightarrow>
     case serve_step o' sn2 im2 of (_, sn3, im3) \<Rightarrow> (sn3, im3))"

lemma send_loop_free:
  "sk_sends sk = [] \<Longrightarrow> send_loop data sk = (True, sk\<lparr>sk_sent := sk_sent sk @ data\<rparr>)"
proof (induction data sk rule: send_loop.induct)
  case (1 data sk)
  show ?case
  proof (cases "data = []")
    case False
    let ?n = "min (length data) 0x100000"
    have n: "next_send ?n sk = (Some ?n, sk)" using 1(2) by (simp add: next_send_def)
    have "send_loop data sk = send_loop (drop ?n data) (sk\<lparr>sk_sent := sk_sent sk @ take ?n data\<rparr>)"
      using False n by (subst send_loop.simps) (simp only: if_False option.case prod.case)
    also have "\<dots> = (True, sk\<lparr>sk_sent := sk_sent sk @ take ?n data @ drop ?n data\<rparr>)"
      using 1(1) [OF False n [symmetric] refl] 1(2) by simp
    finally show ?thesis by (simp only: append_take_drop_id)
  qed (simp add: send_loop.simps)
qed

text \<open>A channel whose writes succeed.\<close>

definition writable :: "channel \<Rightarrow> bool" where
  "writable ch \<longleftrightarrow> sk_valid (ch_socket ch) \<and> sk_sends (ch_socket ch) = []"

definition sent_by :: "channel \<Rightarrow> bytes \<Rightarrow> channel" where
  "sent_by ch bs = ch\<lparr>ch_socket := (ch_socket ch)\<lparr>sk_sent := sk_sent (ch_socket ch) @ bs\<rparr>\<rparr>"

lemma send_frame_written: "writable ch \<Longrightarrow> encode_frame (ch_max_payload ch) f = Inr bs \<Longrightarrow> send_frame f ch = (True, sent_by ch bs)"
  by (simp add: send_frame_def send_all_def writable_def send_loop_free sent_by_def)

lemma sent_by_simps [simp]:
  "pending (sent_by ch bs) = pending ch" "flowing (sent_by ch bs) = flowing ch" "ch_max_payload (sent_by ch bs) = ch_max_payload ch"
  "sk_sent (ch_socket (sent_by ch bs)) = sk_sent (ch_socket ch) @ bs"
  by (simp_all add: sent_by_def pending_def flowing_def)

lemma fill_writable: "fill n ch = (ok, ch') \<Longrightarrow> sk_sends (ch_socket ch') = sk_sends (ch_socket ch) \<and> sk_valid (ch_socket ch') = sk_valid (ch_socket ch) \<and>
    sk_sent (ch_socket ch') = sk_sent (ch_socket ch)"
  by (erule fill_cases) (auto simp: recv_exact_def split: if_splits prod.splits)

lemma recv_frame_writable:
  assumes "recv_frame ch = (x, ch')"
  shows "writable ch' = writable ch \<and> sk_sent (ch_socket ch') = sk_sent (ch_socket ch)"
proof -
  obtain ok ch1 where 1: "fill kWireHeaderBytes ch = (ok, ch1)" by (cases "fill kWireHeaderBytes ch")
  obtain ok2 ch2 where 2: "fill (kWireHeaderBytes + unat (read_u32 (drop 16 (buffered ch1)))) ch1 = (ok2, ch2)"
    by (cases "fill (kWireHeaderBytes + unat (read_u32 (drop 16 (buffered ch1)))) ch1")
  from assms fill_writable [OF 1] fill_writable [OF 2] show ?thesis
    by (auto simp: recv_frame_def 1 2 Let_def writable_def split: if_splits sum.splits)
qed

lemma bounded_frame:
  "bounded max_payload f = Inr content \<Longrightarrow> \<exists>bs. encode_frame max_payload \<lparr>fm_kind = k, fm_correlation = c, fm_payload = content\<rparr> = Inr bs"
  by (auto simp: bounded_def encode_frame_def kAbsoluteMaxFramePayload_def split: option.splits if_splits)

lemma decoded_kind_request:
  assumes "listed (wq_kind q)" "encode_request max_payload q = Inr bs"
  shows "decoded_kind bs = wq_kind q"
proof -
  have "\<exists>r. request_parts (new_reader bs) = (Some (wire_request_value (wq_kind q), wq_key q, wq_body q), r)"
    using encoded_read [OF carries_request bounded_encoded [OF assms(2) [unfolded encode_request_def]]] by blast
  then have "fst (dbind get_u16 (\<lambda>kind. dbind get_u64 (\<lambda>key. dreturn kind)) (new_reader bs)) = Some (wire_request_value (wq_kind q))"
    by (auto simp: request_parts_def dbind_def dreturn_def split: prod.splits option.splits)
  with listed_value [OF assms(1)] show ?thesis by (simp add: decoded_kind_def)
qed

lemma sent_by_inject [simp]: "sent_by ch a = sent_by ch b \<longleftrightarrow> a = b"
  by (metis same_append_eq sent_by_simps(4))

lemma served_request:
  assumes "execute_request q im = ((code, Some p), im')" "listed (wq_kind q)"
    and "encode_request (dp_max_frame o') q = Inr content" "encode_response (dp_max_frame o') p = Inr replied_bytes"
    and "sn_phase sn = Awaiting" "flowing (sn_channel sn)" "writable (sn_channel sn)" "ch_max_payload (sn_channel sn) = dp_max_frame o'"
    and "encode_frame (dp_max_frame o') \<lparr>fm_kind = WM_Request, fm_correlation = n, fm_payload = content\<rparr> = Inr rq"
    and "encode_frame (dp_max_frame o') \<lparr>fm_kind = WM_Response, fm_correlation = n, fm_payload = replied_bytes\<rparr> = Inr rp"
    and "pending (sn_channel sn) = rq"
  shows "snd (serve_request o' sn im) = im'"
    "sk_sent (ch_socket (sn_channel (fst (serve_request o' sn im)))) = sk_sent (ch_socket (sn_channel sn)) @ rp"
proof -
  let ?request = "\<lparr>fm_kind = WM_Request, fm_correlation = n, fm_payload = content\<rparr>"
  obtain sc where sc: "recv_frame (sn_channel sn) = (Inr ?request, sc)" "flowing sc" "ch_max_payload sc = dp_max_frame o'"
    using recv_frame_next [OF assms(6), of ?request rq "[]"] assms(8,9,11) by auto
  have w: "writable sc" "sk_sent (ch_socket sc) = sk_sent (ch_socket (sn_channel sn))"
    using recv_frame_writable [OF sc(1)] assms(7) by simp_all
  have "wp_body p \<noteq> []" using execute_request_answers [of q im] by (simp add: assms(1) answers_well_def)
  then have handled: "handle_frame ?request im = (Replying n (wq_kind q) p, im')"
    by (simp add: handle_frame_def answer_request_def request_decoded [OF assms(2,3)] assms(1) decoded_kind_request [OF assms(2,3)])
  have "sn_channel (snd (reply o' n (wq_kind q) p sc)) = sent_by sc rp"
    using send_frame_written [OF w(1), of _ rp] assms(10) sc(3) by (simp add: reply_def assms(4))
  moreover have "serve_request o' sn im = (snd (reply o' n (wq_kind q) p sc), im')"
    by (simp add: serve_request_def serve_step_def assms(5) sc(1) handled split_beta)
  ultimately show "snd (serve_request o' sn im) = im'"
    "sk_sent (ch_socket (sn_channel (fst (serve_request o' sn im)))) = sk_sent (ch_socket (sn_channel sn)) @ rp"
    using w(2) by simp_all
qed

text \<open>C14: A command has one meaning whichever surface it uses. When a request that the executor answers, and whose answer fits a response, is sent to a daemon that waits for a request, and the network delivers what either side sent, in any non-empty pieces, then the client reports and prints what it would with the runtime in its own process, and the runtime of the daemon is afterwards the one that the local execution leaves.\<close>

theorem remote_equals_local:
  assumes answered: "execute_request q im = ((code, Some p), im')" "listed (wq_kind q)" "reason_known code"
    and fits: "encode_request (dp_max_frame o') q = Inr content" "encode_response (dp_max_frame o') p = Inr replied_bytes"
    and client: "flowing ch" "writable ch" "ch_max_payload ch = dp_max_frame o'"
    and server: "sn_phase sn = Awaiting" "flowing (sn_channel sn)" "writable (sn_channel sn)" "ch_max_payload (sn_channel sn) = dp_max_frame o'"
    and request_sent: "snd (send_frame \<lparr>fm_kind = WM_Request, fm_correlation = n, fm_payload = content\<rparr> ch) = sent_by ch (pending (sn_channel sn))"
    and reply_sent: "sk_sent (ch_socket (sn_channel (fst (serve_request o' sn im)))) = sk_sent (ch_socket (sn_channel sn)) @ pending ch"
  shows "fst (transmit q (Remote ch n)) = fst (transmit q (Local im)) \<and>
    snd (transmit q (Local im)) = Local (snd (serve_request o' sn im))"
proof -
  let ?request = "\<lparr>fm_kind = WM_Request, fm_correlation = n, fm_payload = content\<rparr>"
  let ?reply = "\<lparr>fm_kind = WM_Response, fm_correlation = n, fm_payload = replied_bytes\<rparr>"
  have p: "wp_status p = code" "wp_body p \<noteq> []"
    using execute_request_answers [of q im] by (simp_all add: answered answers_well_def)
  obtain rq rp where rq: "encode_frame (dp_max_frame o') ?request = Inr rq" and rp: "encode_frame (dp_max_frame o') ?reply = Inr rp"
    using bounded_frame [OF fits(1) [unfolded encode_request_def]] bounded_frame [OF fits(2) [unfolded encode_response_def]] by blast
  have sent: "send_frame ?request ch = (True, sent_by ch rq)"
    using send_frame_written [OF client(2)] rq client(3) by simp
  then have "pending (sn_channel sn) = rq" using request_sent by simp
  note served = served_request [OF answered(1,2) fits server rq rp this]
  then have "pending ch = rp" using reply_sent by simp
  then obtain ch' where ch': "recv_frame (sent_by ch rq) = (Inr ?reply, ch')"
    using recv_frame_next [of "sent_by ch rq" ?reply rp "[]"] client rp by auto
  have "fst (transmit q (Remote ch n)) = (reason_is_accept code, [wp_body p])"
    using p client(3) answered(3) by (simp add: transmit_def fits(1) sent ch' response_decoded [OF _ fits(2)])
  then show ?thesis using p by (simp add: transmit_def answered served(1) Let_def)
qed

theorem remote_equals_local_witness:
  "\<exists>ch sn. fst (transmit (call_request (Plain WR_Shutdown)) (Remote ch 3)) =
      (True, [''{\"accepted\":true,\"status\":{\"code\":\"OK\"}}'']) \<and>
    snd (transmit (call_request (Plain WR_Shutdown)) (Local demo)) = Local (snd (serve_request default_daemon_options sn demo))"
proof -
  let ?q = "call_request (Plain WR_Shutdown)"
  let ?p = "default_wire_response\<lparr>wp_accepted := True, wp_body := ''{\"accepted\":true,\"status\":{\"code\":\"OK\"}}''\<rparr>"
  have ok_text: "dump (json_object [(''accepted'', JBool True), (''status'', json_object [(''code'', JText ''OK'')])]) =
      ''{\"accepted\":true,\"status\":{\"code\":\"OK\"}}''"
    by code_simp
  have answered: "execute_request ?q demo = ((R_Ok, Some ?p), demo)"
    using executed_call [of "Plain WR_Shutdown" demo] call_encoded [of "Plain WR_Shutdown"]
    by (simp add: few_dependencies_def answered_def ok_text)
  have "within 1024 (seq [put_u16 k, put_u64 0, put_blob []])" for k
    by (rule within_le, (rule within_rules within_blob | simp)+)
  then obtain content where content: "encode_request (dp_max_frame default_daemon_options) ?q = Inr content"
    unfolding encode_request_def using within_bounded [of 1024 _ "dp_max_frame default_daemon_options"]
    by (fastforce simp: call_request_def seq_simps new_writer_def default_daemon_options_def kDefaultMaxFramePayload_def)
  have "within 1024 (seq [put_u16 k, put_bool True, put_bool False, put_text (wp_body ?p)])" for k
    by (rule within_le, (rule within_rules | simp)+)
  then obtain replied_bytes where replied_bytes: "encode_response (dp_max_frame default_daemon_options) ?p = Inr replied_bytes"
    unfolding encode_response_def using within_bounded [of 1024 _ "dp_max_frame default_daemon_options"]
    by (fastforce simp: default_wire_response_def default_daemon_options_def kDefaultMaxFramePayload_def)
  obtain rq where rq: "encode_frame (dp_max_frame default_daemon_options) \<lparr>fm_kind = WM_Request, fm_correlation = 3, fm_payload = content\<rparr> = Inr rq"
    using bounded_frame [OF content [unfolded encode_request_def]] by blast
  obtain rp where rp: "encode_frame (dp_max_frame default_daemon_options) \<lparr>fm_kind = WM_Response, fm_correlation = 3, fm_payload = replied_bytes\<rparr> = Inr rp"
    using bounded_frame [OF replied_bytes [unfolded encode_response_def]] by blast
  define stream where "stream bs = new_channel \<lparr>sk_valid = True, sk_arriving = [bs], sk_sends = [], sk_sent = []\<rparr> (dp_max_frame default_daemon_options)" for bs
  define sn where "sn = \<lparr>sn_channel = stream rq, sn_phase = Awaiting\<rparr>"
  have "length rq \<ge> 24" "length rp \<ge> 24" by (simp_all add: encoded_frame(1) [OF rq] encoded_frame(1) [OF rp])
  then have nonempty: "rq \<noteq> []" "rp \<noteq> []" by auto
  have stream: "pending (stream bs) = bs" "writable (stream bs)" "ch_max_payload (stream bs) = dp_max_frame default_daemon_options"
    "bs \<noteq> [] \<Longrightarrow> flowing (stream bs)" for bs
    by (auto simp: stream_def new_channel_def pending_def buffered_def writable_def flowing_def)
  have listed: "listed (wq_kind ?q)" by (simp add: call_request_def listed_def)
  have known: "reason_known R_Ok" by code_simp
  have server: "sn_phase sn = Awaiting" "flowing (sn_channel sn)" "writable (sn_channel sn)" "ch_max_payload (sn_channel sn) = dp_max_frame default_daemon_options"
    "pending (sn_channel sn) = rq"
    using nonempty stream by (simp_all add: sn_def)
  note served = served_request [OF answered listed content replied_bytes server(1-4) rq rp server(5)]
  have sent: "snd (send_frame \<lparr>fm_kind = WM_Request, fm_correlation = 3, fm_payload = content\<rparr> (stream rp)) = sent_by (stream rp) (pending (sn_channel sn))"
    using send_frame_written [OF stream(2), of rp _ rq] rq stream(3) server(5) by simp
  have "fst (transmit ?q (Remote (stream rp) 3)) = fst (transmit ?q (Local demo)) \<and>
      snd (transmit ?q (Local demo)) = Local (snd (serve_request default_daemon_options sn demo))"
    by (rule remote_equals_local [OF answered listed known content replied_bytes _ stream(2,3) server(1-4) sent])
      (simp_all add: stream nonempty served)
  moreover have "fst (transmit ?q (Local demo)) = (True, [wp_body ?p])"
  proof -
    have "reason_is_accept R_Ok" by code_simp
    then show ?thesis by (simp add: transmit_def answered)
  qed
  ultimately show ?thesis by (intro exI [of _ "stream rp"] exI [of _ sn]) simp
qed

end
