(* ===== verification/Outcomes.thy ===== *)
theory Outcomes
  imports Authority
begin

text \<open>
  What the answer of a decision says about the runtime after it: an accepted recovery has committed
  one attempt, with its fence, its runtime, its intent and its cached answer; any other answer has
  left all authority alone.
\<close>

subsection \<open>The commit\<close>

text \<open>The effect of one commit, as far as it outlives the call that made it.\<close>

record attempt =
  at_mode :: commit_mode
  at_service :: service_name
  at_runtime :: service_runtime
  at_target :: target_record
  at_from :: target_ref
  at_numbers :: attempt_numbers
  at_stamp :: logical_tick

definition at_ref :: "attempt \<Rightarrow> target_ref" where
  "at_ref a = \<lparr>tg_target = tr_name (at_target a), tg_incarnation = tr_incarnation (at_target a)\<rparr>"

definition at_intent :: "impl \<Rightarrow> attempt \<Rightarrow> failover_intent" where
  "at_intent im a = committed_intent (at_mode a) (at_numbers a) (at_service a) (at_from a) (at_ref a) (at_stamp a) (im_state im)"

definition attempt_of :: "impl \<Rightarrow> attempt \<Rightarrow> bool" where
  "attempt_of im a \<longleftrightarrow> service_of im (at_service a) = Some (at_runtime a) \<and>
    attempt_identity (at_mode a) (at_service a) (at_runtime a) im = Inr (at_numbers a) \<and> peek_tick im = Some (at_stamp a)"

definition plan_complete :: "impl \<Rightarrow> attempt \<Rightarrow> recovery_plan \<Rightarrow> bool" where
  "plan_complete im a plan \<longleftrightarrow> pl_steps plan = required_steps (at_runtime a) (at_from a) (at_target a) \<and>
    pl_omitted_steps plan = 0 \<and> pl_fence plan = an_fence (at_numbers a) \<and> pl_generation plan = an_generation (at_numbers a) \<and>
    pl_to plan = at_ref a \<and> pl_from plan = at_from a"

definition committed_as :: "request_key \<Rightarrow> attempt \<Rightarrow> impl \<Rightarrow> commit_result \<Rightarrow> impl \<Rightarrow> bool" where
  "committed_as key a im result im' \<longleftrightarrow> attempt_of im a \<and> im_config im' = im_config im \<and> im_opened im' = im_opened im \<and>
    (\<exists>trigger k. core (im_state im') = core (apply_committed (at_mode a) (at_numbers a) (at_stamp a)
      (recovery_change im (at_mode a) (at_numbers a) (at_service a) (at_from a) (at_ref a) (at_stamp a) trigger (at_runtime a))
      k (im_state im))) \<and>
    im_intents im' = snd (iq_push (at_intent im a) (im_intents im)) \<and> cr_intent result = Some (at_intent im a) \<and>
    plan_complete im a (cr_plan result) \<and>
    (\<not> is_nil key \<longrightarrow> (\<exists>entry. omap_find (st_request_cache (im_state im')) key = Some entry \<and> rq_accepted entry \<and>
      rq_attempt entry = Id (an_attempt (at_numbers a)) \<and> rq_fence entry = an_fence (at_numbers a) \<and>
      rq_generation entry = an_generation (at_numbers a) \<and> rq_to entry = at_ref a \<and> rq_from entry = at_from a \<and>
      rq_has_intent entry))"

lemma build_plan_Ok: "build_plan im runtime from' to e = (R_Ok, plan, e') \<Longrightarrow>
    plan = default_recovery_plan\<lparr>pl_steps := required_steps runtime from' to\<rparr>"
  by (auto simp: build_plan_def Let_def split: if_splits)

lemma rotate_cache: "rotate_if_due im = (code, im') \<Longrightarrow> st_request_cache (im_state im') = st_request_cache (im_state im)"
  by (auto simp: rotate_if_due_def maybe_compact_def Let_def bump_def split: option.splits prod.splits if_splits)

lemma remembered: "\<not> is_nil key \<Longrightarrow> omap_find (st_request_cache (im_state (remember key entry im))) key = Some entry"
  by (auto simp: remember_def split: prod.splits)

lemma emit_intent_frame:
  "core (im_state (emit_intent i im)) = core (im_state im)" "im_config (emit_intent i im) = im_config im"
  "im_opened (emit_intent i im) = im_opened im" "im_intents (emit_intent i im) = snd (iq_push i (im_intents im))"
  "im_cancels (emit_intent i im) = im_cancels im"
  by (auto simp: emit_intent_def split: prod.splits bool.splits)

lemma remember_frame:
  "core (im_state (remember key entry im)) = core (im_state im)" "im_config (remember key entry im) = im_config im"
  "im_opened (remember key entry im) = im_opened im" "im_intents (remember key entry im) = im_intents im"
  by (auto simp: remember_def split: prod.splits)

lemma committed_intent_core:
  "core s = core t \<Longrightarrow> committed_intent mode n service from' to_ref stamp s = committed_intent mode n service from' to_ref stamp t"
  by (simp add: committed_intent_def core_eq_iff)

lemma committed_intent_after:
  "committed_intent mode n service from' to_ref stamp (apply_committed mode n stamp c k s) =
    committed_intent mode n service from' to_ref stamp s"
  by (simp add: committed_intent_def frame)

lemma core_committed: "core s = core t \<Longrightarrow> core (apply_committed mode n stamp c k s) = core (apply_committed mode n stamp c k t)"
  by (simp add: core_eq_iff apply_committed_def Let_def bump_def apply_change_def)

lemma attempt_identity_Inl: "attempt_identity mode service sv im = Inl code \<Longrightarrow> code \<noteq> R_Ok"
  by (auto simp: attempt_identity_def Let_def split: option.splits prod.splits if_splits)

lemma after_commit_result:
  assumes im1: "quiet im im1" and a: "attempt_of im a"
    and plan: "plan = numbered_plan (default_recovery_plan\<lparr>pl_steps := required_steps (at_runtime a) (at_from a) (at_target a)\<rparr>)
      (at_numbers a) (at_service a) (at_from a) (at_ref a)"
    and service: "fq_service request = at_service a"
    and change: "change = recovery_change im (at_mode a) (at_numbers a) (at_service a) (at_from a) (at_ref a) (at_stamp a)
      trigger (at_runtime a)"
  shows "post (\<lambda>r im'. cr_code (fst r) = R_Ok \<and> committed_as (fq_key request) a im (fst r) im')
    (after_commit (at_mode a) (at_numbers a) request (at_target a) (at_from a) (at_stamp a) plan change k e im1)"
  unfolding after_commit_def at_ref_def [symmetric]
proof (intro post_let post_prod)
  fix to_ref im2 intent im3 im4 im5 e1 compacted im6
  assume steps: "to_ref = at_ref a" "im2 = in_state (apply_committed (at_mode a) (at_numbers a) (at_stamp a) change k) im1"
    "intent = committed_intent (at_mode a) (at_numbers a) (fq_service request) (at_from a) to_ref (at_stamp a) (im_state im2)"
    "im3 = emit_intent intent im2"
    "im4 = remember (fq_key request) (committed_entry (at_mode a) (at_numbers a) (at_from a) to_ref (at_stamp a) plan (im_state im3)) im3"
    "im5 = (if is_nil (fq_key request) then im4
      else im4\<lparr>im_cancels := cn_guard_commit (fq_key request) (im_cancels im4)\<rparr>)"
    and rotate: "rotate_if_due im5 = (compacted, im6)"
  have q: "quiet im5 im6" using quietD(2) rotate by blast
  have five: "im_config im5 = im_config im" "im_opened im5 = im_opened im"
    "core (im_state im5) = core (im_state im2)" "im_intents im5 = snd (iq_push intent (im_intents im))"
    using im1 by (simp_all add: steps emit_intent_frame remember_frame quiet_def)
  have intent: "intent = at_intent im a"
    using im1 by (simp add: steps at_intent_def committed_intent_after service)
      (rule committed_intent_core, simp add: quiet_def)
  have "core (im_state im2) = core (apply_committed (at_mode a) (at_numbers a) (at_stamp a) change k (im_state im))"
    using im1 by (simp add: steps) (rule core_committed, simp add: quiet_def)
  moreover have "plan_complete im a plan"
    by (simp add: plan_complete_def plan numbered_plan_def default_recovery_plan_def)
  moreover have "\<exists>entry. omap_find (st_request_cache (im_state im6)) (fq_key request) = Some entry \<and> rq_accepted entry \<and>
      rq_attempt entry = Id (an_attempt (at_numbers a)) \<and> rq_fence entry = an_fence (at_numbers a) \<and>
      rq_generation entry = an_generation (at_numbers a) \<and> rq_to entry = at_ref a \<and> rq_from entry = at_from a \<and>
      rq_has_intent entry" if "\<not> is_nil (fq_key request)"
    using that rotate_cache [OF rotate] remembered [OF that] by (simp add: steps committed_entry_def)
  ultimately have "committed_as (fq_key request) a im \<lparr>cr_code = R_Ok, cr_plan = plan, cr_intent = Some intent\<rparr> im6"
    using q five a by (auto simp: committed_as_def intent quiet_def change)
  then show "post (\<lambda>r im'. cr_code (fst r) = R_Ok \<and> committed_as (fq_key request) a im (fst r) im')
    ((\<lparr>cr_code = R_Ok, cr_plan = plan, cr_intent = Some intent\<rparr>,
      if compacted \<noteq> R_Ok then note_step compacted (str (tr_name (at_target a))) txt_compaction_after_commit_failed 0 e1 else e1), im6)"
    by simp
qed

lemma commit_recovery_result:
  assumes "service_of im (fq_service request) = Some runtime"
  shows "post (\<lambda>r im'. (cr_code (fst r) \<noteq> R_Ok \<and> quiet im im') \<or> (cr_code (fst r) = R_Ok \<and>
      (\<exists>n stamp. committed_as (fq_key request) \<lparr>at_mode = mode, at_service = fq_service request, at_runtime = runtime,
        at_target = to, at_from = from', at_numbers = n, at_stamp = stamp\<rparr> im (fst r) im')))
    (commit_recovery request runtime to from' trigger mode e im)" (is "post ?Q _")
proof -
  have "post ?Q (after_commit mode n request to from' stamp
      (numbered_plan plan0 n (fq_service request) from' \<lparr>tg_target = tr_name to, tg_incarnation = tr_incarnation to\<rparr>)
      (recovery_change im mode n (fq_service request) from' \<lparr>tg_target = tr_name to, tg_incarnation = tr_incarnation to\<rparr>
        stamp trigger runtime) k e1 im1)"
    if "persist rs im = (code, im1)" "peek_tick im = Some stamp"
      "attempt_identity mode (fq_service request) runtime im = Inr n" "build_plan im runtime from' to e = (R_Ok, plan0, e1)"
    for rs code im1 stamp n plan0 e1 k
  proof -
    let ?a = "\<lparr>at_mode = mode, at_service = fq_service request, at_runtime = runtime, at_target = to, at_from = from',
      at_numbers = n, at_stamp = stamp\<rparr>"
    have q: "quiet im im1" and a: "attempt_of im ?a"
      using quietD(1) [OF that(1)] assms that(2,3) by (simp_all add: attempt_of_def)
    have "post (\<lambda>r im'. cr_code (fst r) = R_Ok \<and> committed_as (fq_key request) ?a im (fst r) im')
        (after_commit mode n request to from' stamp
          (numbered_plan plan0 n (fq_service request) from' \<lparr>tg_target = tr_name to, tg_incarnation = tr_incarnation to\<rparr>)
          (recovery_change im mode n (fq_service request) from' \<lparr>tg_target = tr_name to, tg_incarnation = tr_incarnation to\<rparr>
            stamp trigger runtime) k e1 im1)"
      using after_commit_result [OF q a refl _ refl, of request trigger k e1] build_plan_Ok [OF that(4)]
      by (simp add: at_ref_def)
    then show ?thesis by (rule post_mono) blast
  qed
  then show ?thesis
    unfolding commit_recovery_def
    by (intro post_rules)
       (auto simp: commit_failed_def dest: attempt_identity_Inl intro: quietD(1))
qed

subsection \<open>Authority kept and authority given\<close>

definition kept :: "impl \<Rightarrow> impl \<Rightarrow> bool" where
  "kept im im' \<longleftrightarrow> im_config im' = im_config im \<and> im_opened im' = im_opened im \<and> im_intents im' = im_intents im \<and>
    st_fences (im_state im') = st_fences (im_state im) \<and> st_witnesses (im_state im') = st_witnesses (im_state im) \<and>
    (\<forall>name. map_option authority (service_of im' name) = map_option authority (service_of im name))"

text \<open>The runtime after a commit that stood: the fence, the service, the intent, the plan and the
  cached answer are those of the attempt; no other service lost or gained authority.\<close>

definition authorised :: "request_key \<Rightarrow> attempt \<Rightarrow> impl \<Rightarrow> recovery_decision \<Rightarrow> impl \<Rightarrow> bool" where
  "authorised key a im d im' \<longleftrightarrow> attempt_of im a \<and> im_config im' = im_config im \<and> im_opened im' = im_opened im \<and>
    st_fences (im_state im') = omap_put (at_service a)
      (committed_fence (at_numbers a) (at_service a) (at_ref a) (st_epoch (im_state im)) (at_stamp a)) (st_fences (im_state im)) \<and>
    (\<exists>sv. service_of im' (at_service a) = Some sv \<and> sv_active sv = Some (at_ref a) \<and> sv_fence sv = an_fence (at_numbers a) \<and>
      sv_generation sv = an_generation (at_numbers a) \<and> sv_current_attempt sv = Id (an_attempt (at_numbers a)) \<and>
      \<not> sv_effect_verified sv \<and> sv_continuity sv = ContinuityClass_Unknown) \<and>
    (\<forall>name. name \<noteq> at_service a \<longrightarrow> service_of im' name = service_of im name) \<and>
    im_intents im' = snd (iq_push (at_intent im a) (im_intents im)) \<and> dc_intent d = Some (at_intent im a) \<and>
    plan_complete im a (dc_plan d) \<and>
    (\<not> is_nil key \<longrightarrow> (\<exists>entry. omap_find (st_request_cache (im_state im')) key = Some entry \<and> rq_accepted entry \<and>
      rq_attempt entry = Id (an_attempt (at_numbers a)) \<and> rq_fence entry = an_fence (at_numbers a) \<and>
      rq_generation entry = an_generation (at_numbers a) \<and> rq_to entry = at_ref a \<and> rq_from entry = at_from a \<and>
      rq_has_intent entry))"

lemma kept_refl [simp]: "kept im im"
  by (simp add: kept_def)

lemma kept_trans: "kept im im' \<Longrightarrow> kept im' im'' \<Longrightarrow> kept im im''"
  by (simp add: kept_def)

lemma quiet_kept: "quiet im im' \<Longrightarrow> kept im im'"
  by (simp add: kept_def quiet_lookups) (simp add: quiet_def core_eq_iff)

lemma kept_quiet: "kept im im' \<Longrightarrow> quiet im' im'' \<Longrightarrow> kept im im''"
  by (blast intro: kept_trans quiet_kept)

lemma kept_bump [simp]: "kept im (in_state (bump c) im') \<longleftrightarrow> kept im im'"
  by (simp add: kept_def service_of_def bump_def)

lemma kept_change:
  assumes "kept im im'" "\<And>sv. authority (f sv) = authority sv"
  shows "kept im (in_state (change_service name f) im')"
proof -
  have "kept im' (in_state (change_service name f) im')"
    using assms(2) by (auto simp: kept_def service_of_def change_service_def omap_find_put split: option.splits)
  with assms(1) show ?thesis by (rule kept_trans)
qed

lemma kept_post: "kept im im' \<Longrightarrow> post (\<lambda>_. quiet im') r \<Longrightarrow> post (\<lambda>_. kept im) r"
  by (auto simp: post_def intro: kept_quiet)

text \<open>Refusals accept nothing, replays are duplicates, and both keep all authority.\<close>

definition declined :: "impl \<Rightarrow> recovery_decision \<Rightarrow> impl \<Rightarrow> bool" where
  "declined im d im' \<longleftrightarrow> kept im im' \<and> (\<not> dc_accepted d \<or> dc_duplicate d)"

lemma refusal_declined: "kept im im1 \<Longrightarrow> post (declined im) (refusal e code subject detail v im1)"
  using kept_quiet [of im im1] refusal_quiet [of im1 e code subject detail v]
  by (auto simp: refusal_def Let_def declined_def default_recovery_decision_def)

lemma refusal_simple_declined: "post (declined im) (refusal_simple e code im)"
  by (simp add: refusal_simple_def refusal_declined)

lemma replay_declined: "post (declined im) (replay_cached entry e request im)"
  using replay_quiet [of im entry e request]
  by (auto simp: replay_cached_def Let_def declined_def intro: quiet_kept)

lemma refuse_with_declined: "kept im im1 \<Longrightarrow> post (declined im) (refuse_with ob e im1)"
  by (auto simp: refuse_with_def split: prod.splits option.splits intro!: refusal_declined)

lemma refuse_failover_declined: "kept im im1 \<Longrightarrow> post (declined im) (refuse_failover ob service e im1)"
  unfolding refuse_failover_def by (intro refuse_with_declined kept_change) (simp_all add: authority_def)

lemma refuse_failback_declined: "kept im im1 \<Longrightarrow> post (declined im) (refuse_failback ob e im1)"
  unfolding refuse_failback_def by (intro refuse_with_declined) simp

lemma refuse_effect_declined: "kept im im1 \<Longrightarrow> post (declined im) (refuse_effect ob e im1)"
  unfolding refuse_effect_def by (intro refuse_with_declined) simp

lemmas declining = refusal_declined refusal_simple_declined replay_declined refuse_with_declined
  refuse_failover_declined refuse_failback_declined refuse_effect_declined

lemma refuse_ambiguous_declined: "post (declined im) (refuse_ambiguous ev service e im)"
  unfolding refuse_ambiguous_def
proof (rule refuse_failover_declined)
  have "kept im (in_state (bump c) (in_state (change_service service (ambiguity_marked i)) im))" for c i
    by (simp, rule kept_change) (simp_all add: ambiguity_marked_def authority_def)
  then show "kept im (in_state (\<lambda>s. bump c (change_service service (ambiguity_marked i) s)) im)" for c i
    by (simp add: in_state_def)
qed

subsection \<open>An accepted commit\<close>

lemma committed_as_frame:
  assumes "committed_as key a im result im1"
  shows "st_fences (im_state im1) = omap_put (at_service a)
      (committed_fence (at_numbers a) (at_service a) (at_ref a) (st_epoch (im_state im)) (at_stamp a)) (st_fences (im_state im))"
    "\<exists>sv. service_of im1 (at_service a) = Some sv \<and> sv_active sv = Some (at_ref a) \<and> sv_fence sv = an_fence (at_numbers a) \<and>
      sv_generation sv = an_generation (at_numbers a) \<and> sv_current_attempt sv = Id (an_attempt (at_numbers a)) \<and>
      \<not> sv_effect_verified sv \<and> sv_continuity sv = ContinuityClass_Unknown"
    "name \<noteq> at_service a \<Longrightarrow> service_of im1 name = service_of im name"
  using assms by (auto simp: committed_as_def core_eq_iff frame service_of_def omap_find_put)

text \<open>What happens between the commit and the answer.\<close>

lemma authorised_after:
  assumes "committed_as key a im result im1"
    and "st_fences (im_state im') = st_fences (im_state im1)" "im_intents im' = im_intents im1"
      "im_config im' = im_config im1" "im_opened im' = im_opened im1"
      "st_request_cache (im_state im') = st_request_cache (im_state im1)"
    and "\<And>name. name \<noteq> at_service a \<Longrightarrow> service_of im' name = service_of im1 name"
    and "\<And>sv. service_of im1 (at_service a) = Some sv \<Longrightarrow> \<exists>sv'. service_of im' (at_service a) = Some sv' \<and>
      authority sv' = authority sv \<and> sv_effect_verified sv' = sv_effect_verified sv \<and> sv_continuity sv' = sv_continuity sv"
    and "dc_intent d = cr_intent result" "dc_plan d = cr_plan result"
  shows "authorised key a im d im'"
proof -
  obtain sv where sv: "service_of im1 (at_service a) = Some sv" "sv_active sv = Some (at_ref a)"
      "sv_fence sv = an_fence (at_numbers a)" "sv_generation sv = an_generation (at_numbers a)"
      "sv_current_attempt sv = Id (an_attempt (at_numbers a))" "\<not> sv_effect_verified sv"
      "sv_continuity sv = ContinuityClass_Unknown"
    using committed_as_frame(2) [OF assms(1)] by blast
  from assms(8) [OF sv(1)] obtain sv' where sv': "service_of im' (at_service a) = Some sv'" "authority sv' = authority sv"
      "sv_effect_verified sv' = sv_effect_verified sv" "sv_continuity sv' = sv_continuity sv"
    by blast
  have "\<exists>sv. service_of im' (at_service a) = Some sv \<and> sv_active sv = Some (at_ref a) \<and> sv_fence sv = an_fence (at_numbers a) \<and>
      sv_generation sv = an_generation (at_numbers a) \<and> sv_current_attempt sv = Id (an_attempt (at_numbers a)) \<and>
      \<not> sv_effect_verified sv \<and> sv_continuity sv = ContinuityClass_Unknown"
    using sv sv' by (auto simp: authority_def)
  moreover have "service_of im' name = service_of im name" if "name \<noteq> at_service a" for name
    using committed_as_frame(3) [OF assms(1) that] assms(7) [OF that] by simp
  ultimately show ?thesis
    using assms(1-6,9,10) committed_as_frame(1) [OF assms(1)] by (simp add: authorised_def committed_as_def)
qed

lemma record_explanation_frame [simp]:
  "st_fences (im_state (record_explanation e im)) = st_fences (im_state im)"
  "st_request_cache (im_state (record_explanation e im)) = st_request_cache (im_state im)"
  "service_of (record_explanation e im) = service_of im" "im_intents (record_explanation e im) = im_intents im"
  "im_config (record_explanation e im) = im_config im" "im_opened (record_explanation e im) = im_opened im"
  by (simp_all add: record_explanation_def Let_def bump_def service_of_def fun_eq_iff)

lemma bump_frame [simp]:
  "st_fences (bump c s) = st_fences s" "st_request_cache (bump c s) = st_request_cache s"
  "service_of (in_state (bump c) im) = service_of im"
  by (simp_all add: bump_def service_of_def fun_eq_iff)

definition granted :: "(attempt \<Rightarrow> bool) \<Rightarrow> request_key \<Rightarrow> impl \<Rightarrow> recovery_decision \<Rightarrow> impl \<Rightarrow> bool" where
  "granted gates key im d im' \<longleftrightarrow> dc_accepted d \<and> \<not> dc_duplicate d \<and> (\<exists>a. gates a \<and> authorised key a im d im')"

lemma accepted_granted:
  assumes "committed_as key a im result im1" "gates a"
  shows "post (granted gates key im) (accepted outcome counter result e im1)"
  using authorised_after [OF assms(1)] assms(2)
  by (auto simp: accepted_def Let_def granted_def default_recovery_decision_def split: option.splits)

lemma origin_forgotten_authority: "authority (origin_forgotten sv) = authority sv"
    "sv_effect_verified (origin_forgotten sv) = sv_effect_verified sv" "sv_continuity (origin_forgotten sv) = sv_continuity sv"
  by (simp_all add: origin_forgotten_def authority_def)

lemma accepted_forgotten_granted:
  assumes "committed_as key a im result im1" "gates a"
  shows "post (granted gates key im)
    (accepted outcome counter result e (in_state (change_service (at_service a) origin_forgotten) im1))"
proof -
  let ?im = "in_state (change_service (at_service a) origin_forgotten) im1"
  have "st_fences (im_state ?im) = st_fences (im_state im1)" "st_request_cache (im_state ?im) = st_request_cache (im_state im1)"
    "service_of ?im name = (if name = at_service a then map_option origin_forgotten (service_of im1 name) else service_of im1 name)" for name
    by (auto simp: change_service_def service_of_def omap_find_put split: option.splits)
  then show ?thesis
    using authorised_after [OF assms(1)] assms(2)
    by (auto simp: accepted_def Let_def granted_def default_recovery_decision_def origin_forgotten_authority split: option.splits)
qed

subsection \<open>Dependencies\<close>

text \<open>Every hard dependency that the service declares is satisfied by current evidence.\<close>

definition dependencies_met :: "impl \<Rightarrow> service_runtime \<Rightarrow> bool" where
  "dependencies_met im sv \<longleftrightarrow> (\<forall>spec \<in> set (sd_dependencies (sv_descriptor sv)).
    ds_kind spec = DependencyKind_Hard \<longrightarrow> dependency_verdict im (sd_name (sv_descriptor sv)) spec = R_Ok)"

lemma emit_blocking: "qs_blocking (emit c s d v q) = qs_blocking q"
  by simp

lemma block_blocking:
  "qs_blocking (block spec code q) = R_Ok \<Longrightarrow> code \<noteq> R_Ok \<Longrightarrow> qs_blocking q = R_Ok \<and> ds_kind spec \<noteq> DependencyKind_Hard"
  by (auto simp: block_def split: if_splits)

lemma visit_spec_sound:
  "qs_blocking (visit_spec im owner depth spec q) = R_Ok \<Longrightarrow>
   qs_blocking q = R_Ok \<and> (ds_kind spec = DependencyKind_Hard \<longrightarrow> dependency_verdict im owner spec = R_Ok)"
  by (auto simp: visit_spec_def Let_def dest!: block_blocking split: if_splits)

lemma visit_specs_sound:
  "qs_blocking (foldl (\<lambda>q spec. visit_spec im owner depth spec q) q specs) = R_Ok \<Longrightarrow>
   qs_blocking q = R_Ok \<and> (\<forall>spec \<in> set specs. ds_kind spec = DependencyKind_Hard \<longrightarrow> dependency_verdict im owner spec = R_Ok)"
  by (induction specs arbitrary: q) (auto dest!: visit_spec_sound)

lemma visit_node_sound:
  "qs_blocking (visit_node im (owner, descriptor, depth) q) = R_Ok \<Longrightarrow>
   qs_blocking q = R_Ok \<and> (depth < pd_dependency_max_depth (st_policy (im_state im)) \<longrightarrow>
     (\<forall>spec \<in> set (sd_dependencies descriptor). ds_kind spec = DependencyKind_Hard \<longrightarrow> dependency_verdict im owner spec = R_Ok))"
  by (auto simp: visit_node_def not_le split: if_splits dest: visit_specs_sound)

lemma traverse_blocking: "qs_blocking (traverse im q) = R_Ok \<Longrightarrow> qs_blocking q = R_Ok"
proof (induction im q rule: traverse.induct)
  case (1 im q)
  show ?case
  proof (cases "qs_pending q")
    case (Cons node rest)
    with 1 have "qs_blocking (visit_node im node (q\<lparr>qs_pending := rest\<rparr>)) = R_Ok"
      by (simp add: traverse.simps [of im q])
    then show ?thesis by (cases node) (auto dest: visit_node_sound)
  qed (use 1 in \<open>simp add: traverse.simps [of im q]\<close>)
qed

lemma qualify_sound:
  assumes "qualify_dependencies sv e im = ((R_Ok, e'), im')" "0 < pd_dependency_max_depth (st_policy (im_state im))"
  shows "dependencies_met im sv"
proof -
  let ?d = "sv_descriptor sv"
  let ?q = "\<lparr>qs_visited = [sd_name ?d], qs_pending = [(sd_name ?d, ?d, 0)], qs_explanation = e, qs_emitted = 0,
    qs_blocking = R_Ok, qs_truncated = 0\<rparr>"
  have "qs_blocking (traverse im ?q) = R_Ok"
    using assms(1) by (simp add: qualify_dependencies_def Let_def)
  then have "qs_blocking (traverse im (visit_node im (sd_name ?d, ?d, 0) (?q\<lparr>qs_pending := []\<rparr>))) = R_Ok"
    by (simp add: traverse.simps [of im ?q])
  from visit_node_sound [OF traverse_blocking [OF this]] assms(2) show ?thesis
    by (simp add: dependencies_met_def)
qed

subsection \<open>Candidates\<close>

lemma scan_candidates_find:
  "fst (scan_candidates im runtime ts emitted rejections e) = find (\<lambda>t. evaluate_candidate im runtime t = R_Ok) ts"
  by (induction im runtime ts emitted rejections e rule: scan_candidates.induct) (auto simp: Let_def)

lemma selected:
  "select_fallback runtime failed e im = ((code, Some t, e'), im') \<Longrightarrow>
   find (\<lambda>t. evaluate_candidate im runtime t = R_Ok) (take (candidate_ceiling im) (ordered_candidates im runtime failed)) = Some t"
  using scan_candidates_find [of im runtime "take (candidate_ceiling im) (ordered_candidates im runtime failed)"]
  by (auto simp: select_fallback_def Let_def split: prod.splits option.splits) (metis fst_conv)+

lemma ordered_candidates_members:
  "t \<in> set (ordered_candidates im runtime failed) \<longleftrightarrow>
    (\<exists>name. target_of im name = Some t \<and> \<not> (tg_valid failed \<and> name = tg_target failed) \<and>
      (\<forall>a. sv_active runtime = Some a \<longrightarrow> name \<noteq> tg_target a))"
  by (auto simp: ordered_candidates_def Let_def target_of_def find_entries image_iff split: option.splits)

subsection \<open>Gates\<close>

text \<open>Why a recovery may proceed: current, unambiguous evidence against the active target, or an
  enrolled operator.\<close>

definition justified :: "impl \<Rightarrow> service_runtime \<Rightarrow> failover_request \<Rightarrow> bool" where
  "justified im sv request \<longleftrightarrow>
    (if fq_trigger request = RecoveryTrigger_FailureEvidence then
       (\<exists>ev. failure_of im (fq_evidence request) = Some ev \<and> fe_service ev = fq_service request \<and>
         sv_active sv = Some (fe_target ev) \<and> fe_ambiguity ev = AmbiguityState_Unambiguous \<and>
         pv_epoch (fe_provenance ev) = st_epoch (im_state im) \<and> pv_boot (fe_provenance ev) = st_boot (im_state im) \<and>
         pv_tick (fe_provenance ev) \<le> st_tick (im_state im) \<and>
         tick_value (st_tick (im_state im)) - tick_value (pv_tick (fe_provenance ev)) \<le>
           ucast (pd_evidence_max_age_ticks (st_policy (im_state im))) \<and>
         fe_topology_generation ev = st_topology_generation (im_state im))
     else fq_operator_authorized request \<and> role_satisfies im (fq_requester request) SourceRole_Operator)"

definition idle :: "impl \<Rightarrow> service_runtime \<Rightarrow> bool" where
  "idle im sv \<longleftrightarrow> sv_lifecycle sv \<noteq> LifecyclePhase_Withdrawn \<and> sv_lifecycle sv \<noteq> LifecyclePhase_RecoveryAuthorized \<and>
    sv_lifecycle sv \<noteq> LifecyclePhase_RecoveryInFlight \<and>
    sv_attempts_since_verified sv < pd_max_attempts_per_generation (st_policy (im_state im))"

definition failover_gates :: "impl \<Rightarrow> failover_request \<Rightarrow> attempt \<Rightarrow> bool" where
  "failover_gates im request a \<longleftrightarrow> at_mode a = Failover_Mode \<and> at_service a = fq_service request \<and>
    idle im (at_runtime a) \<and> justified im (at_runtime a) request \<and>
    (ps_contains (sd_preconditions (sv_descriptor (at_runtime a))) Precondition_OperatorAuthorization \<longrightarrow>
      fq_operator_authorized request) \<and>
    (0 < pd_dependency_max_depth (st_policy (im_state im)) \<longrightarrow> dependencies_met im (at_runtime a)) \<and>
    evaluate_candidate im (at_runtime a) (at_target a) = R_Ok \<and>
    at_from a = value_or (sv_active (at_runtime a)) default_target_ref \<and>
    (\<exists>name. target_of im name = Some (at_target a) \<and> (\<forall>old. sv_active (at_runtime a) = Some old \<longrightarrow> name \<noteq> tg_target old))"

definition resume_gates :: "impl \<Rightarrow> failover_request \<Rightarrow> attempt \<Rightarrow> bool" where
  "resume_gates im request a \<longleftrightarrow> at_mode a = Resume_Mode \<and> at_service a = fq_service request \<and>
    sv_lifecycle (at_runtime a) \<noteq> LifecyclePhase_Withdrawn \<and> sv_recovery (at_runtime a) = RecoveryPhase_IntentRecorded \<and>
    role_satisfies im (fq_requester request) SourceRole_Operator \<and> evaluate_candidate im (at_runtime a) (at_target a) = R_Ok \<and>
    (\<exists>previous. current_attempt_record (at_runtime a) = Some previous \<and> at_from a = ar_from previous \<and>
      target_of im (tg_target (ar_to previous)) = Some (at_target a) \<and> tr_incarnation (at_target a) = tg_incarnation (ar_to previous))"

definition placement_gates :: "impl \<Rightarrow> placement_request \<Rightarrow> attempt \<Rightarrow> bool" where
  "placement_gates im request a \<longleftrightarrow> at_mode a = InitialPlacement \<and> at_service a = pq_service request \<and>
    role_satisfies im (pq_requester request) SourceRole_Operator \<and> sv_active (at_runtime a) = None \<and>
    sv_lifecycle (at_runtime a) \<noteq> LifecyclePhase_Withdrawn \<and>
    target_of im (pq_target request) = Some (at_target a) \<and> evaluate_candidate im (at_runtime a) (at_target a) = R_Ok \<and>
    (0 < pd_dependency_max_depth (st_policy (im_state im)) \<longrightarrow> dependencies_met im (at_runtime a))"

definition failback_gates :: "impl \<Rightarrow> failback_request \<Rightarrow> attempt \<Rightarrow> bool" where
  "failback_gates im request a \<longleftrightarrow> at_mode a = Failover_Mode \<and> at_service a = bq_service request \<and>
    pd_allow_failback (st_policy (im_state im)) \<and> sv_failover_recorded (at_runtime a) \<and>
    bq_observed_topology_generation request = st_topology_generation (im_state im) \<and>
    bq_observed_policy_generation request = st_policy_generation (im_state im) \<and>
    sv_lifecycle (at_runtime a) \<noteq> LifecyclePhase_RecoveryAuthorized \<and>
    sv_lifecycle (at_runtime a) \<noteq> LifecyclePhase_RecoveryInFlight \<and>
    (0 < pd_dependency_max_depth (st_policy (im_state im)) \<longrightarrow> dependencies_met im (at_runtime a)) \<and>
    (\<exists>original slot. sv_pre_failover_target (at_runtime a) = Some original \<and> tg_target original = bq_preferred_target request \<and>
      target_of im (tg_target original) = Some (at_target a) \<and> tg_incarnation original < tr_incarnation (at_target a) \<and>
      capability_of im (tg_target original) = Some slot \<and> \<not> cp_requires_reconfirmation slot \<and>
      ce_topology_generation (cp_evidence slot) = st_topology_generation (im_state im) \<and>
      ce_incarnation (cp_evidence slot) = tr_incarnation (at_target a) \<and>
      sv_pre_failover_capability (at_runtime a) < ce_generation (cp_evidence slot) \<and>
      contains_all (ce_capabilities (cp_evidence slot)) (sd_required_capabilities (sv_descriptor (at_runtime a))))"

lemma gate_qualified:
  "recovery_gate im sv request = Gate_Qualified evidence trigger \<Longrightarrow> justified im sv request"
  by (auto simp: recovery_gate_def justified_def evidence_objections_def Let_def not_less split: if_splits option.splits)

lemma failback_gateD:
  assumes "failback_gate im sv request = Inr t" "service_of im (bq_service request) = Some sv"
  shows "pd_allow_failback (st_policy (im_state im))" "sv_failover_recorded sv"
    "bq_observed_topology_generation request = st_topology_generation (im_state im)"
    "bq_observed_policy_generation request = st_policy_generation (im_state im)"
    "sv_lifecycle sv \<noteq> LifecyclePhase_RecoveryAuthorized" "sv_lifecycle sv \<noteq> LifecyclePhase_RecoveryInFlight"
    "\<exists>original slot. sv_pre_failover_target sv = Some original \<and> tg_target original = bq_preferred_target request \<and>
      target_of im (tg_target original) = Some t \<and> tg_incarnation original < tr_incarnation t \<and>
      capability_of im (tg_target original) = Some slot \<and> \<not> cp_requires_reconfirmation slot \<and>
      ce_topology_generation (cp_evidence slot) = st_topology_generation (im_state im) \<and>
      ce_incarnation (cp_evidence slot) = tr_incarnation t \<and>
      sv_pre_failover_capability sv < ce_generation (cp_evidence slot) \<and>
      contains_all (ce_capabilities (cp_evidence slot)) (sd_required_capabilities (sv_descriptor sv))"
  using assms
  by (auto simp: failback_gate_def original_capability_objections_def Let_def not_le split: if_splits option.splits)

subsection \<open>The handlers\<close>

lemma quiet_fields:
  assumes "quiet im im1"
  shows "st_next_attempt_id (im_state im1) = st_next_attempt_id (im_state im)"
    "st_next_lease_id (im_state im1) = st_next_lease_id (im_state im)"
    "st_next_plan_id (im_state im1) = st_next_plan_id (im_state im)"
    "st_epoch (im_state im1) = st_epoch (im_state im)" "st_policy (im_state im1) = st_policy (im_state im)"
    "st_boot (im_state im1) = st_boot (im_state im)" "st_tick (im_state im1) = st_tick (im_state im)"
    "st_topology_generation (im_state im1) = st_topology_generation (im_state im)"
    "st_policy_generation (im_state im1) = st_policy_generation (im_state im)"
    "st_dependencies (im_state im1) = st_dependencies (im_state im)"
    "st_latest_failure (im_state im1) = st_latest_failure (im_state im)"
    "st_fences (im_state im1) = st_fences (im_state im)" "im_intents im1 = im_intents im"
    "im_opened im1 = im_opened im" "im_config im1 = im_config im"
  using assms by (auto simp: quiet_def core_eq_iff)

lemma committed_as_quiet:
  assumes "quiet im im1" "committed_as key a im1 result im2"
  shows "committed_as key a im result im2"
proof -
  note q = quiet_fields [OF assms(1)] quiet_lookups [OF assms(1)]
  have "attempt_identity mode service sv im1 = attempt_identity mode service sv im" for mode service sv
    unfolding attempt_identity_def next_numbers_def q by (rule refl)
  then have "attempt_of im1 a = attempt_of im a" by (simp add: attempt_of_def q)
  moreover have "recovery_change im1 mode n service from' to_ref stamp trigger sv =
      recovery_change im mode n service from' to_ref stamp trigger sv" for mode n service from' to_ref stamp trigger sv
    unfolding recovery_change_def committed_runtime_def remember_origin_def q by (rule refl)
  moreover have "at_intent im1 a = at_intent im a"
    by (simp add: at_intent_def committed_intent_def q)
  moreover have "core (apply_committed mode n stamp c k (im_state im1)) = core (apply_committed mode n stamp c k (im_state im))"
    for mode n stamp c k
    using assms(1) by (intro core_committed) (simp add: quiet_def)
  ultimately show ?thesis
    using assms(2) by (simp add: committed_as_def plan_complete_def q)
qed

lemma evaluate_quiet: "quiet im im1 \<Longrightarrow> evaluate_candidate im1 sv t = evaluate_candidate im sv t"
proof -
  assume "quiet im im1"
  note q = quiet_fields [OF this] quiet_lookups [OF this]
  show ?thesis unfolding evaluate_candidate_def latest_failure_of_def Let_def q by (rule refl)
qed

text \<open>A handler that is about to commit, on a runtime that differs from the initial one only in its
  bookkeeping.\<close>

lemma commit_step:
  assumes "quiet im im1" "service_of im (fq_service request) = Some sv"
    and "commit_recovery request sv t from' trigger mode e im1 = ((result, e1), im2)"
  shows "cr_code result \<noteq> R_Ok \<Longrightarrow> kept im im2"
    and "cr_code result = R_Ok \<Longrightarrow> \<exists>a. committed_as (fq_key request) a im result im2 \<and> at_mode a = mode \<and>
      at_service a = fq_service request \<and> at_runtime a = sv \<and> at_target a = t \<and> at_from a = from'"
proof -
  have "service_of im1 (fq_service request) = Some sv" using assms(1,2) by (simp add: quiet_lookups)
  note r = postD [OF commit_recovery_result [OF this] assms(3), simplified]
  show "kept im im2" if "cr_code result \<noteq> R_Ok"
    using r that assms(1) by (auto intro: quiet_kept quiet_trans)
  assume "cr_code result = R_Ok"
  with r obtain n stamp where "committed_as (fq_key request) \<lparr>at_mode = mode, at_service = fq_service request,
      at_runtime = sv, at_target = t, at_from = from', at_numbers = n, at_stamp = stamp\<rparr> im1 result im2"
    by auto
  from committed_as_quiet [OF assms(1) this] show "\<exists>a. committed_as (fq_key request) a im result im2 \<and> at_mode a = mode \<and>
      at_service a = fq_service request \<and> at_runtime a = sv \<and> at_target a = t \<and> at_from a = from'"
    by fastforce
qed

definition decided :: "(attempt \<Rightarrow> bool) \<Rightarrow> request_key \<Rightarrow> impl \<Rightarrow> recovery_decision \<Rightarrow> impl \<Rightarrow> bool" where
  "decided gates key im d im' \<longleftrightarrow> declined im d im' \<or> granted gates key im d im'"

lemma declined_decided: "post (declined im) r \<Longrightarrow> post (decided gates key im) r"
  by (auto simp: post_def decided_def)

lemma granted_decided: "post (granted gates key im) r \<Longrightarrow> post (decided gates key im) r"
  by (auto simp: post_def decided_def)

lemmas deciding = declining [THEN declined_decided]

lemma qualify_kept: "qualify_dependencies sv e im = (r, im1) \<Longrightarrow> kept im im1"
  by (rule quiet_kept [OF qualifyD])

lemma commit_kept:
  assumes "quiet im im1" "commit_recovery request sv t from' trigger mode e im1 = ((result, e1), im2)"
    "cr_code result \<noteq> R_Ok" "service_of im (fq_service request) = Some sv"
  shows "kept im im2"
  using commit_step(1) assms by blast

lemma commit_granted:
  assumes "quiet im im1" "commit_recovery request sv t from' trigger mode e im1 = ((result, e1), im2)"
    "\<not> cr_code result \<noteq> R_Ok" "service_of im (fq_service request) = Some sv"
    and "\<And>a. at_mode a = mode \<Longrightarrow> at_service a = fq_service request \<Longrightarrow> at_runtime a = sv \<Longrightarrow> at_target a = t \<Longrightarrow>
      at_from a = from' \<Longrightarrow> gates a" and "fq_key request = key"
  shows "post (decided gates key im) (accepted outcome counter result e' im2)"
    and "post (decided gates key im)
      (accepted outcome counter result e' (in_state (change_service (fq_service request) origin_forgotten) im2))"
proof -
  obtain a where a: "committed_as key a im result im2" "at_mode a = mode" "at_service a = fq_service request"
      "at_runtime a = sv" "at_target a = t" "at_from a = from'"
    using commit_step(2) [OF assms(1,4,2)] assms(3,6) by auto
  then have "gates a" by (intro assms(5))
  with a show "post (decided gates key im) (accepted outcome counter result e' im2)"
    "post (decided gates key im)
      (accepted outcome counter result e' (in_state (change_service (fq_service request) origin_forgotten) im2))"
    using accepted_granted [OF a(1)] accepted_forgotten_granted [OF a(1)] by (auto intro: granted_decided)
qed

lemma do_establish_placement_decided:
  "post (decided (placement_gates im request) (pq_key request) im) (do_establish_placement request im)"
  unfolding do_establish_placement_def
  apply (intro post_rules deciding kept_refl)
    apply (simp_all only:)
    apply (erule qualify_kept)
   apply (erule commit_kept [OF qualifyD, rotated], assumption, simp, assumption)
  apply (erule commit_granted(1) [OF qualifyD, rotated])
      apply simp_all
  apply (auto simp: placement_gates_def dest: placement_accepted qualify_sound)
  done

lemma do_resume_decided:
  assumes "service_of im (fq_service request) = Some sv" "sv_lifecycle sv \<noteq> LifecyclePhase_Withdrawn"
  shows "post (decided (resume_gates im request) (fq_key request) im) (do_resume sv request e im)"
proof -
  have q: "quiet im (in_state (bump sa_recovery_reissues_update) im)" by simp
  show ?thesis
    unfolding do_resume_def
    apply (intro post_rules deciding kept_refl)
     apply (simp_all only:)
     apply (erule commit_kept [OF q], assumption, rule assms)
    apply (erule commit_granted(1) [OF q], assumption, rule assms)
     apply (use assms(2) in \<open>auto simp: resume_gates_def dest: resumableD\<close>)
    done
qed

lemma selection_gates:
  assumes "quiet im im1" "select_fallback sv failed e im1 = ((code, Some t, e'), im2)"
  shows "evaluate_candidate im sv t = R_Ok"
    "\<exists>name. target_of im name = Some t \<and> (\<forall>old. sv_active sv = Some old \<longrightarrow> name \<noteq> tg_target old)"
proof -
  note f = findD [OF selected [OF assms(2)]]
  then show "evaluate_candidate im sv t = R_Ok" using evaluate_quiet [OF assms(1)] by simp
  have "t \<in> set (ordered_candidates im1 sv failed)" using f by (blast dest: in_set_takeD)
  then show "\<exists>name. target_of im name = Some t \<and> (\<forall>old. sv_active sv = Some old \<longrightarrow> name \<noteq> tg_target old)"
    using quiet_lookups(2) [OF assms(1)] by (auto simp: ordered_candidates_members)
qed

lemma replanned_declined: "declined im d im' \<Longrightarrow> declined im (d\<lparr>dc_plan := plan\<rparr>) im'"
  by (simp add: declined_def)

lemma do_recover_decided:
  assumes "service_of im (fq_service request) = Some sv" "idle im sv" "justified im sv request"
  shows "post (decided (failover_gates im request) (fq_key request) im) (do_recover sv request evidence trigger e im)"
proof -
  note chosen = quiet_trans [OF qualifyD selectD]
  show ?thesis
    unfolding do_recover_def
    apply (intro post_rules deciding kept_refl)
       apply (simp_all only: post_pair)
       apply (erule qualify_kept)
      apply (rule quiet_kept, erule (1) chosen)
    subgoal
      unfolding decided_def
      by (rule disjI1, rule replanned_declined, erule postD [OF refuse_failover_declined, rotated],
          rule commit_kept [OF chosen _ _ assms(1)])
    apply (rule commit_granted(1) [OF chosen _ _ assms(1)], assumption+)
     apply (use assms(2,3) in \<open>auto simp: failover_gates_def dest: qualify_sound selection_gates [OF qualifyD]\<close>)
    done
qed

text \<open>A failover that is not a resume, and one that is.\<close>

lemma do_request_failover_decided:
  "post (decided (failover_gates im request) (fq_key request) im) (do_request_failover request False im)"
proof -
  have gate: "post Q (case recovery_gate im sv request of Gate_Refused ob \<Rightarrow> f ob | Gate_Ambiguous ev \<Rightarrow> h ev | Gate_Qualified ev t \<Rightarrow> k ev t)"
    if "\<And>ob. post Q (f ob)" "\<And>ev. post Q (h ev)" "\<And>ev t. justified im sv request \<Longrightarrow> post Q (k ev t)" for Q f h k sv
    using that gate_qualified by (cases "recovery_gate im sv request") auto
  show ?thesis
    unfolding do_request_failover_def
    apply (intro post_rules gate deciding kept_refl refuse_ambiguous_declined [THEN declined_decided])
     apply simp
    apply (rule do_recover_decided)
      apply (auto simp: idle_def)
    done
qed

lemma do_request_resume_decided:
  "post (decided (resume_gates im request) (fq_key request) im) (do_request_failover request True im)"
  unfolding do_request_failover_def
  apply (simp only: if_True)
  apply (intro post_rules deciding kept_refl)
  apply (rule do_resume_decided)
   apply simp_all
  done

lemma do_request_failback_decided:
  "post (decided (failback_gates im request) (bq_key request) im) (do_request_failback request im)"
proof -
  let ?r = "\<lparr>fq_key = bq_key request, fq_service = bq_service request, fq_trigger = RecoveryTrigger_OperatorCommand,
    fq_evidence = nil_id, fq_requester = bq_requester request, fq_operator_authorized = True\<rparr>"
  note granted = commit_granted(2) [where request = ?r, simplified]
  show ?thesis
    unfolding do_request_failback_def
    apply (intro post_rules deciding kept_refl)
      apply (simp_all only: post_pair)
      apply (erule qualify_kept)
     apply (rule commit_kept [OF qualifyD], assumption+, simp)
    apply (rule granted [OF qualifyD], assumption, assumption, simp, assumption)
     apply (frule (1) failback_gateD(7), simp add: failback_gates_def failback_gateD qualify_sound)
    apply (rule refl)
    done
qed

text \<open>Behind the key of a request.\<close>

lemma justified_quiet: "quiet im im1 \<Longrightarrow> justified im1 sv request = justified im sv request"
  by (simp add: justified_def quiet_fields quiet_lookups role_satisfies_def)

lemma attempt_of_quiet: "quiet im im1 \<Longrightarrow> attempt_of im1 a = attempt_of im a"
proof -
  assume "quiet im im1"
  note q = quiet_fields [OF this] quiet_lookups [OF this]
  have "attempt_identity mode service sv im1 = attempt_identity mode service sv im" for mode service sv
    unfolding attempt_identity_def next_numbers_def q by (rule refl)
  then show ?thesis by (simp add: attempt_of_def q)
qed

lemma authorised_quiet: "quiet im im1 \<Longrightarrow> authorised key a im1 d im2 = authorised key a im d im2"
  by (simp add: authorised_def attempt_of_quiet quiet_fields quiet_lookups at_intent_def committed_intent_def plan_complete_def)

lemma dependencies_quiet: "quiet im im1 \<Longrightarrow> dependencies_met im1 sv = dependencies_met im sv"
proof -
  assume "quiet im im1"
  note q = quiet_fields [OF this] quiet_lookups [OF this]
  show ?thesis unfolding dependencies_met_def dependency_verdict_def Let_def q by (rule refl)
qed

lemma gates_quiet:
  assumes "quiet im im1"
  shows "failover_gates im1 request a = failover_gates im request a" "resume_gates im1 request a = resume_gates im request a"
    "placement_gates im1 p a = placement_gates im p a" "failback_gates im1 b a = failback_gates im b a"
  using assms
  by (simp_all add: failover_gates_def resume_gates_def placement_gates_def failback_gates_def quiet_fields quiet_lookups
      justified_quiet evaluate_quiet dependencies_quiet idle_def role_satisfies_def)

lemma declined_from: "quiet im im1 \<Longrightarrow> declined im1 d im2 \<Longrightarrow> declined im d im2"
  by (auto simp: declined_def intro: kept_trans quiet_kept)

lemma decided_from:
  assumes "quiet im im1" "\<And>a. gates1 a = gates a" "decided gates1 key im1 d im2"
  shows "decided gates key im d im2"
  using assms by (auto simp: decided_def granted_def authorised_quiet intro: declined_from)

lemma decided_cancels [simp]: "decided gates key im d (im2\<lparr>im_cancels := c\<rparr>) = decided gates key im d im2"
  by (simp add: decided_def declined_def granted_def authorised_def kept_def service_of_def)

lemma keyed_request_decided:
  assumes "\<And>im1. post (decided (gates im1) (fq_key replay) im1) (handler im1)"
    and "\<And>im1 a. quiet im im1 \<Longrightarrow> gates im1 a = gates im a"
  shows "post (decided (gates im) (fq_key replay) im) (keyed_request replay handler im)"
  unfolding keyed_request_def
  apply (intro post_rules deciding kept_refl)
   apply (rule quiet_kept, erule quietD(3))
  subgoal for key service e a im1 d im2
    using decided_from [OF quietD(3) assms(2) postD [OF assms(1)]] quietD(3) by fastforce
  done

lemma public_decided:
  "post (decided (placement_gates im p) (pq_key p) im) (establish_placement p im)"
  "post (decided (failover_gates im r) (fq_key r) im) (request_failover r im)"
  "post (decided (resume_gates im r) (fq_key r) im) (resume_recovery r im)"
  "post (decided (failback_gates im b) (bq_key b) im) (request_failback b im)"
  unfolding establish_placement_def request_failover_def resume_recovery_def request_failback_def
  using keyed_request_decided [of "\<lambda>im. placement_gates im p" "keyed (pq_key p) (pq_service p)" "do_establish_placement p" im]
    keyed_request_decided [of "\<lambda>im. failover_gates im r" r "do_request_failover r False" im]
    keyed_request_decided [of "\<lambda>im. resume_gates im r" r "do_request_failover r True" im]
    keyed_request_decided [of "\<lambda>im. failback_gates im b" "keyed (bq_key b) (bq_service b)" "do_request_failback b" im]
  by (simp_all add: do_establish_placement_decided do_request_failover_decided do_request_resume_decided
      do_request_failback_decided gates_quiet)

subsection \<open>Decisions without a commit of their own\<close>

lemma kept_store:
  assumes "quiet im im1" "service_of im service = Some sv" "authority sv' = authority sv"
    and "core (f (im_state im1)) = core (store_runtime service sv' stamp (im_state im1))"
  shows "kept im (in_state f im1)"
proof -
  have "kept im1 (in_state f im1)"
    using assms by (auto simp: kept_def service_of_def quiet_def core_eq_iff store_runtime_def omap_find_put)
  with quiet_kept [OF assms(1)] show ?thesis by (rule kept_trans)
qed

lemma declared_alive_authority: "authority (declared_alive stamp sv) = authority sv"
  by (simp add: declared_alive_def authority_def)

lemma acknowledged_authority: "authority (acknowledged ack stamp sv) = authority sv"
  by (rule runtime_step_authority [OF Acked])

text \<open>Nothing is refused at the cost of authority.\<close>

definition harmless :: "impl \<Rightarrow> recovery_decision \<Rightarrow> impl \<Rightarrow> bool" where
  "harmless im d im' \<longleftrightarrow> dc_accepted d \<and> \<not> dc_duplicate d \<or> kept im im'"

lemma declined_harmless: "post (declined im) r \<Longrightarrow> post (harmless im) r"
  by (auto simp: post_def declined_def harmless_def)

lemma decided_harmless: "post (decided gates key im) r \<Longrightarrow> post (harmless im) r"
  by (auto simp: post_def decided_def declined_def granted_def harmless_def)

lemmas refusing = declining [THEN declined_harmless]

lemma concluded_harmless: "kept im im1 \<Longrightarrow> post (harmless im) (concluded outcome accept duplicate e im1)"
  by (auto simp: concluded_def harmless_def intro: kept_quiet)

lemma resolve_no_failover_harmless:
  assumes "service_of im service = Some sv"
  shows "post (harmless im) (resolve_no_failover sv service stamp e im)"
proof -
  have k: "kept im (in_state (\<lambda>s. bump c (store_runtime service (declared_alive stamp sv) stamp s)) im1)"
    if "persist rs im = (code, im1)" for rs code im1 c
    using quietD(1) [OF that] assms declared_alive_authority by (rule kept_store) simp
  show ?thesis
    unfolding resolve_no_failover_def
    apply (intro post_rules refusing concluded_harmless kept_refl)
      apply (simp_all only:)
      apply (rule quiet_kept, erule quietD(1))
     apply (erule kept_quiet [OF k], erule quietD(2))+
    done
qed

lemma harmless_from: "kept im im1 \<Longrightarrow> decided gates key im1 d im2 \<Longrightarrow> harmless im d im2"
  by (auto simp: decided_def granted_def declined_def harmless_def intro: kept_trans)

lemma resolve_confirmed_harmless: "post (harmless im) (resolve_confirmed evidence resolution stamp e im)"
proof -
  have k: "kept im (in_state (\<lambda>s. bump c (change_service service ambiguity_cleared (f s))) im1)"
    if "quiet im im1" "\<And>s. st_services (f s) = st_services s" "\<And>s. st_fences (f s) = st_fences s"
      "\<And>s. st_witnesses (f s) = st_witnesses s" for im1 c service f
  proof -
    have "kept im1 (in_state f im1)" using that(2-4) by (simp add: kept_def service_of_def)
    then have "kept im (in_state f im1)" using quiet_kept [OF that(1)] kept_trans by blast
    then have "kept im (in_state (change_service service ambiguity_cleared) (in_state f im1))"
      by (rule kept_change) (simp add: ambiguity_cleared_def authority_def)
    then have "kept im (in_state (bump c) (in_state (change_service service ambiguity_cleared) (in_state f im1)))" by simp
    then show ?thesis by (simp add: in_state_def)
  qed
  show ?thesis
    unfolding resolve_confirmed_def
    apply (intro post_rules refusing)
     apply (rule quiet_kept, erule quietD(1))
    apply (rule post_mono [OF do_request_failover_decided])
    apply (simp only:)
    apply (erule harmless_from [rotated])
    apply (rule k, erule quietD(1))
      apply simp_all
    done
qed

lemma do_resolve_ambiguity_harmless: "post (harmless im) (do_resolve_ambiguity resolution im)"
  unfolding do_resolve_ambiguity_def
  by (intro post_rules refusing kept_refl resolve_no_failover_harmless resolve_confirmed_harmless) simp_all

lemma do_acknowledge_intent_kept:
  assumes "well_named (im_state im)"
  shows "post (harmless im) (do_acknowledge_intent ack im)"
proof -
  have k: "kept im (in_state (store_runtime (sd_name (sv_descriptor sv)) (acknowledged ack stamp sv) stamp) im1)"
    if "persist rs im = (c, im1)" "attempt_owner im (ia_attempt ack) = Some sv" for rs c im1 stamp sv
    using quietD(1) [OF that(1)] attempt_ownerD(1) [OF assms that(2)] acknowledged_authority
    by (rule kept_store) simp
  show ?thesis
    unfolding do_acknowledge_intent_def
    apply (intro post_rules refusing concluded_harmless kept_refl)
      apply (simp_all only: post_pair)
      apply (rule quiet_kept, erule quietD(1))
     apply (erule kept_quiet [OF k quietD(2), rotated 2], assumption+)+
    done
qed

lemma do_report_effect_kept: "post (harmless im) (do_report_effect report im)"
proof -
  have core: "core (apply_effect report sv' stamp s) = core (store_runtime (er_service report) sv' stamp s)" for sv' stamp s
    by (simp add: apply_effect_def Let_def)
  have k: "kept im (in_state (apply_effect report sv' stamp) im1)"
    if "persist rs im = (c, im1)" "service_of im (er_service report) = Some sv"
      "effect_outcome p sv (effect_seen (im_config im) i stamp sv) report = Inr (outcome, sv')"
    for rs c im1 stamp sv p i outcome sv'
    using quietD(1) [OF that(1)] that(2) effect_outcome_authority [OF that(3)] by (rule kept_store) (rule core)
  show ?thesis
    unfolding do_report_effect_def conclude_effect_def
    apply (intro post_rules refusing concluded_harmless kept_refl)
       apply (simp_all only: post_pair kept_bump kept_refl)
      apply (rule quiet_kept, erule quietD(1))
     apply (erule kept_quiet [OF k quietD(2), rotated 3], assumption+)+
    done
qed

lemma keyed_request_harmless:
  assumes "\<And>im1. post (harmless im1) (handler im1)"
  shows "post (harmless im) (keyed_request replay handler im)"
  unfolding keyed_request_def
  apply (intro post_rules refusing kept_refl)
   apply (rule quiet_kept, erule quietD(3))
  subgoal for key service e a im1 d im2
    using postD [OF assms, of im1 d im2] quietD(3) [of key im a im1]
    by (auto simp: harmless_def kept_def service_of_def dest: quiet_kept)
  done

lemma public_harmless:
  assumes "well_named (im_state im)"
  shows "post (harmless im) (establish_placement p im)" "post (harmless im) (request_failover r im)"
    "post (harmless im) (resume_recovery r im)" "post (harmless im) (resolve_ambiguity q im)"
    "post (harmless im) (request_failback b im)" "post (harmless im) (acknowledge_intent k im)"
    "post (harmless im) (report_effect x im)"
  unfolding acknowledge_intent_def report_effect_def resolve_ambiguity_def
  by (rule public_decided [THEN decided_harmless] keyed_request_harmless do_resolve_ambiguity_harmless
      do_acknowledge_intent_kept do_report_effect_kept assms)+

end
