(* ===== verification/Decision_Properties.thy ===== *)
theory Decision_Properties
  imports Guarantees Outcomes
begin

text \<open>
  What the answers of the recovery decisions promise: an accepted failover passed every gate, a
  refusal leaves all authority alone, a resume keeps its fence, a repeated request is answered from
  the cache, and only the current attempt can report effects.
\<close>

subsection \<open>Accepted and refused\<close>

lemma decidedD:
  "post (decided gates key im) r \<Longrightarrow> r = (d, im') \<Longrightarrow> dc_accepted d \<Longrightarrow> \<not> dc_duplicate d \<Longrightarrow>
   \<exists>a. gates a \<and> authorised key a im d im'"
  by (auto simp: decided_def declined_def granted_def)



text \<open>C9: A decision that is not accepted, or that only replays a cached answer, leaves all authority alone: the fences, the witnesses and the intent queue are unchanged, and every service keeps its active target, its generation, its fence, its lease, its current attempt and the targets of its history. This holds for placement, failover, resume, ambiguity resolution, failback, acknowledgements and effect reports, whatever the reason of the refusal, a failed write of the journal included.\<close>

theorem refusal_keeps_authority:
  assumes "well_named (im_state im)"
    and "(d, im') \<in> {establish_placement p im, request_failover r im, resume_recovery r im, resolve_ambiguity q im,
      request_failback b im, acknowledge_intent k im, report_effect x im}"
    and "\<not> dc_accepted d \<or> dc_duplicate d"
  shows "st_fences (im_state im') = st_fences (im_state im) \<and> st_witnesses (im_state im') = st_witnesses (im_state im) \<and>
    im_intents im' = im_intents im \<and>
    (\<forall>name. map_option authority (service_of im' name) = map_option authority (service_of im name))"
proof -
  have "post (harmless im) (d, im')" using assms(2) public_harmless [OF assms(1)] by (elim insertE emptyE) (simp_all only:)
  with assms(3) show ?thesis by (auto simp: harmless_def kept_def)
qed

definition demo_stranger :: failover_request where
  "demo_stranger = demo_failover\<lparr>fq_service := Name ''nobody''\<rparr>"

theorem refusal_keeps_authority_witness:
  "st_fences (im_state (snd (request_failover demo_stranger demo))) = st_fences demo_state"
proof -
  have "\<not> dc_accepted (fst (request_failover demo_stranger demo))"
    by (simp add: request_failover_def keyed_request_def demo_stranger_def demo_failover_def cached_def is_nil_def demo_begin
        do_request_failover_def service_of_def demo_names Let_def refusal_def default_recovery_decision_def)
  from refusal_keeps_authority [OF demo_named, of "fst (request_failover demo_stranger demo)" "snd (request_failover demo_stranger demo)" _ demo_stranger] this
  show ?thesis by simp
qed

subsection \<open>Resuming after a restart\<close>



subsection \<open>Placement and failback\<close>

text \<open>C23: The first placement and the failback are gated as well: each is either declined, keeping all authority, or granted with exactly one new attempt. A granted placement needs an enrolled operator, a service that is not withdrawn and has no active target, and an eligible target. A granted failback needs a policy that allows it, a recorded failover, the current topology and policy generations in the request, the recorded origin as the preferred target, registered again at a newer incarnation with current capability evidence of a newer generation that covers the required set, and no recovery in flight.\<close>

theorem placement_and_failback_gated:
  "decided (placement_gates im p) (pq_key p) im (fst (establish_placement p im)) (snd (establish_placement p im)) \<and>
   decided (failback_gates im b) (bq_key b) im (fst (request_failback b im)) (snd (request_failback b im))"
  using public_decided(1) [of im p] public_decided(4) [of im b] by (simp add: post_def)

subsection \<open>Repeated requests\<close>

text \<open>What a replay from the cache returns.\<close>

lemma replayed:
  "cached (fq_key replay) im = Some entry \<Longrightarrow> keyed_request replay handler im =
    replay_cached entry (begin_explanation (fq_service replay) (fq_key replay) im) replay im"
  by (simp add: keyed_request_def Let_def)

lemma replay_answer:
  "post (\<lambda>d im'. dc_duplicate d \<and> dc_outcome d = rq_outcome entry \<and> dc_accepted d = rq_accepted entry \<and>
      pl_fence (dc_plan d) = rq_fence entry \<and> pl_generation (dc_plan d) = rq_generation entry \<and> pl_to (dc_plan d) = rq_to entry \<and>
      (rq_has_intent entry \<longrightarrow> (\<exists>i. dc_intent d = Some i \<and> fi_attempt i = rq_attempt entry \<and> fi_fence i = rq_fence entry \<and>
        fi_to i = rq_to entry)) \<and> quiet im im')
    (replay_cached entry e request im)"
  using replay_quiet [of im entry e request]
  by (simp add: replay_cached_def Let_def default_recovery_plan_def default_failover_intent_def)



end
