(* ===== verification/Gate_Properties.thy ===== *)
theory Gate_Properties
  imports Decision_Properties
begin

text \<open>
  What the gates of the runtime promise: dependencies, the choice of a fallback, evidence,
  reporters and effects.
\<close>

subsection \<open>Chains of hard dependencies\<close>

text \<open>The nodes the traversal must visit: the service, and whatever is reached from it over hard
  dependencies on registered services below the depth ceiling.\<close>

inductive hard_chain :: "impl \<Rightarrow> service_name \<times> service_descriptor \<times> u32 \<Rightarrow> service_name \<times> service_descriptor \<times> u32 \<Rightarrow> bool"
  for im where
  Here: "hard_chain im node node"
| Further: "spec \<in> set (sd_dependencies d) \<Longrightarrow> ds_kind spec = DependencyKind_Hard \<Longrightarrow>
    depth < pd_dependency_max_depth (st_policy (im_state im)) \<Longrightarrow> service_of im (ds_service spec) = Some sv \<Longrightarrow>
    hard_chain im (ds_service spec, sv_descriptor sv, depth + 1) node \<Longrightarrow> hard_chain im (owner, d, depth) node"

text \<open>A node below the ceiling whose hard dependencies are satisfied.\<close>

definition node_met :: "impl \<Rightarrow> service_name \<times> service_descriptor \<times> u32 \<Rightarrow> bool" where
  "node_met im node = (case node of (owner, d, depth) \<Rightarrow>
    depth < pd_dependency_max_depth (st_policy (im_state im)) \<longrightarrow>
    (\<forall>spec \<in> set (sd_dependencies d). ds_kind spec = DependencyKind_Hard \<longrightarrow> dependency_verdict im owner spec = R_Ok))"

lemma visit_spec_pending: "set (qs_pending q) \<subseteq> set (qs_pending (visit_spec im owner depth spec q))"
  by (auto simp: visit_spec_def Let_def)

lemma visit_specs_pending: "set (qs_pending q) \<subseteq> set (qs_pending (foldl (\<lambda>q spec. visit_spec im owner depth spec q) q specs))"
proof (induction specs arbitrary: q)
  case (Cons spec specs)
  then show ?case using visit_spec_pending [of q im owner depth spec] by (simp, blast)
qed simp

text \<open>A hard dependency that does not block was not seen before, so its service is queued.\<close>

lemma visit_spec_child:
  "qs_blocking (visit_spec im owner depth spec q) = R_Ok \<Longrightarrow> ds_kind spec = DependencyKind_Hard \<Longrightarrow>
   service_of im (ds_service spec) = Some sv \<Longrightarrow>
   (ds_service spec, sv_descriptor sv, depth + 1) \<in> set (qs_pending (visit_spec im owner depth spec q))"
  by (auto simp: visit_spec_def Let_def dest!: block_blocking split: if_splits)

lemma visit_specs_child:
  "qs_blocking (foldl (\<lambda>q spec. visit_spec im owner depth spec q) q specs) = R_Ok \<Longrightarrow> spec \<in> set specs \<Longrightarrow>
   ds_kind spec = DependencyKind_Hard \<Longrightarrow> service_of im (ds_service spec) = Some sv \<Longrightarrow>
   (ds_service spec, sv_descriptor sv, depth + 1) \<in> set (qs_pending (foldl (\<lambda>q spec. visit_spec im owner depth spec q) q specs))"
proof (induction specs arbitrary: q)
  case (Cons s specs)
  from Cons.prems(2) consider "spec = s" | "spec \<in> set specs" by auto
  then show ?case
  proof cases
    case 1
    have "qs_blocking (visit_spec im owner depth s q) = R_Ok"
      using Cons.prems(1) visit_specs_sound by simp
    from visit_spec_child [OF this Cons.prems(3) [unfolded 1] Cons.prems(4) [unfolded 1]] show ?thesis
      using visit_specs_pending 1 by fastforce
  next
    case 2
    with Cons show ?thesis by simp
  qed
qed simp

lemma visit_node_pending:
  assumes "qs_blocking (visit_node im (owner, d, depth) q) = R_Ok"
  shows "set (qs_pending q) \<subseteq> set (qs_pending (visit_node im (owner, d, depth) q))"
    and "spec \<in> set (sd_dependencies d) \<Longrightarrow> ds_kind spec = DependencyKind_Hard \<Longrightarrow>
      depth < pd_dependency_max_depth (st_policy (im_state im)) \<Longrightarrow> service_of im (ds_service spec) = Some sv \<Longrightarrow>
      (ds_service spec, sv_descriptor sv, depth + 1) \<in> set (qs_pending (visit_node im (owner, d, depth) q))"
  using assms visit_specs_pending visit_specs_child by (auto simp: visit_node_def not_le split: if_splits)

lemma traverse_sound:
  "qs_blocking (traverse im q) = R_Ok \<Longrightarrow> node \<in> set (qs_pending q) \<Longrightarrow> hard_chain im node node' \<Longrightarrow> node_met im node'"
proof (induction im q arbitrary: node rule: traverse.induct)
  case (1 im q)
  from 1(3) obtain first rest where pending: "qs_pending q = first # rest" by (cases "qs_pending q") auto
  let ?q = "visit_node im first (q\<lparr>qs_pending := rest\<rparr>)"
  obtain owner d depth where f: "first = (owner, d, depth)" by (cases first)
  have Ok: "qs_blocking (traverse im ?q) = R_Ok" using 1(2) pending by (simp add: traverse.simps [of im q])
  note block = traverse_blocking [OF Ok, unfolded f]
  note IH = 1(1) [OF pending Ok]
  from 1(3) pending consider "node = first" | "node \<in> set rest" by auto
  then show ?case
  proof cases
    case 1
    from \<open>hard_chain im node node'\<close> show ?thesis
    proof (cases rule: hard_chain.cases)
      case Here
      then show ?thesis using visit_node_sound [OF block] 1 f by (auto simp: node_met_def)
    next
      case (Further spec d' depth' sv owner')
      then have "(ds_service spec, sv_descriptor sv, depth' + 1) \<in> set (qs_pending ?q)"
        using visit_node_pending(2) [OF block] 1 f by auto
      with Further show ?thesis by (intro IH)
    qed
  next
    case 2
    then have "node \<in> set (qs_pending ?q)" using visit_node_pending(1) [OF block] f by auto
    then show ?thesis using \<open>hard_chain im node node'\<close> by (intro IH)
  qed
qed


text \<open>A service \<open>api\<close> that depends on the demonstration service, with current evidence of its health.\<close>

definition api_spec :: dependency_spec where
  "api_spec = default_dependency_spec\<lparr>ds_service := demo_name\<rparr>"

definition api_runtime :: service_runtime where
  "api_runtime = default_service_runtime\<lparr>sv_descriptor := default_service_descriptor
    \<lparr>sd_name := Name ''api'', sd_scope := Name ''zone'', sd_dependencies := [api_spec]\<rparr>\<rparr>"

definition healthy :: dependency_slot where
  "healthy = \<lparr>dp_observation = default_dependency_observation\<lparr>dob_service := Name ''api'', dob_dependency := demo_name,
    dob_health := DependencyHealth_Healthy, dob_provenance := default_provenance\<lparr>pv_epoch := Gen 1, pv_boot := Gen 1\<rparr>\<rparr>,
    dp_requires_reconfirmation = False\<rparr>"

definition api_demo :: impl where
  "api_demo = in_state (\<lambda>s. s\<lparr>st_services := omap_put (Name ''api'') api_runtime (st_services s),
    st_dependencies := omap_put (Name ''api'') (omap_put demo_name healthy omap_empty) (st_dependencies s)\<rparr>) demo"

lemma api_verdict: "dependency_verdict api_demo (Name ''api'') api_spec = R_Ok"
  by (simp add: dependency_verdict_def Let_def api_demo_def api_spec_def service_of_def healthy_def demo_name_def
      default_dependency_observation_def)

lemma api_qualifies: "\<exists>e' im'. qualify_dependencies api_runtime e api_demo = ((R_Ok, e'), im')"
proof -
  have d: "sd_name (sv_descriptor api_runtime) = Name ''api''" "sd_dependencies (sv_descriptor api_runtime) = [api_spec]"
    "ds_service api_spec = demo_name" "st_policy (im_state api_demo) = default_policy_descriptor"
    "service_of api_demo demo_name = Some demo_runtime" "sd_dependencies (sv_descriptor demo_runtime) = []"
    by (simp_all add: api_runtime_def api_spec_def api_demo_def service_of_def demo_name_def demo_runtime_def
        default_service_descriptor_def)
  have "qs_blocking (traverse api_demo \<lparr>qs_visited = [Name ''api''], qs_pending = [(Name ''api'', sv_descriptor api_runtime, 0)],
      qs_explanation = e, qs_emitted = 0, qs_blocking = R_Ok, qs_truncated = 0\<rparr>) = R_Ok"
    by (simp add: traverse.simps [of api_demo] visit_node_def visit_spec_def d default_policy_descriptor_def api_verdict Let_def
        demo_name_def [symmetric]) (simp add: demo_name_def emit_def)
  then show ?thesis by (simp add: qualify_dependencies_def Let_def d)
qed


subsection \<open>The choice of a fallback\<close>

lemma scan_candidates_rejections:
  "scan_candidates im sv ts emitted rejections e = (chosen, rejections', e') \<Longrightarrow> omap_find rejections R_Ok = None \<Longrightarrow>
   omap_find rejections' R_Ok = None"
  by (induction im sv ts emitted rejections e rule: scan_candidates.induct)
    (auto simp: Let_def omap_find_put split: if_splits)

lemma worst_rejection_member:
  assumes "omap_size rejections \<noteq> 0"
  shows "omap_find rejections (worst_rejection rejections) \<noteq> None"
proof -
  let ?f = "\<lambda>best code. if severity code < severity best \<or> severity code = severity best \<and> code < best then code else best"
  have pick: "foldl ?f best codes \<in> insert best (set codes)" for best :: reason and codes
  proof (induction codes arbitrary: best)
    case (Cons code codes)
    then show ?case using Cons [of "?f best code"] by (auto split: if_splits)
  qed simp
  have "omap_keys rejections \<noteq> []" using assms by (simp add: omap_keys_def omap_size_def)
  then have "worst_rejection rejections \<in> set (omap_keys rejections)"
    using pick [of "hd (omap_keys rejections)" "omap_keys rejections"] by (auto simp: worst_rejection_def Let_def)
  then show ?thesis by (auto simp: find_None_keys omap_keys_def)
qed

lemma select_fallback_code:
  "fst (fst (select_fallback sv failed e im)) = R_Ok \<longleftrightarrow> fst (snd (fst (select_fallback sv failed e im))) \<noteq> None"
proof -
  let ?c = "ordered_candidates im sv failed"
  obtain chosen rejections e2 where scan: "scan_candidates im sv (take (candidate_ceiling im) ?c) 0 omap_empty
      (if length ?c > candidate_ceiling im
       then note_step R_FallbackCandidateLimitReached (str (sd_name (sv_descriptor sv)))
         txt_candidate_set_ordered_canonically_then_truncated
         (of_nat (length ?c - candidate_ceiling im)) e else e) = (chosen, rejections, e2)"
    by (metis surj_pair)
  have "omap_find rejections R_Ok = None" using scan_candidates_rejections [OF scan] by simp
  then have "worst_rejection rejections \<noteq> R_Ok" if "omap_size rejections \<noteq> 0"
    using worst_rejection_member [OF that] by metis
  with scan show ?thesis
    by (auto simp: select_fallback_def Let_def split: option.splits)
qed


subsection \<open>Reporters and their evidence\<close>

text \<open>The role a call needs and the source that must have it.\<close>

fun required_role :: "impl \<Rightarrow> operation \<Rightarrow> (source_name \<times> source_role) option" where
  "required_role im (Register_Service d source) = Some (source, SourceRole_TopologyReporter)"
| "required_role im (Register_Target t source) = Some (source, SourceRole_TopologyReporter)"
| "required_role im (Set_Topology g source) = Some (source, SourceRole_TopologyReporter)"
| "required_role im (Withdraw service source) = Some (source, SourceRole_Operator)"
| "required_role im (Retire t source) = Some (source, SourceRole_TopologyReporter)"
| "required_role im (Capability ev) = Some (ce_source ev, SourceRole_CapabilityReporter)"
| "required_role im (Failure ev) = Some (pv_source (fe_provenance ev), SourceRole_FailureReporter)"
| "required_role im (Dependency b) = Some (pv_source (dob_provenance b), SourceRole_DependencyReporter)"
| "required_role im (Place p) = Some (pq_requester p, SourceRole_Operator)"
| "required_role im (Resolve r) = Some (am_resolved_by r, SourceRole_Operator)"
| "required_role im (Effect r) = (if cf_require_enrolled_effect_reporter (im_config im)
     then Some (pv_source (er_provenance r), SourceRole_EffectReporter) else None)"
| "required_role im op = None"

lemma refusal_calm: "quiet im im1 \<Longrightarrow> post (\<lambda>_. quiet im) (refusal e code subject detail v im1)"
  using refusal_quiet [of im1 e code subject detail v] by (auto intro: post_mono quiet_trans)

lemma refuse_with_calm: "quiet im im1 \<Longrightarrow> post (\<lambda>_. quiet im) (refuse_with ob e im1)"
  by (auto simp: refuse_with_def split: prod.splits option.splits intro!: refusal_calm)

lemma refuse_effect_calm: "quiet im im1 \<Longrightarrow> post (\<lambda>_. quiet im) (refuse_effect ob e im1)"
  unfolding refuse_effect_def by (intro refuse_with_calm) simp

lemma refusal_simple_calm: "post (\<lambda>_. quiet im) (refusal_simple e code im)"
  by (simp add: refusal_simple_def refusal_calm)

lemmas calm = refusal_calm refusal_simple_calm refuse_with_calm refuse_effect_calm replay_quiet

lemma keyed_request_calm:
  assumes "\<And>im1. quiet im im1 \<Longrightarrow> post (\<lambda>_. quiet im1) (handler im1)"
  shows "post (\<lambda>_. quiet im) (keyed_request replay handler im)"
  unfolding keyed_request_def
  apply (intro post_rules calm)
   apply (erule quietD(3))
  subgoal for key service e a im1 d im2
    using postD [OF assms, of im1 d im2] quietD(3) [of key im a im1] by (auto intro: quiet_trans)
  done

lemma role_quiet: "quiet im im1 \<Longrightarrow> role_satisfies im1 source role = role_satisfies im source role"
  by (simp add: role_satisfies_def quiet_lookups)

lemma ingest_calm:
  assumes "\<And>e. post (\<lambda>_. quiet im) (handler e im)"
  shows "post (\<lambda>_. quiet im) (ingest service handler im)"
  unfolding ingest_def
  apply (intro post_rules)
  subgoal for a im1 code e e' im2
    using postD [OF assms] by (auto simp: finish_ingest_explanation_def Let_def)
  done

lemma calm_after: "post (\<lambda>_. quiet im) r \<Longrightarrow> quiet im (snd r)"
  by (rule post_snd)

lemma answers_calm [simp]:
  "post (\<lambda>_. quiet im) (answer code subject detail v e im)"
  "post (\<lambda>_. quiet im) (counted_answer c code subject detail v e im)"
  by simp_all

lemma unauthorised_placement:
  assumes "\<not> role_satisfies im (pq_requester p) SourceRole_Operator"
  shows "post (\<lambda>_. quiet im) (do_establish_placement p im)"
  unfolding do_establish_placement_def
  by (intro post_rules calm) (use assms in \<open>simp_all add: placement_objections_def Let_def\<close>)

lemma unauthorised_resolution:
  assumes "\<not> role_satisfies im (am_resolved_by r) SourceRole_Operator"
  shows "post (\<lambda>_. quiet im) (do_resolve_ambiguity r im)"
  unfolding do_resolve_ambiguity_def
  by (intro post_rules calm) (use assms in \<open>simp_all add: resolution_objections_def Let_def\<close>)

lemma unauthorised_effect:
  assumes "cf_require_enrolled_effect_reporter (im_config im)"
    "\<not> role_satisfies im (pv_source (er_provenance r)) SourceRole_EffectReporter"
  shows "post (\<lambda>_. quiet im) (do_report_effect r im)"
  unfolding do_report_effect_def
  by (intro post_rules calm) (use assms in \<open>simp_all add: effect_objections_def Let_def\<close>)

lemma unauthorised_ingest:
  "\<not> role_satisfies im source SourceRole_TopologyReporter \<Longrightarrow> post (\<lambda>_. quiet im) (do_register_service d source e im)"
  "\<not> role_satisfies im source SourceRole_TopologyReporter \<Longrightarrow> post (\<lambda>_. quiet im) (do_register_target t source e im)"
  "\<not> role_satisfies im source SourceRole_TopologyReporter \<Longrightarrow> post (\<lambda>_. quiet im) (do_set_topology_generation g source e im)"
  "\<not> role_satisfies im source SourceRole_Operator \<Longrightarrow> post (\<lambda>_. quiet im) (do_withdraw_service s source e im)"
  "\<not> role_satisfies im source SourceRole_TopologyReporter \<Longrightarrow> post (\<lambda>_. quiet im) (do_retire_target n source e im)"
  "\<not> role_satisfies im (ce_source c) SourceRole_CapabilityReporter \<Longrightarrow> post (\<lambda>_. quiet im) (do_ingest_capability c e im)"
  "\<not> role_satisfies im (pv_source (fe_provenance f)) SourceRole_FailureReporter \<Longrightarrow>
     post (\<lambda>_. quiet im) (do_ingest_failure f e im)"
  "\<not> role_satisfies im (pv_source (dob_provenance b)) SourceRole_DependencyReporter \<Longrightarrow>
     post (\<lambda>_. quiet im) (do_ingest_dependency b e im)"
  by (simp_all add: do_register_service_def do_register_target_def do_set_topology_generation_def
      do_withdraw_service_def do_retire_target_def do_ingest_capability_def do_ingest_failure_def do_ingest_dependency_def
      Let_def)

text \<open>C27: Without the required role nothing happens. A registration, a topology change, a withdrawal, a retirement, evidence of any kind, a placement, a resolution or an effect report (when reporters must be enrolled) whose source is not enrolled with the required role, operators counting for every role, leaves the whole decision state and the intent queue as they were.\<close>

theorem unauthorised_calls_change_nothing:
  assumes "required_role im op = Some (source, role)" "\<not> role_satisfies im source role"
  shows "core (im_state (perform op im)) = core (im_state im) \<and> im_intents (perform op im) = im_intents im"
proof -
  have "post (\<lambda>_. quiet im) (establish_placement p im)" if "\<not> role_satisfies im (pq_requester p) SourceRole_Operator" for p
    unfolding establish_placement_def using that by (intro keyed_request_calm unauthorised_placement) (simp add: role_quiet)
  moreover have "post (\<lambda>_. quiet im) (resolve_ambiguity r im)" if "\<not> role_satisfies im (am_resolved_by r) SourceRole_Operator" for r
    unfolding resolve_ambiguity_def using that by (intro keyed_request_calm unauthorised_resolution) (simp add: role_quiet)
  moreover have "post (\<lambda>_. quiet im) (report_effect r im)" if "cf_require_enrolled_effect_reporter (im_config im)"
      "\<not> role_satisfies im (pv_source (er_provenance r)) SourceRole_EffectReporter" for r
    unfolding report_effect_def using that by (rule unauthorised_effect)
  ultimately have "quiet im (perform op im)"
    using assms
    by (cases op) (simp_all add: public_defs(1-10) unauthorised_ingest post_snd ingest_calm split: if_splits)
  then show ?thesis by (simp add: quiet_def)
qed

theorem unauthorised_calls_change_nothing_witness:
  "core (im_state (perform (Withdraw demo_name demo_reporter) demo)) = core demo_state"
proof -
  have "\<not> role_satisfies demo demo_reporter SourceRole_Operator"
    by (simp add: role_satisfies_def role_of_def demo_reporter_def demo_operator_def)
  from unauthorised_calls_change_nothing [of demo "Withdraw demo_name demo_reporter", OF _ this] show ?thesis by simp
qed

text \<open>A sequence at or below the watermark meets an objection.\<close>

lemma stale_failure: "omap_find (st_watermarks (im_state im)) (pv_source (fe_provenance ev)) = Some w \<Longrightarrow>
    pv_sequence (fe_provenance ev) \<le> sw_sequence w \<Longrightarrow>
    first_objection (provenance_objections im ev @ watermark_objections im ev fp @ content_objections im sv ev fp) \<noteq> None"
  by (simp only: first_objection_append de_Morgan_conj not_not) (auto simp: watermark_objections_def Let_def)

lemma stale_observation: "omap_find (st_watermarks (im_state im)) (pv_source (dob_provenance b)) = Some w \<Longrightarrow>
    pv_sequence (dob_provenance b) \<le> sw_sequence w \<Longrightarrow> first_objection (observation_objections im b fp) \<noteq> None"
  by (simp only: observation_objections_def Let_def first_objection_append) auto

text \<open>C26: Replayed evidence has no effect. Failure evidence or a dependency observation whose sequence is not above the watermark of its source, be it a repetition, a conflict under the same number or an older delivery, leaves the whole decision state and the intent queue as they were.\<close>

theorem replayed_evidence_changes_nothing:
  assumes "(op = Failure ev \<and> p = fe_provenance ev) \<or> (op = Dependency b \<and> p = dob_provenance b)"
    and "omap_find (st_watermarks (im_state im)) (pv_source p) = Some w" "pv_sequence p \<le> sw_sequence w"
  shows "core (im_state (perform op im)) = core (im_state im) \<and> im_intents (perform op im) = im_intents im"
proof -
  have "post (\<lambda>_. quiet im) (do_ingest_failure ev e im)" if "p = fe_provenance ev" for e
    unfolding do_ingest_failure_def
    by (intro post_rules object_quiet answers_calm) (use stale_failure assms(2,3) that in blast)+
  then have "quiet im (perform op im)" if "op = Failure ev" "p = fe_provenance ev"
    using that by (simp add: ingest_failure_def ingest_calm calm_after)
  moreover have "post (\<lambda>_. quiet im) (do_ingest_dependency b e im)" if "p = dob_provenance b" for e
    unfolding do_ingest_dependency_def
    by (intro post_rules object_quiet answers_calm) (use stale_observation assms(2,3) that in blast)+
  then have "quiet im (perform op im)" if "op = Dependency b" "p = dob_provenance b"
    using that by (simp add: ingest_dependency_def ingest_calm calm_after)
  ultimately have "quiet im (perform op im)"
    using assms(1) by blast
  then show ?thesis by (simp add: quiet_def)
qed

theorem replayed_evidence_changes_nothing_witness:
  "core (im_state (perform (Failure demo_evidence) demo)) = core demo_state"
  using replayed_evidence_changes_nothing [of "Failure demo_evidence" demo_evidence "fe_provenance demo_evidence" default_dependency_observation demo]
  by (simp add: demo_evidence_def default_failure_evidence_def default_provenance_def)

end
