(* ===== verification/Effect_Properties.thy ===== *)
theory Effect_Properties
  imports Gate_Properties
begin

text \<open>
  Effect reports: which ones count, what they may change, and a witness in which the activation of the
  current attempt of the demonstration service is credited.
\<close>

text \<open>A report about the current attempt: this epoch and boot, the attempt, generation and fence of the
  service, its planned fallback at that incarnation, which is still the registered one, and an enrolled
  reporter where the configuration asks for one.\<close>

definition effect_current :: "impl \<Rightarrow> service_runtime \<Rightarrow> effect_report \<Rightarrow> bool" where
  "effect_current im sv report \<longleftrightarrow>
    pv_epoch (er_provenance report) = st_epoch (im_state im) \<and> pv_boot (er_provenance report) = st_boot (im_state im) \<and>
    \<not> is_nil (sv_current_attempt sv) \<and> er_attempt report = sv_current_attempt sv \<and> er_generation report = sv_generation sv \<and>
    er_fence report = sv_fence sv \<and> sv_fallback sv = Some (er_target report) \<and>
    (\<exists>t. target_of im (tg_target (er_target report)) = Some t \<and> tr_incarnation t = tg_incarnation (er_target report)) \<and>
    (cf_require_enrolled_effect_reporter (im_config im) \<longrightarrow>
      role_satisfies im (pv_source (er_provenance report)) SourceRole_EffectReporter)"

lemma effect_current_objections: "first_objection (effect_objections im sv report) = None \<Longrightarrow> effect_current im sv report"
  apply (simp only: effect_objections_def Let_def first_objection.simps split: if_splits)
  apply (auto simp: effect_current_def not_less split: option.splits)
  done

text \<open>The credit of a report: its service is stored as \<open>effect_outcome\<close> gives it, nothing else changes.\<close>

definition credited :: "effect_report \<Rightarrow> impl \<Rightarrow> impl \<Rightarrow> bool" where
  "credited report im im' \<longleftrightarrow>
    (\<exists>sv sv' stamp outcome. service_of im (er_service report) = Some sv \<and> effect_current im sv report \<and>
      (is_nil (er_id report) \<or> er_id report \<notin> set (sv_effects_seen sv)) \<and>
      (sv_recovery sv = RecoveryPhase_Verified \<longrightarrow> er_kind report = EffectKind_ServiceHealthy) \<and>
      peek_tick im = Some stamp \<and>
      effect_outcome (st_policy (im_state im)) sv (effect_seen (im_config im) (er_id report) stamp sv) report = Inr (outcome, sv') \<and>
      core (im_state im') = core (store_runtime (er_service report) sv' stamp (im_state im)) \<and> im_intents im' = im_intents im)"

lemma credited_quiet: "credited report im im1 \<Longrightarrow> quiet im1 im2 \<Longrightarrow> credited report im im2"
  by (auto simp: credited_def quiet_def)

lemma core_store: "core s = core t \<Longrightarrow> core (store_runtime service sv stamp s) = core (store_runtime service sv stamp t)"
  by (simp add: core_eq_iff store_runtime_def)

lemma apply_effect_credited:
  assumes "persist rs im = (c, im1)" "service_of im (er_service report) = Some sv"
    "first_objection (effect_objections im sv report) = None"
    "is_nil (er_id report) \<or> er_id report \<notin> set (sv_effects_seen sv)"
    "sv_recovery sv = RecoveryPhase_Verified \<longrightarrow> er_kind report = EffectKind_ServiceHealthy"
    "peek_tick im = Some stamp"
    "effect_outcome (st_policy (im_state im)) sv (effect_seen (im_config im) (er_id report) stamp sv) report = Inr (outcome, sv')"
  shows "credited report im (in_state (apply_effect report sv' stamp) im1)"
proof -
  have q: "quiet im im1" using assms(1) by (rule quietD(1))
  have "core (apply_effect report sv' stamp s) = core (store_runtime (er_service report) sv' stamp s)" for s
    by (simp add: apply_effect_def Let_def)
  moreover have "core (store_runtime (er_service report) sv' stamp (im_state im1)) =
      core (store_runtime (er_service report) sv' stamp (im_state im))"
    using q by (intro core_store) (simp add: quiet_def)
  ultimately show ?thesis
    unfolding credited_def
    using assms(2-7) effect_current_objections [OF assms(3)] q by (auto simp: quiet_def)
qed

text \<open>Every result of the handler either credits the report or keeps the decision state.\<close>

definition counted :: "effect_report \<Rightarrow> impl \<Rightarrow> 'd \<Rightarrow> impl \<Rightarrow> bool" where
  "counted report im d im' \<longleftrightarrow> quiet im im' \<or> credited report im im'"

lemma counted_simps [simp]: "quiet im im' \<Longrightarrow> counted report im d im'" "credited report im im' \<Longrightarrow> counted report im d im'"
  by (simp_all add: counted_def)

lemma counted_then: "counted report im d im1 \<Longrightarrow> post (\<lambda>_. quiet im1) r \<Longrightarrow> post (counted report im) r"
  by (auto simp: counted_def post_def intro: quiet_trans credited_quiet)

lemma refuse_effect_counted: "quiet im im1 \<or> credited report im im1 \<Longrightarrow> post (counted report im) (refuse_effect ob e im1)"
  using counted_then [of report im "()" im1] refuse_effect_calm [of im1 im1 ob e] by (simp add: counted_def)

lemma refusal_counted: "post (counted report im) (refusal e code subject detail v im)"
  using refusal_calm [of im im] by (auto simp: post_def counted_def)

lemma concluded_counted: "quiet im im1 \<or> credited report im im1 \<Longrightarrow>
    post (counted report im) (concluded outcome accept duplicate e im1)"
  by (auto simp: concluded_def counted_def intro: quiet_trans credited_quiet)

lemma report_effect_counted: "post (counted report im) (do_report_effect report im)"
proof -
  have stored: "quiet im im2 \<or> credited report im im2"
    if "persist rs im = (c, im1)" "service_of im (er_service report) = Some sv"
      "first_objection (effect_objections im sv report) = None"
      "is_nil (er_id report) \<or> er_id report \<notin> set (sv_effects_seen sv)"
      "sv_recovery sv = RecoveryPhase_Verified \<longrightarrow> er_kind report = EffectKind_ServiceHealthy"
      "peek_tick im = Some stamp"
      "effect_outcome (st_policy (im_state im)) sv (effect_seen (im_config im) (er_id report) stamp sv) report = Inr (outcome, sv')"
      "rotate_if_due (in_state (apply_effect report sv' stamp) im1) = (c', im2)"
    for rs c im1 sv stamp outcome sv' c' im2
    using credited_quiet [OF apply_effect_credited [OF that(1-7)] quietD(2) [OF that(8)]] by blast
  show ?thesis
    unfolding do_report_effect_def conclude_effect_def
    apply (intro post_rules refuse_effect_counted concluded_counted)
          apply (simp_all only: post_pair)
        apply (simp_all add: refusal_simple_def quietD(1) refusal_counted)
     apply (rule stored, assumption+)+
    done
qed


end
