(* ===== verification/Restart_Properties.thy ===== *)
theory Restart_Properties
  imports Effect_Properties
begin

text \<open>
  Opening a store: what a restart takes away (every claim that rests on evidence of the previous
  epoch), what it keeps (fences, witnesses, the authority of every service), and that the state
  made durable is the state that is recovered.
\<close>

subsection \<open>Conservative restart\<close>

text \<open>Nothing about a service rests on evidence of the previous epoch: no effect is verified, no
  continuity claimed, no recovery in flight, and an attempt that nobody acknowledged has no known outcome.\<close>

definition unclaimed :: "service_runtime \<Rightarrow> bool" where
  "unclaimed sv \<longleftrightarrow> \<not> sv_activation_accepted sv \<and> \<not> sv_effect_verified sv \<and> \<not> sv_state_transfer_verified sv \<and>
    sv_continuity sv = ContinuityClass_Unknown \<and> sv_effects_seen sv = [] \<and>
    sv_recovery sv \<notin> {RecoveryPhase_Authorized, RecoveryPhase_ActivationRequested, RecoveryPhase_EffectReported} \<and>
    (\<forall>a \<in> set (sv_history sv). outcome_unknown a \<longrightarrow> ar_outcome a = AttemptOutcome_OutcomeUnknown)"

definition conservative :: "state \<Rightarrow> bool" where
  "conservative s \<longleftrightarrow>
    (\<forall>name sv. omap_find (st_services s) name = Some sv \<longrightarrow> unclaimed sv) \<and>
    (\<forall>target slot. omap_find (st_capabilities s) target = Some slot \<longrightarrow> cp_requires_reconfirmation slot) \<and>
    (\<forall>name bucket dependency slot. omap_find (st_dependencies s) name = Some bucket \<longrightarrow>
      omap_find bucket dependency = Some slot \<longrightarrow> dp_requires_reconfirmation slot)"

lemma downgrade_unclaimed: "unclaimed (downgrade_runtime sv)"
  by (auto simp: unclaimed_def downgrade_runtime_def downgrade_attempt_def outcome_unknown_def in_flight_def Let_def)

lemma restarted_conservative: "conservative (restarted_state s)"
  by (auto simp: conservative_def restarted_state_def downgrade_unclaimed)

lemma fresh_conservative: "conservative (fresh_state config)"
  by (simp add: conservative_def fresh_state_def default_state_def Let_def)

lemma conservative_core: "core s = core t \<Longrightarrow> conservative s = conservative t"
  by (simp add: conservative_def core_eq_iff)

text \<open>What a successful open leaves: a fresh state, or the restart of the state that was recovered.\<close>

definition recovered_state :: "fabric_config \<Rightarrow> bytes \<Rightarrow> jrecord list \<Rightarrow> state option" where
  "recovered_state config snapshot records =
    (case load_state config snapshot (fresh_state config) of
       Inl _ \<Rightarrow> None
     | Inr (_, s) \<Rightarrow> case recover_from_store config records s of (code, s') \<Rightarrow> if code = R_Ok then Some s' else None)"

lemma finish_open_Ok:
  assumes "finish_open recovered im = (R_Ok, im')"
  shows "im_opened im' \<and> im_config im' = im_config im \<and>
    core (im_state im') = core (if recovered then restarted_state (im_state im) else im_state im)"
proof (cases recovered)
  case True
  obtain code im2 compacted im3 where steps:
      "persist [epoch_record (im_state (apply_restart_recovery im))] (apply_restart_recovery im) = (code, im2)"
      "rotate_if_due im2 = (compacted, im3)"
    by fastforce
  then have "quiet (apply_restart_recovery im) im3" by (blast intro: quiet_trans quietD)
  then show ?thesis
    using assms True steps
    by (auto simp: finish_open_def Let_def quiet_def apply_restart_recovery_def split: if_splits)
qed (use assms in \<open>auto simp: finish_open_def\<close>)

lemma fabric_open_steps:
  assumes "fabric_open im = (R_Ok, im')" "im_opened im'" "cf_store_directory (im_config im) = Some directory"
  shows "\<exists>(o' :: opened) b s im4. load_state (im_config im) (op_snapshot o') (fresh_state (im_config im)) = Inr (b, s) \<and>
    recover_from_store (im_config im) (op_records o') s = (R_Ok, im_state im4) \<and> im_config im4 = im_config im \<and>
    finish_open (b \<or> op_records o' \<noteq> []) im4 = (R_Ok, im')"
proof -
  have "\<not> im_opened im" using assms(1) by (auto simp: fabric_open_def)
  obtain report result d where store: "store_open (open_options (im_config im) directory) (im_disk im) = ((report, result), d)"
    by (metis prod.collapse)
  then obtain o' where o': "result = Some o'"
    using assms \<open>\<not> im_opened im\<close> by (cases result) (auto simp: fabric_open_def Let_def split: if_splits)
  obtain b s where l: "load_state (im_config im) (op_snapshot o') (fresh_state (im_config im)) = Inr (b, s)"
    using assms \<open>\<not> im_opened im\<close> store o'
    by (cases "load_state (im_config im) (op_snapshot o') (fresh_state (im_config im))")
      (auto simp: fabric_open_def Let_def load_state_def split: if_splits prod.splits option.splits)
  obtain code s' where r: "recover_from_store (im_config im) (op_records o') s = (code, s')" by fastforce
  obtain im4 where im4: "finish_open (b \<or> op_records o' \<noteq> []) im4 = (R_Ok, im')" "im_state im4 = s'" "code = R_Ok"
      "im_config im4 = im_config im"
    using assms \<open>\<not> im_opened im\<close> store o' l r
    by (simp add: fabric_open_def Let_def split: if_splits)
  show ?thesis
    by (intro exI [of _ o'] exI [of _ b] exI [of _ s] exI [of _ im4]) (use l r im4 in simp)
qed

lemma fabric_open_Ok:
  assumes "fabric_open im = (R_Ok, im')" "im_opened im'"
  shows "im_config im' = im_config im \<and>
    (core (im_state im') = core (fresh_state (im_config im)) \<or>
     (\<exists>snapshot records s. recovered_state (im_config im) snapshot records = Some s \<and>
        core (im_state im') = core (restarted_state s)))"
proof (cases "cf_store_directory (im_config im)")
  case None
  then show ?thesis using assms by (auto simp: fabric_open_def Let_def split: if_splits)
next
  case (Some directory)
  from fabric_open_steps [OF assms this] obtain o' :: opened and b s im4 where
    steps: "load_state (im_config im) (op_snapshot o') (fresh_state (im_config im)) = Inr (b, s)"
      "recover_from_store (im_config im) (op_records o') s = (R_Ok, im_state im4)" "im_config im4 = im_config im"
      "finish_open (b \<or> op_records o' \<noteq> []) im4 = (R_Ok, im')"
    by blast
  have rec: "recovered_state (im_config im) (op_snapshot o') (op_records o') = Some (im_state im4)"
    using steps by (simp add: recovered_state_def)
  show ?thesis
  proof (cases "b \<or> op_records o' \<noteq> []")
    case True
    then show ?thesis using rec steps(3) finish_open_Ok [OF steps(4)] by auto
  next
    case False
    then have "im_state im4 = fresh_state (im_config im)"
      using steps(1,2) by (auto simp: load_state_def split: if_splits option.splits prod.splits)
    with False show ?thesis using steps(3) finish_open_Ok [OF steps(4)] by auto
  qed
qed

text \<open>The public decisions that give authority.\<close>

lemma unconfirmed_candidate:
  "conservative (im_state im) \<Longrightarrow> evaluate_candidate im sv t \<noteq> R_Ok"
  by (auto simp: conservative_def evaluate_candidate_def capability_of_def Let_def split: option.splits)

lemma conservative_gates:
  assumes "conservative (im_state im)"
  shows "\<not> placement_gates im p a" "\<not> failover_gates im r a" "\<not> resume_gates im r a" "\<not> failback_gates im b a"
  using assms unconfirmed_candidate [OF assms]
  by (auto simp: placement_gates_def failover_gates_def resume_gates_def failback_gates_def conservative_def capability_of_def)

lemma fabric_open_conservative:
  "fabric_open im = (R_Ok, im') \<Longrightarrow> im_opened im' \<Longrightarrow> conservative (im_state im')"
  using fabric_open_Ok [of im im'] conservative_core fresh_conservative restarted_conservative by metis

text \<open>C10: A restart recovers nothing on its own. After a successful open no service has a verified effect, a claim of continuity, a recovery in flight or a known outcome of an unacknowledged attempt; every capability and dependency slot awaits reconfirmation; and no placement, failover, resume or failback is accepted, except as the replay of an answer already given.\<close>

theorem restart_is_conservative:
  assumes "fabric_open im = (R_Ok, im')" "im_opened im'"
    and "(d, im'') \<in> {establish_placement p im', request_failover r im', resume_recovery r im', request_failback b im'}"
  shows "conservative (im_state im') \<and> (dc_accepted d \<longrightarrow> dc_duplicate d)"
proof -
  note c = fabric_open_conservative [OF assms(1,2)]
  note closed = conservative_gates [OF c]
  from assms(3) consider (placed) "establish_placement p im' = (d, im'')" | (failed) "request_failover r im' = (d, im'')"
    | (resumed) "resume_recovery r im' = (d, im'')" | (failback) "request_failback b im' = (d, im'')"
    by (simp only: insert_iff empty_iff) metis
  then have "dc_accepted d \<longrightarrow> dc_duplicate d"
  proof cases
    case placed
    with decidedD [OF public_decided(1) placed] closed(1) show ?thesis by blast
  next
    case failed
    with decidedD [OF public_decided(2) failed] closed(2) show ?thesis by blast
  next
    case resumed
    with decidedD [OF public_decided(3) resumed] closed(3) show ?thesis by blast
  next
    case failback
    with decidedD [OF public_decided(4) failback] closed(4) show ?thesis by blast
  qed
  with c show ?thesis by blast
qed

subsection \<open>What a restart keeps\<close>

lemma downgrade_authority [simp]: "authority (downgrade_runtime sv) = authority sv"
  by (simp add: authority_def downgrade_runtime_def Let_def comp_def downgrade_attempt_def)

lemma restarted_frame [simp]:
  "st_fences (restarted_state s) = st_fences s" "st_witnesses (restarted_state s) = st_witnesses s"
  "st_targets (restarted_state s) = st_targets s" "st_sources (restarted_state s) = st_sources s"
  "st_watermarks (restarted_state s) = st_watermarks s" "st_failures (restarted_state s) = st_failures s"
  "st_policy (restarted_state s) = st_policy s" "st_next_attempt_id (restarted_state s) = st_next_attempt_id s"
  "omap_find (st_services (restarted_state s)) name = map_option downgrade_runtime (omap_find (st_services s) name)"
  by (simp_all add: restarted_state_def)

lemma restarted_agreement: "fence_agreement (restarted_state s) = fence_agreement s"
proof -
  have "agrees fence (downgrade_runtime sv) = agrees fence sv" "numbered n (downgrade_runtime sv) = numbered n sv" for fence n sv
    by (rule agrees_authority, simp) (rule numbered_authority, simp)
  then have "(\<forall>sv'. map_option downgrade_runtime x = Some sv' \<longrightarrow> agrees fence sv' \<and> numbered n sv') \<longleftrightarrow>
      (\<forall>sv. x = Some sv \<longrightarrow> agrees fence sv \<and> numbered n sv)" for x fence n
    by (cases x) simp_all
  then show ?thesis by (simp add: fence_agreement_def)
qed

lemma next_or_one_value: "gen_value (next_or_one g) = (if gen_value g = - 1 then 1 else gen_value g + 1)"
proof -
  have "x + 1 \<noteq> 0" if "x \<noteq> - 1" for x :: u64
    using that by (metis add_eq_0_iff2)
  then show ?thesis
    by (auto simp: next_or_one_def gen_successor_def is_initial_def Let_def)
qed

text \<open>A restart keeps all authority. Beside a new epoch and boot (the successor, or 1 after the last one), the fences, the witnesses, the registered targets and sources, the watermarks and the retained failures are the same; every service keeps its active and fallback target, generation, fence, lease, current attempt and the trail of its history; fences and services agree exactly when they did before; and every claim gets the same verdict as before.\<close>

theorem restart_keeps_authority:
  "let s = im_state im; t = im_state (apply_restart_recovery im) in
    st_fences t = st_fences s \<and> st_witnesses t = st_witnesses s \<and>
    st_targets t = st_targets s \<and> st_sources t = st_sources s \<and>
    st_watermarks t = st_watermarks s \<and> st_failures t = st_failures s \<and>
    (\<forall>name. map_option authority (omap_find (st_services t) name) =
      map_option authority (omap_find (st_services s) name)) \<and>
    fence_agreement t = fence_agreement s \<and>
    verify_fence check (apply_restart_recovery im) = verify_fence check im \<and>
    gen_value (st_epoch t) = (if gen_value (st_epoch s) = - 1 then 1 else gen_value (st_epoch s) + 1)"
proof -
  have t: "im_state (apply_restart_recovery im) = restarted_state (im_state im)"
    by (simp add: apply_restart_recovery_def Let_def)
  have "verify_fence check (apply_restart_recovery im) = verify_fence check im"
    by (simp add: verify_fence_def witness_of_def apply_restart_recovery_def Let_def)
  moreover have "gen_value (st_epoch (restarted_state s)) = (if gen_value (st_epoch s) = - 1 then 1 else gen_value (st_epoch s) + 1)" for s
    by (simp add: restarted_state_def next_or_one_value)
  ultimately show ?thesis
    by (simp add: t restarted_agreement option.map_comp comp_def Let_def)
qed

end
