(* ===== verification/Store_Properties.thy ===== *)
theory Store_Properties
  imports Store_Durability
begin

text \<open>
  The promises of the store, stated over \<^verbatim>\<open>Store::open\<close>, \<^verbatim>\<open>Store::commit_transaction\<close> and
  \<^verbatim>\<open>Store::compact\<close>: commit and reopen, crashes at any byte, write failures at any call,
  compaction with its crash points, and the case that the code does not handle.
\<close>

subsection \<open>A small store for the witnesses\<close>

definition small_options :: store_options where
  "small_options = \<lparr>so_directory = ''d'', so_max_journal_bytes = 4194304, so_retained_generations = 2,
    so_max_record_payload_bytes = 4096, so_read_only = False\<rparr>"

definition small_store :: store where
  "small_store = (default_store small_options)\<lparr>sr_open := True, sr_journal_generation := 1\<rparr>"

definition small_disk :: disk where
  "small_disk = set_file (journal_file_name 1) [] \<lparr>dk_files = omap_empty, dk_script = []\<rparr>"

definition small_record :: jrecord where
  "small_record = \<lparr>rc_kind = ServiceRegistered, rc_payload = [1, 2, 3]\<rparr>"

lemma small_limits: "journal_limits small_options []" "journal_limits small_options ([] @ [[small_record]])"
    "journal_limits small_options ([] @ [[small_record, small_record]])"
  by (simp_all add: journal_limits_def plain_def small_options_def small_record_def kMaxReplayRecords_def
      length_transaction_image read_bound_def kJournalSlackBytes_def room_def concat_transaction_frames)

lemma small_sound: "sound_store small_store small_disk [] []" "dk_script small_disk = []"
    "sr_options small_store = small_options"
proof -
  have "newest_generation small_disk ''journal'' = Some 1" "newest_generation small_disk ''snapshot'' = None"
    by code_simp+
  then show "sound_store small_store small_disk [] []"
    using small_limits(1)
    by (simp add: sound_store_def small_store_def small_disk_def default_store_def good_options_def
        small_options_def snapshot_held_def disk_file_simps)
qed (simp_all add: small_disk_def set_file_def small_store_def default_store_def)

subsection \<open>Commit\<close>

text \<open>C16: A committed transaction is durable: when the store holds the snapshot \<open>snap\<close> and the transactions \<open>ts\<close>, committing \<open>rs\<close> answers Ok, and opening the directory again classifies it as a clean reopen and gives back \<open>snap\<close> and the records of all transactions in order.\<close>

theorem commit_then_reopen:
  assumes "sound_store st d snap ts" "dk_script d = []" "rs \<noteq> []" "journal_limits (sr_options st) (ts @ [rs])"
    "so_max_record_payload_bytes (sr_options st) \<ge> 8"
  shows "\<exists>st' d' rep. commit_transaction rs st d = ((R_Ok, st'), d') \<and>
    store_open (sr_options st) d' =
      ((rep, Some \<lparr>op_store = st', op_snapshot = snap, op_records = concat ts @ rs\<rparr>), d') \<and>
    rp_classification rep = RC_CleanReopen"
proof -
  obtain st' d' where 1: "commit_transaction rs st d = ((R_Ok, st'), d')" "sound_store st' d' snap (ts @ [rs])"
      "dk_script d' = []" "sr_options st' = sr_options st"
    using commit_sound [OF assms(1-4)] by blast
  with reopen_sound [OF 1(2,3)] assms(5) show ?thesis by fastforce
qed

theorem commit_then_reopen_witness:
  "\<exists>st' d' rep. commit_transaction [small_record] small_store small_disk = ((R_Ok, st'), d') \<and>
    store_open small_options d' =
      ((rep, Some \<lparr>op_store = st', op_snapshot = [], op_records = [small_record]\<rparr>), d') \<and>
    rp_classification rep = RC_CleanReopen"
  using commit_then_reopen [OF small_sound(1,2), of "[small_record]"] small_limits(2)
  by (simp add: small_sound(3) small_options_def)

text \<open>C12: A crash during a commit is all or nothing: whatever number \<open>n\<close> of the bytes of the transaction reached the journal, the next open succeeds and gives back the earlier transactions, with all the records of the interrupted one when every byte arrived and none of them otherwise.\<close>

theorem commit_crash_atomic:
  assumes "sound_store st d snap ts" "dk_script d = []" "journal_limits (sr_options st) (ts @ [rs])"
    "so_max_record_payload_bytes (sr_options st) \<ge> 8"
  shows "\<exists>rep st' d'. store_open (sr_options st) (crashed st d rs n) =
    ((rep, Some \<lparr>op_store = st', op_snapshot = snap,
        op_records = concat ts @ (if length (concat (transaction_frames (sr_next_sequence st) rs)) \<le> n then rs else [])\<rparr>), d')"
  using assms by (rule crash_atomic)

theorem commit_crash_atomic_witness:
  "\<exists>rep st' d'. store_open small_options (crashed small_store small_disk [small_record] 50) =
    ((rep, Some \<lparr>op_store = st', op_snapshot = [], op_records = []\<rparr>), d')"
proof -
  have "\<not> length (concat (transaction_frames (sr_next_sequence small_store) [small_record])) \<le> 50"
    by (simp add: concat_transaction_frames length_transaction_image small_record_def)
  then show ?thesis
    using commit_crash_atomic [OF small_sound(1,2), of "[small_record]" 50] small_limits(2)
    by (simp add: small_sound(3) small_options_def)
qed

lemma write_frames_prefix:
  "write_frames path fs d = (ok, d') \<Longrightarrow>
    \<exists>n. file_content d' path = file_content d path @ take n (concat fs) \<and> (ok \<longrightarrow> n = length (concat fs)) \<and>
      (\<forall>p. p \<noteq> path \<longrightarrow> file_content d' p = file_content d p)"
proof (induction fs arbitrary: d)
  case Nil
  then show ?case by auto
next
  case (Cons f fs)
  obtain o1 d0 where o1: "next_io d = (o1, d0)" by (cases "next_io d")
  then have d0: "dk_files d0 = dk_files d" by (auto simp: next_io_def split: list.splits)
  show ?case
  proof (cases o1)
    case Io_Ok
    let ?d1 = "set_file path (file_content d0 path @ f) d0"
    have "write_frames path fs ?d1 = (ok, d')"
      using Cons.prems o1 Io_Ok by (simp add: disk_append_def)
    from Cons.IH [OF this] obtain n where n: "file_content d' path = file_content ?d1 path @ take n (concat fs)"
        "ok \<longrightarrow> n = length (concat fs)" "\<forall>p. p \<noteq> path \<longrightarrow> file_content d' p = file_content ?d1 p" by blast
    show ?thesis
      using n d0 by (intro exI [of _ "length f + n"]) (auto simp: file_content_def set_file_def omap_find_put)
  next
    case (Io_Fail k)
    then show ?thesis
      using Cons.prems o1 d0
      by (intro exI [of _ "min k (length f)"])
        (auto simp: disk_append_def file_content_def set_file_def omap_find_put min_def)
  qed
qed

lemma persistence_not_ok: "R_PersistenceWriteFailed \<noteq> R_Ok"
  by simp

text \<open>C19: Whatever I/O calls fail during a commit, the journal afterwards is the old journal followed by a prefix of the transaction: the whole transaction when the answer is Ok, and an answer other than Ok leaves the store's counters as they were. No other file changes.\<close>

theorem commit_any_outcome:
  assumes "commit_transaction rs st d = ((r, st'), d')"
  shows "(\<exists>n. file_content d' (journal_file_name (sr_journal_generation st)) =
      file_content d (journal_file_name (sr_journal_generation st)) @
        take n (concat (transaction_frames (sr_next_sequence st) rs)) \<and>
      (r = R_Ok \<longrightarrow> n = length (concat (transaction_frames (sr_next_sequence st) rs)))) \<and>
    (r \<noteq> R_Ok \<longrightarrow> st' = st) \<and>
    (\<forall>p. p \<noteq> journal_file_name (sr_journal_generation st) \<longrightarrow> file_content d' p = file_content d p)"
proof -
  let ?path = "journal_file_name (sr_journal_generation st)"
  let ?fs = "transaction_frames (sr_next_sequence st) rs"
  obtain ok d1 where w: "write_frames ?path ?fs d = (ok, d1)" by (cases "write_frames ?path ?fs d")
  obtain ok' d2 where s: "io_call d1 = (ok', d2)" by (cases "io_call d1")
  have io: "file_content d2 p = file_content d1 p" for p
    using s by (auto simp: io_call_def next_io_def file_content_def split: list.splits io_outcome.splits)
  have "(r \<noteq> R_Ok \<and> st' = st \<and> d' = d) \<or> (\<not> ok \<and> r = R_PersistenceWriteFailed \<and> st' = st \<and> d' = d1) \<or>
      (ok \<and> d' = d2 \<and> (r \<noteq> R_Ok \<longrightarrow> st' = st))"
    using assms unfolding commit_transaction_def Let_def w
    by (cases ok; cases ok') (auto simp add: s split: if_split_asm option.split_asm)
  moreover obtain n where "file_content d1 ?path = file_content d ?path @ take n (concat ?fs)"
      "ok \<longrightarrow> n = length (concat ?fs)" "\<forall>p. p \<noteq> ?path \<longrightarrow> file_content d1 p = file_content d p"
    using write_frames_prefix [OF w] by blast
  moreover have "file_content d ?path = file_content d ?path @ take 0 (concat ?fs)" by simp
  ultimately show ?thesis by (metis io persistence_not_ok)
qed

theorem commit_any_outcome_witness:
  "let d = small_disk\<lparr>dk_script := [Io_Fail 5]\<rparr>;
       out = commit_transaction [small_record] small_store d in
   fst (fst out) = R_PersistenceWriteFailed \<and> snd (fst out) = small_store \<and>
   file_content (snd out) ''other'' = file_content d ''other''"
proof -
  let ?d = "small_disk\<lparr>dk_script := [Io_Fail 5]\<rparr>"
  obtain r st' d' where out: "commit_transaction [small_record] small_store ?d = ((r, st'), d')"
    by (metis prod.collapse)
  have r: "fst (fst (commit_transaction [small_record] small_store ?d)) = R_PersistenceWriteFailed"
    by (simp add: commit_transaction_def small_store_def small_options_def default_store_def small_record_def Let_def
        add_overflow_def transaction_frames_def disk_append_def next_io_def small_disk_def set_file_def)
  have "journal_file_name 1 \<noteq> ''other''" by code_simp
  then show ?thesis
    using commit_any_outcome [OF out] out r by (simp add: small_store_def)
qed

subsection \<open>Compaction\<close>

text \<open>C17: Compaction refines replacing the whole history by one snapshot: after \<open>compact\<close> on a store with retained history, opening the directory gives back the new snapshot, no records, and the store that the compaction left open.\<close>

theorem compact_then_reopen:
  assumes "sound_store st d snap ts" "dk_script d = []" "sr_journal_generation st \<noteq> - 1"
    "length snap' + 20 \<le> kMaxSnapshotBytes" "so_max_record_payload_bytes (sr_options st) \<ge> 8"
  shows "\<exists>st' d' rep. compact snap' st d = ((R_Ok, st'), d') \<and>
    store_open (sr_options st) d' = ((rep, Some \<lparr>op_store = st', op_snapshot = snap', op_records = []\<rparr>), d') \<and>
    rp_classification rep = RC_CleanReopen"
proof -
  obtain st' d' where 1: "compact snap' st d = ((R_Ok, st'), d')" "sound_store st' d' snap' []"
      "dk_script d' = []" "sr_options st' = sr_options st"
    using compact_sound [OF assms(1-4)] by blast
  with reopen_sound [OF 1(2,3)] assms(5) show ?thesis by fastforce
qed

theorem compact_then_reopen_witness:
  "\<exists>st' d' rep. compact [7] small_store small_disk = ((R_Ok, st'), d') \<and>
    store_open small_options d' = ((rep, Some \<lparr>op_store = st', op_snapshot = [7], op_records = []\<rparr>), d') \<and>
    rp_classification rep = RC_CleanReopen"
  using compact_then_reopen [OF small_sound(1,2), of "[7]"]
  by (simp add: small_sound(3) small_options_def kMaxSnapshotBytes_def small_store_def default_store_def)

text \<open>C18: A crash inside a compaction loses nothing: with the temporary file written but not renamed the next open gives the old snapshot and records; with the snapshot renamed and the new journal not yet created it gives the new snapshot, and the records of the superseded journal are not replayed on top of it.\<close>

theorem compact_crash_safe:
  assumes "sound_store st d snap ts" "dk_script d = []" "sr_journal_generation st \<noteq> - 1"
    "length snap' + 20 \<le> kMaxSnapshotBytes" "so_max_record_payload_bytes (sr_options st) \<ge> 8"
  shows "(\<exists>rep st' d'. store_open (sr_options st) (set_file (snapshot_file_name g @ ''.tmp'') bs d) =
      ((rep, Some \<lparr>op_store = st', op_snapshot = snap, op_records = concat ts\<rparr>), d')) \<and>
    (\<exists>rep st' d'. store_open (sr_options st)
        (set_file (snapshot_file_name (sr_journal_generation st + 1)) (build_snapshot_frame snap') d) =
      ((rep, Some \<lparr>op_store = st', op_snapshot = snap', op_records = []\<rparr>), d'))"
  using open_before_snapshot_rename [OF assms(1,2,5)] open_after_snapshot_rename [OF assms(1-4)] by blast

theorem compact_crash_safe_witness:
  "\<exists>rep st' d'. store_open small_options (set_file (snapshot_file_name 2) (build_snapshot_frame [7]) small_disk) =
      ((rep, Some \<lparr>op_store = st', op_snapshot = [7], op_records = []\<rparr>), d')"
  using compact_crash_safe [OF small_sound(1,2), of "[7]"]
  by (simp add: small_sound(3) small_options_def kMaxSnapshotBytes_def small_store_def default_store_def)

subsection \<open>An incomplete transaction is dropped but not removed\<close>

text \<open>C40: The open after a crash accepts a journal that ends with complete frames of an unfinished transaction and leaves these frames in the file; the next commit answers Ok, and the open after it refuses the journal as corrupt, because a transaction begins inside the unfinished one.\<close>

theorem unfinished_transaction_poisons_journal:
  assumes "sound_store st d snap ts" "dk_script d = []" "journal_limits (sr_options st) (ts @ [rs])"
    "so_max_record_payload_bytes (sr_options st) \<ge> 8"
    "36 \<le> n" "n < length (concat (transaction_frames (sr_next_sequence st) rs))"
    "rs' \<noteq> []" "list_all (plain (so_max_record_payload_bytes (sr_options st))) rs'"
    "unat (sr_next_sequence st) + length rs + length rs' + 4 < 2 ^ 64"
    "length (jimage (journal_entries 1 (ts @ [rs]))) + length (concat (transaction_frames 0 rs')) \<le> read_bound (sr_options st)"
  shows "\<exists>rep st' d' st'' d''. store_open (sr_options st) (crashed st d rs n) =
      ((rep, Some \<lparr>op_store = st', op_snapshot = snap, op_records = concat ts\<rparr>), d') \<and>
    commit_transaction rs' st' d' = ((R_Ok, st''), d'') \<and>
    (\<exists>rep'. store_open (sr_options st) d'' = ((rep', None), d'') \<and> rp_classification rep' = RC_Corrupt)"
  using assms by (rule dangling_then_commit_corrupt)

theorem unfinished_transaction_poisons_journal_witness:
  "\<exists>rep st' d' st'' d''. store_open small_options (crashed small_store small_disk [small_record] 40) =
      ((rep, Some \<lparr>op_store = st', op_snapshot = [], op_records = []\<rparr>), d') \<and>
    commit_transaction [small_record] st' d' = ((R_Ok, st''), d'') \<and>
    (\<exists>rep'. store_open small_options d'' = ((rep', None), d'') \<and> rp_classification rep' = RC_Corrupt)"
proof -
  have len: "length (concat (transaction_frames s [small_record])) = 103" for s
    by (simp add: concat_transaction_frames length_transaction_image small_record_def)
  have plain: "list_all (plain (so_max_record_payload_bytes small_options)) [small_record]"
    by (simp add: plain_def small_record_def small_options_def)
  have "length (jimage (journal_entries 1 ([] @ [[small_record]]))) = 103"
    using len [of 1] by (simp add: concat_transaction_frames)
  then show ?thesis
    using unfinished_transaction_poisons_journal [OF small_sound(1,2), of "[small_record]" 40 "[small_record]"]
      small_limits(2) plain len
    by (simp add: small_sound(3) small_options_def small_store_def default_store_def read_bound_def kJournalSlackBytes_def)
qed

end
