(* ===== verification/Recovery_Durability.thy ===== *)
theory Recovery_Durability
  imports Restart_Properties Store_Properties
begin

text \<open>
  The runtime on its store: what a commit made durable is what the next open recovers. The runtime
  holds a journal when its store is sound for the transactions \<open>ts\<close> on the snapshot \<open>snap\<close> and its
  disk has no failure left in its script.
\<close>

subsection \<open>A runtime with a journal\<close>

definition journalled :: "impl \<Rightarrow> bytes \<Rightarrow> jrecord list list \<Rightarrow> bool" where
  "journalled im snap ts \<longleftrightarrow> dk_script (im_disk im) = [] \<and>
    (\<exists>st directory. im_store im = Some st \<and> sound_store st (im_disk im) snap ts \<and>
      cf_store_directory (im_config im) = Some directory \<and> sr_options st = open_options (im_config im) directory)"

text \<open>Another \<open>k\<close> records of any admissible size fit, and no rotation is due after them.\<close>

definition spacious :: "nat \<Rightarrow> fabric_config \<Rightarrow> jrecord list list \<Rightarrow> bool" where
  "spacious k config ts \<longleftrightarrow> length (concat ts) + k \<le> kMaxReplayRecords \<and> unat (journal_end 1 ts) + 3 * k < 2 ^ 64 \<and>
    length (jimage (journal_entries 1 ts)) + (100 + 2 ^ 20) * k < unat (cf_max_journal_bytes config) \<and>
    unat (cf_max_journal_bytes config) < 2 ^ 62"

lemma open_options_fields [simp]:
  "so_max_record_payload_bytes (open_options config directory) = 0x100000"
  "so_max_journal_bytes (open_options config directory) = cf_max_journal_bytes config"
  by (simp_all add: open_options_def)

lemma spacious_bound:
  assumes "spacious k config ts"
  shows "unat (cf_max_journal_bytes config) \<le> read_bound (open_options config directory)"
proof -
  have "unat (kJournalSlackBytes + 4 * ucast (0x100000 :: u32)) < 2 ^ 62" by (simp add: kJournalSlackBytes_def)
  with assms show ?thesis
    by (simp add: read_bound_def spacious_def add.assoc unat_add_lem [THEN iffD1])
qed

lemma spacious_limits:
  assumes "spacious (Suc k) config ts" "journal_limits (open_options config directory) ts" "plain 0x100000 r"
  shows "journal_limits (open_options config directory) (ts @ [[r]])"
    "length (jimage (journal_entries 1 (ts @ [[r]]))) < unat (cf_max_journal_bytes config)"
proof -
  have len: "length (jimage (journal_entries 1 (ts @ [[r]]))) = length (jimage (journal_entries 1 ts)) + 100 + length (rc_payload r)"
    by (simp add: journal_entries_append length_transaction_image)
  moreover have "length (rc_payload r) \<le> 2 ^ 20" using assms(3) by (simp add: plain_def)
  ultimately show less: "length (jimage (journal_entries 1 (ts @ [[r]]))) < unat (cf_max_journal_bytes config)"
    using assms(1) by (simp add: spacious_def)
  show "journal_limits (open_options config directory) (ts @ [[r]])"
    using assms less spacious_bound [OF assms(1), of directory]
    by (simp add: journal_limits_def spacious_def roomy_append room_def)
qed

lemma spacious_next:
  assumes "spacious (Suc k) config ts" "plain 0x100000 r"
  shows "spacious k config (ts @ [[r]])"
proof -
  have end': "journal_end 1 (ts @ [[r]]) = journal_end 1 ts + of_nat 3"
    by (simp add: journal_end_append next_start_def)
  have "unat (journal_end 1 ts + of_nat 3) = unat (journal_end 1 ts) + 3"
    using assms(1) by (intro room_unat [of _ "[r]"]) (simp_all add: spacious_def room_def)
  moreover have "length (rc_payload r) \<le> 2 ^ 20" using assms(2) by (simp add: plain_def)
  ultimately show ?thesis
    using assms(1) by (simp add: spacious_def end' journal_entries_append length_transaction_image)
qed

lemma persist_journalled:
  assumes "journalled im snap ts" "spacious (Suc k) (im_config im) ts" "plain 0x100000 r"
  shows "\<exists>im1. persist [r] im = (R_Ok, im1) \<and> journalled im1 snap (ts @ [[r]]) \<and> im_config im1 = im_config im \<and>
    im_opened im1 = im_opened im \<and> core (im_state im1) = core (im_state im)"
proof -
  obtain st directory where st: "im_store im = Some st" "sound_store st (im_disk im) snap ts" "dk_script (im_disk im) = []"
      "cf_store_directory (im_config im) = Some directory" "sr_options st = open_options (im_config im) directory"
    using assms(1) by (auto simp: journalled_def)
  have "journal_limits (sr_options st) ts" using st(2) by (simp add: sound_store_def)
  then have "journal_limits (sr_options st) (ts @ [[r]])"
    using spacious_limits(1) [OF assms(2) _ assms(3)] by (simp add: st(5))
  then obtain st' d' where "commit_transaction [r] st (im_disk im) = ((R_Ok, st'), d')"
      "sound_store st' d' snap (ts @ [[r]])" "dk_script d' = []" "sr_options st' = sr_options st"
    using commit_sound [OF st(2,3), of "[r]"] by auto
  then show ?thesis
    using st by (simp add: persist_def Let_def journalled_def)
qed

lemma persisted_plain:
  assumes "persist [r] im = (R_Ok, im1)" "journalled im snap ts"
  shows "plain 0x100000 r"
  using assms
  by (auto simp: persist_def journalled_def commit_transaction_def Let_def plain_def split: if_splits)

text \<open>The journal with room for one more record is not due for rotation.\<close>

lemma rotate_not_due:
  assumes "journalled im snap ts" "length (jimage (journal_entries 1 ts)) < unat (cf_max_journal_bytes (im_config im))"
  shows "rotate_if_due im = (R_Ok, im)"
proof -
  obtain st directory where st: "im_store im = Some st" "sr_journal_bytes st = of_nat (length (jimage (journal_entries 1 ts)))"
      "sr_options st = open_options (im_config im) directory"
    using assms(1) by (auto simp: journalled_def sound_store_def)
  have "unat (of_nat (length (jimage (journal_entries 1 ts))) :: u64) = length (jimage (journal_entries 1 ts))"
    using assms(2) unsigned_less [of "cf_max_journal_bytes (im_config im)", where 'a = nat]
    by (simp add: unat_of_nat)
  then have "\<not> rotation_due st"
    using assms(2) st(2,3) by (simp add: rotation_due_def not_le word_less_nat_alt)
  with st(1) show ?thesis by (simp add: rotate_if_due_def)
qed

subsection \<open>Opening the store again\<close>

lemma within_payload:
  assumes "within n f" "n \<le> 2 ^ 20"
  shows "length (rc_payload (make_record kind f)) \<le> 2 ^ 20"
proof -
  have "length (wr_buffer (f new_writer)) \<le> n"
    using assms unfolding within_def by (drule_tac x = new_writer in spec) (simp add: new_writer_def)
  with assms(2) show ?thesis by (simp add: make_record_def)
qed

lemma epoch_record_plain: "plain 0x100000 (epoch_record s)"
proof -
  have "within 16 (seq [put_u64 (gen_value (st_epoch s)), put_u64 (gen_value (st_boot s))])"
    by (rule within_le, (rule within_rules)+) simp
  from within_payload [OF this, of EpochAdvanced] show ?thesis
    by (simp add: plain_def epoch_record_def) (simp add: make_record_def)
qed

lemma reopened:
  assumes "journalled im0 snap ts" "spacious (Suc k) (im_config im0) ts" "im_config im = im_config im0" "im_disk im = im_disk im0"
    "\<not> im_opened im" "recovered_state (im_config im) snap (concat ts) = Some s" "valid_policy (st_policy s)"
    "snap \<noteq> [] \<or> concat ts \<noteq> []"
  shows "\<exists>im'. fabric_open im = (R_Ok, im') \<and> im_opened im' \<and> core (im_state im') = core (restarted_state s) \<and>
    journalled im' snap (ts @ [[epoch_record (restarted_state s)]])"
proof -
  let ?config = "im_config im"
  obtain st directory where st: "sound_store st (im_disk im) snap ts" "dk_script (im_disk im) = []"
      "cf_store_directory ?config = Some directory" "sr_options st = open_options ?config directory"
    using assms(1,3,4) by (auto simp: journalled_def)
  obtain report where open': "store_open (open_options ?config directory) (im_disk im) =
      ((report, Some \<lparr>op_store = st, op_snapshot = snap, op_records = concat ts\<rparr>), im_disk im)"
    using reopen_sound [OF st(1,2)] st(4) by auto
  obtain b s0 where load: "load_state ?config snap (fresh_state ?config) = Inr (b, s0)"
      "recover_from_store ?config (concat ts) s0 = (R_Ok, s)"
    using assms(6) by (auto simp: recovered_state_def split: sum.splits prod.splits if_splits)
  have b: "b \<or> concat ts \<noteq> []"
    using assms(8) load(1) by (auto simp: load_state_def split: option.splits prod.splits if_splits)
  define im4 where "im4 = im\<lparr>im_explanations := el_clear (im_explanations im),
    im_intents := iq_reopen (im_intents im), im_restart := default_restart_summary\<lparr>ru_store := report\<rparr>, im_store := Some st,
    im_state := s\<rparr>"
  have open_is: "fabric_open im = finish_open (b \<or> concat ts \<noteq> []) im4"
    using assms(5,7) by (simp add: fabric_open_def Let_def st(3) open' load im4_def)
  define im5 where "im5 = apply_restart_recovery im4"
  have im5: "journalled im5 snap ts" "im_config im5 = ?config" "im_state im5 = restarted_state s"
    using st by (auto simp: journalled_def im5_def im4_def apply_restart_recovery_def Let_def)
  obtain im6 where im6: "persist [epoch_record (im_state im5)] im5 = (R_Ok, im6)"
      "journalled im6 snap (ts @ [[epoch_record (im_state im5)]])" "im_config im6 = ?config"
      "core (im_state im6) = core (im_state im5)"
    using persist_journalled [OF im5(1) _ epoch_record_plain] assms(2,3) im5(2) by auto
  have "rotate_if_due im6 = (R_Ok, im6)"
    using im6(2,3) assms(2,3) st(1,4) spacious_limits(2) [OF _ _ epoch_record_plain]
    by (intro rotate_not_due) (auto simp: sound_store_def)
  then have "fabric_open im = (R_Ok, im6\<lparr>im_opened := True\<rparr>)"
    using b by (simp add: open_is finish_open_def Let_def im5_def [symmetric] im6(1))
  moreover have "journalled (im6\<lparr>im_opened := True\<rparr>) snap (ts @ [[epoch_record (restarted_state s)]])"
    using im6(2) by (simp add: journalled_def im5(3))
  ultimately show ?thesis using im6(4) by (simp add: im5(3))
qed

subsection \<open>A commit on the journal\<close>

lemma recover_append:
  "recover_from_store config rs s = (R_Ok, s1) \<Longrightarrow>
   recover_from_store config (rs @ [r]) s = (case apply_record config r s1 of None \<Rightarrow> (R_StoreCorrupt, s1) | Some s2 \<Rightarrow> (R_Ok, s2))"
  by (induction config rs s rule: recover_from_store.induct) (auto split: option.splits)

lemma recovered_append:
  "recovered_state config snap rs = Some s \<Longrightarrow> apply_record config r s = Some s' \<Longrightarrow>
   recovered_state config snap (rs @ [r]) = Some s'"
  by (auto simp: recovered_state_def recover_append split: sum.splits prod.splits if_splits)

definition commit_kind :: "commit_mode \<Rightarrow> record_kind" where
  "commit_kind mode = (if mode = Resume_Mode then RecoveryResumed else AttemptCommitted)"

text \<open>The names and reasons of an attempt are ones that the codec accepts.\<close>

definition encodable :: "fabric_config \<Rightarrow> service_name \<Rightarrow> service_runtime \<Rightarrow> target_record \<Rightarrow> target_ref \<Rightarrow> reason \<Rightarrow> bool" where
  "encodable config service sv to from' trigger \<longleftrightarrow> valid_service_runtime config sv \<and> canonical_name service \<and>
    canonical_name (tr_name to) \<and> valid_target_ref from' \<and> reason_known trigger \<and> 1 \<le> cf_max_targets config"

lemma recorded_valid:
  assumes "valid_service_runtime config sv" "valid_attempt_record a"
  shows "list_all valid_attempt_record (sv_history (recorded_attempt config mode a sv)) \<and>
    length (sv_history (recorded_attempt config mode a sv)) \<le> cf_max_attempt_history config"
proof -
  have "list_all valid_attempt_record (update_first P (reissued (ar_epoch a) (ar_last_reason a)) hs)"
    if "list_all valid_attempt_record hs" for P hs
    using that assms(2) by (induction hs) (auto simp: reissued_def valid_attempt_record_def)
  moreover have "list_all valid_attempt_record (sv_history sv)" using assms(1) by (simp add: valid_service_runtime_def)
  ultimately show ?thesis
    using assms(2)
    by (auto simp: recorded_attempt_def append_attempt_def Let_def list_all_iff dest: in_set_dropD)
qed

lemma recorded_origin: "sv_pre_failover_target (recorded_attempt config mode a sv) = sv_pre_failover_target sv"
  by (simp add: recorded_attempt_def append_attempt_def Let_def)

lemma recovery_change_valid:
  assumes "encodable (im_config im) service sv to from' trigger"
  shows "valid_runtime_change (im_config im)
    (recovery_change im mode n service from' \<lparr>tg_target = tr_name to, tg_incarnation = tr_incarnation to\<rparr> stamp trigger sv)"
proof -
  let ?to = "\<lparr>tg_target = tr_name to, tg_incarnation = tr_incarnation to\<rparr>"
  let ?a = "committed_attempt n service from' ?to (st_epoch (im_state im)) stamp trigger"
  have "valid_attempt_record ?a" using assms by (simp add: encodable_def committed_attempt_def valid_attempt_record_def valid_target_ref_def)
  with assms have "list_all valid_attempt_record (sv_history (recorded_attempt (im_config im) mode ?a sv)) \<and>
    length (sv_history (recorded_attempt (im_config im) mode ?a sv)) \<le> cf_max_attempt_history (im_config im)"
    by (intro recorded_valid) (simp_all add: encodable_def)
  moreover define next_sv where "next_sv = committed_runtime im mode n service from' ?to stamp trigger sv"
  have "sv_descriptor next_sv = sv_descriptor sv" "sv_active next_sv = Some ?to" "sv_fallback next_sv = Some ?to"
    "sv_history next_sv = sv_history (recorded_attempt (im_config im) mode ?a sv)"
    "sv_effects_seen next_sv = sv_effects_seen sv"
    by (simp_all add: next_sv_def frame)
  moreover have "sv_last_reason next_sv = trigger"
    by (simp add: next_sv_def committed_runtime_def Let_def remember_origin_def)
  moreover have "sv_pre_failover_target next_sv \<in> {None, Some from', sv_pre_failover_target sv}"
    by (simp add: next_sv_def committed_runtime_def Let_def invalidate_verification_def remember_origin_def recorded_origin)
  moreover have "valid_lease_record (the (sv_lease next_sv))" "sv_lease next_sv \<noteq> None"
    using assms
    by (simp_all add: next_sv_def committed_runtime_def Let_def invalidate_verification_def valid_lease_record_def
        encodable_def valid_service_runtime_def valid_service_descriptor_def valid_target_ref_def)
  ultimately have "valid_service_runtime (im_config im) next_sv"
    using assms by (auto simp: encodable_def valid_service_runtime_def valid_target_ref_def)
  with assms show ?thesis
    by (auto simp: encodable_def valid_runtime_change_def recovery_change_def next_sv_def valid_fence_record_def
        committed_fence_def witness_updates_def valid_target_ref_def)
qed

lemma journalled_frame:
  "im_store im' = im_store im \<Longrightarrow> im_disk im' = im_disk im \<Longrightarrow> im_config im' = im_config im \<Longrightarrow>
   journalled im' snap ts = journalled im snap ts"
  by (simp add: journalled_def)

lemma after_commit_journalled:
  assumes "journalled im1 snap ts" "length (jimage (journal_entries 1 ts)) < unat (cf_max_journal_bytes (im_config im1))"
  shows "post (\<lambda>_ im'. journalled im' snap ts \<and> im_config im' = im_config im1 \<and>
      core (im_state im') = core (apply_committed mode n stamp change k (im_state im1)))
    (after_commit mode n request to from' stamp plan change k e im1)"
  unfolding after_commit_def
proof (intro post_let post_prod)
  fix to_ref im2 intent im3 im4 im5 e1 compacted im6
  assume steps: "im2 = in_state (apply_committed mode n stamp change k) im1" "im3 = emit_intent intent im2"
    "im4 = remember (fq_key request) (committed_entry mode n from' to_ref stamp plan (im_state im3)) im3"
    "im5 = (if is_nil (fq_key request) then im4
      else im4\<lparr>im_cancels := cn_guard_commit (fq_key request) (im_cancels im4)\<rparr>)"
    and rotate: "rotate_if_due im5 = (compacted, im6)"
  have "im_store im3 = im_store im1" "im_disk im3 = im_disk im1"
    by (auto simp: steps emit_intent_def split: prod.splits bool.splits)
  moreover have "im_store im4 = im_store im3" "im_disk im4 = im_disk im3"
    by (auto simp: steps(3) remember_def split: prod.splits)
  ultimately have frame5: "im_store im5 = im_store im1" "im_disk im5 = im_disk im1" "im_config im5 = im_config im1"
    "core (im_state im5) = core (apply_committed mode n stamp change k (im_state im1))"
    by (simp_all add: steps emit_intent_frame remember_frame)
  then have j5: "journalled im5 snap ts" using assms(1) journalled_frame by metis
  have "im6 = im5" using rotate rotate_not_due [OF j5] assms(2) by (simp add: frame5(3))
  with j5 frame5 show "post (\<lambda>_ im'. journalled im' snap ts \<and> im_config im' = im_config im1 \<and>
      core (im_state im') = core (apply_committed mode n stamp change k (im_state im1)))
    ((\<lparr>cr_code = R_Ok, cr_plan = plan, cr_intent = Some intent\<rparr>,
      if compacted \<noteq> R_Ok then note_step compacted (str (tr_name to)) txt_compaction_after_commit_failed 0 e1 else e1), im6)"
    by simp
qed

lemma commit_journalled:
  assumes "commit_recovery request sv to from' trigger mode e im = ((result, e'), im')" "cr_code result = R_Ok"
    and "journalled im snap ts" "spacious (Suc j) (im_config im) ts"
  shows "\<exists>n stamp change k. attempt_identity mode (fq_service request) sv im = Inr n \<and> peek_tick im = Some stamp \<and>
    change = recovery_change im mode n (fq_service request) from' \<lparr>tg_target = tr_name to, tg_incarnation = tr_incarnation to\<rparr>
      stamp trigger sv \<and>
    encoded (encode_runtime_change change) \<noteq> None \<and> im_config im' = im_config im \<and>
    core (im_state im') = core (apply_committed mode n stamp change k (im_state im)) \<and>
    journalled im' snap (ts @ [[make_record (commit_kind mode) (encode_runtime_change change)]])"
proof -
  let ?to = "\<lparr>tg_target = tr_name to, tg_incarnation = tr_incarnation to\<rparr>"
  obtain stamp where stamp: "peek_tick im = Some stamp"
    using assms(1,2) by (auto simp: commit_recovery_def Let_def commit_failed_def split: option.splits)
  have guard: "commit_guard (fq_key request) im = R_Ok"
    using assms(1,2) stamp by (auto simp: commit_recovery_def Let_def commit_failed_def split: if_splits)
  obtain n where n: "attempt_identity mode (fq_service request) sv im = Inr n"
    using assms(1,2) stamp guard
    by (auto simp: commit_recovery_def Let_def commit_failed_def split: sum.splits dest: attempt_identity_Inl)
  obtain plan_code plan0 e1 where plan: "build_plan im sv from' to e = (plan_code, plan0, e1)" by (metis prod_cases3)
  then have plan_Ok: "plan_code = R_Ok"
    using assms(1,2) stamp guard n by (auto simp: commit_recovery_def Let_def commit_failed_def split: if_splits)
  define change where "change = recovery_change im mode n (fq_service request) from' ?to stamp trigger sv"
  have enc: "encoded (encode_runtime_change change) \<noteq> None"
    using assms(1,2) stamp guard n plan plan_Ok
    by (auto simp: commit_recovery_def Let_def commit_failed_def change_def split: if_splits)
  let ?r = "make_record (commit_kind mode) (encode_runtime_change change)"
  obtain code im1 where persist: "persist [?r] im = (code, im1)" by fastforce
  have code: "code = R_Ok"
    using assms(1,2) stamp guard n plan plan_Ok enc persist
    by (auto simp: commit_recovery_def Let_def commit_failed_def change_def commit_kind_def split: if_splits)
  note plain = persisted_plain [OF persist [unfolded code] assms(3)]
  have im1: "journalled im1 snap (ts @ [[?r]])" "im_config im1 = im_config im" "core (im_state im1) = core (im_state im)"
    using persist_journalled [OF assms(3,4) plain] persist code by auto
  obtain plan k where after: "after_commit mode n request to from' stamp plan change k e1 im1 = ((result, e'), im')"
    using assms(1) stamp guard n plan plan_Ok enc persist code
    by (auto simp: commit_recovery_def Let_def change_def commit_kind_def split: if_splits)
  have "length (jimage (journal_entries 1 (ts @ [[?r]]))) < unat (cf_max_journal_bytes (im_config im1))"
    using assms(3,4) spacious_limits(2) [OF assms(4) _ plain] by (auto simp: journalled_def sound_store_def im1(2))
  from postD [OF after_commit_journalled [OF im1(1) this] after] im1(2,3) core_committed [OF im1(3)] n stamp enc
  show ?thesis unfolding change_def by metis
qed

subsection \<open>The authority that survives\<close>

text \<open>Two states with the same authority.\<close>

definition mirrors :: "state \<Rightarrow> state \<Rightarrow> bool" where
  "mirrors s t \<longleftrightarrow> st_fences s = st_fences t \<and> st_witnesses s = st_witnesses t \<and>
    (\<forall>name. map_option authority (omap_find (st_services s) name) = map_option authority (omap_find (st_services t) name))"

lemma mirrors_core: "core s = core s' \<Longrightarrow> core t = core t' \<Longrightarrow> mirrors s t = mirrors s' t'"
  by (simp add: mirrors_def core_eq_iff)

lemma mirrors_restarted [simp]: "mirrors (restarted_state s) t = mirrors s t"
  by (simp add: mirrors_def option.map_comp comp_def)

lemma mirrors_change: "mirrors s t \<Longrightarrow> mirrors (apply_change c s) (apply_committed mode n stamp c k t)"
  by (simp add: mirrors_def apply_change_def apply_committed_def Let_def bump_def omap_find_put)

text \<open>The disk of the runtime holds its authority.\<close>

definition durable :: "impl \<Rightarrow> bytes \<Rightarrow> jrecord list list \<Rightarrow> bool" where
  "durable im snap ts \<longleftrightarrow> journalled im snap ts \<and>
    (\<exists>s. recovered_state (im_config im) snap (concat ts) = Some s \<and> valid_policy (st_policy s) \<and> mirrors s (im_state im))"

lemma replayed_change:
  assumes "valid_runtime_change config c" "encoded (encode_runtime_change c) \<noteq> None"
  shows "apply_record config (make_record (commit_kind mode) (encode_runtime_change c)) s = Some (apply_change c s)"
  using payload_made [OF carries_runtime_change [OF assms(1), of 0 4] assms(2), of "commit_kind mode"]
  by (simp add: apply_record_def commit_kind_def is_runtime_change_def make_record_def)

lemma commit_durable:
  assumes "commit_recovery request sv to from' trigger mode e im = ((result, e'), im')" "cr_code result = R_Ok"
    and "durable im snap ts" "spacious (Suc j) (im_config im) ts"
    and "encodable (im_config im) (fq_service request) sv to from' trigger"
  shows "\<exists>r. durable im' snap (ts @ [[r]]) \<and> im_config im' = im_config im \<and> spacious j (im_config im) (ts @ [[r]])"
proof -
  obtain s where s: "recovered_state (im_config im) snap (concat ts) = Some s" "valid_policy (st_policy s)"
      "mirrors s (im_state im)" and j: "journalled im snap ts"
    using assms(3) by (auto simp: durable_def)
  let ?to = "\<lparr>tg_target = tr_name to, tg_incarnation = tr_incarnation to\<rparr>"
  obtain n stamp c k where c: "c = recovery_change im mode n (fq_service request) from' ?to stamp trigger sv"
      "encoded (encode_runtime_change c) \<noteq> None" "im_config im' = im_config im"
      "core (im_state im') = core (apply_committed mode n stamp c k (im_state im))"
    and j': "journalled im' snap (ts @ [[make_record (commit_kind mode) (encode_runtime_change c)]])"
    using commit_journalled [OF assms(1,2) j assms(4)] by blast
  let ?r = "make_record (commit_kind mode) (encode_runtime_change c)"
  have "apply_record (im_config im) ?r s = Some (apply_change c s)"
    using recovery_change_valid [OF assms(5)] c(2) by (intro replayed_change) (simp_all add: c(1))
  from recovered_append [OF s(1) this]
  have "recovered_state (im_config im') snap (concat (ts @ [[?r]])) = Some (apply_change c s)" by (simp add: c(3))
  moreover have "mirrors (apply_change c s) (im_state im')"
    using mirrors_change [OF s(3)] c(4) mirrors_core by metis
  moreover have "valid_policy (st_policy (apply_change c s))" using s(2) by (simp add: apply_change_def)
  moreover have "plain 0x100000 ?r"
    using j' by (auto simp: journalled_def sound_store_def journal_limits_def)
  ultimately show ?thesis
    using j' c(3) spacious_next [OF assms(4)] by (auto simp: durable_def)
qed

lemma reopen_durable:
  assumes "durable im0 snap ts" "spacious (Suc k) (im_config im0) ts" "im_config im = im_config im0" "im_disk im = im_disk im0"
    "\<not> im_opened im" "snap \<noteq> [] \<or> concat ts \<noteq> []"
  shows "\<exists>im'. fabric_open im = (R_Ok, im') \<and> im_opened im' \<and> mirrors (im_state im') (im_state im0)"
proof -
  obtain s where s: "recovered_state (im_config im0) snap (concat ts) = Some s" "valid_policy (st_policy s)"
      "mirrors s (im_state im0)" and j: "journalled im0 snap ts"
    using assms(1) by (auto simp: durable_def)
  from reopened [OF j assms(2-5) _ s(2) assms(6)] s(1) assms(3)
  obtain im' where "fabric_open im = (R_Ok, im')" "im_opened im'" "core (im_state im') = core (restarted_state s)"
    by auto
  then show ?thesis using s(3) mirrors_core [of "im_state im'" "restarted_state s" "im_state im0" "im_state im0"] by simp
qed

subsection \<open>A commit, a restart\<close>

text \<open>C2: What is committed survives. When the disk of a runtime holds its authority and has room, and a recovery attempt is committed, then a new process that opens the same disk succeeds, and it has the fences and witnesses of the runtime after the commit, and for every service the same target, generation, fence, lease, attempt and trail of attempts.\<close>

theorem committed_attempt_survives_restart:
  assumes "durable im snap ts" "spacious 2 (im_config im) ts"
    and "encodable (im_config im) (fq_service request) sv to from' trigger"
    and "commit_recovery request sv to from' trigger mode e im = ((result, e'), im')" "cr_code result = R_Ok"
    and "im_config im0 = im_config im" "im_disk im0 = im_disk im'" "\<not> im_opened im0"
  shows "\<exists>im1. fabric_open im0 = (R_Ok, im1) \<and> im_opened im1 \<and> mirrors (im_state im1) (im_state im')"
proof -
  have "spacious (Suc (Suc 0)) (im_config im) ts" using assms(2) by (simp add: numeral_2_eq_2)
  from commit_durable [OF assms(4,5,1) this assms(3)]
  obtain r where r: "durable im' snap (ts @ [[r]])" "im_config im' = im_config im" "spacious (Suc 0) (im_config im') (ts @ [[r]])"
    by auto
  from reopen_durable [OF r(1,3) _ assms(7,8)] r(2) assms(6) show ?thesis by simp
qed

text \<open>The demonstration service on a disk that holds its fence and runtime.\<close>

definition stored_config :: fabric_config where
  "stored_config = default_fabric_config\<lparr>cf_store_directory := Some ''d''\<rparr>"

definition founding_change :: runtime_change where
  "founding_change = \<lparr>rx_service = demo_name, rx_runtime = demo_runtime, rx_fence = demo_fence, rx_has_fence = True,
    rx_witnesses = []\<rparr>"

abbreviation founding :: jrecord where
  "founding \<equiv> make_record (commit_kind Failover_Mode) (encode_runtime_change founding_change)"

lemma demo_names_canonical:
  "canonical_name demo_name" "canonical_name (Name ''edge'')" "canonical_name (Name ''spare'')" "canonical_name (Name ''zone'')"
  "canonical_name (Name [])" "reason_known R_Ok" "reason_known R_AcceptQualifiedPrimaryFailure"
  unfolding demo_name_def by code_simp+

lemma demo_runtime_valid: "valid_service_runtime stored_config demo_runtime"
  using demo_names_canonical
  by (simp add: valid_service_runtime_def demo_runtime_def default_service_runtime_def valid_service_descriptor_def
      default_service_descriptor_def valid_capability_set_def valid_precondition_set_def default_capability_set_def
      default_precondition_set_def valid_target_ref_def edge_def valid_attempt_record_def demo_attempt_def
      default_attempt_record_def default_target_ref_def stored_config_def default_fabric_config_def)

lemma founding_valid: "valid_runtime_change stored_config founding_change"
  using demo_runtime_valid demo_names_canonical
  by (simp add: valid_runtime_change_def founding_change_def valid_fence_record_def demo_fence_def default_fence_record_def
      valid_target_ref_def edge_def stored_config_def default_fabric_config_def)

lemma founding_within: "within 2000 (encode_runtime_change founding_change)"
  apply (simp add: founding_change_def demo_runtime_def default_service_runtime_def
      default_service_descriptor_def edge_def demo_name_def demo_fence_def default_fence_record_def
      demo_attempt_def default_attempt_record_def default_target_ref_def
      encode_runtime_change_def encode_service_runtime_def encode_service_descriptor_def encode_name_def encode_gen_def
      encode_flags_def encode_optional_def encode_attempt_history_def put_enum_def encode_capability_set_def
      encode_precondition_set_def encode_target_ref_def encode_target_incarnation_def encode_lease_record_def
      encode_attempt_record_def encode_fence_record_def encode_witness_def name_empty_def encode_id_def encode_tick_def
      put_presence_def)
  apply (rule within_le)
   apply (rule within_rules | simp add: encode_attempt_record_def encode_target_ref_def encode_target_incarnation_def
      encode_name_def encode_gen_def encode_id_def encode_tick_def put_enum_def)+
  done

lemma founding_plain: "plain 0x100000 founding"
  using within_payload [OF founding_within, of "commit_kind Failover_Mode"]
  by (simp add: plain_def) (simp add: make_record_def commit_kind_def)

definition empty_store :: store where
  "empty_store = (default_store (open_options stored_config ''d''))\<lparr>sr_open := True, sr_journal_generation := 1\<rparr>"

lemma stored_room: "spacious 3 stored_config []"
  by (simp add: spacious_def kMaxReplayRecords_def stored_config_def default_fabric_config_def push_bit_eq_mult)

lemma empty_sound: "sound_store empty_store small_disk [] []"
proof -
  have "newest_generation small_disk ''journal'' = Some 1" "newest_generation small_disk ''snapshot'' = None"
    by code_simp+
  then show ?thesis
    by (simp add: sound_store_def empty_store_def small_disk_def default_store_def good_options_def open_options_def
        snapshot_held_def disk_file_simps journal_limits_def)
qed

lemma stored_demo:
  "\<exists>im. durable im [] [[founding]] \<and> im_config im = stored_config \<and> core (im_state im) = core demo_state \<and>
    im_opened im \<and> spacious 2 stored_config [[founding]]"
proof -
  let ?im = "demo\<lparr>im_config := stored_config, im_store := Some empty_store, im_disk := small_disk\<rparr>"
  have j: "journalled ?im [] []"
    using empty_sound by (simp add: journalled_def small_sound(2)) (simp add: empty_store_def default_store_def stored_config_def)
  obtain im1 where im1: "journalled im1 [] ([] @ [[founding]])" "im_config im1 = stored_config" "im_opened im1"
      "core (im_state im1) = core demo_state"
    using persist_journalled [OF j _ founding_plain, of 2] stored_room by (auto simp: numeral_3_eq_3 numeral_2_eq_2)
  let ?s = "fresh_state stored_config"
  have "apply_record stored_config founding ?s = Some (apply_change founding_change ?s)"
    by (intro replayed_change founding_valid within_encoded [OF founding_within]) simp
  then have rec: "recovered_state stored_config [] (concat [[founding]]) = Some (apply_change founding_change ?s)"
    by (simp add: recovered_state_def load_state_def)
  have "st_policy (apply_change founding_change ?s) = default_policy_descriptor"
    by (simp add: apply_change_def fresh_state_def stored_config_def default_fabric_config_def Let_def)
  then have pol: "valid_policy (st_policy (apply_change founding_change ?s))"
    by (simp add: default_policy_descriptor_def valid_policy_def)
  have "mirrors (apply_change founding_change ?s) demo_state"
    by (simp add: mirrors_def apply_change_def founding_change_def fresh_state_def default_state_def demo_state_def omap_of_def Let_def)
  then have "mirrors (apply_change founding_change ?s) (im_state im1)"
    using im1(4) mirrors_core by metis
  then have "durable im1 [] [[founding]]" using im1(1,2) rec pol by (auto simp: durable_def)
  moreover have "spacious 2 stored_config [[founding]]"
    using spacious_next [OF _ founding_plain, of 2 stored_config "[]"] stored_room by (simp add: numeral_3_eq_3 numeral_2_eq_2)
  ultimately show ?thesis using im1(2-4) by blast
qed

lemma stored_change:
  assumes "core (im_state im) = core demo_state" "im_config im = stored_config"
  shows "recovery_change im Failover_Mode demo_numbers demo_name edge spare (Tick 1) R_AcceptQualifiedPrimaryFailure demo_runtime =
    demo_change"
proof -
  have "cf_max_attempt_history stored_config = cf_max_attempt_history default_fabric_config"
    by (simp add: stored_config_def)
  then show ?thesis
    using assms
    by (simp add: demo_change_def recovery_change_def committed_runtime_def remember_origin_def capability_of_def Let_def
        core_eq_iff recorded_attempt_def append_attempt_def)
qed

lemma commit_persists:
  assumes "journalled im snap ts" "spacious (Suc j) (im_config im) ts"
    and "peek_tick im = Some stamp" "commit_guard (fq_key request) im = R_Ok"
    and "attempt_identity mode (fq_service request) runtime im = Inr n" "build_plan im runtime from' to e = (R_Ok, plan, e1)"
    and "recovery_change im mode n (fq_service request) from'
      \<lparr>tg_target = tr_name to, tg_incarnation = tr_incarnation to\<rparr> stamp trigger runtime = c"
    and "within m (encode_runtime_change c)" "m \<le> 2 ^ 20"
  shows "\<exists>result e' im'. commit_recovery request runtime to from' trigger mode e im = ((result, e'), im') \<and> cr_code result = R_Ok"
proof -
  have "plain 0x100000 (make_record (commit_kind mode) (encode_runtime_change c))"
    using within_payload [OF assms(8,9), of "commit_kind mode"]
    by (simp add: plain_def) (simp add: make_record_def commit_kind_def)
  from persist_journalled [OF assms(1,2) this]
  obtain im1 where im1: "persist [make_record (commit_kind mode) (encode_runtime_change c)] im = (R_Ok, im1)" by blast
  have "encoded (encode_runtime_change c) \<noteq> None" using within_encoded [OF assms(8)] assms(9) by simp
  then obtain plan' change k where "commit_recovery request runtime to from' trigger mode e im =
      after_commit mode n request to from' stamp plan' change k e1 im1"
    using assms(3-7) im1 by (simp add: commit_recovery_def Let_def commit_kind_def)
  with after_commit_Ok show ?thesis by (metis fst_conv surj_pair)
qed

theorem committed_attempt_survives_restart_witness:
  "\<exists>im im' result e' im1. core (im_state im) = core demo_state \<and>
    commit_recovery (demo_failover\<lparr>fq_key := nil_id\<rparr>) demo_runtime (demo_target ''spare'' ''h2'') edge
      R_AcceptQualifiedPrimaryFailure Failover_Mode default_explanation im = ((result, e'), im') \<and> cr_code result = R_Ok \<and>
    fabric_open (new_impl stored_config (im_disk im')) = (R_Ok, im1) \<and> mirrors (im_state im1) (im_state im')"
proof -
  let ?q = "demo_failover\<lparr>fq_key := nil_id\<rparr>" and ?to = "demo_target ''spare'' ''h2''"
  obtain im where im: "durable im [] [[founding]]" "im_config im = stored_config" "core (im_state im) = core demo_state"
      "spacious 2 stored_config [[founding]]"
    using stored_demo by blast
  have same: "st_tick (im_state im) = Tick 0" "st_next_attempt_id (im_state im) = 2" "st_next_lease_id (im_state im) = 1"
    "st_next_plan_id (im_state im) = 1" "fence_token_of im demo_name = Gen 1" "st_policy (im_state im) = default_policy_descriptor"
    using im(3) by (simp_all add: core_eq_iff fence_token_of_def demo_fence_def)
  have q: "fq_service ?q = demo_name" "fq_key ?q = nil_id"
    "\<lparr>tg_target = tr_name ?to, tg_incarnation = tr_incarnation ?to\<rparr> = spare"
    by (simp_all add: demo_failover_def demo_target_def spare_def)
  have n: "attempt_identity Failover_Mode (fq_service ?q) demo_runtime im = Inr demo_numbers"
    unfolding q
    by (simp add: attempt_identity_def next_numbers_def demo_runtime_def gen_successor_def same default_service_runtime_def
        id_available_def Let_def demo_numbers_def)
  have "\<exists>plan. build_plan im demo_runtime edge ?to default_explanation = (R_Ok, plan, default_explanation)"
    using im(2) same
    by (simp add: build_plan_def required_steps_def demo_runtime_def default_service_descriptor_def Let_def stored_config_def
      default_fabric_config_def default_policy_descriptor_def)
  then obtain plan where plan: "build_plan im demo_runtime edge ?to default_explanation = (R_Ok, plan, default_explanation)" ..
  have change: "recovery_change im Failover_Mode demo_numbers (fq_service ?q) edge
      \<lparr>tg_target = tr_name ?to, tg_incarnation = tr_incarnation ?to\<rparr> (Tick 1) R_AcceptQualifiedPrimaryFailure demo_runtime = demo_change"
    unfolding q by (rule stored_change [OF im(3,2)])
  have j: "journalled im [] [[founding]]" using im(1) by (simp add: durable_def)
  have room: "spacious (Suc 1) (im_config im) [[founding]]" using im(2,4) by (simp add: numeral_2_eq_2)
  obtain result e' im' where commit: "commit_recovery ?q demo_runtime ?to edge R_AcceptQualifiedPrimaryFailure Failover_Mode
      default_explanation im = ((result, e'), im')" "cr_code result = R_Ok"
    using commit_persists [OF j room _ _ n plan change demo_change_within] same(1) q(2)
    by (auto simp: peek_tick_def tick_successor_def commit_guard_def is_nil_def)
  have enc: "encodable (im_config im) (fq_service ?q) demo_runtime ?to edge R_AcceptQualifiedPrimaryFailure"
    using demo_runtime_valid demo_names_canonical im(2) unfolding q(1)
    by (simp add: encodable_def demo_target_def valid_target_ref_def edge_def stored_config_def default_fabric_config_def)
  have "spacious 2 (im_config im) [[founding]]" using im(2,4) by simp
  from committed_attempt_survives_restart [OF im(1) this enc commit, of "new_impl stored_config (im_disk im')"]
  show ?thesis using commit im(2,3) by (simp add: new_impl_def) blast
qed

lemma stored_reopened:
  "\<exists>(im :: impl) im1. im_config im = stored_config \<and> fabric_open (new_impl stored_config (im_disk im)) = (R_Ok, im1) \<and>
    im_opened im1 \<and> mirrors (im_state im1) demo_state \<and>
    core (im_state im1) = core (restarted_state (apply_change founding_change (fresh_state stored_config)))"
proof -
  obtain im where im: "durable im [] [[founding]]" "im_config im = stored_config" "core (im_state im) = core demo_state"
      "spacious 2 stored_config [[founding]]"
    using stored_demo by blast
  let ?s = "apply_change founding_change (fresh_state stored_config)"
  have "apply_record stored_config founding (fresh_state stored_config) = Some ?s"
    by (intro replayed_change founding_valid within_encoded [OF founding_within]) simp
  then have rec: "recovered_state stored_config [] (concat [[founding]]) = Some ?s"
    by (simp add: recovered_state_def load_state_def)
  moreover have "valid_policy (st_policy ?s)" "mirrors ?s (im_state im)"
    using im(1,2) rec by (auto simp: durable_def)
  moreover have "journalled im [] [[founding]]" using im(1) by (simp add: durable_def)
  moreover have "spacious (Suc 1) (im_config im) [[founding]]" using im(2,4) by (simp add: numeral_2_eq_2)
  ultimately obtain im1 where im1: "fabric_open (new_impl stored_config (im_disk im)) = (R_Ok, im1)" "im_opened im1"
      "core (im_state im1) = core (restarted_state ?s)"
    using reopened [of im "[]" "[[founding]]" 1 "new_impl stored_config (im_disk im)" ?s] im(2) by (auto simp: new_impl_def)
  have "mirrors (im_state im1) demo_state"
    using \<open>mirrors ?s (im_state im)\<close> im1(3) im(3) mirrors_core [of "im_state im1" "restarted_state ?s" demo_state "im_state im"]
    by simp
  with im1 im(2) show ?thesis by blast
qed

theorem restart_is_conservative_witness:
  "\<exists>im1. im_opened im1 \<and> service_of im1 demo_name \<noteq> None \<and> conservative (im_state im1)"
proof -
  obtain im :: impl and im1 where im1: "fabric_open (new_impl stored_config (im_disk im)) = (R_Ok, im1)" "im_opened im1"
      "mirrors (im_state im1) demo_state"
    using stored_reopened by blast
  obtain d im2 where d: "request_failover demo_failover im1 = (d, im2)" by fastforce
  have "service_of im1 demo_name \<noteq> None"
    using im1(3) by (auto simp: mirrors_def service_of_def dest!: spec [of _ demo_name])
  then show ?thesis
    using restart_is_conservative [OF im1(1,2), of d im2 default_placement_request demo_failover default_failback_request] d im1(2)
    by auto
qed

subsection \<open>What the journal does not hold\<close>

lemma apply_record_counters:
  "apply_record config r s = Some s' \<Longrightarrow> st_next_attempt_id s' = st_next_attempt_id s \<and>
    st_next_lease_id s' = st_next_lease_id s \<and> st_next_plan_id s' = st_next_plan_id s \<and>
    st_next_evidence_id s' = st_next_evidence_id s \<and> st_tick s' = st_tick s"
  by (cases "rc_kind r")
    (auto simp: apply_record_def is_runtime_change_def apply_change_def apply_service_def apply_policy_def
      apply_capability_def apply_failure_def apply_dependency_def apply_retirement_def apply_withdrawal_def apply_source_def
      mark_source_def split: option.splits)

text \<open>The journal does not carry the counters. Replaying records leaves the next attempt, lease, plan and evidence numbers and the logical tick where the snapshot, or the fresh state, has them; so numbers that were given out after the last compaction are given out again.\<close>

theorem replay_keeps_counters:
  "let s' = snd (recover_from_store config rs s) in
   st_next_attempt_id s' = st_next_attempt_id s \<and> st_next_lease_id s' = st_next_lease_id s \<and>
   st_next_plan_id s' = st_next_plan_id s \<and> st_next_evidence_id s' = st_next_evidence_id s \<and> st_tick s' = st_tick s"
  by (induction config rs s rule: recover_from_store.induct)
    (auto simp: Let_def dest: apply_record_counters split: option.splits)

end
