(* ===== verification/Decoded_States.thy ===== *)
theory Decoded_States
  imports State_Codec
begin

text \<open>
  What the decoders can produce: whatever bytes a snapshot or a journal record holds, a value that
  is accepted is well formed, with canonical names, known bits, known reasons and registries within their bounds.
\<close>

definition yields :: "('a \<Rightarrow> bool) \<Rightarrow> 'a decoder \<Rightarrow> bool" where
  "yields P d \<longleftrightarrow> (\<forall>r x r'. d r = (Some x, r') \<longrightarrow> P x)"

named_theorems yield_rules

lemma yields_any: "yields (\<lambda>_. True) d"
  by (simp add: yields_def)

lemma yields_dbind: "yields Q d \<Longrightarrow> (\<And>a. Q a \<Longrightarrow> yields P (c a)) \<Longrightarrow> yields P (dbind d c)"
  unfolding yields_def dbind_def by (fastforce split: prod.splits option.splits)

lemma yields_dreturn [yield_rules]: "P x \<Longrightarrow> yields P (dreturn x)"
  by (simp add: yields_def dreturn_def)

lemma yields_dfail [yield_rules]: "yields P (dfail why)" "yields P (\<lambda>r. (None, r))"
  by (simp_all add: yields_def dfail_def)

lemma yields_if [yield_rules]: "(b \<Longrightarrow> yields P d) \<Longrightarrow> (\<not> b \<Longrightarrow> yields P e) \<Longrightarrow> yields P (if b then d else e)"
  by simp

lemma yields_mono: "yields Q d \<Longrightarrow> (\<And>x. Q x \<Longrightarrow> P x) \<Longrightarrow> yields P d"
  by (auto simp: yields_def)

lemma yieldsD: "yields P d \<Longrightarrow> d r = (Some x, r') \<Longrightarrow> P x"
  by (auto simp: yields_def)

lemma yields_nested [yield_rules]: "yields P d \<Longrightarrow> yields P (nested d)"
  by (auto simp: yields_def nested_def dbind_def split: prod.splits option.splits)

lemma yields_dloop:
  assumes "\<And>k s. I k s \<Longrightarrow> yields (I (Suc k)) (body s)" and "I k s"
  shows "yields (I (k + n)) (dloop n body s)"
  using assms(2)
proof (induction n arbitrary: k s)
  case (Suc n)
  show ?case
    using Suc.IH [of "Suc k"] by (simp, intro yields_dbind [OF assms(1) [OF Suc.prems]]) simp
qed (simp add: yields_dreturn)

lemma yields_many:
  assumes "yields P d"
  shows "yields (\<lambda>xs. length xs = n \<and> list_all P xs) (decode_many n d)"
proof -
  have "yields (\<lambda>xs. length xs = 0 + n \<and> list_all P xs) (dloop n (\<lambda>xs. dbind d (\<lambda>x. dreturn (xs @ [x]))) [])"
    by (rule yields_dloop, rule yields_dbind [OF assms], rule yields_dreturn) auto
  then show ?thesis by (simp add: decode_many_def)
qed

lemma yields_vector: "yields P d \<Longrightarrow> yields (list_all P) (decode_vector k d)"
  unfolding decode_vector_def
  by (rule yields_dbind [OF yields_any], rule yields_nested, rule yields_mono [OF yields_many]) simp_all

lemma yields_optional: "yields P d \<Longrightarrow> yields (\<lambda>v. \<forall>x \<in> set_option v. P x) (decode_optional d)"
  unfolding decode_optional_def
  by (rule yields_dbind [OF yields_any], rule yields_if, rule yields_dreturn, simp, erule yields_dbind, rule yields_dreturn) simp

lemma yields_split [yield_rules]: "(\<And>a b. p = (a, b) \<Longrightarrow> yields P (f a b)) \<Longrightarrow> yields P (case p of (a, b) \<Rightarrow> f a b)"
  by (cases p) simp

subsection \<open>Records\<close>

text \<open>The decoders of the fields come first; every other field may have any value.\<close>

lemma yields_name: "yields canonical_name decode_name"
  unfolding decode_name_def
  by (rule yields_dbind [OF yields_any]) (auto simp: name_parse_canonical_iff split: option.splits intro: yield_rules)

lemma yields_reason: "yields reason_known decode_reason"
  unfolding decode_reason_def by (rule yields_dbind [OF yields_any]) (auto intro: yield_rules)

lemma yields_sets: "yields valid_capability_set decode_capability_set" "yields valid_precondition_set decode_precondition_set"
  unfolding decode_capability_set_def decode_precondition_set_def valid_capability_set_def valid_precondition_set_def
  by (rule yields_dbind [OF yields_any]; auto intro: yield_rules)+

lemmas field_yields = yields_name yields_reason yields_sets

lemmas yield_fields = field_yields [THEN yields_dbind]

lemma yields_target_ref: "yields valid_target_ref decode_target_ref"
  unfolding decode_target_ref_def valid_target_ref_def
  by (rule yield_fields yield_rules | rule yields_dbind [OF yields_any] | simp)+

lemma yields_provenance: "yields valid_provenance decode_provenance"
  unfolding decode_provenance_def valid_provenance_def
  by (rule yield_fields yield_rules | rule yields_dbind [OF yields_any] | simp)+

lemmas yield_refs = yields_target_ref [THEN yields_dbind] yields_provenance [THEN yields_dbind]

lemma yields_records:
  "yields valid_target_record decode_target_record" "yields valid_capability_evidence decode_capability_evidence"
  "yields valid_dependency_spec decode_dependency_spec" "yields valid_failure_evidence decode_failure_evidence"
  "yields valid_dependency_observation decode_dependency_observation" "yields valid_policy_descriptor decode_policy_descriptor"
  "yields valid_fence_record decode_fence_record" "yields valid_lease_record decode_lease_record"
  "yields valid_attempt_record decode_attempt_record"
  unfolding decode_target_record_def valid_target_record_def decode_capability_evidence_def valid_capability_evidence_def
    decode_dependency_spec_def valid_dependency_spec_def decode_failure_evidence_def valid_failure_evidence_def
    decode_dependency_observation_def valid_dependency_observation_def decode_policy_descriptor_def valid_policy_descriptor_def
    decode_fence_record_def valid_fence_record_def decode_lease_record_def valid_lease_record_def
    decode_attempt_record_def valid_attempt_record_def
  by (rule yield_fields yield_refs yield_rules | rule yields_dbind [OF yields_any] | simp)+

lemma yields_service_descriptor: "yields valid_service_descriptor decode_service_descriptor"
  unfolding decode_service_descriptor_def valid_service_descriptor_def
  by (rule yield_fields yield_rules yields_vector [OF yields_records(3), THEN yields_dbind] | rule yields_dbind [OF yields_any] | simp)+

lemma yields_history:
  "yields (\<lambda>xs. length xs \<le> ceiling \<and> list_all valid_attempt_record xs) (decode_attempt_history ceiling)"
  unfolding decode_attempt_history_def
  by (rule yields_dbind [OF yields_any], rule yields_if, rule yields_dfail, rule yields_mono [OF yields_many [OF yields_records(9)]]) auto

lemma yields_effects_seen: "yields (\<lambda>xs. length xs \<le> ceiling) (decode_effects_seen ceiling)"
  unfolding decode_effects_seen_def
  by (rule yields_dbind [OF yields_any], rule yields_if, rule yields_dfail, rule yields_mono [OF yields_many [OF yields_any]]) auto

lemma yields_service_runtime: "yields (valid_service_runtime config) (decode_service_runtime config)"
  unfolding decode_service_runtime_def valid_service_runtime_def decode_optional_target_ref_def
  by (rule yield_fields yield_rules yields_service_descriptor [THEN yields_dbind]
      yields_optional [OF yields_target_ref, THEN yields_dbind] yields_optional [OF yields_records(8), THEN yields_dbind]
      yields_history [THEN yields_dbind] yields_effects_seen [THEN yields_dbind]
    | rule yields_dbind [OF yields_any] | auto)+

subsection \<open>Registries\<close>

lemma all_entries_put: "all_entries P m \<Longrightarrow> P k v \<Longrightarrow> all_entries P (omap_put k v m)"
  by (auto simp: all_entries_def omap_find_put split: if_splits)

lemma all_entries_empty [simp]: "all_entries P omap_empty"
  by (simp add: all_entries_def)

lemma yields_insert_new:
  assumes "yields (\<lambda>e. P (fst e) (snd e)) d" "omap_size acc \<le> k \<and> all_entries P acc"
  shows "yields (\<lambda>m. omap_size m \<le> Suc k \<and> all_entries P m) (insert_new d acc)"
  unfolding insert_new_def
  by (rule yields_dbind [OF assms(1)], rule yields_split, rule yields_if, rule yields_dfail, rule yields_dreturn)
    (use assms(2) in \<open>auto simp: omap_size_put intro: all_entries_put\<close>)

lemma yields_insert_ordered:
  assumes "yields (\<lambda>e. P (fst e) (snd e)) d" "omap_size (fst acc) \<le> k \<and> all_entries P (fst acc)"
  shows "yields (\<lambda>a. omap_size (fst a) \<le> Suc k \<and> all_entries P (fst a)) (insert_ordered d acc)"
  unfolding insert_ordered_def
  by (rule yields_dbind [OF assms(1)], rule yields_split, rule yields_if, rule yields_dfail, rule yields_dreturn)
    (use assms(2) in \<open>auto simp: omap_size_put intro: all_entries_put\<close>)

lemma yields_map:
  assumes "yields (\<lambda>e. P (fst e) (snd e)) d"
  shows "yields (\<lambda>m. omap_size m \<le> ceiling \<and> all_entries P m) (decode_map ceiling why d)"
proof -
  have "yields (\<lambda>m. omap_size m \<le> 0 + n \<and> all_entries P m) (dloop n (insert_new d) omap_empty)" for n
    by (rule yields_dloop, rule yields_insert_new [OF assms]) simp_all
  note loop = yields_mono [OF this]
  show ?thesis
    unfolding decode_map_def
    by (rule yields_dbind [OF yields_any], rule yields_if, rule yields_dfail, rule yields_nested, rule loop) auto
qed

lemma yields_ordered_map:
  assumes "yields (\<lambda>e. P (fst e) (snd e)) d"
  shows "yields (\<lambda>a. omap_size (fst a) \<le> ceiling \<and> all_entries P (fst a)) (decode_ordered_map ceiling why d)"
proof -
  have "yields (\<lambda>a. omap_size (fst a) \<le> 0 + n \<and> all_entries P (fst a)) (dloop n (insert_ordered d) (omap_empty, []))" for n
    by (rule yields_dloop, rule yields_insert_ordered [OF assms]) simp_all
  note loop = yields_mono [OF this]
  show ?thesis
    unfolding decode_ordered_map_def
    by (rule yields_dbind [OF yields_any], rule yields_if, rule yields_dfail, rule yields_nested, rule loop) auto
qed

lemma yields_checked: "yields P d \<Longrightarrow> yields (\<lambda>e. fst e = key (snd e) \<and> \<not> bad (snd e) \<and> P (snd e)) (checked_entry bad key d)"
  unfolding checked_entry_def by (erule yields_dbind, rule yields_if, rule yields_dfail, rule yields_dreturn) simp

lemma yields_slots:
  "yields (\<lambda>e. canonical_name (fst e) \<and> valid_capability_evidence (cp_evidence (snd e))) decode_capability_slot"
  "yields (\<lambda>e. canonical_name (fst e) \<and> valid_dependency_observation (dp_observation (snd e))) decode_dependency_slot"
  "yields (\<lambda>e. canonical_name (wk_service (fst e)) \<and> canonical_name (wk_target (fst e))) decode_witness_entry"
  "yields (\<lambda>e. canonical_name (fst e)) decode_source_entry" "yields (\<lambda>e. canonical_name (fst e)) decode_watermark_entry"
  unfolding decode_capability_slot_def decode_dependency_slot_def decode_witness_entry_def decode_source_entry_def decode_watermark_entry_def
  by (rule yield_fields yields_records [THEN yields_dbind] yield_rules | rule yields_dbind [OF yields_any] | simp)+

lemma yields_service_entry:
  "yields (\<lambda>e. canonical_name (fst e) \<and> sd_name (sv_descriptor (snd e)) = fst e \<and> valid_service_runtime config (snd e)) (decode_service_entry config)"
  unfolding decode_service_entry_def
  by (rule yield_fields, rule yields_dbind [OF yields_service_runtime], rule yields_dreturn)
    (auto simp: valid_service_runtime_def valid_service_descriptor_def)

lemma yields_request_entry: "yields (\<lambda>e. valid_request_entry (snd e)) decode_request_entry"
  unfolding decode_request_entry_def valid_request_entry_def
  by (rule yields_target_ref [THEN yields_dbind] yield_rules | rule yields_dbind [OF yields_any] | simp add: reason_known_def)+

text \<open>A service that is listed twice has its buckets merged, so that a bucket is bounded only by the
  number of services times the bound on one list.\<close>

abbreviation bucket_ok :: "nat \<Rightarrow> (service_name, dependency_slot) omap \<Rightarrow> bool" where
  "bucket_ok n m \<equiv> omap_size m \<le> n \<and> all_entries (\<lambda>d v. canonical_name d \<and> valid_dependency_observation (dp_observation v)) m"

lemma all_entries_mono: "all_entries P m \<Longrightarrow> (\<And>k v. P k v \<Longrightarrow> Q k v) \<Longrightarrow> all_entries Q m"
  by (auto simp: all_entries_def)

lemma yields_bucket:
  assumes "bucket_ok k m" "n \<le> bound"
  shows "yields (bucket_ok (k + bound)) (dloop n (insert_new decode_dependency_slot) m)"
proof -
  have "yields (bucket_ok (k + n)) (dloop n (insert_new decode_dependency_slot) m)"
    by (rule yields_dloop, rule yields_insert_new [OF yields_slots(2)]) (use assms(1) in auto)
  then show ?thesis by (rule yields_mono) (use assms(2) in auto)
qed

lemma yields_dependencies:
  "yields (\<lambda>m. omap_size m \<le> cf_max_services config \<and>
     all_entries (\<lambda>k b. canonical_name k \<and> bucket_ok (cf_max_services config * cf_max_dependencies_per_service config) b) m)
   (decode_dependencies config)"
proof -
  let ?D = "cf_max_dependencies_per_service config"
  let ?I = "\<lambda>k m. omap_size m \<le> k \<and> all_entries (\<lambda>n b. canonical_name n \<and> bucket_ok (k * ?D) b) m"
  have step: "yields (?I (Suc k)) (dbind decode_name (\<lambda>service :: service_name. dbind (get_count 1) (\<lambda>dep_count.
        if dep_count > ?D then dfail R_DependencyCapacityExceeded
        else dbind (dloop dep_count (insert_new decode_dependency_slot) (value_or (omap_find acc service) omap_empty))
          (\<lambda>bucket. dreturn (omap_put service bucket acc)))))" if acc: "?I k acc"
    for k and acc :: "(service_name, (service_name, dependency_slot) omap) omap"
  proof (rule yields_dbind [OF yields_name], rule yields_dbind [OF yields_any], rule yields_if, rule yields_dfail)
    fix service :: service_name and n assume name: "canonical_name service" and "\<not> ?D < n"
    have "bucket_ok (k * ?D) (value_or (omap_find acc service) omap_empty)"
      using acc by (cases "omap_find acc service") (auto simp: all_entries_def)
    from yields_bucket [OF this, of n ?D] \<open>\<not> ?D < n\<close>
    have "yields (bucket_ok (Suc k * ?D)) (dloop n (insert_new decode_dependency_slot) (value_or (omap_find acc service) omap_empty))"
      by (simp add: add.commute)
    then show "yields (?I (Suc k)) (dbind (dloop n (insert_new decode_dependency_slot) (value_or (omap_find acc service) omap_empty))
          (\<lambda>bucket. dreturn (omap_put service bucket acc)))"
    proof (rule yields_dbind, intro yields_dreturn conjI)
      fix b assume "bucket_ok (Suc k * ?D) b"
      moreover have "all_entries (\<lambda>n b. canonical_name n \<and> bucket_ok (Suc k * ?D) b) acc"
        using acc by (auto elim!: all_entries_mono)
      ultimately show "all_entries (\<lambda>n b. canonical_name n \<and> bucket_ok (Suc k * ?D) b) (omap_put service b acc)"
        using name by (intro all_entries_put) auto
      show "omap_size (omap_put service b acc) \<le> Suc k" using acc by (simp add: omap_size_put)
    qed
  qed
  have loop: "yields (?I (0 + n)) (dloop n (\<lambda>acc :: (service_name, (service_name, dependency_slot) omap) omap. dbind decode_name (\<lambda>service :: service_name. dbind (get_count 1) (\<lambda>dep_count.
        if dep_count > ?D then dfail R_DependencyCapacityExceeded
        else dbind (dloop dep_count (insert_new decode_dependency_slot) (value_or (omap_find acc service) omap_empty))
          (\<lambda>bucket. dreturn (omap_put service bucket acc))))) omap_empty)" for n
    by (rule yields_dloop [where I = ?I], rule step) simp_all
  show ?thesis
    unfolding decode_dependencies_def
  proof (rule yields_dbind [OF yields_any], rule yields_if, rule yields_dfail, rule yields_nested, rule yields_mono [OF loop])
    fix n m assume n: "\<not> cf_max_services config < n" and m: "?I (0 + n) m"
    have "n * ?D \<le> cf_max_services config * ?D" using n by simp
    note le = order_trans [OF _ this]
    from n show "omap_size m \<le> cf_max_services config \<and> all_entries (\<lambda>k b. canonical_name k \<and> bucket_ok (cf_max_services config * ?D) b) m"
      using m by (auto elim!: all_entries_mono intro: le)
  qed
qed

subsection \<open>The whole state\<close>

text \<open>The head has non-zero counters and a valid policy; the registries start empty.\<close>

definition valid_head :: "state \<Rightarrow> bool" where
  "valid_head s \<longleftrightarrow>
    st_next_evidence_id s \<noteq> 0 \<and> st_next_attempt_id s \<noteq> 0 \<and> st_next_lease_id s \<noteq> 0 \<and> st_next_plan_id s \<noteq> 0 \<and>
    valid_policy_descriptor (st_policy s)"

lemma yields_head: "yields valid_head decode_state_head"
  unfolding decode_state_head_def valid_head_def
  by (rule yields_records(6) [THEN yields_dbind] yield_rules | rule yields_dbind [OF yields_any] | simp)+

text \<open>The bound on the dependencies of one service that the decoder does enforce.\<close>

definition merged_dependency_bound :: "fabric_config \<Rightarrow> fabric_config" where
  "merged_dependency_bound config =
    config\<lparr>cf_max_dependencies_per_service := cf_max_services config * cf_max_dependencies_per_service config\<rparr>"

lemma merged_dependency_bound_simps [simp]:
  "cf_max_dependencies_per_service (merged_dependency_bound config) = cf_max_services config * cf_max_dependencies_per_service config"
  "cf_max_targets (merged_dependency_bound config) = cf_max_targets config"
  "cf_max_services (merged_dependency_bound config) = cf_max_services config"
  "cf_max_evidence_records (merged_dependency_bound config) = cf_max_evidence_records config"
  "cf_max_sources (merged_dependency_bound config) = cf_max_sources config"
  "cf_max_request_cache (merged_dependency_bound config) = cf_max_request_cache config"
  "witness_ceiling (merged_dependency_bound config) = witness_ceiling config"
  "valid_service_runtime (merged_dependency_bound config) = valid_service_runtime config"
  by (simp_all add: merged_dependency_bound_def witness_ceiling_def valid_service_runtime_def fun_eq_iff)

lemmas registry_yields =
  yields_map [where P = "\<lambda>k v. k = tr_name v \<and> \<not> name_empty (tr_name v) \<and> valid_target_record v", OF yields_checked [OF yields_records(1), where key = tr_name and bad = "\<lambda>t. name_empty (tr_name t)"]]
  yields_map [where P = "\<lambda>k v. canonical_name k \<and> valid_capability_evidence (cp_evidence v)", OF yields_slots(1)]
  yields_map [where P = "\<lambda>k v. canonical_name k \<and> sd_name (sv_descriptor v) = k \<and> valid_service_runtime c v" for c, OF yields_service_entry]
  yields_dependencies
  yields_ordered_map [where P = "\<lambda>k v. k = fe_id v \<and> \<not> is_nil (fe_id v) \<and> valid_failure_evidence v", OF yields_checked [OF yields_records(4), where key = fe_id and bad = "\<lambda>e. is_nil (fe_id e)"]]
  yields_map [where P = "\<lambda>k v. k = fr_service v \<and> \<not> False \<and> valid_fence_record v", OF yields_checked [OF yields_records(7), where key = fr_service and bad = "\<lambda>f. False"]]
  yields_map [where P = "\<lambda>k v. canonical_name (wk_service k) \<and> canonical_name (wk_target k)", OF yields_slots(3)]
  yields_map [where P = "\<lambda>k v. canonical_name k", OF yields_slots(4)]
  yields_map [where P = "\<lambda>k v. canonical_name k", OF yields_slots(5)]
  yields_ordered_map [where P = "\<lambda>k v. valid_request_entry v", OF yields_request_entry]

lemma yields_maps:
  assumes "valid_head s0"
  shows "yields (valid_state (merged_dependency_bound config)) (decode_state_maps config s0)"
  unfolding decode_state_maps_def
  by ((rule registry_yields [THEN yields_dbind])+, rule yields_dbind [OF yields_any], rule yields_dreturn)
    (use assms in \<open>auto simp: valid_state_def valid_head_def valid_registry_def valid_evidence_def elim!: all_entries_mono\<close>)

text \<open>C39: A snapshot that is accepted is a valid state, whatever bytes it was read from: its names are canonical, its reasons and permission bits known, its identities non-zero and keyed by their own records, and every registry is within its configured bound; only the bound on the dependencies of one service is that of all services together, as a service listed twice has its dependencies merged.\<close>

theorem accepted_snapshots_are_valid:
  assumes "complete_decode (decode_state config) bs = Some s"
  shows "valid_state (merged_dependency_bound config) s"
proof -
  have "yields (valid_state (merged_dependency_bound config)) (decode_state config)"
    unfolding decode_state_def by (rule yields_dbind [OF yields_head yields_maps])
  with assms show ?thesis by (auto simp: complete_decode_def yields_def split: prod.splits option.splits if_splits)
qed

theorem accepted_snapshots_are_valid_witness:
  "\<exists>bs s. complete_decode (decode_state default_fabric_config) bs = Some s \<and>
    valid_state (merged_dependency_bound default_fabric_config) s"
proof -
  obtain bs where "encoded (encode_state default_state) = Some bs" using default_state_encodes by auto
  then have "complete_decode (decode_state default_fabric_config) bs = Some (forget_orders default_state)"
    using default_state_valid carries_state [of default_fabric_config default_state 0] by (simp add: complete_decode_encoded)
  with accepted_snapshots_are_valid [OF this] show ?thesis by blast
qed

end
