(* ===== verification/Known_Reasons.thy ===== *)
theory Known_Reasons
  imports Decisions
begin

text \<open>
  Every code that a decision answers, or leaves as the last reason of a service, is in the table of reason
  codes, so that the runtime of a service can be read back after it was written.
\<close>

lemma known_codes:
  "reason_known R_AcceptAmbiguityResolvedNoFailover" "reason_known R_AcceptContinuityDegradedStateful"
  "reason_known R_AcceptContinuityVerified" "reason_known R_AcceptDuplicateIdempotent" "reason_known R_AcceptEffectVerified"
  "reason_known R_AcceptFailbackGenerationFresh" "reason_known R_AcceptFallbackCapabilityCompatible"
  "reason_known R_AcceptFenceAdvanced" "reason_known R_AcceptIntentEmitted" "reason_known R_AcceptLeaseTransferred"
  "reason_known R_AcceptPlacementEstablished" "reason_known R_AcceptQualifiedPlannedRecovery"
  "reason_known R_AcceptQualifiedPrimaryFailure" "reason_known R_AcceptRecoveryReissueSameFence"
  "reason_known R_AcceptStateTransferVerified" "reason_known R_AmbiguityAlreadyResolved"
  "reason_known R_AmbiguityDualActiveRisk" "reason_known R_AmbiguityUnresolved" "reason_known R_AttemptBudgetExhausted"
  "reason_known R_AuthoritySuperseded" "reason_known R_BootMismatch" "reason_known R_Cancelled"
  "reason_known R_ContinuityNotVerified" "reason_known R_DependencyCycle" "reason_known R_DependencyDepthExceeded"
  "reason_known R_DependencyHardUnmet" "reason_known R_DependencyUnknown" "reason_known R_DependencyUnresolved"
  "reason_known R_EffectAlreadyVerified" "reason_known R_EffectAttemptMismatch" "reason_known R_EffectMismatch"
  "reason_known R_EffectNegative" "reason_known R_EffectReporterUnauthorized" "reason_known R_EffectUnverified"
  "reason_known R_EvidenceIncomplete" "reason_known R_EvidenceMissing" "reason_known R_EvidenceStale"
  "reason_known R_EvidenceTargetMismatch" "reason_known R_EvidenceTopologyMismatch" "reason_known R_FailbackInProgress"
  "reason_known R_FailbackNoFailoverRecorded" "reason_known R_FailbackNotEligible"
  "reason_known R_FailbackOriginalFenceStale" "reason_known R_FailbackOriginalUnavailable"
  "reason_known R_FailbackStaleGeneration" "reason_known R_FailoverAlreadyInProgress"
  "reason_known R_FallbackCandidateLimitReached" "reason_known R_FallbackCapabilityGenerationStale"
  "reason_known R_FallbackFenced" "reason_known R_FallbackIncompatible" "reason_known R_FallbackNotInGovernedScope"
  "reason_known R_FallbackUnhealthy" "reason_known R_FallbackUnsupported" "reason_known R_FenceExhausted"
  "reason_known R_FenceRegression" "reason_known R_FenceStale" "reason_known R_FutureGeneration"
  "reason_known R_GenerationExhausted" "reason_known R_ImpossibleValue" "reason_known R_IncarnationMismatch"
  "reason_known R_InvalidState" "reason_known R_LeaseTermExhausted" "reason_known R_Malformed" "reason_known R_NoAuthority"
  "reason_known R_NoEligibleFallback" "reason_known R_NoFailoverInProgress" "reason_known R_Ok" "reason_known R_Oversized"
  "reason_known R_PayloadTooLarge" "reason_known R_PlanStepLimitReached" "reason_known R_RequestUnknown"
  "reason_known R_ServiceStateIncompatible" "reason_known R_ShuttingDown" "reason_known R_StateGenerationStale"
  "reason_known R_SupersededGeneration" "reason_known R_TargetDisappearanceIsNotPermission"
  "reason_known R_TransitionRefused" "reason_known R_UnknownService" "reason_known R_UnknownTarget"
  "reason_known R_RestartConservativeDowngrade"
  unfolding reason_known_iff map_of_eq_None_iff reason_table_def
  by (simp_all only: list.set image_insert fst_conv insert_iff simp_thms)

subsection \<open>The gates\<close>

definition known_objections :: "(bool \<times> objection) list \<Rightarrow> bool" where
  "known_objections gs \<longleftrightarrow> list_all (\<lambda>(fires, ob). fires \<longrightarrow> reason_known (objection_code ob)) gs"

lemma known_first: "known_objections gs \<Longrightarrow> first_objection gs = Some ob \<Longrightarrow> reason_known (objection_code ob)"
  by (induction gs rule: first_objection.induct) (auto simp: known_objections_def split: if_splits)

lemma evaluate_known: "reason_known (evaluate_candidate im runtime t)"
  by (simp add: evaluate_candidate_def Let_def known_codes split: option.split)

lemmas gate_known = known_objections_def objection_code_def known_codes evaluate_known

lemma placement_known: "known_objections (placement_objections im runtime request)"
  by (simp add: placement_objections_def Let_def gate_known split: option.split)

lemma evidence_known: "known_objections (evidence_objections im runtime request ev)"
  by (simp add: evidence_objections_def Let_def gate_known)

lemma resumable_known: "resumable im runtime request = Inl ob \<Longrightarrow> reason_known (objection_code ob)"
  by (auto simp: resumable_def Let_def gate_known split: if_splits option.splits)

lemma gate_refused_known: "recovery_gate im runtime request = Gate_Refused ob \<Longrightarrow> reason_known (objection_code ob)"
  using known_first [OF evidence_known]
  by (auto simp: recovery_gate_def Let_def gate_known split: if_splits option.splits)

lemma gate_qualified_known: "recovery_gate im runtime request = Gate_Qualified ev trigger \<Longrightarrow> reason_known trigger"
  by (auto simp: recovery_gate_def Let_def known_codes split: if_splits option.splits)

lemma effect_outcome_known:
  "effect_outcome p runtime next report = Inr (outcome, next') \<Longrightarrow> reason_known (sv_last_reason next')"
  by (auto simp: effect_outcome_def earned_continuity_def Let_def known_codes invalidate_verification_def
      split: if_splits effect_kind.splits)

subsection \<open>The traversal of the dependencies\<close>

lemma verdict_known: "reason_known (dependency_verdict im owner spec)"
  by (simp add: dependency_verdict_def Let_def known_codes split: option.split)

lemma block_known: "reason_known (qs_blocking q) \<Longrightarrow> reason_known code \<Longrightarrow> reason_known (qs_blocking (block spec code q))"
  by (simp add: block_def)

lemma visit_spec_known: "reason_known (qs_blocking q) \<Longrightarrow> reason_known (qs_blocking (visit_spec im owner depth spec q))"
  by (simp add: visit_spec_def Let_def block_known known_codes verdict_known)

lemma visit_node_known: "reason_known (qs_blocking q) \<Longrightarrow> reason_known (qs_blocking (visit_node im node q))"
proof -
  have "reason_known (qs_blocking q) \<Longrightarrow> reason_known (qs_blocking (foldl (\<lambda>q spec. visit_spec im owner depth spec q) q specs))"
    for owner depth specs
    by (induction specs arbitrary: q) (simp_all add: visit_spec_known)
  then show "reason_known (qs_blocking q) \<Longrightarrow> reason_known (qs_blocking (visit_node im node q))"
    by (cases node) (simp add: visit_node_def)
qed

lemma traverse_known: "reason_known (qs_blocking q) \<Longrightarrow> reason_known (qs_blocking (traverse im q))"
proof (induction im q rule: traverse.induct)
  case (1 im q)
  then show ?case by (subst traverse.simps) (simp add: visit_node_known split: list.split)
qed

lemma qualify_known: "qualify_dependencies runtime e im = ((code, e'), im') \<Longrightarrow> reason_known code"
  by (auto simp: qualify_dependencies_def Let_def known_codes intro!: traverse_known)

subsection \<open>The choice of a fallback\<close>

lemma keys_put: "set (omap_keys (omap_put k v m)) = insert k (set (omap_keys m))"
  unfolding omap_keys_def by transfer (simp add: set_ins_entry)

lemma best_listed: "foldl (\<lambda>best code. if P code best then code else best) c cs \<in> insert c (set cs)"
proof (induction cs arbitrary: c)
  case (Cons a cs)
  from Cons [of "if P a c then a else c"] show ?case by (cases "P a c") auto
qed simp

lemma worst_listed: "omap_size m \<noteq> 0 \<Longrightarrow> worst_rejection m \<in> set (omap_keys m)"
proof -
  assume "omap_size m \<noteq> 0"
  then have "omap_keys m \<noteq> []" by (simp add: omap_size_def omap_keys_def)
  then have "insert (hd (omap_keys m)) (set (omap_keys m)) = set (omap_keys m)" by (cases "omap_keys m") auto
  moreover have "worst_rejection m \<in> insert (hd (omap_keys m)) (set (omap_keys m))"
    unfolding worst_rejection_def Let_def by (rule best_listed)
  ultimately show ?thesis by simp
qed

lemma scan_known:
  "scan_candidates im runtime ts emitted rejections e = (None, rejections', e') \<Longrightarrow>
   \<forall>code \<in> set (omap_keys rejections). reason_known code \<Longrightarrow> \<forall>code \<in> set (omap_keys rejections'). reason_known code"
proof (induction im runtime ts emitted rejections e rule: scan_candidates.induct)
  case (2 im runtime t ts emitted rejections e)
  from 2(1) [OF refl] 2(2,3) show ?case
    by (simp add: Let_def evaluate_known keys_put split: if_split_asm)
qed simp

lemma select_known: "select_fallback runtime failed e im = ((code, None, e'), im') \<Longrightarrow> reason_known code"
proof -
  assume s: "select_fallback runtime failed e im = ((code, None, e'), im')"
  then obtain ts e1 rejections e2 where scan: "scan_candidates im runtime ts 0 omap_empty e1 = (None, rejections, e2)"
      and code: "code = (if omap_size rejections = 0 then R_NoEligibleFallback else worst_rejection rejections)"
    unfolding select_fallback_def Let_def by (simp split: prod.split_asm option.split_asm)
  from scan_known [OF scan] have "\<forall>code \<in> set (omap_keys rejections). reason_known code"
    by (simp add: omap_keys_def)
  with worst_listed [of rejections] show "reason_known code" by (simp add: code known_codes)
qed

end
