(* ===== verification/Durable_Records.thy ===== *)
theory Durable_Records
  imports Recovery_Durability Decoded_States Record_Sizes Known_Reasons
begin

text \<open>
  What the disk remembers: the relation of the state that a journal recovers to the state in memory, and,
  record by record, that writing the record of a change tells the disk all of that change that a restart
  could need.
\<close>

subsection \<open>What the disk remembers\<close>

definition observed :: "state \<Rightarrow> service_name \<Rightarrow> service_name \<Rightarrow> dependency_observation option" where
  "observed s service dependency =
    (case omap_find (st_dependencies s) service of
       None \<Rightarrow> None | Some bucket \<Rightarrow> map_option dp_observation (omap_find bucket dependency))"

text \<open>The state \<open>s\<close>, recovered from the disk, recalls the state \<open>t\<close> in memory: the same authority, targets,
  sources, policy and topology, the same capability evidence and observations, and at least the failure evidence
  that is retained. Left out are the clock, the counters, the flags of verification and confirmation, and the
  watermarks, which the journal does not hold or not exactly.\<close>

definition recalls :: "state \<Rightarrow> state \<Rightarrow> bool" where
  "recalls s t \<longleftrightarrow> mirrors s t \<and> st_targets s = st_targets t \<and> st_sources s = st_sources t \<and>
    st_policy s = st_policy t \<and> st_policy_generation s = st_policy_generation t \<and>
    st_topology_generation s = st_topology_generation t \<and>
    (\<forall>n. map_option cp_evidence (omap_find (st_capabilities s) n) = map_option cp_evidence (omap_find (st_capabilities t) n)) \<and>
    (\<forall>n d. observed s n d = observed t n d) \<and>
    (\<forall>i ev. omap_find (st_failures t) i = Some ev \<longrightarrow> omap_find (st_failures s) i = Some ev)"

text \<open>What is in the state can be written: names are canonical, reasons known, lists within their bounds, and
  every record is under its own key.\<close>

definition storable :: "fabric_config \<Rightarrow> state \<Rightarrow> bool" where
  "storable config s \<longleftrightarrow>
    all_entries (\<lambda>name sv. sd_name (sv_descriptor sv) = name \<and> valid_service_runtime config sv \<and>
      length (sd_dependencies (sv_descriptor sv)) \<le> cf_max_dependencies_per_service config) (st_services s) \<and>
    all_entries (\<lambda>name t. tr_name t = name \<and> valid_target_record t) (st_targets s) \<and>
    all_entries (\<lambda>i ev. fe_id ev = i \<and> valid_failure_evidence ev) (st_failures s)"

lemma recalls_core: "core s = core s' \<Longrightarrow> core t = core t' \<Longrightarrow> recalls s t = recalls s' t'"
  using mirrors_core [of s s' t t'] by (simp add: recalls_def observed_def core_eq_iff)

lemma storable_core: "core s = core t \<Longrightarrow> storable config s = storable config t"
  by (simp add: storable_def core_eq_iff)

lemma recalls_restarted: "recalls s t \<Longrightarrow> recalls (restarted_state s) t"
proof -
  assume s: "recalls s t"
  have "st_targets (restarted_state s) = st_targets s" "st_sources (restarted_state s) = st_sources s"
    "st_policy (restarted_state s) = st_policy s" "st_policy_generation (restarted_state s) = st_policy_generation s"
    "st_topology_generation (restarted_state s) = st_topology_generation s" "st_failures (restarted_state s) = st_failures s"
    by (simp_all add: restarted_state_def)
  moreover have "map_option cp_evidence (omap_find (st_capabilities (restarted_state s)) n) =
      map_option cp_evidence (omap_find (st_capabilities s) n)" for n
    by (simp add: restarted_state_def option.map_comp comp_def)
  moreover have "observed (restarted_state s) n d = observed s n d" for n d
    by (simp add: observed_def restarted_state_def option.map_comp comp_def split: option.split)
  ultimately show ?thesis using s by (simp add: recalls_def)
qed

lemma storable_service:
  assumes "storable config s" "omap_find (st_services s) name = Some sv"
  shows "sd_name (sv_descriptor sv) = name" "valid_service_runtime config sv" "canonical_name name"
    "length (sd_dependencies (sv_descriptor sv)) \<le> cf_max_dependencies_per_service config"
  using assms by (auto simp: storable_def all_entries_def valid_service_runtime_def valid_service_descriptor_def)

lemma storable_target: "storable config s \<Longrightarrow> omap_find (st_targets s) name = Some t \<Longrightarrow> tr_name t = name \<and> valid_target_record t"
  by (auto simp: storable_def all_entries_def)

lemma storable_failure: "storable config s \<Longrightarrow> omap_find (st_failures s) i = Some ev \<Longrightarrow> fe_id ev = i \<and> valid_failure_evidence ev"
  by (auto simp: storable_def all_entries_def)

subsection \<open>Steps in memory\<close>

text \<open>A step that the disk need not hear of.\<close>

definition retains :: "fabric_config \<Rightarrow> state \<Rightarrow> state \<Rightarrow> bool" where
  "retains config s t \<longleftrightarrow> (\<forall>r. recalls r s \<longrightarrow> recalls r t) \<and> (storable config s \<longrightarrow> storable config t)"

lemma retains_refl [simp]: "retains config s s"
  by (simp add: retains_def)

lemma retains_trans: "retains config s t \<Longrightarrow> retains config t u \<Longrightarrow> retains config s u"
  by (simp add: retains_def)

lemma retains_core: "core s = core t \<Longrightarrow> retains config s t"
  using recalls_core [OF refl, of s t] storable_core [of s t config] by (simp add: retains_def)

text \<open>A change of a service that keeps its authority and its shape.\<close>

definition mild :: "fabric_config \<Rightarrow> (service_runtime \<Rightarrow> service_runtime) \<Rightarrow> bool" where
  "mild config f \<longleftrightarrow> (\<forall>sv. authority (f sv) = authority sv \<and> (valid_service_runtime config sv \<longrightarrow> valid_service_runtime config (f sv)))"

lemma authority_descriptor: "authority sv = authority sv' \<Longrightarrow> sv_descriptor sv = sv_descriptor sv'"
  by (simp add: authority_def)

lemma recalls_service:
  assumes "recalls r s" "omap_find (st_services s) name = Some sv" "authority sv' = authority sv"
  shows "recalls r (s\<lparr>st_services := omap_put name sv' (st_services s)\<rparr>)"
proof -
  have "map_option authority (omap_find (st_services r) name) = Some (authority sv')"
    using assms by (simp add: recalls_def mirrors_def)
  with assms(1) show ?thesis by (simp add: recalls_def mirrors_def observed_def omap_find_put)
qed

lemma storable_put_service:
  assumes "storable config s" "valid_service_runtime config sv" "sd_name (sv_descriptor sv) = name"
    "length (sd_dependencies (sv_descriptor sv)) \<le> cf_max_dependencies_per_service config"
  shows "storable config (s\<lparr>st_services := omap_put name sv (st_services s)\<rparr>)"
  using assms by (auto simp: storable_def intro!: all_entries_put)

lemma retains_service:
  assumes "omap_find (st_services s) name = Some sv" "authority sv' = authority sv"
    and "valid_service_runtime config sv \<Longrightarrow> valid_service_runtime config sv'"
  shows "retains config s (s\<lparr>st_services := omap_put name sv' (st_services s)\<rparr>)"
  using assms storable_service [OF _ assms(1), of config] authority_descriptor [OF assms(2)] recalls_service [OF _ assms(1,2)]
  by (auto simp: retains_def intro!: storable_put_service)

lemma retains_change_service: "mild config f \<Longrightarrow> retains config s (change_service name f s)"
  by (auto simp: change_service_def mild_def intro: retains_service split: option.splits)

text \<open>The disk, the store and the configuration stay.\<close>

definition calm :: "impl \<Rightarrow> impl \<Rightarrow> bool" where
  "calm im im' \<longleftrightarrow> im_store im' = im_store im \<and> im_disk im' = im_disk im \<and> im_config im' = im_config im \<and>
    retains (im_config im) (im_state im) (im_state im')"

lemma calm_refl [simp]: "calm im im"
  by (simp add: calm_def)

lemma calm_trans: "calm im im' \<Longrightarrow> calm im' im'' \<Longrightarrow> calm im im''"
  by (auto simp: calm_def intro: retains_trans)

lemma calm_state: "retains (im_config im) (im_state im) (f (im_state im)) \<Longrightarrow> calm im (in_state f im)"
  by (simp add: calm_def)

lemma calm_core:
  assumes "calm im im'" "im_store im'' = im_store im'" "im_disk im'' = im_disk im'" "im_config im'' = im_config im'"
    "core (im_state im'') = core (im_state im')"
  shows "calm im im''"
  using assms retains_trans [OF _ retains_core [OF assms(5) [symmetric]]] by (auto simp: calm_def)

subsection \<open>A runtime that its disk recalls\<close>

text \<open>Lists of a length that the writer always takes.\<close>

definition modest :: "fabric_config \<Rightarrow> bool" where
  "modest config \<longleftrightarrow> cf_max_attempt_history config \<le> 100000 \<and> cf_max_dependencies_per_service config \<le> 100000 \<and>
    1 \<le> cf_max_targets config"

text \<open>The disk recalls the state, and takes another \<open>k\<close> records before a rotation is due.\<close>

definition remembered :: "impl \<Rightarrow> bytes \<Rightarrow> jrecord list list \<Rightarrow> bool" where
  "remembered im snap ts \<longleftrightarrow> journalled im snap ts \<and>
    (\<exists>s. recovered_state (im_config im) snap (concat ts) = Some s \<and> valid_policy (st_policy s) \<and>
      storable (im_config im) s \<and> recalls s (im_state im))"

definition secure :: "nat \<Rightarrow> impl \<Rightarrow> bool" where
  "secure k im \<longleftrightarrow> modest (im_config im) \<and> storable (im_config im) (im_state im) \<and>
    (\<exists>snap ts. remembered im snap ts \<and> spacious k (im_config im) ts)"

lemma spacious_less: "spacious k config ts \<Longrightarrow> j \<le> k \<Longrightarrow> spacious j config ts"
proof -
  assume s: "spacious k config ts" "j \<le> k"
  then have "(100 + 2 ^ 20) * j \<le> (100 + 2 ^ 20 :: nat) * k" by (intro mult_le_mono2)
  with s show ?thesis unfolding spacious_def by linarith
qed

lemma secure_less: "secure k im \<Longrightarrow> j \<le> k \<Longrightarrow> secure j im"
  by (auto simp: secure_def intro: spacious_less)

lemma secure_storable: "secure k im \<Longrightarrow> storable (im_config im) (im_state im)"
  by (simp add: secure_def)

lemma secure_calm:
  assumes "secure k im" "calm im im'"
  shows "secure k im'"
proof -
  obtain snap ts s where a: "journalled im snap ts" "recovered_state (im_config im) snap (concat ts) = Some s"
      "valid_policy (st_policy s)" "recalls s (im_state im)" "spacious k (im_config im) ts" "storable (im_config im) s"
    using assms(1) by (auto simp: secure_def remembered_def)
  have "journalled im' snap ts"
    using a(1) assms(2) journalled_frame [of im' im] by (simp add: calm_def)
  moreover have "recalls s (im_state im')" "storable (im_config im) (im_state im')"
    using a(4) assms by (auto simp: calm_def retains_def secure_def)
  ultimately show ?thesis
    using a assms by (auto simp: secure_def remembered_def calm_def)
qed

lemma secure_rotate:
  assumes "secure k im"
  shows "rotate_if_due im = (R_Ok, im)"
proof -
  obtain snap ts where "journalled im snap ts" "spacious k (im_config im) ts"
    using assms by (auto simp: secure_def remembered_def)
  then show ?thesis by (intro rotate_not_due) (auto simp: spacious_def)
qed

text \<open>A record that is refused leaves the disk alone; one that is written is the next transaction.\<close>

lemma persist_refused:
  assumes "persist [r] im = (code, im')" "code \<noteq> R_Ok" "secure (Suc k) im"
  shows "im' = im" "reason_known code"
proof -
  obtain snap ts where j: "journalled im snap ts" "spacious (Suc k) (im_config im) ts"
    using assms(3) by (auto simp: secure_def remembered_def)
  then have "\<not> plain 0x100000 r" using persist_journalled [OF j, where r = r] assms(1,2) by auto
  then have check: "check_records 0x100000 [r] \<noteq> R_Ok" by (auto simp: plain_def)
  obtain st directory where st: "im_store im = Some st" "sr_options st = open_options (im_config im) directory" "sr_open st"
      "\<not> so_read_only (sr_options st)"
    using j(1) by (auto simp: journalled_def sound_store_def good_options_def open_options_def)
  then have "commit_transaction [r] st (im_disk im) = ((check_records 0x100000 [r], st), im_disk im)"
    using check by (simp only: commit_transaction_def Let_def) simp
  with assms(1) st(1) check have "im\<lparr>im_store := Some st\<rparr> = im'" and code: "code = check_records 0x100000 [r]"
    by (simp_all add: persist_def Let_def del: check_records.simps)
  with st(1) show "im' = im" by (cases im) auto
  show "reason_known code" by (simp add: code known_codes)
qed

text \<open>The record \<open>r\<close> tells the disk of the change \<open>f\<close>.\<close>

definition tells :: "fabric_config \<Rightarrow> jrecord \<Rightarrow> (state \<Rightarrow> state) \<Rightarrow> state \<Rightarrow> bool" where
  "tells config r f t \<longleftrightarrow> (\<forall>s. recalls s t \<longrightarrow> (\<exists>s'. apply_record config r s = Some s' \<and> recalls s' (f t) \<and>
      (valid_policy (st_policy s) \<longrightarrow> valid_policy (st_policy s')) \<and> (storable config s \<longrightarrow> storable config s'))) \<and>
    (storable config t \<longrightarrow> storable config (f t))"

lemma persist_told:
  assumes "persist [r] im = (R_Ok, im')" "secure (Suc k) im" "tells (im_config im) r f (im_state im')"
  shows "secure k (in_state f im')" "core (im_state im') = core (im_state im)"
proof -
  obtain snap ts s where a: "journalled im snap ts" "recovered_state (im_config im) snap (concat ts) = Some s"
      "valid_policy (st_policy s)" "recalls s (im_state im)" "spacious (Suc k) (im_config im) ts" "storable (im_config im) s"
    using assms(2) by (auto simp: secure_def remembered_def)
  note plain = persisted_plain [OF assms(1) a(1)]
  have b: "journalled im' snap (ts @ [[r]])" "im_config im' = im_config im" "core (im_state im') = core (im_state im)"
    using persist_journalled [OF a(1,5) plain] assms(1) by auto
  then have c: "recalls s (im_state im')" "storable (im_config im) (im_state im')"
    using a(4) recalls_core [of s s "im_state im'" "im_state im"] storable_core [OF b(3)] secure_storable [OF assms(2)] by auto
  then obtain s' where s': "apply_record (im_config im) r s = Some s'" "recalls s' (f (im_state im'))" "valid_policy (st_policy s')"
      "storable (im_config im) s'"
    using assms(3) a(3,6) by (auto simp: tells_def)
  from recovered_append [OF a(2) s'(1)]
  have "recovered_state (im_config im) snap (concat (ts @ [[r]])) = Some s'" by simp
  moreover have "journalled (in_state f im') snap (ts @ [[r]])"
    using b(1) journalled_frame [of "in_state f im'" im'] by simp
  ultimately have "remembered (in_state f im') snap (ts @ [[r]])"
    using s' b(2) by (auto simp: remembered_def)
  with spacious_next [OF a(5) plain] c(2) assms(2,3) b(2) show "secure k (in_state f im')"
    by (auto simp: secure_def tells_def)
  show "core (im_state im') = core (im_state im)" by (rule b(3))
qed

lemma durably_secure:
  assumes "secure (Suc k) im" "\<And>t. core t = core (im_state im) \<Longrightarrow> tells (im_config im) r change t"
  shows "post (\<lambda>_. secure k) (durably r subject change notes e im)"
proof -
  obtain code im1 where p: "persist [r] im = (code, im1)" by fastforce
  show ?thesis
  proof (cases "code = R_Ok")
    case True
    have "core (im_state im1) = core (im_state im)" using quietD(1) [OF p] by (simp add: quiet_def)
    from persist_told(1) [OF p [unfolded True] assms(1) assms(2) [OF this]]
    have "secure k (in_state change im1)" .
    with secure_rotate [OF this] True p show ?thesis
      by (simp add: durably_def post_def closing_same)
  next
    case False
    with persist_refused(1) [OF p False assms(1)] p assms(1) show ?thesis
      by (simp add: durably_def answer_def secure_less [of "Suc k"])
  qed
qed

subsection \<open>What the records replay\<close>

lemma carries_source_record:
  "canonical_name source \<Longrightarrow> carries m 0 (seq [encode_name source, put_enum kSourceRoles role]) decode_source_record (source, role)"
proof -
  assume name: "canonical_name source"
  have "length kSourceRoles \<le> 256" by (simp add: kSourceRoles_def)
  note role_back = enum_back [OF source_role_listed this, of role]
  show ?thesis
    unfolding decode_source_record_def put_enum_def by (rule codec_rules name | simp only: role_back not_not simp_thms if_False | simp)+
qed

lemma carries_gen_u64: "carries m 0 (put_u64 (gen_value g)) decode_gen_u64 g"
  unfolding decode_gen_u64_def by (rule carries_map [OF carries_u64]) simp_all

lemma make_record_kind: "rc_kind (make_record kind f) = kind"
  by (simp add: make_record_def)

lemmas replay_defs = apply_record_def is_runtime_change_def make_record_kind

lemma encoded_records:
  "canonical_name source \<Longrightarrow> encoded (seq [encode_name source, put_enum kSourceRoles role]) \<noteq> None"
  "canonical_name name \<Longrightarrow> encoded (encode_name name) \<noteq> None" "encoded (put_u64 w) \<noteq> None"
  "valid_target_record t \<Longrightarrow> encoded (encode_target_record t) \<noteq> None"
  "valid_policy_descriptor p \<Longrightarrow> encoded (encode_policy_descriptor p) \<noteq> None"
  "valid_capability_evidence ce \<Longrightarrow> encoded (encode_capability_evidence ce) \<noteq> None"
  "valid_failure_evidence fe \<Longrightarrow> encoded (encode_failure_evidence fe) \<noteq> None"
  "valid_dependency_observation ob \<Longrightarrow> encoded (encode_dependency_observation ob) \<noteq> None"
  using within_encoded [OF within_Cons [OF within_name [of source] within_Cons [OF within_words(1) [of "of_nat (ordinal kSourceRoles role)"] within_Nil]]]
    within_encoded [OF within_name [of name]] within_encoded [OF within_words(4) [of w]] within_encoded [OF within_records(1) [of t]]
    within_encoded [OF within_records(2) [of p]] within_encoded [OF within_records(3) [of ce]]
    within_encoded [OF within_records(4) [of fe]] within_encoded [OF within_records(5) [of ob]]
  by (simp_all add: put_enum_def)

lemma replay_service:
  "valid_service_descriptor d \<Longrightarrow> encoded (encode_service_descriptor d) \<noteq> None \<Longrightarrow>
   apply_record config (make_record ServiceRegistered (encode_service_descriptor d)) s = Some (apply_service d s)"
  using payload_made [OF carries_service_descriptor [of d 0 0], of ServiceRegistered] by (simp add: replay_defs)

lemma replay_source:
  "canonical_name source \<Longrightarrow> apply_record config (make_record SourceRegistered (seq [encode_name source, put_enum kSourceRoles role])) s = Some (apply_source (source, role) s)"
  using payload_made [OF carries_source_record [of source 0 role] encoded_records(1), of SourceRegistered] by (simp add: replay_defs)

lemma replay_target:
  "valid_target_record t \<Longrightarrow> apply_record config (make_record TargetUpserted (encode_target_record t)) s = Some (s\<lparr>st_targets := omap_put (tr_name t) t (st_targets s)\<rparr>)"
  using payload_made [OF carries_target_record [of t 0 0] encoded_records(4), of TargetUpserted] by (simp add: replay_defs)

lemma replay_topology:
  "apply_record config (make_record TopologyGenerationSet (put_u64 (gen_value g))) s = Some (s\<lparr>st_topology_generation := g\<rparr>)"
  using payload_made [OF carries_gen_u64 [of 0 g] encoded_records(3), of TopologyGenerationSet] by (simp add: replay_defs)

lemma replay_policy:
  "valid_policy_descriptor p \<Longrightarrow> apply_record config (make_record PolicySet (encode_policy_descriptor p)) s = Some (apply_policy p s)"
  using payload_made [OF carries_policy_descriptor [of p 0 0] encoded_records(5), of PolicySet] by (simp add: replay_defs)

lemma replay_capability:
  "valid_capability_evidence ce \<Longrightarrow> apply_record config (make_record CapabilityIngested (encode_capability_evidence ce)) s = Some (apply_capability ce s)"
  using payload_made [OF carries_capability_evidence [of ce 0 0] encoded_records(6), of CapabilityIngested] by (simp add: replay_defs)

lemma replay_failure:
  "valid_failure_evidence fe \<Longrightarrow> apply_record config (make_record FailureIngested (encode_failure_evidence fe)) s = Some (apply_failure fe s)"
  using payload_made [OF carries_failure_evidence [of fe 0 0] encoded_records(7), of FailureIngested] by (simp add: replay_defs)

lemma replay_dependency:
  "valid_dependency_observation ob \<Longrightarrow> apply_record config (make_record DependencyIngested (encode_dependency_observation ob)) s = Some (apply_dependency ob s)"
  using payload_made [OF carries_dependency_observation [of ob 0 0] encoded_records(8), of DependencyIngested] by (simp add: replay_defs)

lemma replay_retirement:
  "canonical_name target \<Longrightarrow> apply_record config (make_record TargetRetired (encode_name target)) s = Some (apply_retirement target s)"
  using payload_made [OF carries_name [of target 0 0] encoded_records(2), of TargetRetired] by (simp add: replay_defs)

lemma replay_withdrawal:
  "canonical_name name \<Longrightarrow> apply_record config (make_record ServiceWithdrawn (encode_name name)) s = Some (apply_withdrawal name s)"
  using payload_made [OF carries_name [of name 0 0] encoded_records(2), of ServiceWithdrawn] by (simp add: replay_defs)

lemma replays_change:
  assumes "valid_runtime_change config c" "encoded (encode_runtime_change c) \<noteq> None" "is_runtime_change kind"
  shows "apply_record config (make_record kind (encode_runtime_change c)) s = Some (apply_change c s)"
  using payload_made [OF carries_runtime_change [OF assms(1), of 0 4] assms(2), of kind] assms(3)
  by (simp add: apply_record_def make_record_kind)

subsection \<open>Records that tell of a change\<close>

lemma tellsI:
  assumes "\<And>s. recalls s t \<Longrightarrow> apply_record config r s = Some (g s)" "\<And>s. recalls s t \<Longrightarrow> recalls (g s) (f t)"
    and "\<And>s. valid_policy (st_policy s) \<Longrightarrow> valid_policy (st_policy (g s))" "\<And>s. storable config s \<Longrightarrow> storable config (g s)"
    and "storable config t \<Longrightarrow> storable config (f t)"
  shows "tells config r f t"
  using assms by (simp add: tells_def)

lemmas recall_defs = recalls_def mirrors_def observed_def storable_def bump_def

lemma told_source:
  "canonical_name source \<Longrightarrow> tells config (make_record SourceRegistered (seq [encode_name source, put_enum kSourceRoles role]))
    (\<lambda>s. bump k (s\<lparr>st_tick := stamp, st_sources := omap_put source role (st_sources s)\<rparr>)) t"
  by (rule tellsI, erule replay_source) (auto simp: apply_source_def recall_defs)

lemma told_target:
  "valid_target_record new \<Longrightarrow> tells config (make_record TargetUpserted (encode_target_record new))
    (\<lambda>s. bump k (s\<lparr>st_tick := stamp, st_targets := omap_put (tr_name new) new (st_targets s)\<rparr>)) t"
  by (rule tellsI, erule replay_target) (auto simp: recall_defs intro!: all_entries_put)

lemma told_topology:
  "tells config (make_record TopologyGenerationSet (put_u64 (gen_value g)))
    (\<lambda>s. s\<lparr>st_tick := stamp, st_topology_generation := g\<rparr>) t"
  by (rule tellsI, rule replay_topology) (auto simp: recall_defs)

lemma told_policy:
  "valid_policy_descriptor p \<Longrightarrow> valid_policy p \<Longrightarrow> tells config (make_record PolicySet (encode_policy_descriptor p))
    (\<lambda>s. s\<lparr>st_tick := stamp, st_policy := p, st_policy_generation := pd_generation p\<rparr>) t"
  by (rule tellsI, erule replay_policy) (auto simp: apply_policy_def recall_defs)

lemma told_retirement:
  "canonical_name target \<Longrightarrow> tells config (make_record TargetRetired (encode_name target))
    (\<lambda>s. s\<lparr>st_tick := stamp, st_targets := omap_erase target (st_targets s), st_capabilities := omap_erase target (st_capabilities s)\<rparr>) t"
  by (rule tellsI, erule replay_retirement) (auto simp: apply_retirement_def recall_defs all_entries_def omap_find_erase)

lemma told_capability:
  "valid_capability_evidence ev \<Longrightarrow> tells config (make_record CapabilityIngested (encode_capability_evidence ev))
    (\<lambda>s. bump k (s\<lparr>st_tick := stamp, st_capabilities :=
       omap_put (ce_target ev) \<lparr>cp_evidence = ev, cp_requires_reconfirmation = False\<rparr> (st_capabilities s)\<rparr>)) t"
  by (rule tellsI, erule replay_capability) (auto simp: apply_capability_def recall_defs omap_find_put)

lemma told_service:
  assumes "valid_service_descriptor d" "encoded (encode_service_descriptor d) \<noteq> None" 
    and "length (sd_dependencies d) \<le> cf_max_dependencies_per_service config"
  shows "tells config (make_record ServiceRegistered (encode_service_descriptor d))
    (\<lambda>s. bump k (s\<lparr>st_tick := stamp, st_services := omap_put (sd_name d) (new_runtime d stamp) (st_services s)\<rparr>)) t"
proof (rule tellsI, rule replay_service [OF assms(1,2)])
  have same: "authority (new_runtime d stamp) =
      authority (default_service_runtime\<lparr>sv_descriptor := d, sv_lifecycle := LifecyclePhase_Registered\<rparr>)"
    by (simp add: authority_def new_runtime_def)
  show "recalls (apply_service d s) (bump k (t\<lparr>st_tick := stamp, st_services := omap_put (sd_name d) (new_runtime d stamp) (st_services t)\<rparr>))"
    if "recalls s t" for s
    using that same by (simp add: apply_service_def recall_defs omap_find_put)
  have "valid_service_runtime config (new_runtime d stamp)"
    using assms(1) by (simp add: valid_service_runtime_def new_runtime_def default_service_runtime_def reason_known_Ok)
  then show "storable config (bump k (t\<lparr>st_tick := stamp, st_services := omap_put (sd_name d) (new_runtime d stamp) (st_services t)\<rparr>))"
    if "storable config t"
    using that assms(3) by (simp add: storable_def bump_def new_runtime_def default_service_runtime_def all_entries_put)
  have "valid_service_runtime config (default_service_runtime\<lparr>sv_descriptor := d, sv_lifecycle := LifecyclePhase_Registered\<rparr>)"
    using assms(1) by (simp add: valid_service_runtime_def default_service_runtime_def reason_known_Ok)
  then show "storable config (apply_service d s)" if "storable config s" for s
    using that assms(3) unfolding apply_service_def by (intro storable_put_service) simp_all
qed (simp add: apply_service_def)

text \<open>Neither the clock nor a counter is compared.\<close>

lemma recalls_clock [simp]:
  "recalls r (s\<lparr>st_tick := stamp\<rparr>) = recalls r s" "storable config (s\<lparr>st_tick := stamp\<rparr>) = storable config s"
  "recalls r (bump k s) = recalls r s" "storable config (bump k s) = storable config s"
  by (simp_all add: recall_defs)

lemma retains_clock [simp]: "retains config s (s\<lparr>st_tick := stamp\<rparr>)"
  by (simp add: retains_def)

lemma retains_bump [simp]: "retains config s (bump k t) = retains config s t"
  by (simp add: retains_def)

lemma retains_changed:
  "mild config f \<Longrightarrow> retains config s (change_service service f (s\<lparr>st_tick := stamp\<rparr>))"
  by (rule retains_trans [OF retains_clock retains_change_service])

lemma mild_withdrawn: "mild config (withdrawn stamp)"
  by (simp add: mild_def withdrawn_def authority_def valid_service_runtime_def known_codes)

lemma recalls_mirrors:
  "recalls s t \<Longrightarrow> map_option authority (omap_find (st_services s) name) = map_option authority (omap_find (st_services t) name)"
  by (simp add: recalls_def mirrors_def)

lemma recalling_service:
  assumes "recalls s t" "omap_find (st_services s) name = Some sv" "authority sv' = authority sv"
  shows "recalls (s\<lparr>st_services := omap_put name sv' (st_services s)\<rparr>) t"
proof -
  have "map_option authority (omap_find (st_services t) name) = Some (authority sv')"
    using recalls_mirrors [OF assms(1), of name] assms(2,3) by simp
  then have "map_option authority (omap_find (omap_put name sv' (st_services s)) n) = map_option authority (omap_find (st_services t) n)" for n
    using recalls_mirrors [OF assms(1), of n] by (auto simp add: omap_find_put)
  with assms(1) show ?thesis unfolding recalls_def mirrors_def observed_def by simp
qed

lemma recalls_withdrawn: "recalls s t \<Longrightarrow> recalls (apply_withdrawal service s) t"
  unfolding apply_withdrawal_def by (auto intro!: recalling_service simp: authority_def split: option.split)

lemma told_withdrawal:
  "canonical_name service \<Longrightarrow> tells config (make_record ServiceWithdrawn (encode_name service))
    (\<lambda>s. bump k (change_service service (withdrawn stamp) (s\<lparr>st_tick := stamp\<rparr>))) t"
proof (rule tellsI, erule replay_withdrawal)
  let ?f = "\<lambda>s. bump k (change_service service (withdrawn stamp) (s\<lparr>st_tick := stamp\<rparr>))"
  have f: "retains config s (?f s)" for s
    by (simp add: retains_changed mild_withdrawn)
  have "recalls (apply_withdrawal service s) s'" if "recalls s s'" for s s'
    using that by (rule recalls_withdrawn)
  then show "recalls (apply_withdrawal service s) (?f t)" if "recalls s t" for s
    using f [of t] that by (simp add: retains_def)
  show "storable config t \<Longrightarrow> storable config (?f t)" using f [of t] by (simp add: retains_def)
  show "storable config (apply_withdrawal service s)" if "storable config s" for s
    using that storable_service [OF that, of service]
    by (auto simp: apply_withdrawal_def valid_service_runtime_def intro!: storable_put_service split: option.split)
qed (simp add: apply_withdrawal_def split: option.split)

lemma recalls_dependency: "recalls s t \<Longrightarrow> recalls (apply_dependency ob s) (apply_dependency ob t)"
proof -
  assume r: "recalls s t"
  have "observed (apply_dependency ob s) n d = (if n = dob_service ob \<and> d = dob_dependency ob then Some ob else observed s n d)" for s n d
    by (auto simp: observed_def apply_dependency_def mark_source_def omap_find_put value_or_def split: option.split)
  with r show ?thesis
    by (simp add: recalls_def mirrors_def) (simp add: apply_dependency_def mark_source_def)
qed

lemma told_dependency:
  "valid_dependency_observation ob \<Longrightarrow> tells config (make_record DependencyIngested (encode_dependency_observation ob))
    (retain_dependency config ob stamp) t"
proof (rule tellsI, erule replay_dependency)
  have core: "core (retain_dependency config ob stamp t) = core ((apply_dependency ob t)\<lparr>st_tick := stamp\<rparr>)"
    by (simp add: retain_dependency_def Let_def core_eq_iff apply_dependency_def mark_source_def bump_def)
  show "recalls (apply_dependency ob s) (retain_dependency config ob stamp t)" if "recalls s t" for s
    using recalls_dependency [OF that, of ob] recalls_core [OF refl core] by simp
  show "storable config t \<Longrightarrow> storable config (retain_dependency config ob stamp t)"
    using storable_core [OF core, of config] by (simp add: storable_def apply_dependency_def mark_source_def)
qed (simp_all add: apply_dependency_def mark_source_def storable_def)

text \<open>Changes of a service that neither its authority nor its shape notices.\<close>

lemma updated_first_valid:
  "list_all valid_attempt_record hs \<Longrightarrow> (\<And>a. valid_attempt_record a \<Longrightarrow> valid_attempt_record (f a)) \<Longrightarrow>
   list_all valid_attempt_record (update_first P f hs)"
  by (induction hs) auto

lemma update_current_valid:
  assumes "valid_service_runtime config sv" "\<And>a. valid_attempt_record a \<Longrightarrow> valid_attempt_record (f a)"
  shows "valid_service_runtime config (update_current_attempt f sv)"
proof -
  have "length (update_first P f hs) = length hs" for P hs by (induction hs) auto
  with assms updated_first_valid [of "rev (sv_history sv)" f] show ?thesis
    by (simp add: valid_service_runtime_def update_current_attempt_def)
qed

lemma acknowledged_valid: "valid_service_runtime config sv \<Longrightarrow> valid_service_runtime config (acknowledged ack stamp sv)"
proof -
  assume "valid_service_runtime config sv"
  then have "valid_service_runtime config (update_current_attempt (\<lambda>a. a\<lparr>ar_acknowledged := True,
          ar_outcome := (if ar_outcome a = AttemptOutcome_Committed then AttemptOutcome_Acknowledged else ar_outcome a)\<rparr>) sv)"
    and "valid_service_runtime config (update_current_attempt (\<lambda>a. a\<lparr>ar_acknowledged := True,
          ar_outcome := AttemptOutcome_Refused, ar_last_reason := R_TransitionRefused\<rparr>) sv)"
    by (auto intro!: update_current_valid simp: valid_attempt_record_def known_codes)
  then show ?thesis
    by (simp add: acknowledged_def valid_service_runtime_def known_codes invalidate_verification_def)
qed

lemma mild_changes:
  "mild config (await_operator i stamp)" "mild config (ambiguity_marked i)" "mild config ambiguity_cleared"
  "mild config (declared_alive stamp)" "mild config origin_forgotten"
  "reason_known code \<Longrightarrow> mild config (\<lambda>sv. sv\<lparr>sv_last_reason := code\<rparr>)"
  by (simp_all add: mild_def authority_def valid_service_runtime_def known_codes await_operator_def ambiguity_marked_def
      ambiguity_cleared_def declared_alive_def origin_forgotten_def invalidate_verification_def)

lemma mild_acknowledged: "mild config (acknowledged ack stamp)"
  using runtime_step_authority [OF runtime_step.Acked] by (simp add: mild_def acknowledged_valid)

lemma effect_outcome_valid:
  assumes "effect_outcome p sv (effect_seen config i stamp sv) report = Inr (outcome, sv')" "valid_service_runtime config sv"
  shows "valid_service_runtime config sv'"
proof -
  have "valid_service_runtime config (effect_seen config i stamp sv)"
    using assms(2) by (auto simp: effect_seen_def Let_def valid_service_runtime_def)
  with effect_outcome_known [OF assms(1)] assms(1) show ?thesis
    by (auto simp: effect_outcome_def earned_continuity_def Let_def invalidate_verification_def valid_service_runtime_def
        split: if_splits effect_kind.splits)
qed

text \<open>A runtime without a change of authority, as one record.\<close>

lemma recalls_put:
  "recalls s t \<Longrightarrow> recalls (s\<lparr>st_services := omap_put name sv (st_services s)\<rparr>) (t\<lparr>st_services := omap_put name sv (st_services t)\<rparr>)"
  unfolding recalls_def mirrors_def observed_def by (simp add: omap_find_put)

lemma told_runtime:
  assumes "is_runtime_change kind" "valid_service_runtime config sv" "sd_name (sv_descriptor sv) = service"
    and "length (sd_dependencies (sv_descriptor sv)) \<le> cf_max_dependencies_per_service config" "modest config"
    and "\<And>s. core (f s) = core (store_runtime service sv stamp s)"
  shows "tells config (make_record kind (encode_runtime_change (plain_change service sv))) f t"
proof (rule tellsI)
  have name: "canonical_name service" using assms(2,3) by (auto simp: valid_service_runtime_def valid_service_descriptor_def)
  have valid: "valid_runtime_change config (plain_change service sv)"
    using assms(2) name by (simp add: valid_runtime_change_def plain_change_def)
  have "encoded (encode_runtime_change (plain_change service sv)) \<noteq> None"
    using assms(2,4,5) name by (intro plain_change_encodes [of config]) (simp_all add: plain_change_def modest_def)
  note replay = replays_change [OF valid this assms(1)]
  show "apply_record config (make_record kind (encode_runtime_change (plain_change service sv))) s =
      Some (s\<lparr>st_services := omap_put service sv (st_services s)\<rparr>)" for s
    using replay [of s] by (simp add: apply_change_def plain_change_def)
  have stored: "store_runtime service sv stamp t = (t\<lparr>st_services := omap_put service sv (st_services t)\<rparr>)\<lparr>st_tick := stamp\<rparr>"
    by (simp add: store_runtime_def)
  show "recalls (s\<lparr>st_services := omap_put service sv (st_services s)\<rparr>) (f t)" if "recalls s t" for s
    using recalls_put [OF that] recalls_core [OF refl assms(6) [of t]] unfolding stored by simp
  show "storable config t \<Longrightarrow> storable config (f t)"
    using storable_put_service [of config t sv service] storable_core [OF assms(6) [of t], of config] assms(2-4)
    unfolding stored by simp
  show "storable config s \<Longrightarrow> storable config (s\<lparr>st_services := omap_put service sv (st_services s)\<rparr>)" for s
    using assms(2-4) by (intro storable_put_service)
qed simp

text \<open>Failure evidence: the disk may hold evidence that memory has evicted.\<close>

lemma evicted_found:
  "omap_find (st_failures (evict_failures bound order s)) i = Some ev \<Longrightarrow> omap_find (st_failures s) i = Some ev"
  by (induction bound order s rule: evict_failures.induct)
     (auto simp: frame omap_find_erase split: if_splits)

lemma recalls_failure:
  "recalls s t \<Longrightarrow> recalls (apply_failure ev s) (apply_failure ev (evict_failures bound order t))"
  unfolding recalls_def mirrors_def observed_def apply_failure_def mark_source_def
  by (simp add: frame omap_find_put) (blast dest: evicted_found)

lemma storable_evidence:
  assumes "storable config t" "valid_failure_evidence ev"
  shows "storable config (apply_failure ev (evict_failures bound order t))"
proof -
  have "all_entries (\<lambda>i ev. fe_id ev = i \<and> valid_failure_evidence ev) (st_failures (evict_failures bound order t))"
    using assms(1) unfolding storable_def all_entries_def by (blast dest: evicted_found)
  then have "all_entries (\<lambda>i ev. fe_id ev = i \<and> valid_failure_evidence ev)
      (omap_put (fe_id ev) ev (st_failures (evict_failures bound order t)))"
    using assms(2) by (intro all_entries_put) simp_all
  with assms(1) show ?thesis by (simp add: storable_def apply_failure_def mark_source_def frame)
qed

lemma storable_failure_put: "storable config s \<Longrightarrow> valid_failure_evidence ev \<Longrightarrow> storable config (apply_failure ev s)"
  by (simp add: storable_def apply_failure_def mark_source_def all_entries_put)

lemma retains_fields:
  assumes "st_services s = st_services t" "st_targets s = st_targets t" "st_failures s = st_failures t" "st_fences s = st_fences t"
    "st_witnesses s = st_witnesses t" "st_sources s = st_sources t" "st_policy s = st_policy t"
    "st_policy_generation s = st_policy_generation t" "st_topology_generation s = st_topology_generation t"
    "st_capabilities s = st_capabilities t" "st_dependencies s = st_dependencies t"
  shows "retains config s t"
  using assms by (simp add: retains_def recalls_def mirrors_def observed_def storable_def)

lemma told_failure:
  assumes "valid_failure_evidence ev"
  shows "tells config (make_record FailureIngested (encode_failure_evidence ev)) (retain_failure config nx ev stamp) t"
proof (rule tellsI, rule replay_failure [OF assms])
  let ?t2 = "if fe_id ev = Id nx then t\<lparr>st_tick := stamp, st_next_evidence_id := nx + 1\<rparr> else t\<lparr>st_tick := stamp\<rparr>"
  let ?t3 = "apply_failure ev (evict_failures_if_needed config ?t2)"
  have first: "retains config t ?t2" by (rule retains_fields) simp_all
  have last: "retains config ?t3 (retain_failure config nx ev stamp t)"
    using retains_change_service [OF mild_changes(1) [of config "fe_id ev" stamp], of "bump sa_failures_ingested_update ?t3" "fe_service ev"]
      retains_trans [of config ?t3 "bump sa_failures_ingested_update ?t3"]
    by (simp add: retain_failure_def Let_def del: if_split)
  show "recalls (apply_failure ev s) (retain_failure config nx ev stamp t)" if "recalls s t" for s
    using that first last recalls_failure [of s ?t2 ev] by (simp add: retains_def evict_failures_if_needed_def)
  show "storable config (retain_failure config nx ev stamp t)" if "storable config t"
    using that first last storable_evidence [of config ?t2 ev] assms by (simp add: retains_def evict_failures_if_needed_def)
  show "storable config s \<Longrightarrow> storable config (apply_failure ev s)" for s
    using storable_failure_put [OF _ assms] .
qed (simp add: apply_failure_def mark_source_def)

lemma promoted_valid: "valid_failure_evidence ev \<Longrightarrow> valid_failure_evidence (promoted ev)"
  by (simp add: valid_failure_evidence_def promoted_def)

lemma told_promotion:
  assumes "valid_failure_evidence ev"
  shows "tells config (make_record FailureIngested (encode_failure_evidence (promoted ev)))
    (\<lambda>s. bump k (change_service service ambiguity_cleared
      (s\<lparr>st_tick := stamp, st_failures := omap_put (fe_id ev) (promoted ev) (st_failures s)\<rparr>))) t"
proof (rule tellsI, rule replay_failure [OF promoted_valid [OF assms]])
  let ?t1 = "t\<lparr>st_tick := stamp, st_failures := omap_put (fe_id ev) (promoted ev) (st_failures t)\<rparr>"
  have last: "retains config ?t1 (bump k (change_service service ambiguity_cleared ?t1))"
    by (simp add: retains_change_service mild_changes)
  have "recalls (apply_failure (promoted ev) s) ?t1" if "recalls s t" for s
    using that by (simp add: recalls_def mirrors_def observed_def apply_failure_def mark_source_def omap_find_put promoted_def)
  then show "recalls (apply_failure (promoted ev) s) (bump k (change_service service ambiguity_cleared ?t1))" if "recalls s t" for s
    using that last by (simp add: retains_def)
  have "storable config ?t1" if "storable config t"
    using that promoted_valid [OF assms] by (auto simp: storable_def promoted_def intro!: all_entries_put)
  then show "storable config (bump k (change_service service ambiguity_cleared ?t1))" if "storable config t"
    using that last by (simp add: retains_def)
  show "storable config s \<Longrightarrow> storable config (apply_failure (promoted ev) s)" for s
    using storable_failure_put [OF _ promoted_valid [OF assms]] .
qed (simp add: apply_failure_def mark_source_def)

text \<open>The commit of an attempt.\<close>

lemma recalls_committed: "recalls s t \<Longrightarrow> recalls (apply_change c s) (apply_committed mode n stamp c k t)"
  using mirrors_change [of s t c mode n stamp k]
  by (simp add: recalls_def observed_def) (simp add: apply_change_def apply_committed_def Let_def bump_def)

lemma committed_descriptor:
  "sv_descriptor (committed_runtime im mode n service from' to_ref stamp trigger sv) = sv_descriptor sv"
  by (simp add: committed_runtime_def Let_def remember_origin_def recorded_attempt_def append_attempt_def)

lemma told_commit:
  assumes "encodable (im_config im) service sv to from' trigger"
    and "c = recovery_change im mode n service from' \<lparr>tg_target = tr_name to, tg_incarnation = tr_incarnation to\<rparr> stamp trigger sv"
    and "encoded (encode_runtime_change c) \<noteq> None" "sd_name (sv_descriptor sv) = service"
    and "length (sd_dependencies (sv_descriptor sv)) \<le> cf_max_dependencies_per_service (im_config im)"
    and "is_runtime_change kind"
  shows "tells (im_config im) (make_record kind (encode_runtime_change c)) (apply_committed mode n stamp c k) t"
proof (rule tellsI)
  have valid: "valid_runtime_change (im_config im) c" unfolding assms(2) by (rule recovery_change_valid [OF assms(1)])
  show "apply_record (im_config im) (make_record kind (encode_runtime_change c)) s = Some (apply_change c s)" for s
    by (rule replays_change [OF valid assms(3,6)])
  show "recalls (apply_change c s) (apply_committed mode n stamp c k t)" if "recalls s t" for s
    using that by (rule recalls_committed)
  have "sv_descriptor (rx_runtime c) = sv_descriptor sv" "rx_service c = service"
    by (simp_all add: assms(2) recovery_change_def committed_descriptor)
  with valid assms(4,5) have put: "storable (im_config im) (s\<lparr>st_services := omap_put (rx_service c) (rx_runtime c) (st_services s)\<rparr>)"
    if "storable (im_config im) s" for s
    using that by (intro storable_put_service) (simp_all add: valid_runtime_change_def)
  show "storable (im_config im) (apply_committed mode n stamp c k t)" if "storable (im_config im) t"
    using put [OF that] by (simp add: storable_def apply_committed_def apply_change_def Let_def bump_def)
  show "storable (im_config im) (apply_change c s)" if "storable (im_config im) s" for s
    using put [OF that] by (simp add: storable_def apply_change_def)
qed (simp add: apply_change_def)

end
