(* ===== verification/Durable_Calls.thy ===== *)
theory Durable_Calls
  imports Durable_Records
begin

text \<open>
  Every public call on its store: what the runtime accepted is what a new process recovers from the disk. The
  state in memory is compared with the one that the disk holds after each call, so that a process may die
  between any two calls.
\<close>

subsection \<open>Answers\<close>

text \<open>What only concerns the book-keeping of a runtime.\<close>

definition still :: "impl \<Rightarrow> impl \<Rightarrow> bool" where
  "still im im' \<longleftrightarrow> im_store im' = im_store im \<and> im_disk im' = im_disk im \<and> im_config im' = im_config im \<and>
    core (im_state im') = core (im_state im)"

lemma secure_still: "secure k im \<Longrightarrow> still im im' \<Longrightarrow> secure k im'"
  using secure_calm [OF _ calm_core [OF calm_refl]] by (simp add: still_def)

lemma still_simps [simp]:
  "still im im" "still im (in_state (bump c) im') = still im im'" "still im (in_state (bump c ^^ j) im') = still im im'"
  "still im (record_explanation e im') = still im im'" "still im (remember key entry im') = still im im'"
  "still im (im'\<lparr>im_cancels := cs\<rparr>) = still im im'" "still im (im'\<lparr>im_intents := q\<rparr>) = still im im'"
  by (simp_all add: still_def record_explanation_def remember_def Let_def split: prod.splits)

lemma still_answers:
  "still im (snd (refusal e code subject detail v im))" "still im (snd (refusal_simple e code im))"
  "still im (snd (refuse_with ob e im))" "still im (snd (refuse_failback ob e im))" "still im (snd (refuse_effect ob e im))"
  "still im (snd (replay_cached entry e request im))" "still im (snd (accepted outcome counter result e im))"
  "still im (snd (concluded outcome accept duplicate e im))" "still im (snd (begin_request key im))"
  "still im (snd (cancel key im))" "still im (snd (qualify_dependencies runtime e im))"
  "still im (snd (select_fallback runtime failed e im))" "still im (snd (take_intent im))"
  "still im (snd (counted_answer c code subject detail v x im))" "still im (snd (object ob x im))"
  by (auto simp: refusal_def refusal_simple_def refuse_with_def refuse_failback_def refuse_effect_def replay_cached_def
      accepted_def concluded_def begin_request_def cancel_def qualify_dependencies_def select_fallback_def take_intent_def
      counted_answer_def answer_def object_def Let_def split: prod.splits option.splits bool.splits)

lemma still_emit: "still im (emit_intent i im)"
  by (simp add: emit_intent_def split: prod.splits bool.splits)

lemma post_still: "still im (snd r) \<Longrightarrow> secure k im \<Longrightarrow> post (\<lambda>_. secure k) r"
  by (simp add: post_def split_beta secure_still)

lemmas secure_answers = still_answers [THEN post_still]

lemma secure_bump: "secure k im \<Longrightarrow> secure k (in_state (bump c) im)"
  by (erule secure_still) simp

lemma secure_changed: "secure k im \<Longrightarrow> mild (im_config im) f \<Longrightarrow> secure k (in_state (change_service service f) im)"
  by (erule secure_calm, rule calm_state, rule retains_change_service)

lemma refuse_failover_secure:
  "secure k im \<Longrightarrow> reason_known (objection_code ob) \<Longrightarrow> post (\<lambda>_. secure k) (refuse_failover ob service e im)"
  unfolding refuse_failover_def by (intro secure_answers secure_changed mild_changes)

subsection \<open>Registration and evidence\<close>

lemma answer_secure: "secure (Suc k) im \<Longrightarrow> post (\<lambda>_. secure k) (answer code subject detail v e im)"
  by (simp add: answer_def secure_less [of "Suc k"])

lemma counted_secure: "secure (Suc k) im \<Longrightarrow> post (\<lambda>_. secure k) (counted_answer c code subject detail v e im)"
  by (intro secure_answers) (rule secure_less, assumption, simp)

lemma object_secure: "secure (Suc k) im \<Longrightarrow> post (\<lambda>_. secure k) (object ob e im)"
  by (intro secure_answers) (rule secure_less, assumption, simp)

lemmas ingest_answers = answer_secure counted_secure object_secure

lemma do_enroll_source_secure:
  "secure (Suc k) im \<Longrightarrow> canonical_name source \<Longrightarrow> post (\<lambda>_. secure k) (do_enroll_source source role e im)"
  unfolding do_enroll_source_def by (intro post_rules ingest_answers durably_secure told_source)

lemma validated_length: "validate_descriptor config d = R_Ok \<Longrightarrow> length (sd_dependencies d) \<le> cf_max_dependencies_per_service config"
  by (simp add: validate_descriptor_def split: if_splits)

lemma do_register_service_secure:
  "secure (Suc k) im \<Longrightarrow> valid_service_descriptor d \<Longrightarrow> post (\<lambda>_. secure k) (do_register_service d registrar e im)"
  unfolding do_register_service_def
  apply (intro post_rules ingest_answers durably_secure; assumption?)
  apply (simp only:)
  apply (rule told_service)
    apply (simp_all add: validated_length)
  done

lemma do_register_target_secure:
  "secure (Suc k) im \<Longrightarrow> valid_target_record t \<Longrightarrow> post (\<lambda>_. secure k) (do_register_target t registrar e im)"
  unfolding do_register_target_def
  apply (intro post_rules ingest_answers durably_secure; assumption?)
  subgoal for name existing stamp stamped s
    using told_target [of stamped] by (simp add: valid_target_record_def)
  done

lemma do_set_topology_generation_secure:
  "secure (Suc k) im \<Longrightarrow> post (\<lambda>_. secure k) (do_set_topology_generation g reporter e im)"
  unfolding do_set_topology_generation_def by (intro post_rules ingest_answers durably_secure told_topology)

lemma do_set_policy_secure:
  "secure (Suc k) im \<Longrightarrow> valid_policy_descriptor p \<Longrightarrow> post (\<lambda>_. secure k) (do_set_policy p e im)"
  unfolding do_set_policy_def by (intro post_rules ingest_answers durably_secure told_policy) simp_all

lemma secure_service:
  assumes "secure k im" "service_of im name = Some sv"
  shows "sd_name (sv_descriptor sv) = name" "valid_service_runtime (im_config im) sv" "canonical_name name"
    "length (sd_dependencies (sv_descriptor sv)) \<le> cf_max_dependencies_per_service (im_config im)" "modest (im_config im)"
  using storable_service [OF secure_storable [OF assms(1)]] assms by (auto simp: service_of_def secure_def)

lemma secure_target: "secure k im \<Longrightarrow> target_of im name = Some t \<Longrightarrow> tr_name t = name \<and> valid_target_record t"
  by (metis storable_target secure_storable target_of_def)

lemma do_withdraw_service_secure:
  "secure (Suc k) im \<Longrightarrow> post (\<lambda>_. secure k) (do_withdraw_service service requester e im)"
  unfolding do_withdraw_service_def
  by (intro post_rules ingest_answers durably_secure told_withdrawal; assumption?) (erule (1) secure_service)

lemma do_retire_target_secure:
  "secure (Suc k) im \<Longrightarrow> post (\<lambda>_. secure k) (do_retire_target t requester e im)"
  unfolding do_retire_target_def
  by (intro post_rules ingest_answers durably_secure told_retirement; assumption?)
     (use secure_target in \<open>auto simp: valid_target_record_def\<close>)

lemma do_ingest_capability_secure:
  "secure (Suc k) im \<Longrightarrow> valid_capability_evidence ev \<Longrightarrow> post (\<lambda>_. secure k) (do_ingest_capability ev e im)"
  unfolding do_ingest_capability_def
  apply (intro post_rules ingest_answers durably_secure; assumption?)
  subgoal for subject target computed stamp rec s
    using told_capability [of rec] by (simp add: valid_capability_evidence_def)
  done

lemma do_ingest_failure_secure:
  "secure (Suc k) im \<Longrightarrow> valid_failure_evidence ev \<Longrightarrow> post (\<lambda>_. secure k) (do_ingest_failure ev e im)"
  unfolding do_ingest_failure_def
  apply (intro post_rules ingest_answers durably_secure; assumption?)
  apply (simp only:)
  apply (rule told_failure)
  apply (simp add: valid_failure_evidence_def valid_provenance_def)
  done

lemma do_ingest_dependency_secure:
  "secure (Suc k) im \<Longrightarrow> valid_dependency_observation b \<Longrightarrow> post (\<lambda>_. secure k) (do_ingest_dependency b e im)"
  unfolding do_ingest_dependency_def
  apply (intro post_rules ingest_answers durably_secure; assumption?)
  apply (simp only:)
  apply (rule told_dependency)
  apply (simp add: valid_dependency_observation_def valid_provenance_def)
  done

subsection \<open>The commit\<close>

lemma still_lookups:
  assumes "still im im1"
  shows "service_of im1 = service_of im" "target_of im1 = target_of im" "peek_tick im1 = peek_tick im"
  using assms by (auto simp: still_def core_eq_iff service_of_def target_of_def peek_tick_def fun_eq_iff)

lemma after_commit_secure:
  assumes "secure k (in_state (apply_committed mode n stamp change j) im)"
  shows "post (\<lambda>r im'. secure k im' \<and> cr_code (fst r) = R_Ok) (after_commit mode n request to from' stamp plan change j e im)"
proof -
  have rotated: "post (\<lambda>_. secure k) (rotate_if_due im4)" if "still (in_state (apply_committed mode n stamp change j) im) im4" for im4
    using secure_still [OF assms that] secure_rotate by simp
  show ?thesis
    unfolding after_commit_def
    apply (intro post_let)
    apply (rule post_bind)
    apply (rule post_mono [OF rotated])
     apply (simp add: still_emit)
    apply simp
    done
qed

lemma attempt_identity_known: "attempt_identity mode service sv im = Inl code \<Longrightarrow> reason_known code"
  by (auto simp: attempt_identity_def Let_def known_codes split: prod.splits option.splits if_splits)

lemma guard_known: "reason_known (commit_guard key im)"
  by (simp add: commit_guard_def known_codes split: prod.split)

lemma build_plan_known: "build_plan im runtime from' to e = (code, plan, e') \<Longrightarrow> reason_known code"
  by (auto simp: build_plan_def Let_def known_codes split: if_splits)

lemma commit_failed_code: "cr_code (commit_failed code plan) = code"
  by (simp add: commit_failed_def)

lemma commit_written_secure:
  assumes "secure (Suc k) im" "service_of im service = Some sv" "encodable (im_config im) service sv to from' trigger"
    and "persist [make_record (if mode = Resume_Mode then RecoveryResumed else AttemptCommitted) (encode_runtime_change c)] im = (R_Ok, im1)"
    and "c = recovery_change im mode n service from' \<lparr>tg_target = tr_name to, tg_incarnation = tr_incarnation to\<rparr> stamp trigger sv"
    and "encoded (encode_runtime_change c) \<noteq> None"
  shows "secure k (in_state (apply_committed mode n stamp c j) im1)"
proof -
  have "is_runtime_change (if mode = Resume_Mode then RecoveryResumed else AttemptCommitted)"
    by (simp add: is_runtime_change_def)
  from told_commit [OF assms(3,5,6) secure_service(1,4) [OF assms(1,2)] this]
  show ?thesis by (rule persist_told(1) [OF assms(4,1)])
qed

lemma commit_recovery_secure:
  assumes "secure (Suc k) im" "service_of im (fq_service request) = Some sv" "canonical_name (tr_name to)"
    and "valid_target_ref from'" "reason_known trigger"
  shows "post (\<lambda>r im'. secure k im' \<and> reason_known (cr_code (fst r))) (commit_recovery request sv to from' trigger mode e im)"
proof -
  note sv = secure_service [OF assms(1,2)]
  have enc: "encodable (im_config im) (fq_service request) sv to from' trigger"
    using sv assms(3-5) by (simp add: encodable_def modest_def)
  have less: "secure k im" using assms(1) by (rule secure_less) simp
  show ?thesis
    unfolding commit_recovery_def
    apply (intro post_rules)
         apply (simp_all only: post_pair fst_conv commit_failed_code less known_codes guard_known simp_thms)
        apply (simp add: less secure_bump)
       apply (erule attempt_identity_known)
      apply (erule build_plan_known)
     apply (metis persist_refused assms(1) less)
    apply (rule post_mono [OF after_commit_secure])
     apply (rule commit_written_secure [OF assms(1,2) enc], assumption, rule refl, simp)
    apply (simp add: known_codes)
    done
qed

subsection \<open>The decisions\<close>

lemma still_qualify: "qualify_dependencies runtime e im = (r, im1) \<Longrightarrow> still im im1"
  using still_answers(11) [of im runtime e] by simp

lemma still_select: "select_fallback runtime failed e im = (r, im1) \<Longrightarrow> still im im1"
  using still_answers(12) [of im runtime failed e] by simp

lemma still_trans: "still im im1 \<Longrightarrow> still im1 im2 \<Longrightarrow> still im im2"
  by (simp add: still_def)

lemma default_ref_valid: "valid_target_ref default_target_ref"
  by (simp add: valid_target_ref_def default_target_ref_def) code_simp

lemma active_ref_valid: "valid_service_runtime config sv \<Longrightarrow> valid_target_ref (value_or (sv_active sv) default_target_ref)"
  by (cases "sv_active sv") (auto simp: valid_service_runtime_def default_ref_valid)

lemma history_ref_valid:
  assumes "valid_service_runtime config sv" "current_attempt_record sv = Some a"
  shows "valid_target_ref (ar_from a)"
proof -
  have "a \<in> set (rev (sv_history sv))"
    using assms(2) unfolding current_attempt_record_def find_Some_iff by (metis nth_mem)
  with assms(1) show ?thesis by (auto simp: valid_service_runtime_def list_all_iff valid_attempt_record_def)
qed

text \<open>A commit after steps that only keep the books.\<close>

lemma committed_secure:
  assumes "still im im1" "commit_recovery request sv to from' trigger mode e im1 = ((result, e2), im2)"
    and "secure (Suc k) im" "service_of im (fq_service request) = Some sv" "target_of im name = Some to"
    and "valid_target_ref from'" "reason_known trigger"
  shows "secure k im2" "reason_known (cr_code result)"
proof -
  have "secure (Suc k) im1" "service_of im1 (fq_service request) = Some sv" "canonical_name (tr_name to)"
    using assms secure_still still_lookups secure_target [OF assms(3,5)] by (auto simp: valid_target_record_def)
  from postD [OF commit_recovery_secure [OF this assms(6,7)] assms(2)]
  show "secure k im2" "reason_known (cr_code result)" by auto
qed

lemma do_establish_placement_secure:
  assumes "secure (Suc k) im"
  shows "post (\<lambda>_. secure k) (do_establish_placement request im)"
proof -
  have less: "secure k im" using assms by (rule secure_less) simp
  show ?thesis
    unfolding do_establish_placement_def
    apply (intro post_rules secure_answers less)
      apply (simp_all only:)
      apply (erule secure_still [OF less still_qualify])
     apply (erule (1) committed_secure [OF still_qualify _ assms], simp, assumption, rule default_ref_valid, rule known_codes)+
    done
qed

lemma objection_code_simp [simp]: "objection_code (counter, code, subject, detail, v) = code"
  by (simp add: objection_code_def)

lemma reissue_known: "reason_known R_AcceptRecoveryReissueSameFence"
  by (rule known_codes)

lemma do_resume_secure:
  assumes "secure (Suc k) im" "service_of im (fq_service request) = Some runtime"
  shows "post (\<lambda>_. secure k) (do_resume runtime request e im)"
proof -
  have less: "secure k im" using assms(1) by (rule secure_less) simp
  have s: "still im (in_state (bump sa_recovery_reissues_update) im)" by simp
  have c: "secure k im2" "reason_known (cr_code result)"
    if "resumable im runtime request = Inr (previous, to)"
      "commit_recovery request runtime to (ar_from previous) R_AcceptRecoveryReissueSameFence Resume_Mode e1
        (in_state (bump sa_recovery_reissues_update) im) = ((result, e2), im2)" for previous to e1 result e2 im2
    using committed_secure [OF s that(2) assms resumableD(4) [OF that(1)]
      history_ref_valid [OF secure_service(2) [OF assms] resumableD(2) [OF that(1)]] reissue_known] .
  show ?thesis
    unfolding do_resume_def
    apply (intro post_rules secure_answers refuse_failover_secure less)
       apply (erule resumable_known)
      apply (simp only:, erule (1) c)
     apply (simp only: objection_code_simp, erule (1) c)
    apply (simp only:, erule (1) c)
    done
qed

lemma do_recover_secure:
  assumes "secure (Suc k) im" "service_of im (fq_service request) = Some runtime" "reason_known trigger"
  shows "post (\<lambda>_. secure k) (do_recover runtime request evidence trigger e im)"
proof -
  have less: "secure k im" using assms(1) by (rule secure_less) simp
  have from_valid: "valid_target_ref (value_or (sv_active runtime) default_target_ref)"
    using secure_service(2) [OF assms(1,2)] by (rule active_ref_valid)
  have q: "still im im2" if "qualify_dependencies runtime e1 im = (d, im1)" "select_fallback runtime f e2 im1 = (c, im2)"
    for e1 d im1 f e2 c im2
    using still_trans [OF still_qualify [OF that(1)] still_select [OF that(2)]] .
  have c: "secure k im3" "reason_known (cr_code result)"
    if "qualify_dependencies runtime e1 im = (d, im1)" "select_fallback runtime f e2 im1 = ((code, Some to, e3), im2)"
      "commit_recovery request runtime to (value_or (sv_active runtime) default_target_ref) trigger Failover_Mode e4 im2 = ((result, e5), im3)"
    for e1 d im1 f e2 code to e3 e4 im2 result e5 im3
  proof -
    have "\<exists>name. target_of im name = Some to"
      using selection_gates(2) [OF quiet_refl that(2)] still_lookups(2) [OF still_qualify [OF that(1)]] by auto
    then obtain name where name: "target_of im name = Some to" ..
    from committed_secure [OF q [OF that(1,2)] that(3) assms(1,2) name from_valid assms(3)]
    show "secure k im3" "reason_known (cr_code result)" .
  qed
  show ?thesis
    unfolding do_recover_def
    apply (intro post_rules secure_answers refuse_failover_secure less)
              apply (simp_all only: objection_code_simp known_codes)
         apply (erule secure_still [OF less still_qualify])
        apply (erule qualify_known)
       apply (erule (1) secure_still [OF less q])
      apply (erule select_known)
     apply (simp only: post_pair)
     apply (erule postD [OF refuse_failover_secure, rotated 2])
      apply (erule (2) c)
     apply (simp only: objection_code_simp, erule (2) c)
    apply (erule (2) c)
    done
qed

lemma do_request_failover_secure:
  assumes "secure (Suc k) im"
  shows "post (\<lambda>_. secure k) (do_request_failover request resume im)"
proof -
  have less: "secure k im" using assms by (rule secure_less) simp
  have gate: "post Q (case g of Gate_Refused ob \<Rightarrow> f ob | Gate_Ambiguous ev \<Rightarrow> h ev | Gate_Qualified ev t \<Rightarrow> j ev t)"
    if "\<And>ob. g = Gate_Refused ob \<Longrightarrow> post Q (f ob)" "\<And>ev. post Q (h ev)" "\<And>ev t. g = Gate_Qualified ev t \<Longrightarrow> post Q (j ev t)"
    for Q g f h j
    using that by (cases g) simp_all
  have ambiguous: "post (\<lambda>_. secure k) (refuse_ambiguous ev service e im)" for ev service e
    unfolding refuse_ambiguous_def
    by (intro refuse_failover_secure secure_calm [OF less calm_state])
       (simp_all add: retains_change_service mild_changes known_codes)
  show ?thesis
    unfolding do_request_failover_def
    apply (intro post_rules gate secure_answers refuse_failover_secure ambiguous less)
         apply (simp_all only: objection_code_simp known_codes)
      apply (rule do_resume_secure [OF assms], assumption)
     apply (erule gate_refused_known)
    apply (rule do_recover_secure [OF assms], assumption, erule gate_qualified_known)
    done
qed

text \<open>One record, then a rotation that is not due.\<close>

lemma persisted_secure:
  assumes "persist [r] im = (R_Ok, im1)" "secure (Suc k) im" "core (im_state im1) = core (im_state im) \<Longrightarrow> tells (im_config im) r f (im_state im1)"
  shows "rotate_if_due (in_state f im1) = (R_Ok, in_state f im1)" "secure k (in_state f im1)"
proof -
  have "core (im_state im1) = core (im_state im)" using quietD(1) [OF assms(1)] by (simp add: quiet_def)
  from persist_told(1) [OF assms(1,2) assms(3) [OF this]] show "secure k (in_state f im1)" .
  then show "rotate_if_due (in_state f im1) = (R_Ok, in_state f im1)" by (rule secure_rotate)
qed

text \<open>A change of a registered service that keeps its authority, as one record.\<close>

lemma runtime_persisted:
  assumes "persist [make_record kind (encode_runtime_change (plain_change service sv'))] im = (R_Ok, im1)" "secure (Suc k) im"
    and "is_runtime_change kind" "service_of im service = Some sv" "sv_descriptor sv' = sv_descriptor sv"
    and "valid_service_runtime (im_config im) sv'" "\<And>s. core (f s) = core (store_runtime service sv' stamp s)"
  shows "rotate_if_due (in_state f im1) = (R_Ok, in_state f im1)" "secure k (in_state f im1)"
proof -
  note sv = secure_service [OF assms(2,4)]
  have "tells (im_config im) (make_record kind (encode_runtime_change (plain_change service sv'))) f t" for t
    using sv assms(5) by (intro told_runtime [OF assms(3,6) _ _ _ assms(7)]) simp_all
  from persisted_secure [OF assms(1,2) this]
  show "rotate_if_due (in_state f im1) = (R_Ok, in_state f im1)" "secure k (in_state f im1)" .
qed

lemma resolve_no_failover_secure:
  assumes "secure (Suc k) im" "service_of im service = Some runtime"
  shows "post (\<lambda>_. secure k) (resolve_no_failover runtime service stamp e im)"
proof -
  have less: "secure k im" using assms(1) by (rule secure_less) simp
  let ?r = "make_record AmbiguityResolved (encode_runtime_change (plain_change service (declared_alive stamp runtime)))"
  obtain code im1 where p: "persist [?r] im = (code, im1)" by fastforce
  show ?thesis
  proof (cases "code = R_Ok")
    case True
    have valid: "valid_service_runtime (im_config im) (declared_alive stamp runtime)"
      using secure_service(2) [OF assms] mild_changes(4) by (auto simp: mild_def)
    note stored = runtime_persisted [OF p [unfolded True] assms(1) _ assms(2) _ valid,
        where f = "\<lambda>s. bump sa_ambiguity_resolved_update (store_runtime service (declared_alive stamp runtime) stamp s)"]
    show ?thesis
      unfolding resolve_no_failover_def Let_def p True
      using stored by (simp add: is_runtime_change_def declared_alive_def secure_answers)
  next
    case False
    then show ?thesis
      unfolding resolve_no_failover_def Let_def p
      using persist_refused(1) [OF p False assms(1)] by (simp add: secure_answers less)
  qed
qed

lemma resolve_confirmed_secure:
  assumes "secure (Suc (Suc k)) im" "failure_of im i = Some evidence"
  shows "post (\<lambda>_. secure k) (resolve_confirmed evidence resolution stamp e im)"
proof -
  let ?r = "make_record FailureIngested (encode_failure_evidence (promoted evidence))"
  have valid: "valid_failure_evidence evidence"
    using storable_failure [OF secure_storable [OF assms(1)]] assms(2) by (auto simp: failure_of_def)
  obtain code im1 where p: "persist [?r] im = (code, im1)" by fastforce
  show ?thesis
  proof (cases "code = R_Ok")
    case True
    from persisted_secure(2) [OF p [unfolded True] assms(1) told_promotion [OF valid]]
    show ?thesis
      unfolding resolve_confirmed_def Let_def p True by (simp add: do_request_failover_secure)
  next
    case False
    have "secure k im" using assms(1) by (rule secure_less) simp
    then show ?thesis
      unfolding resolve_confirmed_def Let_def p
      using False persist_refused(1) [OF p False assms(1)] by (simp add: secure_answers)
  qed
qed

lemma do_resolve_ambiguity_secure:
  assumes "secure (Suc (Suc k)) im"
  shows "post (\<lambda>_. secure k) (do_resolve_ambiguity resolution im)"
proof -
  have less: "secure k im" "secure (Suc k) im" using assms by (rule secure_less, simp)+
  show ?thesis
    unfolding do_resolve_ambiguity_def
    apply (intro post_rules secure_answers less)
     apply (rule resolve_no_failover_secure [OF less(2)], assumption)
    apply (rule resolve_confirmed_secure [OF assms], assumption)
    done
qed

lemma failback_gate_registered: "failback_gate im runtime request = Inr t \<Longrightarrow> \<exists>name. target_of im name = Some t"
  by (auto simp: failback_gate_def Let_def split: if_splits option.splits)

lemma do_request_failback_secure:
  assumes "secure (Suc k) im"
  shows "post (\<lambda>_. secure k) (do_request_failback request im)"
proof -
  have less: "secure k im" using assms by (rule secure_less) simp
  have trigger: "reason_known R_AcceptFailbackGenerationFresh" by (rule known_codes)
  have c: "secure k im2" if "failback_gate im runtime request = Inr t" "qualify_dependencies runtime e1 im = (d, im1)"
      "commit_recovery q runtime t (value_or (sv_active runtime) default_target_ref) R_AcceptFailbackGenerationFresh
        Failover_Mode e2 im1 = ((result, e3), im2)" "service_of im (fq_service q) = Some runtime"
    for runtime t e1 d im1 q e2 result e3 im2
  proof -
    have "\<exists>name. target_of im name = Some t" using that(1) by (rule failback_gate_registered)
    then obtain name where name: "target_of im name = Some t" ..
    from committed_secure(1) [OF still_qualify [OF that(2)] that(3) assms that(4) name
      active_ref_valid [OF secure_service(2) [OF assms that(4)]] trigger] show ?thesis .
  qed
  show ?thesis
    unfolding do_request_failback_def
    apply (intro post_rules secure_answers less secure_changed mild_changes)
      apply (simp_all only:)
      apply (erule secure_still [OF less still_qualify])
     apply (erule (2) c, simp)+
    done
qed

lemma do_acknowledge_intent_secure:
  assumes "secure (Suc k) im"
  shows "post (\<lambda>_. secure k) (do_acknowledge_intent ack im)"
proof -
  have less: "secure k im" using assms by (rule secure_less) simp
  have named: "well_named (im_state im)"
    using storable_service(1) [OF secure_storable [OF assms]] storable_target [OF secure_storable [OF assms]]
    by (auto simp: well_named_def)
  have stored: "rotate_if_due (in_state (store_runtime (sd_name (sv_descriptor sv)) (acknowledged ack stamp sv) stamp) im1) =
        (R_Ok, in_state (store_runtime (sd_name (sv_descriptor sv)) (acknowledged ack stamp sv) stamp) im1)"
      "secure k (in_state (store_runtime (sd_name (sv_descriptor sv)) (acknowledged ack stamp sv) stamp) im1)"
    if "attempt_owner im (ia_attempt ack) = Some sv"
      "persist [make_record AttemptAcknowledged (encode_runtime_change (plain_change (sd_name (sv_descriptor sv)) (acknowledged ack stamp sv)))] im =
        (R_Ok, im1)" for sv stamp im1
  proof -
    note sv = attempt_ownerD(1) [OF named that(1)]
    have "sv_descriptor (acknowledged ack stamp sv) = sv_descriptor sv"
      using authority_descriptor [OF runtime_step_authority [OF runtime_step.Acked]] by blast
    from runtime_persisted [OF that(2) assms _ sv this acknowledged_valid [OF secure_service(2) [OF assms sv]] refl]
    show "rotate_if_due (in_state (store_runtime (sd_name (sv_descriptor sv)) (acknowledged ack stamp sv) stamp) im1) =
        (R_Ok, in_state (store_runtime (sd_name (sv_descriptor sv)) (acknowledged ack stamp sv) stamp) im1)"
      "secure k (in_state (store_runtime (sd_name (sv_descriptor sv)) (acknowledged ack stamp sv) stamp) im1)"
      by (simp_all add: is_runtime_change_def)
  qed
  show ?thesis
    unfolding do_acknowledge_intent_def
    apply (intro post_rules secure_answers less)
      apply (simp_all only: not_not)
      apply (metis persist_refused(1) assms less)
     apply (metis stored prod.inject)+
    done
qed

text \<open>The service of the report is the one whose runtime the outcome is made from.\<close>

lemma do_report_effect_secure:
  assumes "secure (Suc k) im"
  shows "post (\<lambda>_. secure k) (do_report_effect report im)"
proof -
  have less: "secure k im" using assms by (rule secure_less) simp
  have stored: "rotate_if_due (in_state (apply_effect report sv' stamp) im1) = (R_Ok, in_state (apply_effect report sv' stamp) im1)"
      "secure k (in_state (apply_effect report sv' stamp) im1)"
    if "service_of im (er_service report) = Some sv"
      "effect_outcome p sv (effect_seen (im_config im) i stamp sv) report = Inr (outcome, sv')"
      "persist [make_record EffectRecorded (encode_runtime_change (plain_change (er_service report) sv'))] im = (R_Ok, im1)"
    for sv p i stamp outcome sv' im1
  proof -
    have core: "core (apply_effect report sv' stamp s) = core (store_runtime (er_service report) sv' stamp s)" for s
      by (simp add: apply_effect_def Let_def)
    note same = authority_descriptor [OF effect_outcome_authority [OF that(2)]]
    note valid = effect_outcome_valid [OF that(2) secure_service(2) [OF assms that(1)]]
    from runtime_persisted [OF that(3) assms _ that(1) same valid core]
    show "rotate_if_due (in_state (apply_effect report sv' stamp) im1) = (R_Ok, in_state (apply_effect report sv' stamp) im1)"
      "secure k (in_state (apply_effect report sv' stamp) im1)"
      by (simp_all add: is_runtime_change_def)
  qed
  show ?thesis
    unfolding do_report_effect_def conclude_effect_def
    apply (intro post_rules secure_answers secure_bump less)
      apply (simp_all only: not_not)
      apply (metis persist_refused(1) assms less)
     apply (metis stored prod.inject)+
    done
qed

subsection \<open>Calls\<close>

lemma ingest_secure:
  assumes "\<And>e. post (\<lambda>_. secure k) (handler e im)"
  shows "post (\<lambda>_. secure k) (ingest service handler im)"
  unfolding ingest_def
  apply (intro post_rules)
  subgoal for a im1 code e e' im2
    using postD [OF assms, of "begin_explanation service nil_id im" "(code, e)" im1]
    by (auto simp: finish_ingest_explanation_def Let_def intro: secure_still)
  done

lemma keyed_request_secure:
  assumes "secure (Suc j) im" "\<And>im1. secure (Suc j) im1 \<Longrightarrow> post (\<lambda>_. secure k) (handler im1)" "k \<le> Suc j"
  shows "post (\<lambda>_. secure k) (keyed_request replay handler im)"
proof -
  have less: "secure k im" using assms(1,3) by (rule secure_less)
  have s: "still im im1" if "begin_request key im = (r, im1)" for key r im1
    using still_answers(9) [of im key] that by simp
  have finished: "secure k (im2\<lparr>im_cancels := c\<rparr>)" if "begin_request key im = (r, im1)" "handler im1 = (d, im2)" for key r im1 d im2 c
    using postD [OF assms(2) [OF secure_still [OF assms(1) s [OF that(1)]]] that(2)] by (rule secure_still) simp
  show ?thesis
    unfolding keyed_request_def
    apply (intro post_rules secure_answers less)
     apply (simp_all only: post_pair)
     apply (erule secure_still [OF less s])
    apply (erule (1) finished)
    done
qed

text \<open>The arguments that the types of the source allow: names are canonical, masks within their range.\<close>

fun well_typed :: "operation \<Rightarrow> bool" where
  "well_typed (Enroll source role) = canonical_name source"
| "well_typed (Register_Service d registrar) = valid_service_descriptor d"
| "well_typed (Register_Target t registrar) = valid_target_record t"
| "well_typed (Set_Policy p) = valid_policy_descriptor p"
| "well_typed (Capability ev) = valid_capability_evidence ev"
| "well_typed (Failure ev) = valid_failure_evidence ev"
| "well_typed (Dependency b) = valid_dependency_observation b"
| "well_typed op = True"

lemmas ingest_handlers_secure =
  do_enroll_source_secure do_register_service_secure do_register_target_secure do_set_topology_generation_secure
  do_set_policy_secure do_withdraw_service_secure do_retire_target_secure do_ingest_capability_secure
  do_ingest_failure_secure do_ingest_dependency_secure

lemma decisions_secure:
  assumes "secure (Suc (Suc k)) im"
  shows "post (\<lambda>_. secure k) (establish_placement p im)" "post (\<lambda>_. secure k) (request_failover r im)"
    "post (\<lambda>_. secure k) (resume_recovery r im)" "post (\<lambda>_. secure k) (resolve_ambiguity a im)"
    "post (\<lambda>_. secure k) (request_failback b im)" "post (\<lambda>_. secure k) (acknowledge_intent i im)"
    "post (\<lambda>_. secure k) (report_effect f im)"
proof -
  have less: "secure (Suc k) im" using assms by (rule secure_less) simp
  show "post (\<lambda>_. secure k) (establish_placement p im)" "post (\<lambda>_. secure k) (request_failover r im)"
    "post (\<lambda>_. secure k) (resume_recovery r im)" "post (\<lambda>_. secure k) (request_failback b im)"
    unfolding establish_placement_def request_failover_def resume_recovery_def request_failback_def
    by (rule keyed_request_secure [OF less];
        simp add: do_establish_placement_secure do_request_failover_secure do_request_failback_secure)+
  show "post (\<lambda>_. secure k) (resolve_ambiguity a im)"
    unfolding resolve_ambiguity_def by (rule keyed_request_secure [OF assms]) (simp_all add: do_resolve_ambiguity_secure)
  show "post (\<lambda>_. secure k) (acknowledge_intent i im)" "post (\<lambda>_. secure k) (report_effect f im)"
    unfolding acknowledge_intent_def report_effect_def
    using less by (rule do_acknowledge_intent_secure, rule do_report_effect_secure)
qed

lemma perform_secure:
  assumes "secure (Suc (Suc k)) im" "well_typed op"
  shows "secure k (perform op im)"
proof -
  have less: "secure (Suc k) im" "secure k im" using assms(1) by (rule secure_less, simp)+
  have "secure k (snd (cancel key im))" "secure k (snd (take_intent im))" for key
    using secure_still [OF less(2)] still_answers(10,13) by auto
  then show ?thesis
    using assms(2) less(1) decisions_secure [OF assms(1)]
    by (cases op) (simp_all add: public_defs(1-10) post_snd ingest_secure ingest_handlers_secure)
qed

subsection \<open>Restarts\<close>

lemma downgraded_valid: "valid_service_runtime config sv \<Longrightarrow> valid_service_runtime config (downgrade_runtime sv)"
proof -
  have "list_all valid_attempt_record hs \<Longrightarrow> list_all valid_attempt_record (map downgrade_attempt hs)" for hs
    by (auto simp: list_all_iff downgrade_attempt_def valid_attempt_record_def known_codes)
  then show "valid_service_runtime config sv \<Longrightarrow> valid_service_runtime config (downgrade_runtime sv)"
    by (simp add: valid_service_runtime_def downgrade_runtime_def Let_def known_codes)
qed

lemma storable_restarted: "storable config s \<Longrightarrow> storable config (restarted_state s)"
proof -
  have "sv_descriptor (downgrade_runtime sv) = sv_descriptor sv" for sv
    by (simp add: downgrade_runtime_def Let_def)
  then show "storable config s \<Longrightarrow> storable config (restarted_state s)"
    by (auto simp: storable_def restarted_state_def all_entries_def downgraded_valid)
qed

lemma mirrors_restart: "mirrors s (restarted_state s)"
proof -
  have "mirrors (restarted_state s) (restarted_state s)" by (simp add: mirrors_def)
  then show ?thesis by simp
qed

lemma recalls_restart: "recalls s (restarted_state s)"
  using mirrors_restart [of s]
  by (simp add: recalls_def observed_def) (simp add: restarted_state_def option.map_comp comp_def split: option.split)

lemma carries_epoch:
  "carries m 0 (seq [put_u64 (gen_value a), put_u64 (gen_value b)]) decode_epoch_record (a, b)"
  unfolding decode_epoch_record_def by (rule codec_rules carries_gen_u64 | simp)+

lemma replay_epoch: "apply_record config (epoch_record t) s = Some (s\<lparr>st_epoch := st_epoch t, st_boot := st_boot t\<rparr>)"
proof -
  have "within (8 + (8 + 0)) (seq [put_u64 (gen_value (st_epoch t)), put_u64 (gen_value (st_boot t))])"
    by (intro within_Cons within_words within_Nil)
  from within_encoded [OF this]
  have "encoded (seq [put_u64 (gen_value (st_epoch t)), put_u64 (gen_value (st_boot t))]) \<noteq> None" by simp
  from payload_made [OF carries_epoch this, of EpochAdvanced]
  show ?thesis by (simp add: apply_record_def epoch_record_def make_record_kind is_runtime_change_def)
qed

lemma recovered_again:
  assumes "recovered_state config snap (concat ts) = Some s" "valid_policy (st_policy s)" "storable config s"
  shows "\<exists>s1. recovered_state config snap (concat (ts @ [[epoch_record (restarted_state s)]])) = Some s1 \<and>
    valid_policy (st_policy s1) \<and> storable config s1 \<and> recalls s1 (restarted_state s)"
proof -
  let ?s1 = "s\<lparr>st_epoch := st_epoch (restarted_state s), st_boot := st_boot (restarted_state s)\<rparr>"
  have "recalls ?s1 (restarted_state s) = recalls s (restarted_state s)" "storable config ?s1 = storable config s"
    by (simp_all add: recalls_def mirrors_def observed_def storable_def)
  moreover have "recovered_state config snap (concat (ts @ [[epoch_record (restarted_state s)]])) = Some ?s1"
    using recovered_append [OF assms(1) replay_epoch] by simp
  ultimately show ?thesis using assms recalls_restart by auto
qed

text \<open>A process that opens a store to which nothing was written yet.\<close>

lemma reopened_fresh:
  assumes "journalled im0 [] ts" "concat ts = []" "im_config im = im_config im0" "im_disk im = im_disk im0" "\<not> im_opened im"
    and "valid_policy (st_policy (fresh_state (im_config im)))"
  shows "\<exists>im'. fabric_open im = (R_Ok, im') \<and> im_opened im' \<and> im_state im' = fresh_state (im_config im) \<and>
    journalled im' [] ts \<and> im_config im' = im_config im"
proof -
  let ?config = "im_config im"
  obtain st directory where st: "sound_store st (im_disk im) [] ts" "dk_script (im_disk im) = []"
      "cf_store_directory ?config = Some directory" "sr_options st = open_options ?config directory"
    using assms(1,3,4) by (auto simp: journalled_def)
  obtain report where open': "store_open (open_options ?config directory) (im_disk im) =
      ((report, Some \<lparr>op_store = st, op_snapshot = [], op_records = concat ts\<rparr>), im_disk im)"
    using reopen_sound [OF st(1,2)] st(4) by auto
  let ?im4 = "im\<lparr>im_state := fresh_state ?config, im_explanations := el_clear (im_explanations im),
    im_intents := iq_reopen (im_intents im), im_restart := default_restart_summary\<lparr>ru_store := report\<rparr>, im_store := Some st,
    im_opened := True\<rparr>"
  have "fabric_open im = (R_Ok, ?im4)"
    using assms(5,6) by (simp add: fabric_open_def Let_def st(3) open' load_state_def finish_open_def assms(2))
  moreover have "journalled ?im4 [] ts" using st by (auto simp: journalled_def)
  ultimately show ?thesis by simp
qed

lemma fresh_storable: "storable config (fresh_state config)"
  by (simp add: storable_def fresh_state_def default_state_def Let_def all_entries_def)

lemma recalls_refl: "recalls s s"
  by (simp add: recalls_def mirrors_def)

text \<open>A new process that opens the disk of another one.\<close>

lemma restart_secure:
  assumes "secure (Suc k) im0" "im_config im = im_config im0" "im_disk im = im_disk im0" "\<not> im_opened im"
  shows "\<exists>im'. fabric_open im = (R_Ok, im') \<and> im_opened im' \<and> recalls (im_state im') (im_state im0) \<and>
    im_config im' = im_config im \<and> secure k im'"
proof -
  obtain snap ts s where a: "journalled im0 snap ts" "recovered_state (im_config im0) snap (concat ts) = Some s"
      "valid_policy (st_policy s)" "storable (im_config im0) s" "recalls s (im_state im0)" "spacious (Suc k) (im_config im0) ts"
      "modest (im_config im0)"
    using assms(1) by (auto simp: secure_def remembered_def)
  show ?thesis
  proof (cases "snap \<noteq> [] \<or> concat ts \<noteq> []")
    case True
    obtain im' where im': "fabric_open im = (R_Ok, im')" "im_opened im'" "core (im_state im') = core (restarted_state s)"
        "journalled im' snap (ts @ [[epoch_record (restarted_state s)]])"
      using reopened [OF a(1,6) assms(2-4) _ a(3) True] a(2) assms(2) by auto
    have config: "im_config im' = im_config im0" using fabric_open_Ok [OF im'(1,2)] assms(2) by simp
    have recalled: "recalls r (im_state im') = recalls r (restarted_state s)" for r
      by (rule recalls_core [OF refl im'(3)])
    have "storable (im_config im0) (im_state im')"
      using storable_core [OF im'(3)] storable_restarted [OF a(4)] by simp
    moreover have "remembered im' snap (ts @ [[epoch_record (restarted_state s)]])"
      using recovered_again [OF a(2-4)] im'(4) by (simp add: remembered_def config recalled)
    ultimately have "secure k im'"
      using spacious_next [OF a(6) epoch_record_plain] a(7) by (auto simp: secure_def config)
    moreover have "recalls (im_state im') (im_state im0)"
      using recalls_core [OF im'(3) refl] recalls_restarted [OF a(5)] by simp
    ultimately show ?thesis using im' config assms(2) by auto
  next
    case False
    then have empty: "snap = []" "concat ts = []" by simp_all
    have s: "s = fresh_state (im_config im0)"
      using a(2) unfolding empty recovered_state_def load_state_def by simp
    obtain im' where im': "fabric_open im = (R_Ok, im')" "im_opened im'" "im_state im' = fresh_state (im_config im)"
        "journalled im' [] ts" "im_config im' = im_config im"
      using reopened_fresh [OF _ empty(2) assms(2-4)] a(1,3) empty(1) s assms(2) by auto
    have config: "im_config im' = im_config im0" using im'(5) assms(2) by simp
    have "recovered_state (im_config im') [] (concat ts) = Some s" using a(2) by (simp only: empty(1) config)
    moreover have "recalls s (im_state im')" by (simp only: s im'(3) assms(2) recalls_refl)
    ultimately have "remembered im' [] ts"
      using a(3,4) im'(4) unfolding remembered_def config by blast
    then have "secure k im'"
      using spacious_less [OF a(6), of k] a(7) im' assms(2) fresh_storable by (auto simp: secure_def)
    then show ?thesis using im' a(5) s assms(2) by auto
  qed
qed

subsection \<open>Any history\<close>

text \<open>What happens to a store: a call of the running process, or its death and a new process.\<close>

datatype (plugins only: code) happening = Calls operation | Restarts

fun happens :: "happening \<Rightarrow> impl \<Rightarrow> impl" where
  "happens (Calls op) im = perform op im"
| "happens Restarts im = snd (fabric_open (new_impl (im_config im) (im_disk im)))"

fun typed_happening :: "happening \<Rightarrow> bool" where
  "typed_happening (Calls op) = well_typed op"
| "typed_happening Restarts = True"

lemma new_process: "\<not> im_opened (new_impl config d)" "im_config (new_impl config d) = config" "im_disk (new_impl config d) = d"
  by (simp_all add: new_impl_def)

lemma happens_secure: "secure (Suc (Suc k)) im \<Longrightarrow> typed_happening h \<Longrightarrow> secure k (happens h im)"
proof (cases h)
  case Restarts
  assume s: "secure (Suc (Suc k)) im"
  from restart_secure [OF s, of "new_impl (im_config im) (im_disk im)"] Restarts show ?thesis
    by (auto simp: new_process intro: secure_less)
qed (simp add: perform_secure)

lemma perform_config: "secure (Suc (Suc k)) im \<Longrightarrow> im_config (happens h im) = im_config im"
proof (cases h)
  case (Calls op)
  assume "secure (Suc (Suc k)) im"
  then have "well_named (im_state im)"
    using storable_service(1) [OF secure_storable] storable_target [OF secure_storable] by (auto simp: well_named_def)
  from perform_evolves [OF this, of op] Calls show ?thesis by (simp add: evolves_def)
next
  case Restarts
  assume s: "secure (Suc (Suc k)) im"
  from restart_secure [OF s, of "new_impl (im_config im) (im_disk im)"] Restarts show ?thesis
    by (auto simp: new_process)
qed

lemma history_secure:
  "secure (Suc (2 * length hs)) im \<Longrightarrow> \<forall>h \<in> set hs. typed_happening h \<Longrightarrow>
   secure 1 (fold happens hs im) \<and> im_config (fold happens hs im) = im_config im"
proof (induction hs arbitrary: im)
  case (Cons h hs)
  then have "secure (Suc (Suc (Suc (2 * length hs)))) im" by simp
  from Cons.IH [OF happens_secure [OF this]] perform_config [OF this, of h] Cons.prems(2)
  show ?case by simp
qed simp

text \<open>C3: For a process on a healthy disk with room in its journal, after any sequence of public calls with well-typed arguments, accepted or refused, in any order and with a restart at any point between them, a new process opens the disk, and the state it recovers agrees with the one that was in memory: the fences, the witnesses and the authority of every service, the targets, the sources, the policy, the topology, the capability evidence and the dependency observations are the same, and all failure evidence that was retained is there.\<close>

theorem histories_survive_restart:
  assumes "secure (Suc (2 * length hs)) im" "\<forall>h \<in> set hs. typed_happening h" "im' = fold happens hs im"
  shows "\<exists>im1. fabric_open (new_impl (im_config im) (im_disk im')) = (R_Ok, im1) \<and> im_opened im1 \<and>
    recalls (im_state im1) (im_state im')"
  using history_secure [OF assms(1,2)] restart_secure [of 0 im' "new_impl (im_config im) (im_disk im')"]
  by (auto simp: new_process assms(3))

text \<open>A first start on an empty directory, an enrolment and a restart.\<close>

lemma stored_space: "spacious 7 stored_config []"
  by (simp add: spacious_def kMaxReplayRecords_def stored_config_def default_fabric_config_def push_bit_eq_mult)

lemma stored_modest: "modest stored_config" "valid_policy (st_policy (fresh_state stored_config))"
  by (simp_all add: modest_def stored_config_def default_fabric_config_def fresh_state_def Let_def valid_policy_def
      default_policy_descriptor_def)

lemma started_secure:
  "\<exists>im. fabric_open (new_impl stored_config small_disk) = (R_Ok, im) \<and> im_opened im \<and> im_config im = stored_config \<and>
    im_state im = fresh_state stored_config \<and> secure 7 im"
proof -
  let ?im0 = "demo\<lparr>im_config := stored_config, im_store := Some empty_store, im_disk := small_disk\<rparr>"
  have "journalled ?im0 [] []"
    using empty_sound by (simp add: journalled_def small_sound(2)) (simp add: empty_store_def default_store_def stored_config_def)
  from reopened_fresh [OF this, of "new_impl stored_config small_disk"]
  obtain im where im: "fabric_open (new_impl stored_config small_disk) = (R_Ok, im)" "im_opened im"
      "im_state im = fresh_state stored_config" "journalled im [] []" "im_config im = stored_config"
    by (auto simp: new_process stored_modest)
  have "remembered im [] []"
    using im fresh_storable stored_modest recalls_refl by (simp add: remembered_def recovered_state_def load_state_def)
  then have "secure 7 im" using im stored_modest stored_space fresh_storable by (auto simp: secure_def)
  with im show ?thesis by blast
qed

lemma enrolled:
  assumes "secure (Suc k) im" "im_opened im" "canonical_name source" "\<not> name_empty source" "role_of im source = None"
    and "omap_size (st_sources (im_state im)) < cf_max_sources (im_config im)" "peek_tick im = Some stamp"
  shows "st_sources (im_state (perform (Enroll source role) im)) = omap_put source role (st_sources (im_state im))"
proof -
  let ?r = "make_record SourceRegistered (seq [encode_name source, put_enum kSourceRoles role])"
  let ?f = "\<lambda>s. bump sa_sources_enrolled_update (s\<lparr>st_tick := stamp, st_sources := omap_put source role (st_sources s)\<rparr>)"
  obtain snap ts where j: "journalled im snap ts" "spacious (Suc k) (im_config im) ts"
    using assms(1) by (auto simp: secure_def remembered_def)
  have "within (68 + (1 + 0)) (seq [encode_name source, put_enum kSourceRoles role])"
    unfolding put_enum_def by (intro within_Cons within_name [OF assms(3)] within_words within_Nil)
  from within_payload [OF this, of SourceRegistered] have "plain 0x100000 ?r" by (simp add: plain_def make_record_kind)
  from persist_journalled [OF j this] obtain im1 where p: "persist [?r] im = (R_Ok, im1)" "core (im_state im1) = core (im_state im)"
    by auto
  have rotated: "rotate_if_due (in_state ?f im1) = (R_Ok, in_state ?f im1)"
    by (rule persisted_secure(1) [OF p(1) assms(1) told_source [OF assms(3)]])
  have "snd (do_enroll_source source role e im) = in_state ?f im1" for e
    using assms p(1) rotated by (simp add: do_enroll_source_def durably_def answer_def)
  then show ?thesis
    using p(2) by (simp add: enroll_source_def ingest_def finish_ingest_explanation_def record_explanation_def Let_def split_beta
        core_eq_iff bump_def)
qed

definition demo_history :: "happening list" where
  "demo_history = [Calls (Enroll (Name ''operator'') SourceRole_Operator), Restarts]"

theorem histories_survive_restart_witness:
  "\<exists>im im1. fabric_open (new_impl stored_config small_disk) = (R_Ok, im) \<and>
    fabric_open (new_impl stored_config (im_disk (fold happens demo_history im))) = (R_Ok, im1) \<and>
    omap_find (st_sources (im_state im1)) (Name ''operator'') = Some SourceRole_Operator"
proof -
  obtain im where im: "fabric_open (new_impl stored_config small_disk) = (R_Ok, im)" "im_opened im" "im_config im = stored_config"
      "im_state im = fresh_state stored_config" "secure 7 im"
    using started_secure by blast
  have name: "canonical_name (Name ''operator'' :: source_name)" "\<not> name_empty (Name ''operator'' :: source_name)" by code_simp+
  let ?im1 = "perform (Enroll (Name ''operator'') SourceRole_Operator) im"
  have "peek_tick im = Some (Tick 1)" by (simp add: peek_tick_def im(4) fresh_state_def default_state_def Let_def) code_simp
  moreover have "st_sources (im_state im) = omap_empty" "role_of im (Name ''operator'') = None"
    by (simp_all add: role_of_def im(4) fresh_state_def default_state_def Let_def)
  moreover have "omap_size (omap_empty :: (source_name, source_role) omap) < cf_max_sources (im_config im)"
    by (simp add: im(3) stored_config_def default_fabric_config_def)
  ultimately have sources: "omap_find (st_sources (im_state ?im1)) (Name ''operator'') = Some SourceRole_Operator"
    using enrolled [of 6 im "Name ''operator''" "Tick 1" SourceRole_Operator] im(2,5) name by (simp add: omap_find_put del: perform.simps)
  have s: "secure 5 ?im1" by (rule perform_secure) (use im(5) name in \<open>simp_all add: numeral_eq_Suc\<close>)
  let ?new = "new_impl (im_config ?im1) (im_disk ?im1)"
  from restart_secure [of 4 ?im1 ?new] s obtain im2 where "fabric_open ?new = (R_Ok, im2)" "recalls (im_state im2) (im_state ?im1)"
    by (auto simp: new_process)
  then have later: "omap_find (st_sources (im_state (fold happens demo_history im))) (Name ''operator'') = Some SourceRole_Operator"
    using sources by (simp add: demo_history_def recalls_def)
  have "secure (Suc (2 * length demo_history)) im" by (rule secure_less [OF im(5)]) (simp add: demo_history_def)
  moreover have "\<forall>h \<in> set demo_history. typed_happening h" using name(1) by (simp add: demo_history_def)
  ultimately obtain im1 where "fabric_open (new_impl (im_config im) (im_disk (fold happens demo_history im))) = (R_Ok, im1)"
      "recalls (im_state im1) (im_state (fold happens demo_history im))"
    using histories_survive_restart [OF _ _ refl] by blast
  then show ?thesis using im(1,3) later by (auto simp: recalls_def)
qed

end
