(* ===== verification/Sockets.thy ===== *)
theory Sockets
  imports Daemon "HOL-Library.Multiset"
begin

text \<open>
  The handles under the transport of protocol.cpp: listening, connecting and accepting over what the
  operating system answers, and the \<^verbatim>\<open>Socket\<close> objects that own the handles. Every open handle belongs to
  exactly one object, on every path of every call, so that none leaks and none is closed twice; the one
  exception is the handle 0, which the code takes for a closed one.
\<close>

subsection \<open>The operating system\<close>

text \<open>The two families of systems that the source is written for.\<close>

datatype platform = Windows | Posix

type_synonym handle = u64

definition kInvalidSocketHandle :: handle where
  "kInvalidSocketHandle = - 1"

definition handle_valid :: "handle \<Rightarrow> bool" where
  "handle_valid raw = (raw \<noteq> kInvalidSocketHandle \<and> raw \<noteq> 0)"

text \<open>The open handles, the error of the last call that failed, what the next calls that make a handle
  return (an error or the handle) and how the other calls end (with an error or a number). A script that hands
  out a handle that is open or invalid is read as a refusal.\<close>

record system =
  sy_open :: "handle list"
  sy_error :: int
  sy_handles :: "(int + handle) list"
  sy_calls :: "(int + u64) list"

definition sys_make :: "system \<Rightarrow> handle \<times> system" where
  "sys_make sy =
    (case sy_handles sy of
       [] \<Rightarrow> (kInvalidSocketHandle, sy)
     | Inl code # script \<Rightarrow> (kInvalidSocketHandle, sy\<lparr>sy_handles := script, sy_error := code\<rparr>)
     | Inr h # script \<Rightarrow>
         if h = kInvalidSocketHandle \<or> h \<in> set (sy_open sy) then (kInvalidSocketHandle, sy\<lparr>sy_handles := script\<rparr>)
         else (h, sy\<lparr>sy_handles := script, sy_open := h # sy_open sy\<rparr>))"

definition sys_call :: "system \<Rightarrow> u64 option \<times> system" where
  "sys_call sy =
    (case sy_calls sy of
       [] \<Rightarrow> (Some 0, sy)
     | Inl code # script \<Rightarrow> (None, sy\<lparr>sy_calls := script, sy_error := code\<rparr>)
     | Inr n # script \<Rightarrow> (Some n, sy\<lparr>sy_calls := script\<rparr>))"

definition sys_close :: "handle \<Rightarrow> system \<Rightarrow> system" where
  "sys_close h sy = sy\<lparr>sy_open := removeAll h (sy_open sy)\<rparr>"

text \<open>Name resolution: the host (none is any address of this machine), the port as text, and whether the
  address is to listen on; the answer is the addresses, or a failure.\<close>

type_synonym resolver = "string option \<Rightarrow> string \<Rightarrow> bool \<Rightarrow> string list option"

subsection \<open>Listening, connecting, accepting\<close>

text \<open>The option \<^verbatim>\<open>SO_REUSEADDR\<close> may fail; an address that cannot be bound or listened on is given back.\<close>

fun listen_loop :: "string list \<Rightarrow> system \<Rightarrow> handle \<times> system" where
  "listen_loop [] sy = (kInvalidSocketHandle, sy)"
| "listen_loop (a # rest) sy =
    (case sys_make sy of (h, sy1) \<Rightarrow>
     if h = kInvalidSocketHandle then listen_loop rest sy1
     else case sys_call sy1 of (_, sy2) \<Rightarrow>
     (case sys_call sy2 of
        (None, sy3) \<Rightarrow> listen_loop rest (sys_close h sy3)
      | (Some _, sy3) \<Rightarrow>
        (case sys_call sy3 of
           (None, sy4) \<Rightarrow> listen_loop rest (sys_close h sy4)
         | (Some _, sy4) \<Rightarrow> (h, sy4))))"

text \<open>The socket and the port that was bound, or the text of the error.\<close>

definition listen_on :: "resolver \<Rightarrow> string \<Rightarrow> u16 \<Rightarrow> system \<Rightarrow> (string + handle \<times> u16) \<times> system" where
  "listen_on resolve host port sy =
    (case resolve (if host = [] then None else Some host) (to_decimal (ucast port)) True of
       None \<Rightarrow> (Inl ''getaddrinfo failed'', sy)
     | Some addresses \<Rightarrow>
       (case listen_loop addresses sy of (h, sy1) \<Rightarrow>
        if h = kInvalidSocketHandle then
          (Inl (''bind or listen failed: '' @ to_decimal (word_of_int (sy_error sy1))), sy1)
        else (case sys_call sy1 of
                (None, sy2) \<Rightarrow> (Inl ''getsockname failed'', sys_close h sy2)
              | (Some bound, sy2) \<Rightarrow> (Inr (h, ucast bound), sy2))))"

fun connect_loop :: "string list \<Rightarrow> system \<Rightarrow> handle \<times> system" where
  "connect_loop [] sy = (kInvalidSocketHandle, sy)"
| "connect_loop (a # rest) sy =
    (case sys_make sy of (h, sy1) \<Rightarrow>
     if h = kInvalidSocketHandle then connect_loop rest sy1
     else case sys_call sy1 of
       (None, sy2) \<Rightarrow> connect_loop rest (sys_close h sy2)
     | (Some _, sy2) \<Rightarrow> (h, sy2))"

definition connect_to :: "resolver \<Rightarrow> string \<Rightarrow> u16 \<Rightarrow> system \<Rightarrow> (string + handle) \<times> system" where
  "connect_to resolve host port sy =
    (case resolve (Some host) (to_decimal (ucast port)) False of
       None \<Rightarrow> (Inl ''getaddrinfo failed'', sy)
     | Some addresses \<Rightarrow>
       (case connect_loop addresses sy of (h, sy1) \<Rightarrow>
        if h = kInvalidSocketHandle then
          (Inl (''connect failed: '' @ to_decimal (word_of_int (sy_error sy1))), sy1)
        else (Inr h, sy1)))"

text \<open>The error codes of Winsock, and those of Linux for the POSIX branch.\<close>

definition transient :: "platform \<Rightarrow> int \<Rightarrow> bool" where
  "transient p code = (case p of Windows \<Rightarrow> code = 10004 \<or> code = 10054 | Posix \<Rightarrow> code = 4 \<or> code = 103)"

definition listener_gone :: "platform \<Rightarrow> int \<Rightarrow> bool" where
  "listener_gone p code =
    (case p of Windows \<Rightarrow> code = 10022 \<or> code = 10038 \<or> code = 10045 | Posix \<Rightarrow> code = 22 \<or> code = 9)"

lemma sys_make_progress: "(h, sy1) = sys_make sy \<Longrightarrow> sy_handles sy \<noteq> [] \<Longrightarrow> length (sy_handles sy1) < length (sy_handles sy)"
  by (auto simp: sys_make_def split: list.splits sum.splits if_splits)

text \<open>\<open>None\<close> while no connection arrives: the call blocks.\<close>

function accept_loop :: "platform \<Rightarrow> system \<Rightarrow> (string + handle) option \<times> system" where
  "accept_loop p sy =
    (if sy_handles sy = [] then (None, sy)
     else case sys_make sy of (h, sy1) \<Rightarrow>
     if h = kInvalidSocketHandle then
       let code = sy_error sy1 in
       if transient p code then accept_loop p sy1
       else if listener_gone p code then (Some (Inl ''listening socket was closed''), sy1)
       else (Some (Inl (''accept failed: '' @ to_decimal (word_of_int code))), sy1)
     else (Some (Inr h), sy1))"
  by pat_completeness auto

termination
  by (relation "measure (\<lambda>(p, sy). length (sy_handles sy))") (auto dest: sys_make_progress)

declare accept_loop.simps [simp del]

definition accept_on :: "platform \<Rightarrow> handle \<Rightarrow> system \<Rightarrow> (string + handle) option \<times> system" where
  "accept_on p listener sy =
    (if \<not> handle_valid listener then (Some (Inl ''socket is closed''), sy) else accept_loop p sy)"

subsection \<open>The socket objects of a process\<close>

text \<open>A \<^verbatim>\<open>Socket\<close> is its handle; 0 is a socket that owns none. The moves are the only way to hand a handle on.\<close>

record sockets =
  sx_system :: system
  sx_objects :: "handle list"

definition with_system :: "system \<Rightarrow> sockets \<Rightarrow> sockets" where
  "with_system sy sx = sx\<lparr>sx_system := sy\<rparr>"

text \<open>\<^verbatim>\<open>Socket::close\<close>, which \<^verbatim>\<open>interrupt\<close> and the destructor call.\<close>

definition close_object :: "nat \<Rightarrow> sockets \<Rightarrow> sockets" where
  "close_object i sx =
    (if i < length (sx_objects sx) \<and> handle_valid (sx_objects sx ! i)
     then sx\<lparr>sx_system := sys_close (sx_objects sx ! i) (sx_system sx), sx_objects := (sx_objects sx)[i := 0]\<rparr>
     else sx)"

definition move_construct :: "nat \<Rightarrow> sockets \<Rightarrow> sockets" where
  "move_construct i sx =
    (if i < length (sx_objects sx) then sx\<lparr>sx_objects := (sx_objects sx)[i := 0] @ [sx_objects sx ! i]\<rparr> else sx)"

definition move_assign :: "nat \<Rightarrow> nat \<Rightarrow> sockets \<Rightarrow> sockets" where
  "move_assign i j sx =
    (if i < length (sx_objects sx) \<and> j < length (sx_objects sx) \<and> i \<noteq> j then
       let sx1 = close_object i sx in
       sx1\<lparr>sx_objects := (sx_objects sx1)[i := sx_objects sx1 ! j, j := 0]\<rparr>
     else sx)"

definition shutdown_object :: "nat \<Rightarrow> sockets \<Rightarrow> sockets" where
  "shutdown_object i sx =
    (if i < length (sx_objects sx) \<and> handle_valid (sx_objects sx ! i)
     then with_system (snd (sys_call (sx_system sx))) sx else sx)"

text \<open>A result of a call that makes a socket is a new object.\<close>

definition adopt :: "'e + handle \<Rightarrow> system \<Rightarrow> sockets \<Rightarrow> sockets" where
  "adopt r sy sx = (case r of Inl _ \<Rightarrow> with_system sy sx | Inr h \<Rightarrow> \<lparr>sx_system = sy, sx_objects = sx_objects sx @ [h]\<rparr>)"

datatype socket_call =
  Listens string u16
| Connects string u16
| Accepts_On nat
| Closes nat
| Moves nat
| Assigns nat nat
| Shuts_Down nat

definition socket_step :: "platform \<Rightarrow> resolver \<Rightarrow> socket_call \<Rightarrow> sockets \<Rightarrow> sockets" where
  "socket_step p resolve c sx =
    (case c of
       Listens host port \<Rightarrow>
         (case listen_on resolve host port (sx_system sx) of (r, sy) \<Rightarrow> adopt (map_sum id fst r) sy sx)
     | Connects host port \<Rightarrow> (case connect_to resolve host port (sx_system sx) of (r, sy) \<Rightarrow> adopt r sy sx)
     | Accepts_On i \<Rightarrow>
         (if i < length (sx_objects sx) then
            (case accept_on p (sx_objects sx ! i) (sx_system sx) of
               (None, sy) \<Rightarrow> with_system sy sx
             | (Some r, sy) \<Rightarrow> adopt r sy sx)
          else sx)
     | Closes i \<Rightarrow> close_object i sx
     | Moves i \<Rightarrow> move_construct i sx
     | Assigns i j \<Rightarrow> move_assign i j sx
     | Shuts_Down i \<Rightarrow> shutdown_object i sx)"

definition socket_run :: "platform \<Rightarrow> resolver \<Rightarrow> socket_call list \<Rightarrow> sockets \<Rightarrow> sockets" where
  "socket_run p resolve cs sx = fold (socket_step p resolve) cs sx"

text \<open>The end of the process: every object is destroyed.\<close>

definition destroy_all :: "sockets \<Rightarrow> sockets" where
  "destroy_all sx = fold close_object [0..<length (sx_objects sx)] sx"

text \<open>The start of the daemon with its listener, and the line that tells the port on the standard output.\<close>

definition daemon_listen ::
    "resolver \<Rightarrow> string list \<Rightarrow> disk \<Rightarrow> system \<Rightarrow> (nat + daemon \<times> handle \<times> string list) \<times> system" where
  "daemon_listen resolve arguments d sy =
    (case daemon_start arguments d True of
       Inl code \<Rightarrow> (Inl code, sy)
     | Inr dn \<Rightarrow>
       let o' = dn_options dn in
       (case listen_on resolve (dp_host o') (of_nat (dp_port o')) sy of
          (Inl _, sy') \<Rightarrow> (Inl 4, sy')
        | (Inr (h, port), sy') \<Rightarrow>
          (Inr (dn, h, if dp_announce_ready o' then [''READY '' @ dp_host o' @ '':'' @ to_decimal (ucast port)] else []), sy')))"


subsection \<open>Who owns a handle\<close>

text \<open>What a call may do to the open handles: nothing, or open the one that it returns.\<close>

definition gains :: "system \<Rightarrow> handle option \<Rightarrow> system \<Rightarrow> bool" where
  "gains sy r sy' \<longleftrightarrow> set (sy_handles sy') \<subseteq> set (sy_handles sy) \<and>
    (case r of
       None \<Rightarrow> sy_open sy' = sy_open sy
     | Some h \<Rightarrow> h \<noteq> kInvalidSocketHandle \<and> h \<notin> set (sy_open sy) \<and> sy_open sy' = h # sy_open sy \<and> Inr h \<in> set (sy_handles sy))"

definition returned :: "handle \<Rightarrow> handle option" where
  "returned h = (if h = kInvalidSocketHandle then None else Some h)"

definition right_of :: "'a + 'b \<Rightarrow> 'b option" where
  "right_of x = (case x of Inl _ \<Rightarrow> None | Inr y \<Rightarrow> Some y)"

lemma right_of_simps [simp]: "right_of (Inl a) = None" "right_of (Inr b) = Some b"
  by (simp_all add: right_of_def)

lemma returned_invalid [simp]: "returned kInvalidSocketHandle = None"
  by (simp add: returned_def)

lemma gains_refl: "gains sy None sy"
  by (simp add: gains_def)

lemma gains_trans: "gains sy None sy1 \<Longrightarrow> gains sy1 r sy2 \<Longrightarrow> gains sy r sy2"
  by (auto simp: gains_def split: option.splits)

lemma sys_call_keeps: "sys_call sy = (r, sy') \<Longrightarrow> sy_open sy' = sy_open sy \<and> sy_handles sy' = sy_handles sy"
  by (auto simp: sys_call_def split: list.splits sum.splits)

lemma gains_call: "gains sy r sy1 \<Longrightarrow> sys_call sy1 = (a, sy2) \<Longrightarrow> gains sy r sy2"
  using sys_call_keeps [of sy1 a sy2] by (simp add: gains_def split: option.splits)

lemma gains_close: "gains sy (Some h) sy1 \<Longrightarrow> gains sy None (sys_close h sy1)"
  by (simp add: gains_def sys_close_def)

lemma gains_make: "sys_make sy = (h, sy1) \<Longrightarrow> gains sy (returned h) sy1"
  by (auto simp: sys_make_def gains_def returned_def split: list.splits sum.splits if_splits)

lemma gains_listen_loop: "listen_loop xs sy = (h, sy') \<Longrightarrow> gains sy (returned h) sy'"
proof (induction xs arbitrary: sy)
  case (Cons x xs)
  obtain h1 sy1 where make: "sys_make sy = (h1, sy1)" by fastforce
  note first = gains_make [OF make]
  show ?case
  proof (cases "h1 = kInvalidSocketHandle")
    case True
    with Cons make first show ?thesis by (auto intro: gains_trans)
  next
    case False
    then have got: "gains sy (Some h1) sy1" using first by (simp add: returned_def)
    obtain a sy2 b sy3 c sy4 where calls: "sys_call sy1 = (a, sy2)" "sys_call sy2 = (b, sy3)" "sys_call sy3 = (c, sy4)"
      by (metis surj_pair)
    note after = gains_call [OF gains_call [OF got calls(1)] calls(2)]
    note later = gains_call [OF after calls(3)]
    show ?thesis
      using Cons False make calls gains_trans [OF gains_close [OF after]] gains_trans [OF gains_close [OF later]] later
      by (auto simp: returned_def split: option.splits)
  qed
qed (auto simp: gains_refl)

lemma gains_connect_loop: "connect_loop xs sy = (h, sy') \<Longrightarrow> gains sy (returned h) sy'"
proof (induction xs arbitrary: sy)
  case (Cons x xs)
  obtain h1 sy1 a sy2 where calls: "sys_make sy = (h1, sy1)" "sys_call sy1 = (a, sy2)"
    by (metis surj_pair)
  note first = gains_make [OF calls(1)]
  show ?case
  proof (cases "h1 = kInvalidSocketHandle")
    case True
    with Cons calls first show ?thesis by (auto intro: gains_trans)
  next
    case False
    then have got: "gains sy (Some h1) sy2" using gains_call [OF _ calls(2)] first by (simp add: returned_def)
    then show ?thesis
      using Cons False calls gains_trans [OF gains_close [OF got]] by (auto simp: returned_def split: option.splits)
  qed
qed (auto simp: gains_refl)

lemma gains_listen_on: "listen_on resolve host port sy = (r, sy') \<Longrightarrow> gains sy (map_option fst (right_of r)) sy'"
  unfolding listen_on_def
  by (auto simp: gains_refl returned_def split: option.splits prod.splits if_splits dest!: gains_listen_loop
      intro: gains_call gains_close [OF gains_call])

lemma gains_connect_to: "connect_to resolve host port sy = (r, sy') \<Longrightarrow> gains sy (right_of r) sy'"
  unfolding connect_to_def
  by (auto simp: gains_refl returned_def split: option.splits prod.splits if_splits dest!: gains_connect_loop)

lemma gains_accept_loop: "accept_loop p sy = (r, sy') \<Longrightarrow> gains sy (Option.bind r right_of) sy'"
proof (induction p sy rule: accept_loop.induct)
  case (1 p sy)
  obtain h sy1 where make: "sys_make sy = (h, sy1)" by fastforce
  note first = gains_make [OF make]
  show ?case
  proof (cases "sy_handles sy \<noteq> [] \<and> h = kInvalidSocketHandle \<and> transient p (sy_error sy1)")
    case True
    then have "accept_loop p sy = accept_loop p sy1" using make by (subst accept_loop.simps) simp
    with 1(1) [OF _ make [symmetric]] 1(2) True first show ?thesis by (auto intro: gains_trans)
  next
    case False
    with 1(2) make first show ?thesis
      by (subst (asm) accept_loop.simps) (auto simp: gains_refl returned_def Let_def split: if_splits)
  qed
qed

lemma gains_accept_on: "accept_on p listener sy = (r, sy') \<Longrightarrow> gains sy (Option.bind r right_of) sy'"
  by (auto simp: accept_on_def gains_refl split: if_splits dest: gains_accept_loop)

text \<open>Every open handle that the process did not hold before has one owner, and every owner's handle is
  open. Among the handles held from the start is the standard input, which no socket owns.\<close>

definition owned :: "handle list \<Rightarrow> sockets \<Rightarrow> bool" where
  "owned held sx \<longleftrightarrow> distinct (sy_open (sx_system sx)) \<and> 0 \<in> set held \<and>
    mset (sy_open (sx_system sx)) = mset (filter handle_valid (sx_objects sx)) + mset held"

lemma not_valid_zero [simp]: "\<not> handle_valid 0"
  by (simp add: handle_valid_def)

lemma owned_open: "owned held sx \<Longrightarrow> set (sy_open (sx_system sx)) = set (filter handle_valid (sx_objects sx)) \<union> set held"
  unfolding owned_def by (metis set_mset_mset set_mset_union)

lemma owned_adopt: "owned held sx \<Longrightarrow> gains (sx_system sx) (right_of r) sy \<Longrightarrow> owned held (adopt r sy sx)"
  using owned_open [of held sx]
  by (auto simp: owned_def gains_def adopt_def with_system_def handle_valid_def split: sum.splits)

lemma valid_update:
  "i < length xs \<Longrightarrow> mset (filter handle_valid (xs[i := v])) =
    (if handle_valid v then {#v#} else {#}) + (mset (filter handle_valid xs) - (if handle_valid (xs ! i) then {#xs ! i#} else {#}))"
  by (simp add: mset_filter mset_update filter_diff_mset)

lemma valid_member: "i < length xs \<Longrightarrow> handle_valid (xs ! i) \<Longrightarrow> xs ! i \<in># mset (filter handle_valid xs)"
  by simp

lemma close_object_simps [simp]:
  "length (sx_objects (close_object i sx)) = length (sx_objects sx)"
  "j < length (sx_objects sx) \<Longrightarrow> j \<noteq> i \<Longrightarrow> sx_objects (close_object i sx) ! j = sx_objects sx ! j"
  "i < length (sx_objects sx) \<Longrightarrow> \<not> handle_valid (sx_objects (close_object i sx) ! i)"
  by (simp_all add: close_object_def)

lemma owned_close: "owned held sx \<Longrightarrow> owned held (close_object i sx)"
proof -
  assume o: "owned held sx"
  show ?thesis
  proof (cases "i < length (sx_objects sx) \<and> handle_valid (sx_objects sx ! i)")
    case True
    have "removeAll (sx_objects sx ! i) (sy_open (sx_system sx)) = remove1 (sx_objects sx ! i) (sy_open (sx_system sx))"
      using o by (simp add: owned_def distinct_remove1_removeAll)
    moreover have "distinct (remove1 (sx_objects sx ! i) (sy_open (sx_system sx)))" using o by (simp add: owned_def)
    ultimately show ?thesis using o True valid_member [of i "sx_objects sx"]
      by (simp add: owned_def close_object_def sys_close_def valid_update del: mset_filter)
  next
    case False
    with o show ?thesis by (simp only: close_object_def if_False)
  qed
qed

lemma owned_move_construct: "owned held sx \<Longrightarrow> owned held (move_construct i sx)"
proof (cases "i < length (sx_objects sx)")
  case True
  then have "mset (filter handle_valid ((sx_objects sx)[i := 0] @ [sx_objects sx ! i])) = mset (filter handle_valid (sx_objects sx))"
    using valid_member [OF True] by (simp add: valid_update del: mset_filter)
  then show "owned held sx \<Longrightarrow> owned held (move_construct i sx)"
    using True by (simp add: owned_def move_construct_def del: mset_filter mset_append filter_append)
qed (simp add: move_construct_def)

lemma moved_objects:
  assumes "i < length xs" "j < length xs" "i \<noteq> j" "\<not> handle_valid (xs ! i)"
  shows "mset (filter handle_valid (xs[i := xs ! j, j := 0])) = mset (filter handle_valid xs)"
  using assms valid_member [of j xs] by (simp add: valid_update del: mset_filter)

lemma owned_move_assign: "owned held sx \<Longrightarrow> owned held (move_assign i j sx)"
  using owned_close [of held sx i] moved_objects [of i "sx_objects (close_object i sx)" j]
  by (simp add: owned_def move_assign_def Let_def del: mset_filter)

lemma owned_shutdown: "owned held sx \<Longrightarrow> owned held (shutdown_object i sx)"
  using sys_call_keeps [OF surjective_pairing, of "sx_system sx"] by (simp add: owned_def shutdown_object_def with_system_def)

lemma owned_step: "owned held sx \<Longrightarrow> owned held (socket_step p resolve c sx)"
proof (cases c)
  case (Listens host port)
  obtain r sy where l: "listen_on resolve host port (sx_system sx) = (r, sy)" by fastforce
  have "right_of (map_sum id fst r) = map_option fst (right_of r)" by (cases r) simp_all
  then show "owned held sx \<Longrightarrow> ?thesis"
    using Listens l gains_listen_on [OF l] by (simp add: socket_step_def owned_adopt)
next
  case (Connects host port)
  obtain r sy where l: "connect_to resolve host port (sx_system sx) = (r, sy)" by fastforce
  then show "owned held sx \<Longrightarrow> ?thesis"
    using Connects gains_connect_to [OF l] by (simp add: socket_step_def owned_adopt)
next
  case (Accepts_On i)
  obtain r sy where l: "accept_on p (sx_objects sx ! i) (sx_system sx) = (r, sy)" by fastforce
  note g = gains_accept_on [OF l]
  have blocked: "with_system sy sx = adopt (Inl ()) sy sx" by (simp add: adopt_def)
  show "owned held sx \<Longrightarrow> ?thesis"
    using Accepts_On l g owned_adopt [of held sx "Inl ()" sy] by (cases r) (simp_all add: socket_step_def owned_adopt blocked)
qed (simp_all add: socket_step_def owned_close owned_move_construct owned_move_assign owned_shutdown)

lemma owned_run: "owned held sx \<Longrightarrow> owned held (socket_run p resolve cs sx)"
  unfolding socket_run_def by (induction cs arbitrary: sx) (simp_all add: owned_step)

lemma owned_closing: "owned held sx \<Longrightarrow> owned held (fold close_object is sx)"
  by (induction "is" arbitrary: sx) (simp_all add: owned_close)

lemma closed_stays: "length (sx_objects (fold close_object is sx)) = length (sx_objects sx) \<and>
    (j < length (sx_objects sx) \<longrightarrow> \<not> handle_valid (sx_objects sx ! j) \<longrightarrow> \<not> handle_valid (sx_objects (fold close_object is sx) ! j)) \<and>
    (j < length (sx_objects sx) \<longrightarrow> j \<in> set is \<longrightarrow> \<not> handle_valid (sx_objects (fold close_object is sx) ! j))"
proof (induction "is" arbitrary: sx)
  case (Cons i "is")
  have "j < length (sx_objects sx) \<Longrightarrow> \<not> handle_valid (sx_objects sx ! j) \<or> j = i \<Longrightarrow> \<not> handle_valid (sx_objects (close_object i sx) ! j)"
    by (cases "j = i") simp_all
  with Cons [of "close_object i sx"] show ?case by auto
qed simp

lemma destroyed_objects: "filter handle_valid (sx_objects (destroy_all sx)) = []"
  using closed_stays [of "[0..<length (sx_objects sx)]" sx]
  by (auto simp: destroy_all_def filter_empty_conv in_set_conv_nth)

subsection \<open>Properties\<close>

text \<open>C31: Whatever sockets a process opens, accepts, moves, shuts down and closes in any order, and whatever the operating system answers, every handle it has beyond those it held before belongs to exactly one socket object; when the objects are destroyed, exactly the handles it held before are open. (The standard input is among them.)\<close>

theorem sockets_own_handles:
  assumes "distinct held" "0 \<in> set held" "sy_open sy = held"
    and "sx = socket_run p resolve cs \<lparr>sx_system = sy, sx_objects = []\<rparr>"
  shows "distinct (sy_open (sx_system sx)) \<and>
    mset (sy_open (sx_system sx)) = mset (filter handle_valid (sx_objects sx)) + mset held \<and>
    mset (sy_open (sx_system (destroy_all sx))) = mset held"
proof -
  have "owned held \<lparr>sx_system = sy, sx_objects = []\<rparr>" using assms by (simp add: owned_def)
  then have o: "owned held sx" unfolding assms(4) by (rule owned_run)
  from owned_closing [OF this, of "[0..<length (sx_objects sx)]"]
  have "owned held (destroy_all sx)" by (simp add: destroy_all_def)
  then have "mset (sy_open (sx_system (destroy_all sx))) = mset held"
    by (simp add: owned_def destroyed_objects del: mset_filter)
  with o show ?thesis by (simp add: owned_def del: mset_filter)
qed

text \<open>A listener whose first address is taken, two failed attempts to accept and one connection.\<close>

definition demo_system :: system where
  "demo_system = \<lparr>sy_open = [0], sy_error = 0, sy_handles = [Inr 3, Inr 4, Inl 4, Inl 103, Inr 5],
    sy_calls = [Inr 0, Inl 98, Inr 0, Inr 0, Inr 0, Inr 8080]\<rparr>"

definition demo_sockets :: sockets where
  "demo_sockets = socket_run Posix (\<lambda>host service listens. Some [''192.0.2.1'', ''192.0.2.2''])
    [Listens ''offd'' 0, Accepts_On 0, Closes 0] \<lparr>sx_system = demo_system, sx_objects = []\<rparr>"

lemma demo_listens:
  "listen_on (\<lambda>host service listens. Some [''192.0.2.1'', ''192.0.2.2'']) ''offd'' 0 demo_system =
    (Inr (4, 8080), demo_system\<lparr>sy_open := [4, 0], sy_error := 98, sy_handles := [Inl 4, Inl 103, Inr 5], sy_calls := []\<rparr>)"
  by (simp add: listen_on_def demo_system_def sys_make_def sys_call_def sys_close_def kInvalidSocketHandle_def)

lemma demo_accepts:
  "accept_on Posix 4 (demo_system\<lparr>sy_open := [4, 0], sy_error := 98, sy_handles := [Inl 4, Inl 103, Inr 5], sy_calls := []\<rparr>) =
    (Some (Inr 5), demo_system\<lparr>sy_open := [5, 4, 0], sy_error := 103, sy_handles := [], sy_calls := []\<rparr>)"
  by (simp add: accept_on_def handle_valid_def kInvalidSocketHandle_def accept_loop.simps demo_system_def sys_make_def transient_def)

lemma demo_sockets_result:
  "demo_sockets = \<lparr>sx_system = demo_system\<lparr>sy_open := [5, 0], sy_error := 103, sy_handles := [], sy_calls := []\<rparr>, sx_objects = [0, 5]\<rparr>"
  using demo_listens demo_accepts
  by (simp add: demo_sockets_def socket_run_def socket_step_def adopt_def close_object_def sys_close_def handle_valid_def
      kInvalidSocketHandle_def)

theorem sockets_own_handles_witness:
  "sy_open (sx_system demo_sockets) = [5, 0] \<and> mset (sy_open (sx_system (destroy_all demo_sockets))) = {#0#}"
  using sockets_own_handles [of "[0]" demo_system demo_sockets, OF _ _ _ demo_sockets_def]
  by (simp add: demo_sockets_result) (simp add: demo_system_def)

text \<open>Accepting passes over the transient errors and answers the first of the others.\<close>

lemma sys_make_same: "sys_make sy = (h, sy1) \<Longrightarrow> sy_handles sy = x # rest \<Longrightarrow> sy_handles sy1 = rest"
  by (auto simp: sys_make_def split: sum.splits if_splits)

text \<open>The wait for a connection passes over any number of interrupted or aborted attempts and then answers the first other outcome: the new handle, that the listener was closed, or the number of the error.\<close>

theorem accept_skips_transient:
  assumes "handle_valid listener" "\<forall>code \<in> set codes. transient p code" "sy_handles sy = map Inl codes @ r # rest"
    and "case r of Inl code \<Rightarrow> \<not> transient p code | Inr h \<Rightarrow> h \<noteq> kInvalidSocketHandle \<and> h \<notin> set (sy_open sy)"
  shows "fst (accept_on p listener sy) = Some (case r of
      Inl code \<Rightarrow> Inl (if listener_gone p code then ''listening socket was closed''
                       else ''accept failed: '' @ to_decimal (word_of_int code))
    | Inr h \<Rightarrow> Inr h)"
proof -
  have "fst (accept_loop p sy) = Some (case r of
      Inl code \<Rightarrow> Inl (if listener_gone p code then ''listening socket was closed''
                       else ''accept failed: '' @ to_decimal (word_of_int code))
    | Inr h \<Rightarrow> Inr h)"
    using assms(2-4)
  proof (induction codes arbitrary: sy)
    case Nil
    then show ?case
      by (cases r; subst accept_loop.simps) (simp_all add: sys_make_def)
  next
    case (Cons code codes)
    then have step: "sys_make sy = (kInvalidSocketHandle, sy\<lparr>sy_handles := map Inl codes @ r # rest, sy_error := code\<rparr>)"
      by (simp add: sys_make_def)
    with Cons(2-) Cons(1) [of "sy\<lparr>sy_handles := map Inl codes @ r # rest, sy_error := code\<rparr>"] show ?case
      by (subst accept_loop.simps) (cases r; simp)
  qed
  with assms(1) show ?thesis by (simp add: accept_on_def)
qed

theorem accept_skips_transient_witness:
  "fst (accept_on Posix 4 (demo_system\<lparr>sy_handles := [Inl 4, Inl 103, Inl 9]\<rparr>)) = Some (Inl ''listening socket was closed'')"
  using accept_skips_transient [of 4 "[4, 103]" Posix "demo_system\<lparr>sy_handles := [Inl 4, Inl 103, Inl 9]\<rparr>" "Inl 9" "[]"]
  by (simp add: handle_valid_def kInvalidSocketHandle_def transient_def listener_gone_def)

text \<open>The handle 0 is a valid answer of the operating system once the standard input is closed, and an object
  that owns it never gives it back.\<close>

lemma handle_zero_never_closed:
  assumes "sy_open sy = []" "sy_handles sy = Inr 0 # rest" "sy_calls sy = []"
  shows "sy_open (sx_system (destroy_all (socket_step p (\<lambda>_ _ _. Some [entry]) (Connects host port) \<lparr>sx_system = sy, sx_objects = []\<rparr>))) = [0]"
  using assms by (simp add: socket_step_def connect_to_def sys_make_def sys_call_def adopt_def destroy_all_def close_object_def
      kInvalidSocketHandle_def handle_valid_def)

text \<open>A daemon that starts to listen announces the port that was bound, and one that cannot exits with 4 and
  holds what it held before.\<close>

lemma daemon_listen_outcome:
  assumes "daemon_listen resolve arguments d sy = (r, sy')"
  shows "case r of
      Inl code \<Rightarrow> sy_open sy' = sy_open sy \<and> (daemon_start arguments d True = Inl code \<or> code = 4)
    | Inr (dn, h, announced) \<Rightarrow> daemon_start arguments d True = Inr dn \<and> sy_open sy' = h # sy_open sy \<and>
        (\<exists>port. announced = (if dp_announce_ready (dn_options dn)
          then [''READY '' @ dp_host (dn_options dn) @ '':'' @ to_decimal (ucast (port :: u16))] else []))"
  using assms
  by (auto simp: daemon_listen_def Let_def gains_def split: sum.splits prod.splits dest!: gains_listen_on)

end
