(* ===== verification/Spec2Isabelle.thy ===== *)
theory Spec2Isabelle
  imports Model_Json View Client_Properties Durable_Calls Sockets
begin

text \<open>
  \<^bold>\<open>The Offload Failover Fabric\<close>, modelled from src/.

  \<^bold>\<open>The program.\<close> The fabric decides where an offloaded service may run. Sources that were enrolled
  report targets, capabilities, dependencies and failures; a decision (placement, failover, resume,
  ambiguity resolution, failback) passes a chain of gates and, when it is accepted, commits one attempt:
  a new fence token with its holder, the next runtime of the service and an intent for the executor, made
  durable as one journal record before the state in memory changes. Executors acknowledge intents and report effects, and
  anybody may check a fence. A daemon (offd) offers the calls over a framed protocol on sockets, and a
  client (off) builds requests from command lines, for a runtime in its process or for a daemon.

  \<^bold>\<open>Theories and code\<close>, in the order of the imports:
  \<^item> Prelude: the integer types of strong.hpp as words, shared rules and facts.
  \<^item> Strong_Types (strong.hpp, strong.cpp, ids.hpp), Reasons (reason.hpp, reason.cpp), Digest (digest.hpp,
    digest.cpp), Ordered_Map (\<^verbatim>\<open>std::map\<close>).
  \<^item> Canonical (canonical.hpp, canonical.cpp, detail/codec_util.hpp: the bounded writer and reader) and
    Json (decimal and hexadecimal text, JSON values).
  \<^item> Domain_Model, Model_Codec, Model_Json (model.hpp, model.cpp): enumerations with their texts, sets as
    masks, records, their codecs and their JSON.
  \<^item> Store (store.hpp, store.cpp): frames, the scan of a journal, transactions, snapshots and
    generations, over a directory with a script of the outcomes of its input and output calls.
  \<^item> Fabric_State, State_Codec (fabric.hpp, explain.hpp, plan.hpp and the head of fabric.cpp): the state
    \<^verbatim>\<open>Impl::State\<close> as the record \<open>state\<close>, the whole \<^verbatim>\<open>Impl\<close> as the record \<open>impl\<close>, the intent
    queue, the explanation ring and the cancellation registry, and the codecs of snapshots and journal payloads.
  \<^item> Fabric_Core, Replay, Ingest, Qualify, Commit, Decisions, Lifecycle, View (fabric.cpp): the shared
    services, the effect of a journal record, the \<^verbatim>\<open>do_...\<close> handlers of registration and evidence, the gates,
    \<^verbatim>\<open>commit_recovery\<close>, the decisions, opening with recovery and restart, the fence check, the public calls and the views.
  \<^item> Protocol, Channel (protocol.hpp, protocol.cpp): frames, requests, responses, \<^verbatim>\<open>execute_request\<close>, and
    the frame channel over a socket, which is the segments still to arrive and a script of the outcomes of its writes.
    Sockets (the same files and the start of apps/offd_main.cpp): the handles, listening, connecting and accepting with the error codes
    of both platforms, and socket objects with their moves and destruction, over a script of the answers of the operating system.
  \<^item> Command_Line, Daemon (apps/offd_main.cpp), Client (apps/off_main.cpp): options and arguments, the accept queue,
    the service of a connection and the daemon as state machines, the commands, transmission and scripts.

  \<^bold>\<open>Conventions.\<close> A method that changes the runtime is a function from \<open>impl\<close> to its result and the
  next \<open>impl\<close>. Refusals are reason codes, values of sum or option types otherwise; every early return is a branch. A counter
  of fixed width is a word and wraps, saturates or is refused where the code does. The mutex of the runtime makes
  every public call one step, so that an execution is a sequence of calls (\<open>operation\<close>, \<open>perform_all\<close> in
  Operations). A pending I/O failure is the next entry of the script of the disk; a crash is a prefix of the appended bytes.

  \<^bold>\<open>Specifications and proofs.\<close>
  \<^item> Store_Durability and Store_Properties: a store refines a snapshot and a list of transactions
    (\<open>sound_store\<close>); a commit is all or nothing at every byte, a compaction at each of its crash points.
  \<^item> Steps is the abstract transition system (\<open>state_step\<close>, \<open>runtime_step\<close>); Evolution shows that every
    handler refines it, Operations that every sequence of calls does; the locales \<open>spec_invariant\<close> and
    \<open>spec_order\<close> carry an invariant or an order of the transitions over to the code. Authority, Invariants and
    Safety interpret them, and Guarantees states what follows: the agreement of fences and services, one holder
    for each token, the bounds of the registries, continuity, clocks.
  \<^item> Outcomes, Decision_Properties, Gate_Properties and Effect_Properties: what each answer says about the gates that
    were passed and about the state after it. Scenario is the small runtime of the witnesses.
  \<^item> Restart_Properties and Recovery_Durability: what a restart takes away and keeps, and that an attempt
    whose commit was accepted is there after any reopening.
    Record_Sizes and Known_Reasons bound what a journal record can hold; Durable_Records relates what the disk tells to
    what the memory holds (\<open>recalls\<close>), record by record, and Durable_Calls shows it for every history of calls and restarts.
    A history needs a healthy disk and room (\<open>secure\<close>): a record of the largest size for every call, without a rotation falling due.
  \<^item> Protocol_Properties and Channel_Properties: what is written is read back, however the stream is cut.
    Decoded_States: a snapshot that is accepted is a valid state, whatever its bytes.
  \<^item> Daemon_Properties: a daemon changes its runtime only by public calls, stays within its bounds, serves
    every connection to its end and finishes when it is stopped. Client_Properties: a command line reaches the operation
    it names, and a remote command has the effect and the output of a local one.

  \<^bold>\<open>Bounds and fuel.\<close> No definition takes fuel that could run out: every loop is structural or has a measure. The
  dependency traversal ends because each step takes one entry off the queue and a service is queued at most once; the segments of a
  socket are finite, so that the end of the list stands for the end of the stream or for an error; the work left
  in a stopped daemon (\<open>work_left\<close>) counts three steps for each byte that can still arrive and a
  constant for each connection.

  \<^bold>\<open>Not modelled.\<close> What a call of the operating system does inside is not modelled, only what it answers;
  \<^verbatim>\<open>SocketRuntime\<close> is such a call, and name resolution is a parameter. In the daemon and the
  client, whether the listener or a connection could be opened is an argument. Reading an existing regular
  file of the store is taken to succeed. The bodies of single calls are not interleaved, as the lock forbids it; the
  pop and the counter of \<^verbatim>\<open>take_intent\<close>, which use two locks, are one step, and so are the send of an answer and the beginning of a
  shutdown. The blocking of \<^verbatim>\<open>wait_for_intent\<close> is a result of its own. Usage texts and messages on the standard error,
  the adapters for hash maps, the benchmark, the tests and the examples are left out.
\<close>

end
